(* ===== verification/Prelude.thy ===== *)
theory Prelude
  imports Main "HOL-Library.AList"
begin

text \<open>
  Shared ground of the development.  The scripts under \<^verbatim>\<open>src/helpers\<close> and
  \<^verbatim>\<open>src/tasks\<close> are JavaScript at run time, so this theory fixes how the pieces of
  the JavaScript standard library they use are read in HOL: truthiness of strings,
  \<^verbatim>\<open>String.includes\<close>, decimal printing, plain objects with string keys (association
  lists in insertion order), \<^verbatim>\<open>findIndex\<close> and array indexing with
  \<^verbatim>\<open>undefined\<close> out of range.  It also declares the theorem collections of the
  development.
\<close>

named_theorems js_simps \<open>unfolding of the JavaScript library operations\<close>

section \<open>Strings\<close>

text \<open>A string or \<^verbatim>\<open>undefined\<close> is falsy when it is undefined or empty.\<close>

definition truthy :: "string option \<Rightarrow> bool" where
  "truthy s = (case s of None \<Rightarrow> False | Some t \<Rightarrow> t \<noteq> [])"

lemma truthy_simps [simp]: "\<not> truthy None" "truthy (Some t) \<longleftrightarrow> t \<noteq> []"
  by (simp_all add: truthy_def)

lemma truthyE: "truthy s \<Longrightarrow> (\<And>t. s = Some t \<Longrightarrow> t \<noteq> [] \<Longrightarrow> P) \<Longrightarrow> P"
  by (cases s) auto

fun str_includes :: "string \<Rightarrow> string \<Rightarrow> bool" where
  "str_includes [] sub = (sub = [])"
| "str_includes (c # s) sub = (take (length sub) (c # s) = sub \<or> str_includes s sub)"

lemma str_includes_iff: "str_includes s sub \<longleftrightarrow> (\<exists>xs ys. s = xs @ sub @ ys)"
proof (induction s)
  case Nil
  then show ?case by simp
next
  case (Cons c s)
  show ?case
  proof
    assume "str_includes (c # s) sub"
    then consider "take (length sub) (c # s) = sub" | "str_includes s sub" by auto
    then show "\<exists>xs ys. c # s = xs @ sub @ ys"
    proof cases
      case 1
      then have "c # s = [] @ sub @ drop (length sub) (c # s)"
        by (metis append_Nil append_take_drop_id)
      then show ?thesis by blast
    next
      case 2
      then obtain xs ys where "s = xs @ sub @ ys" using Cons.IH by auto
      then have "c # s = (c # xs) @ sub @ ys" by simp
      then show ?thesis by blast
    qed
  next
    assume "\<exists>xs ys. c # s = xs @ sub @ ys"
    then obtain xs ys where eq: "c # s = xs @ sub @ ys" by blast
    show "str_includes (c # s) sub"
    proof (cases xs)
      case Nil
      with eq have "take (length sub) (c # s) = sub" by simp
      then show ?thesis by simp
    next
      case (Cons x xs')
      with eq have "s = xs' @ sub @ ys" by simp
      with Cons.IH show ?thesis by auto
    qed
  qed
qed

text \<open>Decimal printing of a natural number, as \<^verbatim>\<open>toString\<close> and \<^verbatim>\<open>toFixed\<close> do.\<close>

definition digit_char :: "nat \<Rightarrow> char" where
  "digit_char d = (char_of (48 + d mod 10))"

fun dec :: "nat \<Rightarrow> string" where
  "dec n = (if n < 10 then [digit_char n] else dec (n div 10) @ [digit_char n])"

declare dec.simps [simp del]

lemma dec_nonempty [simp]: "dec n \<noteq> []"
  by (subst dec.simps) simp

text \<open>The number a decimal string stands for: reading back what was printed.\<close>

definition dec_value :: "string \<Rightarrow> nat" where
  "dec_value s = fold (\<lambda>c n. 10 * n + (of_char c - 48)) s 0"

definition is_digit :: "char \<Rightarrow> bool" where
  "is_digit c = (let n = of_char c :: nat in 48 \<le> n \<and> n \<le> 57)"

lemma of_char_digit_char [simp]: "of_char (digit_char d) = (48 + d mod 10 :: nat)"
  by (simp add: digit_char_def of_char_of [where 'a = nat])

lemma is_digit_digit_char [simp]: "is_digit (digit_char d)"
  by (simp add: is_digit_def)

lemma dec_value_dec [simp]: "dec_value (dec n) = n"
proof (induction n rule: dec.induct)
  case (1 n)
  then show ?case
    by (subst dec.simps) (auto simp: dec_value_def)
qed

lemma dec_digits [simp]: "list_all is_digit (dec n)"
proof (induction n rule: dec.induct)
  case (1 n)
  then show ?case
    by (subst dec.simps) auto
qed

text \<open>\<^verbatim>\<open>toUpperCase\<close> on the ASCII range, which holds every symbol of the markets.\<close>

definition char_upper :: "char \<Rightarrow> char" where
  "char_upper c = (let n = of_char c :: nat in if 97 \<le> n \<and> n \<le> 122 then char_of (n - 32) else c)"

definition js_upper :: "string \<Rightarrow> string" where
  "js_upper s = map char_upper s"

text \<open>\<^verbatim>\<open>toLocaleLowerCase\<close> on the ASCII range, used on hexadecimal addresses.\<close>

definition char_lower :: "char \<Rightarrow> char" where
  "char_lower c = (let n = of_char c :: nat in if 65 \<le> n \<and> n \<le> 90 then char_of (n + 32) else c)"

definition js_lower :: "string \<Rightarrow> string" where
  "js_lower s = map char_lower s"

lemma char_lower_idem [simp]: "char_lower (char_lower c) = char_lower c"
proof -
  have "char_lower c = c \<or> (\<exists>n. 97 \<le> n \<and> n < 256 \<and> char_lower c = char_of (n :: nat))"
    by (auto simp: char_lower_def Let_def intro!: exI [of _ "of_char c + 32 :: nat"])
  then show ?thesis by (auto simp: char_lower_def Let_def)
qed

lemma js_lower_idem [simp]: "js_lower (js_lower s) = js_lower s"
  by (simp add: js_lower_def)

lemma length_js_upper [simp]: "length (js_upper s) = length s"
  by (simp add: js_upper_def)

section \<open>Objects with string keys\<close>

text \<open>
  A plain object is an association list in the order \<^verbatim>\<open>Object.entries\<close> lists it:
  assigning an existing key keeps its position, a new key goes last, which is
  \<^const>\<open>AList.update\<close>.  The keys of the scripts are symbols and names, never array
  indices, so insertion order is the enumeration order.
\<close>

type_synonym 'a obj = "(string \<times> 'a) list"

abbreviation obj_get :: "'a obj \<Rightarrow> string \<Rightarrow> 'a option" where
  "obj_get \<equiv> map_of"

abbreviation obj_set :: "string \<Rightarrow> 'a \<Rightarrow> 'a obj \<Rightarrow> 'a obj" where
  "obj_set \<equiv> AList.update"

abbreviation obj_keys :: "'a obj \<Rightarrow> string list" where
  "obj_keys o1 \<equiv> map fst o1"

lemma obj_get_set: "obj_get (obj_set k v o1) k' = (if k' = k then Some v else obj_get o1 k')"
  by (simp add: update_conv')

lemma distinct_obj_set: "distinct (obj_keys o1) \<Longrightarrow> distinct (obj_keys (obj_set k v o1))"
  by (rule distinct_update)

text \<open>The spread \<^verbatim>\<open>{...a, ...b}\<close>.\<close>

definition obj_spread :: "'a obj \<Rightarrow> 'a obj \<Rightarrow> 'a obj" where
  "obj_spread a b = fold (\<lambda>(k, v). obj_set k v) b a"

section \<open>Arrays\<close>

fun findIndex :: "('a \<Rightarrow> bool) \<Rightarrow> 'a list \<Rightarrow> int" where
  "findIndex P [] = -1"
| "findIndex P (x # xs) = (if P x then 0 else let i = findIndex P xs in if i < 0 then -1 else i + 1)"

definition arr_at :: "'a list \<Rightarrow> int \<Rightarrow> 'a option" where
  "arr_at xs i = (if 0 \<le> i \<and> nat i < length xs then Some (xs ! nat i) else None)"

lemma findIndex_neg: "findIndex P xs < 0 \<longleftrightarrow> (\<forall>x \<in> set xs. \<not> P x)"
  by (induction xs) (auto simp: Let_def)

lemma findIndex_neg_one: "findIndex P xs < 0 \<Longrightarrow> findIndex P xs = -1"
  by (induction xs) (auto simp: Let_def split: if_splits)

lemma arr_at_neg [simp]: "arr_at xs (-1) = None"
  by (simp add: arr_at_def)

lemma arr_at_Cons_Suc: "0 \<le> i \<Longrightarrow> arr_at (x # xs) (i + 1) = arr_at xs i"
  by (auto simp: arr_at_def nat_add_distrib)

text \<open>
  The lookup idiom of the helpers: find the index of a symbol among the keys, then index
  the entries with it.  It is the association-list lookup, with the key kept.
\<close>

definition entry_by_key :: "'a obj \<Rightarrow> string \<Rightarrow> (string \<times> 'a) option" where
  "entry_by_key o1 k = arr_at o1 (findIndex (\<lambda>value. value = k) (obj_keys o1))"

lemma entry_by_key_map_of:
  "entry_by_key o1 k = map_option (\<lambda>v. (k, v)) (obj_get o1 k)"
proof (induction o1)
  case Nil
  then show ?case by (simp add: entry_by_key_def)
next
  case (Cons p o1)
  obtain a v where p: "p = (a, v)" by (cases p)
  show ?case
  proof (cases "a = k")
    case True
    with p show ?thesis by (simp add: entry_by_key_def arr_at_def)
  next
    case False
    let ?i = "findIndex (\<lambda>value. value = k) (obj_keys o1)"
    show ?thesis
    proof (cases "?i < 0")
      case True
      then have "entry_by_key (p # o1) k = None" using False p
        by (simp add: entry_by_key_def)
      moreover from True have "entry_by_key o1 k = None"
        using findIndex_neg_one [of "\<lambda>value. value = k" "obj_keys o1"]
        by (simp add: entry_by_key_def)
      ultimately show ?thesis using Cons.IH False p by simp
    next
      case nonneg: False
      then have "entry_by_key (p # o1) k = arr_at (p # o1) (?i + 1)" using False p
        by (simp add: entry_by_key_def Let_def)
      also have "\<dots> = entry_by_key o1 k"
        using nonneg by (simp add: arr_at_Cons_Suc entry_by_key_def)
      finally show ?thesis using Cons.IH False p by simp
    qed
  qed
qed

end
