(* ===== verification/Effects.thy ===== *)
theory Effects
  imports Prelude
begin

text \<open>
  The effects of the deployment scripts.  A script is an asynchronous TypeScript function
  that reads and writes one JSON file (the deployment database), deploys contracts and
  sends transactions through the Hardhat runtime, and may throw, exit the process or
  return.  Here:
  \<^item> \<open>world\<close> is what a script changes: the database, the chain, and the trace of the
    deployments, transactions and verification requests made so far;
  \<^item> \<open>net\<close> is what a script is given and cannot change: the process environment, the
    network and what is not in the repository (the JSON-RPC node, \<^verbatim>\<open>ethers\<close>, the
    contract factories that the build generates, Etherscan).  Its function fields are
    parameters of every definition that reaches them;
  \<^item> \<open>script\<close> is an asynchronous function over some state: a function from the state to an
    outcome and the state left behind, which survives a throw.  \<open>prog\<close> is a script of the
    deployment tools, over a \<open>world\<close>: what was deployed or written stays.  The web client
    runs over another state (theory \<open>Browser\<close>) with the same sequencing.
\<close>

section \<open>Values, errors, events\<close>

datatype js_value =
    Undef
  | Str string
  | Num int
  | Big int
  | Bool bool
  | Arr "js_value list"
  | Obj "(string \<times> js_value) list"

text \<open>
  \<open>Num\<close> is a JavaScript number, \<open>Big\<close> a \<^verbatim>\<open>BigNumber\<close> of \<^verbatim>\<open>ethers\<close>: the two
  are not interchangeable, since the library refuses a number it cannot hold exactly.
\<close>

text \<open>The JavaScript value of an optional string, \<^verbatim>\<open>undefined\<close> when absent.\<close>

definition val_of :: "string option \<Rightarrow> js_value" where
  "val_of s = (case s of None \<Rightarrow> Undef | Some t \<Rightarrow> Str t)"

lemma val_of_simps [simp]: "val_of None = Undef" "val_of (Some t) = Str t"
  by (simp_all add: val_of_def)

text \<open>JavaScript's truth of a value.\<close>

fun js_truthy :: "js_value \<Rightarrow> bool" where
  "js_truthy Undef = False"
| "js_truthy (Str s) = (s \<noteq> [])"
| "js_truthy (Num n) = (n \<noteq> 0)"
| "js_truthy (Bool b) = b"
| "js_truthy _ = True"

text \<open>The member of a value, \<^verbatim>\<open>undefined\<close> where it has none.\<close>

definition member_of :: "js_value \<Rightarrow> string \<Rightarrow> js_value" where
  "member_of v k = (case v of
     Obj o1 \<Rightarrow> (case obj_get o1 k of Some x \<Rightarrow> x | None \<Rightarrow> Undef) | _ \<Rightarrow> Undef)"

text \<open>
  \<open>JsError\<close> is \<^verbatim>\<open>throw Error(m)\<close>, \<open>TypeError\<close> the engine's own error (a property of
  \<^verbatim>\<open>undefined\<close>, a call of something that is not a function), \<open>RpcError\<close> what the
  node or the contract wrapper reports (a revert, a refused argument), \<open>CodedError\<close> an
  error object with a numeric \<^verbatim>\<open>code\<close>, as browser wallets report.
\<close>

datatype js_error = JsError string | TypeError string | RpcError string | CodedError int string

fun err_message :: "js_error \<Rightarrow> string" where
  "err_message (JsError m) = m"
| "err_message (TypeError m) = m"
| "err_message (RpcError m) = m"
| "err_message (CodedError n m) = m"

datatype 'a outcome = Ret 'a | Throw js_error | Exit int

text \<open>A contract object: its type, address, signer and, if it was deployed here, deployer.\<close>

record handle =
  h_type :: string
  h_addr :: string
  h_signer :: "string option"
  h_deployer :: "string option"

text \<open>The parameters of the \<^verbatim>\<open>verify:verify\<close> task.\<close>

record verify_params =
  v_address :: string
  v_contract :: "string option"
  v_libraries :: "string option"
  v_arguments :: "js_value list"
  v_relatedSources :: bool

datatype event =
    EvDeploy (ev_deployer: "string option") (ev_name: string) (ev_libs: "(string \<times> string) list")
      (ev_args: "js_value list") (ev_addr: string)
  | EvTx (ev_from: "string option") (ev_to: string) (ev_method: string) (ev_txargs: "js_value list")
  | EvVerify (ev_params: verify_params)
  | EvCleanup

text \<open>An entry of the deployment database.\<close>

record db_entry =
  e_address :: string
  e_deployer :: "string option"

record 'c world =
  db :: "string \<Rightarrow> db_entry option"
  chain :: 'c
  trace :: "event list"
  dre_set :: bool

text \<open>
  What the scripts read of a compiled artifact: its bytecode, a hexadecimal string with
  placeholders for libraries, and where the placeholders are (in bytes).
\<close>

record fixup =
  f_start :: nat
  f_length :: nat

record artifact =
  bytecode :: string
  linkReferences :: "(fixup list obj) obj"

section \<open>The runtime the scripts are given\<close>

text \<open>
  \<open>n_deploy E signer name libraries arguments c\<close> is the factory call of the build's
  generated class \<open>name\<close>: an error message or the new address, with the chain after it;
  \<open>n_send\<close> a transaction to a method of a contract, with an error message when it fails;
  \<open>n_view\<close> a read-only call; \<open>n_has_method\<close> tells whether the generated class has a
  method; \<open>n_encode\<close> is \<^verbatim>\<open>interface.encodeFunctionData\<close>, \<open>n_parse_units\<close>
  \<^verbatim>\<open>ethers.utils.parseUnits\<close>; \<open>n_mul_fixed E x y places\<close> is
  \<^verbatim>\<open>new BigNumber(x).multipliedBy(y).toFixed(places)\<close> of \<^verbatim>\<open>bignumber.js\<close>; \<open>n_bytes32\<close> is
  \<^verbatim>\<open>zeroPad(arrayify(s), 32)\<close>; \<open>n_artifact\<close> the compiled artifact of a contract name,
  which the build leaves beside the scripts; \<open>n_verify\<close> runs the
  Etherscan plugin, with an error message when it throws.
\<close>

record 'c net =
  n_network :: string
  n_FORK :: "string option"
  n_MAINNET_FORK :: "string option"
  n_ETHERSCAN_KEY :: "string option"
  n_chainId :: "nat option"
  n_now_ms :: nat
  n_signers :: "string list"
  n_is_address :: "string \<Rightarrow> bool"
  n_is_zero_address :: "string \<Rightarrow> bool"
  n_has_method :: "string \<Rightarrow> string \<Rightarrow> bool"
  n_encode :: "string \<Rightarrow> string \<Rightarrow> js_value list \<Rightarrow> string + string"
  n_hexlify :: "string \<Rightarrow> string"
  n_parse_units :: "string \<Rightarrow> string \<Rightarrow> string + int"
  n_mul_fixed :: "string \<Rightarrow> string \<Rightarrow> nat option \<Rightarrow> string"
  n_deploy :: "string option \<Rightarrow> string \<Rightarrow> (string \<times> string) list \<Rightarrow> js_value list \<Rightarrow> 'c
                 \<Rightarrow> (string + string) \<times> 'c"
  n_send :: "string option \<Rightarrow> string \<Rightarrow> string \<Rightarrow> string \<Rightarrow> js_value list \<Rightarrow> 'c
                 \<Rightarrow> string option \<times> 'c"
  n_view :: "string \<Rightarrow> string \<Rightarrow> string \<Rightarrow> js_value list \<Rightarrow> 'c \<Rightarrow> string + js_value"
  n_bytes32 :: "string \<Rightarrow> string + string"
  n_artifact :: "string \<Rightarrow> artifact option"
  n_verify :: "verify_params \<Rightarrow> 'c \<Rightarrow> string option \<times> 'c"

type_synonym ('s, 'a) script = "'s \<Rightarrow> 'a outcome \<times> 's"
type_synonym ('c, 'a) prog = "('c world, 'a) script"

section \<open>Sequencing\<close>

definition ret :: "'a \<Rightarrow> ('s, 'a) script" where
  "ret a = (\<lambda>w. (Ret a, w))"

definition throw :: "js_error \<Rightarrow> ('s, 'a) script" where
  "throw e = (\<lambda>w. (Throw e, w))"

definition exit_process :: "int \<Rightarrow> ('s, 'a) script" where
  "exit_process n = (\<lambda>w. (Exit n, w))"

definition await :: "('s, 'a) script \<Rightarrow> ('a \<Rightarrow> ('s, 'b) script) \<Rightarrow> ('s, 'b) script" where
  "await m f = (\<lambda>w. case m w of
      (Ret a, w') \<Rightarrow> f a w'
    | (Throw e, w') \<Rightarrow> (Throw e, w')
    | (Exit n, w') \<Rightarrow> (Exit n, w'))"

text \<open>\<^verbatim>\<open>try { m } catch (error) { handler }\<close>: a throw is caught, an exit is not.\<close>

definition try_catch :: "('s, 'a) script \<Rightarrow> (js_error \<Rightarrow> ('s, 'a) script) \<Rightarrow> ('s, 'a) script" where
  "try_catch m handler = (\<lambda>w. case m w of
      (Throw e, w') \<Rightarrow> handler e w'
    | r \<Rightarrow> r)"

definition when_do :: "bool \<Rightarrow> ('s, unit) script \<Rightarrow> ('s, unit) script" where
  "when_do b m = (if b then m else ret ())"

fun for_each :: "'a list \<Rightarrow> ('a \<Rightarrow> ('s, unit) script) \<Rightarrow> ('s, unit) script" where
  "for_each [] f = ret ()"
| "for_each (x # xs) f = await (f x) (\<lambda>_. for_each xs f)"

text \<open>A loop that carries a value, as the scripts do with a local variable.\<close>

fun for_fold :: "'a list \<Rightarrow> ('a \<Rightarrow> 'b \<Rightarrow> ('s, 'b) script) \<Rightarrow> 'b \<Rightarrow> ('s, 'b) script" where
  "for_fold [] f acc = ret acc"
| "for_fold (x # xs) f acc = await (f x acc) (\<lambda>acc'. for_fold xs f acc')"

lemma await_ret [simp]: "await (ret a) f = f a"
  by (simp add: await_def ret_def)

lemma await_throw [simp]: "await (throw e) f = throw e"
  by (simp add: await_def throw_def)

lemma await_exit [simp]: "await (exit_process n) f = exit_process n"
  by (simp add: await_def exit_process_def)

lemma await_ret_right: "await m ret = m"
  by (rule ext) (auto simp: await_def ret_def split: prod.splits outcome.splits)

lemma await_assoc: "await (await m f) g = await m (\<lambda>a. await (f a) g)"
  by (rule ext) (simp add: await_def split: prod.splits outcome.splits)

lemma for_each_append: "for_each (xs @ ys) f = await (for_each xs f) (\<lambda>_. for_each ys f)"
  by (induction xs) (simp_all add: await_assoc)

section \<open>Primitive effects\<close>

text \<open>\<^verbatim>\<open>getDb(network).get(id).value()\<close>; \<^verbatim>\<open>undefined\<close> for a missing key.\<close>

definition db_get :: "string \<Rightarrow> ('c, db_entry option) prog" where
  "db_get k = (\<lambda>w. (Ret (db w k), w))"

text \<open>\<^verbatim>\<open>getDb(network).set(id, entry).write()\<close>.\<close>

definition db_set :: "string \<Rightarrow> db_entry \<Rightarrow> ('c, unit) prog" where
  "db_set k e = (\<lambda>w. (Ret (), w\<lparr>db := (db w)(k \<mapsto> e)\<rparr>))"

text \<open>
  \<^verbatim>\<open>new XFactory(signer).deploy(...args)\<close> with the libraries it is linked with, and the
  receipt waited for.
\<close>

definition deploy_with ::
  "'c net \<Rightarrow> string option \<Rightarrow> string \<Rightarrow> (string \<times> string) list \<Rightarrow> js_value list \<Rightarrow> ('c, handle) prog" where
  "deploy_with E s name libs args = (\<lambda>w.
     case n_deploy E s name libs args (chain w) of
       (Inl m, c) \<Rightarrow> (Throw (RpcError m), w\<lparr>chain := c\<rparr>)
     | (Inr a, c) \<Rightarrow>
         (Ret \<lparr>h_type = name, h_addr = a, h_signer = s, h_deployer = s\<rparr>,
          w\<lparr>chain := c, trace := trace w @ [EvDeploy s name libs args a]\<rparr>))"

text \<open>
  \<^verbatim>\<open>await waitForTx(await contract.method(...args))\<close>: a method that the generated class
  lacks is \<^verbatim>\<open>undefined\<close>, and calling it is a \<^verbatim>\<open>TypeError\<close>.
\<close>

definition send :: "'c net \<Rightarrow> handle \<Rightarrow> string \<Rightarrow> js_value list \<Rightarrow> ('c, unit) prog" where
  "send E h m args = (\<lambda>w.
     if \<not> n_has_method E (h_type h) m then (Throw (TypeError (m @ '' is not a function'')), w)
     else case n_send E (h_signer h) (h_addr h) (h_type h) m args (chain w) of
       (Some msg, c) \<Rightarrow> (Throw (RpcError msg), w\<lparr>chain := c\<rparr>)
     | (None, c) \<Rightarrow>
         (Ret (), w\<lparr>chain := c, trace := trace w @ [EvTx (h_signer h) (h_addr h) m args]\<rparr>))"

definition view :: "'c net \<Rightarrow> handle \<Rightarrow> string \<Rightarrow> js_value list \<Rightarrow> ('c, js_value) prog" where
  "view E h m args = (\<lambda>w.
     if \<not> n_has_method E (h_type h) m then (Throw (TypeError (m @ '' is not a function'')), w)
     else case n_view E (h_addr h) (h_type h) m args (chain w) of
       Inl msg \<Rightarrow> (Throw (RpcError msg), w)
     | Inr v \<Rightarrow> (Ret v, w))"

text \<open>A read of an address: the wrapper decodes an address output to a string.\<close>

definition view_addr :: "'c net \<Rightarrow> handle \<Rightarrow> string \<Rightarrow> js_value list \<Rightarrow> ('c, string) prog" where
  "view_addr E h m args = await (view E h m args) (\<lambda>v.
     case v of Str a \<Rightarrow> ret a | _ \<Rightarrow> throw (RpcError ''invalid address''))"

definition encode_call :: "'c net \<Rightarrow> handle \<Rightarrow> string \<Rightarrow> js_value list \<Rightarrow> ('c, string) prog" where
  "encode_call E h m args = (case n_encode E (h_type h) m args of
     Inl msg \<Rightarrow> throw (RpcError msg) | Inr bytes \<Rightarrow> ret bytes)"

text \<open>\<^verbatim>\<open>contract.connect(signer)\<close>.\<close>

definition connect_signer :: "string option \<Rightarrow> handle \<Rightarrow> handle" where
  "connect_signer s h = h\<lparr>h_signer := s\<rparr>"

lemma connect_signer_simps [simp]:
  "h_addr (connect_signer s h) = h_addr h"
  "h_type (connect_signer s h) = h_type h"
  "h_signer (connect_signer s h) = s"
  by (simp_all add: connect_signer_def)

end
