(* ===== verification/Calculus.thy ===== *)
theory Calculus
  imports Effects
begin

text \<open>
  How facts about scripts are proved.  \<open>keeps R m\<close> says that every run of \<open>m\<close>,
  whether it returns, throws or exits, relates the world before to the world after by
  \<open>R\<close>.  The locale \<open>effect_rel\<close> is the interface between the primitive effects and
  everything built from them: it asks that \<open>R\<close> be reflexive and transitive and hold over
  each primitive effect, and every component proves, once and inside it, that its scripts
  keep \<open>R\<close>.  Its parent \<open>run_rel\<close> asks only for what the reads need, so that its
  lemmas also serve for scripts that write nothing, and \<open>seq_rel\<close>, at the root, only for
  what sequencing needs, over any state.  The collection \<open>run_simps\<close> inverts a run that returned.
\<close>

named_theorems keeps_intros \<open>scripts keep a relation\<close>
named_theorems run_simps \<open>inversion of runs that returned\<close>

section \<open>Inversion of runs\<close>

lemma await_Ret_iff [run_simps]:
  "await m f w = (Ret y, w'') \<longleftrightarrow> (\<exists>x w'. m w = (Ret x, w') \<and> f x w' = (Ret y, w''))"
  by (auto simp: await_def split: prod.splits outcome.splits)

lemma ret_Ret_iff [run_simps]: "ret a w = (Ret x, w') \<longleftrightarrow> x = a \<and> w' = w"
  by (auto simp: ret_def)

lemma throw_Ret_iff [run_simps]: "throw e w = (Ret x, w') \<longleftrightarrow> False"
  by (simp add: throw_def)

lemma exit_Ret_iff [run_simps]: "exit_process n w = (Ret x, w') \<longleftrightarrow> False"
  by (simp add: exit_process_def)

lemma db_get_Ret_iff [run_simps]: "db_get k w = (Ret x, w') \<longleftrightarrow> x = db w k \<and> w' = w"
  by (auto simp: db_get_def)

lemma db_set_Ret_iff [run_simps]:
  "db_set k e w = (Ret x, w') \<longleftrightarrow> w' = w\<lparr>db := (db w)(k \<mapsto> e)\<rparr>"
  by (auto simp: db_set_def)

lemma when_do_Ret_iff [run_simps]:
  "when_do b m w = (Ret x, w') \<longleftrightarrow> (if b then m w = (Ret x, w') else w' = w)"
  by (auto simp: when_do_def ret_def)

lemma deploy_with_Ret_iff [run_simps]:
  "deploy_with E s name libs args w = (Ret h, w') \<longleftrightarrow>
     (\<exists>a c. n_deploy E s name libs args (chain w) = (Inr a, c) \<and>
        h = \<lparr>h_type = name, h_addr = a, h_signer = s, h_deployer = s\<rparr> \<and>
        w' = w\<lparr>chain := c, trace := trace w @ [EvDeploy s name libs args a]\<rparr>)"
  by (auto simp: deploy_with_def split: prod.splits sum.splits)

lemma send_Ret_iff [run_simps]:
  "send E h m args w = (Ret x, w') \<longleftrightarrow>
     n_has_method E (h_type h) m \<and>
     (\<exists>c. n_send E (h_signer h) (h_addr h) (h_type h) m args (chain w) = (None, c) \<and>
        w' = w\<lparr>chain := c, trace := trace w @ [EvTx (h_signer h) (h_addr h) m args]\<rparr>)"
  by (auto simp: send_def split: prod.splits option.splits)

lemma view_Ret_iff [run_simps]:
  "view E h m args w = (Ret v, w') \<longleftrightarrow>
     n_has_method E (h_type h) m \<and> w' = w \<and>
     n_view E (h_addr h) (h_type h) m args (chain w) = Inr v"
  by (auto simp: view_def split: sum.splits)

lemma view_addr_Ret_iff [run_simps]:
  "view_addr E h m args w = (Ret a, w') \<longleftrightarrow>
     n_has_method E (h_type h) m \<and> w' = w \<and>
     n_view E (h_addr h) (h_type h) m args (chain w) = Inr (Str a)"
proof -
  have "(case v of Str b \<Rightarrow> ret b | _ \<Rightarrow> throw e) w1 = (Ret a, w') \<longleftrightarrow> v = Str a \<and> w' = w1" for v e w1
    by (cases v) (auto simp: run_simps)
  then show ?thesis by (auto simp: view_addr_def run_simps)
qed

lemma encode_call_Ret_iff [run_simps]:
  "encode_call E h m args w = (Ret b, w') \<longleftrightarrow>
     n_encode E (h_type h) m args = Inr b \<and> w' = w"
  by (auto simp: encode_call_def run_simps split: sum.splits)

lemma for_each_Cons_Ret_iff [run_simps]:
  "for_each (x # xs) f w = (Ret u, w'') \<longleftrightarrow>
     (\<exists>w'. f x w = (Ret (), w') \<and> for_each xs f w' = (Ret u, w''))"
  by (auto simp: await_Ret_iff)

lemma for_each_Nil_Ret_iff [run_simps]: "for_each [] f w = (Ret u, w') \<longleftrightarrow> w' = w"
  by (auto simp: ret_Ret_iff)

text \<open>
  A loop of transactions that returned sent exactly one per element, in order, and did
  nothing else.
\<close>

lemma for_each_send_Ret:
  assumes "for_each xs (\<lambda>x. send E h m (args x)) w = (Ret u, w')"
  shows "trace w' = trace w @ map (\<lambda>x. EvTx (h_signer h) (h_addr h) m (args x)) xs \<and>
    db w' = db w \<and> dre_set w' = dre_set w"
  using assms
proof (induction xs arbitrary: w)
  case Nil
  then show ?case by (simp add: ret_Ret_iff)
next
  case (Cons x xs)
  then obtain w1 where 1: "send E h m (args x) w = (Ret (), w1)"
    and 2: "for_each xs (\<lambda>x. send E h m (args x)) w1 = (Ret u, w')"
    unfolding for_each_Cons_Ret_iff by blast
  from 1 have "trace w1 = trace w @ [EvTx (h_signer h) (h_addr h) m (args x)]" "db w1 = db w"
    "dre_set w1 = dre_set w"
    by (auto simp: send_Ret_iff)
  with Cons.IH [OF 2] show ?case by simp
qed

text \<open>Running forward: a known outcome of the first script decides the sequence.\<close>

lemma await_run_Ret: "m w = (Ret a, w') \<Longrightarrow> await m f w = f a w'"
  by (simp add: await_def)

lemma await_run_Throw: "m w = (Throw e, w') \<Longrightarrow> await m f w = (Throw e, w')"
  by (simp add: await_def)

text \<open>A script that cannot return from a world.\<close>

definition never_returns :: "('s, 'a) script \<Rightarrow> 's \<Rightarrow> bool" where
  "never_returns m w \<longleftrightarrow> (\<forall>x w'. m w \<noteq> (Ret x, w'))"

lemma never_returns_await_left: "never_returns m w \<Longrightarrow> never_returns (await m f) w"
  by (auto simp: never_returns_def run_simps)

lemma never_returns_awaitI:
  "(\<And>a w'. m w = (Ret a, w') \<Longrightarrow> never_returns (f a) w') \<Longrightarrow> never_returns (await m f) w"
  by (auto simp: never_returns_def run_simps)

lemma never_returns_throw [simp]: "never_returns (throw e) w"
  by (simp add: never_returns_def throw_def)

section \<open>Runs that must return\<close>

text \<open>
  \<open>runs m w Q\<close>: from \<open>w\<close> the script \<open>m\<close> returns, and its value and the world left
  satisfy \<open>Q\<close>.  Unlike the inversion above it is a claim that the script gets through; it
  needs a node that answers, \<open>answers\<close> below.
\<close>

named_theorems runs_intros \<open>scripts that return\<close>

definition runs :: "('s, 'a) script \<Rightarrow> 's \<Rightarrow> ('a \<Rightarrow> 's \<Rightarrow> bool) \<Rightarrow> bool" where
  "runs m w Q \<longleftrightarrow> (\<exists>x w'. m w = (Ret x, w') \<and> Q x w')"

lemma runs_mono: "runs m w P \<Longrightarrow> (\<And>x w'. P x w' \<Longrightarrow> Q x w') \<Longrightarrow> runs m w Q"
  by (auto simp: runs_def)

lemma runs_await_iff [simp]: "runs (await m f) w Q \<longleftrightarrow> runs m w (\<lambda>x w'. runs (f x) w' Q)"
  by (auto simp: runs_def await_Ret_iff)

lemma runs_awaitI [runs_intros]: "runs m w (\<lambda>x w'. runs (f x) w' Q) \<Longrightarrow> runs (await m f) w Q"
  by simp

text \<open>The step of a proof that uses what is known of the first script of a sequence.\<close>

lemma runs_seq:
  assumes "runs m w P" and "\<And>x w'. P x w' \<Longrightarrow> runs (f x) w' Q"
  shows "runs (await m f) w Q"
  using assms by (auto intro: runs_mono)

lemma runs_simps [simp]:
  "runs (ret a) w Q \<longleftrightarrow> Q a w" "\<not> runs (throw e) w Q" "\<not> runs (exit_process n) w Q"
  "runs (when_do b m1) w P \<longleftrightarrow> (if b then runs m1 w P else P () w)"
  by (auto simp: runs_def ret_def throw_def exit_process_def when_do_def)

lemma runs_db_simps [simp]:
  "runs (db_get k) w Q1 \<longleftrightarrow> Q1 (db w k) w"
  "runs (db_set k en) w P \<longleftrightarrow> P () (w\<lparr>db := (db w)(k \<mapsto> en)\<rparr>)"
  by (auto simp: runs_def db_get_def db_set_def)

lemma runs_try_catch: "runs m w Q \<Longrightarrow> runs (try_catch m handler) w Q"
  by (auto simp: runs_def try_catch_def)

text \<open>
  A loop returns when each of its rounds does; \<open>I\<close> is what the rounds keep of the world.
\<close>

lemma runs_for_each:
  assumes "I w" and "\<And>x w. x \<in> set xs \<Longrightarrow> I w \<Longrightarrow> runs (f x) w (\<lambda>_. I)"
  shows "runs (for_each xs f) w (\<lambda>_. I)"
  using assms
proof (induction xs arbitrary: w)
  case Nil
  then show ?case by simp
next
  case (Cons x xs)
  have "runs (f x) w (\<lambda>_ w'. runs (for_each xs f) w' (\<lambda>_. I))"
    by (rule runs_mono [OF Cons.prems(2)]) (use Cons in auto)
  then show ?case by simp
qed

lemma runs_for_fold:
  assumes "I acc w" and "\<And>x acc w. x \<in> set xs \<Longrightarrow> I acc w \<Longrightarrow> runs (f x acc) w I"
  shows "runs (for_fold xs f acc) w I"
  using assms
proof (induction xs arbitrary: acc w)
  case Nil
  then show ?case by simp
next
  case (Cons x xs)
  have "runs (f x acc) w (\<lambda>acc' w'. runs (for_fold xs f acc') w' I)"
    by (rule runs_mono [OF Cons.prems(2)]) (use Cons in auto)
  then show ?case by simp
qed

text \<open>
  A node that answers: every deployment is mined at a non-empty address, every transaction
  to a method of its class succeeds, and calls can be encoded.
\<close>

definition answers :: "'c net \<Rightarrow> bool" where
  "answers E \<longleftrightarrow>
     (\<forall>s n l a c. \<exists>ad c'. n_deploy E s n l a c = (Inr ad, c') \<and> ad \<noteq> []) \<and>
     (\<forall>s to t m a c. \<exists>c'. n_send E s to t m a c = (None, c')) \<and>
     (\<forall>t m a. \<exists>b. n_encode E t m a = Inr b)"

lemma runs_deploy_with:
  assumes "answers E" and "\<And>a c evs. a \<noteq> [] \<Longrightarrow>
     Q \<lparr>h_type = n, h_addr = a, h_signer = s, h_deployer = s\<rparr> (w\<lparr>chain := c, trace := trace w @ evs\<rparr>)"
  shows "runs (deploy_with E s n libs args) w Q"
proof -
  from assms(1) obtain ad c' where "n_deploy E s n libs args (chain w) = (Inr ad, c')" "ad \<noteq> []"
    unfolding answers_def by blast
  with assms(2) show ?thesis by (auto simp: runs_def deploy_with_Ret_iff)
qed

lemma runs_send:
  assumes "answers E" and "n_has_method E (h_type h) m"
    and "\<And>c. Q () (w\<lparr>chain := c, trace := trace w @ [EvTx (h_signer h) (h_addr h) m args]\<rparr>)"
  shows "runs (send E h m args) w Q"
proof -
  from assms(1) obtain c where "n_send E (h_signer h) (h_addr h) (h_type h) m args (chain w) = (None, c)"
    unfolding answers_def by blast
  with assms(2,3) show ?thesis by (auto simp: runs_def send_Ret_iff)
qed

lemma runs_encode_call:
  assumes "answers E" and "\<And>b. Q b w"
  shows "runs (encode_call E h m args) w Q"
  using assms unfolding answers_def runs_def encode_call_Ret_iff by blast

section \<open>Relations kept by every run\<close>

definition keeps :: "('s \<Rightarrow> 's \<Rightarrow> bool) \<Rightarrow> ('s, 'a) script \<Rightarrow> bool" where
  "keeps R m \<longleftrightarrow> (\<forall>w r w'. m w = (r, w') \<longrightarrow> R w w')"

lemma keepsD: "keeps R m \<Longrightarrow> m w = (r, w') \<Longrightarrow> R w w'"
  by (simp add: keeps_def)

lemma keeps_snd: "keeps R m \<Longrightarrow> R w (snd (m w))"
  by (cases "m w") (simp add: keeps_def)

lemma keepsI: "(\<And>w r w'. m w = (r, w') \<Longrightarrow> R w w') \<Longrightarrow> keeps R m"
  by (simp add: keeps_def)

locale seq_rel =
  fixes R :: "'s \<Rightarrow> 's \<Rightarrow> bool"
  assumes rel_refl: "R w w"
    and rel_trans: "R w1 w2 \<Longrightarrow> R w2 w3 \<Longrightarrow> R w1 w3"
begin

lemma keeps_ret [keeps_intros]: "keeps R (ret a)"
  by (auto simp: keeps_def ret_def rel_refl)

lemma keeps_throw [keeps_intros]: "keeps R (throw e)"
  by (auto simp: keeps_def throw_def rel_refl)

lemma keeps_exit [keeps_intros]: "keeps R (exit_process n)"
  by (auto simp: keeps_def exit_process_def rel_refl)

text \<open>When the rest of the script needs what the first part answers.\<close>

lemma keeps_await_in:
  assumes "keeps R m" and "\<And>a w w'. m w = (Ret a, w') \<Longrightarrow> keeps R (f a)"
  shows "keeps R (await m f)"
proof (rule keepsI)
  fix w r w'
  assume run: "await m f w = (r, w')"
  obtain r1 w1 where m: "m w = (r1, w1)" by (cases "m w")
  with assms(1) have "R w w1" by (rule keepsD)
  moreover have "R w1 w'"
  proof (cases r1)
    case (Ret a)
    with run m have "f a w1 = (r, w')" by (simp add: await_def)
    with assms(2) m Ret show ?thesis by (auto dest: keepsD)
  qed (use run m in \<open>simp_all add: await_def rel_refl\<close>)
  ultimately show "R w w'" by (rule rel_trans)
qed

lemma keeps_await [keeps_intros]:
  "keeps R m \<Longrightarrow> (\<And>a. keeps R (f a)) \<Longrightarrow> keeps R (await m f)"
  by (rule keeps_await_in)

lemma keeps_try_catch [keeps_intros]:
  assumes "keeps R m" and "\<And>e. keeps R (handler e)"
  shows "keeps R (try_catch m handler)"
proof (rule keepsI)
  fix w r w'
  assume run: "try_catch m handler w = (r, w')"
  obtain r1 w1 where m: "m w = (r1, w1)" by (cases "m w")
  with assms(1) have 1: "R w w1" by (rule keepsD)
  show "R w w'"
  proof (cases r1)
    case (Throw e)
    with run m have "handler e w1 = (r, w')" by (simp add: try_catch_def)
    with assms(2) have "R w1 w'" by (rule keepsD)
    with 1 show ?thesis by (rule rel_trans)
  qed (use run m 1 in \<open>simp_all add: try_catch_def\<close>)
qed

lemma keeps_if [keeps_intros]: "keeps R m \<Longrightarrow> keeps R m' \<Longrightarrow> keeps R (if b then m else m')"
  by simp

lemma keeps_if_in: "(b \<Longrightarrow> keeps R m) \<Longrightarrow> (\<not> b \<Longrightarrow> keeps R m') \<Longrightarrow> keeps R (if b then m else m')"
  by simp

lemma keeps_option [keeps_intros]:
  "keeps R m \<Longrightarrow> (\<And>x. keeps R (f x)) \<Longrightarrow> keeps R (case o1 of None \<Rightarrow> m | Some x \<Rightarrow> f x)"
  by (cases o1) simp_all

lemma keeps_case_prod [keeps_intros]:
  "(\<And>a b. keeps R (f a b)) \<Longrightarrow> keeps R (case p of (a, b) \<Rightarrow> f a b)"
  by (cases p) simp

lemma keeps_case_prod_app [keeps_intros]:
  "(\<And>a b. keeps R (f a b y)) \<Longrightarrow> keeps R ((case p of (a, b) \<Rightarrow> f a b) y)"
  by (cases p) simp

lemma keeps_Let [keeps_intros]: "(\<And>x. keeps R (f x)) \<Longrightarrow> keeps R (let x = t in f x)"
  by (simp add: Let_def)

lemma keeps_when_do [keeps_intros]: "keeps R m \<Longrightarrow> keeps R (when_do b m)"
  by (simp add: when_do_def keeps_ret)

lemma keeps_for_each [keeps_intros]: "(\<And>x. keeps R (f x)) \<Longrightarrow> keeps R (for_each xs f)"
  by (induction xs) (simp_all add: keeps_ret keeps_await)

lemma keeps_for_fold [keeps_intros]:
  "(\<And>x acc. keeps R (f x acc)) \<Longrightarrow> keeps R (for_fold xs f acc)"
  by (induction xs arbitrary: acc) (simp_all add: keeps_ret keeps_await)

text \<open>When the element matters, as for a loop that writes the key of each element.\<close>

lemma keeps_for_fold_in:
  "(\<And>x acc. x \<in> set xs \<Longrightarrow> keeps R (f x acc)) \<Longrightarrow> keeps R (for_fold xs f acc)"
  by (induction xs arbitrary: acc) (auto intro: keeps_ret keeps_await)

end

text \<open>What the reads of the deployment scripts need besides.\<close>

locale run_rel = seq_rel R for R :: "'c world \<Rightarrow> 'c world \<Rightarrow> bool" +
  assumes rel_dre: "R w (w\<lparr>dre_set := b\<rparr>)"
begin

lemma keeps_db_get [keeps_intros]: "keeps R (db_get k)"
  by (auto simp: keeps_def db_get_def rel_refl)

lemma keeps_view [keeps_intros]: "keeps R (view E h m args)"
  by (auto simp: keeps_def view_def rel_refl split: sum.splits if_splits)

lemma keeps_view_addr [keeps_intros]: "keeps R (view_addr E h m args)"
  unfolding view_addr_def
  by (intro keeps_await keeps_view) (auto intro: keeps_ret keeps_throw split: js_value.splits)

lemma keeps_encode_call [keeps_intros]: "keeps R (encode_call E h m args)"
  by (auto simp: encode_call_def intro: keeps_ret keeps_throw split: sum.splits)

lemma keeps_send_missing:
  "\<not> n_has_method E (h_type h) m \<Longrightarrow> keeps R (send E h m args)"
  by (simp add: keeps_def send_def rel_refl)

end

text \<open>The relations that every effect respects, if it only writes keys in \<open>K\<close>.\<close>

locale effect_rel = run_rel R for E :: "'c net" and R :: "'c world \<Rightarrow> 'c world \<Rightarrow> bool" +
  fixes K :: "string \<Rightarrow> bool"
  assumes rel_db_set: "K k \<Longrightarrow> R w (w\<lparr>db := (db w)(k \<mapsto> e)\<rparr>)"
    and rel_chain: "R w (w\<lparr>chain := c, trace := trace w @ evs\<rparr>)"
begin

lemma keeps_db_set [keeps_intros]: "K k \<Longrightarrow> keeps R (db_set k e)"
  by (auto simp: keeps_def db_set_def rel_db_set)

lemma rel_chain_only: "R w (w\<lparr>chain := c\<rparr>)"
  using rel_chain [where evs = "[]"] by simp

lemma rel_trace_only: "R w (w\<lparr>trace := trace w @ evs\<rparr>)"
  using rel_chain [where w = w and c = "chain w"] by simp

lemma keeps_deploy_with [keeps_intros]: "keeps R (deploy_with E s name libs args)"
  by (auto simp: keeps_def deploy_with_def rel_chain rel_chain_only
      split: prod.splits sum.splits)

lemma keeps_send [keeps_intros]: "keeps R (send E h m args)"
  by (auto simp: keeps_def send_def rel_refl rel_chain rel_chain_only
      split: prod.splits option.splits if_splits)

end

text \<open>
  Relations that scripts keep.  The history only grows: no entry of the database is
  ever removed and the trace is only extended.  And a database key that no script writes
  keeps its value.
\<close>

definition history_grows :: "'c world \<Rightarrow> 'c world \<Rightarrow> bool" where
  "history_grows w w' \<longleftrightarrow> dom (db w) \<subseteq> dom (db w') \<and> (\<exists>evs. trace w' = trace w @ evs)"

definition key_kept :: "string \<Rightarrow> 'c world \<Rightarrow> 'c world \<Rightarrow> bool" where
  "key_kept k w w' \<longleftrightarrow> db w' k = db w k"

interpretation grow: effect_rel E history_grows "\<lambda>_. True" for E :: "'c net"
  by unfold_locales (fastforce simp: history_grows_def)+

interpretation frame: effect_rel E "key_kept k" "\<lambda>k'. k' \<noteq> k" for E :: "'c net" and k
  by unfold_locales (auto simp: key_kept_def)

text \<open>And a script that only reads leaves everything as it was.\<close>

definition untouched :: "'c world \<Rightarrow> 'c world \<Rightarrow> bool" where
  "untouched w w' \<longleftrightarrow> db w' = db w \<and> chain w' = chain w \<and> trace w' = trace w"

interpretation reads: run_rel untouched
  by unfold_locales (auto simp: untouched_def)

text \<open>
  Every event a script adds to the trace, whether it returns or not, satisfies \<open>P\<close>.  The
  effects that do not touch the trace keep it for every \<open>P\<close>, the others where \<open>P\<close> holds
  of their event.
\<close>

definition trace_adds :: "(event \<Rightarrow> bool) \<Rightarrow> 'c world \<Rightarrow> 'c world \<Rightarrow> bool" where
  "trace_adds P w w' \<longleftrightarrow> (\<exists>evs. trace w' = trace w @ evs \<and> (\<forall>e \<in> set evs. P e))"

interpretation adds: run_rel "trace_adds P" for P
  by unfold_locales (fastforce simp: trace_adds_def)+

lemma trace_adds_one: "P e \<Longrightarrow> trace_adds P w (w\<lparr>chain := c, trace := trace w @ [e]\<rparr>)"
  by (auto simp: trace_adds_def)

lemma trace_adds_same: "trace w' = trace w \<Longrightarrow> trace_adds P w w'"
  by (auto simp: trace_adds_def)

lemma adds_send: "P (EvTx (h_signer h) (h_addr h) m args) \<Longrightarrow> keeps (trace_adds P) (send E h m args)"
  by (auto simp: keeps_def send_def trace_adds_one trace_adds_same
      split: prod.splits option.splits if_splits)

end
