(* ===== verification/Types.thy ===== *)
theory Types
  imports Calculus
begin

text \<open>
  The data of \<^verbatim>\<open>helpers/types.ts\<close> and \<^verbatim>\<open>helpers/constants.ts\<close>.  The string
  enums are objects at run time (\<^verbatim>\<open>eContractid[contract]\<close> is a lookup with a key the
  user gives), so they are objects here and a member is written as its string.  A value
  per network is a record with one field per member of \<^verbatim>\<open>eEthereumNetwork\<close>, each
  \<open>None\<close> where the configuration says \<^verbatim>\<open>undefined\<close>.
\<close>

section \<open>Enumerations\<close>

definition eEthereumNetwork :: "string list" where
  "eEthereumNetwork =
     [''coverage'', ''hardhat'', ''localhost'', ''goerli'', ''rinkeby'', ''sepolia'', ''main'', ''monad'']"

definition eContractid :: "string obj" where
  "eContractid = [
     (''MintableERC20'', ''MintableERC20''),
     (''MintableERC721'', ''MintableERC721''),
     (''LendPoolAddressesProvider'', ''LendPoolAddressesProvider''),
     (''LendPoolAddressesProviderRegistry'', ''LendPoolAddressesProviderRegistry''),
     (''LendPoolParametersProvider'', ''LendPoolParametersProvider''),
     (''LendPoolConfigurator'', ''LendPoolConfigurator''),
     (''ValidationLogic'', ''ValidationLogic''),
     (''ReserveLogic'', ''ReserveLogic''),
     (''NftLogic'', ''NftLogic''),
     (''GenericLogic'', ''GenericLogic''),
     (''SupplyLogic'', ''SupplyLogic''),
     (''BorrowLogic'', ''BorrowLogic''),
     (''LiquidateLogic'', ''LiquidateLogic''),
     (''ConfiguratorLogic'', ''ConfiguratorLogic''),
     (''LendPool'', ''LendPool''),
     (''LendPoolLoan'', ''LendPoolLoan''),
     (''ReserveOracle'', ''ReserveOracle''),
     (''ReserveOracleImpl'', ''ReserveOracleImpl''),
     (''NFTOracle'', ''NFTOracle''),
     (''NFTOracleImpl'', ''NFTOracleImpl''),
     (''TokenOracle'', ''TokenOracle''),
     (''TokenOracleImpl'', ''TokenOracleImpl''),
     (''Proxy'', ''Proxy''),
     (''MockChainlinkOracle'', ''MockChainlinkOracle''),
     (''MockNFTOracle'', ''MockNFTOracle''),
     (''MockReserveOracle'', ''MockReserveOracle''),
     (''ChainlinkAggregatorHelper'', ''ChainlinkAggregatorHelper''),
     (''ChainlinkAggregatorHelperImpl'', ''ChainlinkAggregatorHelperImpl''),
     (''InterestRate'', ''InterestRate''),
     (''BendUpgradeableProxy'', ''BendUpgradeableProxy''),
     (''BendProxyAdminTest'', ''BendProxyAdminTest''),
     (''BendProxyAdminPool'', ''BendProxyAdminPool''),
     (''BendProxyAdminFund'', ''BendProxyAdminFund''),
     (''BendProxyAdminWTL'', ''BendProxyAdminWTL''),
     (''BendV2ProxyAdmin'', ''BendV2ProxyAdmin''),
     (''WalletBalanceProvider'', ''WalletBalanceProvider''),
     (''BToken'', ''BToken''),
     (''DebtToken'', ''DebtToken''),
     (''BNFT'', ''BNFT''),
     (''MockBNFT'', ''MockBNFT''),
     (''BendProtocolDataProvider'', ''BendProtocolDataProvider''),
     (''IERC20Detailed'', ''IERC20Detailed''),
     (''IERC721Detailed'', ''IERC721Detailed''),
     (''FeeProvider'', ''FeeProvider''),
     (''WETHGateway'', ''WETHGateway''),
     (''WETHGatewayImpl'', ''WETHGatewayImpl''),
     (''WETH'', ''WETH''),
     (''WETHMocked'', ''WETHMocked''),
     (''WPUNKSGateway'', ''WPUNKSGateway''),
     (''WPUNKS'', ''WPUNKS''),
     (''WPUNKSMocked'', ''WPUNKSMocked''),
     (''SelfdestructTransferMock'', ''SelfdestructTransferMock''),
     (''LendPoolImpl'', ''LendPoolImpl''),
     (''LendPoolConfiguratorImpl'', ''LendPoolConfiguratorImpl''),
     (''LendPoolLoanImpl'', ''LendPoolLoanImpl''),
     (''BNFTRegistry'', ''BNFTRegistry''),
     (''BNFTRegistryImpl'', ''BNFTRegistryImpl''),
     (''CryptoPunksMarket'', ''CryptoPunksMarket''),
     (''WrappedPunk'', ''WrappedPunk''),
     (''PunkGateway'', ''PunkGateway''),
     (''PunkGatewayImpl'', ''PunkGatewayImpl''),
     (''MockIncentivesController'', ''MockIncentivesController''),
     (''UIPoolDataProvider'', ''UIPoolDataProvider''),
     (''BendCollector'', ''BendCollector''),
     (''BendCollectorImpl'', ''BendCollectorImpl''),
     (''TimelockControllerFast'', ''TimelockControllerFast''),
     (''TimelockControllerSlow'', ''TimelockControllerSlow''),
     (''MockLoanRepaidInterceptor'', ''MockLoanRepaidInterceptor''),
     (''KodaGateway'', ''KodaGateway''),
     (''KodaGatewayImpl'', ''KodaGatewayImpl''),
     (''UniswapV3DebtSwapAdapter'', ''UniswapV3DebtSwapAdapter''),
     (''UniswapV3DebtSwapAdapterImpl'', ''UniswapV3DebtSwapAdapterImpl''),
     (''WstETHPriceAggregator'', ''WstETHPriceAggregator'')]"

definition ProtocolErrors :: "string obj" where
  "ProtocolErrors = [
     (''CALLER_NOT_POOL_ADMIN'', ''100''),
     (''CALLER_NOT_ADDRESS_PROVIDER'', ''101''),
     (''INVALID_FROM_BALANCE_AFTER_TRANSFER'', ''102''),
     (''INVALID_TO_BALANCE_AFTER_TRANSFER'', ''103''),
     (''CALLER_NOT_ONBEHALFOF_OR_IN_WHITELIST'', ''104''),
     (''CALLER_NOT_RISK_ADMIN'', ''105''),
     (''CALLER_NOT_RISK_OR_POOL_ADMIN'', ''106''),
     (''MATH_MULTIPLICATION_OVERFLOW'', ''200''),
     (''MATH_ADDITION_OVERFLOW'', ''201''),
     (''MATH_DIVISION_BY_ZERO'', ''202''),
     (''VL_INVALID_AMOUNT'', ''301''),
     (''VL_NO_ACTIVE_RESERVE'', ''302''),
     (''VL_RESERVE_FROZEN'', ''303''),
     (''VL_NOT_ENOUGH_AVAILABLE_USER_BALANCE'', ''304''),
     (''VL_BORROWING_NOT_ENABLED'', ''305''),
     (''VL_COLLATERAL_BALANCE_IS_0'', ''306''),
     (''VL_HEALTH_FACTOR_LOWER_THAN_LIQUIDATION_THRESHOLD'', ''307''),
     (''VL_COLLATERAL_CANNOT_COVER_NEW_BORROW'', ''308''),
     (''VL_NO_DEBT_OF_SELECTED_TYPE'', ''309''),
     (''VL_NO_ACTIVE_NFT'', ''310''),
     (''VL_NFT_FROZEN'', ''311''),
     (''VL_SPECIFIED_CURRENCY_NOT_BORROWED_BY_USER'', ''312''),
     (''VL_INVALID_HEALTH_FACTOR'', ''313''),
     (''VL_INVALID_ONBEHALFOF_ADDRESS'', ''314''),
     (''VL_INVALID_TARGET_ADDRESS'', ''315''),
     (''VL_INVALID_RESERVE_ADDRESS'', ''316''),
     (''VL_SPECIFIED_LOAN_NOT_BORROWED_BY_USER'', ''317''),
     (''VL_SPECIFIED_RESERVE_NOT_BORROWED_BY_USER'', ''318''),
     (''VL_PRICE_STALE'', ''320''),
     (''LP_CALLER_NOT_LEND_POOL_CONFIGURATOR'', ''400''),
     (''LP_IS_PAUSED'', ''401''),
     (''LP_NO_MORE_RESERVES_ALLOWED'', ''402''),
     (''LP_NOT_CONTRACT'', ''403''),
     (''LP_BORROW_NOT_EXCEED_LIQUIDATION_THRESHOLD'', ''404''),
     (''LP_BORROW_IS_EXCEED_LIQUIDATION_PRICE'', ''405''),
     (''LP_NO_MORE_NFTS_ALLOWED'', ''406''),
     (''LP_INVALIED_USER_NFT_AMOUNT'', ''407''),
     (''LP_INCONSISTENT_PARAMS'', ''408''),
     (''LP_NFT_IS_NOT_USED_AS_COLLATERAL'', ''409''),
     (''LP_CALLER_MUST_BE_AN_BTOKEN'', ''410''),
     (''LP_INVALIED_NFT_AMOUNT'', ''411''),
     (''LP_NFT_HAS_USED_AS_COLLATERAL'', ''412''),
     (''LP_DELEGATE_CALL_FAILED'', ''413''),
     (''LP_AMOUNT_LESS_THAN_EXTRA_DEBT'', ''414''),
     (''LP_AMOUNT_LESS_THAN_REDEEM_THRESHOLD'', ''415''),
     (''LP_AMOUNT_GREATER_THAN_MAX_REPAY'', ''416''),
     (''LP_NFT_TOKEN_ID_EXCEED_MAX_LIMIT'', ''417''),
     (''LP_NFT_SUPPLY_NUM_EXCEED_MAX_LIMIT'', ''418''),
     (''LP_CALLER_NOT_VALID_INTERCEPTOR'', ''419''),
     (''LP_CALLER_NOT_VALID_LOCKER'', ''420''),
     (''LPL_INVALID_LOAN_STATE'', ''480''),
     (''LPL_INVALID_LOAN_AMOUNT'', ''481''),
     (''LPL_INVALID_TAKEN_AMOUNT'', ''482''),
     (''LPL_AMOUNT_OVERFLOW'', ''483''),
     (''LPL_BID_PRICE_LESS_THAN_LIQUIDATION_PRICE'', ''484''),
     (''LPL_BID_PRICE_LESS_THAN_HIGHEST_PRICE'', ''485''),
     (''LPL_BID_REDEEM_DURATION_HAS_END'', ''486''),
     (''LPL_BID_USER_NOT_SAME'', ''487''),
     (''LPL_BID_REPAY_AMOUNT_NOT_ENOUGH'', ''488''),
     (''LPL_BID_AUCTION_DURATION_HAS_END'', ''489''),
     (''LPL_BID_AUCTION_DURATION_NOT_END'', ''490''),
     (''LPL_BID_PRICE_LESS_THAN_BORROW'', ''491''),
     (''LPL_INVALID_BIDDER_ADDRESS'', ''492''),
     (''LPL_AMOUNT_LESS_THAN_BID_FINE'', ''493''),
     (''LPL_BID_INVALID_BID_FINE'', ''494''),
     (''CT_CALLER_MUST_BE_LEND_POOL'', ''500''),
     (''CT_INVALID_MINT_AMOUNT'', ''501''),
     (''CT_INVALID_BURN_AMOUNT'', ''502''),
     (''CT_BORROW_ALLOWANCE_NOT_ENOUGH'', ''503''),
     (''RL_RESERVE_ALREADY_INITIALIZED'', ''601''),
     (''RL_LIQUIDITY_INDEX_OVERFLOW'', ''602''),
     (''RL_VARIABLE_BORROW_INDEX_OVERFLOW'', ''603''),
     (''RL_LIQUIDITY_RATE_OVERFLOW'', ''604''),
     (''RL_VARIABLE_BORROW_RATE_OVERFLOW'', ''605''),
     (''LPC_RESERVE_LIQUIDITY_NOT_0'', ''700''),
     (''LPC_INVALID_CONFIGURATION'', ''701''),
     (''LPC_CALLER_NOT_EMERGENCY_ADMIN'', ''702''),
     (''LPC_INVALIED_BNFT_ADDRESS'', ''703''),
     (''LPC_INVALIED_LOAN_ADDRESS'', ''704''),
     (''LPC_NFT_LIQUIDITY_NOT_0'', ''705''),
     (''RC_INVALID_LTV'', ''730''),
     (''RC_INVALID_LIQ_THRESHOLD'', ''731''),
     (''RC_INVALID_LIQ_BONUS'', ''732''),
     (''RC_INVALID_DECIMALS'', ''733''),
     (''RC_INVALID_RESERVE_FACTOR'', ''734''),
     (''RC_INVALID_REDEEM_DURATION'', ''735''),
     (''RC_INVALID_AUCTION_DURATION'', ''736''),
     (''RC_INVALID_REDEEM_FINE'', ''737''),
     (''LPAPR_PROVIDER_NOT_REGISTERED'', ''760''),
     (''LPAPR_INVALID_ADDRESSES_PROVIDER_ID'', ''761''),
     (''INVALID_OWNER_REVERT_MSG'', ''Ownable: caller is not the owner''),
     (''TRANSFER_AMOUNT_EXCEEDS_BALANCE'', ''ERC20: transfer amount exceeds balance''),
     (''SAFEERC20_LOWLEVEL_CALL'', ''SafeERC20: low-level call failed'')]"

datatype ProtocolLoanState = LS_None | LS_Created | LS_Active | LS_Auction | LS_Repaid | LS_Defaulted

fun loan_state_code :: "ProtocolLoanState \<Rightarrow> nat" where
  "loan_state_code LS_None = 0"
| "loan_state_code LS_Created = 1"
| "loan_state_code LS_Active = 2"
| "loan_state_code LS_Auction = 3"
| "loan_state_code LS_Repaid = 4"
| "loan_state_code LS_Defaulted = 5"

definition TokenContractId :: "string list" where
  "TokenContractId = [
     ''WETH'',
     ''DAI'',
     ''USDC'',
     ''USDT'']"

definition NftContractId :: "string list" where
  "NftContractId = [
     ''WPUNKS'',
     ''BAYC'',
     ''DOODLE'',
     ''SDOODLE'',
     ''MAYC'',
     ''CLONEX'',
     ''AZUKI'',
     ''WKODA'']"

definition contract_ids :: "string list" where
  "contract_ids = obj_keys eContractid"

text \<open>Every name of a contract in the scripts is a member of the enumeration.\<close>

lemma contract_ids_mem [simp]:
  "''MintableERC20'' \<in> set contract_ids"
  "''MintableERC721'' \<in> set contract_ids"
  "''LendPoolAddressesProvider'' \<in> set contract_ids"
  "''LendPoolAddressesProviderRegistry'' \<in> set contract_ids"
  "''LendPoolParametersProvider'' \<in> set contract_ids"
  "''LendPoolConfigurator'' \<in> set contract_ids"
  "''ValidationLogic'' \<in> set contract_ids"
  "''ReserveLogic'' \<in> set contract_ids"
  "''NftLogic'' \<in> set contract_ids"
  "''GenericLogic'' \<in> set contract_ids"
  "''SupplyLogic'' \<in> set contract_ids"
  "''BorrowLogic'' \<in> set contract_ids"
  "''LiquidateLogic'' \<in> set contract_ids"
  "''ConfiguratorLogic'' \<in> set contract_ids"
  "''LendPool'' \<in> set contract_ids"
  "''LendPoolLoan'' \<in> set contract_ids"
  "''ReserveOracle'' \<in> set contract_ids"
  "''ReserveOracleImpl'' \<in> set contract_ids"
  "''NFTOracle'' \<in> set contract_ids"
  "''NFTOracleImpl'' \<in> set contract_ids"
  "''TokenOracle'' \<in> set contract_ids"
  "''TokenOracleImpl'' \<in> set contract_ids"
  "''Proxy'' \<in> set contract_ids"
  "''MockChainlinkOracle'' \<in> set contract_ids"
  "''MockNFTOracle'' \<in> set contract_ids"
  "''MockReserveOracle'' \<in> set contract_ids"
  "''ChainlinkAggregatorHelper'' \<in> set contract_ids"
  "''ChainlinkAggregatorHelperImpl'' \<in> set contract_ids"
  "''InterestRate'' \<in> set contract_ids"
  "''BendUpgradeableProxy'' \<in> set contract_ids"
  "''BendProxyAdminTest'' \<in> set contract_ids"
  "''BendProxyAdminPool'' \<in> set contract_ids"
  "''BendProxyAdminFund'' \<in> set contract_ids"
  "''BendProxyAdminWTL'' \<in> set contract_ids"
  "''BendV2ProxyAdmin'' \<in> set contract_ids"
  "''WalletBalanceProvider'' \<in> set contract_ids"
  "''BToken'' \<in> set contract_ids"
  "''DebtToken'' \<in> set contract_ids"
  "''BNFT'' \<in> set contract_ids"
  "''MockBNFT'' \<in> set contract_ids"
  "''BendProtocolDataProvider'' \<in> set contract_ids"
  "''IERC20Detailed'' \<in> set contract_ids"
  "''IERC721Detailed'' \<in> set contract_ids"
  "''FeeProvider'' \<in> set contract_ids"
  "''WETHGateway'' \<in> set contract_ids"
  "''WETHGatewayImpl'' \<in> set contract_ids"
  "''WETH'' \<in> set contract_ids"
  "''WETHMocked'' \<in> set contract_ids"
  "''WPUNKSGateway'' \<in> set contract_ids"
  "''WPUNKS'' \<in> set contract_ids"
  "''WPUNKSMocked'' \<in> set contract_ids"
  "''SelfdestructTransferMock'' \<in> set contract_ids"
  "''LendPoolImpl'' \<in> set contract_ids"
  "''LendPoolConfiguratorImpl'' \<in> set contract_ids"
  "''LendPoolLoanImpl'' \<in> set contract_ids"
  "''BNFTRegistry'' \<in> set contract_ids"
  "''BNFTRegistryImpl'' \<in> set contract_ids"
  "''CryptoPunksMarket'' \<in> set contract_ids"
  "''WrappedPunk'' \<in> set contract_ids"
  "''PunkGateway'' \<in> set contract_ids"
  "''PunkGatewayImpl'' \<in> set contract_ids"
  "''MockIncentivesController'' \<in> set contract_ids"
  "''UIPoolDataProvider'' \<in> set contract_ids"
  "''BendCollector'' \<in> set contract_ids"
  "''BendCollectorImpl'' \<in> set contract_ids"
  "''TimelockControllerFast'' \<in> set contract_ids"
  "''TimelockControllerSlow'' \<in> set contract_ids"
  "''MockLoanRepaidInterceptor'' \<in> set contract_ids"
  "''KodaGateway'' \<in> set contract_ids"
  "''KodaGatewayImpl'' \<in> set contract_ids"
  "''UniswapV3DebtSwapAdapter'' \<in> set contract_ids"
  "''UniswapV3DebtSwapAdapterImpl'' \<in> set contract_ids"
  "''WstETHPriceAggregator'' \<in> set contract_ids"
  by (simp_all add: contract_ids_def eContractid_def)

section \<open>Interfaces\<close>

record 'a per_network =
  pn_coverage :: "'a option"
  pn_hardhat :: "'a option"
  pn_localhost :: "'a option"
  pn_goerli :: "'a option"
  pn_rinkeby :: "'a option"
  pn_sepolia :: "'a option"
  pn_main :: "'a option"
  pn_monad :: "'a option"

text \<open>\<^verbatim>\<open>param[key]\<close> with a key that is only known at run time.\<close>

definition param_at :: "'a per_network \<Rightarrow> string \<Rightarrow> 'a option" where
  "param_at p k =
     (if k = ''coverage'' then pn_coverage p else
      if k = ''hardhat'' then pn_hardhat p else
      if k = ''localhost'' then pn_localhost p else
      if k = ''goerli'' then pn_goerli p else
      if k = ''rinkeby'' then pn_rinkeby p else
      if k = ''sepolia'' then pn_sepolia p else
      if k = ''main'' then pn_main p else
      if k = ''monad'' then pn_monad p else None)"

record rate_strategy =
  rs_name :: string
  optimalUtilizationRate :: string
  baseVariableBorrowRate :: string
  variableRateSlope1 :: string
  variableRateSlope2 :: string

record reserve_params =
  r_strategy :: rate_strategy
  r_baseLTVAsCollateral :: string
  r_liquidationThreshold :: string
  r_liquidationBonus :: string
  borrowingEnabled :: bool
  reserveDecimals :: string
  bTokenImpl :: string
  reserveFactor :: string

record nft_params =
  baseLTVAsCollateral :: string
  liquidationThreshold :: string
  liquidationBonus :: string
  redeemDuration :: string
  auctionDuration :: string
  redeemFine :: string
  redeemThreshold :: string
  minBidFine :: string
  bNftImpl :: string
  maxSupply :: string
  maxTokenId :: string

record protocol_global_config =
  MockUsdPrice :: string
  UsdAddress :: string
  NilAddress :: string
  OneAddress :: string

record mocks_config =
  BNftNamePrefix :: string
  BNftSymbolPrefix :: string
  AllAssetsInitialPrices :: "string obj"
  AllNftsInitialPrices :: "string obj"

record pool_config =
  MarketId :: string
  BTokenNamePrefix :: string
  BTokenSymbolPrefix :: string
  DebtTokenNamePrefix :: string
  DebtTokenSymbolPrefix :: string
  ProviderId :: int
  ProtocolGlobalParams :: protocol_global_config
  Mocks :: mocks_config
  ProxyAdminPool :: "string per_network"
  ProxyAdminFund :: "string per_network"
  ProxyAdminWTL :: "string per_network"
  BNFTRegistry :: "string per_network"
  ProviderRegistry :: "string per_network"
  ProviderRegistryOwner :: "string per_network"
  ReserveOracle :: "string per_network"
  NFTOracle :: "string per_network"
  PoolAdmin :: "string per_network"
  PoolAdminIndex :: nat
  EmergencyAdmin :: "string per_network"
  EmergencyAdminIndex :: nat
  ReserveAggregators :: "string obj per_network"
  ReserveAssets :: "string obj per_network"
  ReservesConfig :: "reserve_params obj"
  NftsAssets :: "string obj per_network"
  NftsConfig :: "nft_params obj"
  WrappedNativeToken :: "string per_network"
  CryptoPunksMarket :: "string per_network"
  WrappedPunkToken :: "string per_network"
  ReserveFactorCollectorAddress :: "string per_network"
  IncentivesController :: "string per_network"
  DebtTokenImplementation :: "string per_network option"
  OracleQuoteCurrency :: string
  OracleQuoteUnit :: string

text \<open>
  \<^verbatim>\<open>poolConfig[id]\<close> for a contract id: the members that are addresses per network and
  whose name is also a contract id; every other id is \<^verbatim>\<open>undefined\<close>.
\<close>

definition config_param :: "pool_config \<Rightarrow> string \<Rightarrow> string per_network option" where
  "config_param cfg k =
     (if k = ''BNFTRegistry'' then Some (BNFTRegistry cfg) else
      if k = ''ReserveOracle'' then Some (ReserveOracle cfg) else
      if k = ''NFTOracle'' then Some (NFTOracle cfg) else
      if k = ''CryptoPunksMarket'' then Some (CryptoPunksMarket cfg) else None)"

section \<open>Constants\<close>

definition PERCENTAGE_FACTOR :: nat where "PERCENTAGE_FACTOR = 10000"
definition HALF_PERCENTAGE :: nat where "HALF_PERCENTAGE = 5000"
definition WAD :: nat where "WAD = 10 ^ 18"
definition HALF_WAD :: nat where "HALF_WAD = WAD div 2"
definition RAY :: nat where "RAY = 10 ^ 27"
definition HALF_RAY :: nat where "HALF_RAY = RAY div 2"
definition WAD_RAY_RATIO :: nat where "WAD_RAY_RATIO = 10 ^ 9"
definition oneEther :: nat where "oneEther = 10 ^ 18"
definition oneRay :: nat where "oneRay = 10 ^ 27"
definition MAX_UINT_AMOUNT :: nat where
  "MAX_UINT_AMOUNT = 115792089237316195423570985008687907853269984665640564039457584007913129639935"
definition ONE_YEAR :: nat where "ONE_YEAR = 31536000"
definition ONE_DAY :: nat where "ONE_DAY = 86400"
definition ONE_HOUR :: nat where "ONE_HOUR = 3600"
definition ZERO_ADDRESS :: string where "ZERO_ADDRESS = ''0x0000000000000000000000000000000000000000''"
definition ONE_ADDRESS :: string where "ONE_ADDRESS = ''0x0000000000000000000000000000000000000001''"
definition MOCK_USD_PRICE :: string where "MOCK_USD_PRICE = ''425107839690''"
definition USD_ADDRESS :: string where "USD_ADDRESS = ''0x9ceb4d4c184d1786614a593a03621b7f37f8685f''"
definition ADDRESS_ID_WETH_GATEWAY :: string where
  "ADDRESS_ID_WETH_GATEWAY = ''0xADDE000000000000000000000000000000000000000000000000000000000001''"
definition ADDRESS_ID_PUNK_GATEWAY :: string where
  "ADDRESS_ID_PUNK_GATEWAY = ''0xADDE000000000000000000000000000000000000000000000000000000000002''"
definition ADDRESS_ID_KODA_GATEWAY :: string where
  "ADDRESS_ID_KODA_GATEWAY = ''0xADDE000000000000000000000000000000000000000000000000000000000003''"

text \<open>
  A decimal fraction \<open>n / d\<close> of one ray or one ether, printed in full: the value that
  \<^verbatim>\<open>new BigNumber(f).multipliedBy(oneRay).toFixed()\<close> denotes.
\<close>

definition ray_frac :: "nat \<Rightarrow> nat \<Rightarrow> string" where
  "ray_frac n d = dec (n * oneRay div d)"

definition ether_frac :: "nat \<Rightarrow> nat \<Rightarrow> string" where
  "ether_frac n d = dec (n * oneEther div d)"

definition MOCK_RESERVE_AGGREGATORS_PRICES :: "string obj" where
  "MOCK_RESERVE_AGGREGATORS_PRICES =
     [(''WETH'', ether_frac 1 1),
      (''DAI'', ether_frac 233211 1000000000),
      (''USDC'', ether_frac 2349162 10000000000),
      (''USDT'', ether_frac 2359253 10000000000)]"

definition MOCK_NFT_AGGREGATORS_PRICES :: "string obj" where
  "MOCK_NFT_AGGREGATORS_PRICES =
     [(''WPUNKS'', ether_frac 6699 100),
      (''BAYC'', ether_frac 5277 100),
      (''DOODLE'', ether_frac 269 100),
      (''SDOODLE'', ether_frac 269 100),
      (''MAYC'', ether_frac 623 100),
      (''CLONEX'', ether_frac 1195 100),
      (''AZUKI'', ether_frac 1050 100),
      (''WKODA'', ether_frac 1700 100)]"

definition MOCK_NFT_BASE_URIS :: "string obj" where
  "MOCK_NFT_BASE_URIS = [
     (''WPUNKS'', ''https://wrappedpunks.com:3000/api/punks/metadata/''),
     (''BAYC'', ''ipfs://QmeSjSinHpPnmXmspMjwiXyN6zS4E9zccariGR3jxcaWtq/''),
     (''DOODLE'', ''ipfs://QmPMc4tcBsMqLRuCQtPmPe84bpSjrC3Ky7t3JWuHXYB4aS/''),
     (''COOL'', ''https://api.coolcatsnft.com/cat/''),
     (''MEEBITS'', ''https://meebits.larvalabs.com/meebit/1''),
     (''MAYC'', ''https://boredapeyachtclub.com/api/mutants/''),
     (''WOW'', ''https://wow-prod-nftribe.s3.eu-west-2.amazonaws.com/t/''),
     (''CLONEX'', ''https://clonex-assets.rtfkt.com/''),
     (''AZUKI'', ''https://ikzttp.mypinata.cloud/ipfs/QmQFkLSQysj94s5GvTHPyzTxrawwtjgiiYS2TBLgrvw8CW/''),
     (''KONGZ'', ''https://kongz.herokuapp.com/api/metadata/''),
     (''WKODA'', ''https://api.otherside.xyz/lands/'')]"

text \<open>Sanity facts that the rest of the development and the contracts rely on.\<close>

lemma distinct_contract_ids: "distinct contract_ids"
  by (simp add: contract_ids_def eContractid_def)

end
