(* ===== verification/MarketConfig.thy ===== *)
theory MarketConfig
  imports Types
begin

text \<open>
  The market configuration: \<^verbatim>\<open>markets/bend/{rateStrategies,reservesConfigs,nftsConfigs,
  commons,index}.ts\<close>.  Every constant of those files is a constant here, with the
  addresses and numbers as the files spell them.  The lemmas at the end check the
  configuration against the limits the contracts enforce on it.
\<close>

section \<open>Interest rate strategies\<close>

definition rateStrategyStableOne :: rate_strategy where
  "rateStrategyStableOne = \<lparr>rs_name = ''rateStrategyStableOne'',
     optimalUtilizationRate = ray_frac 8 10,
     baseVariableBorrowRate = ray_frac 3 100,
     variableRateSlope1 = ray_frac 4 100,
     variableRateSlope2 = ray_frac 1 1\<rparr>"

definition rateStrategyStableTwo :: rate_strategy where
  "rateStrategyStableTwo = \<lparr>rs_name = ''rateStrategyStableTwo'',
     optimalUtilizationRate = ray_frac 8 10,
     baseVariableBorrowRate = ray_frac 3 100,
     variableRateSlope1 = ray_frac 4 100,
     variableRateSlope2 = ray_frac 75 100\<rparr>"

definition rateStrategyStableThree :: rate_strategy where
  "rateStrategyStableThree = \<lparr>rs_name = ''rateStrategyStableThree'',
     optimalUtilizationRate = ray_frac 9 10,
     baseVariableBorrowRate = ray_frac 3 100,
     variableRateSlope1 = ray_frac 4 100,
     variableRateSlope2 = ray_frac 60 100\<rparr>"

definition rateStrategyWETH :: rate_strategy where
  "rateStrategyWETH = \<lparr>rs_name = ''rateStrategyWETH'',
     optimalUtilizationRate = ray_frac 65 100,
     baseVariableBorrowRate = ray_frac 3 100,
     variableRateSlope1 = ray_frac 8 100,
     variableRateSlope2 = ray_frac 1 1\<rparr>"

section \<open>Reserve strategies\<close>

definition strategyBUSD :: reserve_params where
  "strategyBUSD = \<lparr>r_strategy = rateStrategyStableOne,
     r_baseLTVAsCollateral = ''0'',
     r_liquidationThreshold = ''0'',
     r_liquidationBonus = ''0'',
     borrowingEnabled = True,
     reserveDecimals = ''18'',
     bTokenImpl = ''BToken'',
     reserveFactor = ''3000''\<rparr>"

definition strategyDAI :: reserve_params where
  "strategyDAI = \<lparr>r_strategy = rateStrategyStableTwo,
     r_baseLTVAsCollateral = ''7500'',
     r_liquidationThreshold = ''8000'',
     r_liquidationBonus = ''500'',
     borrowingEnabled = True,
     reserveDecimals = ''18'',
     bTokenImpl = ''BToken'',
     reserveFactor = ''3000''\<rparr>"

definition strategyUSDC :: reserve_params where
  "strategyUSDC = \<lparr>r_strategy = rateStrategyStableThree,
     r_baseLTVAsCollateral = ''8000'',
     r_liquidationThreshold = ''8500'',
     r_liquidationBonus = ''500'',
     borrowingEnabled = True,
     reserveDecimals = ''6'',
     bTokenImpl = ''BToken'',
     reserveFactor = ''3000''\<rparr>"

definition strategyUSDT :: reserve_params where
  "strategyUSDT = \<lparr>r_strategy = rateStrategyStableThree,
     r_baseLTVAsCollateral = ''8000'',
     r_liquidationThreshold = ''8500'',
     r_liquidationBonus = ''500'',
     borrowingEnabled = True,
     reserveDecimals = ''6'',
     bTokenImpl = ''BToken'',
     reserveFactor = ''3000''\<rparr>"

definition strategyWETH :: reserve_params where
  "strategyWETH = \<lparr>r_strategy = rateStrategyWETH,
     r_baseLTVAsCollateral = ''8000'',
     r_liquidationThreshold = ''8250'',
     r_liquidationBonus = ''500'',
     borrowingEnabled = True,
     reserveDecimals = ''18'',
     bTokenImpl = ''BToken'',
     reserveFactor = ''3000''\<rparr>"

definition strategyReserveParams :: "reserve_params obj" where
  "strategyReserveParams = [
     (''WETH'', strategyWETH),
     (''USDT'', strategyUSDT),
     (''USDC'', strategyUSDC),
     (''DAI'', strategyDAI)]"

section \<open>NFT strategies\<close>

definition strategyNftClassA :: nft_params where
  "strategyNftClassA = \<lparr>baseLTVAsCollateral = ''5000'',
     liquidationThreshold = ''9000'',
     liquidationBonus = ''10000'',
     redeemDuration = ''4'',
     auctionDuration = ''4'',
     redeemFine = ''500'',
     redeemThreshold = ''5000'',
     minBidFine = ''2000'',
     bNftImpl = ''BNFT'',
     maxSupply = ''0'',
     maxTokenId = ''0''\<rparr>"

definition strategyNftClassB :: nft_params where
  "strategyNftClassB = \<lparr>baseLTVAsCollateral = ''4000'',
     liquidationThreshold = ''9000'',
     liquidationBonus = ''10000'',
     redeemDuration = ''4'',
     auctionDuration = ''4'',
     redeemFine = ''500'',
     redeemThreshold = ''5000'',
     minBidFine = ''2000'',
     bNftImpl = ''BNFT'',
     maxSupply = ''0'',
     maxTokenId = ''0''\<rparr>"

definition strategyNftClassC :: nft_params where
  "strategyNftClassC = \<lparr>baseLTVAsCollateral = ''3000'',
     liquidationThreshold = ''9000'',
     liquidationBonus = ''10000'',
     redeemDuration = ''4'',
     auctionDuration = ''4'',
     redeemFine = ''500'',
     redeemThreshold = ''5000'',
     minBidFine = ''2000'',
     bNftImpl = ''BNFT'',
     maxSupply = ''0'',
     maxTokenId = ''0''\<rparr>"

definition strategyNftClassD :: nft_params where
  "strategyNftClassD = \<lparr>baseLTVAsCollateral = ''2000'',
     liquidationThreshold = ''9000'',
     liquidationBonus = ''10000'',
     redeemDuration = ''4'',
     auctionDuration = ''4'',
     redeemFine = ''500'',
     redeemThreshold = ''5000'',
     minBidFine = ''2000'',
     bNftImpl = ''BNFT'',
     maxSupply = ''0'',
     maxTokenId = ''0''\<rparr>"

definition strategyNftClassE :: nft_params where
  "strategyNftClassE = \<lparr>baseLTVAsCollateral = ''1000'',
     liquidationThreshold = ''9000'',
     liquidationBonus = ''10000'',
     redeemDuration = ''4'',
     auctionDuration = ''4'',
     redeemFine = ''500'',
     redeemThreshold = ''5000'',
     minBidFine = ''2000'',
     bNftImpl = ''BNFT'',
     maxSupply = ''0'',
     maxTokenId = ''0''\<rparr>"

definition strategyNft_WPUNKS :: nft_params where
  "strategyNft_WPUNKS = strategyNftClassB\<lparr>maxSupply := ''10000'', maxTokenId := ''9999''\<rparr>"

definition strategyNft_MOLANDAKS :: nft_params where
  "strategyNft_MOLANDAKS = strategyNftClassC\<lparr>maxSupply := ''3333'', maxTokenId := ''99999''\<rparr>"

definition strategyNft_CHEWY :: nft_params where
  "strategyNft_CHEWY = strategyNftClassC\<lparr>maxSupply := ''2448'', maxTokenId := ''99999''\<rparr>"

definition strategyNft_SKRUMPEYS :: nft_params where
  "strategyNft_SKRUMPEYS = strategyNftClassC\<lparr>maxSupply := ''3333'', maxTokenId := ''99999''\<rparr>"

definition strategyNft_CHOG :: nft_params where
  "strategyNft_CHOG = strategyNftClassC\<lparr>maxSupply := ''0'', maxTokenId := ''0''\<rparr>"

definition strategyNft_BAYC :: nft_params where
  "strategyNft_BAYC = strategyNftClassB\<lparr>maxSupply := ''10000'', maxTokenId := ''9999''\<rparr>"

definition strategyNft_DOODLE :: nft_params where
  "strategyNft_DOODLE = strategyNftClassB\<lparr>maxSupply := ''10000'', maxTokenId := ''9999''\<rparr>"

definition strategyNft_MAYC :: nft_params where
  "strategyNft_MAYC = strategyNftClassB\<lparr>maxSupply := ''20000'', maxTokenId := ''30007''\<rparr>"

definition strategyNft_CLONEX :: nft_params where
  "strategyNft_CLONEX = strategyNftClassB\<lparr>maxSupply := ''20000'', maxTokenId := ''19999''\<rparr>"

definition strategyNft_AZUKI :: nft_params where
  "strategyNft_AZUKI = strategyNftClassB\<lparr>maxSupply := ''10000'', maxTokenId := ''9999''\<rparr>"

definition strategyNft_KONGZ :: nft_params where
  "strategyNft_KONGZ = strategyNftClassB\<lparr>maxSupply := ''5000'', maxTokenId := ''5000''\<rparr>"

definition strategyNft_COOL :: nft_params where
  "strategyNft_COOL = strategyNftClassB\<lparr>maxSupply := ''10000'', maxTokenId := ''9999''\<rparr>"

definition strategyNft_MEEBITS :: nft_params where
  "strategyNft_MEEBITS = strategyNftClassB\<lparr>maxSupply := ''20000'', maxTokenId := ''19999''\<rparr>"

definition strategyNft_WOW :: nft_params where
  "strategyNft_WOW = strategyNftClassB\<lparr>maxSupply := ''10000'', maxTokenId := ''9999''\<rparr>"

definition strategyNft_WKODA :: nft_params where
  "strategyNft_WKODA = strategyNftClassB\<lparr>maxSupply := ''10000'', maxTokenId := ''99999''\<rparr>"

definition strategyNftParams :: "nft_params obj" where
  "strategyNftParams = [
     (''ClassA'', strategyNftClassA),
     (''ClassB'', strategyNftClassB),
     (''ClassC'', strategyNftClassC),
     (''ClassD'', strategyNftClassD),
     (''ClassE'', strategyNftClassE),
     (''WPUNKS'', strategyNft_WPUNKS),
     (''BAYC'', strategyNft_BAYC),
     (''DOODLE'', strategyNft_DOODLE),
     (''SDOODLE'', strategyNft_DOODLE),
     (''MAYC'', strategyNft_MAYC),
     (''CLONEX'', strategyNft_CLONEX),
     (''AZUKI'', strategyNft_AZUKI),
     (''KONGZ'', strategyNft_KONGZ),
     (''COOL'', strategyNft_COOL),
     (''MEEBITS'', strategyNft_MEEBITS),
     (''WOW'', strategyNft_WOW),
     (''WKODA'', strategyNft_WKODA)]"

section \<open>The configuration shared by the markets\<close>

definition commons_ProxyAdminPool :: "string per_network" where
  "commons_ProxyAdminPool = \<lparr>pn_coverage = None,
     pn_hardhat = None,
     pn_localhost = None,
     pn_goerli = Some ''0x19Fc1F11e1BEA5317ce54d97bbf5675a38e2F4a3'',
     pn_rinkeby = Some ''0xC019619F15aF1f96A695aBA39478e64ABcAa474b'',
     pn_sepolia = Some ''0x60E1dD31C415687d64855ec5A3F5367cDF4e2D8A'',
     pn_main = Some ''0x501c991E0D31D408c25bCf00da27BdF2759A394a'',
     pn_monad = None\<rparr>"

definition commons_ProxyAdminFund :: "string per_network" where
  "commons_ProxyAdminFund = \<lparr>pn_coverage = None,
     pn_hardhat = None,
     pn_localhost = None,
     pn_goerli = Some ''0xd9E1e945e042fa29cD984cb0f280ae5Ce990D993'',
     pn_rinkeby = Some ''0x64DA9D7651CA78caAB756740C6057e2b7B1E63De'',
     pn_sepolia = Some ''0x575a6BDCB1AAc7C3655f6a52A7c4e355b209DaBB'',
     pn_main = Some ''0x2A71a0F5cef1fFc519027AD12f19453110e70666'',
     pn_monad = None\<rparr>"

definition commons_ProxyAdminWTL :: "string per_network" where
  "commons_ProxyAdminWTL = \<lparr>pn_coverage = None,
     pn_hardhat = None,
     pn_localhost = None,
     pn_goerli = Some ''0x1055d0961CE2E1aF92f57b208171B90f8f1c7916'',
     pn_rinkeby = None,
     pn_sepolia = Some ''0x15c2Ae6eE45b57f592e6DcDf7C06a2d956c98d03'',
     pn_main = None,
     pn_monad = None\<rparr>"

definition commons_PoolAdmin :: "string per_network" where
  "commons_PoolAdmin = \<lparr>pn_coverage = None,
     pn_hardhat = None,
     pn_localhost = None,
     pn_goerli = Some ''0xafF5C36642385b6c7Aaf7585eC785aB2316b5db6'',
     pn_rinkeby = Some ''0xafF5C36642385b6c7Aaf7585eC785aB2316b5db6'',
     pn_sepolia = Some ''0xafF5C36642385b6c7Aaf7585eC785aB2316b5db6'',
     pn_main = Some ''0x868964fa49a6fd6e116FE82c8f4165904406f479'',
     pn_monad = None\<rparr>"

definition commons_EmergencyAdmin :: "string per_network" where
  "commons_EmergencyAdmin = \<lparr>pn_coverage = None,
     pn_hardhat = None,
     pn_localhost = None,
     pn_goerli = Some ''0xFc6a5b329340719b2693C2c74a5D056cf4f93FB0'',
     pn_rinkeby = Some ''0xFc6a5b329340719b2693C2c74a5D056cf4f93FB0'',
     pn_sepolia = Some ''0xFc6a5b329340719b2693C2c74a5D056cf4f93FB0'',
     pn_main = Some ''0x2CFa21b4dEc4409670899d05b8644e9C432250de'',
     pn_monad = None\<rparr>"

definition commons_BNFTRegistry :: "string per_network" where
  "commons_BNFTRegistry = \<lparr>pn_coverage = Some '''',
     pn_hardhat = Some '''',
     pn_localhost = Some ''0xCE1e5D792d24F62b29D35DeB85eC04b1F66447b1'',
     pn_goerli = Some ''0x37A76Db446bDB3EF1b73112a8D5E6868de06464f'',
     pn_rinkeby = Some ''0xB873F088EB721261bc88BbC739B5C794e02e414b'',
     pn_sepolia = Some ''0x694b86Deef7C2C06d4C40A07a5995815C444170D'',
     pn_main = Some ''0x79d922DD382E42A156bC0A354861cDBC4F09110d'',
     pn_monad = Some ''''\<rparr>"

definition commons_ProviderRegistry :: "string per_network" where
  "commons_ProviderRegistry = \<lparr>pn_coverage = Some '''',
     pn_hardhat = Some '''',
     pn_localhost = Some '''',
     pn_goerli = Some ''0x5eff819a886474503004d39C64b5c057FFD6fAe2'',
     pn_rinkeby = Some ''0xE199f7a0173FEAfb8c0085b2724b544a7c614273'',
     pn_sepolia = Some ''0x4e762Cd5695F9217E04c77df98BA9DcDadb6Cc33'',
     pn_main = Some ''0x2C16905Dfd953cf3BF3960c4A101c1eEBBd37E32'',
     pn_monad = Some ''''\<rparr>"

definition commons_ProviderRegistryOwner :: "string per_network" where
  "commons_ProviderRegistryOwner = \<lparr>pn_coverage = Some '''',
     pn_hardhat = Some '''',
     pn_localhost = Some '''',
     pn_goerli = Some ''0xafF5C36642385b6c7Aaf7585eC785aB2316b5db6'',
     pn_rinkeby = Some ''0xafF5C36642385b6c7Aaf7585eC785aB2316b5db6'',
     pn_sepolia = Some ''0xafF5C36642385b6c7Aaf7585eC785aB2316b5db6'',
     pn_main = Some ''0x868964fa49a6fd6e116FE82c8f4165904406f479'',
     pn_monad = None\<rparr>"

definition commons_ReserveOracle :: "string per_network" where
  "commons_ReserveOracle = \<lparr>pn_coverage = Some '''',
     pn_hardhat = Some '''',
     pn_localhost = Some '''',
     pn_goerli = Some ''0xFFC171ff66bba4303Ea8334d08dB5779daF860a3'',
     pn_rinkeby = Some ''0xEEa5BC7BEB4DD341E8BBa230E22df9CA45f0AE19'',
     pn_sepolia = Some ''0x0EBbD387769f012a3Bbf65eaCb4Ec3db3c7693f6'',
     pn_main = Some ''0x16ca3E500dA893cF2EEBb6b401247e68ca5BC072'',
     pn_monad = None\<rparr>"

definition commons_NFTOracle :: "string per_network" where
  "commons_NFTOracle = \<lparr>pn_coverage = Some '''',
     pn_hardhat = Some '''',
     pn_localhost = Some '''',
     pn_goerli = Some ''0xE7E268cC1D025906fe8f6b076ecc40FF1a8dfA61'',
     pn_rinkeby = Some ''0x04af5eF6100E1025560Be50FF244CB31f60d08c2'',
     pn_sepolia = Some ''0xF143144Fb2703C8aeefD0c4D06d29F5Bb0a9C60A'',
     pn_main = Some ''0x7C2A19e54e48718f6C60908a9Cff3396E4Ea1eBA'',
     pn_monad = None\<rparr>"

definition commons_WrappedNativeToken :: "string per_network" where
  "commons_WrappedNativeToken = \<lparr>pn_coverage = Some '''',
     pn_hardhat = Some '''',
     pn_localhost = Some ''0xB4B4ead1A260F1572b88b9D8ABa5A152D166c104'',
     pn_goerli = Some ''0xB4FBF271143F4FBf7B91A5ded31805e42b2208d6'',
     pn_rinkeby = Some ''0xc778417E063141139Fce010982780140Aa0cD5Ab'',
     pn_sepolia = Some ''0xfFf9976782d46CC05630D1f6eBAb18b2324d6B14'',
     pn_main = Some ''0xc02aaa39b223fe8d0a0e5c4f27ead9083c756cc2'',
     pn_monad = Some ''0x3bd359C1119dA7Da1D913D1C4D2B7c461115433A''\<rparr>"

definition commons_CryptoPunksMarket :: "string per_network" where
  "commons_CryptoPunksMarket = \<lparr>pn_coverage = Some '''',
     pn_hardhat = Some '''',
     pn_localhost = Some ''0xb2f97A3c2E48cd36824615801BCeE0Df2eC390'',
     pn_goerli = Some ''0xBccC7a1E79215EC3FD36824615801BCeE0Df2eC3'',
     pn_rinkeby = Some ''0x6389eA3Cf6dE815ba76d7Cf4C6Db6A7093471bcb'',
     pn_sepolia = Some ''0x554309B0888c37139D6E31aBAe30B4502915B5DB'',
     pn_main = Some ''0xb47e3cd837ddf8e4c57f05d70ab865de6e193bbb'',
     pn_monad = Some ''''\<rparr>"

definition commons_WrappedPunkToken :: "string per_network" where
  "commons_WrappedPunkToken = \<lparr>pn_coverage = Some '''',
     pn_hardhat = Some '''',
     pn_localhost = Some ''0x5a60c5d89A0A0e08ae0CAe73453e3AcC9C335847'',
     pn_goerli = Some ''0xbeD1e8B430FD512b82A18cb121a8442F3889E505'',
     pn_rinkeby = Some ''0x74e4418A41169Fb951Ca886976ccd8b36968c4Ab'',
     pn_sepolia = Some ''0x647dc527Bd7dFEE4DD468cE6fC62FC50fa42BD8b'',
     pn_main = Some ''0xb7F7F6C52F2e2fdb1963Eab30438024864c313F6'',
     pn_monad = Some ''''\<rparr>"

definition commons_ReserveFactorCollectorAddress :: "string per_network" where
  "commons_ReserveFactorCollectorAddress = \<lparr>pn_coverage = Some ''0xafF5C36642385b6c7Aaf7585eC785aB2316b5db6'',
     pn_hardhat = Some ''0xafF5C36642385b6c7Aaf7585eC785aB2316b5db6'',
     pn_localhost = Some ''0xafF5C36642385b6c7Aaf7585eC785aB2316b5db6'',
     pn_goerli = Some ''0x32B08f895d93a207e8A5C9405870D780A43b25Dd'',
     pn_rinkeby = Some ''0x7A02EE743Aadca63d60945971B7eD12c7f26b6d2'',
     pn_sepolia = Some ''0xdd3eC916c0B438b9DB2Ee675cBD412c46763a641'',
     pn_main = Some ''0x43078AbfB76bd24885Fd64eFFB22049f92a8c495'',
     pn_monad = Some ''0x0000000000000000000000000000000000000001''\<rparr>"

definition commons_IncentivesController :: "string per_network" where
  "commons_IncentivesController = \<lparr>pn_coverage = Some ZERO_ADDRESS,
     pn_hardhat = Some ZERO_ADDRESS,
     pn_localhost = Some ''0x1eaA4a267eDcde0eB5e08D08810Aa1696b123a2D'',
     pn_goerli = Some ''0x292F693048208184320C01e0C223D624268e5EE7'',
     pn_rinkeby = Some ''0xD800e97aE32b06C1e89ca5126c7bF6aEF89D6B24'',
     pn_sepolia = Some ''0x06A13f172ADce6fdE761c9A2Ff2d0ad50e9e38d0'',
     pn_main = Some ''0x26FC1f11E612366d3367fc0cbFfF9e819da91C8d'',
     pn_monad = Some ZERO_ADDRESS\<rparr>"

definition commons_ReserveAggregators :: "string obj per_network" where
  "commons_ReserveAggregators = \<lparr>pn_coverage = Some [],
     pn_hardhat = Some [],
     pn_localhost = Some [(''DAI'', ''0x10F6794a3Df86bD8B97c7d6D625BAB54677D443b''),
       (''USDC'', ''0x2cC3790f7CF280fA898E4913CA980410cF38e53b''),
       (''USD'', ''0x6B8dcBD1bb131ED184221902df1Fe21019ccD7dc'')],
     pn_goerli = Some [(''USD'', ''0xD4a33860578De61DBAbDc8BFdb98FD742fA7028e''),
       (''USDT'', ''0xF82ced221150d59ac33D42bfc4b0f1ED845B2da6'')],
     pn_rinkeby = Some [(''DAI'', ''0x74825DbC8BF76CC4e9494d0ecB210f676Efa001D''),
       (''USDC'', ''0xdCA36F27cbC4E38aE16C4E9f99D39b42337F6dcf''),
       (''USD'', ''0x8A753747A1Fa494EC906cE90E9f37563A8AF630e'')],
     pn_sepolia = Some [(''USD'', ''0x694AA1769357215DE4FAC081bf1f309aDC325306'')],
     pn_main = Some [(''USD'', ''0x5f4eC3Df9cbd43714FE2740f5E3616155c5b8419''),
       (''USDT'', ''0xEe9F2375b4bdF6387aa8265dD4FB8F16512A1d46''),
       (''DAI'', ''0x773616E4d11A78F511299002da57A0a94577F1f4''),
       (''USDC'', ''0x986b5E1e1755e3C2440e960477f25201B0a8bbD4'')],
     pn_monad = Some []\<rparr>"

definition commons_ReserveAssets :: "string obj per_network" where
  "commons_ReserveAssets = \<lparr>pn_coverage = Some [],
     pn_hardhat = Some [],
     pn_localhost = Some [],
     pn_goerli = Some [],
     pn_rinkeby = Some [],
     pn_sepolia = Some [],
     pn_main = Some [],
     pn_monad = Some []\<rparr>"

definition commons_NftsAssets :: "string obj per_network" where
  "commons_NftsAssets = \<lparr>pn_coverage = Some [],
     pn_hardhat = Some [],
     pn_localhost = Some [],
     pn_goerli = Some [],
     pn_rinkeby = Some [],
     pn_sepolia = Some [],
     pn_main = Some [],
     pn_monad = Some []\<rparr>"

definition commons_Mocks :: mocks_config where
  "commons_Mocks = \<lparr>BNftNamePrefix = ''Bound NFT'', BNftSymbolPrefix = ''bound'',
     AllAssetsInitialPrices = MOCK_RESERVE_AGGREGATORS_PRICES,
     AllNftsInitialPrices = MOCK_NFT_AGGREGATORS_PRICES\<rparr>"

definition commons_ProtocolGlobalParams :: protocol_global_config where
  "commons_ProtocolGlobalParams = \<lparr>MockUsdPrice = ''425107839690'',
     UsdAddress = ''0x9ceb4d4c184d1786614a593a03621b7f37f8685f'',
     NilAddress = ''0x0000000000000000000000000000000000000000'',
     OneAddress = ''0x0000000000000000000000000000000000000001''\<rparr>"

definition CommonsConfig :: pool_config where
  "CommonsConfig = \<lparr>MarketId = ''Commons'',
     BTokenNamePrefix = ''Bend interest bearing'',
     BTokenSymbolPrefix = ''bend'',
     DebtTokenNamePrefix = ''Bend debt bearing'',
     DebtTokenSymbolPrefix = ''bendDebt'',
     ProviderId = 0,
     ProtocolGlobalParams = commons_ProtocolGlobalParams,
     Mocks = commons_Mocks,
     ProxyAdminPool = commons_ProxyAdminPool,
     ProxyAdminFund = commons_ProxyAdminFund,
     ProxyAdminWTL = commons_ProxyAdminWTL,
     BNFTRegistry = commons_BNFTRegistry,
     ProviderRegistry = commons_ProviderRegistry,
     ProviderRegistryOwner = commons_ProviderRegistryOwner,
     ReserveOracle = commons_ReserveOracle,
     NFTOracle = commons_NFTOracle,
     PoolAdmin = commons_PoolAdmin,
     PoolAdminIndex = 1,
     EmergencyAdmin = commons_EmergencyAdmin,
     EmergencyAdminIndex = 2,
     ReserveAggregators = commons_ReserveAggregators,
     ReserveAssets = commons_ReserveAssets,
     ReservesConfig = [],
     NftsAssets = commons_NftsAssets,
     NftsConfig = [],
     WrappedNativeToken = commons_WrappedNativeToken,
     CryptoPunksMarket = commons_CryptoPunksMarket,
     WrappedPunkToken = commons_WrappedPunkToken,
     ReserveFactorCollectorAddress = commons_ReserveFactorCollectorAddress,
     IncentivesController = commons_IncentivesController,
     DebtTokenImplementation = None,
     OracleQuoteCurrency = ''ETH'',
     OracleQuoteUnit = dec oneEther\<rparr>"

section \<open>The Bend market\<close>

definition bend_ReservesConfig :: "reserve_params obj" where
  "bend_ReservesConfig = [
     (''WETH'', strategyWETH),
     (''DAI'', strategyDAI),
     (''USDC'', strategyUSDC),
     (''USDT'', strategyUSDT)]"

definition bend_NftsConfig :: "nft_params obj" where
  "bend_NftsConfig = [
     (''WPUNKS'', strategyNft_WPUNKS),
     (''BAYC'', strategyNft_BAYC),
     (''DOODLE'', strategyNft_DOODLE),
     (''SDOODLE'', strategyNft_DOODLE),
     (''MAYC'', strategyNft_MAYC),
     (''CLONEX'', strategyNft_CLONEX),
     (''AZUKI'', strategyNft_AZUKI),
     (''WKODA'', strategyNft_WKODA),
     (''MOLANDAKS'', strategyNft_MOLANDAKS),
     (''CHEWY'', strategyNft_CHEWY),
     (''SKRUMPEYS'', strategyNft_SKRUMPEYS),
     (''CHOG'', strategyNft_CHOG)]"

definition bend_ReserveAssets :: "string obj per_network" where
  "bend_ReserveAssets = \<lparr>pn_coverage = Some [],
     pn_hardhat = Some [],
     pn_localhost = Some [(''WETH'', ''0xB4B4ead1A260F1572b88b9D8ABa5A152D166c104''),
       (''DAI'', ''0xa05ffF82bcC0C599984b0839218DC6ee9328d1Fb''),
       (''USDC'', ''0x025FE4760c6f14dE878C22cEb09A3235F16dAe53'')],
     pn_goerli = Some [(''WETH'', ''0xB4FBF271143F4FBf7B91A5ded31805e42b2208d6''),
       (''USDT'', ''0x8096Fd3B381164af8421F25c84063B8afC637fE5'')],
     pn_rinkeby = Some [(''WETH'', ''0xc778417E063141139Fce010982780140Aa0cD5Ab''),
       (''DAI'', ''0x51EA2fEb1b1EB0891595f846456068D497734ca4''),
       (''USDC'', ''0xB07416EFa22C8A502ff3845D3c0BdA400f929cB8'')],
     pn_sepolia = Some [(''WETH'', ''0xfFf9976782d46CC05630D1f6eBAb18b2324d6B14'')],
     pn_main = Some [(''WETH'', ''0xC02aaA39b223FE8D0A0e5C4F27eAD9083C756Cc2'')],
     pn_monad = Some [(''WETH'', ''0x3bd359C1119dA7Da1D913D1C4D2B7c461115433A''),
       (''USDC'', ''0x754704Bc059F8C67012fEd69BC8A327a5aafb603'')]\<rparr>"

definition bend_NftsAssets :: "string obj per_network" where
  "bend_NftsAssets = \<lparr>pn_coverage = Some [],
     pn_hardhat = Some [],
     pn_localhost = Some [(''WPUNKS'', ''0x5a60c5d89A0A0e08ae0CAe73453e3AcC9C335847''),
       (''BAYC'', ''0x4e07D87De1CF586D51C3665e6a4d36eB9d99a457''),
       (''DOODLE'', ''0x2F7f69a3cd22FcfFB5E0C0fB7Ae5Eb278b3919Ff''),
       (''MAYC'', ''0x8b89F971cA1A5dE1B7df7f554a3024eE84FeeB05'')],
     pn_goerli = Some [(''WPUNKS'', ''0xbeD1e8B430FD512b82A18cb121a8442F3889E505''),
       (''BAYC'', ''0x30d190032A34d6151073a7DB8793c01Aa05987ec''),
       (''DOODLE'', ''0x317e19Fe3DB508f1A45421379FBbd7564d0259c0''),
       (''SDOODLE'', ''0x82C348Ef21629f5aaeE5280ef3f4389Ad82F8799''),
       (''MAYC'', ''0x15596C27900e12A9cfC301248E21888751f61c19''),
       (''CLONEX'', ''0x578bc56a145A3464Adc44635C23501653138c946''),
       (''AZUKI'', ''0x708c48AaA4Ea8B9E46Bd8DEb6470986842b9a16d'')],
     pn_rinkeby = Some [(''WPUNKS'', ''0x74e4418A41169Fb951Ca886976ccd8b36968c4Ab''),
       (''BAYC'', ''0x588D1a07ccdb224cB28dCd8E3dD46E16B3a72b5e''),
       (''DOODLE'', ''0x10cACFfBf3Cdcfb365FDdC4795079417768BaA74''),
       (''COOL'', ''0x1F912E9b691858052196F11Aff9d8B6f89951AbD''),
       (''MAYC'', ''0x9C235dF4053a415f028b8386ed13ae8162843a6e''),
       (''CLONEX'', ''0xdd04ba0254972CC736F6966c496B4941f02BD816''),
       (''AZUKI'', ''0x050Cd8082B86c5F469e0ba72ef4400E5E454886D'')],
     pn_sepolia = Some [(''WPUNKS'', ''0x647dc527Bd7dFEE4DD468cE6fC62FC50fa42BD8b''),
       (''BAYC'', ''0xE15A78992dd4a9d6833eA7C9643650d3b0a2eD2B''),
       (''DOODLE'', ''0x28cCcd47Aa3FFb42D77e395Fba7cdAcCeA884d5A''),
       (''SDOODLE'', ''0xd51fC3376F6D7C86D8639d5ec238327ab0EE69e3''),
       (''MAYC'', ''0xD0ff8ae7E3D9591605505D3db9C33b96c4809CDC''),
       (''CLONEX'', ''0x3BD0A71D39E67fc49D5A6645550f2bc95F5cb398''),
       (''AZUKI'', ''0x292F693048208184320C01e0C223D624268e5EE7'')],
     pn_main = Some [(''WPUNKS'', ''0xb7F7F6C52F2e2fdb1963Eab30438024864c313F6''),
       (''BAYC'', ''0xbc4ca0eda7647a8ab7c2061c2e118a18a936f13d''),
       (''DOODLE'', ''0x8a90cab2b38dba80c64b7734e58ee1db38b8992e''),
       (''SDOODLE'', ''0x620b70123fb810f6c653da7644b5dd0b6312e4d8''),
       (''MAYC'', ''0x60e4d786628fea6478f785a6d7e704777c86a7c6''),
       (''CLONEX'', ''0x49cf6f5d44e70224e2e23fdcdd2c053f30ada28b''),
       (''AZUKI'', ''0xed5af388653567af2f388e6224dc7c4b3241c544'')],
     pn_monad = Some [(''SKRUMPEYS'', ''0xb0dad798c80e40dd6b8e8545074c6a5b7b97d2c0''),
       (''CHOG'', ''0xc96d31f8626c6d03fae5dcd3d61e3fb9f4a73763''),
       (''R3TARDS'', ''0x200723a706de0013316e5cd8eba2b3f53dd90c29''),
       (''SQUAD10K'', ''0x818030837e8350ba63e64d7dc01a547fa73c8279''),
       (''VEDUST'', ''0xbb4738d05ad1b3da57a4881bae62ce9bb1eeed6c'')]\<rparr>"

definition BendConfig :: pool_config where
  "BendConfig = CommonsConfig\<lparr>MarketId := ''Bend genesis market'', ProviderId := 1,
     ReservesConfig := bend_ReservesConfig, NftsConfig := bend_NftsConfig,
     ReserveAssets := bend_ReserveAssets, NftsAssets := bend_NftsAssets\<rparr>"

section \<open>Access lemmas\<close>

lemmas commons_defs =
  commons_ProxyAdminPool_def
  commons_ProxyAdminFund_def
  commons_ProxyAdminWTL_def
  commons_PoolAdmin_def
  commons_EmergencyAdmin_def
  commons_BNFTRegistry_def
  commons_ProviderRegistry_def
  commons_ProviderRegistryOwner_def
  commons_ReserveOracle_def
  commons_NFTOracle_def
  commons_WrappedNativeToken_def
  commons_CryptoPunksMarket_def
  commons_WrappedPunkToken_def
  commons_ReserveFactorCollectorAddress_def
  commons_IncentivesController_def

lemmas nft_strategy_defs =
  strategyNftClassA_def
  strategyNftClassB_def
  strategyNftClassC_def
  strategyNftClassD_def
  strategyNftClassE_def
  strategyNft_WPUNKS_def
  strategyNft_MOLANDAKS_def
  strategyNft_CHEWY_def
  strategyNft_SKRUMPEYS_def
  strategyNft_CHOG_def
  strategyNft_BAYC_def
  strategyNft_DOODLE_def
  strategyNft_MAYC_def
  strategyNft_CLONEX_def
  strategyNft_AZUKI_def
  strategyNft_KONGZ_def
  strategyNft_COOL_def
  strategyNft_MEEBITS_def
  strategyNft_WOW_def
  strategyNft_WKODA_def

lemma BendConfig_simps [simp]:
  "MarketId BendConfig = ''Bend genesis market''"
  "ProviderId BendConfig = 1"
  "ReservesConfig BendConfig = bend_ReservesConfig"
  "NftsConfig BendConfig = bend_NftsConfig"
  "ReserveAssets BendConfig = bend_ReserveAssets"
  "NftsAssets BendConfig = bend_NftsAssets"
  "Mocks BendConfig = commons_Mocks"
  "BNFTRegistry BendConfig = commons_BNFTRegistry"
  "IncentivesController BendConfig = commons_IncentivesController"
  "ProviderRegistry BendConfig = commons_ProviderRegistry"
  "ProviderRegistryOwner BendConfig = commons_ProviderRegistryOwner"
  "WrappedNativeToken BendConfig = commons_WrappedNativeToken"
  "CryptoPunksMarket BendConfig = commons_CryptoPunksMarket"
  "WrappedPunkToken BendConfig = commons_WrappedPunkToken"
  "ReserveOracle BendConfig = commons_ReserveOracle"
  "NFTOracle BendConfig = commons_NFTOracle"
  "ReserveAggregators BendConfig = commons_ReserveAggregators"
  "ProxyAdminPool BendConfig = commons_ProxyAdminPool"
  "ProxyAdminFund BendConfig = commons_ProxyAdminFund"
  "ProxyAdminWTL BendConfig = commons_ProxyAdminWTL"
  "DebtTokenImplementation BendConfig = None"
  by (simp_all add: BendConfig_def CommonsConfig_def)

lemma distinct_bend_symbols:
  "distinct (obj_keys bend_ReservesConfig)" "distinct (obj_keys bend_NftsConfig)"
  by (simp_all add: bend_ReservesConfig_def bend_NftsConfig_def)

lemma config_param_token_impl [simp]:
  "config_param cfg ''BToken'' = None" "config_param cfg ''DebtToken'' = None"
  "config_param cfg ''BNFT'' = None"
  by (simp_all add: config_param_def)

end
