(* ===== verification/MiscUtils.thy ===== *)
theory MiscUtils
  imports MarketConfig
begin

text \<open>
  \<^verbatim>\<open>helpers/misc-utils.ts\<close> and \<^verbatim>\<open>helpers/mock-helpers.ts\<close>: the pure utilities
  (chunking, filtering and omitting object members), the address test that every task
  guards its configuration with, and the address books of the mock contracts.  The lemmas
  give each utility its specification; chunking is proved equal to cutting a list into
  consecutive pieces.
\<close>

section \<open>Chunking\<close>

text \<open>
  The callback of \<^verbatim>\<open>reduce\<close>, with the index of the current element.  In JavaScript
  \<^verbatim>\<open>i % 0\<close> is \<^verbatim>\<open>NaN\<close>, which is falsy, so a chunk size of zero pushes an empty slice
  at every index.
\<close>

fun chunk_from :: "nat \<Rightarrow> 'a list \<Rightarrow> nat \<Rightarrow> 'a list \<Rightarrow> 'a list list \<Rightarrow> 'a list list" where
  "chunk_from currIndx array chunkSize [] prevVal = prevVal"
| "chunk_from currIndx array chunkSize (_ # xs) prevVal =
     chunk_from (Suc currIndx) array chunkSize xs
       (if chunkSize = 0 \<or> currIndx mod chunkSize = 0
        then prevVal @ [take chunkSize (drop currIndx array)] else prevVal)"

definition chunk :: "'a list \<Rightarrow> nat \<Rightarrow> 'a list list" where
  "chunk arr chunkSize = chunk_from 0 arr chunkSize arr []"

text \<open>The specification: cut \<open>n\<close> elements off the front until nothing is left.\<close>

function pieces :: "nat \<Rightarrow> 'a list \<Rightarrow> 'a list list" where
  "pieces n xs = (if n = 0 \<or> xs = [] then [] else take n xs # pieces n (drop n xs))"
  by pat_completeness auto
termination
  by (relation "measure (\<lambda>(n, xs). length xs)") auto

declare pieces.simps [simp del]

lemma pieces_Nil [simp]: "pieces n [] = []"
  by (simp add: pieces.simps)

lemma chunk_from_pieces:
  assumes "0 < n" and "xs = drop i arr"
  shows "chunk_from i arr n xs prev =
    prev @ (if i mod n = 0 then pieces n xs else pieces n (drop (n - i mod n) xs))"
  using assms(2)
proof (induction xs arbitrary: i prev)
  case Nil
  then show ?case by simp
next
  case (Cons x xs)
  from Cons.prems have xs: "xs = drop (Suc i) arr"
    by (metis drop_Suc list.sel(3) tl_drop)
  have lt: "i mod n < n" using assms(1) by simp
  show ?case
  proof (cases "i mod n = 0")
    case True
    let ?prev = "prev @ [take n (drop i arr)]"
    have "chunk_from i arr n (x # xs) prev = chunk_from (Suc i) arr n xs ?prev"
      using True by simp
    also have "\<dots> = ?prev @ pieces n (drop (n - 1) xs)"
    proof (cases "n = 1")
      case True
      with Cons.IH [OF xs, of ?prev] show ?thesis by simp
    next
      case False
      with assms(1) True have "Suc i mod n = 1" by (simp add: mod_Suc)
      with Cons.IH [OF xs, of ?prev] show ?thesis by simp
    qed
    also have "\<dots> = prev @ pieces n (x # xs)"
      using assms(1) Cons.prems [symmetric] pieces.simps [of n "x # xs"] by (simp add: drop_Cons')
    finally show ?thesis using True by simp
  next
    case False
    then have "chunk_from i arr n (x # xs) prev = chunk_from (Suc i) arr n xs prev"
      using assms(1) by simp
    also have "\<dots> = prev @ pieces n (drop (n - i mod n) (x # xs))"
      using Cons.IH [OF xs, of prev] lt by (simp add: mod_Suc drop_Cons' split: if_splits)
    finally show ?thesis using False by simp
  qed
qed

lemma chunk_pieces: "0 < n \<Longrightarrow> chunk arr n = pieces n arr"
  by (simp add: chunk_def chunk_from_pieces)

lemma concat_pieces: "0 < n \<Longrightarrow> concat (pieces n xs) = xs"
  by (induction n xs rule: pieces.induct) (subst pieces.simps, simp)

lemma pieces_length:
  "ys \<in> set (pieces n xs) \<Longrightarrow> ys \<noteq> [] \<and> length ys \<le> n"
proof (induction n xs rule: pieces.induct)
  case (1 n xs)
  then show ?case by (subst (asm) (2) pieces.simps) (auto split: if_splits)
qed

lemma length_pieces: "0 < n \<Longrightarrow> length (pieces n xs) = (length xs + n - 1) div n"
proof (induction n xs rule: pieces.induct)
  case (1 n xs)
  show ?case
  proof (cases "xs = []")
    case True
    with 1 show ?thesis by simp
  next
    case False
    then have step: "length (pieces n xs) = Suc (length (pieces n (drop n xs)))"
      using 1(2) by (subst pieces.simps) simp
    show ?thesis
    proof (cases "length xs \<le> n")
      case True
      from False have "0 < length xs" by simp
      then have "n * 1 \<le> length xs + n - 1" by arith
      moreover from True 1(2) have "length xs + n - 1 < n * Suc 1" by arith
      ultimately have "(length xs + n - 1) div n = 1" by (intro div_nat_eqI)
      with True step show ?thesis by simp
    next
      case gt: False
      with 1 False have "length (pieces n (drop n xs)) = (length xs - 1) div n" by simp
      moreover have "(length xs + n - 1) div n = Suc ((length xs - 1) div n)"
        using gt 1(2) False by (metis Nat.add_diff_assoc2 One_nat_def Suc_leI add.commute
            div_add_self1 gr_implies_not0 length_greater_0_conv Suc_eq_plus1)
      ultimately show ?thesis using step by simp
    qed
  qed
qed

lemma chunk_one: "chunk xs 1 = map (\<lambda>x. [x]) xs"
proof -
  have "pieces (Suc 0) xs = map (\<lambda>x. [x]) xs"
    by (induction xs) (simp, subst pieces.simps, simp)
  then show ?thesis by (simp add: chunk_pieces)
qed

section \<open>Objects\<close>

definition filterMapBy :: "'a obj \<Rightarrow> (string \<Rightarrow> bool) \<Rightarrow> 'a obj" where
  "filterMapBy raw fn = fold (\<lambda>key o1. case obj_get raw key of
       Some v \<Rightarrow> obj_set key v o1 | None \<Rightarrow> o1) (filter fn (obj_keys raw)) []"

definition omit :: "'a obj \<Rightarrow> string list \<Rightarrow> 'a obj" where
  "omit o1 keys = fold (\<lambda>curr acc. if curr \<in> set keys then acc else
       (case obj_get o1 curr of Some v \<Rightarrow> obj_set curr v acc | None \<Rightarrow> acc)) (obj_keys o1) []"

lemma obj_set_fresh: "k \<notin> set (obj_keys o1) \<Longrightarrow> obj_set k v o1 = o1 @ [(k, v)]"
  by (induction o1) auto

text \<open>Copying the members with the keys \<open>ks\<close> one by one appends them in order.\<close>

lemma fold_copy_members:
  assumes "distinct (map fst ps)" and "set ps \<subseteq> set raw" and "distinct (obj_keys raw)"
    and "set (map fst ps) \<inter> set (map fst acc) = {}"
  shows "fold (\<lambda>key o1. case obj_get raw key of Some v \<Rightarrow> obj_set key v o1 | None \<Rightarrow> o1)
     (map fst ps) acc = acc @ ps"
  using assms
proof (induction ps arbitrary: acc)
  case Nil
  then show ?case by simp
next
  case (Cons p ps)
  obtain k v where p: "p = (k, v)" by (cases p)
  from Cons.prems p have get: "obj_get raw k = Some v" by simp
  from Cons.prems p have fresh: "k \<notin> set (obj_keys acc)" by auto
  have "fold (\<lambda>key o1. case obj_get raw key of Some v \<Rightarrow> obj_set key v o1 | None \<Rightarrow> o1)
      (map fst ps) (acc @ [(k, v)]) = (acc @ [(k, v)]) @ ps"
    by (rule Cons.IH) (use Cons.prems p in auto)
  with get fresh p show ?case by (simp add: obj_set_fresh)
qed

lemma map_fst_filter: "map fst (filter (\<lambda>p. P (fst p)) ps) = filter P (map fst ps)"
  by (induction ps) auto

lemma filterMapBy_filter:
  assumes "distinct (obj_keys raw)"
  shows "filterMapBy raw fn = filter (\<lambda>p. fn (fst p)) raw"
proof -
  have "filterMapBy raw fn = [] @ filter (\<lambda>p. fn (fst p)) raw"
    unfolding filterMapBy_def map_fst_filter [symmetric]
    by (rule fold_copy_members) (use assms in \<open>auto simp: map_fst_filter distinct_map_filter\<close>)
  then show ?thesis by simp
qed

lemma fold_skip: "fold (\<lambda>x acc. if P x then acc else f x acc) xs acc = fold f (filter (\<lambda>x. \<not> P x) xs) acc"
  by (induction xs arbitrary: acc) auto

lemma omit_filterMapBy: "omit o1 keys = filterMapBy o1 (\<lambda>k. k \<notin> set keys)"
  by (simp add: omit_def filterMapBy_def fold_skip)

section \<open>Addresses and time\<close>

definition notFalsyOrZeroAddress :: "'c net \<Rightarrow> string option \<Rightarrow> bool" where
  "notFalsyOrZeroAddress E address =
     (if \<not> truthy address then False
      else n_is_address E (the address) \<and> \<not> n_is_zero_address E (the address))"

lemma notFalsyOrZeroAddress_None [simp]: "\<not> notFalsyOrZeroAddress E None"
  by (simp add: notFalsyOrZeroAddress_def)

lemma notFalsyOrZeroAddress_Empty [simp]: "\<not> notFalsyOrZeroAddress E (Some [])"
  by (simp add: notFalsyOrZeroAddress_def)

lemma notFalsyOrZeroAddress_truthy: "notFalsyOrZeroAddress E a \<Longrightarrow> truthy a"
  by (simp add: notFalsyOrZeroAddress_def split: if_splits)

text \<open>\<^verbatim>\<open>(Date.now() / 1000).toFixed(0)\<close> rounds half up.\<close>

definition getNowTimeInSeconds :: "'c net \<Rightarrow> string" where
  "getNowTimeInSeconds E = dec ((n_now_ms E + 500) div 1000)"

definition getNowTimeInMilliSeconds :: "'c net \<Rightarrow> string" where
  "getNowTimeInMilliSeconds E = dec (n_now_ms E)"

text \<open>\<^verbatim>\<open>toWad\<close> of a whole number of tokens.\<close>

definition toWad :: "nat \<Rightarrow> string" where
  "toWad value1 = dec (value1 * WAD)"

text \<open>The task \<^verbatim>\<open>set-DRE\<close>: the runtime is kept once it is set.\<close>

definition set_DRE :: "('c, unit) prog" where
  "set_DRE = (\<lambda>w. (Ret (), if dre_set w then w else w\<lparr>dre_set := True\<rparr>))"

lemma set_DRE_Ret_iff [run_simps]:
  "set_DRE w = (Ret x, w') \<longleftrightarrow> w' = (if dre_set w then w else w\<lparr>dre_set := True\<rparr>)"
  by (auto simp: set_DRE_def)

context run_rel begin

lemma keeps_set_DRE [keeps_intros]: "keeps R set_DRE"
  by (auto simp: keeps_def set_DRE_def rel_refl rel_dre)

end

section \<open>Address books of the mock contracts\<close>

definition addresses_of :: "handle obj \<Rightarrow> string obj \<Rightarrow> string obj" where
  "addresses_of contracts init =
     fold (\<lambda>(sym, h) accum. obj_set sym (h_addr h) accum) contracts init"

definition getAllTokenAddresses :: "handle obj \<Rightarrow> string obj" where
  "getAllTokenAddresses mockTokens = addresses_of mockTokens []"

definition getAllNftAddresses :: "handle obj \<Rightarrow> string obj" where
  "getAllNftAddresses mockNfts = addresses_of mockNfts []"

definition getAllAggregatorsAddresses :: "handle obj \<Rightarrow> string obj" where
  "getAllAggregatorsAddresses mockAggregators = addresses_of mockAggregators []"

lemma addresses_of_append:
  assumes "distinct (obj_keys contracts)" and "set (obj_keys contracts) \<inter> set (obj_keys init) = {}"
  shows "addresses_of contracts init = init @ map (\<lambda>(sym, h). (sym, h_addr h)) contracts"
  using assms
proof (induction contracts arbitrary: init)
  case Nil
  then show ?case by (simp add: addresses_of_def)
next
  case (Cons p ps)
  obtain k h where p: "p = (k, h)" by (cases p)
  from Cons.prems p have "addresses_of ps (init @ [(k, h_addr h)]) =
      (init @ [(k, h_addr h)]) @ map (\<lambda>(sym, h). (sym, h_addr h)) ps"
    by (intro Cons.IH) auto
  with Cons.prems p show ?case by (auto simp: addresses_of_def obj_set_fresh)
qed

lemma getAllTokenAddresses_map:
  "distinct (obj_keys ts) \<Longrightarrow> getAllTokenAddresses ts = map (\<lambda>(sym, h). (sym, h_addr h)) ts"
  by (simp add: getAllTokenAddresses_def addresses_of_append)

end
