(* ===== verification/Etherscan.thy ===== *)
theory Etherscan
  imports MiscUtils
begin

text \<open>
  \<^verbatim>\<open>helpers/etherscan-verification.ts\<close>: the guard \<^verbatim>\<open>checkVerification\<close> that runs
  before a migration, and the verification of one contract with its retries.  The plugin
  task \<^verbatim>\<open>verify:verify\<close> is the parameter \<open>n_verify\<close>; every attempt is an
  \<open>EvVerify\<close> event and the removal of the temporary argument file an \<open>EvCleanup\<close> event.
  The lemmas bound the number of attempts, show that the retries never throw, and say
  exactly when the temporary file is removed.
\<close>

definition fatalErrors :: "string list" where
  "fatalErrors =
     [''The address provided as argument contains a contract, but its bytecode'',
      ''Daily limit of 100 source code submissions reached'',
      ''has no bytecode. Is the contract deployed to this network'',
      ''The constructor for'']"

definition okErrors :: "string list" where
  "okErrors = [''Contract source code already verified'', ''Already Verified'']"

definition unableVerifyError :: string where
  "unableVerifyError = ''Fail - Unable to verify''"

definition SUPPORTED_ETHERSCAN_NETWORKS :: "string list" where
  "SUPPORTED_ETHERSCAN_NETWORKS = [''main'', ''ropsten'', ''goerli'', ''sepolia'', ''rinkeby'']"

section \<open>Running the verification task with retries\<close>

definition run_verify :: "'c net \<Rightarrow> verify_params \<Rightarrow> ('c, unit) prog" where
  "run_verify E params = (\<lambda>w.
     case n_verify E params (chain w) of
       (Some msg, c) \<Rightarrow> (Throw (JsError msg), w\<lparr>chain := c, trace := trace w @ [EvVerify params]\<rparr>)
     | (None, c) \<Rightarrow> (Ret (), w\<lparr>chain := c, trace := trace w @ [EvVerify params]\<rparr>))"

definition cleanup :: "('c, unit) prog" where
  "cleanup = (\<lambda>w. (Ret (), w\<lparr>trace := trace w @ [EvCleanup]\<rparr>))"

text \<open>
  One call of \<^verbatim>\<open>runTaskWithRetry\<close>.  The parameter object is shared by the retries, so
  deleting \<^verbatim>\<open>relatedSources\<close> on the last attempt or after an unable-to-verify answer
  lasts.  The branch for no attempts left only cleans up, which does not throw, so the
  recursion is on the number of attempts.
\<close>

fun retry :: "'c net \<Rightarrow> nat \<Rightarrow> verify_params \<Rightarrow> ('c, unit) prog" where
  "retry E 0 params = cleanup"
| "retry E (Suc counter) params =
     (let p = (if counter = 0 then params\<lparr>v_relatedSources := False\<rparr> else params) in
      try_catch (await (run_verify E p) (\<lambda>_. cleanup)) (\<lambda>error.
        if list_ex (str_includes (err_message error)) okErrors then ret ()
        else if list_ex (str_includes (err_message error)) fatalErrors then ret ()
        else retry E counter
          (if str_includes (err_message error) unableVerifyError
           then p\<lparr>v_relatedSources := False\<rparr> else p)))"

definition runTaskWithRetry :: "'c net \<Rightarrow> verify_params \<Rightarrow> int \<Rightarrow> ('c, unit) prog" where
  "runTaskWithRetry E params times1 = retry E (nat times1) params"

definition verifyEtherscanContract ::
  "'c net \<Rightarrow> string \<Rightarrow> js_value list \<Rightarrow> string option \<Rightarrow> string option \<Rightarrow> ('c, unit) prog" where
  "verifyEtherscanContract E address constructorArguments contract libraries =
     (if \<not> truthy (n_ETHERSCAN_KEY E) then throw (JsError ''Missing process.env.ETHERSCAN_KEY.'')
      else if n_network E \<notin> set SUPPORTED_ETHERSCAN_NETWORKS
      then throw (JsError (''Current network '' @ n_network E @
        '' not supported. Please change to one of the next networks: main,ropsten,goerli,sepolia,rinkeby''))
      else try_catch
        (runTaskWithRetry E
           \<lparr>v_address = address, v_contract = contract, v_libraries = libraries,
            v_arguments = constructorArguments, v_relatedSources = True\<rparr> 4)
        (\<lambda>error. ret ()))"

definition checkVerification :: "'c net \<Rightarrow> ('c, unit) prog" where
  "checkVerification E =
     (if \<not> truthy (n_ETHERSCAN_KEY E) then exit_process 3
      else if n_network E \<notin> set SUPPORTED_ETHERSCAN_NETWORKS then exit_process 5
      else ret ())"

text \<open>The environment in which verification can run at all.\<close>

definition can_verify :: "'c net \<Rightarrow> bool" where
  "can_verify E \<longleftrightarrow> truthy (n_ETHERSCAN_KEY E) \<and> n_network E \<in> set SUPPORTED_ETHERSCAN_NETWORKS"

lemma checkVerification_Ret_iff [run_simps]:
  "checkVerification E w = (Ret x, w') \<longleftrightarrow> can_verify E \<and> w' = w"
  by (auto simp: checkVerification_def can_verify_def run_simps)

section \<open>Attempts, cleanup and totality\<close>

definition verify_count :: "event list \<Rightarrow> nat" where
  "verify_count evs = length (filter is_EvVerify evs)"

definition cleanup_count :: "event list \<Rightarrow> nat" where
  "cleanup_count evs = length (filter (\<lambda>e. e = EvCleanup) evs)"

lemma count_simps [simp]:
  "verify_count [] = 0" "cleanup_count [] = 0"
  "verify_count (EvVerify p # evs) = Suc (verify_count evs)"
  "cleanup_count (EvVerify p # evs) = cleanup_count evs"
  "verify_count (EvCleanup # evs) = verify_count evs"
  "cleanup_count (EvCleanup # evs) = Suc (cleanup_count evs)"
  by (simp_all add: verify_count_def cleanup_count_def)

text \<open>What a run of the retries leaves: nothing but verification requests and a cleanup.\<close>

lemma retry_run:
  "\<exists>c evs. retry E n params w = (Ret (), w\<lparr>chain := c, trace := trace w @ evs\<rparr>) \<and>
     verify_count evs \<le> n \<and> cleanup_count evs \<le> 1 \<and>
     (\<forall>e \<in> set evs. is_EvVerify e \<or> e = EvCleanup)"
proof (induction n arbitrary: params w)
  case 0
  have "retry E 0 params w = (Ret (), w\<lparr>chain := chain w, trace := trace w @ [EvCleanup]\<rparr>)"
    by (simp add: cleanup_def)
  then show ?case by (intro exI [of _ "chain w"] exI [of _ "[EvCleanup]"]) simp
next
  case (Suc n)
  define p where "p = (if n = 0 then params\<lparr>v_relatedSources := False\<rparr> else params)"
  obtain o1 c1 where v: "n_verify E p (chain w) = (o1, c1)" by (cases "n_verify E p (chain w)")
  let ?w1 = "w\<lparr>chain := c1, trace := trace w @ [EvVerify p]\<rparr>"
  show ?case
  proof (cases o1)
    case None
    with v have "retry E (Suc n) params w =
        (Ret (), w\<lparr>chain := c1, trace := trace w @ [EvVerify p, EvCleanup]\<rparr>)"
      by (simp add: p_def Let_def try_catch_def await_def run_verify_def cleanup_def)
    then show ?thesis
      by (intro exI [of _ c1] exI [of _ "[EvVerify p, EvCleanup]"]) simp
  next
    case (Some msg)
    define q where "q = (if str_includes msg unableVerifyError then p\<lparr>v_relatedSources := False\<rparr> else p)"
    define quit where
      "quit \<longleftrightarrow> list_ex (str_includes msg) okErrors \<or> list_ex (str_includes msg) fatalErrors"
    from v Some have step: "retry E (Suc n) params w = (if quit then (Ret (), ?w1) else retry E n q ?w1)"
      unfolding quit_def q_def
      by (simp add: p_def [symmetric] Let_def try_catch_def await_def run_verify_def ret_def)
    obtain c evs where rest: "retry E n q ?w1 = (Ret (), ?w1\<lparr>chain := c, trace := trace ?w1 @ evs\<rparr>)"
      "verify_count evs \<le> n" "cleanup_count evs \<le> 1" "\<forall>e \<in> set evs. is_EvVerify e \<or> e = EvCleanup"
      using Suc.IH [of q ?w1] by blast
    show ?thesis
    proof (cases quit)
      case True
      with step show ?thesis by (intro exI [of _ c1] exI [of _ "[EvVerify p]"]) simp
    next
      case False
      with step rest show ?thesis
        by (intro exI [of _ c] exI [of _ "EvVerify p # evs"]) simp
    qed
  qed
qed

text \<open>If every attempt fails with a message that is neither final nor fatal, all are made.\<close>

lemma retry_exhausts:
  assumes "\<And>p c. \<exists>msg c'. n_verify E p c = (Some msg, c') \<and>
      \<not> list_ex (str_includes msg) okErrors \<and> \<not> list_ex (str_includes msg) fatalErrors"
  shows "\<exists>c evs. retry E n params w = (Ret (), w\<lparr>chain := c, trace := trace w @ evs\<rparr>) \<and>
     verify_count evs = n \<and> cleanup_count evs = 1"
proof (induction n arbitrary: params w)
  case 0
  have "retry E 0 params w = (Ret (), w\<lparr>chain := chain w, trace := trace w @ [EvCleanup]\<rparr>)"
    by (simp add: cleanup_def)
  then show ?case by (intro exI [of _ "chain w"] exI [of _ "[EvCleanup]"]) simp
next
  case (Suc n)
  define p where "p = (if n = 0 then params\<lparr>v_relatedSources := False\<rparr> else params)"
  obtain msg c1 where v: "n_verify E p (chain w) = (Some msg, c1)"
    and no: "\<not> list_ex (str_includes msg) okErrors" "\<not> list_ex (str_includes msg) fatalErrors"
    using assms by blast
  define q where "q = (if str_includes msg unableVerifyError then p\<lparr>v_relatedSources := False\<rparr> else p)"
  let ?w1 = "w\<lparr>chain := c1, trace := trace w @ [EvVerify p]\<rparr>"
  have step: "retry E (Suc n) params w = retry E n q ?w1"
    using v no by (simp add: p_def [symmetric] q_def Let_def try_catch_def await_def run_verify_def)
  obtain c evs where "retry E n q ?w1 = (Ret (), ?w1\<lparr>chain := c, trace := trace ?w1 @ evs\<rparr>)"
    "verify_count evs = n" "cleanup_count evs = 1"
    using Suc.IH [of q ?w1] by blast
  with step show ?case by (intro exI [of _ c] exI [of _ "EvVerify p # evs"]) simp
qed

text \<open>In an environment that passed the guard, verifying a contract cannot throw.\<close>

lemma verifyEtherscanContract_total:
  assumes "can_verify E"
  shows "\<exists>c evs. verifyEtherscanContract E a args ct libs w =
     (Ret (), w\<lparr>chain := c, trace := trace w @ evs\<rparr>) \<and> verify_count evs \<le> 4 \<and>
     (\<forall>e \<in> set evs. is_EvVerify e \<or> e = EvCleanup)"
proof -
  obtain c evs where "retry E 4 \<lparr>v_address = a, v_contract = ct, v_libraries = libs,
      v_arguments = args, v_relatedSources = True\<rparr> w = (Ret (), w\<lparr>chain := c, trace := trace w @ evs\<rparr>)"
    "verify_count evs \<le> 4" "\<forall>e \<in> set evs. is_EvVerify e \<or> e = EvCleanup"
    using retry_run [of E 4] by blast
  with assms show ?thesis
    by (auto simp: verifyEtherscanContract_def can_verify_def runTaskWithRetry_def try_catch_def)
qed

context effect_rel begin

lemma keeps_run_verify [keeps_intros]: "keeps R (run_verify E params)"
  by (auto simp: keeps_def run_verify_def rel_chain split: prod.splits option.splits)

lemma keeps_cleanup [keeps_intros]: "keeps R cleanup"
  by (auto simp: keeps_def cleanup_def rel_trace_only)

lemma keeps_retry [keeps_intros]: "keeps R (retry E n params)"
proof (induction n arbitrary: params)
  case 0
  then show ?case by (simp add: keeps_cleanup)
next
  case (Suc n)
  show ?case unfolding retry.simps by (intro keeps_intros Suc.IH)
qed

lemma keeps_verifyEtherscanContract [keeps_intros]:
  "keeps R (verifyEtherscanContract E a args ct libs)"
  unfolding verifyEtherscanContract_def runTaskWithRetry_def by (intro keeps_intros)

lemma keeps_checkVerification [keeps_intros]: "keeps R (checkVerification E)"
  unfolding checkVerification_def by (intro keeps_intros)

end

end
