(* ===== verification/ContractsHelpers.thy ===== *)
theory ContractsHelpers
  imports Etherscan
begin

text \<open>
  \<^verbatim>\<open>helpers/contracts-helpers.ts\<close>: the JSON deployment database, the signers,
  saving and verifying a deployed contract, linking libraries into bytecode, and reading
  a configuration value for the current network.  A keyed store is an interface here
  (locale \<open>keyed_store\<close>), interpreted on the database of the world and on plain objects.
\<close>

section \<open>Keyed stores\<close>

locale keyed_store =
  fixes look :: "'s \<Rightarrow> string \<Rightarrow> 'v option"
    and store :: "string \<Rightarrow> 'v \<Rightarrow> 's \<Rightarrow> 's"
  assumes look_same: "look (store k v s) k = Some v"
    and look_other: "k' \<noteq> k \<Longrightarrow> look (store k v s) k' = look s k'"
begin

lemma look_store: "look (store k v s) k' = (if k' = k then Some v else look s k')"
  by (simp add: look_same look_other)

text \<open>After a sequence of writes the last write of a key wins.\<close>

lemma look_stores:
  "look (fold (\<lambda>(k, v). store k v) kvs s) k =
     (case map_of (rev kvs) k of None \<Rightarrow> look s k | Some v \<Rightarrow> Some v)"
proof (induction kvs rule: rev_induct)
  case Nil
  then show ?case by simp
next
  case (snoc kv kvs)
  then show ?case by (cases kv) (simp add: look_store)
qed

lemma look_stores_distinct:
  "distinct (map fst kvs) \<Longrightarrow> (k, v) \<in> set kvs \<Longrightarrow> look (fold (\<lambda>(k, v). store k v) kvs s) k = Some v"
  using look_stores [of kvs s k] map_of_is_SomeI [of "rev kvs" k v]
  by (simp add: distinct_rev flip: rev_map)

lemma look_stores_fresh:
  "k \<notin> fst ` set kvs \<Longrightarrow> look (fold (\<lambda>(k, v). store k v) kvs s) k = look s k"
  by (induction kvs arbitrary: s) (auto simp: look_store split: prod.splits)

end

text \<open>The two stores: the database of a world, and a plain object.\<close>

definition db_entry_of :: "'c world \<Rightarrow> string \<Rightarrow> db_entry option" where
  "db_entry_of w k = db w k"

definition db_write :: "string \<Rightarrow> db_entry \<Rightarrow> 'c world \<Rightarrow> 'c world" where
  "db_write k e w = w\<lparr>db := (db w)(k \<mapsto> e)\<rparr>"

interpretation jsondb: keyed_store db_entry_of db_write
  by unfold_locales (simp_all add: db_entry_of_def db_write_def)

interpretation obj: keyed_store "obj_get :: 'a obj \<Rightarrow> string \<Rightarrow> 'a option" obj_set
  by unfold_locales (simp_all add: obj_get_set)

section \<open>The deployment database\<close>

definition registerContractInJsonDb :: "string \<Rightarrow> handle \<Rightarrow> ('c, unit) prog" where
  "registerContractInJsonDb contractId contractInstance =
     (case h_deployer contractInstance of
        None \<Rightarrow> throw (TypeError ''deployTransaction is undefined'')
      | Some from \<Rightarrow>
          db_set contractId \<lparr>e_address = h_addr contractInstance, e_deployer = Some from\<rparr>)"

definition insertContractAddressInDb :: "string \<Rightarrow> string \<Rightarrow> ('c, unit) prog" where
  "insertContractAddressInDb id1 address = db_set id1 \<lparr>e_address = address, e_deployer = None\<rparr>"

definition rawInsertContractAddressInDb :: "string \<Rightarrow> string \<Rightarrow> ('c, unit) prog" where
  "rawInsertContractAddressInDb id1 address = db_set id1 \<lparr>e_address = address, e_deployer = None\<rparr>"

text \<open>\<^verbatim>\<open>contractAtDb?.address\<close> when it is truthy.\<close>

definition db_address :: "'c world \<Rightarrow> string \<Rightarrow> string option" where
  "db_address w id1 = (case db w id1 of
     None \<Rightarrow> None | Some e \<Rightarrow> if e_address e = [] then None else Some (e_address e))"

definition missing_address :: "string \<Rightarrow> js_error" where
  "missing_address id1 =
     JsError (''Missing contract address '' @ id1 @ '' at Market config and JSON local db'')"

definition getContractAddressInDb :: "string \<Rightarrow> ('c, string) prog" where
  "getContractAddressInDb id1 = await (db_get id1) (\<lambda>contractAtDb.
     case contractAtDb of
       Some e \<Rightarrow> if e_address e \<noteq> [] then ret (e_address e) else throw (missing_address id1)
     | None \<Rightarrow> throw (missing_address id1))"

definition tryGetContractAddressInDb :: "string \<Rightarrow> ('c, string) prog" where
  "tryGetContractAddressInDb id1 = await (db_get id1) (\<lambda>contractAtDb.
     case contractAtDb of
       Some e \<Rightarrow> if e_address e \<noteq> [] then ret (e_address e) else ret ZERO_ADDRESS
     | None \<Rightarrow> ret ZERO_ADDRESS)"

lemma insertContractAddressInDb_run:
  "insertContractAddressInDb k a w = (Ret (), db_write k \<lparr>e_address = a, e_deployer = None\<rparr> w)"
  by (simp add: insertContractAddressInDb_def db_set_def db_write_def)

lemma rawInsertContractAddressInDb_run:
  "rawInsertContractAddressInDb k a w = (Ret (), db_write k \<lparr>e_address = a, e_deployer = None\<rparr> w)"
  by (simp add: rawInsertContractAddressInDb_def db_set_def db_write_def)

lemma registerContractInJsonDb_run:
  "h_deployer h = Some d \<Longrightarrow>
   registerContractInJsonDb k h w = (Ret (), db_write k \<lparr>e_address = h_addr h, e_deployer = Some d\<rparr> w)"
  by (simp add: registerContractInJsonDb_def db_set_def db_write_def)

lemma registerContractInJsonDb_Ret_iff [run_simps]:
  "registerContractInJsonDb k h w = (Ret x, w') \<longleftrightarrow>
     (\<exists>d. h_deployer h = Some d \<and> w' = db_write k \<lparr>e_address = h_addr h, e_deployer = Some d\<rparr> w)"
  by (auto simp: registerContractInJsonDb_def run_simps db_write_def split: option.splits)

lemma insertContractAddressInDb_Ret_iff [run_simps]:
  "insertContractAddressInDb k a w = (Ret x, w') \<longleftrightarrow>
     w' = db_write k \<lparr>e_address = a, e_deployer = None\<rparr> w"
  by (auto simp: insertContractAddressInDb_run)

lemma rawInsertContractAddressInDb_Ret_iff [run_simps]:
  "rawInsertContractAddressInDb k a w = (Ret x, w') \<longleftrightarrow>
     w' = db_write k \<lparr>e_address = a, e_deployer = None\<rparr> w"
  by (auto simp: rawInsertContractAddressInDb_run)

lemma getContractAddressInDb_run:
  "getContractAddressInDb k w =
     (case db_address w k of Some a \<Rightarrow> (Ret a, w) | None \<Rightarrow> (Throw (missing_address k), w))"
  by (auto simp: getContractAddressInDb_def await_def db_get_def db_address_def ret_def throw_def
      split: option.splits)

lemma tryGetContractAddressInDb_run:
  "tryGetContractAddressInDb k w =
     (Ret (case db_address w k of Some a \<Rightarrow> a | None \<Rightarrow> ZERO_ADDRESS), w)"
  by (auto simp: tryGetContractAddressInDb_def await_def db_get_def db_address_def ret_def
      split: option.splits)

lemma getContractAddressInDb_Ret_iff [run_simps]:
  "getContractAddressInDb k w = (Ret a, w') \<longleftrightarrow> db_address w k = Some a \<and> w' = w"
  by (auto simp: getContractAddressInDb_run split: option.splits)

lemma db_address_write [simp]:
  "db_address (db_write k e w) k' =
     (if k' = k then (if e_address e = [] then None else Some (e_address e)) else db_address w k')"
  using jsondb.look_store [of k e w k'] by (auto simp: db_address_def db_entry_of_def)

lemma db_write_fields [simp]:
  "chain (db_write k e w) = chain w" "trace (db_write k e w) = trace w"
  "dre_set (db_write k e w) = dre_set w" "db (db_write k e w) = (db w)(k \<mapsto> e)"
  by (simp_all add: db_write_def)

lemma db_address_only_db [simp]:
  "db_address (w\<lparr>chain := c\<rparr>) k = db_address w k"
  "db_address (w\<lparr>trace := t\<rparr>) k = db_address w k"
  "db_address (w\<lparr>chain := c, trace := t\<rparr>) k = db_address w k"
  "db_address (w\<lparr>dre_set := b\<rparr>) k = db_address w k"
  by (simp_all add: db_address_def)

section \<open>Signers\<close>

definition getEthersSigners :: "'c net \<Rightarrow> string list" where
  "getEthersSigners E = n_signers E"

definition getEthersSignerByAddress :: "string \<Rightarrow> string option" where
  "getEthersSignerByAddress address = Some address"

definition getEthersSignersAddresses :: "'c net \<Rightarrow> string list" where
  "getEthersSignersAddresses E = map (\<lambda>signer. signer) (getEthersSigners E)"

definition getDeploySigner :: "'c net \<Rightarrow> string option" where
  "getDeploySigner E = arr_at (getEthersSigners E) 0"

section \<open>Saving and verifying\<close>

definition verifyContract :: "'c net \<Rightarrow> string \<Rightarrow> handle \<Rightarrow> js_value list \<Rightarrow> ('c, unit) prog" where
  "verifyContract E id1 instance1 args =
     (if id1 = ''BendUpgradeableProxy'' then
        verifyEtherscanContract E (h_addr instance1) args
          (Some ''contracts/libraries/proxy/BendUpgradeableProxy.sol:BendUpgradeableProxy'') None
      else if id1 = ''BendProxyAdminFund'' \<or> id1 = ''BendProxyAdminPool'' \<or> id1 = ''BendProxyAdminWTL'' then
        verifyEtherscanContract E (h_addr instance1) args
          (Some ''contracts/libraries/proxy/BendProxyAdmin.sol:BendProxyAdmin'') None
      else verifyEtherscanContract E (h_addr instance1) args None None)"

definition withSaveAndVerify ::
  "'c net \<Rightarrow> handle \<Rightarrow> string \<Rightarrow> js_value list \<Rightarrow> bool \<Rightarrow> ('c, handle) prog" where
  "withSaveAndVerify E instance1 id1 args verify =
     await (registerContractInJsonDb id1 instance1) (\<lambda>_.
     await (when_do verify (verifyContract E id1 instance1 args)) (\<lambda>_.
     ret instance1))"

definition deployContract :: "'c net \<Rightarrow> string \<Rightarrow> js_value list \<Rightarrow> ('c, handle) prog" where
  "deployContract E contractName args =
     await (deploy_with E (getDeploySigner E) contractName [] args) (\<lambda>contract.
     await (registerContractInJsonDb contractName contract) (\<lambda>_.
     ret contract))"

text \<open>\<^verbatim>\<open>DRE.ethers.getContractAt\<close>: an object with the default signer, the first one.\<close>

definition getContract :: "'c net \<Rightarrow> string \<Rightarrow> string \<Rightarrow> handle" where
  "getContract E contractName address =
     \<lparr>h_type = contractName, h_addr = address, h_signer = arr_at (n_signers E) 0, h_deployer = None\<rparr>"

text \<open>Verification never throws in an environment that can verify; without one it does.\<close>

lemma ex_if: "\<exists>x. a = f x \<Longrightarrow> \<exists>x. b = f x \<Longrightarrow> \<exists>x. (if c then a else b) = f x"
  by simp

lemma verifyContract_contract:
  "\<exists>ct. verifyContract E k h args = verifyEtherscanContract E (h_addr h) args ct None"
  unfolding verifyContract_def
  by (rule ex_if, rule exI, rule refl, rule ex_if, rule exI, rule refl, rule exI, rule refl)

lemma verifyContract_total:
  assumes "can_verify E"
  shows "\<exists>c evs. verifyContract E k h args w = (Ret (), w\<lparr>chain := c, trace := trace w @ evs\<rparr>) \<and>
     (\<forall>e \<in> set evs. is_EvVerify e \<or> e = EvCleanup)"
proof -
  obtain ct where "verifyContract E k h args = verifyEtherscanContract E (h_addr h) args ct None"
    using verifyContract_contract by blast
  with verifyEtherscanContract_total [OF assms, of "h_addr h" args ct None w] show ?thesis by auto
qed

lemma verifyContract_missing_key:
  assumes "\<not> truthy (n_ETHERSCAN_KEY E)"
  shows "verifyContract E k h args w = (Throw (JsError ''Missing process.env.ETHERSCAN_KEY.''), w)"
proof -
  obtain ct where "verifyContract E k h args = verifyEtherscanContract E (h_addr h) args ct None"
    using verifyContract_contract by blast
  with assms show ?thesis by (simp add: verifyEtherscanContract_def throw_def)
qed

lemma verifyContract_Ret:
  assumes "verifyContract E k h args w = (Ret x, w')"
  shows "can_verify E \<and> db w' = db w"
proof -
  obtain ct where eq: "verifyContract E k h args = verifyEtherscanContract E (h_addr h) args ct None"
    using verifyContract_contract by blast
  with assms have "verifyEtherscanContract E (h_addr h) args ct None w = (Ret x, w')" by simp
  then have "can_verify E"
    unfolding verifyEtherscanContract_def can_verify_def
    by (cases "truthy (n_ETHERSCAN_KEY E)"; cases "n_network E \<in> set SUPPORTED_ETHERSCAN_NETWORKS")
      (simp_all add: run_simps)
  with assms show ?thesis using verifyContract_total [of E k h args w] by auto
qed

lemma withSaveAndVerify_Ret:
  assumes "withSaveAndVerify E h k args verify w = (Ret x, w')"
  shows "x = h \<and> (\<exists>d. h_deployer h = Some d \<and>
     db w' = (db w)(k \<mapsto> \<lparr>e_address = h_addr h, e_deployer = Some d\<rparr>)) \<and> (verify \<longrightarrow> can_verify E)"
proof -
  from assms obtain w1 w2 where reg: "registerContractInJsonDb k h w = (Ret (), w1)"
    and ver: "when_do verify (verifyContract E k h args) w1 = (Ret (), w2)" and x: "x = h" "w' = w2"
    by (auto simp: withSaveAndVerify_def await_Ret_iff ret_Ret_iff)
  have "db w2 = db w1 \<and> (verify \<longrightarrow> can_verify E)"
    using ver verifyContract_Ret [of E k h args w1 "()" w2]
    by (cases verify) (simp_all add: when_do_Ret_iff)
  with reg x show ?thesis by (auto simp: registerContractInJsonDb_Ret_iff)
qed

lemma withSaveAndVerify_plain:
  "h_deployer h = Some d \<Longrightarrow> withSaveAndVerify E h k args False w =
     (Ret h, db_write k \<lparr>e_address = h_addr h, e_deployer = Some d\<rparr> w)"
  by (simp add: withSaveAndVerify_def registerContractInJsonDb_run await_def when_do_def ret_def)

context run_rel begin

lemma keeps_getContractAddressInDb [keeps_intros]: "keeps R (getContractAddressInDb k)"
  unfolding getContractAddressInDb_def by (intro keeps_intros)

lemma keeps_tryGetContractAddressInDb [keeps_intros]: "keeps R (tryGetContractAddressInDb k)"
  unfolding tryGetContractAddressInDb_def by (intro keeps_intros)

end

context effect_rel begin

lemma keeps_registerContractInJsonDb [keeps_intros]: "K k \<Longrightarrow> keeps R (registerContractInJsonDb k h)"
  unfolding registerContractInJsonDb_def by (intro keeps_intros)

lemma keeps_insertContractAddressInDb [keeps_intros]: "K k \<Longrightarrow> keeps R (insertContractAddressInDb k a)"
  unfolding insertContractAddressInDb_def by (intro keeps_intros)

lemma keeps_rawInsertContractAddressInDb [keeps_intros]:
  "K k \<Longrightarrow> keeps R (rawInsertContractAddressInDb k a)"
  unfolding rawInsertContractAddressInDb_def by (intro keeps_intros)

lemma keeps_verifyContract [keeps_intros]: "keeps R (verifyContract E k h args)"
  unfolding verifyContract_def by (intro keeps_intros)

lemma keeps_withSaveAndVerify [keeps_intros]: "K k \<Longrightarrow> keeps R (withSaveAndVerify E h k args v)"
  unfolding withSaveAndVerify_def by (intro keeps_intros)

lemma keeps_deployContract [keeps_intros]: "K n \<Longrightarrow> keeps R (deployContract E n args)"
  unfolding deployContract_def by (intro keeps_intros)

end

section \<open>Linking libraries into bytecode\<close>

text \<open>One replacement: \<^verbatim>\<open>substr\<close> cuts like \<open>take\<close> and \<open>drop\<close>.\<close>

definition link_fixup :: "string \<Rightarrow> fixup \<Rightarrow> string \<Rightarrow> string" where
  "link_fixup addr f bc =
     take (2 + f_start f * 2) bc @ drop 2 addr @ drop (2 + (f_start f + f_length f) * 2) bc"

definition linkBytecode :: "artifact \<Rightarrow> string obj \<Rightarrow> string" where
  "linkBytecode art libraries =
     fold (\<lambda>(fileName, fileReferences).
       fold (\<lambda>(libName, fixups) bc.
         case obj_get libraries libName of
           None \<Rightarrow> bc
         | Some addr \<Rightarrow> fold (link_fixup addr) fixups bc) fileReferences)
       (linkReferences art) (bytecode art)"

text \<open>
  The compiler's placeholders are as long as an address and lie inside the bytecode; an
  address is \<^verbatim>\<open>0x\<close> and twice \<open>f_length\<close> digits.
\<close>

definition fixup_ok :: "string \<Rightarrow> nat \<Rightarrow> fixup \<Rightarrow> bool" where
  "fixup_ok addr n f \<longleftrightarrow> length addr = 2 + 2 * f_length f \<and> 2 + (f_start f + f_length f) * 2 \<le> n"

lemma length_link_fixup: "fixup_ok addr (length bc) f \<Longrightarrow> length (link_fixup addr f bc) = length bc"
  by (auto simp: link_fixup_def fixup_ok_def)

text \<open>The linked bytes are the address; every byte outside the placeholder is kept.\<close>

lemma link_fixup_inside:
  assumes "fixup_ok addr (length bc) f"
  shows "take (f_length f * 2) (drop (2 + f_start f * 2) (link_fixup addr f bc)) = drop 2 addr"
  using assms by (simp add: link_fixup_def fixup_ok_def min_def)

lemma link_fixup_outside:
  assumes "fixup_ok addr (length bc) f" and "i < 2 + f_start f * 2 \<or> 2 + (f_start f + f_length f) * 2 \<le> i"
  shows "i < length bc \<Longrightarrow> link_fixup addr f bc ! i = bc ! i"
  using assms by (auto simp: link_fixup_def fixup_ok_def nth_append min_def intro: arg_cong)

lemma length_link_fixups:
  "\<forall>f \<in> set fs. fixup_ok addr (length bc) f \<Longrightarrow> length (fold (link_fixup addr) fs bc) = length bc"
  by (induction fs arbitrary: bc) (auto simp: length_link_fixup)

definition links_ok :: "artifact \<Rightarrow> string obj \<Rightarrow> bool" where
  "links_ok art libraries \<longleftrightarrow>
     (\<forall>(fileName, refs) \<in> set (linkReferences art). \<forall>(libName, fixups) \<in> set refs.
        case obj_get libraries libName of
          None \<Rightarrow> True
        | Some addr \<Rightarrow> \<forall>f \<in> set fixups. fixup_ok addr (length (bytecode art)) f)"

lemma length_fold_kept:
  "(\<And>x b. x \<in> set xs \<Longrightarrow> length b = n \<Longrightarrow> length (g x b) = n) \<Longrightarrow> length b = n \<Longrightarrow>
   length (fold g xs b) = n"
  by (induction xs arbitrary: b) auto

lemma length_linkBytecode:
  assumes "links_ok art libraries"
  shows "length (linkBytecode art libraries) = length (bytecode art)"
  unfolding linkBytecode_def
proof (rule length_fold_kept)
  fix x and b :: string
  assume x: "x \<in> set (linkReferences art)" and len: "length b = length (bytecode art)"
  obtain fn refs where xp: "x = (fn, refs)" by (cases x)
  have "length (fold (\<lambda>(libName, fixups) bc. case obj_get libraries libName of None \<Rightarrow> bc
         | Some addr \<Rightarrow> fold (link_fixup addr) fixups bc) refs b) = length (bytecode art)"
  proof (rule length_fold_kept [OF _ len])
    fix y and b' :: string
    assume y: "y \<in> set refs" and len': "length b' = length (bytecode art)"
    obtain ln fs where yp: "y = (ln, fs)" by (cases y)
    from assms x xp y yp have "case obj_get libraries ln of None \<Rightarrow> True
        | Some addr \<Rightarrow> \<forall>f \<in> set fs. fixup_ok addr (length b') f"
      unfolding links_ok_def len' by blast
    then show "length ((\<lambda>(libName, fixups) bc. case obj_get libraries libName of None \<Rightarrow> bc
         | Some addr \<Rightarrow> fold (link_fixup addr) fixups bc) y b') = length (bytecode art)"
      using len' by (auto simp: yp length_link_fixups split: option.splits)
  qed
  with xp show "length ((\<lambda>(fileName, fileReferences).
       fold (\<lambda>(libName, fixups) bc. case obj_get libraries libName of None \<Rightarrow> bc
         | Some addr \<Rightarrow> fold (link_fixup addr) fixups bc) fileReferences) x b) = length (bytecode art)"
    by simp
qed simp

section \<open>Values per network and per pool\<close>

definition getParamPerNetwork :: "'c net \<Rightarrow> 'a per_network \<Rightarrow> string \<Rightarrow> 'a option" where
  "getParamPerNetwork E param network =
     (if truthy (n_FORK E) then param_at param (the (n_FORK E))
      else if network = ''coverage'' then pn_coverage param
      else if network = ''hardhat'' then pn_hardhat param
      else if network = ''localhost'' then pn_localhost param
      else if network = ''sepolia'' then pn_sepolia param
      else if network = ''goerli'' then pn_goerli param
      else if network = ''rinkeby'' then pn_rinkeby param
      else if network = ''main'' then pn_main param
      else pn_hardhat param)"

definition getOptionalParamAddressPerNetwork ::
  "'c net \<Rightarrow> string per_network option \<Rightarrow> string \<Rightarrow> string option" where
  "getOptionalParamAddressPerNetwork E param network =
     (case param of None \<Rightarrow> Some ZERO_ADDRESS | Some p \<Rightarrow> getParamPerNetwork E p network)"

text \<open>The only pool is \<^verbatim>\<open>proto\<close>; every other pool name falls back to it.\<close>

definition getParamPerPool :: "'a \<Rightarrow> string \<Rightarrow> 'a" where
  "getParamPerPool proto pool = (if pool = ''proto'' then proto else proto)"

lemma getParamPerNetwork_fork:
  "truthy (n_FORK E) \<Longrightarrow> getParamPerNetwork E p net1 = param_at p (the (n_FORK E))"
  by (simp add: getParamPerNetwork_def)

lemma getParamPerNetwork_monad:
  "\<not> truthy (n_FORK E) \<Longrightarrow> getParamPerNetwork E p ''monad'' = pn_hardhat p"
  by (simp add: getParamPerNetwork_def)

lemma getParamPerNetwork_known:
  "\<not> truthy (n_FORK E) \<Longrightarrow> net1 \<in> set eEthereumNetwork \<Longrightarrow> net1 \<noteq> ''monad'' \<Longrightarrow>
   getParamPerNetwork E p net1 = param_at p net1"
  by (auto simp: getParamPerNetwork_def param_at_def eEthereumNetwork_def)

section \<open>Permit messages\<close>

definition typed_field :: "string \<Rightarrow> string \<Rightarrow> js_value" where
  "typed_field n t = Obj [(''name'', Str n), (''type'', Str t)]"

definition buildPermitParams ::
  "int \<Rightarrow> string \<Rightarrow> string \<Rightarrow> string \<Rightarrow> string \<Rightarrow> string \<Rightarrow> int \<Rightarrow> string \<Rightarrow> string \<Rightarrow> js_value" where
  "buildPermitParams chainId token revision tokenName owner spender nonce deadline value1 =
     Obj [
       (''types'', Obj [
         (''EIP712Domain'', Arr [
            typed_field ''name'' ''string'',
            typed_field ''version'' ''string'',
            typed_field ''chainId'' ''uint256'',
            typed_field ''verifyingContract'' ''address'']),
         (''Permit'', Arr [
            typed_field ''owner'' ''address'',
            typed_field ''spender'' ''address'',
            typed_field ''value'' ''uint256'',
            typed_field ''nonce'' ''uint256'',
            typed_field ''deadline'' ''uint256''])]),
       (''primaryType'', Str ''Permit''),
       (''domain'', Obj [
         (''name'', Str tokenName),
         (''version'', Str revision),
         (''chainId'', Num chainId),
         (''verifyingContract'', Str token)]),
       (''message'', Obj [
         (''owner'', Str owner),
         (''spender'', Str spender),
         (''value'', Str value1),
         (''nonce'', Num nonce),
         (''deadline'', Str deadline)])]"

end
