(* ===== verification/Getters.thy ===== *)
theory Getters
  imports ContractsHelpers
begin

text \<open>
  \<^verbatim>\<open>helpers/contracts-getters.ts\<close>: the signers by role, one getter per contract
  (the address given, or else the one in the deployment database, connected to the deploy
  signer), the books of the mock tokens and NFTs, and the pairing of every asset with its
  price aggregator.  All getters are instances of \<open>connect_or_db\<close>, which carries their
  lemmas; the pairing is proved to be the lookup in the aggregator book.
\<close>

section \<open>Signers\<close>

definition getFirstSigner :: "'c net \<Rightarrow> string option" where
  "getFirstSigner E = arr_at (getEthersSigners E) 0"

definition getSecondSigner :: "'c net \<Rightarrow> string option" where
  "getSecondSigner E = arr_at (getEthersSigners E) 1"

definition getThirdSigner :: "'c net \<Rightarrow> string option" where
  "getThirdSigner E = arr_at (getEthersSigners E) 2"

definition getPoolAdminSigner :: "'c net \<Rightarrow> string option" where
  "getPoolAdminSigner E = arr_at (getEthersSigners E) 0"

definition getPoolOwnerSigner :: "'c net \<Rightarrow> string option" where
  "getPoolOwnerSigner E = arr_at (getEthersSigners E) 0"

definition getEmergencyAdminSigner :: "'c net \<Rightarrow> string option" where
  "getEmergencyAdminSigner E = arr_at (getEthersSigners E) 1"

definition getProxyAdminSigner :: "'c net \<Rightarrow> string option" where
  "getProxyAdminSigner E = arr_at (getEthersSigners E) 2"

section \<open>Contracts by address or by database key\<close>

definition connect_at :: "'c net \<Rightarrow> string \<Rightarrow> string \<Rightarrow> handle" where
  "connect_at E type1 address =
     \<lparr>h_type = type1, h_addr = address, h_signer = getDeploySigner E, h_deployer = None\<rparr>"

text \<open>\<^verbatim>\<open>.value().address\<close>: a missing entry is \<^verbatim>\<open>undefined\<close> and has no member.\<close>

definition db_value_address :: "string \<Rightarrow> ('c, string) prog" where
  "db_value_address id1 = await (db_get id1) (\<lambda>v.
     case v of
       None \<Rightarrow> throw (TypeError ''Cannot read properties of undefined (reading 'address')'')
     | Some e \<Rightarrow> ret (e_address e))"

definition connect_or_db :: "'c net \<Rightarrow> string \<Rightarrow> string \<Rightarrow> string option \<Rightarrow> ('c, handle) prog" where
  "connect_or_db E type1 id1 address =
     (if truthy address then ret (connect_at E type1 (the address))
      else await (db_value_address id1) (\<lambda>a. ret (connect_at E type1 a)))"

lemma connect_at_simps [simp]:
  "h_type (connect_at E t a) = t" "h_addr (connect_at E t a) = a"
  "h_signer (connect_at E t a) = getDeploySigner E" "h_deployer (connect_at E t a) = None"
  by (simp_all add: connect_at_def)

lemma db_value_address_Ret_iff [run_simps]:
  "db_value_address k w = (Ret a, w') \<longleftrightarrow> (\<exists>e. db w k = Some e \<and> e_address e = a) \<and> w' = w"
  by (auto simp: db_value_address_def await_def db_get_def ret_def throw_def split: option.splits)

lemma connect_or_db_Ret_iff [run_simps]:
  "connect_or_db E t k address w = (Ret h, w') \<longleftrightarrow> w' = w \<and>
     (if truthy address then h = connect_at E t (the address)
      else \<exists>e. db w k = Some e \<and> h = connect_at E t (e_address e))"
  by (auto simp: connect_or_db_def run_simps)

lemma connect_or_db_some: "a \<noteq> [] \<Longrightarrow> connect_or_db E t k (Some a) = ret (connect_at E t a)"
  by (simp add: connect_or_db_def)

lemma connect_or_db_none:
  "connect_or_db E t k None w = (case db w k of
     Some e \<Rightarrow> (Ret (connect_at E t (e_address e)), w)
   | None \<Rightarrow> (Throw (TypeError ''Cannot read properties of undefined (reading 'address')''), w))"
  by (simp add: connect_or_db_def db_value_address_def await_def db_get_def ret_def throw_def
      split: option.splits)

lemma connect_or_db_missing:
  "db w k = None \<Longrightarrow> never_returns (connect_or_db E t k None) w"
  by (simp add: never_returns_def connect_or_db_Ret_iff)

context run_rel begin

lemma keeps_db_value_address [keeps_intros]: "keeps R (db_value_address k)"
  unfolding db_value_address_def by (intro keeps_intros)

lemma keeps_connect_or_db [keeps_intros]: "keeps R (connect_or_db E' t k a)"
  unfolding connect_or_db_def by (intro keeps_intros)

end

definition getLendPoolAddressesProviderRegistry :: "'c net \<Rightarrow> string option \<Rightarrow> ('c, handle) prog" where
  "getLendPoolAddressesProviderRegistry E address = connect_or_db E ''LendPoolAddressesProviderRegistry'' ''LendPoolAddressesProviderRegistry'' address"

definition getLendPoolAddressesProvider :: "'c net \<Rightarrow> string option \<Rightarrow> ('c, handle) prog" where
  "getLendPoolAddressesProvider E address = connect_or_db E ''LendPoolAddressesProvider'' ''LendPoolAddressesProvider'' address"

definition getLendPoolConfiguratorProxy :: "'c net \<Rightarrow> string option \<Rightarrow> ('c, handle) prog" where
  "getLendPoolConfiguratorProxy E address = connect_or_db E ''LendPoolConfigurator'' ''LendPoolConfigurator'' address"

definition getBNFTRegistryProxy :: "'c net \<Rightarrow> string option \<Rightarrow> ('c, handle) prog" where
  "getBNFTRegistryProxy E address = connect_or_db E ''BNFTRegistry'' ''BNFTRegistry'' address"

definition getLendPoolLoanProxy :: "'c net \<Rightarrow> string option \<Rightarrow> ('c, handle) prog" where
  "getLendPoolLoanProxy E address = connect_or_db E ''LendPoolLoan'' ''LendPoolLoan'' address"

definition getLendPool :: "'c net \<Rightarrow> string option \<Rightarrow> ('c, handle) prog" where
  "getLendPool E address = connect_or_db E ''LendPool'' ''LendPool'' address"

definition getReserveOracle :: "'c net \<Rightarrow> string option \<Rightarrow> ('c, handle) prog" where
  "getReserveOracle E address = connect_or_db E ''ReserveOracle'' ''ReserveOracle'' address"

definition getReserveOracleImpl :: "'c net \<Rightarrow> string option \<Rightarrow> ('c, handle) prog" where
  "getReserveOracleImpl E address = connect_or_db E ''ReserveOracle'' ''ReserveOracleImpl'' address"

definition getMockChainlinkOracle :: "'c net \<Rightarrow> string option \<Rightarrow> ('c, handle) prog" where
  "getMockChainlinkOracle E address = connect_or_db E ''MockChainlinkOracle'' ''MockChainlinkOracle'' address"

definition getChainlinkAggregatorHelper :: "'c net \<Rightarrow> string option \<Rightarrow> ('c, handle) prog" where
  "getChainlinkAggregatorHelper E address = connect_or_db E ''ChainlinkAggregatorHelper'' ''ChainlinkAggregatorHelper'' address"

definition getChainlinkAggregatorHelperImpl :: "'c net \<Rightarrow> string option \<Rightarrow> ('c, handle) prog" where
  "getChainlinkAggregatorHelperImpl E address = connect_or_db E ''ChainlinkAggregatorHelper'' ''ChainlinkAggregatorHelperImpl'' address"

definition getNFTOracle :: "'c net \<Rightarrow> string option \<Rightarrow> ('c, handle) prog" where
  "getNFTOracle E address = connect_or_db E ''NFTOracle'' ''NFTOracle'' address"

definition getNFTOracleImpl :: "'c net \<Rightarrow> string option \<Rightarrow> ('c, handle) prog" where
  "getNFTOracleImpl E address = connect_or_db E ''NFTOracle'' ''NFTOracleImpl'' address"

definition getTokenOracle :: "'c net \<Rightarrow> string option \<Rightarrow> ('c, handle) prog" where
  "getTokenOracle E address = connect_or_db E ''NFTOracle'' ''TokenOracle'' address"

definition getTokenOracleImpl :: "'c net \<Rightarrow> string option \<Rightarrow> ('c, handle) prog" where
  "getTokenOracleImpl E address = connect_or_db E ''NFTOracle'' ''TokenOracleImpl'' address"

definition getMockReserveOracle :: "'c net \<Rightarrow> string option \<Rightarrow> ('c, handle) prog" where
  "getMockReserveOracle E address = connect_or_db E ''MockReserveOracle'' ''MockReserveOracle'' address"

definition getMockNFTOracle :: "'c net \<Rightarrow> string option \<Rightarrow> ('c, handle) prog" where
  "getMockNFTOracle E address = connect_or_db E ''MockNFTOracle'' ''MockNFTOracle'' address"

definition getBToken :: "'c net \<Rightarrow> string option \<Rightarrow> ('c, handle) prog" where
  "getBToken E address = connect_or_db E ''BToken'' ''BToken'' address"

definition getDebtToken :: "'c net \<Rightarrow> string option \<Rightarrow> ('c, handle) prog" where
  "getDebtToken E address = connect_or_db E ''DebtToken'' ''DebtToken'' address"

definition getBNFT :: "'c net \<Rightarrow> string option \<Rightarrow> ('c, handle) prog" where
  "getBNFT E address = connect_or_db E ''BNFT'' ''BNFT'' address"

definition getMintableERC20 :: "'c net \<Rightarrow> string option \<Rightarrow> ('c, handle) prog" where
  "getMintableERC20 E address = connect_or_db E ''MintableERC20'' ''MintableERC20'' address"

definition getMintableERC721 :: "'c net \<Rightarrow> string option \<Rightarrow> ('c, handle) prog" where
  "getMintableERC721 E address = connect_or_db E ''MintableERC721'' ''MintableERC721'' address"

definition getIErc20Detailed :: "'c net \<Rightarrow> string option \<Rightarrow> ('c, handle) prog" where
  "getIErc20Detailed E address = connect_or_db E ''IERC20Detailed'' ''IERC20Detailed'' address"

definition getIErc721Detailed :: "'c net \<Rightarrow> string option \<Rightarrow> ('c, handle) prog" where
  "getIErc721Detailed E address = connect_or_db E ''IERC721Detailed'' ''IERC721Detailed'' address"

definition getBendProtocolDataProvider :: "'c net \<Rightarrow> string option \<Rightarrow> ('c, handle) prog" where
  "getBendProtocolDataProvider E address = connect_or_db E ''BendProtocolDataProvider'' ''BendProtocolDataProvider'' address"

definition getUIPoolDataProvider :: "'c net \<Rightarrow> string option \<Rightarrow> ('c, handle) prog" where
  "getUIPoolDataProvider E address = connect_or_db E ''UiPoolDataProvider'' ''UIPoolDataProvider'' address"

definition getInterestRate :: "'c net \<Rightarrow> string option \<Rightarrow> ('c, handle) prog" where
  "getInterestRate E address = connect_or_db E ''InterestRate'' ''InterestRate'' address"

definition getNftLogic :: "'c net \<Rightarrow> string option \<Rightarrow> ('c, handle) prog" where
  "getNftLogic E address = connect_or_db E ''NftLogic'' ''NftLogic'' address"

definition getReserveLogic :: "'c net \<Rightarrow> string option \<Rightarrow> ('c, handle) prog" where
  "getReserveLogic E address = connect_or_db E ''ReserveLogic'' ''ReserveLogic'' address"

definition getGenericLogic :: "'c net \<Rightarrow> string option \<Rightarrow> ('c, handle) prog" where
  "getGenericLogic E address = connect_or_db E ''GenericLogic'' ''GenericLogic'' address"

definition getSupplyLogic :: "'c net \<Rightarrow> string option \<Rightarrow> ('c, handle) prog" where
  "getSupplyLogic E address = connect_or_db E ''SupplyLogic'' ''SupplyLogic'' address"

definition getBorrowLogic :: "'c net \<Rightarrow> string option \<Rightarrow> ('c, handle) prog" where
  "getBorrowLogic E address = connect_or_db E ''BorrowLogic'' ''BorrowLogic'' address"

definition getLiquidateLogic :: "'c net \<Rightarrow> string option \<Rightarrow> ('c, handle) prog" where
  "getLiquidateLogic E address = connect_or_db E ''LiquidateLogic'' ''LiquidateLogic'' address"

definition getConfiguratorLogic :: "'c net \<Rightarrow> string option \<Rightarrow> ('c, handle) prog" where
  "getConfiguratorLogic E address = connect_or_db E ''ConfiguratorLogic'' ''ConfiguratorLogic'' address"

definition getWETHGateway :: "'c net \<Rightarrow> string option \<Rightarrow> ('c, handle) prog" where
  "getWETHGateway E address = connect_or_db E ''WETHGateway'' ''WETHGateway'' address"

definition getWETHGatewayImpl :: "'c net \<Rightarrow> string option \<Rightarrow> ('c, handle) prog" where
  "getWETHGatewayImpl E address = connect_or_db E ''WETHGateway'' ''WETHGatewayImpl'' address"

definition getWETHMocked :: "'c net \<Rightarrow> string option \<Rightarrow> ('c, handle) prog" where
  "getWETHMocked E address = connect_or_db E ''WETH9Mocked'' ''WETHMocked'' address"

definition getSelfdestructTransferMock :: "'c net \<Rightarrow> string option \<Rightarrow> ('c, handle) prog" where
  "getSelfdestructTransferMock E address = connect_or_db E ''SelfdestructTransfer'' ''SelfdestructTransferMock'' address"

definition getLendPoolImpl :: "'c net \<Rightarrow> string option \<Rightarrow> ('c, handle) prog" where
  "getLendPoolImpl E address = connect_or_db E ''LendPool'' ''LendPoolImpl'' address"

definition getLendPoolConfiguratorImpl :: "'c net \<Rightarrow> string option \<Rightarrow> ('c, handle) prog" where
  "getLendPoolConfiguratorImpl E address = connect_or_db E ''LendPoolConfigurator'' ''LendPoolConfiguratorImpl'' address"

definition getLendPoolLoanImpl :: "'c net \<Rightarrow> string option \<Rightarrow> ('c, handle) prog" where
  "getLendPoolLoanImpl E address = connect_or_db E ''LendPoolLoan'' ''LendPoolLoanImpl'' address"

definition getBNFTRegistryImpl :: "'c net \<Rightarrow> string option \<Rightarrow> ('c, handle) prog" where
  "getBNFTRegistryImpl E address = connect_or_db E ''BNFTRegistry'' ''BNFTRegistryImpl'' address"

definition getWalletProvider :: "'c net \<Rightarrow> string option \<Rightarrow> ('c, handle) prog" where
  "getWalletProvider E address = connect_or_db E ''WalletBalanceProvider'' ''WalletBalanceProvider'' address"

definition getCryptoPunksMarket :: "'c net \<Rightarrow> string option \<Rightarrow> ('c, handle) prog" where
  "getCryptoPunksMarket E address = connect_or_db E ''CryptoPunksMarket'' ''CryptoPunksMarket'' address"

definition getWrappedPunk :: "'c net \<Rightarrow> string option \<Rightarrow> ('c, handle) prog" where
  "getWrappedPunk E address = connect_or_db E ''WrappedPunk'' ''WrappedPunk'' address"

definition getPunkGateway :: "'c net \<Rightarrow> string option \<Rightarrow> ('c, handle) prog" where
  "getPunkGateway E address = connect_or_db E ''PunkGateway'' ''PunkGateway'' address"

definition getPunkGatewayImpl :: "'c net \<Rightarrow> string option \<Rightarrow> ('c, handle) prog" where
  "getPunkGatewayImpl E address = connect_or_db E ''PunkGateway'' ''PunkGatewayImpl'' address"

definition getMockIncentivesController :: "'c net \<Rightarrow> string option \<Rightarrow> ('c, handle) prog" where
  "getMockIncentivesController E address = connect_or_db E ''MockIncentivesController'' ''MockIncentivesController'' address"

definition getBendCollectorProxy :: "'c net \<Rightarrow> string option \<Rightarrow> ('c, handle) prog" where
  "getBendCollectorProxy E address = connect_or_db E ''BendCollector'' ''BendCollector'' address"

definition getBendCollectorImpl :: "'c net \<Rightarrow> string option \<Rightarrow> ('c, handle) prog" where
  "getBendCollectorImpl E address = connect_or_db E ''BendCollector'' ''BendCollectorImpl'' address"

definition getMockERC721Underlying :: "'c net \<Rightarrow> string \<Rightarrow> string option \<Rightarrow> ('c, handle) prog" where
  "getMockERC721Underlying E id1 address = connect_or_db E ''MintableERC721'' id1 address"

definition getMockERC721Wrapper :: "'c net \<Rightarrow> string \<Rightarrow> string option \<Rightarrow> ('c, handle) prog" where
  "getMockERC721Wrapper E id1 address = connect_or_db E ''MockerERC721Wrapper'' id1 address"

definition getWrapperGateway :: "'c net \<Rightarrow> string \<Rightarrow> string option \<Rightarrow> ('c, handle) prog" where
  "getWrapperGateway E id1 address = connect_or_db E ''WrapperGateway'' id1 address"

definition getUniswapV3DebtSwapAdapter :: "'c net \<Rightarrow> string option \<Rightarrow> ('c, handle) prog" where
  "getUniswapV3DebtSwapAdapter E address = connect_or_db E ''UniswapV3DebtSwapAdapter'' ''UniswapV3DebtSwapAdapter'' address"

definition getUniswapV3DebtSwapAdapterImpl :: "'c net \<Rightarrow> string option \<Rightarrow> ('c, handle) prog" where
  "getUniswapV3DebtSwapAdapterImpl E address = connect_or_db E ''UniswapV3DebtSwapAdapter'' ''UniswapV3DebtSwapAdapterImpl'' address"

lemmas getter_defs =
  getLendPoolAddressesProviderRegistry_def getLendPoolAddressesProvider_def
  getLendPoolConfiguratorProxy_def getBNFTRegistryProxy_def getLendPoolLoanProxy_def
  getLendPool_def getReserveOracle_def getReserveOracleImpl_def getMockChainlinkOracle_def
  getChainlinkAggregatorHelper_def getChainlinkAggregatorHelperImpl_def getNFTOracle_def
  getNFTOracleImpl_def getTokenOracle_def getTokenOracleImpl_def getMockReserveOracle_def
  getMockNFTOracle_def getBToken_def getDebtToken_def getBNFT_def getMintableERC20_def
  getMintableERC721_def getIErc20Detailed_def getIErc721Detailed_def
  getBendProtocolDataProvider_def getUIPoolDataProvider_def getInterestRate_def getNftLogic_def
  getReserveLogic_def getGenericLogic_def getSupplyLogic_def getBorrowLogic_def
  getLiquidateLogic_def getConfiguratorLogic_def getWETHGateway_def getWETHGatewayImpl_def
  getWETHMocked_def getSelfdestructTransferMock_def getLendPoolImpl_def
  getLendPoolConfiguratorImpl_def getLendPoolLoanImpl_def getBNFTRegistryImpl_def
  getWalletProvider_def getCryptoPunksMarket_def getWrappedPunk_def getPunkGateway_def
  getPunkGatewayImpl_def getMockIncentivesController_def getBendCollectorProxy_def
  getBendCollectorImpl_def getMockERC721Underlying_def getMockERC721Wrapper_def
  getWrapperGateway_def getUniswapV3DebtSwapAdapter_def getUniswapV3DebtSwapAdapterImpl_def

definition getBendUpgradeableProxy :: "'c net \<Rightarrow> string \<Rightarrow> ('c, handle) prog" where
  "getBendUpgradeableProxy E address = ret (connect_at E ''BendUpgradeableProxy'' address)"

definition getBendProxyAdminByAddress :: "'c net \<Rightarrow> string \<Rightarrow> ('c, handle) prog" where
  "getBendProxyAdminByAddress E address = ret (connect_at E ''BendProxyAdmin'' address)"

definition getBendProxyAdminById :: "'c net \<Rightarrow> string \<Rightarrow> ('c, handle) prog" where
  "getBendProxyAdminById E id1 =
     await (db_value_address id1) (\<lambda>a. ret (connect_at E ''BendProxyAdmin'' a))"

definition getAddressById :: "string \<Rightarrow> ('c, string option) prog" where
  "getAddressById id1 = await (db_get id1) (\<lambda>v.
     ret (case v of None \<Rightarrow> None | Some e \<Rightarrow> if e_address e = [] then None else Some (e_address e)))"

lemma getBendProxyAdminById_Ret_iff [run_simps]:
  "getBendProxyAdminById E k w = (Ret h, w') \<longleftrightarrow>
     w' = w \<and> (\<exists>e. db w k = Some e \<and> h = connect_at E ''BendProxyAdmin'' (e_address e))"
  by (auto simp: getBendProxyAdminById_def run_simps)

lemma getAddressById_run: "getAddressById k w = (Ret (db_address w k), w)"
  by (simp add: getAddressById_def await_def db_get_def ret_def db_address_def)

section \<open>Books of mock contracts\<close>

text \<open>
  One entry of the four books: the address under the upper-case symbol.  The asynchronous
  \<^verbatim>\<open>reduce\<close> awaits the accumulator first, so the entries are read in order.
\<close>

definition mock_book ::
  "('c net \<Rightarrow> string option \<Rightarrow> ('c, handle) prog) \<Rightarrow> 'c net \<Rightarrow> string list \<Rightarrow> ('c, handle obj) prog" where
  "mock_book get1 E tokenSymbols = for_fold tokenSymbols (\<lambda>tokenSymbol accumulator.
     await (db_value_address (js_upper tokenSymbol)) (\<lambda>address.
     await (get1 E (Some address)) (\<lambda>h.
     ret (obj_set tokenSymbol h accumulator)))) []"

definition getMockedTokens :: "'c net \<Rightarrow> pool_config \<Rightarrow> ('c, handle obj) prog" where
  "getMockedTokens E config = mock_book getMintableERC20 E (obj_keys (ReservesConfig config))"

definition getAllMockedTokens :: "'c net \<Rightarrow> ('c, handle obj) prog" where
  "getAllMockedTokens E = mock_book getMintableERC20 E TokenContractId"

definition getConfigMockedNfts :: "'c net \<Rightarrow> pool_config \<Rightarrow> ('c, handle obj) prog" where
  "getConfigMockedNfts E config = mock_book getMintableERC721 E (obj_keys (NftsConfig config))"

definition getAllMockedNfts :: "'c net \<Rightarrow> ('c, handle obj) prog" where
  "getAllMockedNfts E = mock_book getMintableERC721 E NftContractId"

text \<open>A book that returned had an entry for every symbol, and did not change the world.\<close>

lemma for_fold_Ret_Cons [run_simps]:
  "for_fold (x # xs) f acc w = (Ret y, w'') \<longleftrightarrow>
     (\<exists>acc' w'. f x acc w = (Ret acc', w') \<and> for_fold xs f acc' w' = (Ret y, w''))"
  by (auto simp: await_Ret_iff)

lemma for_fold_Ret_Nil [run_simps]: "for_fold [] f acc w = (Ret y, w') \<longleftrightarrow> y = acc \<and> w' = w"
  by (auto simp: ret_Ret_iff)

lemma mock_fold_Ret:
  assumes "for_fold syms (\<lambda>sym acc.
     await (db_value_address (js_upper sym)) (\<lambda>address.
     await (connect_or_db E t k (Some address)) (\<lambda>h. ret (obj_set sym h acc)))) acc w = (Ret book, w')"
  shows "w' = w \<and> (\<forall>s \<in> set syms. db w (js_upper s) \<noteq> None)"
  using assms
proof (induction syms arbitrary: acc)
  case Nil
  then show ?case by (simp add: ret_Ret_iff)
next
  case (Cons s syms)
  then show ?case by (fastforce simp: for_fold_Ret_Cons await_Ret_iff db_value_address_Ret_iff
      connect_or_db_Ret_iff ret_Ret_iff simp del: for_fold.simps)
qed

lemma getConfigMockedNfts_Ret:
  "getConfigMockedNfts E config w = (Ret book, w') \<Longrightarrow>
   w' = w \<and> (\<forall>s \<in> set (obj_keys (NftsConfig config)). db w (js_upper s) \<noteq> None)"
  unfolding getConfigMockedNfts_def mock_book_def getMintableERC721_def by (rule mock_fold_Ret)

lemma getMockedTokens_Ret:
  "getMockedTokens E config w = (Ret book, w') \<Longrightarrow>
   w' = w \<and> (\<forall>s \<in> set (obj_keys (ReservesConfig config)). db w (js_upper s) \<noteq> None)"
  unfolding getMockedTokens_def mock_book_def getMintableERC20_def by (rule mock_fold_Ret)

context run_rel begin

lemma keeps_mock_fold [keeps_intros]:
  "keeps R (for_fold syms (\<lambda>sym acc.
     await (db_value_address (js_upper sym)) (\<lambda>address.
     await (connect_or_db E' t k (Some address)) (\<lambda>h. ret (obj_set sym h acc)))) acc)"
  by (intro keeps_intros)

lemma keeps_books [keeps_intros]:
  "keeps R (getMockedTokens E' config)" "keeps R (getAllMockedTokens E')"
  "keeps R (getConfigMockedNfts E' config)" "keeps R (getAllMockedNfts E')"
  unfolding getMockedTokens_def getAllMockedTokens_def getConfigMockedNfts_def getAllMockedNfts_def
    mock_book_def getMintableERC20_def getMintableERC721_def
  by (rule keeps_mock_fold)+

lemma keeps_getBendProxy [keeps_intros]:
  "keeps R (getBendUpgradeableProxy E' a)" "keeps R (getBendProxyAdminByAddress E' a)"
  "keeps R (getBendProxyAdminById E' k)" "keeps R (getAddressById k)"
  unfolding getBendUpgradeableProxy_def getBendProxyAdminByAddress_def getBendProxyAdminById_def
    getAddressById_def
  by (intro keeps_intros)+

end

section \<open>Assets and their aggregators\<close>

definition getQuoteCurrencies :: "string \<Rightarrow> string list" where
  "getQuoteCurrencies oracleQuoteCurrency =
     (if oracleQuoteCurrency = ''ETH'' then [''ETH'', ''WETH'']
      else if oracleQuoteCurrency = ''WETH'' then [''ETH'', ''WETH'']
      else [''ETH'', ''WETH''])"

text \<open>\<^verbatim>\<open>map\<close> with a callback that may throw: the first throw ends it.\<close>

fun map_or_throw :: "('a \<Rightarrow> js_error + 'b) \<Rightarrow> 'a list \<Rightarrow> js_error + 'b list" where
  "map_or_throw f [] = Inr []"
| "map_or_throw f (x # xs) = (case f x of
     Inl e \<Rightarrow> Inl e
   | Inr y \<Rightarrow> (case map_or_throw f xs of Inl e \<Rightarrow> Inl e | Inr ys \<Rightarrow> Inr (y # ys)))"

definition getPairsTokenAggregator ::
  "string obj \<Rightarrow> string obj \<Rightarrow> string \<Rightarrow> js_error + (string list \<times> string list)" where
  "getPairsTokenAggregator allAssetsAddresses aggregatorsAddresses oracleQuoteCurrency =
     (let assetsWithoutQuoteCurrency = omit allAssetsAddresses (getQuoteCurrencies oracleQuoteCurrency) in
      case map_or_throw (\<lambda>(tokenSymbol, tokenAddress).
          let aggregatorAddressIndex =
                findIndex (\<lambda>value1. value1 = tokenSymbol) (obj_keys aggregatorsAddresses)
          in if aggregatorAddressIndex < 0
             then Inl (JsError (''can not find aggregator for '' @ tokenSymbol))
             else case arr_at aggregatorsAddresses aggregatorAddressIndex of
                 None \<Rightarrow> Inl (TypeError ''undefined is not iterable'')
               | Some (_, aggregatorAddress) \<Rightarrow> Inr (tokenAddress, aggregatorAddress))
        assetsWithoutQuoteCurrency of
        Inl e \<Rightarrow> Inl e
      | Inr pairs \<Rightarrow> Inr (map (\<lambda>(asset, _). asset) pairs, map (\<lambda>(_, source). source) pairs))"

lemma findIndex_mem: "findIndex (\<lambda>v. v = k) ks < 0 \<longleftrightarrow> k \<notin> set ks"
  by (auto simp: findIndex_neg)

text \<open>The callback is the association-list lookup, with its error.\<close>

lemma aggregator_callback:
  "(let i = findIndex (\<lambda>v. v = s) (obj_keys aggs)
    in if i < 0 then Inl (JsError m)
       else case arr_at aggs i of None \<Rightarrow> Inl e | Some (_, agg) \<Rightarrow> Inr (tok, agg)) =
   (case obj_get aggs s of None \<Rightarrow> Inl (JsError m) | Some agg \<Rightarrow> Inr (tok, agg))"
proof (cases "obj_get aggs s")
  case None
  then have "s \<notin> set (obj_keys aggs)" by (simp add: map_of_eq_None_iff)
  then show ?thesis using None by (simp add: findIndex_mem Let_def)
next
  case (Some agg)
  then have "s \<in> set (obj_keys aggs)" by (metis map_of_eq_None_iff option.distinct(1) list.set_map)
  then have "\<not> findIndex (\<lambda>v. v = s) (obj_keys aggs) < 0" by (simp add: findIndex_mem)
  with Some show ?thesis
    using entry_by_key_map_of [of aggs s] by (simp add: Let_def entry_by_key_def)
qed

lemma map_or_throw_Inr: "map_or_throw f xs = Inr ys \<longleftrightarrow> map f xs = map Inr ys"
proof (induction xs arbitrary: ys)
  case Nil
  then show ?case by auto
next
  case (Cons x xs)
  have inj: "map Inr as = map Inr bs \<longleftrightarrow> as = bs" for as bs :: "'b list"
    by (simp add: inj_map_eq_map)
  show ?case
    by (cases ys) (auto split: sum.splits simp: inj Cons.IH [symmetric])
qed

lemma map_or_throw_total:
  "(\<exists>ys. map_or_throw f xs = Inr ys) \<longleftrightarrow> (\<forall>x \<in> set xs. \<exists>y. f x = Inr y)"
  by (induction xs) (auto split: sum.splits)

definition aggregator_of :: "string obj \<Rightarrow> string \<times> string \<Rightarrow> js_error + (string \<times> string)" where
  "aggregator_of aggs = (\<lambda>(sym, tok). case obj_get aggs sym of
     None \<Rightarrow> Inl (JsError (''can not find aggregator for '' @ sym)) | Some agg \<Rightarrow> Inr (tok, agg))"

lemma getQuoteCurrencies_const [simp]: "getQuoteCurrencies q = [''ETH'', ''WETH'']"
  by (simp add: getQuoteCurrencies_def)

lemma getPairsTokenAggregator_lookup:
  "getPairsTokenAggregator assets aggs q =
     (case map_or_throw (aggregator_of aggs) (omit assets [''ETH'', ''WETH'']) of
        Inl e \<Rightarrow> Inl e | Inr pairs \<Rightarrow> Inr (map fst pairs, map snd pairs))"
proof -
  have callback: "(\<lambda>(tokenSymbol, tokenAddress).
      let i = findIndex (\<lambda>v. v = tokenSymbol) (obj_keys aggs)
      in if i < 0 then Inl (JsError (''can not find aggregator for '' @ tokenSymbol))
         else case arr_at aggs i of None \<Rightarrow> Inl (TypeError ''undefined is not iterable'')
              | Some (_, agg) \<Rightarrow> Inr (tokenAddress, agg)) = aggregator_of aggs"
    unfolding aggregator_of_def by (rule ext, rule prod.case_cong [OF refl]) (rule aggregator_callback)
  have proj: "(\<lambda>(asset, _). asset) = fst" "(\<lambda>(_, source). source) = snd" by auto
  show ?thesis
    unfolding getPairsTokenAggregator_def callback proj by (simp add: Let_def)
qed

end
