(* ===== verification/Configuration.thy ===== *)
theory Configuration
  imports Getters
begin

text \<open>
  \<^verbatim>\<open>helpers/configuration.ts\<close> and the parts of \<^verbatim>\<open>helpers/contracts-helpers.ts\<close> that
  use it: which configuration a pool name stands for, who administers a market on the
  current network, and the address of a contract from the market configuration or, failing
  that, from the deployment database.
\<close>

section \<open>Pool configurations\<close>

text \<open>A synchronous function that may throw, run inside a script.\<close>

definition lift_result :: "js_error + 'a \<Rightarrow> ('c, 'a) prog" where
  "lift_result r = (case r of Inl e \<Rightarrow> throw e | Inr a \<Rightarrow> ret a)"

lemma lift_result_simps [simp]: "lift_result (Inl e) = throw e" "lift_result (Inr a) = ret a"
  by (simp_all add: lift_result_def)

lemma lift_result_Ret_iff [run_simps]: "lift_result r w = (Ret a, w') \<longleftrightarrow> r = Inr a \<and> w' = w"
  by (cases r) (auto simp: run_simps)

definition loadPoolConfig :: "string \<Rightarrow> js_error + pool_config" where
  "loadPoolConfig configName =
     (if configName = ''Bend'' then Inr BendConfig
      else if configName = ''Commons'' then Inr CommonsConfig
      else Inl (JsError ''Unsupported pool configuration: Commons,Bend''))"

lemma loadPoolConfig_Bend [simp]: "loadPoolConfig ''Bend'' = Inr BendConfig"
  by (simp add: loadPoolConfig_def)

definition getReservesConfigByPool :: "string \<Rightarrow> reserve_params obj" where
  "getReservesConfigByPool pool = getParamPerPool (obj_spread [] (ReservesConfig BendConfig)) pool"

definition getNftsConfigByPool :: "string \<Rightarrow> nft_params obj" where
  "getNftsConfigByPool pool = getParamPerPool (obj_spread [] (NftsConfig BendConfig)) pool"

lemma obj_spread_Nil: "distinct (obj_keys o1) \<Longrightarrow> obj_spread [] o1 = o1"
proof -
  have "distinct (map fst ps) \<Longrightarrow> set (map fst ps) \<inter> set (map fst acc) = {} \<Longrightarrow>
      fold (\<lambda>(k, v). obj_set k v) ps acc = acc @ ps" for ps acc :: "'a obj"
  proof (induction ps arbitrary: acc)
    case (Cons p ps)
    obtain k v where p: "p = (k, v)" by (cases p)
    have "fold (\<lambda>(k, v). obj_set k v) ps (acc @ [(k, v)]) = (acc @ [(k, v)]) @ ps"
      by (rule Cons.IH) (use Cons.prems p in auto)
    with Cons.prems p show ?case by (simp add: obj_set_fresh)
  qed simp
  then show "distinct (obj_keys o1) \<Longrightarrow> obj_spread [] o1 = o1" by (simp add: obj_spread_def)
qed

lemma getReservesConfigByPool_bend: "getReservesConfigByPool pool = bend_ReservesConfig"
  by (simp add: getReservesConfigByPool_def getParamPerPool_def obj_spread_Nil distinct_bend_symbols)

lemma getNftsConfigByPool_bend: "getNftsConfigByPool pool = bend_NftsConfig"
  by (simp add: getNftsConfigByPool_def getParamPerPool_def obj_spread_Nil distinct_bend_symbols)

section \<open>Addresses and administrators of a market\<close>

definition fork_network :: "'c net \<Rightarrow> string" where
  "fork_network E = (if truthy (n_FORK E) then the (n_FORK E) else n_network E)"

definition getProviderRegistryAddress :: "'c net \<Rightarrow> pool_config \<Rightarrow> string" where
  "getProviderRegistryAddress E config =
     (let currentNetwork = fork_network E;
          registryAddress = getParamPerNetwork E (ProviderRegistry config) currentNetwork
      in if truthy registryAddress then the registryAddress else ZERO_ADDRESS)"

definition getGenesisPoolAdmin :: "'c net \<Rightarrow> pool_config \<Rightarrow> string option" where
  "getGenesisPoolAdmin E config =
     (let currentNetwork = fork_network E;
          targetAddress = getParamPerNetwork E (PoolAdmin config) currentNetwork
      in if truthy targetAddress then targetAddress
         else arr_at (getEthersSignersAddresses E) (int (PoolAdminIndex config)))"

definition getEmergencyAdmin :: "'c net \<Rightarrow> pool_config \<Rightarrow> string option" where
  "getEmergencyAdmin E config =
     (let currentNetwork = fork_network E;
          targetAddress = getParamPerNetwork E (EmergencyAdmin config) currentNetwork
      in if truthy targetAddress then targetAddress
         else arr_at (getEthersSignersAddresses E) (int (EmergencyAdminIndex config)))"

definition getReserveFactorCollectorAddress :: "'c net \<Rightarrow> pool_config \<Rightarrow> string option" where
  "getReserveFactorCollectorAddress E config =
     getParamPerNetwork E (ReserveFactorCollectorAddress config) (fork_network E)"

section \<open>Market configuration first, deployment database second\<close>

definition getContractAddressWithJsonFallback :: "'c net \<Rightarrow> string \<Rightarrow> string \<Rightarrow> ('c, string) prog" where
  "getContractAddressWithJsonFallback E id1 pool =
     await (lift_result (loadPoolConfig pool)) (\<lambda>poolConfig.
     let network = n_network E;
         contractAtMarketConfig =
           getOptionalParamAddressPerNetwork E (config_param poolConfig id1) network
     in if notFalsyOrZeroAddress E contractAtMarketConfig then ret (the contractAtMarketConfig)
        else await (db_get id1) (\<lambda>contractAtDb. case contractAtDb of
            Some e \<Rightarrow> if e_address e \<noteq> [] then ret (e_address e) else throw (missing_address id1)
          | None \<Rightarrow> throw (missing_address id1)))"

definition market_address :: "'c net \<Rightarrow> string \<Rightarrow> string option" where
  "market_address E id1 =
     (let a = getOptionalParamAddressPerNetwork E (config_param BendConfig id1) (n_network E)
      in if notFalsyOrZeroAddress E a then a else None)"

lemma getContractAddressWithJsonFallback_run:
  "getContractAddressWithJsonFallback E k ''Bend'' w =
     (case market_address E k of
        Some a \<Rightarrow> (Ret a, w)
      | None \<Rightarrow> (case db_address w k of
            Some a \<Rightarrow> (Ret a, w) | None \<Rightarrow> (Throw (missing_address k), w)))"
proof (cases "notFalsyOrZeroAddress E
    (getOptionalParamAddressPerNetwork E (config_param BendConfig k) (n_network E))")
  case True
  then show ?thesis
    by (cases "getOptionalParamAddressPerNetwork E (config_param BendConfig k) (n_network E)")
      (simp_all add: getContractAddressWithJsonFallback_def market_address_def Let_def ret_def await_def)
next
  case False
  then show ?thesis
    by (simp add: getContractAddressWithJsonFallback_def market_address_def Let_def db_address_def
        await_def db_get_def ret_def throw_def split: option.splits)
qed

lemma getContractAddressWithJsonFallback_Ret_iff [run_simps]:
  "getContractAddressWithJsonFallback E k ''Bend'' w = (Ret a, w') \<longleftrightarrow>
     w' = w \<and> (market_address E k = Some a \<or> market_address E k = None \<and> db_address w k = Some a)"
  by (auto simp: getContractAddressWithJsonFallback_run split: option.splits)

context run_rel begin

lemma keeps_lift_result [keeps_intros]: "keeps R (lift_result r)"
  by (cases r) (simp_all add: keeps_ret keeps_throw)

lemma keeps_getContractAddressWithJsonFallback [keeps_intros]:
  "keeps R (getContractAddressWithJsonFallback E' k pool)"
  unfolding getContractAddressWithJsonFallback_def by (intro keeps_intros)

end

section \<open>Units\<close>

text \<open>A number or a string printed by \<^verbatim>\<open>toString\<close>; the token contracts answer nothing else.\<close>

fun js_to_string :: "js_value \<Rightarrow> string" where
  "js_to_string (Num n) = (if n < 0 then ''-'' @ dec (nat (- n)) else dec (nat n))"
| "js_to_string (Big n) = (if n < 0 then ''-'' @ dec (nat (- n)) else dec (nat n))"
| "js_to_string (Str s) = s"
| "js_to_string (Bool b) = (if b then ''true'' else ''false'')"
| "js_to_string _ = ''''"

definition convertToCurrencyDecimals :: "'c net \<Rightarrow> string \<Rightarrow> string \<Rightarrow> ('c, int) prog" where
  "convertToCurrencyDecimals E tokenAddress amount =
     await (getIErc20Detailed E (Some tokenAddress)) (\<lambda>token.
     await (view E token ''decimals'' []) (\<lambda>d.
     let decimals = js_to_string d in
     case n_parse_units E amount decimals of
       Inl msg \<Rightarrow> throw (RpcError msg)
     | Inr tokenAmount \<Rightarrow> await (view E token ''symbol'' []) (\<lambda>_. ret tokenAmount)))"

context run_rel begin

lemma keeps_connect [keeps_intros]: "keeps R (convertToCurrencyDecimals E t a)"
  unfolding convertToCurrencyDecimals_def getIErc20Detailed_def Let_def
  by (intro keeps_await keeps_connect_or_db keeps_view) (auto intro!: keeps_intros split: sum.splits)

end

end
