(* ===== verification/Deployments.thy ===== *)
theory Deployments
  imports Configuration
begin

text \<open>
  \<^verbatim>\<open>helpers/contracts-deployments.ts\<close>: one script per contract.  Each deploys with the
  deploy signer and saves the address in the deployment database; an upgradeable contract
  is saved twice, as the implementation and, until a proxy replaces it, under its own
  name.  The libraries of the lending pool are linked from the database.  The lemmas say
  what a deployment that returned wrote, and that a deployment writes nothing else.
\<close>

section \<open>Deploying and saving\<close>

definition deploy_new :: "'c net \<Rightarrow> string \<Rightarrow> string obj \<Rightarrow> js_value list \<Rightarrow> ('c, handle) prog" where
  "deploy_new E type1 libraries args = deploy_with E (getDeploySigner E) type1 libraries args"

definition deploy_save ::
  "'c net \<Rightarrow> string \<Rightarrow> string obj \<Rightarrow> js_value list \<Rightarrow> string \<Rightarrow> bool \<Rightarrow> ('c, handle) prog" where
  "deploy_save E type1 libraries args id1 verify =
     await (deploy_new E type1 libraries args) (\<lambda>instance1.
     withSaveAndVerify E instance1 id1 args verify)"

definition deploy_impl ::
  "'c net \<Rightarrow> string \<Rightarrow> string obj \<Rightarrow> string \<Rightarrow> string \<Rightarrow> bool \<Rightarrow> ('c, handle) prog" where
  "deploy_impl E type1 libraries implId id1 verify =
     await (deploy_new E type1 libraries []) (\<lambda>impl.
     await (insertContractAddressInDb implId (h_addr impl)) (\<lambda>_.
     withSaveAndVerify E impl id1 [] verify))"

text \<open>The entry a saved deployment leaves.\<close>

definition saved_entry :: "handle \<Rightarrow> db_entry" where
  "saved_entry h = \<lparr>e_address = h_addr h, e_deployer = h_deployer h\<rparr>"

lemma deploy_new_Ret:
  assumes "deploy_new E t libs args w = (Ret h, w')"
  shows "db w' = db w \<and> h_type h = t \<and> h_signer h = getDeploySigner E \<and>
    h_deployer h = getDeploySigner E \<and> trace w' = trace w @ [EvDeploy (getDeploySigner E) t libs args (h_addr h)]"
  using assms by (auto simp: deploy_new_def deploy_with_Ret_iff)

lemma deploy_save_Ret:
  assumes "deploy_save E t libs args k verify w = (Ret h, w')"
  shows "db w' = (db w)(k \<mapsto> saved_entry h) \<and> h_type h = t \<and> h_signer h = getDeploySigner E \<and>
    h_deployer h = getDeploySigner E \<and> getDeploySigner E \<noteq> None"
proof -
  from assms obtain w1 where new: "deploy_new E t libs args w = (Ret h, w1)"
    and save: "withSaveAndVerify E h k args verify w1 = (Ret h, w')"
    unfolding deploy_save_def await_Ret_iff using withSaveAndVerify_Ret by blast
  from deploy_new_Ret [OF new] withSaveAndVerify_Ret [OF save] show ?thesis
    by (auto simp: saved_entry_def)
qed

lemma deploy_impl_Ret:
  assumes "deploy_impl E t libs ik k verify w = (Ret h, w')"
  shows "db w' = (db w)(ik \<mapsto> \<lparr>e_address = h_addr h, e_deployer = None\<rparr>, k \<mapsto> saved_entry h) \<and>
    h_type h = t \<and> h_signer h = getDeploySigner E \<and>
    h_deployer h = getDeploySigner E \<and> getDeploySigner E \<noteq> None"
proof -
  from assms obtain w1 where new: "deploy_new E t libs [] w = (Ret h, w1)"
    and save: "withSaveAndVerify E h k [] verify
      (db_write ik \<lparr>e_address = h_addr h, e_deployer = None\<rparr> w1) = (Ret h, w')"
    unfolding deploy_impl_def await_Ret_iff insertContractAddressInDb_Ret_iff
    using withSaveAndVerify_Ret by blast
  from deploy_new_Ret [OF new] withSaveAndVerify_Ret [OF save] show ?thesis
    by (auto simp: saved_entry_def)
qed

text \<open>The trace of a saved deployment: the deployment, then verification requests if any.\<close>

lemma withSaveAndVerify_trace:
  assumes "withSaveAndVerify E h k args verify w = (Ret x, w')"
  shows "\<exists>evs. trace w' = trace w @ evs \<and> (\<forall>e \<in> set evs. is_EvVerify e \<or> e = EvCleanup)"
proof -
  from assms obtain w1 w2 where reg: "registerContractInJsonDb k h w = (Ret (), w1)"
    and ver: "when_do verify (verifyContract E k h args) w1 = (Ret (), w')"
    by (auto simp: withSaveAndVerify_def await_Ret_iff ret_Ret_iff)
  from reg have 1: "trace w1 = trace w" by (auto simp: registerContractInJsonDb_Ret_iff)
  show ?thesis
  proof (cases verify)
    case True
    with ver have v: "verifyContract E k h args w1 = (Ret (), w')" by (simp add: when_do_Ret_iff)
    obtain c evs where "verifyContract E k h args w1 = (Ret (), w1\<lparr>chain := c, trace := trace w1 @ evs\<rparr>)"
      "\<forall>e \<in> set evs. is_EvVerify e \<or> e = EvCleanup"
      using verifyContract_total verifyContract_Ret [OF v] by blast
    with v 1 show ?thesis by auto
  next
    case False
    with ver 1 show ?thesis by (simp add: when_do_Ret_iff)
  qed
qed

lemma deploy_save_trace:
  assumes "deploy_save E t libs args k verify w = (Ret h, w')"
  shows "\<exists>evs. trace w' = trace w @ EvDeploy (getDeploySigner E) t libs args (h_addr h) # evs \<and>
    (\<forall>e \<in> set evs. is_EvVerify e \<or> e = EvCleanup)"
proof -
  from assms obtain w1 where new: "deploy_new E t libs args w = (Ret h, w1)"
    and save: "withSaveAndVerify E h k args verify w1 = (Ret h, w')"
    unfolding deploy_save_def await_Ret_iff using withSaveAndVerify_Ret by blast
  from deploy_new_Ret [OF new] withSaveAndVerify_trace [OF save] show ?thesis by auto
qed

text \<open>The verification key is checked only after the entry is written.\<close>

lemma deploy_save_missing_key:
  assumes "deploy_new E t libs args w = (Ret h, w1)" and "h_deployer h = Some d"
    and "\<not> truthy (n_ETHERSCAN_KEY E)"
  shows "deploy_save E t libs args k True w =
    (Throw (JsError ''Missing process.env.ETHERSCAN_KEY.''), db_write k (saved_entry h) w1)"
  using assms
  by (simp add: deploy_save_def await_def withSaveAndVerify_def registerContractInJsonDb_run
      when_do_def verifyContract_missing_key saved_entry_def)

context effect_rel begin

lemma keeps_deploy_new [keeps_intros]: "keeps R (deploy_new E t libs args)"
  unfolding deploy_new_def by (intro keeps_intros)

lemma keeps_deploy_save [keeps_intros]: "K k \<Longrightarrow> keeps R (deploy_save E t libs args k v)"
  unfolding deploy_save_def by (intro keeps_intros)

lemma keeps_deploy_impl [keeps_intros]:
  "K ik \<Longrightarrow> K k \<Longrightarrow> keeps R (deploy_impl E t libs ik k v)"
  unfolding deploy_impl_def by (intro keeps_intros)

end

section \<open>Libraries and their placeholders\<close>

text \<open>
  The placeholders are the bytecode markers of the libraries; the generated factory takes
  an object from placeholder to address.
\<close>

definition PLACEHOLDER_GENERIC_LOGIC :: string where
  "PLACEHOLDER_GENERIC_LOGIC = ''__$4c26be947d349222af871a3168b3fe584b$__''"
definition PLACEHOLDER_VALIDATION_LOGIC :: string where
  "PLACEHOLDER_VALIDATION_LOGIC = ''__$5201a97c05ba6aa659e2f36a933dd51801$__''"
definition PLACEHOLDER_RESERVE_LOGIC :: string where
  "PLACEHOLDER_RESERVE_LOGIC = ''__$d3b4366daeb9cadc7528af6145b50b2183$__''"
definition PLACEHOLDER_NFT_LOGIC :: string where
  "PLACEHOLDER_NFT_LOGIC = ''__$eceb79063fab52ea3826f3ee75ecd7f36d$__''"
definition PLACEHOLDER_SUPPLY_LOGIC :: string where
  "PLACEHOLDER_SUPPLY_LOGIC = ''__$2f7c76ee15bdc1d8f3b34a04b86951fc56$__''"
definition PLACEHOLDER_BORROW_LOGIC :: string where
  "PLACEHOLDER_BORROW_LOGIC = ''__$77c5a84c43428e206d5bf08427df63fefa$__''"
definition PLACEHOLDER_LIQUIDATE_LOGIC :: string where
  "PLACEHOLDER_LIQUIDATE_LOGIC = ''__$ce70b23849b5cbed90e6e2f622d8887206$__''"
definition PLACEHOLDER_CONFIGURATOR_LOGIC :: string where
  "PLACEHOLDER_CONFIGURATOR_LOGIC = ''__$3b2ad8f1ea56cc7a60e9a93596bbfe9178$__''"

definition readArtifact :: "'c net \<Rightarrow> string \<Rightarrow> ('c, artifact) prog" where
  "readArtifact E id1 = (case n_artifact E id1 of
     None \<Rightarrow> throw (RpcError ''artifact not found'') | Some art \<Rightarrow> ret art)"

text \<open>
  A factory made from an ABI and linked bytecode: the bytecode is passed to the deployment
  under the key \<open>bytecode\<close>.
\<close>

definition deploy_linked :: "'c net \<Rightarrow> string \<Rightarrow> string obj \<Rightarrow> bool \<Rightarrow> ('c, handle) prog" where
  "deploy_linked E id1 libraries verify =
     await (readArtifact E id1) (\<lambda>art.
     await (deploy_new E id1 [(''bytecode'', linkBytecode art libraries)] []) (\<lambda>instance1.
     withSaveAndVerify E instance1 id1 [] verify))"

definition deployNftLogicLibrary :: "'c net \<Rightarrow> bool \<Rightarrow> ('c, handle) prog" where
  "deployNftLogicLibrary E verify = deploy_linked E ''NftLogic'' [] verify"

definition deployValidationLogic :: "'c net \<Rightarrow> handle \<Rightarrow> handle \<Rightarrow> bool \<Rightarrow> ('c, handle) prog" where
  "deployValidationLogic E reserveLogic genericLogic verify =
     deploy_linked E ''ValidationLogic''
       [(''ReserveLogic'', h_addr reserveLogic), (''GenericLogic'', h_addr genericLogic)] verify"

definition deploySupplyLogicLibrary :: "'c net \<Rightarrow> bool \<Rightarrow> ('c, handle) prog" where
  "deploySupplyLogicLibrary E verify =
     await (getContractAddressInDb ''ValidationLogic'') (\<lambda>validateLogicAddress.
     deploy_save E ''SupplyLogic'' [(PLACEHOLDER_VALIDATION_LOGIC, validateLogicAddress)] []
       ''SupplyLogic'' verify)"

definition deployBorrowLogicLibrary :: "'c net \<Rightarrow> bool \<Rightarrow> ('c, handle) prog" where
  "deployBorrowLogicLibrary E verify =
     await (getContractAddressInDb ''ValidationLogic'') (\<lambda>validateLogicAddress.
     deploy_save E ''BorrowLogic'' [(PLACEHOLDER_VALIDATION_LOGIC, validateLogicAddress)] []
       ''BorrowLogic'' verify)"

definition deployLiquidateLogicLibrary :: "'c net \<Rightarrow> bool \<Rightarrow> ('c, handle) prog" where
  "deployLiquidateLogicLibrary E verify =
     await (getContractAddressInDb ''ValidationLogic'') (\<lambda>validateLogicAddress.
     deploy_save E ''LiquidateLogic'' [(PLACEHOLDER_VALIDATION_LOGIC, validateLogicAddress)] []
       ''LiquidateLogic'' verify)"

section \<open>One script per contract\<close>

definition deployLendPoolAddressesProviderRegistry :: "'c net \<Rightarrow> bool \<Rightarrow> ('c, handle) prog" where
  "deployLendPoolAddressesProviderRegistry E verify = deploy_save E ''LendPoolAddressesProviderRegistry'' [] [] ''LendPoolAddressesProviderRegistry'' verify"

definition deployLendPoolAddressesProvider :: "'c net \<Rightarrow> string \<Rightarrow> bool \<Rightarrow> ('c, handle) prog" where
  "deployLendPoolAddressesProvider E marketId verify = deploy_save E ''LendPoolAddressesProvider'' [] [Str marketId] ''LendPoolAddressesProvider'' verify"

definition deployReserveLogicLibrary :: "'c net \<Rightarrow> bool \<Rightarrow> ('c, handle) prog" where
  "deployReserveLogicLibrary E verify = deploy_save E ''ReserveLogic'' [] [] ''ReserveLogic'' verify"

definition deployGenericLogic :: "'c net \<Rightarrow> bool \<Rightarrow> ('c, handle) prog" where
  "deployGenericLogic E verify = deploy_save E ''GenericLogic'' [] [] ''GenericLogic'' verify"

definition deployConfiguratorLogicLibrary :: "'c net \<Rightarrow> bool \<Rightarrow> ('c, handle) prog" where
  "deployConfiguratorLogicLibrary E verify = deploy_save E ''ConfiguratorLogic'' [] [] ''ConfiguratorLogic'' verify"

definition deployMockChainlinkOracle :: "'c net \<Rightarrow> string \<Rightarrow> bool \<Rightarrow> ('c, handle) prog" where
  "deployMockChainlinkOracle E decimals verify = deploy_save E ''MockChainlinkOracle'' [] [Str decimals] ''MockChainlinkOracle'' verify"

definition deployMockNFTOracle :: "'c net \<Rightarrow> bool \<Rightarrow> ('c, handle) prog" where
  "deployMockNFTOracle E verify = deploy_save E ''MockNFTOracle'' [] [] ''MockNFTOracle'' verify"

definition deployWalletBalancerProvider :: "'c net \<Rightarrow> bool \<Rightarrow> ('c, handle) prog" where
  "deployWalletBalancerProvider E verify = deploy_save E ''WalletBalanceProvider'' [] [] ''WalletBalanceProvider'' verify"

definition deployBendProtocolDataProvider :: "'c net \<Rightarrow> string \<Rightarrow> bool \<Rightarrow> ('c, handle) prog" where
  "deployBendProtocolDataProvider E addressesProvider verify = deploy_save E ''BendProtocolDataProvider'' [] [Str addressesProvider] ''BendProtocolDataProvider'' verify"

definition deployUiPoolDataProvider :: "'c net \<Rightarrow> string \<Rightarrow> string \<Rightarrow> bool \<Rightarrow> ('c, handle) prog" where
  "deployUiPoolDataProvider E reserveOracle nftOracle verify = deploy_save E ''UiPoolDataProvider'' [] [Str reserveOracle, Str nftOracle] ''UIPoolDataProvider'' verify"

definition deployGenericDebtToken :: "'c net \<Rightarrow> bool \<Rightarrow> ('c, handle) prog" where
  "deployGenericDebtToken E verify = deploy_save E ''DebtToken'' [] [] ''DebtToken'' verify"

definition deployGenericBTokenImpl :: "'c net \<Rightarrow> bool \<Rightarrow> ('c, handle) prog" where
  "deployGenericBTokenImpl E verify = deploy_save E ''BToken'' [] [] ''BToken'' verify"

definition deployGenericBNFTImpl :: "'c net \<Rightarrow> bool \<Rightarrow> ('c, handle) prog" where
  "deployGenericBNFTImpl E verify = deploy_save E ''BNFT'' [] [] ''BNFT'' verify"

definition deployWETH9 :: "'c net \<Rightarrow> bool \<Rightarrow> ('c, handle) prog" where
  "deployWETH9 E verify = deploy_save E ''WETH9'' [] [] ''WETH'' verify"

definition deployWETHMocked :: "'c net \<Rightarrow> bool \<Rightarrow> ('c, handle) prog" where
  "deployWETHMocked E verify = deploy_save E ''WETH9Mocked'' [] [] ''WETHMocked'' verify"

definition deploySelfdestructTransferMock :: "'c net \<Rightarrow> bool \<Rightarrow> ('c, handle) prog" where
  "deploySelfdestructTransferMock E verify = deploy_save E ''SelfdestructTransfer'' [] [] ''SelfdestructTransferMock'' verify"

definition deployMockIncentivesController :: "'c net \<Rightarrow> bool \<Rightarrow> ('c, handle) prog" where
  "deployMockIncentivesController E verify = deploy_save E ''MockIncentivesController'' [] [] ''MockIncentivesController'' verify"

definition deployMockLoanRepaidInterceptor :: "'c net \<Rightarrow> string \<Rightarrow> bool \<Rightarrow> ('c, handle) prog" where
  "deployMockLoanRepaidInterceptor E addressesProvider verify = deploy_save E ''MockLoanRepaidInterceptor'' [] [Str addressesProvider] ''MockLoanRepaidInterceptor'' verify"

definition deployWstETHPriceAggregator :: "'c net \<Rightarrow> string \<Rightarrow> string \<Rightarrow> bool \<Rightarrow> ('c, handle) prog" where
  "deployWstETHPriceAggregator E stETHAgg wstETH verify = deploy_save E ''WstETHPriceAggregator'' [] [Str stETHAgg, Str wstETH] ''WstETHPriceAggregator'' verify"

definition deployMockReserveOracle :: "'c net \<Rightarrow> js_value list \<Rightarrow> bool \<Rightarrow> ('c, handle) prog" where
  "deployMockReserveOracle E args verify = deploy_save E ''MockReserveOracle'' [] args ''MockReserveOracle'' verify"

definition deployMintableERC20 :: "'c net \<Rightarrow> js_value list \<Rightarrow> bool \<Rightarrow> ('c, handle) prog" where
  "deployMintableERC20 E args verify = deploy_save E ''MintableERC20'' [] args ''MintableERC20'' verify"

definition deployMintableERC721 :: "'c net \<Rightarrow> js_value list \<Rightarrow> bool \<Rightarrow> ('c, handle) prog" where
  "deployMintableERC721 E args verify = deploy_save E ''MintableERC721'' [] args ''MintableERC721'' verify"

definition deployCryptoPunksMarket :: "'c net \<Rightarrow> js_value list \<Rightarrow> bool \<Rightarrow> ('c, handle) prog" where
  "deployCryptoPunksMarket E args verify = deploy_save E ''CryptoPunksMarket'' [] args ''CryptoPunksMarket'' verify"

definition deployWrappedPunk :: "'c net \<Rightarrow> js_value list \<Rightarrow> bool \<Rightarrow> ('c, handle) prog" where
  "deployWrappedPunk E args verify = deploy_save E ''WrappedPunk'' [] args ''WrappedPunk'' verify"

definition deployInterestRateWithID :: "'c net \<Rightarrow> string \<Rightarrow> js_value list \<Rightarrow> bool \<Rightarrow> ('c, handle) prog" where
  "deployInterestRateWithID E id1 args verify = deploy_save E ''InterestRate'' [] args id1 verify"

definition deployMockERC721Underlying :: "'c net \<Rightarrow> string \<Rightarrow> js_value list \<Rightarrow> bool \<Rightarrow> ('c, handle) prog" where
  "deployMockERC721Underlying E id1 args verify = deploy_save E ''MintableERC721'' [] args id1 verify"

definition deployMockERC721Wrapper :: "'c net \<Rightarrow> string \<Rightarrow> js_value list \<Rightarrow> bool \<Rightarrow> ('c, handle) prog" where
  "deployMockERC721Wrapper E id1 args verify = deploy_save E ''MockerERC721Wrapper'' [] args id1 verify"

definition deployLendPoolLoan :: "'c net \<Rightarrow> bool \<Rightarrow> ('c, handle) prog" where
  "deployLendPoolLoan E verify =
     deploy_impl E ''LendPoolLoan'' [] ''LendPoolLoanImpl'' ''LendPoolLoan'' verify"

definition deployBNFTRegistry :: "'c net \<Rightarrow> bool \<Rightarrow> ('c, handle) prog" where
  "deployBNFTRegistry E verify =
     deploy_impl E ''BNFTRegistry'' [] ''BNFTRegistryImpl'' ''BNFTRegistry'' verify"

definition deployReserveOracle :: "'c net \<Rightarrow> js_value \<Rightarrow> bool \<Rightarrow> ('c, handle) prog" where
  "deployReserveOracle E args verify =
     deploy_impl E ''ReserveOracle'' [] ''ReserveOracleImpl'' ''ReserveOracle'' verify"

definition deployChainlinkAggregatorHelper :: "'c net \<Rightarrow> js_value \<Rightarrow> bool \<Rightarrow> ('c, handle) prog" where
  "deployChainlinkAggregatorHelper E args verify =
     deploy_impl E ''ChainlinkAggregatorHelper'' [] ''ChainlinkAggregatorHelperImpl'' ''ChainlinkAggregatorHelper'' verify"

definition deployNFTOracle :: "'c net \<Rightarrow> bool \<Rightarrow> ('c, handle) prog" where
  "deployNFTOracle E verify =
     deploy_impl E ''NFTOracle'' [] ''NFTOracleImpl'' ''NFTOracle'' verify"

definition deployTokenOracle :: "'c net \<Rightarrow> bool \<Rightarrow> ('c, handle) prog" where
  "deployTokenOracle E verify =
     deploy_impl E ''NFTOracle'' [] ''TokenOracleImpl'' ''TokenOracle'' verify"

definition deployWETHGateway :: "'c net \<Rightarrow> bool \<Rightarrow> ('c, handle) prog" where
  "deployWETHGateway E verify =
     deploy_impl E ''WETHGateway'' [] ''WETHGatewayImpl'' ''WETHGateway'' verify"

definition deployPunkGateway :: "'c net \<Rightarrow> bool \<Rightarrow> ('c, handle) prog" where
  "deployPunkGateway E verify =
     deploy_impl E ''PunkGateway'' [] ''PunkGatewayImpl'' ''PunkGateway'' verify"

definition deployBendCollector :: "'c net \<Rightarrow> js_value \<Rightarrow> bool \<Rightarrow> ('c, handle) prog" where
  "deployBendCollector E args verify =
     deploy_impl E ''BendCollector'' [] ''BendCollectorImpl'' ''BendCollector'' verify"

definition deployUniswapV3DebtSwapAdapter :: "'c net \<Rightarrow> bool \<Rightarrow> ('c, handle) prog" where
  "deployUniswapV3DebtSwapAdapter E verify =
     deploy_impl E ''UniswapV3DebtSwapAdapter'' [] ''UniswapV3DebtSwapAdapterImpl'' ''UniswapV3DebtSwapAdapter'' verify"

definition deployInterestRate :: "'c net \<Rightarrow> js_value list \<Rightarrow> bool \<Rightarrow> ('c, handle) prog" where
  "deployInterestRate E args verify = deployInterestRateWithID E ''InterestRate'' args verify"

definition deployRateStrategy :: "'c net \<Rightarrow> string \<Rightarrow> js_value list \<Rightarrow> bool \<Rightarrow> ('c, string) prog" where
  "deployRateStrategy E strategyName args verify =
     await (deployInterestRate E args verify) (\<lambda>h. ret (h_addr h))"

definition deployBendProxyAdmin :: "'c net \<Rightarrow> string \<Rightarrow> bool \<Rightarrow> ('c, handle) prog" where
  "deployBendProxyAdmin E id1 verify = deploy_save E ''BendProxyAdmin'' [] [] id1 verify"

text \<open>The proxy is saved with its data as hexadecimal digits, which only verification reads.\<close>

definition deployBendUpgradeableProxy ::
  "'c net \<Rightarrow> string \<Rightarrow> string \<Rightarrow> string \<Rightarrow> string \<Rightarrow> bool \<Rightarrow> ('c, handle) prog" where
  "deployBendUpgradeableProxy E id1 admin logic data verify =
     await (deploy_new E ''BendUpgradeableProxy'' [] [Str logic, Str admin, Str data]) (\<lambda>instance1.
     withSaveAndVerify E instance1 id1 [Str logic, Str admin, Str (n_hexlify E data)] verify)"

definition deployTimelockController ::
  "'c net \<Rightarrow> string \<Rightarrow> string \<Rightarrow> string list \<Rightarrow> string list \<Rightarrow> bool \<Rightarrow> ('c, handle) prog" where
  "deployTimelockController E id1 minDelay proposers executors verify =
     deploy_save E ''TimelockController'' []
       [Str minDelay, Arr (map Str proposers), Arr (map Str executors)] id1 verify"

definition deployWrapperGatewayImpl :: "'c net \<Rightarrow> string \<Rightarrow> bool \<Rightarrow> ('c, handle) prog" where
  "deployWrapperGatewayImpl E id1 verify = deploy_save E ''WrapperGateway'' [] [] (id1 @ ''Impl'') verify"

definition deployWrapperGateway :: "'c net \<Rightarrow> string \<Rightarrow> bool \<Rightarrow> ('c, handle) prog" where
  "deployWrapperGateway E id1 verify = deploy_impl E ''WrapperGateway'' [] (id1 @ ''Impl'') id1 verify"

section \<open>The lending pool and its configurator\<close>

definition deployConfiguratorLibraries :: "'c net \<Rightarrow> bool \<Rightarrow> ('c, unit) prog" where
  "deployConfiguratorLibraries E verify =
     await (deployConfiguratorLogicLibrary E verify) (\<lambda>cfgLogic. ret ())"

definition deployLendPoolLibraries :: "'c net \<Rightarrow> bool \<Rightarrow> ('c, unit) prog" where
  "deployLendPoolLibraries E verify =
     await (deployGenericLogic E verify) (\<lambda>genericLogic.
     await (deployReserveLogicLibrary E verify) (\<lambda>reserveLogic.
     await (deployNftLogicLibrary E verify) (\<lambda>nftLogic.
     await (deployValidationLogic E reserveLogic genericLogic verify) (\<lambda>validationLogic.
     await (deploySupplyLogicLibrary E verify) (\<lambda>supplyLogic.
     await (deployBorrowLogicLibrary E verify) (\<lambda>borrowLogic.
     await (deployLiquidateLogicLibrary E verify) (\<lambda>liquidateLogic.
     ret ())))))))"

definition deployBendLibraries :: "'c net \<Rightarrow> bool \<Rightarrow> ('c, unit) prog" where
  "deployBendLibraries E verify =
     await (deployLendPoolLibraries E verify) (\<lambda>_.
     deployConfiguratorLibraries E verify)"

definition getLendPoolLibraries :: "('c, string obj) prog" where
  "getLendPoolLibraries =
     await (getContractAddressInDb ''ReserveLogic'') (\<lambda>reserveLogicAddress.
     await (getContractAddressInDb ''NftLogic'') (\<lambda>nftLogicAddress.
     await (getContractAddressInDb ''ValidationLogic'') (\<lambda>validationLogicAddress.
     await (getContractAddressInDb ''GenericLogic'') (\<lambda>genericLogicAddress.
     await (getContractAddressInDb ''SupplyLogic'') (\<lambda>supplyLogicAddress.
     await (getContractAddressInDb ''BorrowLogic'') (\<lambda>borrowLogicAddress.
     await (getContractAddressInDb ''LiquidateLogic'') (\<lambda>liquidateLogicAddress.
     ret [(PLACEHOLDER_RESERVE_LOGIC, reserveLogicAddress),
          (PLACEHOLDER_NFT_LOGIC, nftLogicAddress),
          (PLACEHOLDER_SUPPLY_LOGIC, supplyLogicAddress),
          (PLACEHOLDER_BORROW_LOGIC, borrowLogicAddress),
          (PLACEHOLDER_LIQUIDATE_LOGIC, liquidateLogicAddress)])))))))"

definition deployLendPool :: "'c net \<Rightarrow> bool \<Rightarrow> ('c, handle) prog" where
  "deployLendPool E verify =
     await getLendPoolLibraries (\<lambda>libraries.
     deploy_impl E ''LendPool'' libraries ''LendPoolImpl'' ''LendPool'' verify)"

definition deployLendPoolConfigurator :: "'c net \<Rightarrow> bool \<Rightarrow> ('c, handle) prog" where
  "deployLendPoolConfigurator E verify =
     await (getContractAddressInDb ''ConfiguratorLogic'') (\<lambda>cfgLogicAddress.
     deploy_impl E ''LendPoolConfigurator'' [(PLACEHOLDER_CONFIGURATOR_LOGIC, cfgLogicAddress)]
       ''LendPoolConfiguratorImpl'' ''LendPoolConfigurator'' verify)"

section \<open>Mock tokens and NFTs\<close>

definition mock_decimals :: "reserve_params obj \<Rightarrow> string \<Rightarrow> string" where
  "mock_decimals protoConfigData tokenSymbol =
     (let decimals = (if tokenSymbol = ''USDT'' \<or> tokenSymbol = ''USDC'' then ''6'' else ''18'')
      in case obj_get protoConfigData tokenSymbol of
           Some configData \<Rightarrow> reserveDecimals configData
         | None \<Rightarrow> decimals)"

definition deployAllMockTokens :: "'c net \<Rightarrow> bool \<Rightarrow> bool \<Rightarrow> ('c, handle obj) prog" where
  "deployAllMockTokens E forTestCases verify =
     (let protoConfigData = getReservesConfigByPool ''proto'' in
      for_fold TokenContractId (\<lambda>tokenSymbol tokens.
        let tokenName = ''Bend Mock '' @ tokenSymbol in
        await (if tokenSymbol = ''WETH''
               then (if forTestCases then deployWETHMocked E False else deployWETH9 E False)
               else deployMintableERC20 E
                      [Str tokenName, Str tokenSymbol, Str (mock_decimals protoConfigData tokenSymbol)]
                      verify) (\<lambda>token.
        await (registerContractInJsonDb (js_upper tokenSymbol) token) (\<lambda>_.
        ret (obj_set tokenSymbol token tokens)))) [])"

definition deployOneMockToken :: "'c net \<Rightarrow> string \<Rightarrow> bool \<Rightarrow> ('c, handle) prog" where
  "deployOneMockToken E tokenSymbol verify =
     (let protoConfigData = getReservesConfigByPool ''proto'';
          tokenName = ''Bend Mock '' @ tokenSymbol in
      await (deployMintableERC20 E
          [Str tokenName, Str tokenSymbol, Str (mock_decimals protoConfigData tokenSymbol)] verify)
        (\<lambda>tokenContract.
      await (registerContractInJsonDb (js_upper tokenSymbol) tokenContract) (\<lambda>_.
      ret tokenContract)))"

text \<open>The contract behind one mock NFT: two symbols are wrappers of another mock contract.\<close>

definition deploy_mock_nft :: "'c net \<Rightarrow> string \<Rightarrow> bool \<Rightarrow> ('c, handle) prog" where
  "deploy_mock_nft E tokenSymbol verify =
     (if tokenSymbol = ''WPUNKS'' then
        await (deployCryptoPunksMarket E [] verify) (\<lambda>cryptoPunksMarket.
        deployWrappedPunk E [Str (h_addr cryptoPunksMarket)] verify)
      else if tokenSymbol = ''WKODA'' then
        await (deployMockERC721Underlying E ''MockOtherdeed'' [Str ''Otherdeed'', Str ''OTHR''] verify)
          (\<lambda>mockOtherdeed.
        deployMockERC721Wrapper E ''WrappedKoda''
          [Str (h_addr mockOtherdeed), Str ''Wrapped Otherdeed Koda'', Str ''WKODA''] verify)
      else deployMintableERC721 E [Str (''Bend Mock '' @ tokenSymbol), Str tokenSymbol] verify)"

definition deployAllMockNfts :: "'c net \<Rightarrow> bool \<Rightarrow> ('c, handle obj) prog" where
  "deployAllMockNfts E verify =
     for_fold NftContractId (\<lambda>tokenSymbol tokens.
       await (deploy_mock_nft E tokenSymbol verify) (\<lambda>token.
       await (registerContractInJsonDb (js_upper tokenSymbol) token) (\<lambda>_.
       ret (obj_set tokenSymbol token tokens)))) []"

section \<open>Token implementations\<close>

definition chooseBTokenDeployment ::
  "'c net \<Rightarrow> string \<Rightarrow> js_error + (bool \<Rightarrow> ('c, handle) prog)" where
  "chooseBTokenDeployment E id1 =
     (if id1 = ''BToken'' then Inr (deployGenericBTokenImpl E)
      else Inl (JsError (''Missing bToken implementation deployment script for: '' @ id1)))"

definition chooseBNFTDeployment ::
  "'c net \<Rightarrow> string \<Rightarrow> js_error + (bool \<Rightarrow> ('c, handle) prog)" where
  "chooseBNFTDeployment E id1 =
     (if id1 = ''BNFT'' then Inr (deployGenericBNFTImpl E)
      else Inl (JsError (''Missing bNFT implementation deployment script for: '' @ id1)))"

text \<open>A \<^verbatim>\<open>Set\<close> keeps its members in the order of their first insertion.\<close>

definition js_set :: "'a list \<Rightarrow> 'a list" where
  "js_set xs = fold (\<lambda>x acc. if x \<in> set acc then acc else acc @ [x]) xs []"

definition deployBTokenImplementations ::
  "'c net \<Rightarrow> string \<Rightarrow> reserve_params obj \<Rightarrow> bool \<Rightarrow> ('c, unit) prog" where
  "deployBTokenImplementations E pool reservesConfig verify =
     await (lift_result (loadPoolConfig pool)) (\<lambda>poolConfig.
     let network = n_network E;
         tokenImplementations = js_set (map (\<lambda>(_, entry). bTokenImpl entry) reservesConfig);
         genericDebtTokenAddress =
           getOptionalParamAddressPerNetwork E (DebtTokenImplementation poolConfig) network in
     await (for_each tokenImplementations (\<lambda>impl.
       let tokenAddress = getOptionalParamAddressPerNetwork E (config_param poolConfig impl) network in
       when_do (\<not> notFalsyOrZeroAddress E tokenAddress)
         (await (lift_result (chooseBTokenDeployment E impl)) (\<lambda>deployImplementationMethod.
          await (deployImplementationMethod verify) (\<lambda>_. ret ()))))) (\<lambda>_.
     when_do (\<not> notFalsyOrZeroAddress E genericDebtTokenAddress)
       (await (deployGenericDebtToken E verify) (\<lambda>_. ret ()))))"

definition deployBNFTImplementations ::
  "'c net \<Rightarrow> string \<Rightarrow> nft_params obj \<Rightarrow> bool \<Rightarrow> ('c, unit) prog" where
  "deployBNFTImplementations E pool NftsConfig1 verify =
     await (lift_result (loadPoolConfig pool)) (\<lambda>poolConfig.
     let network = n_network E;
         bNftImplementations = js_set (map (\<lambda>(_, entry). bNftImpl entry) NftsConfig1) in
     for_each bNftImplementations (\<lambda>impl.
       let bNftAddress = getOptionalParamAddressPerNetwork E (config_param poolConfig impl) network in
       when_do (\<not> notFalsyOrZeroAddress E bNftAddress)
         (await (lift_result (chooseBNFTDeployment E impl)) (\<lambda>deployImplementationMethod.
          await (deployImplementationMethod verify) (\<lambda>_. ret ())))))"

section \<open>Addresses that are deployed when the configuration has none\<close>

text \<open>The end of \<^verbatim>\<open>helpers/configuration.ts\<close>, which calls the deployments above.\<close>

definition mainnet_fork_network :: "'c net \<Rightarrow> string" where
  "mainnet_fork_network E = (if n_MAINNET_FORK E = Some ''true'' then ''main'' else n_network E)"

definition getWrappedNativeTokenAddress :: "'c net \<Rightarrow> pool_config \<Rightarrow> ('c, string) prog" where
  "getWrappedNativeTokenAddress E config =
     (let currentNetwork = mainnet_fork_network E;
          wethAddress = getParamPerNetwork E (WrappedNativeToken config) currentNetwork in
      if truthy wethAddress then ret (the wethAddress)
      else if str_includes currentNetwork ''main''
      then throw (JsError ''WETH not set at mainnet configuration.'')
      else await (deployWETH9 E False) (\<lambda>weth. ret (h_addr weth)))"

definition getWrappedPunkTokenAddress :: "'c net \<Rightarrow> pool_config \<Rightarrow> string \<Rightarrow> ('c, string) prog" where
  "getWrappedPunkTokenAddress E config punk =
     (let currentNetwork = mainnet_fork_network E;
          wpunkAddress = getParamPerNetwork E (WrappedPunkToken config) currentNetwork in
      if truthy wpunkAddress then ret (the wpunkAddress)
      else if str_includes currentNetwork ''main''
      then throw (JsError ''WPUNKS not set at mainnet configuration.'')
      else if \<not> notFalsyOrZeroAddress E (Some punk)
      then throw (JsError ''PUNK not set at dev or testnet configuration.'')
      else await (deployWrappedPunk E [Str punk] False) (\<lambda>wpunk. ret (h_addr wpunk)))"

definition getCryptoPunksMarketAddress :: "'c net \<Rightarrow> pool_config \<Rightarrow> ('c, string) prog" where
  "getCryptoPunksMarketAddress E config =
     (let currentNetwork = mainnet_fork_network E;
          punkAddress = getParamPerNetwork E (CryptoPunksMarket config) currentNetwork in
      if truthy punkAddress then ret (the punkAddress)
      else if str_includes currentNetwork ''main''
      then throw (JsError ''CryptoPunksMarket not set at mainnet configuration.'')
      else await (deployCryptoPunksMarket E [] False) (\<lambda>punk. ret (h_addr punk)))"

section \<open>What the deployments keep\<close>

text \<open>The database keys of the libraries.\<close>

definition library_ids :: "string list" where
  "library_ids = [''GenericLogic'', ''ReserveLogic'', ''NftLogic'', ''ValidationLogic'',
     ''SupplyLogic'', ''BorrowLogic'', ''LiquidateLogic'', ''ConfiguratorLogic'']"

lemma library_ids_mem:
  "''GenericLogic'' \<in> set library_ids" "''ReserveLogic'' \<in> set library_ids"
  "''NftLogic'' \<in> set library_ids" "''ValidationLogic'' \<in> set library_ids"
  "''SupplyLogic'' \<in> set library_ids" "''BorrowLogic'' \<in> set library_ids"
  "''LiquidateLogic'' \<in> set library_ids" "''ConfiguratorLogic'' \<in> set library_ids"
  by (simp_all add: library_ids_def)

lemma library_contract_ids: "k \<in> set library_ids \<Longrightarrow> k \<in> set contract_ids"
  by (auto simp: library_ids_def)

context effect_rel begin

lemma keeps_readArtifact [keeps_intros]: "keeps R (readArtifact E id1)"
  unfolding readArtifact_def by (intro keeps_intros)

lemma keeps_deploy_linked [keeps_intros]: "K id1 \<Longrightarrow> keeps R (deploy_linked E id1 libs verify)"
  unfolding deploy_linked_def by (intro keeps_intros)

lemma keeps_deployments [keeps_intros]:
  "K ''LendPoolAddressesProviderRegistry'' \<Longrightarrow> 
     keeps R (deployLendPoolAddressesProviderRegistry E verify)"
  "K ''LendPoolAddressesProvider'' \<Longrightarrow> 
     keeps R (deployLendPoolAddressesProvider E marketId verify)"
  "K ''ReserveLogic'' \<Longrightarrow> keeps R (deployReserveLogicLibrary E verify)"
  "K ''GenericLogic'' \<Longrightarrow> keeps R (deployGenericLogic E verify)"
  "K ''ConfiguratorLogic'' \<Longrightarrow> keeps R (deployConfiguratorLogicLibrary E verify)"
  "K ''MockChainlinkOracle'' \<Longrightarrow> 
     keeps R (deployMockChainlinkOracle E decimals verify)"
  "K ''MockNFTOracle'' \<Longrightarrow> keeps R (deployMockNFTOracle E verify)"
  "K ''WalletBalanceProvider'' \<Longrightarrow> keeps R (deployWalletBalancerProvider E verify)"
  "K ''BendProtocolDataProvider'' \<Longrightarrow> 
     keeps R (deployBendProtocolDataProvider E addressesProvider verify)"
  "K ''UIPoolDataProvider'' \<Longrightarrow> 
     keeps R (deployUiPoolDataProvider E reserveOracle nftOracle verify)"
  "K ''DebtToken'' \<Longrightarrow> keeps R (deployGenericDebtToken E verify)"
  "K ''BToken'' \<Longrightarrow> keeps R (deployGenericBTokenImpl E verify)"
  "K ''BNFT'' \<Longrightarrow> keeps R (deployGenericBNFTImpl E verify)"
  "K ''WETH'' \<Longrightarrow> keeps R (deployWETH9 E verify)"
  "K ''WETHMocked'' \<Longrightarrow> keeps R (deployWETHMocked E verify)"
  "K ''SelfdestructTransferMock'' \<Longrightarrow> 
     keeps R (deploySelfdestructTransferMock E verify)"
  "K ''MockIncentivesController'' \<Longrightarrow> 
     keeps R (deployMockIncentivesController E verify)"
  "K ''MockLoanRepaidInterceptor'' \<Longrightarrow> 
     keeps R (deployMockLoanRepaidInterceptor E addressesProvider verify)"
  "K ''WstETHPriceAggregator'' \<Longrightarrow> 
     keeps R (deployWstETHPriceAggregator E stETHAgg wstETH verify)"
  "K ''MockReserveOracle'' \<Longrightarrow> keeps R (deployMockReserveOracle E args verify)"
  "K ''MintableERC20'' \<Longrightarrow> keeps R (deployMintableERC20 E args verify)"
  "K ''MintableERC721'' \<Longrightarrow> keeps R (deployMintableERC721 E args verify)"
  "K ''CryptoPunksMarket'' \<Longrightarrow> keeps R (deployCryptoPunksMarket E args verify)"
  "K ''WrappedPunk'' \<Longrightarrow> keeps R (deployWrappedPunk E args verify)"
  "K id1 \<Longrightarrow> keeps R (deployInterestRateWithID E id1 args verify)"
  "K id1 \<Longrightarrow> keeps R (deployMockERC721Underlying E id1 args verify)"
  "K id1 \<Longrightarrow> keeps R (deployMockERC721Wrapper E id1 args verify)"
  "K ''LendPoolLoanImpl'' \<Longrightarrow> K ''LendPoolLoan'' \<Longrightarrow> 
     keeps R (deployLendPoolLoan E verify)"
  "K ''BNFTRegistryImpl'' \<Longrightarrow> K ''BNFTRegistry'' \<Longrightarrow> 
     keeps R (deployBNFTRegistry E verify)"
  "K ''ReserveOracleImpl'' \<Longrightarrow> K ''ReserveOracle'' \<Longrightarrow> 
     keeps R (deployReserveOracle E a1 verify)"
  "K ''ChainlinkAggregatorHelperImpl'' \<Longrightarrow> K ''ChainlinkAggregatorHelper'' \<Longrightarrow> 
     keeps R (deployChainlinkAggregatorHelper E a1 verify)"
  "K ''NFTOracleImpl'' \<Longrightarrow> K ''NFTOracle'' \<Longrightarrow> 
     keeps R (deployNFTOracle E verify)"
  "K ''TokenOracleImpl'' \<Longrightarrow> K ''TokenOracle'' \<Longrightarrow> 
     keeps R (deployTokenOracle E verify)"
  "K ''WETHGatewayImpl'' \<Longrightarrow> K ''WETHGateway'' \<Longrightarrow> 
     keeps R (deployWETHGateway E verify)"
  "K ''PunkGatewayImpl'' \<Longrightarrow> K ''PunkGateway'' \<Longrightarrow> 
     keeps R (deployPunkGateway E verify)"
  "K ''BendCollectorImpl'' \<Longrightarrow> K ''BendCollector'' \<Longrightarrow> 
     keeps R (deployBendCollector E a1 verify)"
  "K ''UniswapV3DebtSwapAdapterImpl'' \<Longrightarrow> K ''UniswapV3DebtSwapAdapter'' \<Longrightarrow> 
     keeps R (deployUniswapV3DebtSwapAdapter E verify)"
  "K id1 \<Longrightarrow> keeps R (deployBendProxyAdmin E id1 verify)"
  "K id1 \<Longrightarrow> keeps R (deployBendUpgradeableProxy E id1 a l da verify)"
  "K id1 \<Longrightarrow> keeps R (deployTimelockController E id1 d ps es verify)"
  "K (id1 @ ''Impl'') \<Longrightarrow> keeps R (deployWrapperGatewayImpl E id1 verify)"
  "K (id1 @ ''Impl'') \<Longrightarrow> K id1 \<Longrightarrow> 
     keeps R (deployWrapperGateway E id1 verify)"
  "K ''NftLogic'' \<Longrightarrow> keeps R (deployNftLogicLibrary E verify)"
  "K ''ValidationLogic'' \<Longrightarrow> keeps R (deployValidationLogic E r g verify)"
  "K ''SupplyLogic'' \<Longrightarrow> keeps R (deploySupplyLogicLibrary E verify)"
  "K ''BorrowLogic'' \<Longrightarrow> keeps R (deployBorrowLogicLibrary E verify)"
  "K ''LiquidateLogic'' \<Longrightarrow> keeps R (deployLiquidateLogicLibrary E verify)"
  "K ''InterestRate'' \<Longrightarrow> keeps R (deployInterestRate E args verify)"
  "K ''InterestRate'' \<Longrightarrow> keeps R (deployRateStrategy E n args verify)"
  "keeps R (getLendPoolLibraries)"
  "K ''LendPoolImpl'' \<Longrightarrow> K ''LendPool'' \<Longrightarrow> 
     keeps R (deployLendPool E verify)"
  "K ''LendPoolConfiguratorImpl'' \<Longrightarrow> K ''LendPoolConfigurator'' \<Longrightarrow> 
     keeps R (deployLendPoolConfigurator E verify)"
  "K ''ConfiguratorLogic'' \<Longrightarrow> keeps R (deployConfiguratorLibraries E verify)"
  unfolding deployLendPoolAddressesProviderRegistry_def
    deployLendPoolAddressesProvider_def
    deployReserveLogicLibrary_def
    deployGenericLogic_def
    deployConfiguratorLogicLibrary_def
    deployMockChainlinkOracle_def
    deployMockNFTOracle_def
    deployWalletBalancerProvider_def
    deployBendProtocolDataProvider_def
    deployUiPoolDataProvider_def
    deployGenericDebtToken_def
    deployGenericBTokenImpl_def
    deployGenericBNFTImpl_def
    deployWETH9_def
    deployWETHMocked_def
    deploySelfdestructTransferMock_def
    deployMockIncentivesController_def
    deployMockLoanRepaidInterceptor_def
    deployWstETHPriceAggregator_def
    deployMockReserveOracle_def
    deployMintableERC20_def
    deployMintableERC721_def
    deployCryptoPunksMarket_def
    deployWrappedPunk_def
    deployInterestRateWithID_def
    deployMockERC721Underlying_def
    deployMockERC721Wrapper_def
    deployLendPoolLoan_def
    deployBNFTRegistry_def
    deployReserveOracle_def
    deployChainlinkAggregatorHelper_def
    deployNFTOracle_def
    deployTokenOracle_def
    deployWETHGateway_def
    deployPunkGateway_def
    deployBendCollector_def
    deployUniswapV3DebtSwapAdapter_def
    deployBendProxyAdmin_def
    deployBendUpgradeableProxy_def
    deployTimelockController_def
    deployWrapperGatewayImpl_def
    deployWrapperGateway_def
    deployNftLogicLibrary_def
    deployValidationLogic_def
    deploySupplyLogicLibrary_def
    deployBorrowLogicLibrary_def
    deployLiquidateLogicLibrary_def
    deployInterestRate_def
    deployRateStrategy_def
    getLendPoolLibraries_def
    deployLendPool_def
    deployLendPoolConfigurator_def
    deployConfiguratorLibraries_def
  by ((intro keeps_intros; assumption) | intro keeps_intros)+

lemma keeps_libraries [keeps_intros]:
  assumes "\<And>k. k \<in> set library_ids \<Longrightarrow> K k"
  shows "keeps R (deployLendPoolLibraries E verify)" "keeps R (deployBendLibraries E verify)"
  unfolding deployBendLibraries_def deployLendPoolLibraries_def
  by (intro keeps_intros assms library_ids_mem)+

lemma keeps_deployBTokenImplementations [keeps_intros]:
  assumes "K ''BToken''" and "K ''DebtToken''"
  shows "keeps R (deployBTokenImplementations E pool cfg verify)"
proof -
  have step: "keeps R (await (lift_result (chooseBTokenDeployment E impl))
      (\<lambda>d. await (d verify) (\<lambda>_. ret ())))" for impl
    unfolding chooseBTokenDeployment_def using assms by (auto intro!: keeps_intros)
  show ?thesis
    unfolding deployBTokenImplementations_def Let_def
    by (rule step keeps_for_each keeps_when_do keeps_await keeps_lift_result keeps_ret
        keeps_deployments assms)+
qed

lemma keeps_deployBNFTImplementations [keeps_intros]:
  assumes "K ''BNFT''"
  shows "keeps R (deployBNFTImplementations E pool ncfg verify)"
proof -
  have step: "keeps R (await (lift_result (chooseBNFTDeployment E impl))
      (\<lambda>d. await (d verify) (\<lambda>_. ret ())))" for impl
    unfolding chooseBNFTDeployment_def using assms by (auto intro!: keeps_intros)
  show ?thesis
    unfolding deployBNFTImplementations_def Let_def
    by (rule step keeps_for_each keeps_when_do keeps_await keeps_lift_result)+
qed

lemma keeps_mocks [keeps_intros]:
  assumes "\<And>k. K k"
  shows "keeps R (deployAllMockTokens E t verify)" "keeps R (deployAllMockNfts E verify)"
    "keeps R (deployOneMockToken E s verify)"
  unfolding deployAllMockTokens_def deployAllMockNfts_def deployOneMockToken_def deploy_mock_nft_def Let_def
  by (intro keeps_intros assms)+

lemma keeps_deployed_addresses [keeps_intros]:
  assumes "\<And>k. k \<in> set contract_ids \<Longrightarrow> K k"
  shows "keeps R (getWrappedNativeTokenAddress E cfg)" "keeps R (getWrappedPunkTokenAddress E cfg p)"
    "keeps R (getCryptoPunksMarketAddress E cfg)"
  unfolding getWrappedNativeTokenAddress_def getWrappedPunkTokenAddress_def
    getCryptoPunksMarketAddress_def Let_def
  by (intro keeps_intros assms contract_ids_mem)+

end

section \<open>Runs of the pool deployment\<close>

lemma getLendPoolLibraries_Ret_iff:
  "getLendPoolLibraries w = (Ret libs, w') \<longleftrightarrow> w' = w \<and>
     (\<exists>r n v g s b l.
        db_address w ''ReserveLogic'' = Some r \<and> db_address w ''NftLogic'' = Some n \<and>
        db_address w ''ValidationLogic'' = Some v \<and> db_address w ''GenericLogic'' = Some g \<and>
        db_address w ''SupplyLogic'' = Some s \<and> db_address w ''BorrowLogic'' = Some b \<and>
        db_address w ''LiquidateLogic'' = Some l \<and>
        libs = [(PLACEHOLDER_RESERVE_LOGIC, r), (PLACEHOLDER_NFT_LOGIC, n),
          (PLACEHOLDER_SUPPLY_LOGIC, s), (PLACEHOLDER_BORROW_LOGIC, b),
          (PLACEHOLDER_LIQUIDATE_LOGIC, l)])"
  by (auto simp: getLendPoolLibraries_def await_Ret_iff getContractAddressInDb_Ret_iff ret_Ret_iff)

lemma deployLendPool_Ret:
  assumes "deployLendPool E verify w = (Ret h, w')"
  shows "db w' = (db w)(''LendPoolImpl'' \<mapsto> \<lparr>e_address = h_addr h, e_deployer = None\<rparr>,
      ''LendPool'' \<mapsto> saved_entry h) \<and> h_deployer h = getDeploySigner E \<and>
    (\<forall>k \<in> {''ReserveLogic'', ''NftLogic'', ''SupplyLogic'', ''BorrowLogic'', ''LiquidateLogic''}.
       db_address w k \<noteq> None)"
proof -
  from assms obtain libs where "getLendPoolLibraries w = (Ret libs, w)"
    and "deploy_impl E ''LendPool'' libs ''LendPoolImpl'' ''LendPool'' verify w = (Ret h, w')"
    unfolding deployLendPool_def await_Ret_iff getLendPoolLibraries_Ret_iff by blast
  then show ?thesis
    using deploy_impl_Ret [of E "''LendPool''" libs "''LendPoolImpl''" "''LendPool''" verify w h w']
    by (auto simp: getLendPoolLibraries_Ret_iff)
qed

end
