(* ===== verification/OraclesHelpers.thy ===== *)
theory OraclesHelpers
  imports Deployments
begin

text \<open>
  \<^verbatim>\<open>helpers/oracles-helpers.ts\<close>: filling the price oracles, and deploying the mock
  Chainlink aggregators.  An entry is found by the index of its key, so a key that is
  missing reads entry -1, which is \<^verbatim>\<open>undefined\<close>; taking that apart throws.  The
  lemmas say which transactions a run that returned has sent and which assets stop it.
\<close>

section \<open>Taking an entry apart\<close>

definition destructure_entry :: "'a obj \<Rightarrow> string \<Rightarrow> ('c, 'a) prog" where
  "destructure_entry o1 key = (case entry_by_key o1 key of
     None \<Rightarrow> throw (TypeError ''undefined is not iterable'')
   | Some (_, v) \<Rightarrow> ret v)"

lemma destructure_entry_get:
  "destructure_entry o1 key = (case obj_get o1 key of
     None \<Rightarrow> throw (TypeError ''undefined is not iterable'') | Some v \<Rightarrow> ret v)"
  by (simp add: destructure_entry_def entry_by_key_map_of split: option.splits)

lemma destructure_entry_Ret_iff [run_simps]:
  "destructure_entry o1 key w = (Ret v, w') \<longleftrightarrow> obj_get o1 key = Some v \<and> w' = w"
  by (auto simp: destructure_entry_get run_simps split: option.splits)

context effect_rel begin

lemma keeps_destructure_entry [keeps_intros]: "keeps R (destructure_entry o1 key)"
  unfolding destructure_entry_get by (intro keeps_intros)

end

section \<open>Prices and aggregators\<close>

definition setPricesInChainlinkMockAggregator ::
  "'c net \<Rightarrow> string obj \<Rightarrow> string obj \<Rightarrow> handle \<Rightarrow> ('c, unit) prog" where
  "setPricesInChainlinkMockAggregator E prices assetsAddresses reserveAggregatorInstance =
     for_each prices (\<lambda>(assetSymbol, price).
       await (destructure_entry assetsAddresses assetSymbol) (\<lambda>assetAddress.
       send E reserveAggregatorInstance ''mockAddAnswer'' [Str ''1'', Str price, Str ''1'', Str ''1'', Str ''1'']))"

definition setAggregatorsInReserveOracle ::
  "'c net \<Rightarrow> string obj \<Rightarrow> string obj \<Rightarrow> handle \<Rightarrow> ('c, unit) prog" where
  "setAggregatorsInReserveOracle E allAssetsAddresses aggregatorsAddresses priceOracleInstance =
     for_each allAssetsAddresses (\<lambda>(assetSymbol, assetAddress).
       if findIndex (\<lambda>value1. value1 = assetSymbol) (obj_keys aggregatorsAddresses) < 0
       then throw (JsError (''can not find aggregator for '' @ assetSymbol))
       else await (destructure_entry aggregatorsAddresses assetSymbol) (\<lambda>aggAddress.
         case n_bytes32 E assetAddress of
           Inl msg \<Rightarrow> throw (RpcError msg)
         | Inr assetBytes32 \<Rightarrow>
             send E priceOracleInstance ''addAggregator'' [Str assetAddress, Str aggAddress]))"

definition addAssetsInNFTOracle :: "'c net \<Rightarrow> string obj \<Rightarrow> handle \<Rightarrow> ('c, unit) prog" where
  "addAssetsInNFTOracle E assetsAddresses nftOracleInstance =
     for_each assetsAddresses (\<lambda>(assetSymbol, assetAddress).
       send E nftOracleInstance ''addAsset'' [Str assetAddress])"

text \<open>
  The guard \<^verbatim>\<open>priceIndex == undefined\<close> is never true, since \<^verbatim>\<open>findIndex\<close> answers a
  number; so it does not appear here and a missing price reaches the destructuring.
\<close>

definition setPricesInNFTOracle :: "'c net \<Rightarrow> string obj \<Rightarrow> string obj \<Rightarrow> handle \<Rightarrow> ('c, unit) prog" where
  "setPricesInNFTOracle E prices assetsAddresses nftOracleInstance =
     for_each assetsAddresses (\<lambda>(assetSymbol, assetAddress).
       await (destructure_entry prices assetSymbol) (\<lambda>price.
       send E nftOracleInstance ''setAssetData'' [Str assetAddress, Str price]))"

section \<open>Mock aggregators\<close>

definition deployChainlinkMockAggregator ::
  "'c net \<Rightarrow> string \<Rightarrow> string \<Rightarrow> string \<Rightarrow> bool \<Rightarrow> ('c, handle) prog" where
  "deployChainlinkMockAggregator E tokenName tokenDecimal initialPrice verify =
     (let latestTime = getNowTimeInSeconds E in
      await (deployMockChainlinkOracle E tokenDecimal verify) (\<lambda>aggregator.
      await (send E aggregator ''mockAddAnswer''
          [Num 1, Str initialPrice, Str latestTime, Str latestTime, Str ''1'']) (\<lambda>_.
      ret aggregator)))"

definition deployAllChainlinkMockAggregators ::
  "'c net \<Rightarrow> string obj \<Rightarrow> string obj \<Rightarrow> bool \<Rightarrow> ('c, handle obj) prog" where
  "deployAllChainlinkMockAggregators E allTokenDecimals initialPrices verify =
     for_fold (obj_keys initialPrices) (\<lambda>tokenContractName aggregators.
       if tokenContractName = ''ETH'' then ret aggregators
       else if findIndex (\<lambda>value1. value1 = tokenContractName) (obj_keys initialPrices) < 0
       then throw (JsError (''can not find price for '' @ tokenContractName))
       else await (destructure_entry initialPrices tokenContractName) (\<lambda>price.
         let decimals = ''18'' in
         await (deployChainlinkMockAggregator E tokenContractName decimals price verify) (\<lambda>agg.
         ret (obj_set tokenContractName agg aggregators)))) []"

definition deployAllReservesMockAggregatorsInPoolConfig ::
  "'c net \<Rightarrow> pool_config \<Rightarrow> bool \<Rightarrow> ('c, string obj) prog" where
  "deployAllReservesMockAggregatorsInPoolConfig E poolConfig verify =
     (let allTokenDecimals = fold (\<lambda>(tokenSymbol, tokenConfig) accum.
            obj_set tokenSymbol (reserveDecimals tokenConfig) accum) (ReservesConfig poolConfig) [] in
      await (deployAllChainlinkMockAggregators E allTokenDecimals
          (AllAssetsInitialPrices (Mocks poolConfig)) verify) (\<lambda>mockAggregators.
      await (deployChainlinkMockAggregator E ''USD'' ''8'' MOCK_USD_PRICE False) (\<lambda>usdMockAggregator.
      ret (addresses_of mockAggregators [(''USD'', h_addr usdMockAggregator)]))))"

section \<open>What the scripts send\<close>

text \<open>A loop that looks every key up and sends one transaction per entry.\<close>

lemma for_each_lookup_send_Ret:
  assumes "for_each xs (\<lambda>(k, a). await (destructure_entry ps k) (\<lambda>p. send E h m (args a p))) w = (Ret u, w')"
  shows "(\<forall>(k, a) \<in> set xs. obj_get ps k \<noteq> None) \<and>
    trace w' = trace w @ map (\<lambda>(k, a). EvTx (h_signer h) (h_addr h) m (args a (the (obj_get ps k)))) xs"
  using assms
proof (induction xs arbitrary: w)
  case Nil
  then show ?case by (simp add: ret_Ret_iff)
next
  case (Cons x xs)
  obtain k a where x: "x = (k, a)" by (cases x)
  with Cons.prems obtain p w1 where p: "obj_get ps k = Some p"
    and 1: "send E h m (args a p) w = (Ret (), w1)"
    and 2: "for_each xs (\<lambda>(k, a). await (destructure_entry ps k) (\<lambda>p. send E h m (args a p))) w1 = (Ret u, w')"
    by (auto simp: await_Ret_iff destructure_entry_Ret_iff)
  from 1 have "trace w1 = trace w @ [EvTx (h_signer h) (h_addr h) m (args a p)]"
    by (auto simp: send_Ret_iff)
  with Cons.IH [OF 2] p x show ?case by simp
qed

lemma setAggregators_Ret:
  assumes "setAggregatorsInReserveOracle E assets aggs h w = (Ret u, w')"
  shows "(\<forall>(k, a) \<in> set assets. obj_get aggs k \<noteq> None) \<and>
    trace w' = trace w @ map (\<lambda>(k, a). EvTx (h_signer h) (h_addr h) ''addAggregator''
      [Str a, Str (the (obj_get aggs k))]) assets"
  using assms unfolding setAggregatorsInReserveOracle_def
proof (induction assets arbitrary: w)
  case Nil
  then show ?case by (simp add: ret_Ret_iff)
next
  case (Cons x xs)
  obtain k a where x: "x = (k, a)" by (cases x)
  from Cons.prems x obtain w1 where step: "(if findIndex (\<lambda>v. v = k) (obj_keys aggs) < 0
       then throw (JsError (''can not find aggregator for '' @ k))
       else await (destructure_entry aggs k) (\<lambda>agg. case n_bytes32 E a of
           Inl msg \<Rightarrow> throw (RpcError msg)
         | Inr b \<Rightarrow> send E h ''addAggregator'' [Str a, Str agg])) w = (Ret (), w1)"
    and rest: "for_each xs (\<lambda>(k, a). if findIndex (\<lambda>v. v = k) (obj_keys aggs) < 0
       then throw (JsError (''can not find aggregator for '' @ k))
       else await (destructure_entry aggs k) (\<lambda>agg. case n_bytes32 E a of
           Inl msg \<Rightarrow> throw (RpcError msg)
         | Inr b \<Rightarrow> send E h ''addAggregator'' [Str a, Str agg])) w1 = (Ret u, w')"
    unfolding for_each_Cons_Ret_iff by auto
  from step have "\<exists>agg. obj_get aggs k = Some agg \<and>
      trace w1 = trace w @ [EvTx (h_signer h) (h_addr h) ''addAggregator'' [Str a, Str agg]]"
    by (cases "n_bytes32 E a") (auto simp: await_Ret_iff destructure_entry_Ret_iff throw_Ret_iff
        send_Ret_iff split: if_splits)
  with Cons.IH [OF rest] x show ?case by auto
qed

lemma setPricesInNFTOracle_missing:
  assumes "(s, a) \<in> set assets" and "obj_get prices s = None"
  shows "never_returns (setPricesInNFTOracle E prices assets h) w"
  unfolding never_returns_def setPricesInNFTOracle_def
  using assms for_each_lookup_send_Ret
    [where ps = prices and xs = assets and args = "\<lambda>a p. [Str a, Str p]" and E = E and h = h
      and m = "''setAssetData''" and w = w] by fastforce

context effect_rel begin

lemma keeps_oracles [keeps_intros]:
  "keeps R (setPricesInChainlinkMockAggregator E prices assets h)"
  "keeps R (setAggregatorsInReserveOracle E assets aggs h)"
  "keeps R (addAssetsInNFTOracle E assets h)"
  "keeps R (setPricesInNFTOracle E prices assets h)"
  unfolding setPricesInChainlinkMockAggregator_def setAggregatorsInReserveOracle_def
    addAssetsInNFTOracle_def setPricesInNFTOracle_def
  by (auto intro!: keeps_intros split: sum.splits)

lemma keeps_aggregators [keeps_intros]:
  assumes "K ''MockChainlinkOracle''"
  shows "keeps R (deployChainlinkMockAggregator E n d p v)"
    "keeps R (deployAllChainlinkMockAggregators E ds ps v)"
    "keeps R (deployAllReservesMockAggregatorsInPoolConfig E cfg v)"
proof -
  show 1: "keeps R (deployChainlinkMockAggregator E n d p v)" for n d p v
    unfolding deployChainlinkMockAggregator_def Let_def by (intro keeps_intros assms)
  then show 2: "keeps R (deployAllChainlinkMockAggregators E ds ps v)" for ds ps v
    unfolding deployAllChainlinkMockAggregators_def Let_def by (intro keeps_intros)
  from 1 2 show "keeps R (deployAllReservesMockAggregatorsInPoolConfig E cfg v)"
    unfolding deployAllReservesMockAggregatorsInPoolConfig_def Let_def by (intro keeps_intros)
qed

end

end
