(* ===== verification/InitHelpers.thy ===== *)
theory InitHelpers
  imports OraclesHelpers
begin

text \<open>
  \<^verbatim>\<open>helpers/init-helpers.ts\<close>: listing the reserves and NFTs of a market.  Each helper
  walks the configuration in order, skips what has no address on the network, gathers the
  contract's input structures, cuts them into chunks and sends one transaction per chunk.
  The lemmas state the outcome without the loops: the transactions are the structures of
  the listed symbols, in configuration order, in pieces of the chunk size.
\<close>

section \<open>Extra parameters\<close>

definition getBTokenExtraParams :: "string \<Rightarrow> string \<Rightarrow> string" where
  "getBTokenExtraParams bTokenName tokenAddress = ''0x10''"

definition getBNftExtraParams :: "string \<Rightarrow> string \<Rightarrow> string" where
  "getBNftExtraParams bNftName nftAddress = ''0x10''"

section \<open>What is listed\<close>

text \<open>
  The entries of a configuration whose symbol has an address, with the address: the
  specification of the loops below.
\<close>

definition listed :: "'a obj \<Rightarrow> string obj \<Rightarrow> (string \<times> 'a \<times> string) list" where
  "listed config addresses =
     map (\<lambda>(sy, p). (sy, p, the (obj_get addresses sy)))
       (filter (\<lambda>(sy, p). truthy (obj_get addresses sy)) config)"

lemma listed_Nil [simp]: "listed [] addresses = []"
  by (simp add: listed_def)

lemma listed_Cons:
  "listed ((sy, p) # config) addresses =
     (if truthy (obj_get addresses sy) then (sy, p, the (obj_get addresses sy)) # listed config addresses
      else listed config addresses)"
  by (simp add: listed_def)

section \<open>Sending in chunks\<close>

definition send_chunks ::
  "'c net \<Rightarrow> handle \<Rightarrow> string \<Rightarrow> nat \<Rightarrow> js_value list \<Rightarrow> ('c, unit) prog" where
  "send_chunks E configurator method chunkSize inputs =
     for_each (chunk inputs chunkSize) (\<lambda>c. send E configurator method [Arr c])"

lemma send_chunks_Ret:
  assumes "send_chunks E h m n inputs w = (Ret u, w')" and "0 < n"
  shows "trace w' = trace w @ map (\<lambda>c. EvTx (h_signer h) (h_addr h) m [Arr c]) (pieces n inputs) \<and>
    db w' = db w"
  using for_each_send_Ret [of "chunk inputs n" E h m "\<lambda>c. [Arr c]" w u w'] assms
  by (simp add: send_chunks_def chunk_pieces)

section \<open>Reserves\<close>

text \<open>The structure \<^verbatim>\<open>ConfigTypes.InitReserveInput\<close>.\<close>

definition init_reserve_input ::
  "string \<Rightarrow> string \<Rightarrow> string \<Rightarrow> string \<Rightarrow> string \<Rightarrow> string option \<Rightarrow> string \<Rightarrow> string \<Rightarrow> string
     \<Rightarrow> string \<Rightarrow> string \<Rightarrow> js_value" where
  "init_reserve_input bTokenAddr debtTokenAddr decimals rate underlying treasury symbol
      bTokenNamePrefix bTokenSymbolPrefix debtTokenNamePrefix debtTokenSymbolPrefix =
     Obj [(''bTokenImpl'', Str bTokenAddr),
          (''debtTokenImpl'', Str debtTokenAddr),
          (''underlyingAssetDecimals'', Str decimals),
          (''interestRateAddress'', Str rate),
          (''underlyingAsset'', Str underlying),
          (''treasury'', val_of treasury),
          (''underlyingAssetName'', Str symbol),
          (''bTokenName'', Str (bTokenNamePrefix @ '' '' @ symbol)),
          (''bTokenSymbol'', Str (bTokenSymbolPrefix @ symbol)),
          (''debtTokenName'', Str (debtTokenNamePrefix @ '' '' @ symbol)),
          (''debtTokenSymbol'', Str (debtTokenSymbolPrefix @ symbol))]"

text \<open>The local variables of the loop.\<close>

record init_state =
  reserveSymbols :: "string list"
  initInputParams :: "js_value list"
  strategyAddresses :: "string obj"

text \<open>The rate strategy of a reserve: deployed at its first use, then read back.\<close>

definition strategy_for ::
  "'c net \<Rightarrow> handle \<Rightarrow> rate_strategy \<Rightarrow> bool \<Rightarrow> string obj \<Rightarrow> ('c, string obj) prog" where
  "strategy_for E addressProvider strategy verify strategyAddresses1 =
     (if truthy (obj_get strategyAddresses1 (rs_name strategy)) then ret strategyAddresses1
      else await (deployRateStrategy E (rs_name strategy)
             [Str (h_addr addressProvider), Str (optimalUtilizationRate strategy),
              Str (baseVariableBorrowRate strategy), Str (variableRateSlope1 strategy),
              Str (variableRateSlope2 strategy)] verify) (\<lambda>a.
           await (rawInsertContractAddressInDb (rs_name strategy) a) (\<lambda>_.
           ret (obj_set (rs_name strategy) a strategyAddresses1))))"

definition init_reserve_step ::
  "'c net \<Rightarrow> handle \<Rightarrow> string obj \<Rightarrow> string \<Rightarrow> string \<Rightarrow> string \<Rightarrow> string \<Rightarrow> string option \<Rightarrow> string \<Rightarrow> bool
     \<Rightarrow> string \<times> reserve_params \<Rightarrow> init_state \<Rightarrow> ('c, init_state) prog" where
  "init_reserve_step E addressProvider tokenAddresses bTokenNamePrefix bTokenSymbolPrefix
      debtTokenNamePrefix debtTokenSymbolPrefix collectorAddress poolName verify = (\<lambda>(symbol, params) st.
     if \<not> truthy (obj_get tokenAddresses symbol) then ret st
     else
       let strategy = r_strategy params in
       await (strategy_for E addressProvider strategy verify (strategyAddresses st)) (\<lambda>addrs.
       await (getContractAddressWithJsonFallback E (bTokenImpl params) poolName) (\<lambda>bTokenImplContractAddr.
       await (getContractAddressWithJsonFallback E ''DebtToken'' poolName) (\<lambda>debtTokenImplContractAddr.
       ret \<lparr>reserveSymbols = reserveSymbols st @ [symbol],
            initInputParams = initInputParams st @
              [init_reserve_input bTokenImplContractAddr debtTokenImplContractAddr
                 (reserveDecimals params) (the (obj_get addrs (rs_name strategy)))
                 (the (obj_get tokenAddresses symbol)) collectorAddress symbol
                 bTokenNamePrefix bTokenSymbolPrefix debtTokenNamePrefix debtTokenSymbolPrefix],
            strategyAddresses = addrs\<rparr>))))"

definition initReservesByHelper ::
  "'c net \<Rightarrow> reserve_params obj \<Rightarrow> string obj \<Rightarrow> string \<Rightarrow> string \<Rightarrow> string \<Rightarrow> string
     \<Rightarrow> string option \<Rightarrow> string option \<Rightarrow> string \<Rightarrow> bool \<Rightarrow> ('c, unit) prog" where
  "initReservesByHelper E reservesParams tokenAddresses bTokenNamePrefix bTokenSymbolPrefix
      debtTokenNamePrefix debtTokenSymbolPrefix admin collectorAddress poolName verify =
     await (getLendPoolAddressesProvider E None) (\<lambda>addressProvider.
     let initChunks = 1 in
     await (for_fold reservesParams
         (init_reserve_step E addressProvider tokenAddresses bTokenNamePrefix bTokenSymbolPrefix
            debtTokenNamePrefix debtTokenSymbolPrefix collectorAddress poolName verify)
         \<lparr>reserveSymbols = [], initInputParams = [], strategyAddresses = []\<rparr>) (\<lambda>st.
     await (getLendPoolConfiguratorProxy E None) (\<lambda>configurator.
     send_chunks E configurator ''batchInitReserve'' initChunks (initInputParams st))))"

definition maxUtilizationRate :: string where
  "maxUtilizationRate = dec (75 * oneRay div 100)"

definition config_reserve_input :: "string \<Rightarrow> string \<Rightarrow> js_value" where
  "config_reserve_input asset reserveFactor1 =
     Obj [(''asset'', Str asset), (''reserveFactor'', Str reserveFactor1),
          (''maxUtilizationRate'', Str maxUtilizationRate)]"

record config_state =
  cs_tokens :: "string list"
  cs_symbols :: "string list"
  inputParams :: "js_value list"
  assetsParams :: "string list"

definition config_reserve_step ::
  "string obj \<Rightarrow> string \<times> reserve_params \<Rightarrow> config_state \<Rightarrow> ('c, config_state) prog" where
  "config_reserve_step tokenAddresses = (\<lambda>(assetSymbol, params) st.
     if \<not> truthy (obj_get tokenAddresses assetSymbol) then ret st
     else await (destructure_entry tokenAddresses assetSymbol) (\<lambda>tokenAddress.
       ret \<lparr>cs_tokens = cs_tokens st @ [tokenAddress],
            cs_symbols = cs_symbols st @ [assetSymbol],
            inputParams = inputParams st @ [config_reserve_input tokenAddress (reserveFactor params)],
            assetsParams = (if borrowingEnabled params then assetsParams st @ [tokenAddress]
                            else assetsParams st)\<rparr>))"

definition configureReservesByHelper ::
  "'c net \<Rightarrow> reserve_params obj \<Rightarrow> string obj \<Rightarrow> string option \<Rightarrow> ('c, unit) prog" where
  "configureReservesByHelper E reservesParams tokenAddresses admin =
     await (getLendPoolAddressesProvider E None) (\<lambda>addressProvider.
     await (getLendPoolConfiguratorProxy E None) (\<lambda>configuator.
     await (for_fold reservesParams (config_reserve_step tokenAddresses)
         \<lparr>cs_tokens = [], cs_symbols = [], inputParams = [], assetsParams = []\<rparr>) (\<lambda>st.
     when_do (cs_tokens st \<noteq> [])
       (let enableChunks = 20 in
        await (send_chunks E configuator ''batchConfigReserve'' enableChunks (inputParams st)) (\<lambda>_.
        send E configuator ''setBorrowingFlagOnReserve''
          [Arr (map Str (assetsParams st)), Bool True])))))"

section \<open>NFTs\<close>

definition init_nft_input :: "string \<Rightarrow> js_value" where
  "init_nft_input asset = Obj [(''underlyingAsset'', Str asset)]"

definition initNftsByHelper ::
  "'c net \<Rightarrow> nft_params obj \<Rightarrow> string obj \<Rightarrow> string option \<Rightarrow> string \<Rightarrow> bool \<Rightarrow> ('c, unit) prog" where
  "initNftsByHelper E nftsParams nftAddresses admin poolName verify =
     await (getLendPoolAddressesProvider E None) (\<lambda>addressProvider.
     await (view E addressProvider ''getBNFTRegistry'' []) (\<lambda>bnftRegistry.
     let initChunks = 1;
         inputs = fold (\<lambda>(symbol, params) acc.
           if \<not> truthy (obj_get nftAddresses symbol) then acc
           else acc @ [init_nft_input (the (obj_get nftAddresses symbol))]) nftsParams [] in
     await (getLendPoolConfiguratorProxy E None) (\<lambda>configurator.
     send_chunks E configurator ''batchInitNft'' initChunks inputs)))"

definition config_nft_input :: "string \<Rightarrow> nft_params \<Rightarrow> js_value" where
  "config_nft_input asset params =
     Obj [(''asset'', Str asset),
          (''baseLTV'', Str (baseLTVAsCollateral params)),
          (''liquidationThreshold'', Str (liquidationThreshold params)),
          (''liquidationBonus'', Str (liquidationBonus params)),
          (''redeemDuration'', Str (redeemDuration params)),
          (''auctionDuration'', Str (auctionDuration params)),
          (''redeemFine'', Str (redeemFine params)),
          (''redeemThreshold'', Str (redeemThreshold params)),
          (''minBidFine'', Str (minBidFine params)),
          (''maxSupply'', Str (maxSupply params)),
          (''maxTokenId'', Str (maxTokenId params)),
          (''maxCollateralCap'', Num 100)]"

definition config_nft_step ::
  "string obj \<Rightarrow> string \<times> nft_params \<Rightarrow> config_state \<Rightarrow> ('c, config_state) prog" where
  "config_nft_step nftAddresses = (\<lambda>(assetSymbol, params) st.
     if \<not> truthy (obj_get nftAddresses assetSymbol) then ret st
     else if baseLTVAsCollateral params = ''-1'' then ret st
     else await (destructure_entry nftAddresses assetSymbol) (\<lambda>tokenAddress.
       ret (st\<lparr>cs_tokens := cs_tokens st @ [tokenAddress],
               cs_symbols := cs_symbols st @ [assetSymbol],
               inputParams := inputParams st @ [config_nft_input tokenAddress params]\<rparr>)))"

definition configureNftsByHelper ::
  "'c net \<Rightarrow> nft_params obj \<Rightarrow> string obj \<Rightarrow> string option \<Rightarrow> ('c, unit) prog" where
  "configureNftsByHelper E nftsParams nftAddresses admin =
     await (getLendPoolAddressesProvider E None) (\<lambda>addressProvider.
     await (getLendPoolConfiguratorProxy E None) (\<lambda>configuator.
     await (for_fold nftsParams (config_nft_step nftAddresses)
         \<lparr>cs_tokens = [], cs_symbols = [], inputParams = [], assetsParams = []\<rparr>) (\<lambda>st.
     when_do (cs_tokens st \<noteq> [])
       (let enableChunks = 20 in
        send_chunks E configuator ''batchConfigNft'' enableChunks (inputParams st)))))"

section \<open>Pairs of assets and aggregators, the unguarded variant\<close>

definition getPairsTokenAggregator_init ::
  "string obj \<Rightarrow> string obj \<Rightarrow> js_error + (string list \<times> string list)" where
  "getPairsTokenAggregator_init allAssetsAddresses aggregatorsAddresses =
     (let assetsAddressesWithoutEth = omit allAssetsAddresses [''ETH'', ''WETH''] in
      case map_or_throw (\<lambda>(tokenSymbol, tokenAddress).
          if tokenSymbol \<noteq> ''WETH'' \<and> tokenSymbol \<noteq> ''ETH'' then
            (case entry_by_key aggregatorsAddresses tokenSymbol of
               None \<Rightarrow> Inl (TypeError ''undefined is not iterable'')
             | Some (_, aggregatorAddress) \<Rightarrow> Inr (Some (tokenAddress, aggregatorAddress)))
          else Inr None) assetsAddressesWithoutEth of
        Inl e \<Rightarrow> Inl e
      | Inr pairs \<Rightarrow>
          if None \<in> set pairs then Inl (TypeError ''undefined is not iterable'')
          else Inr (map (\<lambda>p. fst (the p)) pairs, map (\<lambda>p. snd (the p)) pairs))"

section \<open>Runs that returned\<close>

lemma config_reserve_fold:
  assumes "for_fold cfg (config_reserve_step addrs) st w = (Ret st', w')"
  shows "w' = w \<and>
    cs_tokens st' = cs_tokens st @ map (\<lambda>(s, p, a). a) (listed cfg addrs) \<and>
    inputParams st' = inputParams st @
      map (\<lambda>(s, p, a). config_reserve_input a (reserveFactor p)) (listed cfg addrs) \<and>
    assetsParams st' = assetsParams st @
      map (\<lambda>(s, p, a). a) (filter (\<lambda>(s, p, a). borrowingEnabled p) (listed cfg addrs))"
  using assms
proof (induction cfg arbitrary: st)
  case Nil
  then show ?case by (simp add: ret_Ret_iff)
next
  case (Cons x cfg)
  obtain s p where x: "x = (s, p)" by (cases x)
  from Cons.prems obtain st1 w1 where step: "config_reserve_step addrs x st w = (Ret st1, w1)"
    and rest: "for_fold cfg (config_reserve_step addrs) st1 w1 = (Ret st', w')"
    unfolding for_fold_Ret_Cons by blast
  show ?case
  proof (cases "truthy (obj_get addrs s)")
    case False
    with step x have "st1 = st" "w1 = w" by (auto simp: config_reserve_step_def ret_Ret_iff)
    with Cons.IH rest x False show ?thesis by (simp add: listed_Cons)
  next
    case True
    with step x obtain a where a: "obj_get addrs s = Some a" and w: "w1 = w" and
      st1: "st1 = \<lparr>cs_tokens = cs_tokens st @ [a], cs_symbols = cs_symbols st @ [s],
        inputParams = inputParams st @ [config_reserve_input a (reserveFactor p)],
        assetsParams = (if borrowingEnabled p then assetsParams st @ [a] else assetsParams st)\<rparr>"
      by (auto simp: config_reserve_step_def await_Ret_iff destructure_entry_Ret_iff ret_Ret_iff)
    from rest w have "for_fold cfg (config_reserve_step addrs) st1 w = (Ret st', w')" by simp
    from Cons.IH [OF this] a True x st1 show ?thesis by (simp add: listed_Cons)
  qed
qed

lemma config_nft_fold:
  assumes "for_fold cfg (config_nft_step addrs) st w = (Ret st', w')"
  shows "w' = w \<and>
    cs_tokens st' = cs_tokens st @ map (\<lambda>(s, p, a). a)
      (filter (\<lambda>(s, p, a). baseLTVAsCollateral p \<noteq> ''-1'') (listed cfg addrs)) \<and>
    inputParams st' = inputParams st @ map (\<lambda>(s, p, a). config_nft_input a p)
      (filter (\<lambda>(s, p, a). baseLTVAsCollateral p \<noteq> ''-1'') (listed cfg addrs))"
  using assms
proof (induction cfg arbitrary: st)
  case Nil
  then show ?case by (simp add: ret_Ret_iff)
next
  case (Cons x cfg)
  obtain s p where x: "x = (s, p)" by (cases x)
  from Cons.prems obtain st1 w1 where step: "config_nft_step addrs x st w = (Ret st1, w1)"
    and rest: "for_fold cfg (config_nft_step addrs) st1 w1 = (Ret st', w')"
    unfolding for_fold_Ret_Cons by blast
  show ?case
  proof (cases "truthy (obj_get addrs s) \<and> baseLTVAsCollateral p \<noteq> ''-1''")
    case False
    with step x have "st1 = st" "w1 = w"
      by (auto simp: config_nft_step_def ret_Ret_iff split: if_splits)
    with Cons.IH rest x False show ?thesis by (auto simp: listed_Cons)
  next
    case True
    with step x obtain a where a: "obj_get addrs s = Some a" and w: "w1 = w" and
      st1: "st1 = st\<lparr>cs_tokens := cs_tokens st @ [a], cs_symbols := cs_symbols st @ [s],
        inputParams := inputParams st @ [config_nft_input a p]\<rparr>"
      by (auto simp: config_nft_step_def await_Ret_iff destructure_entry_Ret_iff ret_Ret_iff)
    from rest w have "for_fold cfg (config_nft_step addrs) st1 w = (Ret st', w')" by simp
    from Cons.IH [OF this] a True x st1 show ?thesis by (simp add: listed_Cons)
  qed
qed

lemma init_nfts_inputs:
  "fold (\<lambda>(symbol, params) acc. if \<not> truthy (obj_get addrs symbol) then acc
       else acc @ [init_nft_input (the (obj_get addrs symbol))]) cfg acc =
   acc @ map (\<lambda>(s, p, a). init_nft_input a) (listed cfg addrs)"
  by (induction cfg arbitrary: acc) (auto simp: listed_Cons)

text \<open>The provider and the configurator, both read from the database.\<close>

definition configurator_handle :: "'c net \<Rightarrow> 'c world \<Rightarrow> handle" where
  "configurator_handle E w = connect_at E ''LendPoolConfigurator''
     (case db w ''LendPoolConfigurator'' of Some e \<Rightarrow> e_address e | None \<Rightarrow> [])"

lemma getLendPoolConfiguratorProxy_Ret:
  "getLendPoolConfiguratorProxy E None w = (Ret h, w') \<Longrightarrow> h = configurator_handle E w \<and> w' = w"
  by (auto simp: getLendPoolConfiguratorProxy_def connect_or_db_Ret_iff configurator_handle_def)

lemma getLendPoolAddressesProvider_Ret:
  "getLendPoolAddressesProvider E None w = (Ret h, w') \<Longrightarrow> w' = w"
  by (auto simp: getLendPoolAddressesProvider_def connect_or_db_Ret_iff)

lemma configureReservesByHelper_trace:
  assumes run: "configureReservesByHelper E cfg addrs admin w = (Ret u, w')"
    and some: "listed cfg addrs \<noteq> []"
  defines "h \<equiv> configurator_handle E w"
  shows "trace w' = trace w @
    map (\<lambda>c. EvTx (h_signer h) (h_addr h) ''batchConfigReserve'' [Arr c])
      (pieces 20 (map (\<lambda>(s, p, a). config_reserve_input a (reserveFactor p)) (listed cfg addrs))) @
    [EvTx (h_signer h) (h_addr h) ''setBorrowingFlagOnReserve''
       [Arr (map Str (map (\<lambda>(s, p, a). a) (filter (\<lambda>(s, p, a). borrowingEnabled p) (listed cfg addrs)))),
        Bool True]]"
proof -
  from run obtain st w1 where fold: "for_fold cfg (config_reserve_step addrs)
       \<lparr>cs_tokens = [], cs_symbols = [], inputParams = [], assetsParams = []\<rparr> w = (Ret st, w1)"
    and sends: "when_do (cs_tokens st \<noteq> []) (await (send_chunks E h ''batchConfigReserve'' 20 (inputParams st)) (\<lambda>_.
        send E h ''setBorrowingFlagOnReserve'' [Arr (map Str (assetsParams st)), Bool True])) w1 = (Ret u, w')"
    unfolding configureReservesByHelper_def await_Ret_iff Let_def h_def
    by (auto dest!: getLendPoolConfiguratorProxy_Ret getLendPoolAddressesProvider_Ret)
  note st = config_reserve_fold [OF fold]
  from st some have "cs_tokens st \<noteq> []" by simp
  with sends obtain w2 where 1: "send_chunks E h ''batchConfigReserve'' 20 (inputParams st) w1 = (Ret (), w2)"
    and 2: "send E h ''setBorrowingFlagOnReserve'' [Arr (map Str (assetsParams st)), Bool True] w2 = (Ret u, w')"
    by (auto simp: when_do_Ret_iff await_Ret_iff)
  from 2 have "trace w' = trace w2 @ [EvTx (h_signer h) (h_addr h) ''setBorrowingFlagOnReserve''
      [Arr (map Str (assetsParams st)), Bool True]]" by (auto simp: send_Ret_iff)
  with send_chunks_Ret [OF 1] st show ?thesis by simp
qed

lemma configureNftsByHelper_trace:
  assumes run: "configureNftsByHelper E cfg addrs admin w = (Ret u, w')"
  defines "h \<equiv> configurator_handle E w"
  shows "trace w' = trace w @
    map (\<lambda>c. EvTx (h_signer h) (h_addr h) ''batchConfigNft'' [Arr c])
      (pieces 20 (map (\<lambda>(s, p, a). config_nft_input a p)
        (filter (\<lambda>(s, p, a). baseLTVAsCollateral p \<noteq> ''-1'') (listed cfg addrs))))"
proof -
  from run obtain st w1 where fold: "for_fold cfg (config_nft_step addrs)
       \<lparr>cs_tokens = [], cs_symbols = [], inputParams = [], assetsParams = []\<rparr> w = (Ret st, w1)"
    and sends: "when_do (cs_tokens st \<noteq> []) (send_chunks E h ''batchConfigNft'' 20 (inputParams st)) w1 = (Ret u, w')"
    unfolding configureNftsByHelper_def await_Ret_iff Let_def h_def
    by (auto dest!: getLendPoolConfiguratorProxy_Ret getLendPoolAddressesProvider_Ret)
  note st = config_nft_fold [OF fold]
  show ?thesis
  proof (cases "cs_tokens st = []")
    case True
    with st sends show ?thesis by (simp add: when_do_Ret_iff)
  next
    case False
    with sends have "send_chunks E h ''batchConfigNft'' 20 (inputParams st) w1 = (Ret u, w')"
      by (simp add: when_do_Ret_iff)
    from send_chunks_Ret [OF this] st show ?thesis by simp
  qed
qed

lemma initNftsByHelper_trace:
  assumes run: "initNftsByHelper E cfg addrs admin pool verify w = (Ret u, w')"
  defines "h \<equiv> configurator_handle E w"
  shows "trace w' = trace w @
    map (\<lambda>(s, p, a). EvTx (h_signer h) (h_addr h) ''batchInitNft'' [Arr [init_nft_input a]])
      (listed cfg addrs)"
proof -
  from run have "send_chunks E h ''batchInitNft'' 1
      (map (\<lambda>(s, p, a). init_nft_input a) (listed cfg addrs)) w = (Ret u, w')"
    unfolding initNftsByHelper_def await_Ret_iff Let_def h_def init_nfts_inputs view_Ret_iff
    by (auto dest!: getLendPoolConfiguratorProxy_Ret getLendPoolAddressesProvider_Ret)
  from send_chunks_Ret [OF this] show ?thesis
    by (simp add: chunk_one [unfolded One_nat_def] flip: chunk_pieces)
      (simp add: case_prod_unfold)
qed

text \<open>The rest of the run of \<open>initReservesByHelper\<close>: inputs, strategies and transactions.\<close>

lemma deployRateStrategy_Ret:
  assumes "deployRateStrategy E n args verify w = (Ret a, w')"
  shows "\<exists>evs. trace w' = trace w @ EvDeploy (getDeploySigner E) ''InterestRate'' [] args a # evs \<and>
    (\<forall>e \<in> set evs. is_EvVerify e \<or> e = EvCleanup)"
proof -
  from assms obtain h where "deploy_save E ''InterestRate'' [] args ''InterestRate'' verify w = (Ret h, w')"
    and "a = h_addr h"
    unfolding deployRateStrategy_def deployInterestRate_def deployInterestRateWithID_def await_Ret_iff ret_Ret_iff
    by blast
  with deploy_save_trace show ?thesis by blast
qed

definition deploy_count :: "event list \<Rightarrow> nat" where
  "deploy_count evs = length (filter is_EvDeploy evs)"

lemma deploy_count_simps [simp]:
  "deploy_count [] = 0" "deploy_count (xs @ ys) = deploy_count xs + deploy_count ys"
  "deploy_count (EvDeploy d n l a x # evs) = Suc (deploy_count evs)"
  by (simp_all add: deploy_count_def)

lemma deploy_count_verify: "\<forall>e \<in> set evs. is_EvVerify e \<or> e = EvCleanup \<Longrightarrow> deploy_count evs = 0"
  by (induction evs) (auto simp: deploy_count_def is_EvVerify_def)

text \<open>A deployment never answers an empty address.\<close>

definition deploys_nonempty :: "'c net \<Rightarrow> bool" where
  "deploys_nonempty E \<longleftrightarrow> (\<forall>s n l a c x c'. n_deploy E s n l a c = (Inr x, c') \<longrightarrow> x \<noteq> [])"

lemma deployRateStrategy_nonempty:
  assumes "deployRateStrategy E n args verify w = (Ret a, w')" and "deploys_nonempty E"
  shows "a \<noteq> []"
  using assms unfolding deployRateStrategy_def deployInterestRate_def deployInterestRateWithID_def
    deploy_save_def deploy_new_def await_Ret_iff ret_Ret_iff deploy_with_Ret_iff deploys_nonempty_def
  by (fastforce dest: withSaveAndVerify_Ret)

text \<open>The strategies so far: one address per name, none empty, one deployment each.\<close>

definition strategies_ok :: "string obj \<Rightarrow> bool" where
  "strategies_ok sa \<longleftrightarrow> distinct (obj_keys sa) \<and> (\<forall>a \<in> set (map snd sa). a \<noteq> [])"

lemma strategies_ok_truthy: "strategies_ok sa \<Longrightarrow> truthy (obj_get sa k) \<longleftrightarrow> k \<in> set (obj_keys sa)"
proof
  assume "strategies_ok sa" and "k \<in> set (obj_keys sa)"
  then obtain a where "obj_get sa k = Some a" by (metis map_of_eq_None_iff not_None_eq list.set_map)
  with \<open>strategies_ok sa\<close> show "truthy (obj_get sa k)"
    by (force simp: strategies_ok_def dest: map_of_SomeD)
next
  assume "truthy (obj_get sa k)"
  then show "k \<in> set (obj_keys sa)" by (auto elim!: truthyE dest: map_of_SomeD intro: rev_image_eqI)
qed

lemma strategy_for_Ret:
  assumes run: "strategy_for E h s verify sa w = (Ret sa', w')"
    and ok: "strategies_ok sa" and ne: "deploys_nonempty E"
  shows "strategies_ok sa' \<and> set (obj_keys sa') = insert (rs_name s) (set (obj_keys sa)) \<and>
    (\<forall>k a. obj_get sa k = Some a \<longrightarrow> obj_get sa' k = Some a) \<and>
    (\<exists>evs. trace w' = trace w @ evs \<and> (\<forall>e \<in> set evs. \<not> is_EvTx e) \<and>
       deploy_count evs + length sa = length sa')"
proof (cases "rs_name s \<in> set (obj_keys sa)")
  case True
  with run ok have "sa' = sa" "w' = w"
    by (auto simp: strategy_for_def strategies_ok_truthy ret_Ret_iff)
  with True ok show ?thesis by (auto simp: insert_absorb)
next
  case False
  with run ok obtain a args w1 where dep: "deployRateStrategy E (rs_name s) args verify w = (Ret a, w1)"
    and w': "w' = db_write (rs_name s) \<lparr>e_address = a, e_deployer = None\<rparr> w1"
    and sa': "sa' = obj_set (rs_name s) a sa"
    by (auto simp: strategy_for_def strategies_ok_truthy await_Ret_iff rawInsertContractAddressInDb_Ret_iff
        ret_Ret_iff)
  from False sa' have sa: "sa' = sa @ [(rs_name s, a)]" by (simp add: obj_set_fresh)
  from deployRateStrategy_nonempty [OF dep ne] have "a \<noteq> []" .
  with ok False sa have "strategies_ok sa'" by (auto simp: strategies_ok_def)
  moreover from False sa have "\<forall>k a. obj_get sa k = Some a \<longrightarrow> obj_get sa' k = Some a"
    by (auto simp: map_add_def)
  moreover obtain evs where "trace w1 = trace w @ EvDeploy (getDeploySigner E) ''InterestRate'' [] args a # evs"
    and v: "\<forall>e \<in> set evs. is_EvVerify e \<or> e = EvCleanup"
    using deployRateStrategy_Ret [OF dep] by blast
  then have "\<exists>evs. trace w' = trace w @ evs \<and> (\<forall>e \<in> set evs. \<not> is_EvTx e) \<and>
       deploy_count evs + length sa = length sa'"
    using w' sa deploy_count_verify [OF v]
    by (intro exI [of _ "EvDeploy (getDeploySigner E) ''InterestRate'' [] args a # evs"])
      (auto simp: is_EvVerify_def)
  ultimately show ?thesis using sa by auto
qed

text \<open>What one input must be, given the strategies at the end.\<close>

definition reserve_input_ok ::
  "'c net \<Rightarrow> string obj \<Rightarrow> string option \<Rightarrow> string \<Rightarrow> string \<Rightarrow> string \<Rightarrow> string
     \<Rightarrow> string \<times> reserve_params \<times> string \<Rightarrow> js_value \<Rightarrow> bool" where
  "reserve_input_ok E sa collector bp bs dp ds = (\<lambda>(s, p, a) input.
     \<exists>b d r. obj_get sa (rs_name (r_strategy p)) = Some r \<and>
       input = init_reserve_input b d (reserveDecimals p) r a collector s bp bs dp ds)"

lemma reserve_input_ok_mono:
  "reserve_input_ok E sa c bp bs dp ds x i \<Longrightarrow>
   (\<And>k a. obj_get sa k = Some a \<Longrightarrow> obj_get sa' k = Some a) \<Longrightarrow> reserve_input_ok E sa' c bp bs dp ds x i"
  unfolding reserve_input_ok_def by (cases x) fastforce

definition strategy_names :: "(string \<times> reserve_params \<times> string) list \<Rightarrow> string set" where
  "strategy_names xs = (\<lambda>(s, p, a). rs_name (r_strategy p)) ` set xs"

lemma init_reserve_fold:
  assumes run: "for_fold cfg (init_reserve_step E h addrs bp bs dp ds col ''Bend'' verify) st w = (Ret st', w')"
    and ok: "strategies_ok (strategyAddresses st)" and ne: "deploys_nonempty E"
  shows "strategies_ok (strategyAddresses st') \<and>
    set (obj_keys (strategyAddresses st')) =
      set (obj_keys (strategyAddresses st)) \<union> strategy_names (listed cfg addrs) \<and>
    (\<forall>k a. obj_get (strategyAddresses st) k = Some a \<longrightarrow> obj_get (strategyAddresses st') k = Some a) \<and>
    (\<exists>inputs. initInputParams st' = initInputParams st @ inputs \<and>
       list_all2 (reserve_input_ok E (strategyAddresses st') col bp bs dp ds) (listed cfg addrs) inputs) \<and>
    (\<exists>evs. trace w' = trace w @ evs \<and> (\<forall>e \<in> set evs. \<not> is_EvTx e) \<and>
       deploy_count evs + length (strategyAddresses st) = length (strategyAddresses st'))"
  using run ok
proof (induction cfg arbitrary: st w)
  case Nil
  then show ?case by (simp add: ret_Ret_iff strategy_names_def)
next
  case (Cons x cfg)
  let ?step = "init_reserve_step E h addrs bp bs dp ds col ''Bend'' verify"
  obtain s p where x: "x = (s, p)" by (cases x)
  from Cons.prems(1) obtain st1 w1 where step: "?step x st w = (Ret st1, w1)"
    and rest: "for_fold cfg ?step st1 w1 = (Ret st', w')"
    unfolding for_fold_Ret_Cons by blast
  show ?case
  proof (cases "truthy (obj_get addrs s)")
    case False
    with step x have "st1 = st" "w1 = w" by (auto simp: init_reserve_step_def ret_Ret_iff)
    with Cons.IH [OF _ Cons.prems(2)] rest x False show ?thesis by (simp add: listed_Cons)
  next
    case True
    let ?n = "rs_name (r_strategy p)"
    from step x True obtain sa b d w2 where
      strat: "strategy_for E h (r_strategy p) verify (strategyAddresses st) w = (Ret sa, w2)"
      and w1: "w1 = w2" and st1: "strategyAddresses st1 = sa" "initInputParams st1 = initInputParams st @
          [init_reserve_input b d (reserveDecimals p) (the (obj_get sa ?n)) (the (obj_get addrs s)) col s bp bs dp ds]"
      by (auto simp: init_reserve_step_def Let_def await_Ret_iff ret_Ret_iff
          getContractAddressWithJsonFallback_Ret_iff)
    note S = strategy_for_Ret [OF strat Cons.prems(2) ne]
    have ok1: "strategies_ok (strategyAddresses st1)" using S st1 by simp
    note IH = Cons.IH [OF rest ok1]
    from S have "?n \<in> set (obj_keys sa)" by simp
    then obtain r where r: "obj_get sa ?n = Some r" by (metis map_of_eq_None_iff not_None_eq list.set_map)
    from IH r st1 have "obj_get (strategyAddresses st') ?n = Some r" by blast
    with r have input: "reserve_input_ok E (strategyAddresses st') col bp bs dp ds (s, p, the (obj_get addrs s))
        (init_reserve_input b d (reserveDecimals p) (the (obj_get sa ?n)) (the (obj_get addrs s)) col s bp bs dp ds)"
      by (auto simp: reserve_input_ok_def)
    obtain evs1 where e1: "trace w2 = trace w @ evs1" "\<forall>e \<in> set evs1. \<not> is_EvTx e"
      "deploy_count evs1 + length (strategyAddresses st) = length sa" using S by blast
    obtain evs2 where e2: "trace w' = trace w1 @ evs2" "\<forall>e \<in> set evs2. \<not> is_EvTx e"
      "deploy_count evs2 + length (strategyAddresses st1) = length (strategyAddresses st')" using IH by blast
    have "\<exists>evs. trace w' = trace w @ evs \<and> (\<forall>e \<in> set evs. \<not> is_EvTx e) \<and>
       deploy_count evs + length (strategyAddresses st) = length (strategyAddresses st')"
      using e1 e2 w1 st1 by (intro exI [of _ "evs1 @ evs2"]) auto
    moreover from IH st1 input x True have "\<exists>inputs. initInputParams st' = initInputParams st @ inputs \<and>
       list_all2 (reserve_input_ok E (strategyAddresses st') col bp bs dp ds) (listed (x # cfg) addrs) inputs"
      by (auto simp: listed_Cons)
    moreover from IH S st1 have "\<forall>k a. obj_get (strategyAddresses st) k = Some a \<longrightarrow>
        obj_get (strategyAddresses st') k = Some a" by simp
    moreover from IH S st1 x True have "set (obj_keys (strategyAddresses st')) =
      set (obj_keys (strategyAddresses st)) \<union> strategy_names (listed (x # cfg) addrs)"
      by (auto simp: listed_Cons strategy_names_def)
    ultimately show ?thesis using IH by blast
  qed
qed

lemma initReservesByHelper_trace:
  assumes run: "initReservesByHelper E cfg addrs bp bs dp ds admin col ''Bend'' verify w = (Ret u, w')"
    and ne: "deploys_nonempty E"
  defines "h \<equiv> configurator_handle E w'"
  shows "\<exists>evs inputs sa. trace w' = trace w @ evs @
      map (\<lambda>i. EvTx (h_signer h) (h_addr h) ''batchInitReserve'' [Arr [i]]) inputs \<and>
    (\<forall>e \<in> set evs. \<not> is_EvTx e) \<and>
    deploy_count evs = card (strategy_names (listed cfg addrs)) \<and>
    list_all2 (reserve_input_ok E sa col bp bs dp ds) (listed cfg addrs) inputs"
proof -
  from run obtain prov st w1 where fold: "for_fold cfg (init_reserve_step E prov addrs bp bs dp ds col ''Bend'' verify)
         \<lparr>reserveSymbols = [], initInputParams = [], strategyAddresses = []\<rparr> w = (Ret st, w1)"
    and sends: "send_chunks E (configurator_handle E w1) ''batchInitReserve'' 1 (initInputParams st) w1 = (Ret u, w')"
    unfolding initReservesByHelper_def await_Ret_iff Let_def
    by (auto dest!: getLendPoolConfiguratorProxy_Ret getLendPoolAddressesProvider_Ret)
  note S = init_reserve_fold [OF fold _ ne]
  note tr = send_chunks_Ret [OF sends]
  have h: "configurator_handle E w1 = h" using tr by (simp add: h_def configurator_handle_def)
  have ok: "strategies_ok []" by (simp add: strategies_ok_def)
  from S ok obtain evs where evs: "trace w1 = trace w @ evs" "\<forall>e \<in> set evs. \<not> is_EvTx e"
    "deploy_count evs = length (strategyAddresses st)" by auto
  from S ok have "strategies_ok (strategyAddresses st)"
    "set (obj_keys (strategyAddresses st)) = strategy_names (listed cfg addrs)" by auto
  then have "length (strategyAddresses st) = card (strategy_names (listed cfg addrs))"
    unfolding strategies_ok_def by (metis distinct_card length_map)
  moreover from S ok have "list_all2 (reserve_input_ok E (strategyAddresses st) col bp bs dp ds)
      (listed cfg addrs) (initInputParams st)" by auto
  moreover have "pieces 1 (initInputParams st) = map (\<lambda>i. [i]) (initInputParams st)"
    using chunk_one [of "initInputParams st"] by (simp add: chunk_pieces)
  ultimately show ?thesis using evs tr h by (auto intro!: exI simp: comp_def)
qed

context effect_rel begin

lemma keeps_send_chunks [keeps_intros]: "keeps R (send_chunks E h m n inputs)"
  unfolding send_chunks_def by (intro keeps_intros)

lemma keeps_getters [keeps_intros]:
  "keeps R (getLendPoolAddressesProvider E' a)" "keeps R (getLendPoolConfiguratorProxy E' a)"
  unfolding getLendPoolAddressesProvider_def getLendPoolConfiguratorProxy_def by (intro keeps_intros)+

lemma keeps_init_helpers [keeps_intros]:
  assumes "\<And>k. K k"
  shows "keeps R (initReservesByHelper E cfg addrs bp bs dp ds admin col pool verify)"
    "keeps R (configureReservesByHelper E cfg addrs admin)"
    "keeps R (initNftsByHelper E ncfg addrs admin pool verify)"
    "keeps R (configureNftsByHelper E ncfg addrs admin)"
  unfolding initReservesByHelper_def configureReservesByHelper_def initNftsByHelper_def
    configureNftsByHelper_def init_reserve_step_def config_reserve_step_def config_nft_step_def
    strategy_for_def Let_def
  by (intro keeps_intros assms)+

end

end
