(* ===== verification/FullTasks.thy ===== *)
theory FullTasks
  imports InitHelpers
begin

text \<open>
  \<^verbatim>\<open>tasks/full\<close> and \<^verbatim>\<open>tasks/deployments\<close>: the tasks that bring a market up on a
  network.  A task is a script; its parameters are those the task declares, a flag that is
  not given being \<^verbatim>\<open>false\<close>.  Running \<^verbatim>\<open>compile\<close> is the build and has no effect here.
  The facts proved concern what every task leaves behind: the database entry of an
  upgradeable contract is its proxy, an existing proxy keeps its address, and the pool is
  deployed only where the market configuration is complete.
\<close>

section \<open>Proxies: upgrade the one there is, or deploy one\<close>

definition view_owner :: "'c net \<Rightarrow> handle \<Rightarrow> ('c, string) prog" where
  "view_owner E proxyAdmin = view_addr E proxyAdmin ''owner'' []"

text \<open>The proxy admin of a task, refused when its saved address is not usable.\<close>

definition usable_proxy_admin :: "'c net \<Rightarrow> string \<Rightarrow> string \<Rightarrow> ('c, handle) prog" where
  "usable_proxy_admin E id1 msg =
     await (getBendProxyAdminById E id1) (\<lambda>proxyAdmin.
     if \<not> notFalsyOrZeroAddress E (Some (h_addr proxyAdmin)) then throw (JsError msg)
     else ret proxyAdmin)"

text \<open>
  The branch that every proxy task ends with.  Both arms answer the proxy; in the first the
  saved entry is pointed back at the existing proxy, which the deployment of the new
  implementation had replaced.
\<close>

definition upgrade_proxy ::
  "'c net \<Rightarrow> string \<Rightarrow> string \<Rightarrow> handle \<Rightarrow> string \<Rightarrow> handle \<Rightarrow> ('c, handle) prog" where
  "upgrade_proxy E id1 proxyAddress proxyAdmin ownerSigner impl =
     await (insertContractAddressInDb id1 proxyAddress) (\<lambda>_.
     await (getBendUpgradeableProxy E proxyAddress) (\<lambda>proxy.
     await (send E (connect_signer (Some ownerSigner) proxyAdmin) ''upgrade''
         [Str (h_addr proxy), Str (h_addr impl)]) (\<lambda>_.
     ret proxy)))"

definition upgrade_or_deploy ::
  "'c net \<Rightarrow> string \<Rightarrow> string option \<Rightarrow> handle \<Rightarrow> string \<Rightarrow> handle \<Rightarrow> string \<Rightarrow> bool \<Rightarrow> ('c, handle) prog" where
  "upgrade_or_deploy E id1 existing proxyAdmin ownerSigner impl initEncodedData verify =
     (if existing \<noteq> None \<and> notFalsyOrZeroAddress E existing
      then upgrade_proxy E id1 (the existing) proxyAdmin ownerSigner impl
      else deployBendUpgradeableProxy E id1 (h_addr proxyAdmin) (h_addr impl) initEncodedData verify)"

lemma upgrade_proxy_Ret:
  assumes "upgrade_proxy E k a admin own impl w = (Ret p, w')"
  shows "h_addr p = a \<and> db w' = (db w)(k \<mapsto> \<lparr>e_address = a, e_deployer = None\<rparr>) \<and>
    trace w' = trace w @ [EvTx (Some own) (h_addr admin) ''upgrade'' [Str a, Str (h_addr impl)]]"
  using assms
  by (auto simp: upgrade_proxy_def await_Ret_iff insertContractAddressInDb_Ret_iff
      getBendUpgradeableProxy_def ret_Ret_iff send_Ret_iff)

lemma deployBendUpgradeableProxy_Ret:
  assumes "deployBendUpgradeableProxy E k admin logic data1 verify w = (Ret p, w')"
  shows "db w' = (db w)(k \<mapsto> saved_entry p) \<and> (\<exists>evs. trace w' = trace w @
     EvDeploy (getDeploySigner E) ''BendUpgradeableProxy'' [] [Str logic, Str admin, Str data1] (h_addr p) # evs \<and>
     (\<forall>e \<in> set evs. is_EvVerify e \<or> e = EvCleanup))"
proof -
  from assms obtain h w1 where new: "deploy_new E ''BendUpgradeableProxy'' []
      [Str logic, Str admin, Str data1] w = (Ret h, w1)"
    and save: "withSaveAndVerify E h k [Str logic, Str admin, Str (n_hexlify E data1)] verify w1 = (Ret p, w')"
    unfolding deployBendUpgradeableProxy_def await_Ret_iff by blast
  from deploy_new_Ret [OF new] withSaveAndVerify_Ret [OF save] withSaveAndVerify_trace [OF save]
  show ?thesis by (auto simp: saved_entry_def)
qed

lemma upgrade_or_deploy_db:
  assumes "upgrade_or_deploy E k existing admin own impl data1 verify w = (Ret p, w')"
  shows "\<exists>d. db w' = (db w)(k \<mapsto> \<lparr>e_address = h_addr p, e_deployer = d\<rparr>)"
proof (cases "existing \<noteq> None \<and> notFalsyOrZeroAddress E existing")
  case True
  with assms upgrade_proxy_Ret show ?thesis unfolding upgrade_or_deploy_def by force
next
  case False
  with assms deployBendUpgradeableProxy_Ret [of E k "h_addr admin" "h_addr impl" data1 verify w p w']
  show ?thesis unfolding upgrade_or_deploy_def by (auto simp: saved_entry_def)
qed

lemma upgrade_or_deploy_existing:
  assumes "upgrade_or_deploy E k (Some a) admin own impl data1 verify w = (Ret p, w')"
    and "notFalsyOrZeroAddress E (Some a)"
  shows "h_addr p = a"
  using assms upgrade_proxy_Ret [of E k a admin own impl w p w'] by (simp add: upgrade_or_deploy_def)

section \<open>The registry of markets\<close>

definition full_deploy_address_provider_registry :: "'c net \<Rightarrow> bool \<Rightarrow> string \<Rightarrow> ('c, unit) prog" where
  "full_deploy_address_provider_registry E verify pool =
     await set_DRE (\<lambda>_.
     await (lift_result (loadPoolConfig pool)) (\<lambda>poolConfig.
     let providerRegistryAddress = getParamPerNetwork E (ProviderRegistry poolConfig) (n_network E) in
     if providerRegistryAddress \<noteq> None \<and> notFalsyOrZeroAddress E providerRegistryAddress
     then insertContractAddressInDb ''LendPoolAddressesProviderRegistry'' (the providerRegistryAddress)
     else await (deployLendPoolAddressesProviderRegistry E verify) (\<lambda>contract.
          await (view E contract ''owner'' []) (\<lambda>_. ret ()))))"

text \<open>A request to the node itself, and a plain transfer, both outside any contract.\<close>

definition node_call :: "'c net \<Rightarrow> string option \<Rightarrow> string \<Rightarrow> string \<Rightarrow> js_value list \<Rightarrow> ('c, unit) prog" where
  "node_call E from to method args = (\<lambda>w.
     case n_send E from to ''provider'' method args (chain w) of
       (Some msg, c) \<Rightarrow> (Throw (RpcError msg), w\<lparr>chain := c\<rparr>)
     | (None, c) \<Rightarrow> (Ret (), w\<lparr>chain := c, trace := trace w @ [EvTx from to method args]\<rparr>))"

lemma node_call_Ret_iff [run_simps]:
  "node_call E from to m args w = (Ret x, w') \<longleftrightarrow>
     (\<exists>c. n_send E from to ''provider'' m args (chain w) = (None, c) \<and>
        w' = w\<lparr>chain := c, trace := trace w @ [EvTx from to m args]\<rparr>)"
  by (auto simp: node_call_def split: prod.splits option.splits)

context effect_rel begin

lemma keeps_node_call [keeps_intros]: "keeps R (node_call E from to m args)"
  by (auto simp: keeps_def node_call_def rel_chain rel_chain_only split: prod.splits option.splits)

end

text \<open>A read that the node answers itself: a balance.\<close>

definition node_view :: "'c net \<Rightarrow> string \<Rightarrow> js_value list \<Rightarrow> ('c, js_value) prog" where
  "node_view E method args = (\<lambda>w.
     case n_view E '''' ''provider'' method args (chain w) of
       Inl msg \<Rightarrow> (Throw (RpcError msg), w) | Inr v \<Rightarrow> (Ret v, w))"

definition get_balance :: "'c net \<Rightarrow> string \<Rightarrow> ('c, int) prog" where
  "get_balance E address = await (node_view E ''getBalance'' [Str address]) (\<lambda>v.
     case v of Big n \<Rightarrow> ret n | _ \<Rightarrow> throw (RpcError ''invalid balance''))"

lemma node_view_Ret_iff [run_simps]:
  "node_view E m args w = (Ret v, w') \<longleftrightarrow> w' = w \<and> n_view E '''' ''provider'' m args (chain w) = Inr v"
  by (auto simp: node_view_def split: sum.splits)

context run_rel begin

lemma keeps_view_owner [keeps_intros]: "keeps R (view_owner E h)"
  unfolding view_owner_def by (rule keeps_view_addr)

lemma keeps_node_view [keeps_intros]: "keeps R (node_view E m args)"
  by (auto simp: keeps_def node_view_def rel_refl split: sum.splits)

lemma keeps_get_balance [keeps_intros]: "keeps R (get_balance E a)"
  unfolding get_balance_def
  by (intro keeps_await keeps_node_view) (auto intro: keeps_ret keeps_throw split: js_value.splits)

end

text \<open>An address that is missing, malformed or zero.\<close>

definition unusable :: "'c net \<Rightarrow> string option \<Rightarrow> bool" where
  "unusable E a \<longleftrightarrow> \<not> truthy a \<or> \<not> n_is_address E (the a) \<or> n_is_zero_address E (the a)"

lemma unusable_iff: "unusable E a \<longleftrightarrow> \<not> notFalsyOrZeroAddress E a"
  by (auto simp: unusable_def notFalsyOrZeroAddress_def)

definition add_market_to_registry ::
  "'c net \<Rightarrow> bool \<Rightarrow> string option \<Rightarrow> string \<Rightarrow> bool \<Rightarrow> ('c, unit) prog" where
  "add_market_to_registry E verify addressesProvider pool deployRegistry =
     await set_DRE (\<lambda>_.
     await (lift_result (loadPoolConfig pool)) (\<lambda>poolConfig.
     let providerRegistryAddress = getParamPerNetwork E (ProviderRegistry poolConfig) (n_network E);
         providerRegistryOwner = getParamPerNetwork E (ProviderRegistryOwner poolConfig) (n_network E) in
     case getDeploySigner E of
       None \<Rightarrow> throw (TypeError ''Cannot read properties of undefined (reading 'getAddress')'')
     | Some deploySigner \<Rightarrow>
       let currentSignerAddress = js_lower deploySigner in
       await (if deployRegistry \<or> unusable E providerRegistryAddress then
           await (full_deploy_address_provider_registry E verify pool) (\<lambda>_.
           await (getLendPoolAddressesProviderRegistry E None) (\<lambda>registry.
           ret (Some (h_addr registry), Some deploySigner, True)))
         else ret (providerRegistryAddress, providerRegistryOwner, False))
         (\<lambda>(registryAddress, registryOwner, deployed).
       if unusable E registryOwner
       then throw (JsError ''config.ProviderRegistryOwner is missing or is not an address.'')
       else
       await (if truthy (n_FORK E) then
           await (node_call E None '''' ''hardhat_impersonateAccount'' [Str (the registryOwner)]) (\<lambda>_.
           node_call E (Some deploySigner) (the registryOwner) ''sendTransaction''
             [Str (dec (10 * oneEther))])
         else if \<not> deployed \<and> js_lower (the registryOwner) \<noteq> js_lower currentSignerAddress
         then exit_process 2
         else ret ()) (\<lambda>_.
       await (getLendPoolAddressesProviderRegistry E registryAddress) (\<lambda>registry.
       let addressesProviderRegistry = connect_signer registryOwner registry in
       await (getLendPoolAddressesProvider E addressesProvider) (\<lambda>addressesProviderInstance.
       send E addressesProviderRegistry ''registerAddressesProvider''
         [Str (h_addr addressesProviderInstance), Num (ProviderId poolConfig)]))))))"

definition full_deploy_address_provider :: "'c net \<Rightarrow> bool \<Rightarrow> string \<Rightarrow> bool \<Rightarrow> ('c, unit) prog" where
  "full_deploy_address_provider E verify pool skipRegistry =
     await set_DRE (\<lambda>_.
     await (lift_result (loadPoolConfig pool)) (\<lambda>poolConfig.
     await (deployLendPoolAddressesProvider E (MarketId poolConfig) verify) (\<lambda>addressesProvider.
     await (when_do (\<not> skipRegistry)
         (let providerRegistryAddress = getParamPerNetwork E (ProviderRegistry poolConfig) (n_network E) in
          add_market_to_registry E False (Some (h_addr addressesProvider)) pool
            (\<not> notFalsyOrZeroAddress E providerRegistryAddress))) (\<lambda>_.
     await (send E addressesProvider ''setPoolAdmin'' [val_of (getGenesisPoolAdmin E poolConfig)]) (\<lambda>_.
     await (send E addressesProvider ''setEmergencyAdmin'' [val_of (getEmergencyAdmin E poolConfig)]) (\<lambda>_.
     await (view E addressesProvider ''getPoolAdmin'' []) (\<lambda>_.
     await (view E addressesProvider ''getEmergencyAdmin'' []) (\<lambda>_.
     ret ()))))))))"

section \<open>Proxy administrators\<close>

definition deploy_one_proxy_admin :: "'c net \<Rightarrow> string \<Rightarrow> string per_network \<Rightarrow> bool \<Rightarrow> ('c, unit) prog" where
  "deploy_one_proxy_admin E id1 param verify =
     (let proxyAdminAddress = getParamPerNetwork E param (n_network E) in
      await (if proxyAdminAddress = None \<or> \<not> notFalsyOrZeroAddress E proxyAdminAddress
         then deployBendProxyAdmin E id1 verify
         else await (insertContractAddressInDb id1 (the proxyAdminAddress)) (\<lambda>_.
              getBendProxyAdminByAddress E (the proxyAdminAddress))) (\<lambda>proxyAdmin.
      await (view E proxyAdmin ''owner'' []) (\<lambda>_. ret ())))"

definition full_deploy_proxy_admin ::
  "'c net \<Rightarrow> bool \<Rightarrow> string \<Rightarrow> bool \<Rightarrow> string option \<Rightarrow> ('c, unit) prog" where
  "full_deploy_proxy_admin E verify pool all1 proxyadminid =
     await set_DRE (\<lambda>_.
     await (lift_result (loadPoolConfig pool)) (\<lambda>poolConfig.
     await (when_do (all1 \<or> proxyadminid = Some ''BendProxyAdminPool'')
         (deploy_one_proxy_admin E ''BendProxyAdminPool'' (ProxyAdminPool poolConfig) verify)) (\<lambda>_.
     await (when_do (all1 \<or> proxyadminid = Some ''BendProxyAdminFund'')
         (deploy_one_proxy_admin E ''BendProxyAdminFund'' (ProxyAdminFund poolConfig) verify)) (\<lambda>_.
     when_do (all1 \<or> proxyadminid = Some ''BendProxyAdminWTL'')
         (deploy_one_proxy_admin E ''BendProxyAdminWTL'' (ProxyAdminWTL poolConfig) verify)))))"

section \<open>The lending pool\<close>

text \<open>
  One of the three contracts the addresses provider makes a proxy for: deploy the
  implementation, hand it to the provider, read the proxy back and save it.
\<close>

definition install_impl ::
  "'c net \<Rightarrow> handle \<Rightarrow> ('c, handle) prog \<Rightarrow> string \<Rightarrow> string
     \<Rightarrow> (string option \<Rightarrow> ('c, handle) prog) \<Rightarrow> string \<Rightarrow> ('c, handle) prog" where
  "install_impl E addressesProvider deployImpl setter getter connect1 id1 =
     await deployImpl (\<lambda>impl.
     await (send E addressesProvider setter [Str (h_addr impl), Arr []]) (\<lambda>_.
     await (view_addr E addressesProvider getter []) (\<lambda>address.
     await (connect1 (Some address)) (\<lambda>proxy.
     await (insertContractAddressInDb id1 (h_addr proxy)) (\<lambda>_.
     ret proxy)))))"

definition full_deploy_lend_pool :: "'c net \<Rightarrow> bool \<Rightarrow> string \<Rightarrow> ('c, unit) prog" where
  "full_deploy_lend_pool E verify pool =
     await set_DRE (\<lambda>_.
     await (lift_result (loadPoolConfig pool)) (\<lambda>poolConfig.
     await (getLendPoolAddressesProvider E None) (\<lambda>addressesProvider.
     let network = n_network E;
         bnftRegistryAddress = getParamPerNetwork E (BNFTRegistry poolConfig) network in
     if bnftRegistryAddress = None \<or> \<not> notFalsyOrZeroAddress E bnftRegistryAddress
     then throw (JsError ''Invalid BNFT Registry address in pool config'')
     else
     await (getBNFTRegistryProxy E bnftRegistryAddress) (\<lambda>bnftRegistryProxy.
     await (send E addressesProvider ''setBNFTRegistry'' [Str (h_addr bnftRegistryProxy)]) (\<lambda>_.
     let incentivesControllerAddress = getParamPerNetwork E (IncentivesController poolConfig) network in
     if incentivesControllerAddress = None \<or> \<not> notFalsyOrZeroAddress E incentivesControllerAddress
     then throw (JsError ''Invalid IncentivesController address in pool config'')
     else
     await (send E addressesProvider ''setIncentivesController''
         [val_of incentivesControllerAddress]) (\<lambda>_.
     await (deployBendLibraries E verify) (\<lambda>_.
     await (install_impl E addressesProvider (deployLendPool E verify) ''setLendPoolImpl''
         ''getLendPool'' (getLendPool E) ''LendPool'') (\<lambda>lendPoolProxy.
     await (install_impl E addressesProvider (deployLendPoolLoan E verify) ''setLendPoolLoanImpl''
         ''getLendPoolLoan'' (getLendPoolLoanProxy E) ''LendPoolLoan'') (\<lambda>lendPoolLoanProxy.
     await (install_impl E addressesProvider (deployLendPoolConfigurator E verify)
         ''setLendPoolConfiguratorImpl'' ''getLendPoolConfigurator'' (getLendPoolConfiguratorProxy E)
         ''LendPoolConfigurator'') (\<lambda>lendPoolConfiguratorProxy.
     let admin = getEmergencyAdmin E poolConfig in
     await (send E (connect_signer admin lendPoolConfiguratorProxy) ''setPoolPause'' [Bool True]) (\<lambda>_.
     deployBTokenImplementations E pool (ReservesConfig poolConfig) verify)))))))))))"

section \<open>Filling the pool\<close>

text \<open>The tasks that report a failure by leaving the process with status 1.\<close>

definition exit_on_error :: "('c, unit) prog \<Rightarrow> ('c, unit) prog" where
  "exit_on_error m = try_catch m (\<lambda>err. exit_process 1)"

definition full_initialize_lend_pool :: "'c net \<Rightarrow> bool \<Rightarrow> string \<Rightarrow> ('c, unit) prog" where
  "full_initialize_lend_pool E verify pool = exit_on_error (
     await set_DRE (\<lambda>_.
     await (lift_result (loadPoolConfig pool)) (\<lambda>poolConfig.
     await (getLendPoolAddressesProvider E None) (\<lambda>addressesProvider.
     await (view_addr E addressesProvider ''getPoolAdmin'' []) (\<lambda>admin.
     let network = n_network E;
         collectorAddress = getReserveFactorCollectorAddress E poolConfig in
     case getParamPerNetwork E (ReserveAssets poolConfig) network of
       None \<Rightarrow> throw (JsError ''Reserve assets is undefined. Check ReserveAssets configuration at config directory'')
     | Some reserveAssets \<Rightarrow>
     await (initReservesByHelper E (ReservesConfig poolConfig) reserveAssets
         (BTokenNamePrefix poolConfig) (BTokenSymbolPrefix poolConfig)
         (DebtTokenNamePrefix poolConfig) (DebtTokenSymbolPrefix poolConfig)
         (Some admin) collectorAddress pool verify) (\<lambda>_.
     await (configureReservesByHelper E (ReservesConfig poolConfig) reserveAssets (Some admin)) (\<lambda>_.
     case getParamPerNetwork E (NftsAssets poolConfig) network of
       None \<Rightarrow> throw (JsError ''NFT assets is undefined. Check NftsAssets configuration at config directory'')
     | Some nftsAssets \<Rightarrow>
     await (initNftsByHelper E (NftsConfig poolConfig) nftsAssets (Some admin) pool verify) (\<lambda>_.
     configureNftsByHelper E (NftsConfig poolConfig) nftsAssets (Some admin)))))))))"

definition full_initialize_gateway :: "'c net \<Rightarrow> bool \<Rightarrow> string \<Rightarrow> ('c, unit) prog" where
  "full_initialize_gateway E verify pool = exit_on_error (
     await set_DRE (\<lambda>_.
     await (lift_result (loadPoolConfig pool)) (\<lambda>poolConfig.
     let network = n_network E in
     case getParamPerNetwork E (ReserveAssets poolConfig) network of
       None \<Rightarrow> throw (JsError ''Reserve assets is undefined. Check ReserveAssets configuration at config directory'')
     | Some reserveAssets \<Rightarrow>
     case getParamPerNetwork E (NftsAssets poolConfig) network of
       None \<Rightarrow> throw (JsError ''NFT assets is undefined. Check NftsAssets configuration at config directory'')
     | Some nftsAssets \<Rightarrow>
     await (getWETHGateway E None) (\<lambda>wethGateway.
     let nftAddresses = map (\<lambda>(assetSymbol, assetAddress). assetAddress) nftsAssets in
     await (send E wethGateway ''authorizeLendPoolNFT'' [Arr (map Str nftAddresses)]) (\<lambda>_.
     await (getPunkGateway E None) (\<lambda>punkGateway.
     let reserveAddresses = map (\<lambda>(assetSymbol, assetAddress). assetAddress) reserveAssets in
     send E punkGateway ''authorizeLendPoolERC20'' [Arr (map Str reserveAddresses)]))))))"

section \<open>Oracles\<close>

definition nft_oracle_init_args :: "string option \<Rightarrow> js_value list" where
  "nft_oracle_init_args feedAdmin =
     [val_of feedAdmin, Big (2 * 10 ^ 17), Big (1 * 10 ^ 17), Num 1800, Num 600, Num 21600, Num 18]"

definition full_deploy_oracle_nft ::
  "'c net \<Rightarrow> bool \<Rightarrow> string \<Rightarrow> bool \<Rightarrow> bool \<Rightarrow> string option \<Rightarrow> ('c, unit) prog" where
  "full_deploy_oracle_nft E verify pool skipOracle skipProvider feedAdmin0 =
     await set_DRE (\<lambda>_.
     await (lift_result (loadPoolConfig pool)) (\<lambda>poolConfig.
     let network = n_network E;
         nftOracleAddress = getParamPerNetwork E (NFTOracle poolConfig) network in
     if skipOracle then
       if nftOracleAddress = None \<or> \<not> notFalsyOrZeroAddress E nftOracleAddress
       then throw (JsError ''Invalid NFT Oracle address in pool config'')
       else await (getLendPoolAddressesProvider E None) (\<lambda>addressesProvider.
            send E addressesProvider ''setNFTOracle'' [val_of nftOracleAddress])
     else
     await (usable_proxy_admin E ''BendProxyAdminPool'' ''Invalid pool proxy admin in config'') (\<lambda>proxyAdmin.
     await (view_owner E proxyAdmin) (\<lambda>proxyAdminOwnerAddress.
     let feedAdmin = (if feedAdmin0 = None \<or> \<not> notFalsyOrZeroAddress E feedAdmin0
                      then getGenesisPoolAdmin E poolConfig else feedAdmin0) in
     case getParamPerNetwork E (NftsAssets poolConfig) network of
       None \<Rightarrow> throw (TypeError ''Cannot convert undefined or null to object'')
     | Some nftsAssets \<Rightarrow>
     let tokens = map (\<lambda>(tokenSymbol, tokenAddress). tokenAddress) nftsAssets in
     await (deployNFTOracle E verify) (\<lambda>nftOracleImpl.
     await (encode_call E nftOracleImpl ''initialize'' (nft_oracle_init_args feedAdmin)) (\<lambda>initEncodedData.
     await (upgrade_or_deploy E ''NFTOracle'' nftOracleAddress proxyAdmin proxyAdminOwnerAddress
         nftOracleImpl initEncodedData verify) (\<lambda>nftOracleProxy.
     await (getNFTOracle E (Some (h_addr nftOracleProxy))) (\<lambda>nftOracle.
     await (when_do (\<not> (nftOracleAddress \<noteq> None \<and> notFalsyOrZeroAddress E nftOracleAddress))
         (await (view_owner E nftOracle) (\<lambda>oracleOwnerAddress.
          send E (connect_signer (Some oracleOwnerAddress) nftOracle) ''setAssets''
            [Arr (map Str tokens)]))) (\<lambda>_.
     when_do (\<not> skipProvider)
       (await (getLendPoolAddressesProvider E None) (\<lambda>addressesProvider.
        send E addressesProvider ''setNFTOracle'' [Str (h_addr nftOracle)])))))))))))"

definition full_deploy_oracle_reserve :: "'c net \<Rightarrow> bool \<Rightarrow> bool \<Rightarrow> string \<Rightarrow> ('c, unit) prog" where
  "full_deploy_oracle_reserve E verify skipOracle pool =
     await set_DRE (\<lambda>_.
     await (lift_result (loadPoolConfig pool)) (\<lambda>poolConfig.
     let network = n_network E; usd = UsdAddress (ProtocolGlobalParams poolConfig) in
     await (getLendPoolAddressesProvider E None) (\<lambda>addressesProvider.
     let reserveOracleAddress = getParamPerNetwork E (ReserveOracle poolConfig) network in
     if skipOracle then
       if reserveOracleAddress = None \<or> \<not> notFalsyOrZeroAddress E reserveOracleAddress
       then throw (JsError ''Invalid Reserve Oracle address in pool config'')
       else send E addressesProvider ''setReserveOracle'' [val_of reserveOracleAddress]
     else
     await (getBendProxyAdminById E ''BendProxyAdminPool'') (\<lambda>proxyAdmin.
     await (view_owner E proxyAdmin) (\<lambda>proxyOwnerAddress.
     let reserveAssets = getParamPerNetwork E (ReserveAssets poolConfig) network;
         reserveAssetsWithUSD =
           obj_set ''USD'' usd (case reserveAssets of None \<Rightarrow> [] | Some o1 \<Rightarrow> o1) in
     await (lift_result (case getParamPerNetwork E (ReserveAggregators poolConfig) network of
         None \<Rightarrow> Inl (TypeError ''Cannot convert undefined or null to object'')
       | Some reserveAggregators \<Rightarrow>
           getPairsTokenAggregator reserveAssetsWithUSD reserveAggregators
             (OracleQuoteCurrency poolConfig))) (\<lambda>(tokens, aggregators).
     await (getWrappedNativeTokenAddress E poolConfig) (\<lambda>weth.
     await (deployReserveOracle E (Arr []) verify) (\<lambda>reserveOracleImpl.
     await (encode_call E reserveOracleImpl ''initialize'' [Str weth]) (\<lambda>initEncodedData.
     await (upgrade_or_deploy E ''ReserveOracle'' reserveOracleAddress proxyAdmin proxyOwnerAddress
         reserveOracleImpl initEncodedData verify) (\<lambda>reserveOracleProxy.
     await (getReserveOracle E (Some (h_addr reserveOracleProxy))) (\<lambda>reserveOracle.
     await (when_do (\<not> (reserveOracleAddress \<noteq> None \<and> notFalsyOrZeroAddress E reserveOracleAddress))
         (await (view_owner E reserveOracle) (\<lambda>owner.
          send E (connect_signer (getEthersSignerByAddress owner) reserveOracle) ''setAggregators''
            [Arr (map Str tokens), Arr (map Str aggregators)]))) (\<lambda>_.
     send E addressesProvider ''setReserveOracle'' [Str (h_addr reserveOracle)]))))))))))))"

definition full_deploy_oracle_token :: "'c net \<Rightarrow> string \<Rightarrow> string option \<Rightarrow> ('c, unit) prog" where
  "full_deploy_oracle_token E pool feedAdmin0 =
     await set_DRE (\<lambda>_.
     await (lift_result (loadPoolConfig pool)) (\<lambda>poolConfig.
     await (usable_proxy_admin E ''BendV2ProxyAdmin'' ''Invalid pool proxy admin in config'') (\<lambda>proxyAdmin.
     await (view_owner E proxyAdmin) (\<lambda>proxyAdminOwnerAddress.
     let feedAdmin = (if feedAdmin0 = None \<or> \<not> notFalsyOrZeroAddress E feedAdmin0
                      then getGenesisPoolAdmin E poolConfig else feedAdmin0) in
     await (tryGetContractAddressInDb ''TokenOracle'') (\<lambda>tokenOracleAddress.
     await (deployTokenOracle E True) (\<lambda>tokenOracleImpl.
     await (encode_call E tokenOracleImpl ''initialize''
         [val_of feedAdmin, Big (2 * 10 ^ 7), Big (1 * 10 ^ 7), Num 1800, Num 600, Num 21600, Num 8])
         (\<lambda>initEncodedData.
     await (upgrade_or_deploy E ''TokenOracle'' (Some tokenOracleAddress) proxyAdmin
         proxyAdminOwnerAddress tokenOracleImpl initEncodedData True) (\<lambda>tokenOracleProxy.
     await (getTokenOracle E (Some (h_addr tokenOracleProxy))) (\<lambda>tokenOracle.
     ret ())))))))))"

definition dev_deploy_aggregator_helper :: "'c net \<Rightarrow> bool \<Rightarrow> string \<Rightarrow> ('c, unit) prog" where
  "dev_deploy_aggregator_helper E verify pool =
     await set_DRE (\<lambda>_.
     await (lift_result (loadPoolConfig pool)) (\<lambda>poolConfig.
     await (getLendPoolAddressesProvider E None) (\<lambda>addressProvider.
     await (tryGetContractAddressInDb ''ChainlinkAggregatorHelper'') (\<lambda>aggHelperAddress.
     await (getBendProxyAdminById E ''BendProxyAdminPool'') (\<lambda>proxyAdmin.
     await (view_owner E proxyAdmin) (\<lambda>proxyOwnerAddress.
     await (deployChainlinkAggregatorHelper E (Arr []) verify) (\<lambda>aggHelperImpl.
     await (encode_call E aggHelperImpl ''initialize'' [Str (h_addr addressProvider)]) (\<lambda>initEncodedData.
     await (upgrade_or_deploy E ''ChainlinkAggregatorHelper'' (Some aggHelperAddress) proxyAdmin
         proxyOwnerAddress aggHelperImpl initEncodedData verify) (\<lambda>aggHelperProxy.
     await (getChainlinkAggregatorHelper E (Some (h_addr aggHelperProxy))) (\<lambda>aggHelper.
     ret ()))))))))))"

section \<open>Gateways, adapters and the collector\<close>

definition check_chain_id :: "'c net \<Rightarrow> ('c, unit) prog" where
  "check_chain_id E = (case n_chainId E of
     None \<Rightarrow> throw (JsError ''INVALID_CHAIN_ID'')
   | Some n \<Rightarrow> if n = 0 then throw (JsError ''INVALID_CHAIN_ID'') else ret ())"

definition full_deploy_weth_gateway :: "'c net \<Rightarrow> bool \<Rightarrow> string \<Rightarrow> ('c, unit) prog" where
  "full_deploy_weth_gateway E verify pool =
     await set_DRE (\<lambda>_.
     await (check_chain_id E) (\<lambda>_.
     await (lift_result (loadPoolConfig pool)) (\<lambda>poolConfig.
     await (getLendPoolAddressesProvider E None) (\<lambda>addressesProvider.
     await (usable_proxy_admin E ''BendProxyAdminPool'' ''Invalid pool proxy admin in config'') (\<lambda>proxyAdmin.
     await (view_owner E proxyAdmin) (\<lambda>proxyAdminOwnerAddress.
     await (getWrappedNativeTokenAddress E poolConfig) (\<lambda>weth.
     await (deployWETHGateway E verify) (\<lambda>wethGatewayImpl.
     await (encode_call E wethGatewayImpl ''initialize''
         [Str (h_addr addressesProvider), Str weth]) (\<lambda>initEncodedData.
     let wethGatewayAddress = None in
     await (upgrade_or_deploy E ''WETHGateway'' wethGatewayAddress proxyAdmin proxyAdminOwnerAddress
         wethGatewayImpl initEncodedData verify) (\<lambda>wethGatewayProxy.
     await (getWETHGateway E (Some (h_addr wethGatewayProxy))) (\<lambda>wethGateWay.
     send E addressesProvider ''setAddress''
       [Str ADDRESS_ID_WETH_GATEWAY, Str (h_addr wethGateWay)])))))))))))"

definition full_wethgateway_authorize_caller_whitelist ::
  "'c net \<Rightarrow> string \<Rightarrow> string \<Rightarrow> string \<Rightarrow> ('c, unit) prog" where
  "full_wethgateway_authorize_caller_whitelist E pool caller flag =
     await set_DRE (\<lambda>_.
     await (lift_result (loadPoolConfig pool)) (\<lambda>poolConfig.
     await (getWETHGateway E None) (\<lambda>wethGateway.
     send E wethGateway ''authorizeCallerWhitelist'' [Arr [Str caller], Str flag])))"

definition full_deploy_punk_gateway :: "'c net \<Rightarrow> bool \<Rightarrow> string \<Rightarrow> ('c, unit) prog" where
  "full_deploy_punk_gateway E verify pool =
     await set_DRE (\<lambda>_.
     await (check_chain_id E) (\<lambda>_.
     await (lift_result (loadPoolConfig pool)) (\<lambda>poolConfig.
     await (getLendPoolAddressesProvider E None) (\<lambda>addressesProvider.
     await (usable_proxy_admin E ''BendProxyAdminPool'' ''Invalid pool proxy admin in config'') (\<lambda>proxyAdmin.
     await (view_owner E proxyAdmin) (\<lambda>proxyAdminOwnerAddress.
     await (getWETHGateway E None) (\<lambda>wethGateWay.
     await (getCryptoPunksMarketAddress E poolConfig) (\<lambda>punk.
     await (getWrappedPunkTokenAddress E poolConfig punk) (\<lambda>wpunk.
     await (deployPunkGateway E verify) (\<lambda>punkGateWayImpl.
     await (encode_call E punkGateWayImpl ''initialize''
         [Str (h_addr addressesProvider), Str (h_addr wethGateWay), Str punk, Str wpunk])
         (\<lambda>initEncodedData.
     let punkGatewayAddress = None in
     await (upgrade_or_deploy E ''PunkGateway'' punkGatewayAddress proxyAdmin proxyAdminOwnerAddress
         punkGateWayImpl initEncodedData verify) (\<lambda>punkGatewayProxy.
     await (getPunkGateway E (Some (h_addr punkGatewayProxy))) (\<lambda>punkGateWay.
     send E addressesProvider ''setAddress''
       [Str ADDRESS_ID_PUNK_GATEWAY, Str (h_addr punkGateWay)])))))))))))))"

definition full_punkgateway_authorize_caller_whitelist ::
  "'c net \<Rightarrow> string \<Rightarrow> string \<Rightarrow> string \<Rightarrow> ('c, unit) prog" where
  "full_punkgateway_authorize_caller_whitelist E pool caller flag =
     await set_DRE (\<lambda>_.
     await (lift_result (loadPoolConfig pool)) (\<lambda>poolConfig.
     await (getPunkGateway E None) (\<lambda>punkGateway.
     send E punkGateway ''authorizeCallerWhitelist'' [Arr [Str caller], Str flag])))"

definition full_deploy_uniswapv3_debtswap_adapter ::
  "'c net \<Rightarrow> bool \<Rightarrow> string \<Rightarrow> string \<Rightarrow> string \<Rightarrow> ('c, unit) prog" where
  "full_deploy_uniswapv3_debtswap_adapter E verify pool aaveAddressProvider swapRouter =
     await set_DRE (\<lambda>_.
     await (check_chain_id E) (\<lambda>_.
     await (lift_result (loadPoolConfig pool)) (\<lambda>poolConfig.
     await (getLendPoolAddressesProvider E None) (\<lambda>addressesProvider.
     await (usable_proxy_admin E ''BendProxyAdminWTL'' ''Invalid common proxy admin in config'') (\<lambda>proxyAdmin.
     await (view_owner E proxyAdmin) (\<lambda>proxyAdminOwnerAddress.
     let swapAdapterId = ''UniswapV3DebtSwapAdapter'' in
     await (tryGetContractAddressInDb swapAdapterId) (\<lambda>swapAdapterAddress.
     await (deployUniswapV3DebtSwapAdapter E verify) (\<lambda>swapAdapterImpl.
     await (encode_call E swapAdapterImpl ''initialize''
         [Str aaveAddressProvider, Str (h_addr addressesProvider), Str swapRouter]) (\<lambda>initEncodedData.
     await (upgrade_or_deploy E swapAdapterId (Some swapAdapterAddress) proxyAdmin
         proxyAdminOwnerAddress swapAdapterImpl initEncodedData verify) (\<lambda>swapAdapterProxy.
     await (getUniswapV3DebtSwapAdapter E (Some (h_addr swapAdapterProxy))) (\<lambda>swapAdapter.
     ret ())))))))))))"

definition full_deploy_wrapper_gateway ::
  "'c net \<Rightarrow> bool \<Rightarrow> string \<Rightarrow> string \<Rightarrow> string \<Rightarrow> string \<Rightarrow> ('c, unit) prog" where
  "full_deploy_wrapper_gateway E verify pool gatewayid underlying wrapper =
     await set_DRE (\<lambda>_.
     await (check_chain_id E) (\<lambda>_.
     await (lift_result (loadPoolConfig pool)) (\<lambda>poolConfig.
     await (getLendPoolAddressesProvider E None) (\<lambda>addressesProvider.
     await (usable_proxy_admin E ''BendProxyAdminWTL'' ''Invalid common proxy admin in config'') (\<lambda>proxyAdmin.
     await (view_owner E proxyAdmin) (\<lambda>proxyAdminOwnerAddress.
     await (getWETHGateway E None) (\<lambda>wethGateWay.
     await (deployWrapperGatewayImpl E gatewayid verify) (\<lambda>wrapperGateWayImpl.
     await (encode_call E wrapperGateWayImpl ''initialize''
         [Str (h_addr addressesProvider), Str (h_addr wethGateWay), Str underlying, Str wrapper])
         (\<lambda>initEncodedData.
     await (tryGetContractAddressInDb gatewayid) (\<lambda>wrapperGatewayAddress.
     await (upgrade_or_deploy E gatewayid (Some wrapperGatewayAddress) proxyAdmin
         proxyAdminOwnerAddress wrapperGateWayImpl initEncodedData verify) (\<lambda>wrapperGatewayProxy.
     await (getWrapperGateway E gatewayid (Some (h_addr wrapperGatewayProxy))) (\<lambda>wrapperGateWay.
     ret ()))))))))))))"

definition full_wrapper_authorize_caller_whitelist ::
  "'c net \<Rightarrow> string \<Rightarrow> string \<Rightarrow> string \<Rightarrow> string \<Rightarrow> ('c, unit) prog" where
  "full_wrapper_authorize_caller_whitelist E pool id1 caller flag =
     await set_DRE (\<lambda>_.
     await (lift_result (loadPoolConfig pool)) (\<lambda>poolConfig.
     await (getWrapperGateway E id1 None) (\<lambda>wrapperGateWay.
     send E wrapperGateWay ''authorizeCallerWhitelist'' [Arr [Str caller], Str flag])))"

definition full_deploy_bend_collector :: "'c net \<Rightarrow> bool \<Rightarrow> string \<Rightarrow> ('c, unit) prog" where
  "full_deploy_bend_collector E verify pool =
     await set_DRE (\<lambda>_.
     await (lift_result (loadPoolConfig pool)) (\<lambda>poolConfig.
     await (getBendProxyAdminById E ''BendProxyAdminFund'') (\<lambda>collectorProxyAdmin.
     await (view_owner E collectorProxyAdmin) (\<lambda>proxyAdminOwner.
     await (deployBendCollector E (Bool verify) False) (\<lambda>bendCollectorImpl.
     await (encode_call E bendCollectorImpl ''initialize'' []) (\<lambda>initEncodedData.
     await (deployBendUpgradeableProxy E ''BendCollector'' (h_addr collectorProxyAdmin)
         (h_addr bendCollectorImpl) initEncodedData verify) (\<lambda>bendCollectorProxy.
     ret ())))))))"

definition full_upgrade_bend_collector ::
  "'c net \<Rightarrow> bool \<Rightarrow> string \<Rightarrow> string \<Rightarrow> string option \<Rightarrow> ('c, unit) prog" where
  "full_upgrade_bend_collector E verify pool proxy initFunc =
     await set_DRE (\<lambda>_.
     await (lift_result (loadPoolConfig pool)) (\<lambda>poolConfig.
     await (getBendProxyAdminById E ''BendProxyAdminFund'') (\<lambda>collectorProxyAdmin.
     await (view_owner E collectorProxyAdmin) (\<lambda>proxyAdminOwnerAddress.
     let proxyAdminOwnerSigner = getEthersSignerByAddress proxyAdminOwnerAddress in
     await (getBendUpgradeableProxy E proxy) (\<lambda>bendCollectorProxy.
     await (getBendCollectorProxy E (Some (h_addr bendCollectorProxy))) (\<lambda>bendCollector.
     await (deployBendCollector E (Bool verify) False) (\<lambda>bendCollectorImpl.
     await (insertContractAddressInDb ''BendCollector'' (h_addr bendCollectorProxy)) (\<lambda>_.
     if initFunc \<noteq> None \<and> initFunc \<noteq> Some '''' then
       await (encode_call E bendCollectorImpl (the initFunc) []) (\<lambda>initEncodedData.
       send E (connect_signer proxyAdminOwnerSigner collectorProxyAdmin) ''upgradeAndCall''
         [Str (h_addr bendCollectorProxy), Str (h_addr bendCollectorImpl), Str initEncodedData])
     else
       send E (connect_signer proxyAdminOwnerSigner collectorProxyAdmin) ''upgrade''
         [Str (h_addr bendCollectorProxy), Str (h_addr bendCollectorImpl)]))))))))"

definition bend_collector_approve_erc20 ::
  "'c net \<Rightarrow> string \<Rightarrow> string \<Rightarrow> string \<Rightarrow> string \<Rightarrow> string \<Rightarrow> ('c, unit) prog" where
  "bend_collector_approve_erc20 E pool proxy token to amount =
     await set_DRE (\<lambda>_.
     await (lift_result (loadPoolConfig pool)) (\<lambda>poolConfig.
     await (getBendUpgradeableProxy E proxy) (\<lambda>bendCollectorProxy.
     await (getBendCollectorProxy E (Some (h_addr bendCollectorProxy))) (\<lambda>bendCollector.
     await (view_owner E bendCollector) (\<lambda>owner.
     let ownerSigner = getEthersSignerByAddress owner in
     await (if amount \<noteq> ''-1''
            then await (convertToCurrencyDecimals E token amount) (\<lambda>units. ret (Big units))
            else ret (Str (dec MAX_UINT_AMOUNT))) (\<lambda>amountDecimals.
     send E (connect_signer ownerSigner bendCollector) ''approve''
       [Str token, Str to, amountDecimals]))))))"

definition full_deploy_data_provider :: "'c net \<Rightarrow> bool \<Rightarrow> bool \<Rightarrow> bool \<Rightarrow> bool \<Rightarrow> ('c, unit) prog" where
  "full_deploy_data_provider E verify wallet protocol ui =
     await set_DRE (\<lambda>_.
     await (getLendPoolAddressesProvider E None) (\<lambda>addressesProvider.
     await (view_addr E addressesProvider ''getReserveOracle'' []) (\<lambda>reserveOracle.
     await (view_addr E addressesProvider ''getNFTOracle'' []) (\<lambda>nftOracle.
     await (when_do wallet
         (await (deployWalletBalancerProvider E verify) (\<lambda>walletBalanceProvider.
          send E addressesProvider ''setWalletBalanceProvider'' [Str (h_addr walletBalanceProvider)]))) (\<lambda>_.
     await (when_do protocol
         (await (deployBendProtocolDataProvider E (h_addr addressesProvider) verify)
            (\<lambda>bendProtocolDataProvider.
          send E addressesProvider ''setBendDataProvider'' [Str (h_addr bendProtocolDataProvider)]))) (\<lambda>_.
     when_do ui
         (await (deployUiPoolDataProvider E reserveOracle nftOracle verify) (\<lambda>uiPoolDataProvider.
          send E addressesProvider ''setUIDataProvider'' [Str (h_addr uiPoolDataProvider)]))))))))"

section \<open>Relations every task keeps\<close>

context effect_rel begin

lemma keeps_usable_proxy_admin [keeps_intros]: "keeps R (usable_proxy_admin E k m)"
  unfolding usable_proxy_admin_def by (intro keeps_intros)

lemma keeps_upgrade_or_deploy [keeps_intros]:
  "K k \<Longrightarrow> keeps R (upgrade_or_deploy E k existing admin own impl da verify)"
  unfolding upgrade_or_deploy_def upgrade_proxy_def by (intro keeps_intros)

lemma keeps_install_impl [keeps_intros]:
  "keeps R d \<Longrightarrow> (\<And>a. keeps R (g a)) \<Longrightarrow> K k \<Longrightarrow> keeps R (install_impl E prov d s v g k)"
  unfolding install_impl_def by (intro keeps_intros)

lemma keeps_contract_getters [keeps_intros]:
  "keeps R (getLendPool E' a)" "keeps R (getLendPoolLoanProxy E' a)" "keeps R (getBNFTRegistryProxy E' a)"
  "keeps R (getLendPoolAddressesProviderRegistry E' a)" "keeps R (getWETHGateway E' a)"
  "keeps R (getPunkGateway E' a)" "keeps R (getNFTOracle E' a)" "keeps R (getReserveOracle E' a)"
  "keeps R (getTokenOracle E' a)" "keeps R (getChainlinkAggregatorHelper E' a)"
  "keeps R (getUniswapV3DebtSwapAdapter E' a)" "keeps R (getWrapperGateway E' k a)"
  "keeps R (getBendCollectorProxy E' a)" "keeps R (getMintableERC20 E' a)" "keeps R (getMintableERC721 E' a)"
  unfolding getter_defs by (rule keeps_connect_or_db)+

text \<open>The tasks that only write keys of the contract enumeration.\<close>

lemma keeps_check_chain_id [keeps_intros]: "keeps R (check_chain_id E)"
  unfolding check_chain_id_def by (intro keeps_intros)

lemma keeps_deploy_one_proxy_admin [keeps_intros]: "K k \<Longrightarrow> keeps R (deploy_one_proxy_admin E k p v)"
  unfolding deploy_one_proxy_admin_def Let_def by (intro keeps_intros)

lemma keeps_exit_on_error [keeps_intros]: "keeps R m \<Longrightarrow> keeps R (exit_on_error m)"
  unfolding exit_on_error_def by (intro keeps_intros)

lemma keeps_full_tasks [keeps_intros]:
  assumes "\<And>k. k \<in> set contract_ids \<Longrightarrow> K k"
  shows "keeps R (full_deploy_address_provider_registry E verify pool)"
    "keeps R (full_deploy_proxy_admin E verify pool al pid)"
    "keeps R (full_initialize_gateway E verify pool)"
    "keeps R (full_deploy_oracle_nft E verify pool so sp fa)"
    "keeps R (full_deploy_oracle_reserve E verify so pool)"
    "keeps R (full_deploy_oracle_token E pool fa)"
    "keeps R (dev_deploy_aggregator_helper E verify pool)"
    "keeps R (full_deploy_weth_gateway E verify pool)"
    "keeps R (full_wethgateway_authorize_caller_whitelist E pool caller flag)"
    "keeps R (full_deploy_punk_gateway E verify pool)"
    "keeps R (full_punkgateway_authorize_caller_whitelist E pool caller flag)"
    "keeps R (full_deploy_uniswapv3_debtswap_adapter E verify pool aave router)"
    "keeps R (full_wrapper_authorize_caller_whitelist E pool k caller flag)"
    "keeps R (full_deploy_bend_collector E verify pool)"
    "keeps R (full_upgrade_bend_collector E verify pool proxy ini)"
    "keeps R (bend_collector_approve_erc20 E pool proxy token to amount)"
    "keeps R (full_deploy_data_provider E verify wallet protocol ui)"
proof -
  show "keeps R (full_deploy_address_provider_registry E verify pool)"
    unfolding full_deploy_address_provider_registry_def Let_def by (intro keeps_intros assms contract_ids_mem)
  show "keeps R (full_deploy_proxy_admin E verify pool al pid)"
    unfolding full_deploy_proxy_admin_def Let_def by (intro keeps_intros assms contract_ids_mem)
  show "keeps R (full_initialize_gateway E verify pool)"
    unfolding full_initialize_gateway_def Let_def by (intro keeps_intros assms contract_ids_mem)
  show "keeps R (full_deploy_oracle_nft E verify pool so sp fa)"
    unfolding full_deploy_oracle_nft_def Let_def by (intro keeps_intros assms contract_ids_mem)
  show "keeps R (full_deploy_oracle_reserve E verify so pool)"
    unfolding full_deploy_oracle_reserve_def Let_def by (intro keeps_intros assms contract_ids_mem)
  show "keeps R (full_deploy_oracle_token E pool fa)"
    unfolding full_deploy_oracle_token_def Let_def by (intro keeps_intros assms contract_ids_mem)
  show "keeps R (dev_deploy_aggregator_helper E verify pool)"
    unfolding dev_deploy_aggregator_helper_def Let_def by (intro keeps_intros assms contract_ids_mem)
  show "keeps R (full_deploy_weth_gateway E verify pool)"
    unfolding full_deploy_weth_gateway_def Let_def by (intro keeps_intros assms contract_ids_mem)
  show "keeps R (full_wethgateway_authorize_caller_whitelist E pool caller flag)"
    unfolding full_wethgateway_authorize_caller_whitelist_def Let_def by (intro keeps_intros assms contract_ids_mem)
  show "keeps R (full_deploy_punk_gateway E verify pool)"
    unfolding full_deploy_punk_gateway_def Let_def by (intro keeps_intros assms contract_ids_mem)
  show "keeps R (full_punkgateway_authorize_caller_whitelist E pool caller flag)"
    unfolding full_punkgateway_authorize_caller_whitelist_def Let_def by (intro keeps_intros assms contract_ids_mem)
  show "keeps R (full_deploy_uniswapv3_debtswap_adapter E verify pool aave router)"
    unfolding full_deploy_uniswapv3_debtswap_adapter_def Let_def by (intro keeps_intros assms contract_ids_mem)
  show "keeps R (full_wrapper_authorize_caller_whitelist E pool k caller flag)"
    unfolding full_wrapper_authorize_caller_whitelist_def Let_def by (intro keeps_intros assms contract_ids_mem)
  show "keeps R (full_deploy_bend_collector E verify pool)"
    unfolding full_deploy_bend_collector_def Let_def by (intro keeps_intros assms contract_ids_mem)
  show "keeps R (full_upgrade_bend_collector E verify pool proxy ini)"
    unfolding full_upgrade_bend_collector_def Let_def by (intro keeps_intros assms contract_ids_mem)
  show "keeps R (bend_collector_approve_erc20 E pool proxy token to amount)"
    unfolding bend_collector_approve_erc20_def Let_def by (intro keeps_intros assms contract_ids_mem)
  show "keeps R (full_deploy_data_provider E verify wallet protocol ui)"
    unfolding full_deploy_data_provider_def Let_def by (intro keeps_intros assms contract_ids_mem)
qed

lemma keeps_add_market [keeps_intros]:
  assumes "\<And>k. k \<in> set contract_ids \<Longrightarrow> K k"
  shows "keeps R (add_market_to_registry E verify ap pool dr)"
    "keeps R (full_deploy_address_provider E verify pool sk)"
proof -
  show 1: "keeps R (add_market_to_registry E verify ap pool dr)" for verify ap pool dr
    unfolding add_market_to_registry_def Let_def
    by (intro keeps_intros assms contract_ids_mem)
  show "keeps R (full_deploy_address_provider E verify pool sk)"
    unfolding full_deploy_address_provider_def Let_def
    by (intro keeps_intros 1 assms contract_ids_mem)
qed

lemma keeps_full_deploy_lend_pool [keeps_intros]:
  assumes "\<And>k. k \<in> set contract_ids \<Longrightarrow> K k"
  shows "keeps R (full_deploy_lend_pool E verify pool)"
  unfolding full_deploy_lend_pool_def Let_def
  by (intro keeps_intros assms contract_ids_mem library_contract_ids)

text \<open>The tasks that also write keys their callers choose or the configuration names.\<close>

lemma keeps_full_tasks_any [keeps_intros]:
  assumes "\<And>k. K k"
  shows "keeps R (full_initialize_lend_pool E verify pool)"
    "keeps R (full_deploy_wrapper_gateway E verify pool gid und wra)"
  unfolding full_initialize_lend_pool_def full_deploy_wrapper_gateway_def Let_def
  by (intro keeps_intros assms)+

end

end
