(* ===== verification/DevTasks.thy ===== *)
theory DevTasks
  imports FullTasks
begin

text \<open>
  \<^verbatim>\<open>tasks/dev\<close>: the tasks that build a development market out of mock contracts.
  Parameters that the tasks read as numbers (\<^verbatim>\<open>index\<close>, \<^verbatim>\<open>amount\<close>) are naturals.  The
  lemmas show which configuration entries the mock books demand and that every task only
  adds to the history.
\<close>

section \<open>Mock tokens, NFTs, aggregators\<close>

definition dev_deploy_mock_reserves :: "'c net \<Rightarrow> bool \<Rightarrow> ('c, unit) prog" where
  "dev_deploy_mock_reserves E verify =
     await set_DRE (\<lambda>_. await (deployAllMockTokens E False verify) (\<lambda>_. ret ()))"

definition dev_deploy_mock_weth :: "'c net \<Rightarrow> bool \<Rightarrow> ('c, unit) prog" where
  "dev_deploy_mock_weth E verify =
     await set_DRE (\<lambda>_. await (deployWETH9 E verify) (\<lambda>_. ret ()))"

definition dev_deploy_mock_usdt :: "'c net \<Rightarrow> bool \<Rightarrow> ('c, unit) prog" where
  "dev_deploy_mock_usdt E verify =
     await set_DRE (\<lambda>_. await (deployOneMockToken E ''USDT'' verify) (\<lambda>_. ret ()))"

definition dev_deploy_mock_stakes :: "'c net \<Rightarrow> bool \<Rightarrow> string \<Rightarrow> ('c, unit) prog" where
  "dev_deploy_mock_stakes E verify pool =
     await set_DRE (\<lambda>_.
     await (lift_result (loadPoolConfig pool)) (\<lambda>poolConfig.
     await (deployMockIncentivesController E verify) (\<lambda>_. ret ())))"

definition dev_deploy_mock_interceptor :: "'c net \<Rightarrow> bool \<Rightarrow> string \<Rightarrow> ('c, unit) prog" where
  "dev_deploy_mock_interceptor E verify pool =
     await set_DRE (\<lambda>_.
     await (lift_result (loadPoolConfig pool)) (\<lambda>poolConfig.
     await (getLendPoolAddressesProvider E None) (\<lambda>addressesProvider.
     await (deployMockLoanRepaidInterceptor E (h_addr addressesProvider) verify) (\<lambda>_. ret ()))))"

definition dev_deploy_all_mock_aggregators :: "'c net \<Rightarrow> bool \<Rightarrow> string \<Rightarrow> ('c, unit) prog" where
  "dev_deploy_all_mock_aggregators E verify pool =
     await set_DRE (\<lambda>_.
     await (lift_result (loadPoolConfig pool)) (\<lambda>poolConfig.
     await (deployAllReservesMockAggregatorsInPoolConfig E poolConfig verify) (\<lambda>_. ret ())))"

definition dev_deploy_mock_aggregator ::
  "'c net \<Rightarrow> bool \<Rightarrow> string \<Rightarrow> string \<Rightarrow> string \<Rightarrow> string \<Rightarrow> ('c, unit) prog" where
  "dev_deploy_mock_aggregator E verify pool name decimals price =
     await set_DRE (\<lambda>_.
     await (lift_result (loadPoolConfig pool)) (\<lambda>poolConfig.
     await (deployChainlinkMockAggregator E name decimals price verify) (\<lambda>_. ret ())))"

definition dev_deploy_mock_nfts :: "'c net \<Rightarrow> bool \<Rightarrow> ('c, unit) prog" where
  "dev_deploy_mock_nfts E verify =
     await set_DRE (\<lambda>_. await (deployAllMockNfts E verify) (\<lambda>_. ret ()))"

definition dev_add_mock_nfts :: "'c net \<Rightarrow> bool \<Rightarrow> ('c, unit) prog" where
  "dev_add_mock_nfts E verify =
     await set_DRE (\<lambda>_.
     for_each NftContractId (\<lambda>tokenSymbol.
       let tokenName = ''Bend Mock '' @ tokenSymbol; contractId = js_upper tokenSymbol in
       await (tryGetContractAddressInDb contractId) (\<lambda>tokenAddress.
       if notFalsyOrZeroAddress E (Some tokenAddress) then ret ()
       else await (deployMintableERC721 E [Str tokenName, Str tokenSymbol] verify) (\<lambda>token.
            registerContractInJsonDb contractId token))))"

definition dev_set_mock_nfts :: "'c net \<Rightarrow> bool \<Rightarrow> ('c, unit) prog" where
  "dev_set_mock_nfts E verify =
     await set_DRE (\<lambda>_.
     for_each NftContractId (\<lambda>tokenSymbol.
       let contractId = js_upper tokenSymbol; baseURI = obj_get MOCK_NFT_BASE_URIS tokenSymbol in
       if contractId = ''WPUNKS'' then ret ()
       else if baseURI = None \<or> baseURI = Some '''' then ret ()
       else await (tryGetContractAddressInDb contractId) (\<lambda>tokenAddress.
         if \<not> notFalsyOrZeroAddress E (Some tokenAddress) then ret ()
         else await (getMintableERC721 E (Some tokenAddress)) (\<lambda>tokenContract.
              send E tokenContract ''setBaseURI'' [val_of baseURI]))))"

section \<open>The BNFT registry\<close>

text \<open>\<^verbatim>\<open>signer.getAddress()\<close> of a signer that may be missing.\<close>

definition signer_address :: "string option \<Rightarrow> ('c, string) prog" where
  "signer_address s = (case s of
     None \<Rightarrow> throw (TypeError ''Cannot read properties of undefined (reading 'getAddress')'')
   | Some a \<Rightarrow> ret a)"

definition dev_deploy_mock_bnft_registry :: "'c net \<Rightarrow> bool \<Rightarrow> string \<Rightarrow> ('c, unit) prog" where
  "dev_deploy_mock_bnft_registry E verify pool =
     await set_DRE (\<lambda>_.
     await (signer_address (getProxyAdminSigner E)) (\<lambda>proxyAdminAddress.
     await (lift_result (loadPoolConfig pool)) (\<lambda>poolConfig.
     await (deployGenericBNFTImpl E verify) (\<lambda>bnftGenericImpl.
     await (deployBNFTRegistry E verify) (\<lambda>bnftRegistryImpl.
     await (encode_call E bnftRegistryImpl ''initialize''
         [Str (h_addr bnftGenericImpl), Str (BNftNamePrefix (Mocks poolConfig)),
          Str (BNftSymbolPrefix (Mocks poolConfig))]) (\<lambda>initEncodedData.
     await (deployBendUpgradeableProxy E ''BNFTRegistry'' proxyAdminAddress
         (h_addr bnftRegistryImpl) initEncodedData verify) (\<lambda>bnftRegistryProxy.
     ret ())))))))"

definition dev_deploy_mock_bnft_tokens :: "'c net \<Rightarrow> bool \<Rightarrow> string \<Rightarrow> ('c, unit) prog" where
  "dev_deploy_mock_bnft_tokens E verify pool =
     await set_DRE (\<lambda>_.
     await (lift_result (loadPoolConfig pool)) (\<lambda>poolConfig.
     await (getBNFTRegistryProxy E None) (\<lambda>bnftRegistryProxy.
     await (getConfigMockedNfts E poolConfig) (\<lambda>mockedNfts.
     for_each mockedNfts (\<lambda>(nftSymbol, mockedNft).
       await (send E bnftRegistryProxy ''createBNFT'' [Str (h_addr mockedNft)]) (\<lambda>_.
       await (view E bnftRegistryProxy ''getBNFTAddresses'' [Str (h_addr mockedNft)]) (\<lambda>_.
       ret ())))))))"

section \<open>Provider, pool and oracles of the development market\<close>

definition dev_deploy_address_provider :: "'c net \<Rightarrow> bool \<Rightarrow> string \<Rightarrow> ('c, unit) prog" where
  "dev_deploy_address_provider E verify pool =
     await set_DRE (\<lambda>_.
     await (lift_result (loadPoolConfig pool)) (\<lambda>poolConfig.
     await (signer_address (getDeploySigner E)) (\<lambda>admin.
     await (deployLendPoolAddressesProvider E (MarketId poolConfig) verify) (\<lambda>addressesProvider.
     await (send E addressesProvider ''setPoolAdmin'' [Str admin]) (\<lambda>_.
     await (send E addressesProvider ''setEmergencyAdmin'' [Str admin]) (\<lambda>_.
     await (deployLendPoolAddressesProviderRegistry E verify) (\<lambda>addressesProviderRegistry.
     send E addressesProviderRegistry ''registerAddressesProvider''
       [Str (h_addr addressesProvider), Num (ProviderId poolConfig)])))))))"

definition dev_deploy_lend_pool :: "'c net \<Rightarrow> bool \<Rightarrow> string \<Rightarrow> ('c, unit) prog" where
  "dev_deploy_lend_pool E verify pool =
     await set_DRE (\<lambda>_.
     await (getLendPoolAddressesProvider E None) (\<lambda>addressesProvider.
     await (lift_result (loadPoolConfig pool)) (\<lambda>poolConfig.
     await (getBNFTRegistryProxy E None) (\<lambda>bnftRegistryProxy.
     await (send E addressesProvider ''setBNFTRegistry'' [Str (h_addr bnftRegistryProxy)]) (\<lambda>_.
     await (deployBendLibraries E verify) (\<lambda>_.
     await (install_impl E addressesProvider (deployLendPool E verify) ''setLendPoolImpl''
         ''getLendPool'' (getLendPool E) ''LendPool'') (\<lambda>_.
     await (install_impl E addressesProvider (deployLendPoolConfigurator E verify)
         ''setLendPoolConfiguratorImpl'' ''getLendPoolConfigurator'' (getLendPoolConfiguratorProxy E)
         ''LendPoolConfigurator'') (\<lambda>_.
     await (install_impl E addressesProvider (deployLendPoolLoan E verify) ''setLendPoolLoanImpl''
         ''getLendPoolLoan'' (getLendPoolLoanProxy E) ''LendPoolLoan'') (\<lambda>_.
     deployBTokenImplementations E pool (ReservesConfig poolConfig) verify)))))))))"

definition dev_deploy_oracle_reserve :: "'c net \<Rightarrow> bool \<Rightarrow> string \<Rightarrow> ('c, unit) prog" where
  "dev_deploy_oracle_reserve E verify pool =
     await set_DRE (\<lambda>_.
     await (lift_result (loadPoolConfig pool)) (\<lambda>poolConfig.
     await (getLendPoolAddressesProvider E None) (\<lambda>addressesProvider.
     await (getAllMockedTokens E) (\<lambda>mockTokens.
     let allTokenAddresses = addresses_of mockTokens [(''USD'', USD_ADDRESS)] in
     await (deployAllReservesMockAggregatorsInPoolConfig E poolConfig verify) (\<lambda>allAggregatorsAddresses.
     await (deployReserveOracle E (Arr []) verify) (\<lambda>reserveOracleImpl.
     await (case obj_get mockTokens ''WETH'' of
         None \<Rightarrow> throw (TypeError ''Cannot read properties of undefined (reading 'address')'')
       | Some weth \<Rightarrow> send E reserveOracleImpl ''initialize'' [Str (h_addr weth)]) (\<lambda>_.
     await (send E addressesProvider ''setReserveOracle'' [Str (h_addr reserveOracleImpl)]) (\<lambda>_.
     setAggregatorsInReserveOracle E allTokenAddresses allAggregatorsAddresses reserveOracleImpl))))))))"

text \<open>
  The two thresholds are written as JavaScript numbers here, unlike in the task for a full
  environment, which builds them as big numbers.
\<close>

definition dev_nft_oracle_init_args :: "js_value \<Rightarrow> js_value list" where
  "dev_nft_oracle_init_args admin =
     [admin, Num (2 * 10 ^ 17), Num (1 * 10 ^ 17), Num 1800, Num 600, Num 1800, Num 18]"

definition dev_deploy_oracle_nft :: "'c net \<Rightarrow> bool \<Rightarrow> string \<Rightarrow> ('c, unit) prog" where
  "dev_deploy_oracle_nft E verify pool =
     await set_DRE (\<lambda>_.
     await (lift_result (loadPoolConfig pool)) (\<lambda>poolConfig.
     await (getLendPoolAddressesProvider E None) (\<lambda>addressesProvider.
     await (getAllMockedNfts E) (\<lambda>mockNfts.
     let allNftAddresses = addresses_of mockNfts [];
         allNftPrices = fold (\<lambda>(tokenSymbol, tokenPrice) accum. obj_set tokenSymbol tokenPrice accum)
           (AllNftsInitialPrices (Mocks poolConfig)) [] in
     await (deployNFTOracle E verify) (\<lambda>nftOracleImpl.
     await (view E addressesProvider ''getPoolAdmin'' []) (\<lambda>poolAdmin.
     await (send E nftOracleImpl ''initialize'' (dev_nft_oracle_init_args poolAdmin)) (\<lambda>_.
     await (send E addressesProvider ''setNFTOracle'' [Str (h_addr nftOracleImpl)]) (\<lambda>_.
     await (addAssetsInNFTOracle E allNftAddresses nftOracleImpl) (\<lambda>_.
     setPricesInNFTOracle E allNftPrices allNftAddresses nftOracleImpl)))))))))"

definition dev_initialize_lend_pool :: "'c net \<Rightarrow> bool \<Rightarrow> string \<Rightarrow> ('c, unit) prog" where
  "dev_initialize_lend_pool E verify pool =
     await set_DRE (\<lambda>_.
     await (lift_result (loadPoolConfig pool)) (\<lambda>poolConfig.
     await (getLendPoolAddressesProvider E None) (\<lambda>addressesProvider.
     await (view_addr E addressesProvider ''getPoolAdmin'' []) (\<lambda>admin.
     let collectorAddress = getReserveFactorCollectorAddress E poolConfig in
     if collectorAddress = None \<or> \<not> notFalsyOrZeroAddress E collectorAddress
     then throw (JsError ''Invalid collector address in pool config'')
     else
     await (deployBendProtocolDataProvider E (h_addr addressesProvider) verify) (\<lambda>dataProvider.
     await (insertContractAddressInDb ''BendProtocolDataProvider'' (h_addr dataProvider)) (\<lambda>_.
     await (getAllMockedTokens E) (\<lambda>mockTokens.
     let allTokenAddresses = getAllTokenAddresses mockTokens in
     await (initReservesByHelper E (ReservesConfig poolConfig) allTokenAddresses
         (BTokenNamePrefix poolConfig) (BTokenSymbolPrefix poolConfig)
         (DebtTokenNamePrefix poolConfig) (DebtTokenSymbolPrefix poolConfig)
         (Some admin) collectorAddress pool verify) (\<lambda>_.
     await (configureReservesByHelper E (ReservesConfig poolConfig) allTokenAddresses (Some admin)) (\<lambda>_.
     await (getAllMockedNfts E) (\<lambda>mockNfts.
     let allNftAddresses = getAllNftAddresses mockNfts in
     await (initNftsByHelper E (NftsConfig poolConfig) allNftAddresses (Some admin) ''Bend'' verify) (\<lambda>_.
     await (configureNftsByHelper E (NftsConfig poolConfig) allNftAddresses (Some admin)) (\<lambda>_.
     await (view_addr E addressesProvider ''getReserveOracle'' []) (\<lambda>reserveOracle.
     await (view_addr E addressesProvider ''getNFTOracle'' []) (\<lambda>nftOracle.
     await (deployWalletBalancerProvider E verify) (\<lambda>walletBalanceProvider.
     await (deployBendProtocolDataProvider E (h_addr addressesProvider) verify) (\<lambda>bendProtocolDataProvider.
     await (deployUiPoolDataProvider E reserveOracle nftOracle verify) (\<lambda>uiPoolDataProvider.
     await (view_addr E addressesProvider ''getLendPool'' []) (\<lambda>lendPoolAddress.
     await (getWETHGateway E None) (\<lambda>wethGateway.
     let nftAddresses = map (\<lambda>(assetSymbol, assetAddress). assetAddress) allNftAddresses in
     await (send E wethGateway ''authorizeLendPoolNFT'' [Arr (map Str nftAddresses)]) (\<lambda>_.
     await (getPunkGateway E None) (\<lambda>punkGateway.
     let reserveAddresses = map (\<lambda>(assetSymbol, assetAddress). assetAddress) allTokenAddresses in
     send E punkGateway ''authorizeLendPoolERC20'' [Arr (map Str reserveAddresses)])))))))))))))))))))))"

section \<open>Minting mocks\<close>

definition dev_mint_mock_nfts :: "'c net \<Rightarrow> nat \<Rightarrow> nat \<Rightarrow> string \<Rightarrow> ('c, unit) prog" where
  "dev_mint_mock_nfts E index amount user =
     await set_DRE (\<lambda>_.
     if str_includes (n_network E) ''main''
     then throw (JsError ''Mint mock not used at mainnet configuration.'')
     else
     await (signer_address (getDeploySigner E)) (\<lambda>deployerAddress.
     await (getCryptoPunksMarket E None) (\<lambda>cryptoPunksMarket.
     await (when_do (index \<le> 1) (send E cryptoPunksMarket ''allInitialOwnersAssigned'' [])) (\<lambda>_.
     await (for_each [index..<index + amount] (\<lambda>punkIndex.
         await (send E cryptoPunksMarket ''getPunk'' [Num (int punkIndex)]) (\<lambda>_.
         send E cryptoPunksMarket ''transferPunk'' [Str user, Num (int punkIndex)]))) (\<lambda>_.
     await (view E cryptoPunksMarket ''balanceOf'' [Str user]) (\<lambda>_.
     await (getContractAddressInDb ''BAYC'') (\<lambda>baycAddress.
     await (getMintableERC721 E (Some baycAddress)) (\<lambda>bayc.
     await (when_do (index \<le> 1) (send E bayc ''setBaseURI''
         [Str ''ipfs://QmeSjSinHpPnmXmspMjwiXyN6zS4E9zccariGR3jxcaWtq/''])) (\<lambda>_.
     await (for_each [index..<index + amount] (\<lambda>tokenIndex.
         await (send E bayc ''mint'' [Num (int tokenIndex)]) (\<lambda>_.
         send E bayc ''safeTransferFrom(address,address,uint256)''
           [Str deployerAddress, Str user, Num (int tokenIndex)]))) (\<lambda>_.
     await (view E bayc ''balanceOf'' [Str user]) (\<lambda>_. ret ())))))))))))"

definition dev_mint_mock_reserves :: "'c net \<Rightarrow> string \<Rightarrow> string \<Rightarrow> ('c, unit) prog" where
  "dev_mint_mock_reserves E amount user =
     await set_DRE (\<lambda>_.
     if str_includes (n_network E) ''main''
     then throw (JsError ''Mint mock not used at mainnet configuration.'')
     else
     await (signer_address (getDeploySigner E)) (\<lambda>deployerAddress.
     await (getContractAddressInDb ''DAI'') (\<lambda>daiAddress.
     await (getMintableERC20 E (Some daiAddress)) (\<lambda>dai.
     await (convertToCurrencyDecimals E (h_addr dai) amount) (\<lambda>daiAmountToMint.
     await (send E dai ''mint'' [Big daiAmountToMint]) (\<lambda>_.
     await (send E dai ''transfer'' [Str user, Big daiAmountToMint]) (\<lambda>_.
     await (view E dai ''balanceOf'' [Str user]) (\<lambda>_.
     await (getContractAddressInDb ''USDC'') (\<lambda>usdcAddress.
     await (getMintableERC20 E (Some usdcAddress)) (\<lambda>usdc.
     await (convertToCurrencyDecimals E (h_addr usdc) amount) (\<lambda>usdcAmountToMint.
     await (send E usdc ''mint'' [Big usdcAmountToMint]) (\<lambda>_.
     await (send E usdc ''transfer'' [Str user, Big usdcAmountToMint]) (\<lambda>_.
     await (view E dai ''balanceOf'' [Str user]) (\<lambda>_. ret ()))))))))))))))"

text \<open>\<^verbatim>\<open>split(",")\<close>: at least one piece, empty pieces kept.\<close>

fun js_split_at :: "char \<Rightarrow> string \<Rightarrow> string \<Rightarrow> string list" where
  "js_split_at sep cur [] = [cur]"
| "js_split_at sep cur (c # s) =
     (if c = sep then cur # js_split_at sep [] s else js_split_at sep (cur @ [c]) s)"

definition js_split :: "char \<Rightarrow> string \<Rightarrow> string list" where
  "js_split sep s = js_split_at sep [] s"

definition dev_mint_top_punks :: "'c net \<Rightarrow> string \<Rightarrow> string \<Rightarrow> ('c, unit) prog" where
  "dev_mint_top_punks E target ids =
     await set_DRE (\<lambda>_.
     await (getCryptoPunksMarket E None) (\<lambda>punks.
     let topSalePunkIndexs = js_split (CHR '','') ids;
         topSalePunkOwners = map (\<lambda>punkIndex. target) topSalePunkIndexs in
     await (send E punks ''setInitialOwners''
         [Arr (map Str topSalePunkOwners), Arr (map Str topSalePunkIndexs)]) (\<lambda>_.
     await (view E punks ''balanceOf'' [Str target]) (\<lambda>_. ret ()))))"

text \<open>
  The minter of \<^verbatim>\<open>dev:mint-top-tokens\<close>: the local variables of the loop, with
  \<^verbatim>\<open>break\<close> as a flag.
\<close>

record minter_state =
  minterIndex :: nat
  minterSigner :: "string option"
  minterAddress :: string
  minterLimit :: int
  stopped :: bool

fun find_minter :: "'c net \<Rightarrow> handle \<Rightarrow> string list \<Rightarrow> minter_state \<Rightarrow> ('c, minter_state) prog" where
  "find_minter E erc721Token [] st = ret st"
| "find_minter E erc721Token (s # rest) st =
     (let st1 = st\<lparr>minterSigner := Some s, minterAddress := s\<rparr> in
      await (view E erc721Token ''mintCounts'' [Str s]) (\<lambda>v.
      case v of
        Big tmpLimit \<Rightarrow>
          if tmpLimit < 10 then ret (st1\<lparr>minterLimit := tmpLimit\<rparr>)
          else find_minter E erc721Token rest (st1\<lparr>minterIndex := minterIndex st1 + 1\<rparr>)
      | _ \<Rightarrow> throw (TypeError ''toNumber is not a function'')))"

definition choose_minter :: "'c net \<Rightarrow> handle \<Rightarrow> string \<Rightarrow> minter_state \<Rightarrow> ('c, minter_state) prog" where
  "choose_minter E erc721Token deployer st =
     (if minterLimit st < 0 \<or> minterLimit st \<ge> 10 then
        await (find_minter E erc721Token (drop (minterIndex st) (getEthersSigners E)) st) (\<lambda>st1.
        if minterIndex st1 = length (getEthersSigners E) then ret (st1\<lparr>stopped := True\<rparr>)
        else
          await (get_balance E (minterAddress st1)) (\<lambda>minterBalance.
          await (when_do (minterBalance < int (oneEther div 10))
              (node_call E (Some deployer) (minterAddress st1) ''sendTransaction''
                 [Str (dec (oneEther div 2))])) (\<lambda>_.
          await (get_balance E (minterAddress st1)) (\<lambda>_. ret st1))))
      else ret st)"

definition mint_one :: "'c net \<Rightarrow> handle \<Rightarrow> string \<Rightarrow> string \<Rightarrow> minter_state \<Rightarrow> ('c, minter_state) prog" where
  "mint_one E erc721Token target tokenId st =
     (let token = connect_signer (minterSigner st) erc721Token;
          transfer = send E token ''transferFrom'' [Str (minterAddress st), Str target, Str tokenId] in
      try_catch
        (await (view E erc721Token ''ownerOf'' [Str tokenId]) (\<lambda>tokenOwner.
         await (when_do (tokenOwner = Str (minterAddress st)) transfer) (\<lambda>_. ret st)))
        (\<lambda>_. await (send E token ''mint'' [Str tokenId]) (\<lambda>_.
             await transfer (\<lambda>_. ret (st\<lparr>minterLimit := minterLimit st + 1\<rparr>)))))"

definition dev_mint_top_tokens :: "'c net \<Rightarrow> string \<Rightarrow> string \<Rightarrow> string \<Rightarrow> ('c, unit) prog" where
  "dev_mint_top_tokens E symbol ids target =
     await set_DRE (\<lambda>_.
     await (getContractAddressInDb symbol) (\<lambda>tokenAddress.
     await (getMintableERC721 E (Some tokenAddress)) (\<lambda>erc721Token.
     let topSaleTokenIds = js_split (CHR '','') ids in
     await (signer_address (getDeploySigner E)) (\<lambda>deployer.
     await (get_balance E deployer) (\<lambda>_.
     await (for_fold topSaleTokenIds (\<lambda>tokenId st.
         if stopped st then ret st
         else await (choose_minter E erc721Token deployer st) (\<lambda>st1.
              if stopped st1 then ret st1 else mint_one E erc721Token target tokenId st1))
         \<lparr>minterIndex = 0, minterSigner = arr_at (getEthersSigners E) 0, minterAddress = '''',
          minterLimit = -1, stopped = False\<rparr>) (\<lambda>_.
     await (view E erc721Token ''balanceOf'' [Str target]) (\<lambda>_. ret ())))))))"

section \<open>Relations the tasks keep\<close>

context run_rel begin

lemma keeps_signer_address [keeps_intros]: "keeps R (signer_address s)"
  unfolding signer_address_def by (intro keeps_intros)

end

context effect_rel begin

lemma keeps_more_getters [keeps_intros]:
  "keeps R (getCryptoPunksMarket E' a)" "keeps R (getIErc20Detailed E' a)"
  unfolding getter_defs by (rule keeps_connect_or_db)+

lemma keeps_find_minter [keeps_intros]: "keeps R (find_minter E h ss st)"
proof (induction ss arbitrary: st)
  case Nil
  then show ?case by (simp add: keeps_ret)
next
  case (Cons s ss)
  show ?case unfolding find_minter.simps Let_def
    by (intro keeps_await keeps_view) (auto intro!: keeps_intros Cons.IH split: js_value.splits)
qed

lemma keeps_dev_tasks [keeps_intros]:
  assumes "\<And>k. K k"
  shows "keeps R (dev_deploy_mock_reserves E verify)"
    "keeps R (dev_deploy_mock_nfts E verify)"
    "keeps R (dev_deploy_mock_bnft_registry E verify pool)"
    "keeps R (dev_deploy_mock_bnft_tokens E verify pool)"
    "keeps R (dev_deploy_address_provider E verify pool)"
    "keeps R (dev_deploy_lend_pool E verify pool)"
    "keeps R (dev_deploy_oracle_reserve E verify pool)"
    "keeps R (dev_deploy_oracle_nft E verify pool)"
    "keeps R (dev_initialize_lend_pool E verify pool)"
    "keeps R (dev_mint_mock_nfts E index amount user)"
    "keeps R (dev_mint_mock_reserves E a user)"
    "keeps R (dev_mint_top_tokens E sy ids target)"
proof -
  show "keeps R (dev_deploy_mock_reserves E verify)"
    unfolding dev_deploy_mock_reserves_def by (intro keeps_intros assms)
  show "keeps R (dev_deploy_mock_nfts E verify)"
    unfolding dev_deploy_mock_nfts_def by (intro keeps_intros assms)
  show "keeps R (dev_deploy_mock_bnft_registry E verify pool)"
    unfolding dev_deploy_mock_bnft_registry_def by (intro keeps_intros assms)
  show "keeps R (dev_deploy_mock_bnft_tokens E verify pool)"
    unfolding dev_deploy_mock_bnft_tokens_def by (intro keeps_intros assms)
  show "keeps R (dev_deploy_address_provider E verify pool)"
    unfolding dev_deploy_address_provider_def by (intro keeps_intros assms)
  show "keeps R (dev_deploy_lend_pool E verify pool)"
    unfolding dev_deploy_lend_pool_def by (intro keeps_intros assms)
  show "keeps R (dev_deploy_oracle_reserve E verify pool)"
    unfolding dev_deploy_oracle_reserve_def Let_def by (intro keeps_intros assms)
  show "keeps R (dev_deploy_oracle_nft E verify pool)"
    unfolding dev_deploy_oracle_nft_def Let_def by (intro keeps_intros assms)
  show "keeps R (dev_initialize_lend_pool E verify pool)"
    unfolding dev_initialize_lend_pool_def Let_def by (intro keeps_intros assms)
  show "keeps R (dev_mint_mock_nfts E index amount user)"
    unfolding dev_mint_mock_nfts_def by (intro keeps_intros assms)
  show "keeps R (dev_mint_mock_reserves E a user)"
    unfolding dev_mint_mock_reserves_def by (intro keeps_intros assms)
  show "keeps R (dev_mint_top_tokens E sy ids target)"
    unfolding dev_mint_top_tokens_def choose_minter_def mint_one_def Let_def
    by (intro keeps_intros assms)
qed

end

end
