(* ===== verification/VerifyTasks.thy ===== *)
theory VerifyTasks
  imports DevTasks
begin

text \<open>
  \<^verbatim>\<open>tasks/verifications\<close> and \<^verbatim>\<open>tasks/misc/verify-sc.ts\<close>: sending the sources of
  everything a migration deployed to Etherscan.  The tasks read the database, the
  configuration and the chain; what they write is verification requests.  The lemmas show
  that a listed asset without a configuration stops the task.
\<close>

section \<open>Members of decoded structures\<close>

definition member_addr :: "js_value \<Rightarrow> string \<Rightarrow> ('c, string) prog" where
  "member_addr v k = (case v of
     Obj o1 \<Rightarrow> (case obj_get o1 k of
         Some (Str a) \<Rightarrow> ret a
       | _ \<Rightarrow> throw (RpcError ''invalid contract address or ENS name''))
   | _ \<Rightarrow> throw (RpcError ''invalid contract address or ENS name''))"

lemma member_addr_Ret_iff [run_simps]:
  "member_addr v k w = (Ret a, w') \<longleftrightarrow> w' = w \<and> (\<exists>o1. v = Obj o1 \<and> obj_get o1 k = Some (Str a))"
  by (auto simp: member_addr_def run_simps split: js_value.splits option.splits)

context run_rel begin

lemma keeps_member_addr [keeps_intros]: "keeps R (member_addr v k)"
  unfolding member_addr_def
  by (auto intro: keeps_ret keeps_throw split: js_value.splits option.splits)

end

section \<open>Gateways and general contracts\<close>

definition verify_WrapperGateway :: "'c net \<Rightarrow> string \<Rightarrow> string \<Rightarrow> ('c, unit) prog" where
  "verify_WrapperGateway E pool gatewayid =
     await set_DRE (\<lambda>_.
     await (lift_result (loadPoolConfig pool)) (\<lambda>poolConfig.
     await (getBendProxyAdminById E ''BendProxyAdminWTL'') (\<lambda>proxyAdminWTL.
     let implId = gatewayid @ ''Impl'' in
     await (getWrapperGateway E implId None) (\<lambda>gatewayImpl.
     await (verifyContract E implId gatewayImpl []) (\<lambda>_.
     await (getWrapperGateway E gatewayid None) (\<lambda>gatewayProxy.
     await (view E gatewayProxy ''addressProvider'' []) (\<lambda>addressesProvider.
     await (view E gatewayProxy ''wethGateway'' []) (\<lambda>wethGateway.
     await (view E gatewayProxy ''underlying'' []) (\<lambda>underlying.
     await (view E gatewayProxy ''wrappedToken'' []) (\<lambda>wrappedToken.
     await (encode_call E gatewayImpl ''initialize''
         [addressesProvider, wethGateway, underlying, wrappedToken]) (\<lambda>initData.
     verifyContract E ''BendUpgradeableProxy'' gatewayProxy
       [Str (h_addr gatewayImpl), Str (h_addr proxyAdminWTL), Str initData])))))))))))"

text \<open>The contracts verified under \<^verbatim>\<open>--all\<close>, with the data the task has read.\<close>

definition verify_general_all ::
  "'c net \<Rightarrow> string \<Rightarrow> handle \<Rightarrow> handle \<Rightarrow> handle \<Rightarrow> handle \<Rightarrow> handle \<Rightarrow> handle \<Rightarrow> handle \<Rightarrow> handle
     \<Rightarrow> handle \<Rightarrow> handle \<Rightarrow> ('c, unit) prog" where
  "verify_general_all E marketId bendCollectorImpl providerRegistry addressesProvider lendPoolImpl
      lendPoolConfiguratorImpl lendPoolLoanImpl reserveOracleImpl nftOracleImpl wethGatewayImpl
      punkGatewayImpl =
     await (getBendProtocolDataProvider E None) (\<lambda>dataProvider.
     await (getWalletProvider E None) (\<lambda>walletProvider.
     await (getUIPoolDataProvider E None) (\<lambda>uiProvider.
     await (verifyContract E ''BendCollectorImpl'' bendCollectorImpl []) (\<lambda>_.
     await (verifyContract E ''LendPoolAddressesProviderRegistry'' providerRegistry []) (\<lambda>_.
     await (verifyContract E ''LendPoolAddressesProvider'' addressesProvider [Str marketId]) (\<lambda>_.
     await (verifyContract E ''LendPoolImpl'' lendPoolImpl []) (\<lambda>_.
     await (verifyContract E ''LendPoolConfiguratorImpl'' lendPoolConfiguratorImpl []) (\<lambda>_.
     await (verifyContract E ''LendPoolLoanImpl'' lendPoolLoanImpl []) (\<lambda>_.
     await (verifyContract E ''BendProtocolDataProvider'' dataProvider [Str (h_addr addressesProvider)]) (\<lambda>_.
     await (verifyContract E ''WalletBalanceProvider'' walletProvider []) (\<lambda>_.
     await (view E addressesProvider ''getReserveOracle'' []) (\<lambda>reserveOracle.
     await (view E addressesProvider ''getNFTOracle'' []) (\<lambda>nftOracle.
     await (verifyContract E ''UIPoolDataProvider'' uiProvider [reserveOracle, nftOracle]) (\<lambda>_.
     await (verifyContract E ''ReserveOracleImpl'' reserveOracleImpl []) (\<lambda>_.
     await (verifyContract E ''NFTOracleImpl'' nftOracleImpl []) (\<lambda>_.
     await (verifyContract E ''WETHGatewayImpl'' wethGatewayImpl []) (\<lambda>_.
     verifyContract E ''PunkGatewayImpl'' punkGatewayImpl [])))))))))))))))))"

text \<open>A proxy of the addresses provider, verified with the call that initialises it.\<close>

definition verify_provider_proxy :: "'c net \<Rightarrow> handle \<Rightarrow> handle \<Rightarrow> handle \<Rightarrow> ('c, unit) prog" where
  "verify_provider_proxy E proxy impl addressesProvider =
     await (encode_call E impl ''initialize'' [Str (h_addr addressesProvider)]) (\<lambda>initData.
     verifyContract E ''BendUpgradeableProxy'' proxy
       [Str (h_addr impl), Str (h_addr addressesProvider), Str initData])"

definition verify_general :: "'c net \<Rightarrow> bool \<Rightarrow> string \<Rightarrow> ('c, unit) prog" where
  "verify_general E all1 pool =
     await set_DRE (\<lambda>_.
     await (lift_result (loadPoolConfig pool)) (\<lambda>poolConfig.
     await (getBendCollectorImpl E None) (\<lambda>bendCollectorImpl.
     await (getLendPoolAddressesProviderRegistry E None) (\<lambda>providerRegistry.
     await (getLendPoolAddressesProvider E None) (\<lambda>addressesProvider.
     await (view_addr E addressesProvider ''getLendPool'' []) (\<lambda>lendPoolAddress.
     await (view_addr E addressesProvider ''getLendPoolConfigurator'' []) (\<lambda>lendPoolConfiguratorAddress.
     await (view_addr E addressesProvider ''getLendPoolLoan'' []) (\<lambda>lendPoolLoanAddress.
     await (getBendUpgradeableProxy E lendPoolAddress) (\<lambda>lendPoolProxy.
     await (getBendUpgradeableProxy E lendPoolConfiguratorAddress) (\<lambda>lendPoolConfiguratorProxy.
     await (getBendUpgradeableProxy E lendPoolLoanAddress) (\<lambda>lendPoolLoanProxy.
     let network = n_network E;
         punkAddress = getParamPerNetwork E (CryptoPunksMarket poolConfig) network;
         wpunkAddress = getParamPerNetwork E (WrappedPunkToken poolConfig) network in
     await (getWETHGateway E None) (\<lambda>wethGateway.
     await (getPunkGateway E None) (\<lambda>punkGateway.
     await (getLendPoolImpl E None) (\<lambda>lendPoolImpl.
     await (getLendPoolConfiguratorImpl E None) (\<lambda>lendPoolConfiguratorImpl.
     await (getLendPoolLoanImpl E None) (\<lambda>lendPoolLoanImpl.
     await (getReserveOracleImpl E None) (\<lambda>reserveOracleImpl.
     await (getNFTOracleImpl E None) (\<lambda>nftOracleImpl.
     await (getWETHGatewayImpl E None) (\<lambda>wethGatewayImpl.
     await (getPunkGatewayImpl E None) (\<lambda>punkGatewayImpl.
     await (getBendProxyAdminById E ''BendProxyAdminFund'') (\<lambda>proxyAdminFund.
     await (verifyContract E ''BendProxyAdminFund'' proxyAdminFund []) (\<lambda>_.
     await (getBendProxyAdminById E ''BendProxyAdminPool'') (\<lambda>proxyAdminPool.
     await (verifyContract E ''BendProxyAdminPool'' proxyAdminPool []) (\<lambda>_.
     await (getBendProxyAdminById E ''BendProxyAdminWTL'') (\<lambda>proxyAdminWTL.
     await (verifyContract E ''BendProxyAdminWTL'' proxyAdminWTL []) (\<lambda>_.
     await (when_do all1 (verify_general_all E (MarketId poolConfig) bendCollectorImpl providerRegistry
         addressesProvider lendPoolImpl lendPoolConfiguratorImpl lendPoolLoanImpl reserveOracleImpl
         nftOracleImpl wethGatewayImpl punkGatewayImpl)) (\<lambda>_.
     await (getBendCollectorProxy E None) (\<lambda>bendCollectorProxy.
     await (getBendProxyAdminById E ''BendProxyAdminFund'') (\<lambda>collectorProxyAdmin.
     await (encode_call E bendCollectorImpl ''initialize'' []) (\<lambda>collectorInit.
     await (verifyContract E ''BendCollector'' bendCollectorProxy
         [Str (h_addr bendCollectorImpl), Str (h_addr collectorProxyAdmin), Str collectorInit]) (\<lambda>_.
     await (verify_provider_proxy E lendPoolProxy lendPoolImpl addressesProvider) (\<lambda>_.
     await (verify_provider_proxy E lendPoolConfiguratorProxy lendPoolConfiguratorImpl addressesProvider) (\<lambda>_.
     await (verify_provider_proxy E lendPoolLoanProxy lendPoolLoanImpl addressesProvider) (\<lambda>_.
     await (getWrappedNativeTokenAddress E poolConfig) (\<lambda>weth.
     await (encode_call E wethGatewayImpl ''initialize'' [Str (h_addr addressesProvider), Str weth]) (\<lambda>wethInit.
     await (verifyContract E ''BendUpgradeableProxy'' wethGateway
         [Str (h_addr wethGatewayImpl), Str (h_addr proxyAdminPool), Str wethInit]) (\<lambda>_.
     await (encode_call E punkGatewayImpl ''initialize''
         [Str (h_addr addressesProvider), Str (h_addr wethGateway), val_of punkAddress,
          val_of wpunkAddress]) (\<lambda>punkInit.
     verifyContract E ''BendUpgradeableProxy'' punkGateway
       [Str (h_addr punkGatewayImpl), Str (h_addr proxyAdminPool), Str punkInit]))))))))))))))))))))))))))))))))))))))"

definition verify_libraries :: "'c net \<Rightarrow> string \<Rightarrow> ('c, unit) prog" where
  "verify_libraries E pool =
     await set_DRE (\<lambda>_.
     await (lift_result (loadPoolConfig pool)) (\<lambda>poolConfig.
     await (getContractAddressInDb ''NftLogic'') (\<lambda>nftLogicAddress.
     await (getContractAddressInDb ''ValidationLogic'') (\<lambda>validationLogicAddress.
     await (verifyEtherscanContract E nftLogicAddress [] None None) (\<lambda>_.
     await (verifyEtherscanContract E validationLogicAddress [] None None) (\<lambda>_.
     await (getGenericLogic E None) (\<lambda>genLogic.
     await (verifyContract E ''GenericLogic'' genLogic []) (\<lambda>_.
     await (getReserveLogic E None) (\<lambda>resLogic.
     await (verifyContract E ''ReserveLogic'' resLogic []) (\<lambda>_.
     await (getSupplyLogic E None) (\<lambda>supLogic.
     await (verifyContract E ''SupplyLogic'' supLogic []) (\<lambda>_.
     await (getBorrowLogic E None) (\<lambda>borLogic.
     await (verifyContract E ''BorrowLogic'' borLogic []) (\<lambda>_.
     await (getLiquidateLogic E None) (\<lambda>liqLogic.
     verifyContract E ''LiquidateLogic'' liqLogic [])))))))))))))))"

section \<open>Mocks, NFTs, reserves\<close>

definition object_entries :: "'a obj option \<Rightarrow> ('c, 'a obj) prog" where
  "object_entries o1 = (case o1 of
     None \<Rightarrow> throw (TypeError ''Cannot convert undefined or null to object'')
   | Some ps \<Rightarrow> ret ps)"

definition verify_mocks :: "'c net \<Rightarrow> string \<Rightarrow> ('c, unit) prog" where
  "verify_mocks E pool =
     await set_DRE (\<lambda>_.
     let network = n_network E in
     if str_includes network ''main'' then throw (JsError ''Mocks not used at mainnet configuration.'')
     else
     await (lift_result (loadPoolConfig pool)) (\<lambda>poolConfig.
     let punkAddress = getParamPerNetwork E (CryptoPunksMarket poolConfig) network;
         wpunkAddress = getParamPerNetwork E (WrappedPunkToken poolConfig) network;
         wethAddress = getParamPerNetwork E (WrappedNativeToken poolConfig) network in
     await (getCryptoPunksMarket E punkAddress) (\<lambda>punkImpl.
     await (verifyContract E ''CryptoPunksMarket'' punkImpl []) (\<lambda>_.
     await (getWrappedPunk E wpunkAddress) (\<lambda>wpunkImpl.
     await (verifyContract E ''WrappedPunk'' wpunkImpl [val_of punkAddress]) (\<lambda>_.
     await (object_entries (getParamPerNetwork E (NftsAssets poolConfig) network)) (\<lambda>mockNfts.
     await (for_each mockNfts (\<lambda>(nftSymbol, nftAddress).
         if nftSymbol = ''WPUNKS'' then ret ()
         else await (getMintableERC721 E (Some nftAddress)) (\<lambda>mockedBAYC.
              await (view E mockedBAYC ''name'' []) (\<lambda>name.
              await (view E mockedBAYC ''symbol'' []) (\<lambda>symbol.
              verifyContract E ''MintableERC721'' mockedBAYC [name, symbol]))))) (\<lambda>_.
     await (getWETHMocked E wethAddress) (\<lambda>wethImpl.
     await (verifyContract E ''WETHMocked'' wethImpl []) (\<lambda>_.
     await (object_entries (getParamPerNetwork E (ReserveAssets poolConfig) network)) (\<lambda>mockTokens.
     for_each mockTokens (\<lambda>(tokenSymbol, tokenAddress).
         if tokenSymbol = ''WETH'' then ret ()
         else await (getMintableERC20 E (Some tokenAddress)) (\<lambda>mockedDAI.
              await (view E mockedDAI ''name'' []) (\<lambda>name.
              await (view E mockedDAI ''symbol'' []) (\<lambda>symbol.
              await (view E mockedDAI ''decimals'' []) (\<lambda>decimals.
              verifyContract E ''MintableERC20'' mockedDAI
                [name, symbol, Str (js_to_string decimals)]))))))))))))))))"

definition verify_one_nft :: "'c net \<Rightarrow> nft_params obj \<Rightarrow> handle \<Rightarrow> handle \<Rightarrow> string \<times> string \<Rightarrow> ('c, unit) prog" where
  "verify_one_nft E configs lendPoolProxy bnftRegistry = (\<lambda>(token, tokenAddress).
     case obj_get configs token of
       None \<Rightarrow> throw (JsError (''NftsConfig not found for '' @ token @ '' token''))
     | Some tokenConfig \<Rightarrow>
         await (view E lendPoolProxy ''getNftData'' [Str tokenAddress]) (\<lambda>nftData.
         await (member_addr nftData ''bNftAddress'') (\<lambda>bNftAddress.
         await (getBendUpgradeableProxy E bNftAddress) (\<lambda>proxy.
         verifyContract E ''BendUpgradeableProxy'' proxy [Str (h_addr bnftRegistry)]))))"

definition verify_nfts :: "'c net \<Rightarrow> string \<Rightarrow> ('c, unit) prog" where
  "verify_nfts E pool =
     await set_DRE (\<lambda>_.
     await (lift_result (loadPoolConfig pool)) (\<lambda>poolConfig.
     await (getLendPoolAddressesProvider E None) (\<lambda>addressesProvider.
     await (view_addr E addressesProvider ''getLendPool'' []) (\<lambda>lendPoolAddress.
     await (getLendPool E (Some lendPoolAddress)) (\<lambda>lendPoolProxy.
     await (view_addr E addressesProvider ''getBNFTRegistry'' []) (\<lambda>bnftRegistryAddress.
     await (getBendUpgradeableProxy E bnftRegistryAddress) (\<lambda>bnftRegistryProxy.
     await (getBNFTRegistryImpl E None) (\<lambda>bnftRegistryImpl.
     await (getBNFTRegistryProxy E (Some bnftRegistryAddress)) (\<lambda>bnftRegistry.
     await (view_addr E bnftRegistry ''bNftGenericImpl'' []) (\<lambda>genericAddress.
     await (getBNFT E (Some genericAddress)) (\<lambda>bnftGenericImpl.
     await (encode_call E bnftRegistryImpl ''initialize''
         [Str (h_addr bnftGenericImpl), Str (BNftNamePrefix (Mocks poolConfig)),
          Str (BNftSymbolPrefix (Mocks poolConfig))]) (\<lambda>initData.
     await (verifyContract E ''BendUpgradeableProxy'' bnftRegistryProxy
         [Str (h_addr bnftRegistryImpl), Str (h_addr addressesProvider), Str initData]) (\<lambda>_.
     await (verifyContract E ''BNFT'' bnftGenericImpl []) (\<lambda>_.
     await (object_entries (getParamPerNetwork E (NftsAssets poolConfig) (n_network E))) (\<lambda>nftsAssets.
     for_each nftsAssets (verify_one_nft E (NftsConfig poolConfig) lendPoolProxy bnftRegistry))))))))))))))))"

definition verify_one_reserve ::
  "'c net \<Rightarrow> reserve_params obj \<Rightarrow> handle \<Rightarrow> handle \<Rightarrow> handle \<Rightarrow> handle \<Rightarrow> handle \<Rightarrow> string \<times> string
     \<Rightarrow> ('c, unit) prog" where
  "verify_one_reserve E configs addressesProvider lendPoolProxy lendPoolConfigurator bTokenImpl1
      debtTokenImpl = (\<lambda>(token, tokenAddress).
     case obj_get configs token of
       None \<Rightarrow> throw (JsError (''ReservesConfig not found for '' @ token @ '' token''))
     | Some tokenConfig \<Rightarrow>
         await (view E lendPoolProxy ''getReserveData'' [Str tokenAddress]) (\<lambda>reserveData.
         await (member_addr reserveData ''bTokenAddress'') (\<lambda>bTokenAddress.
         await (member_addr reserveData ''debtTokenAddress'') (\<lambda>debtTokenAddress.
         await (member_addr reserveData ''interestRateAddress'') (\<lambda>interestRateAddress.
         let strategy = r_strategy tokenConfig in
         await (getBToken E (Some bTokenAddress)) (\<lambda>bTokenContract.
         await (view E bTokenContract ''RESERVE_TREASURY_ADDRESS'' []) (\<lambda>treasury.
         await (view E bTokenContract ''UNDERLYING_ASSET_ADDRESS'' []) (\<lambda>underlying.
         await (view E bTokenContract ''decimals'' []) (\<lambda>decimals.
         await (view E bTokenContract ''name'' []) (\<lambda>name.
         await (view E bTokenContract ''symbol'' []) (\<lambda>symbol.
         await (encode_call E bTokenImpl1 ''initialize''
             [Str (h_addr addressesProvider), treasury, underlying, decimals, name, symbol])
             (\<lambda>bTokenInitEncodeData.
         await (getBendUpgradeableProxy E bTokenAddress) (\<lambda>bProxy.
         await (verifyContract E ''BendUpgradeableProxy'' bProxy
             [Str (h_addr bTokenImpl1), Str (h_addr lendPoolConfigurator), Str bTokenInitEncodeData]) (\<lambda>_.
         await (view E bTokenContract ''UNDERLYING_ASSET_ADDRESS'' []) (\<lambda>underlying2.
         await (view E bTokenContract ''decimals'' []) (\<lambda>decimals2.
         await (view E bTokenContract ''name'' []) (\<lambda>name2.
         await (view E bTokenContract ''symbol'' []) (\<lambda>symbol2.
         await (encode_call E debtTokenImpl ''initialize''
             [Str (h_addr addressesProvider), underlying2, decimals2, name2, symbol2])
             (\<lambda>debtTokenInitEncodeData.
         await (getBendUpgradeableProxy E debtTokenAddress) (\<lambda>dProxy.
         await (verifyContract E ''BendUpgradeableProxy'' dProxy
             [Str (h_addr debtTokenImpl), Str (h_addr lendPoolConfigurator), Str debtTokenInitEncodeData]) (\<lambda>_.
         await (getInterestRate E (Some interestRateAddress)) (\<lambda>rate.
         verifyContract E ''InterestRate'' rate
           [Str (h_addr addressesProvider), Str (optimalUtilizationRate strategy),
            Str (baseVariableBorrowRate strategy), Str (variableRateSlope1 strategy),
            Str (variableRateSlope2 strategy)]))))))))))))))))))))))"

definition verify_reserves :: "'c net \<Rightarrow> string \<Rightarrow> ('c, unit) prog" where
  "verify_reserves E pool =
     await set_DRE (\<lambda>_.
     await (lift_result (loadPoolConfig pool)) (\<lambda>poolConfig.
     await (getLendPoolAddressesProvider E None) (\<lambda>addressesProvider.
     await (view_addr E addressesProvider ''getLendPool'' []) (\<lambda>lendPoolAddress.
     await (getLendPool E (Some lendPoolAddress)) (\<lambda>lendPoolProxy.
     await (view_addr E addressesProvider ''getLendPoolConfigurator'' []) (\<lambda>configuratorAddress.
     await (getLendPoolConfiguratorProxy E (Some configuratorAddress)) (\<lambda>lendPoolConfigurator.
     await (getBToken E None) (\<lambda>bTokenImpl1.
     await (verifyContract E ''BToken'' bTokenImpl1 []) (\<lambda>_.
     await (getDebtToken E None) (\<lambda>debtTokenImpl.
     await (verifyContract E ''DebtToken'' debtTokenImpl []) (\<lambda>_.
     await (object_entries (getParamPerNetwork E (ReserveAssets poolConfig) (n_network E))) (\<lambda>reserveAssets.
     for_each reserveAssets (verify_one_reserve E (ReservesConfig poolConfig) addressesProvider
       lendPoolProxy lendPoolConfigurator bTokenImpl1 debtTokenImpl)))))))))))))"

definition verify_reserves_InterestRate :: "'c net \<Rightarrow> string \<Rightarrow> string \<Rightarrow> ('c, unit) prog" where
  "verify_reserves_InterestRate E pool interest =
     await set_DRE (\<lambda>_.
     await (lift_result (loadPoolConfig pool)) (\<lambda>poolConfig.
     await (getInterestRate E (Some interest)) (\<lambda>rateInstance.
     await (getLendPoolAddressesProvider E None) (\<lambda>addressesProvider.
     await (view E rateInstance ''OPTIMAL_UTILIZATION_RATE'' []) (\<lambda>optimal.
     await (view E rateInstance ''baseVariableBorrowRate'' []) (\<lambda>base.
     await (view E rateInstance ''variableRateSlope1'' []) (\<lambda>slope1.
     await (view E rateInstance ''variableRateSlope2'' []) (\<lambda>slope2.
     verifyContract E ''InterestRate'' rateInstance
       [Str (h_addr addressesProvider), Str (js_to_string optimal), Str (js_to_string base),
        Str (js_to_string slope1), Str (js_to_string slope2)]))))))))"

text \<open>The third argument of the helper is the contract path, and the task passes the libraries there.\<close>

definition verify_sc :: "'c net \<Rightarrow> string \<Rightarrow> js_value list \<Rightarrow> string option \<Rightarrow> ('c, unit) prog" where
  "verify_sc E address constructorArguments libraries =
     await set_DRE (\<lambda>_.
     await (checkVerification E) (\<lambda>_.
     verifyEtherscanContract E address constructorArguments libraries None))"

section \<open>Runs\<close>

lemma for_each_never_returns:
  assumes "a \<in> set xs" and "\<And>w. never_returns (f a) w"
  shows "never_returns (for_each xs f) w"
proof -
  from assms(1) obtain ys zs where "xs = ys @ a # zs" by (auto dest: split_list)
  with assms(2) show ?thesis
    by (auto simp: for_each_append intro: never_returns_awaitI never_returns_await_left)
qed

lemma verify_one_nft_missing:
  "obj_get configs token = None \<Longrightarrow> never_returns (verify_one_nft E configs p r (token, a)) w"
  by (simp add: verify_one_nft_def)

context effect_rel begin

lemma keeps_object_entries [keeps_intros]: "keeps R (object_entries o1)"
  unfolding object_entries_def by (intro keeps_intros)

lemma keeps_verify_getters [keeps_intros]:
  "keeps R (getBendProtocolDataProvider E' a)" "keeps R (getLendPoolImpl E' a)"
  "keeps R (getLendPoolLoanImpl E' a)" "keeps R (getLendPoolConfiguratorImpl E' a)"
  "keeps R (getWalletProvider E' a)" "keeps R (getUIPoolDataProvider E' a)"
  "keeps R (getBendCollectorImpl E' a)" "keeps R (getReserveOracleImpl E' a)"
  "keeps R (getNFTOracleImpl E' a)" "keeps R (getWETHGatewayImpl E' a)"
  "keeps R (getPunkGatewayImpl E' a)" "keeps R (getGenericLogic E' a)" "keeps R (getReserveLogic E' a)"
  "keeps R (getSupplyLogic E' a)" "keeps R (getBorrowLogic E' a)" "keeps R (getLiquidateLogic E' a)"
  "keeps R (getWrappedPunk E' a)" "keeps R (getWETHMocked E' a)" "keeps R (getBNFT E' a)"
  "keeps R (getBNFTRegistryImpl E' a)" "keeps R (getBToken E' a)" "keeps R (getDebtToken E' a)"
  "keeps R (getInterestRate E' a)"
  unfolding getter_defs by (rule keeps_connect_or_db)+

lemma keeps_verify_tasks [keeps_intros]:
  assumes "\<And>k. k \<in> set contract_ids \<Longrightarrow> K k"
  shows "keeps R (verify_general E all1 pool)" "keeps R (verify_libraries E pool)"
    "keeps R (verify_nfts E pool)" "keeps R (verify_reserves E pool)"
proof -
  show "keeps R (verify_general E all1 pool)"
    unfolding verify_general_def verify_general_all_def verify_provider_proxy_def Let_def
    by (intro keeps_intros assms)
  show "keeps R (verify_libraries E pool)"
    unfolding verify_libraries_def by (intro keeps_intros assms)
  show "keeps R (verify_nfts E pool)"
    unfolding verify_nfts_def verify_one_nft_def by (intro keeps_intros assms)
  show "keeps R (verify_reserves E pool)"
    unfolding verify_reserves_def verify_one_reserve_def Let_def by (intro keeps_intros assms)
qed

end

end
