(* ===== verification/AdminTasks.thy ===== *)
theory AdminTasks
  imports VerifyTasks
begin

text \<open>
  \<^verbatim>\<open>tasks/misc\<close> and \<^verbatim>\<open>tasks/helpers\<close>: operating a market that is up.  New
  implementations and upgrades, the switches of the pool administrator, the oracle
  administrator, and adding assets.  The pool switches call the configurator by method
  names; the names the contract offers are \<open>LendPoolConfigurator_functions\<close>, read off
  \<^verbatim>\<open>contracts/protocol/LendPoolConfigurator.sol\<close>.
\<close>

section \<open>Upgrading one implementation\<close>

text \<open>\<^verbatim>\<open>eContractid[contract]\<close> printed into a key; a name outside the enumeration prints \<^verbatim>\<open>undefined\<close>.\<close>

definition contract_key :: "string \<Rightarrow> string" where
  "contract_key contract = (case obj_get eContractid contract of
     Some k \<Rightarrow> k | None \<Rightarrow> ''undefined'')"

definition dev_upgrade_implementation ::
  "'c net \<Rightarrow> string \<Rightarrow> string \<Rightarrow> string \<Rightarrow> string \<Rightarrow> string option \<Rightarrow> ('c, unit) prog" where
  "dev_upgrade_implementation E pool contract proxy impl admin0 =
     await set_DRE (\<lambda>_.
     await (lift_result (loadPoolConfig pool)) (\<lambda>poolConfig.
     await (getBendUpgradeableProxy E proxy) (\<lambda>bendProxy.
     let admin = (if admin0 = None \<or> admin0 = Some '''' then ''BendProxyAdminPool'' else the admin0) in
     await (usable_proxy_admin E admin ''Invalid pool proxy admin in config'') (\<lambda>proxyAdmin.
     await (view_owner E proxyAdmin) (\<lambda>proxyAdminOwnerAddress.
     await (send E (connect_signer (Some proxyAdminOwnerAddress) proxyAdmin) ''upgrade''
         [Str (h_addr bendProxy), Str impl]) (\<lambda>_.
     insertContractAddressInDb (contract_key contract) proxy))))))"

text \<open>
  Hardhat refuses to run a task whose declared parameter is missing.  The task for a new
  wrapper gateway passes \<^verbatim>\<open>id\<close> where \<^verbatim>\<open>contract\<close> is declared.
\<close>

definition full_new_wrapper_gateway_impl :: "'c net \<Rightarrow> string \<Rightarrow> string \<Rightarrow> bool \<Rightarrow> ('c, unit) prog" where
  "full_new_wrapper_gateway_impl E pool id1 upgrade =
     await set_DRE (\<lambda>_.
     await (lift_result (loadPoolConfig pool)) (\<lambda>poolConfig.
     await (getWrapperGateway E id1 None) (\<lambda>gatewayProxy.
     await (deployWrapperGatewayImpl E id1 True) (\<lambda>gatewayImpl.
     when_do upgrade (throw (JsError ''HH306: the parameter contract is missing''))))))"

section \<open>Deploying a new implementation\<close>

text \<open>A contract the addresses provider upgrades itself.\<close>

definition new_provider_impl ::
  "'c net \<Rightarrow> handle \<Rightarrow> ('c, unit) prog \<Rightarrow> ('c, handle) prog \<Rightarrow> bool \<Rightarrow> string \<Rightarrow> string \<Rightarrow> string
     \<Rightarrow> ('c, unit) prog" where
  "new_provider_impl E addressesProvider deployLibraries deployImpl upgrade setter getter id1 =
     await deployLibraries (\<lambda>_.
     await deployImpl (\<lambda>impl.
     await (when_do upgrade (send E addressesProvider setter [Str (h_addr impl), Arr []])) (\<lambda>_.
     await (view_addr E addressesProvider getter []) (\<lambda>proxyAddress.
     insertContractAddressInDb id1 proxyAddress))))"

text \<open>A contract behind a proxy of its own, whose address a script finds.\<close>

definition new_proxied_impl ::
  "'c net \<Rightarrow> string \<Rightarrow> string \<Rightarrow> ('c, handle) prog \<Rightarrow> bool \<Rightarrow> ('c, string) prog \<Rightarrow> string
     \<Rightarrow> ('c, unit) prog" where
  "new_proxied_impl E pool contract deployImpl upgrade findProxy id1 =
     await deployImpl (\<lambda>impl.
     await findProxy (\<lambda>proxyAddress.
     await (insertContractAddressInDb id1 proxyAddress) (\<lambda>_.
     when_do upgrade
       (dev_upgrade_implementation E pool contract proxyAddress (h_addr impl) None))))"

text \<open>A contract that is replaced, not upgraded.\<close>

definition new_plain_impl ::
  "'c net \<Rightarrow> handle \<Rightarrow> ('c, handle) prog \<Rightarrow> bool \<Rightarrow> string \<Rightarrow> ('c, unit) prog" where
  "new_plain_impl E addressesProvider deployImpl upgrade setter =
     await deployImpl (\<lambda>contractImpl.
     when_do upgrade (send E addressesProvider setter [Str (h_addr contractImpl)]))"

definition dev_deploy_new_implementation ::
  "'c net \<Rightarrow> string \<Rightarrow> bool \<Rightarrow> string \<Rightarrow> bool \<Rightarrow> ('c, unit) prog" where
  "dev_deploy_new_implementation E pool verify contract upgrade =
     await set_DRE (\<lambda>_.
     await (lift_result (loadPoolConfig pool)) (\<lambda>poolConfig.
     await (getLendPoolAddressesProvider E None) (\<lambda>addressesProviderRaw.
     await (view_owner E addressesProviderRaw) (\<lambda>owner.
     let addressesProvider = connect_signer (getEthersSignerByAddress owner) addressesProviderRaw in
     await (when_do (contract = ''LendPool'')
         (new_provider_impl E addressesProvider (deployLendPoolLibraries E verify)
            (deployLendPool E verify) upgrade ''setLendPoolImpl'' ''getLendPool'' ''LendPool'')) (\<lambda>_.
     await (when_do (contract = ''LendPoolConfigurator'')
         (new_provider_impl E addressesProvider (deployConfiguratorLibraries E verify)
            (deployLendPoolConfigurator E verify) upgrade ''setLendPoolConfiguratorImpl''
            ''getLendPoolConfigurator'' ''LendPoolConfigurator'')) (\<lambda>_.
     await (when_do (contract = ''LendPoolLoan'')
         (new_provider_impl E addressesProvider (ret ()) (deployLendPoolLoan E verify) upgrade
            ''setLendPoolLoanImpl'' ''getLendPoolLoan'' ''LendPoolLoan'')) (\<lambda>_.
     await (when_do (contract = ''ReserveOracle'')
         (new_proxied_impl E pool contract (deployReserveOracle E (Bool verify) False) upgrade
            (view_addr E addressesProvider ''getReserveOracle'' []) ''ReserveOracle'')) (\<lambda>_.
     await (when_do (contract = ''NFTOracle'')
         (new_proxied_impl E pool contract (deployNFTOracle E verify) upgrade
            (view_addr E addressesProvider ''getNFTOracle'' []) ''NFTOracle'')) (\<lambda>_.
     await (when_do (contract = ''WETHGateway'')
         (await (getWrappedNativeTokenAddress E poolConfig) (\<lambda>wethAddress.
          new_proxied_impl E pool contract (deployWETHGateway E verify) upgrade
            (view_addr E addressesProvider ''getAddress'' [Str ADDRESS_ID_WETH_GATEWAY])
            ''WETHGateway''))) (\<lambda>_.
     await (when_do (contract = ''PunkGateway'')
         (await (getWETHGateway E None) (\<lambda>wethGateWay.
          await (getCryptoPunksMarketAddress E poolConfig) (\<lambda>punkAddress.
          await (getWrappedPunkTokenAddress E poolConfig punkAddress) (\<lambda>wpunkAddress.
          new_proxied_impl E pool contract (deployPunkGateway E verify) upgrade
            (view_addr E addressesProvider ''getAddress'' [Str ADDRESS_ID_PUNK_GATEWAY])
            ''PunkGateway''))))) (\<lambda>_.
     await (when_do (contract = ''KodaGateway'')
         (await (getContractAddressInDb (contract_key contract)) (\<lambda>proxyAddress.
          await (deployWrapperGateway E (contract_key contract) verify) (\<lambda>kodaGatewayImpl.
          await (insertContractAddressInDb (contract_key contract) proxyAddress) (\<lambda>_.
          when_do upgrade (dev_upgrade_implementation E pool contract proxyAddress
            (h_addr kodaGatewayImpl) (Some ''BendProxyAdminWTL''))))))) (\<lambda>_.
     await (when_do (contract = ''BendProtocolDataProvider'')
         (new_plain_impl E addressesProvider
            (deployBendProtocolDataProvider E (h_addr addressesProvider) verify) upgrade
            ''setBendDataProvider'')) (\<lambda>_.
     await (when_do (contract = ''UiPoolDataProvider'')
         (await (view_addr E addressesProvider ''getReserveOracle'' []) (\<lambda>reserveOracle.
          await (view_addr E addressesProvider ''getNFTOracle'' []) (\<lambda>nftOracle.
          new_plain_impl E addressesProvider (deployUiPoolDataProvider E reserveOracle nftOracle verify)
            upgrade ''setUIDataProvider'')))) (\<lambda>_.
     await (when_do (contract = ''WalletBalancerProvider'')
         (new_plain_impl E addressesProvider (deployWalletBalancerProvider E verify) upgrade
            ''setWalletBalanceProvider'')) (\<lambda>_.
     when_do (contract = ''BendCollector'')
         (await (deployBendCollector E (Arr []) verify) (\<lambda>_. ret ())))))))))))))))))"

definition dev_upgrade_all_debtokens :: "'c net \<Rightarrow> bool \<Rightarrow> string \<Rightarrow> ('c, unit) prog" where
  "dev_upgrade_all_debtokens E verify pool =
     await set_DRE (\<lambda>_.
     await (lift_result (loadPoolConfig pool)) (\<lambda>poolConfig.
     await (getLendPoolAddressesProvider E None) (\<lambda>addressesProviderRaw.
     await (view_addr E addressesProviderRaw ''getPoolAdmin'' []) (\<lambda>poolAdminAddress.
     let poolAdminSigner = getEthersSignerByAddress poolAdminAddress in
     await (view_addr E addressesProviderRaw ''getLendPoolConfigurator'' []) (\<lambda>cfgAddress.
     await (getLendPoolConfiguratorProxy E (Some cfgAddress)) (\<lambda>lendPoolConfigurator.
     await (view_addr E addressesProviderRaw ''getBendDataProvider'' []) (\<lambda>dpAddress.
     await (getBendProtocolDataProvider E (Some dpAddress)) (\<lambda>protocolDataProvider.
     await (deployGenericDebtToken E verify) (\<lambda>debtTokenImpl.
     await (view E protocolDataProvider ''getAllReservesTokenDatas'' []) (\<lambda>allReserves.
     await (for_fold (case allReserves of Arr xs \<Rightarrow> xs | _ \<Rightarrow> []) (\<lambda>reserve inputs.
         await (member_addr reserve ''tokenAddress'') (\<lambda>a.
         ret (inputs @ [Obj [(''asset'', Str a), (''implementation'', Str (h_addr debtTokenImpl)),
                             (''encodedCallData'', Arr [])]]))) []) (\<lambda>inputs.
     send E (connect_signer poolAdminSigner lendPoolConfigurator) ''updateDebtToken'' [Arr inputs])))))))))))"

definition dev_transfer_owner :: "'c net \<Rightarrow> string \<Rightarrow> string \<Rightarrow> string \<Rightarrow> ('c, unit) prog" where
  "dev_transfer_owner E pool contract target =
     await set_DRE (\<lambda>_.
     await (lift_result (loadPoolConfig pool)) (\<lambda>poolConfig.
     await (getLendPoolAddressesProvider E None) (\<lambda>addressesProvider.
     let contractInst = connect_at E ''Ownable'' contract in
     await (view_owner E contractInst) (\<lambda>currentOwnerAddress.
     send E (connect_signer (getEthersSignerByAddress currentOwnerAddress) contractInst)
       ''transferOwnership'' [Str target]))))"

section \<open>The pool administrator\<close>

definition LendPoolConfigurator_functions :: "string list" where
  "LendPoolConfigurator_functions =
     [''RISK_ADMIN'', ''initialize'', ''batchInitReserve'', ''batchInitNft'', ''updateBToken'',
      ''updateDebtToken'', ''setBorrowingFlagOnReserve'', ''setActiveFlagOnReserve'',
      ''setFreezeFlagOnReserve'', ''setReserveFactor'', ''setReserveInterestRateAddress'',
      ''batchConfigReserve'', ''setReserveMaxUtilizationRate'', ''setActiveFlagOnNft'',
      ''setFreezeFlagOnNft'', ''configureNftAsCollateral'', ''configureNftAsAuction'',
      ''setNftRedeemThreshold'', ''setNftMinBidFine'', ''setNftMaxSupplyAndTokenId'',
      ''batchConfigNft'', ''setNftMaxCollateralCap'', ''setMaxNumberOfReserves'',
      ''setMaxNumberOfNfts'', ''setPoolPause'', ''setPoolPausedTime'',
      ''approveLoanRepaidInterceptor'', ''purgeLoanRepaidInterceptor'', ''approveFlashLoanLocker'',
      ''purgeFlashLoanLocking'', ''getTokenImplementation'']"

text \<open>
  One of the four switches: read the flag from the data provider, do nothing when it is as
  wanted, call the one or the other method.  The \<^verbatim>\<open>state\<close> parameter is a number.
\<close>

definition pool_admin_switch ::
  "'c net \<Rightarrow> string \<Rightarrow> nat \<Rightarrow> string \<Rightarrow> string \<Rightarrow> string \<Rightarrow> string \<Rightarrow> ('c, unit) prog" where
  "pool_admin_switch E asset state configMethod field onMethod offMethod =
     await set_DRE (\<lambda>_.
     let wantState = (state \<noteq> 0) in
     await (getLendPoolAddressesProvider E None) (\<lambda>addressesProvider.
     await (view_addr E addressesProvider ''getPoolAdmin'' []) (\<lambda>pmAdmin.
     await (view_addr E addressesProvider ''getLendPoolConfigurator'' []) (\<lambda>cfgAddress.
     await (getLendPoolConfiguratorProxy E (Some cfgAddress)) (\<lambda>lendPoolConfiguratorProxy.
     await (view_addr E addressesProvider ''getBendDataProvider'' []) (\<lambda>dpAddress.
     await (getBendProtocolDataProvider E (Some dpAddress)) (\<lambda>bendDataProvider.
     await (view E bendDataProvider configMethod [Str asset]) (\<lambda>config.
     let currentState = (case config of Obj o1 \<Rightarrow> obj_get o1 field | _ \<Rightarrow> None) in
     if currentState = Some (Bool wantState) then ret ()
     else
       await (send E (connect_signer (Some pmAdmin) lendPoolConfiguratorProxy)
           (if wantState then onMethod else offMethod) [Str asset]) (\<lambda>_.
       await (view E bendDataProvider configMethod [Str asset]) (\<lambda>_. ret ()))))))))))"

definition pool_admin_set_reserve_active :: "'c net \<Rightarrow> string \<Rightarrow> string \<Rightarrow> nat \<Rightarrow> ('c, unit) prog" where
  "pool_admin_set_reserve_active E pool asset state =
     pool_admin_switch E asset state ''getReserveConfigurationData'' ''isActive''
       ''activateReserve'' ''deactivateReserve''"

definition pool_admin_set_reserve_frozen :: "'c net \<Rightarrow> string \<Rightarrow> string \<Rightarrow> nat \<Rightarrow> ('c, unit) prog" where
  "pool_admin_set_reserve_frozen E pool asset state =
     pool_admin_switch E asset state ''getReserveConfigurationData'' ''isFrozen''
       ''freezeReserve'' ''unfreezeReserve''"

definition pool_admin_set_nft_active :: "'c net \<Rightarrow> string \<Rightarrow> string \<Rightarrow> nat \<Rightarrow> ('c, unit) prog" where
  "pool_admin_set_nft_active E pool asset state =
     pool_admin_switch E asset state ''getNftConfigurationData'' ''isActive''
       ''activateNft'' ''deactivateNft''"

definition pool_admin_set_nft_frozen :: "'c net \<Rightarrow> string \<Rightarrow> string \<Rightarrow> nat \<Rightarrow> ('c, unit) prog" where
  "pool_admin_set_nft_frozen E pool asset state =
     pool_admin_switch E asset state ''getNftConfigurationData'' ''isFrozen''
       ''freezeNft'' ''unfreezeNft''"

definition pool_admin_set_pause :: "'c net \<Rightarrow> string \<Rightarrow> nat \<Rightarrow> ('c, unit) prog" where
  "pool_admin_set_pause E pool state =
     await set_DRE (\<lambda>_.
     let wantPause = (state \<noteq> 0) in
     await (getLendPoolAddressesProvider E None) (\<lambda>addressesProvider.
     await (view_addr E addressesProvider ''getEmergencyAdmin'' []) (\<lambda>emAdmin.
     await (view_addr E addressesProvider ''getLendPoolConfigurator'' []) (\<lambda>cfgAddress.
     await (getLendPoolConfiguratorProxy E (Some cfgAddress)) (\<lambda>lendPoolConfiguratorProxy.
     await (view_addr E addressesProvider ''getLendPool'' []) (\<lambda>poolAddress.
     await (getLendPool E (Some poolAddress)) (\<lambda>lendPoolProxy.
     await (view E lendPoolProxy ''paused'' []) (\<lambda>currentPause.
     if currentPause = Bool wantPause then ret ()
     else
       await (send E (connect_signer (Some emAdmin) lendPoolConfiguratorProxy) ''setPoolPause''
           [Bool wantPause]) (\<lambda>_.
       await (view E lendPoolProxy ''paused'' []) (\<lambda>_. ret ()))))))))))"

definition pool_admin_update_nfts_config :: "'c net \<Rightarrow> string \<Rightarrow> ('c, unit) prog" where
  "pool_admin_update_nfts_config E pool =
     await set_DRE (\<lambda>_.
     await (lift_result (loadPoolConfig pool)) (\<lambda>poolConfig.
     await (getLendPoolAddressesProvider E None) (\<lambda>addressesProvider.
     await (view_addr E addressesProvider ''getPoolAdmin'' []) (\<lambda>poolAdminAddress.
     case getParamPerNetwork E (NftsAssets poolConfig) (n_network E) of
       None \<Rightarrow> throw (JsError ''NFT assets is undefined. Check NftsAssets configuration at config directory'')
     | Some nftsAssets \<Rightarrow>
         configureNftsByHelper E (NftsConfig poolConfig) nftsAssets (Some poolAdminAddress)))))"

definition pool_admin_update_reserves_config :: "'c net \<Rightarrow> string \<Rightarrow> ('c, unit) prog" where
  "pool_admin_update_reserves_config E pool =
     await set_DRE (\<lambda>_.
     await (lift_result (loadPoolConfig pool)) (\<lambda>poolConfig.
     await (getLendPoolAddressesProvider E None) (\<lambda>addressesProvider.
     await (view_addr E addressesProvider ''getPoolAdmin'' []) (\<lambda>poolAdminAddress.
     case getParamPerNetwork E (ReserveAssets poolConfig) (n_network E) of
       None \<Rightarrow> throw (JsError ''Reserve assets is undefined. Check ReserveAssets configuration at config directory'')
     | Some reservesAssets \<Rightarrow>
         configureReservesByHelper E (ReservesConfig poolConfig) reservesAssets (Some poolAdminAddress)))))"

section \<open>The oracle administrator\<close>

definition oracle_admin_set_oracle_proxy :: "'c net \<Rightarrow> string \<Rightarrow> nat \<Rightarrow> string \<Rightarrow> ('c, unit) prog" where
  "oracle_admin_set_oracle_proxy E pool type1 proxy =
     await set_DRE (\<lambda>_.
     await (lift_result (loadPoolConfig pool)) (\<lambda>poolConfig.
     await (getLendPoolAddressesProvider E None) (\<lambda>addressesProvider.
     await (view_owner E addressesProvider) (\<lambda>owner.
     let ownerSigner = getEthersSignerByAddress owner in
     if type1 = 1 then send E (connect_signer ownerSigner addressesProvider) ''setNFTOracle'' [Str proxy]
     else if type1 = 2
     then send E (connect_signer ownerSigner addressesProvider) ''setReserveOracle'' [Str proxy]
     else throw (JsError ''invalid type'')))))"

definition oracle_admin_set_nft_assets :: "'c net \<Rightarrow> string \<Rightarrow> string \<Rightarrow> ('c, unit) prog" where
  "oracle_admin_set_nft_assets E pool assets =
     await set_DRE (\<lambda>_.
     await (lift_result (loadPoolConfig pool)) (\<lambda>poolConfig.
     await (getNFTOracle E None) (\<lambda>nftOracle.
     await (view_owner E nftOracle) (\<lambda>owner.
     let ownerSigner = getEthersSignerByAddress owner; assetsArray = js_split (CHR '','') assets in
     await (for_each assetsArray (\<lambda>asset.
         await (view E nftOracle ''nftPriceFeedMap'' [Str asset]) (\<lambda>isExisted.
         if isExisted = Bool True then throw (JsError (''Asset '' @ asset @ '' existed in oracle already''))
         else await (getIErc721Detailed E (Some asset)) (\<lambda>nftContract.
           await (view E nftContract ''symbol'' []) (\<lambda>nftSymbol.
           when_do (length (js_to_string nftSymbol) \<le> 0)
             (throw (JsError (''Asset '' @ asset @ '' has no symbol'')))))))) (\<lambda>_.
     send E (connect_signer ownerSigner nftOracle) ''setAssets'' [Arr (map Str assetsArray)])))))"

definition oracle_admin_set_price_feed_admin :: "'c net \<Rightarrow> string \<Rightarrow> string \<Rightarrow> ('c, unit) prog" where
  "oracle_admin_set_price_feed_admin E pool feedAdmin =
     await set_DRE (\<lambda>_.
     await (lift_result (loadPoolConfig pool)) (\<lambda>poolConfig.
     await (getLendPoolAddressesProvider E None) (\<lambda>addressesProvider.
     await (view_addr E addressesProvider ''getNFTOracle'' []) (\<lambda>a.
     await (getNFTOracle E (Some a)) (\<lambda>nftOracleProxy.
     await (view E nftOracleProxy ''priceFeedAdmin'' []) (\<lambda>_.
     await (send E nftOracleProxy ''setPriceFeedAdmin'' [Str feedAdmin]) (\<lambda>_.
     await (view E nftOracleProxy ''priceFeedAdmin'' []) (\<lambda>_. ret ()))))))))"

definition oracle_admin_feed_init_nft_price :: "'c net \<Rightarrow> string \<Rightarrow> ('c, unit) prog" where
  "oracle_admin_feed_init_nft_price E pool =
     await set_DRE (\<lambda>_.
     await (lift_result (loadPoolConfig pool)) (\<lambda>poolConfig.
     await (getLendPoolAddressesProvider E None) (\<lambda>addressesProvider.
     await (view_addr E addressesProvider ''getNFTOracle'' []) (\<lambda>a.
     await (getNFTOracle E (Some a)) (\<lambda>nftOracleProxy.
     await (view_addr E nftOracleProxy ''priceFeedAdmin'' []) (\<lambda>feedAdminAddress.
     let feedAdminSigner = getEthersSignerByAddress feedAdminAddress in
     await (object_entries (getParamPerNetwork E (NftsAssets poolConfig) (n_network E))) (\<lambda>nftsAssets.
     for_each nftsAssets (\<lambda>(nftSymbol, nftAddress).
       send E (connect_signer feedAdminSigner nftOracleProxy) ''setAssetData''
         [Str nftAddress, val_of (obj_get MOCK_NFT_AGGREGATORS_PRICES nftSymbol)]))))))))"

definition oracle_admin_add_usd_eth_asset :: "'c net \<Rightarrow> string \<Rightarrow> ('c, unit) prog" where
  "oracle_admin_add_usd_eth_asset E pool =
     await set_DRE (\<lambda>_.
     await (lift_result (loadPoolConfig pool)) (\<lambda>poolConfig.
     await (getLendPoolAddressesProvider E None) (\<lambda>addressesProvider.
     await (view_addr E addressesProvider ''getReserveOracle'' []) (\<lambda>a.
     await (getReserveOracle E (Some a)) (\<lambda>oracle.
     await (view_owner E oracle) (\<lambda>owner.
     await (object_entries (getParamPerNetwork E (ReserveAggregators poolConfig) (n_network E))) (\<lambda>aggregators.
     await (send E (connect_signer (Some owner) oracle) ''addAggregator''
         [Str USD_ADDRESS, val_of (obj_get aggregators ''USD'')]) (\<lambda>_.
     await (view E oracle ''getAssetPrice'' [Str USD_ADDRESS]) (\<lambda>_. ret ())))))))))"

section \<open>Adding assets\<close>

text \<open>The strategy of an asset: by the name given, or else by its symbol.\<close>

definition chosen_params :: "string option \<Rightarrow> 'p obj \<Rightarrow> 'p obj \<Rightarrow> string \<Rightarrow> 'p option" where
  "chosen_params strategy strategies config symbol =
     (if strategy \<noteq> None \<and> strategy \<noteq> Some '''' then obj_get strategies (the strategy)
      else obj_get config symbol)"

definition helpers_add_nft_to_oracle :: "'c net \<Rightarrow> string \<Rightarrow> string \<Rightarrow> ('c, unit) prog" where
  "helpers_add_nft_to_oracle E pool asset =
     await set_DRE (\<lambda>_.
     await (lift_result (loadPoolConfig pool)) (\<lambda>poolConfig.
     await (getLendPoolAddressesProvider E None) (\<lambda>addressesProvider.
     await (view_addr E addressesProvider ''getNFTOracle'' []) (\<lambda>a.
     await (getNFTOracle E (Some a)) (\<lambda>nftOracle.
     await (view_owner E nftOracle) (\<lambda>owner.
     await (view_addr E nftOracle ''priceFeedAdmin'' []) (\<lambda>feedAdmin.
     await (view E nftOracle ''nftPriceFeedMap'' [Str asset]) (\<lambda>isExisted.
     if isExisted = Bool True then throw (JsError ''Asset existed in oracle already'')
     else
     await (getIErc721Detailed E (Some asset)) (\<lambda>nftContract.
     await (view E nftContract ''symbol'' []) (\<lambda>nftSymbol.
     case obj_get (AllNftsInitialPrices (Mocks poolConfig)) (js_to_string nftSymbol) of
       None \<Rightarrow> throw (JsError ''Invalid nft init price in pool config'')
     | Some nftPrice \<Rightarrow>
         send E (connect_signer (getEthersSignerByAddress owner) nftOracle) ''addAsset'' [Str asset]))))))))))"

text \<open>The BNFT of an asset, refused when it does not exist.\<close>

definition bnft_created :: "'c net \<Rightarrow> handle \<Rightarrow> string \<Rightarrow> ('c, unit) prog" where
  "bnft_created E addressesProvider asset =
     await (view_addr E addressesProvider ''getBNFTRegistry'' []) (\<lambda>bnftRegistryProxyAddress.
     await (getBNFTRegistryProxy E (Some bnftRegistryProxyAddress)) (\<lambda>bnftRegistry.
     await (view E bnftRegistry ''getBNFTAddresses'' [Str asset]) (\<lambda>addrs.
     await (member_addr addrs ''bNftProxy'') (\<lambda>bNftProxy.
     when_do (\<not> notFalsyOrZeroAddress E (Some bNftProxy))
       (throw (JsError ''The BNFT of asset is not created''))))))"

definition helpers_add_nft_to_pool :: "'c net \<Rightarrow> string \<Rightarrow> string \<Rightarrow> string option \<Rightarrow> ('c, unit) prog" where
  "helpers_add_nft_to_pool E pool asset strategy =
     await set_DRE (\<lambda>_.
     await (lift_result (loadPoolConfig pool)) (\<lambda>poolConfig.
     await (getLendPoolAddressesProvider E None) (\<lambda>addressesProvider.
     await (view_addr E addressesProvider ''getPoolAdmin'' []) (\<lambda>poolAdmin.
     let poolAdminSigner = getEthersSignerByAddress poolAdmin in
     await (view_addr E addressesProvider ''getLendPoolConfigurator'' []) (\<lambda>cfgAddress.
     await (getLendPoolConfiguratorProxy E (Some cfgAddress)) (\<lambda>lendPoolConfiguratorProxy.
     await (bnft_created E addressesProvider asset) (\<lambda>_.
     await (view_addr E addressesProvider ''getAddress'' [Str ADDRESS_ID_WETH_GATEWAY]) (\<lambda>gwAddress.
     await (getWETHGateway E (Some gwAddress)) (\<lambda>wethGateway.
     await (getIErc721Detailed E (Some asset)) (\<lambda>nftContract.
     await (view E nftContract ''symbol'' []) (\<lambda>nftSymbol.
     case chosen_params strategy strategyNftParams (NftsConfig poolConfig) (js_to_string nftSymbol) of
       None \<Rightarrow> throw (JsError ''The strategy of asset is not exist'')
     | Some nftParam \<Rightarrow>
         let configurator = connect_signer poolAdminSigner lendPoolConfiguratorProxy in
         await (send E configurator ''batchInitNft'' [Arr [init_nft_input asset]]) (\<lambda>_.
         await (send E configurator ''configureNftAsCollateral''
             [Str asset, Str (baseLTVAsCollateral nftParam), Str (liquidationThreshold nftParam),
              Str (liquidationBonus nftParam)]) (\<lambda>_.
         await (send E configurator ''batchConfigNft'' [Arr [config_nft_input asset nftParam]]) (\<lambda>_.
         send E wethGateway ''authorizeLendPoolNFT'' [Arr [Str asset]]))))))))))))))"

definition helpers_encode_add_nft_to_pool ::
  "'c net \<Rightarrow> string \<Rightarrow> string \<Rightarrow> string option \<Rightarrow> ('c, string \<times> string) prog" where
  "helpers_encode_add_nft_to_pool E pool asset strategy =
     await set_DRE (\<lambda>_.
     await (lift_result (loadPoolConfig pool)) (\<lambda>poolConfig.
     await (getLendPoolAddressesProvider E None) (\<lambda>addressesProvider.
     await (view_addr E addressesProvider ''getPoolAdmin'' []) (\<lambda>poolAdmin.
     await (view_addr E addressesProvider ''getLendPoolConfigurator'' []) (\<lambda>cfgAddress.
     await (getLendPoolConfiguratorProxy E (Some cfgAddress)) (\<lambda>lendPoolConfiguratorProxy.
     await (bnft_created E addressesProvider asset) (\<lambda>_.
     await (getIErc721Detailed E (Some asset)) (\<lambda>nftContract.
     await (view E nftContract ''symbol'' []) (\<lambda>nftSymbol.
     case chosen_params strategy strategyNftParams (NftsConfig poolConfig) (js_to_string nftSymbol) of
       None \<Rightarrow> throw (JsError ''The strategy of asset is not exist'')
     | Some nftParam \<Rightarrow>
         await (encode_call E lendPoolConfiguratorProxy ''batchInitNft'' [Arr [init_nft_input asset]])
           (\<lambda>batchInitNftEncodeData.
         await (encode_call E lendPoolConfiguratorProxy ''batchConfigNft''
             [Arr [config_nft_input asset nftParam]]) (\<lambda>batchCfgNftEncodeData.
         ret (batchInitNftEncodeData, batchCfgNftEncodeData))))))))))))"

definition helpers_encode_authorize_lendpool_nft ::
  "'c net \<Rightarrow> string \<Rightarrow> string \<Rightarrow> ('c, string) prog" where
  "helpers_encode_authorize_lendpool_nft E pool assets =
     await set_DRE (\<lambda>_.
     await (lift_result (loadPoolConfig pool)) (\<lambda>poolConfig.
     await (getLendPoolAddressesProvider E None) (\<lambda>addressesProvider.
     await (view_addr E addressesProvider ''getAddress'' [Str ADDRESS_ID_WETH_GATEWAY]) (\<lambda>gwAddress.
     await (getWETHGateway E (Some gwAddress)) (\<lambda>wethGateway.
     let assetSplits = js_split (CHR '','') assets in
     encode_call E wethGateway ''authorizeLendPoolNFT'' [Arr (map Str assetSplits)])))))"

text \<open>The task only reports what it would send: its transactions are commented out.\<close>

definition helpers_add_reserve_to_pool ::
  "'c net \<Rightarrow> string \<Rightarrow> string \<Rightarrow> string \<Rightarrow> string option \<Rightarrow> ('c, js_value \<times> js_value) prog" where
  "helpers_add_reserve_to_pool E pool asset interest strategy =
     await set_DRE (\<lambda>_.
     await (lift_result (loadPoolConfig pool)) (\<lambda>poolConfig.
     await (getLendPoolAddressesProvider E None) (\<lambda>addressesProvider.
     await (view_addr E addressesProvider ''getPoolAdmin'' []) (\<lambda>poolAdmin.
     await (view_addr E addressesProvider ''getLendPoolConfigurator'' []) (\<lambda>cfgAddress.
     await (getLendPoolConfiguratorProxy E (Some cfgAddress)) (\<lambda>lendPoolConfiguratorProxy.
     let treasuryAddress =
           getParamPerNetwork E (ReserveFactorCollectorAddress poolConfig) (n_network E) in
     await (view_addr E addressesProvider ''getAddress'' [Str ADDRESS_ID_PUNK_GATEWAY]) (\<lambda>gwAddress.
     await (getPunkGateway E (Some gwAddress)) (\<lambda>punkGateway.
     await (getBToken E None) (\<lambda>genericBTokenImpl.
     await (getDebtToken E None) (\<lambda>genericDebtTokenImpl.
     await (getIErc20Detailed E (Some asset)) (\<lambda>reserveContract.
     await (view E reserveContract ''name'' []) (\<lambda>reserveName.
     await (view E reserveContract ''symbol'' []) (\<lambda>reserveSymbol.
     await (view E reserveContract ''decimals'' []) (\<lambda>decimals.
     case chosen_params strategy strategyReserveParams (ReservesConfig poolConfig)
         (js_to_string reserveSymbol) of
       None \<Rightarrow> throw (JsError ''The strategy of asset is not exist'')
     | Some reserveParam \<Rightarrow>
         if reserveDecimals reserveParam \<noteq> js_to_string decimals
         then throw (JsError ''The decimals of asset is not match'')
         else
         await (getInterestRate E (Some interest)) (\<lambda>rateInstance.
         let symbol = js_to_string reserveSymbol in
         ret (Obj [(''bTokenImpl'', Str (h_addr genericBTokenImpl)),
                   (''debtTokenImpl'', Str (h_addr genericDebtTokenImpl)),
                   (''underlyingAssetDecimals'', Str (reserveDecimals reserveParam)),
                   (''interestRateAddress'', Str (h_addr rateInstance)),
                   (''underlyingAsset'', Str asset),
                   (''treasury'', val_of treasuryAddress),
                   (''underlyingAssetName'', reserveName),
                   (''bTokenName'', Str (BTokenNamePrefix poolConfig @ '' '' @ symbol)),
                   (''bTokenSymbol'', Str (BTokenSymbolPrefix poolConfig @ symbol)),
                   (''debtTokenName'', Str (DebtTokenNamePrefix poolConfig @ '' '' @ symbol)),
                   (''debtTokenSymbol'', Str (DebtTokenSymbolPrefix poolConfig @ symbol))],
              config_reserve_input asset (reserveFactor reserveParam)))))))))))))))))"

definition helpers_deploy_new_interest_rate_for_symbol ::
  "'c net \<Rightarrow> bool \<Rightarrow> string \<Rightarrow> string \<Rightarrow> string option \<Rightarrow> ('c, unit) prog" where
  "helpers_deploy_new_interest_rate_for_symbol E verify pool symbol strategy =
     await set_DRE (\<lambda>_.
     await (lift_result (loadPoolConfig pool)) (\<lambda>poolConfig.
     await (getLendPoolAddressesProvider E None) (\<lambda>addressesProviderRaw.
     await (view_owner E addressesProviderRaw) (\<lambda>owner.
     let addressesProvider = connect_signer (getEthersSignerByAddress owner) addressesProviderRaw in
     case chosen_params strategy strategyReserveParams (ReservesConfig poolConfig) symbol of
       None \<Rightarrow> throw (JsError ''The strategy of symbol is not exist'')
     | Some reserveParam \<Rightarrow>
         let rateParams = r_strategy reserveParam in
         await (deployInterestRateWithID E (rs_name rateParams)
             [Str (h_addr addressesProvider), Str (optimalUtilizationRate rateParams),
              Str (baseVariableBorrowRate rateParams), Str (variableRateSlope1 rateParams),
              Str (variableRateSlope2 rateParams)] verify) (\<lambda>_. ret ())))))"

definition helpers_deploy_WstETHPriceAggregator ::
  "'c net \<Rightarrow> bool \<Rightarrow> string \<Rightarrow> string \<Rightarrow> string \<Rightarrow> ('c, unit) prog" where
  "helpers_deploy_WstETHPriceAggregator E verify pool stethagg wsteth =
     await set_DRE (\<lambda>_.
     await (lift_result (loadPoolConfig pool)) (\<lambda>poolConfig.
     await (deployWstETHPriceAggregator E stethagg wsteth verify) (\<lambda>_. ret ())))"

end
