(* ===== verification/Migrations.thy ===== *)
theory Migrations
  imports AdminTasks
begin

text \<open>
  The two migrations of \<^verbatim>\<open>tasks/migrations/\<close>, which run the other tasks in order: the
  development environment, made of mock assets, and the full environment.  Each of their
  lines names one task and its parameters; a throw in any of them ends the migration, and
  what it had deployed and saved by then stays.
\<close>

section \<open>The development environment\<close>

definition bend_dev :: "'c net \<Rightarrow> bool \<Rightarrow> ('c, unit) prog" where
  "bend_dev E verify =
     (let POOL_NAME = ''Bend'' in
     await set_DRE (\<lambda>_.
     await (when_do verify (checkVerification E)) (\<lambda>_.
     await (dev_deploy_mock_reserves E verify) (\<lambda>_.
     await (dev_deploy_mock_nfts E verify) (\<lambda>_.
     await (dev_deploy_mock_bnft_registry E verify POOL_NAME) (\<lambda>_.
     await (dev_deploy_mock_bnft_tokens E verify POOL_NAME) (\<lambda>_.
     await (full_deploy_proxy_admin E verify POOL_NAME True None) (\<lambda>_.
     await (dev_deploy_address_provider E verify POOL_NAME) (\<lambda>_.
     await (dev_deploy_lend_pool E verify POOL_NAME) (\<lambda>_.
     await (dev_deploy_oracle_reserve E verify POOL_NAME) (\<lambda>_.
     await (dev_deploy_oracle_nft E verify POOL_NAME) (\<lambda>_.
     await (full_deploy_weth_gateway E verify POOL_NAME) (\<lambda>_.
     await (full_deploy_punk_gateway E verify POOL_NAME) (\<lambda>_.
     dev_initialize_lend_pool E verify POOL_NAME))))))))))))))"

section \<open>The full environment\<close>

text \<open>
  The signer of an address that may be missing: \<^verbatim>\<open>ethers\<close> documents that
  \<^verbatim>\<open>provider.getSigner()\<close> without an address is the node's first account.
\<close>

definition signer_or_default :: "'c net \<Rightarrow> string option \<Rightarrow> string option" where
  "signer_or_default E address =
     (case address of None \<Rightarrow> arr_at (n_signers E) 0 | Some a \<Rightarrow> getEthersSignerByAddress a)"

text \<open>Printing the address and the balance of a signer: two reads.\<close>

definition report_balance :: "'c net \<Rightarrow> string option \<Rightarrow> ('c, unit) prog" where
  "report_balance E signer =
     await (signer_address signer) (\<lambda>address.
     await (get_balance E address) (\<lambda>_. ret ()))"

definition report_balances ::
  "'c net \<Rightarrow> string option \<Rightarrow> string option \<Rightarrow> string option \<Rightarrow> ('c, unit) prog" where
  "report_balances E deployerSigner poolAdminSigner emergencyAdminSigner =
     await (report_balance E deployerSigner) (\<lambda>_.
     await (report_balance E poolAdminSigner) (\<lambda>_.
     report_balance E emergencyAdminSigner))"

definition bend_mainnet :: "'c net \<Rightarrow> bool \<Rightarrow> bool \<Rightarrow> bool \<Rightarrow> ('c, unit) prog" where
  "bend_mainnet E verify skipRegistry skipOracle =
     (let POOL_NAME = ''Bend'' in
     await set_DRE (\<lambda>_.
     await (lift_result (loadPoolConfig POOL_NAME)) (\<lambda>poolConfig.
     let deployerSigner = getDeploySigner E;
         poolAdminSigner = signer_or_default E (getGenesisPoolAdmin E poolConfig);
         emergencyAdminSigner = signer_or_default E (getEmergencyAdmin E poolConfig) in
     await (report_balances E deployerSigner poolAdminSigner emergencyAdminSigner) (\<lambda>_.
     await (when_do verify (checkVerification E)) (\<lambda>_.
     await (full_deploy_proxy_admin E False POOL_NAME True None) (\<lambda>_.
     await (full_deploy_bend_collector E False POOL_NAME) (\<lambda>_.
     await (full_deploy_address_provider E False POOL_NAME skipRegistry) (\<lambda>_.
     await (full_deploy_lend_pool E False POOL_NAME) (\<lambda>_.
     await (full_deploy_oracle_reserve E False skipOracle POOL_NAME) (\<lambda>_.
     await (full_deploy_oracle_nft E False POOL_NAME skipOracle False None) (\<lambda>_.
     await (full_initialize_lend_pool E False POOL_NAME) (\<lambda>_.
     await (full_deploy_weth_gateway E False POOL_NAME) (\<lambda>_.
     await (full_deploy_punk_gateway E False POOL_NAME) (\<lambda>_.
     await (full_initialize_gateway E False POOL_NAME) (\<lambda>_.
     await (full_deploy_data_provider E False True True True) (\<lambda>_.
     await (when_do verify
         (await (verify_general E True POOL_NAME) (\<lambda>_.
          await (verify_reserves E POOL_NAME) (\<lambda>_.
          verify_nfts E POOL_NAME)))) (\<lambda>_.
     report_balances E deployerSigner poolAdminSigner emergencyAdminSigner)))))))))))))))))"

section \<open>Relations the migrations keep\<close>

context effect_rel begin

lemma keeps_signer_address_report [keeps_intros]: "keeps R (report_balances E a b c)"
  unfolding report_balances_def report_balance_def by (intro keeps_intros)

lemma keeps_migrations:
  assumes "\<And>k. K k"
  shows "keeps R (bend_dev E verify)" "keeps R (bend_mainnet E verify sr so)"
  unfolding bend_dev_def bend_mainnet_def Let_def
  by (intro keeps_intros assms)+

end

end
