(* ===== verification/Liveness.thy ===== *)
theory Liveness
  imports Migrations
begin

text \<open>
  That the migration gets through.  \<open>cooperative E\<close> lists what the scripts need of a node:
  deployments and transactions are accepted and answer usable addresses, the calls that
  read an address answer one, balances can be read, the generated classes have the methods
  the migration calls.  Under it each task of \<^verbatim>\<open>bend:mainnet\<close> is proved to return as soon
  as the database keys it reads are usable, and to leave the keys the later tasks read;
  \<open>grown E w w'\<close> says that no usable key was lost.  The last lemma chains them.
\<close>

section \<open>Nodes that cooperate\<close>

text \<open>The methods the migration calls, by class; those in the second list answer an address.\<close>

definition sent_methods :: "(string \<times> string) list" where
  "sent_methods = [
     (''BendProxyAdmin'', ''upgrade''),
     (''LendPoolAddressesProvider'', ''setPoolAdmin''), (''LendPoolAddressesProvider'', ''setEmergencyAdmin''),
     (''LendPoolAddressesProvider'', ''setBNFTRegistry''),
     (''LendPoolAddressesProvider'', ''setIncentivesController''),
     (''LendPoolAddressesProvider'', ''setLendPoolImpl''),
     (''LendPoolAddressesProvider'', ''setLendPoolLoanImpl''),
     (''LendPoolAddressesProvider'', ''setLendPoolConfiguratorImpl''),
     (''LendPoolAddressesProvider'', ''setReserveOracle''), (''LendPoolAddressesProvider'', ''setNFTOracle''),
     (''LendPoolAddressesProvider'', ''setAddress''),
     (''LendPoolAddressesProvider'', ''setWalletBalanceProvider''),
     (''LendPoolAddressesProvider'', ''setBendDataProvider''),
     (''LendPoolAddressesProvider'', ''setUIDataProvider''),
     (''LendPoolConfigurator'', ''setPoolPause''), (''LendPoolConfigurator'', ''batchInitReserve''),
     (''LendPoolConfigurator'', ''batchConfigReserve''),
     (''LendPoolConfigurator'', ''setBorrowingFlagOnReserve''),
     (''LendPoolConfigurator'', ''batchInitNft''), (''LendPoolConfigurator'', ''batchConfigNft''),
     (''ReserveOracle'', ''setAggregators''), (''NFTOracle'', ''setAssets''),
     (''WETHGateway'', ''authorizeLendPoolNFT''), (''PunkGateway'', ''authorizeLendPoolERC20'')]"

definition address_methods :: "(string \<times> string) list" where
  "address_methods = [
     (''BendProxyAdmin'', ''owner''), (''ReserveOracle'', ''owner''), (''NFTOracle'', ''owner''),
     (''LendPoolAddressesProvider'', ''getPoolAdmin''), (''LendPoolAddressesProvider'', ''getEmergencyAdmin''),
     (''LendPoolAddressesProvider'', ''getLendPool''), (''LendPoolAddressesProvider'', ''getLendPoolLoan''),
     (''LendPoolAddressesProvider'', ''getLendPoolConfigurator''),
     (''LendPoolAddressesProvider'', ''getBNFTRegistry''),
     (''LendPoolAddressesProvider'', ''getReserveOracle''), (''LendPoolAddressesProvider'', ''getNFTOracle'')]"

abbreviation usable :: "'c net \<Rightarrow> string \<Rightarrow> bool" where
  "usable E a \<equiv> notFalsyOrZeroAddress E (Some a)"

definition cooperative :: "'c net \<Rightarrow> bool" where
  "cooperative E \<longleftrightarrow>
     (\<forall>s n l a c. \<exists>ad c'. n_deploy E s n l a c = (Inr ad, c') \<and> usable E ad) \<and>
     (\<forall>s to t m a c. \<exists>c'. n_send E s to t m a c = (None, c')) \<and>
     (\<forall>t m a. \<exists>b. n_encode E t m a = Inr b) \<and>
     (\<forall>(t, m) \<in> set sent_methods \<union> set address_methods. n_has_method E t m) \<and>
     (\<forall>(t, m) \<in> set address_methods. \<forall>a args c. \<exists>r. n_view E a t m args c = Inr (Str r) \<and> usable E r) \<and>
     (\<forall>args c. \<exists>n. n_view E '''' ''provider'' ''getBalance'' args c = Inr (Big n)) \<and>
     n_artifact E ''NftLogic'' \<noteq> None \<and> n_artifact E ''ValidationLogic'' \<noteq> None \<and>
     n_signers E \<noteq> [] \<and> (\<exists>i. n_chainId E = Some i \<and> i \<noteq> 0) \<and> \<not> usable E ZERO_ADDRESS"

lemma coop_deploys:
  "cooperative E \<Longrightarrow> \<exists>ad c'. n_deploy E s n l a c = (Inr ad, c') \<and> usable E ad"
  by (simp add: cooperative_def)

lemma coop_sends: "cooperative E \<Longrightarrow> \<exists>c'. n_send E s to t m a c = (None, c')"
  by (simp add: cooperative_def)

lemma coop_encodes: "cooperative E \<Longrightarrow> \<exists>b. n_encode E t m a = Inr b"
  by (simp add: cooperative_def)

lemma coop_methods: "cooperative E \<Longrightarrow> (t, m) \<in> set sent_methods \<union> set address_methods \<Longrightarrow> n_has_method E t m"
  unfolding cooperative_def by blast

lemma coop_views:
  "cooperative E \<Longrightarrow> (t, m) \<in> set address_methods \<Longrightarrow>
   \<exists>r. n_view E a t m args c = Inr (Str r) \<and> usable E r"
  unfolding cooperative_def by blast

lemma coop_balance: "cooperative E \<Longrightarrow> \<exists>n. n_view E '''' ''provider'' ''getBalance'' args c = Inr (Big n)"
  by (simp add: cooperative_def)

lemma coop_signer: "cooperative E \<Longrightarrow> \<exists>d. getDeploySigner E = Some d"
  by (simp add: cooperative_def getDeploySigner_def getEthersSigners_def arr_at_def)

lemma usable_nonempty: "usable E a \<Longrightarrow> a \<noteq> []"
  by (auto simp: notFalsyOrZeroAddress_def)

definition has_key :: "'c net \<Rightarrow> 'c world \<Rightarrow> string \<Rightarrow> bool" where
  "has_key E w k \<longleftrightarrow> (\<exists>a. db_address w k = Some a \<and> usable E a)"

definition grown :: "'c net \<Rightarrow> 'c world \<Rightarrow> 'c world \<Rightarrow> bool" where
  "grown E w w' \<longleftrightarrow> (\<forall>k. has_key E w k \<longrightarrow> has_key E w' k)"

lemma grown_refl [simp]: "grown E w w"
  by (simp add: grown_def)

lemma grown_trans: "grown E w1 w2 \<Longrightarrow> grown E w2 w3 \<Longrightarrow> grown E w1 w3"
  by (simp add: grown_def)

lemma grown_key: "grown E w w' \<Longrightarrow> has_key E w k \<Longrightarrow> has_key E w' k"
  by (simp add: grown_def)

lemma has_key_same_db: "db w' = db w \<Longrightarrow> has_key E w' k = has_key E w k"
  by (simp add: has_key_def db_address_def)

lemma grown_same_db: "db w' = db w \<Longrightarrow> grown E w w'"
  by (simp add: grown_def has_key_def db_address_def)

lemma has_key_write:
  "usable E (e_address e) \<Longrightarrow> has_key E (db_write k e w) k' \<longleftrightarrow> k' = k \<or> has_key E w k'"
  by (auto simp: has_key_def usable_nonempty)

lemma grown_write: "usable E (e_address e) \<Longrightarrow> grown E w (db_write k e w)"
  by (simp add: grown_def has_key_write)

section \<open>Steps\<close>

text \<open>
  One rule per kind of step, to be applied in sequence: its last premise is the rest of the
  script, in a world of which only the usable keys are known.
\<close>

named_theorems coop_steps \<open>steps on a cooperative node\<close>

lemma coop_deploy_new:
  assumes "cooperative E"
    and "\<And>h w'. db w' = db w \<Longrightarrow> usable E (h_addr h) \<Longrightarrow> h_type h = t \<Longrightarrow>
      (\<exists>d. h_deployer h = Some d) \<Longrightarrow> Q h w'"
  shows "runs (deploy_new E t libs args) w Q"
proof -
  obtain ad c' where "n_deploy E (getDeploySigner E) t libs args (chain w) = (Inr ad, c')" "usable E ad"
    using coop_deploys [OF assms(1)] by blast
  with coop_signer [OF assms(1)] assms(2) show ?thesis by (auto simp: runs_def deploy_new_def deploy_with_Ret_iff)
qed

lemma coop_deploy_save [coop_steps]:
  assumes "cooperative E"
    and "\<And>h w'. grown E w w' \<Longrightarrow> has_key E w' k \<Longrightarrow> usable E (h_addr h) \<Longrightarrow> h_type h = t \<Longrightarrow> Q h w'"
  shows "runs (deploy_save E t libs args k False) w Q"
proof -
  have "runs (withSaveAndVerify E h k args False) w1 Q"
    if "db w1 = db w" "usable E (h_addr h)" "h_type h = t" "\<exists>d. h_deployer h = Some d" for h w1
  proof -
    from that(4) obtain d where d: "h_deployer h = Some d" ..
    let ?e = "\<lparr>e_address = h_addr h, e_deployer = Some d\<rparr>"
    have "grown E w (db_write k ?e w1)"
      by (rule grown_trans [OF grown_same_db grown_write]) (use that(1,2) in simp_all)
    moreover have "has_key E (db_write k ?e w1) k" using that(2) by (simp add: has_key_write)
    ultimately show ?thesis
      using that assms(2) by (auto simp: runs_def withSaveAndVerify_plain [OF d])
  qed
  then show ?thesis
    unfolding deploy_save_def by (simp add: coop_deploy_new [OF assms(1)])
qed

lemma coop_insert [coop_steps]:
  assumes "cooperative E" and "usable E a" and "\<And>w'. grown E w w' \<Longrightarrow> has_key E w' k \<Longrightarrow> Q () w'"
  shows "runs (insertContractAddressInDb k a) w Q"
  using assms by (auto simp: runs_def insertContractAddressInDb_run has_key_write grown_write)

lemma coop_raw_insert [coop_steps]:
  assumes "cooperative E" and "usable E a" and "\<And>w'. grown E w w' \<Longrightarrow> has_key E w' k \<Longrightarrow> Q () w'"
  shows "runs (rawInsertContractAddressInDb k a) w Q"
  using assms by (auto simp: runs_def rawInsertContractAddressInDb_run has_key_write grown_write)

lemma coop_deploy_impl [coop_steps]:
  assumes "cooperative E"
    and "\<And>h w'. grown E w w' \<Longrightarrow> has_key E w' k \<Longrightarrow> has_key E w' ik \<Longrightarrow> usable E (h_addr h) \<Longrightarrow>
      h_type h = t \<Longrightarrow> Q h w'"
  shows "runs (deploy_impl E t libs ik k False) w Q"
proof -
  have rest: "runs (await (insertContractAddressInDb ik (h_addr h)) (\<lambda>_. withSaveAndVerify E h k [] False)) w1 Q"
    if h: "db w1 = db w" "usable E (h_addr h)" "h_type h = t" "\<exists>d. h_deployer h = Some d" for h w1
  proof -
    from h(4) obtain d where d: "h_deployer h = Some d" ..
    let ?w = "db_write k \<lparr>e_address = h_addr h, e_deployer = Some d\<rparr>
      (db_write ik \<lparr>e_address = h_addr h, e_deployer = None\<rparr> w1)"
    have "grown E w ?w"
      by (rule grown_trans [OF grown_same_db grown_trans [OF grown_write grown_write]]) (use h(1,2) in simp_all)
    moreover have "has_key E ?w k" "has_key E ?w ik" using h(2) by (simp_all add: has_key_write)
    ultimately show ?thesis
      using h assms(2)
      by (auto simp: runs_def await_run_Ret insertContractAddressInDb_run withSaveAndVerify_plain [OF d])
  qed
  show ?thesis
    unfolding deploy_impl_def
    by (rule runs_awaitI, rule coop_deploy_new [OF assms(1)], rule rest)
qed

lemma coop_send [coop_steps]:
  assumes "cooperative E" and "(h_type h, m) \<in> set sent_methods"
    and "\<And>w'. grown E w w' \<Longrightarrow> Q () w'"
  shows "runs (send E h m args) w Q"
proof -
  have "n_has_method E (h_type h) m" using coop_methods [OF assms(1)] assms(2) by blast
  moreover obtain c where "n_send E (h_signer h) (h_addr h) (h_type h) m args (chain w) = (None, c)"
    using coop_sends [OF assms(1)] by blast
  ultimately show ?thesis using assms(3) by (auto simp: runs_def send_Ret_iff grown_same_db)
qed

lemma coop_view_addr [coop_steps]:
  assumes "cooperative E" and "(h_type h, m) \<in> set address_methods" and "\<And>a. usable E a \<Longrightarrow> Q a w"
  shows "runs (view_addr E h m args) w Q"
proof -
  have "n_has_method E (h_type h) m" using coop_methods [OF assms(1)] assms(2) by blast
  moreover obtain r where "n_view E (h_addr h) (h_type h) m args (chain w) = Inr (Str r)" "usable E r"
    using coop_views [OF assms(1,2)] by blast
  ultimately show ?thesis using assms(3) by (auto simp: runs_def view_addr_Ret_iff)
qed

lemma coop_view [coop_steps]:
  assumes "cooperative E" and "(h_type h, m) \<in> set address_methods" and "\<And>v. Q v w"
  shows "runs (view E h m args) w Q"
proof -
  have "n_has_method E (h_type h) m" using coop_methods [OF assms(1)] assms(2) by blast
  moreover obtain r where "n_view E (h_addr h) (h_type h) m args (chain w) = Inr (Str r)"
    using coop_views [OF assms(1,2)] by blast
  ultimately show ?thesis using assms(3) by (auto simp: runs_def view_Ret_iff)
qed

lemma coop_encode [coop_steps]:
  assumes "cooperative E" and "\<And>b. Q b w"
  shows "runs (encode_call E h m args) w Q"
  using coop_encodes [OF assms(1)] assms(2) unfolding runs_def encode_call_Ret_iff by blast

lemma coop_set_DRE [coop_steps]:
  assumes "cooperative E" and "\<And>w'. grown E w w' \<Longrightarrow> Q () w'"
  shows "runs set_DRE w Q"
  using assms by (auto simp: runs_def set_DRE_Ret_iff grown_same_db)

lemma coop_connect_none [coop_steps]:
  assumes "has_key E w k" and "\<And>a. usable E a \<Longrightarrow> Q (connect_at E t a) w"
  shows "runs (connect_or_db E t k None) w Q"
  using assms by (force simp: runs_def connect_or_db_Ret_iff has_key_def db_address_def
      split: option.splits if_splits)

lemma coop_connect_some [coop_steps]:
  assumes "usable E a" and "Q (connect_at E t a) w"
  shows "runs (connect_or_db E t k (Some a)) w Q"
  using assms by (simp add: connect_or_db_some usable_nonempty)

lemma coop_db_read [coop_steps]:
  assumes "cooperative E" and "has_key E w k" and "\<And>a. usable E a \<Longrightarrow> Q a w"
  shows "runs (getContractAddressInDb k) w Q"
  using assms by (auto simp: runs_def getContractAddressInDb_Ret_iff has_key_def)

lemma coop_proxy_admin_by_id [coop_steps]:
  assumes "has_key E w k" and "\<And>a. usable E a \<Longrightarrow> Q (connect_at E ''BendProxyAdmin'' a) w"
  shows "runs (getBendProxyAdminById E k) w Q"
  using assms by (force simp: runs_def getBendProxyAdminById_Ret_iff has_key_def db_address_def
      split: option.splits if_splits)

lemma coop_usable_proxy_admin [coop_steps]:
  assumes "has_key E w k" and "\<And>a. usable E a \<Longrightarrow> Q (connect_at E ''BendProxyAdmin'' a) w"
  shows "runs (usable_proxy_admin E k msg) w Q"
  unfolding usable_proxy_admin_def using assms by (auto intro: coop_proxy_admin_by_id)

lemma coop_fallback [coop_steps]:
  assumes "has_key E w k" and "\<And>a. Q a w"
  shows "runs (getContractAddressWithJsonFallback E k ''Bend'') w Q"
  using assms by (auto simp: runs_def getContractAddressWithJsonFallback_run has_key_def split: option.splits)

lemma grown_back: "grown E w2 w3 \<Longrightarrow> grown E w1 w2 \<Longrightarrow> grown E w1 w3"
  by (rule grown_trans)

lemmas method_simps = sent_methods_def address_methods_def

lemma coop_view_owner [coop_steps]:
  assumes "cooperative E" and "(h_type h, ''owner'') \<in> set address_methods" and "\<And>a. usable E a \<Longrightarrow> Q a w"
  shows "runs (view_owner E h) w Q"
  unfolding view_owner_def using assms by (rule coop_view_addr)

lemma coop_deploy_one_proxy_admin [coop_steps]:
  assumes "cooperative E" and "k \<noteq> ''''" and "\<And>w'. grown E w w' \<Longrightarrow> has_key E w' k \<Longrightarrow> Q () w'"
  shows "runs (deploy_one_proxy_admin E k p False) w Q"
  using assms
  unfolding deploy_one_proxy_admin_def Let_def deployBendProxyAdmin_def getBendProxyAdminByAddress_def
  by (auto intro!: coop_steps simp: method_simps split: if_splits)

lemma coop_proxy_admins:
  assumes "cooperative E"
  shows "runs (full_deploy_proxy_admin E False ''Bend'' True None) w (\<lambda>_ w'. grown E w w' \<and>
    has_key E w' ''BendProxyAdminPool'' \<and> has_key E w' ''BendProxyAdminFund'' \<and>
    has_key E w' ''BendProxyAdminWTL'')"
  using assms unfolding full_deploy_proxy_admin_def
  by (auto intro!: coop_steps; simp add: grown_def)


lemma coop_upgradeable_proxy [coop_steps]:
  assumes "cooperative E"
    and "\<And>h w'. grown E w w' \<Longrightarrow> has_key E w' k \<Longrightarrow> usable E (h_addr h) \<Longrightarrow>
      h_type h = ''BendUpgradeableProxy'' \<Longrightarrow> Q h w'"
  shows "runs (deployBendUpgradeableProxy E k admin logic d False) w Q"
proof -
  have "deployBendUpgradeableProxy E k admin logic d False =
      deploy_save E ''BendUpgradeableProxy'' [] [Str logic, Str admin, Str d] k False"
    by (simp add: deployBendUpgradeableProxy_def deploy_save_def withSaveAndVerify_def when_do_def)
  then show ?thesis using coop_deploy_save [OF assms(1)] assms(2) by simp
qed

lemma coop_upgrade_or_deploy [coop_steps]:
  assumes "cooperative E" and "h_type admin = ''BendProxyAdmin''"
    and "\<And>h w'. grown E w w' \<Longrightarrow> has_key E w' k \<Longrightarrow> usable E (h_addr h) \<Longrightarrow> Q h w'"
  shows "runs (upgrade_or_deploy E k existing admin own impl d False) w Q"
proof -
  have "runs (upgrade_or_deploy E k existing admin own impl d False) w
      (\<lambda>h w'. grown E w w' \<and> has_key E w' k \<and> usable E (h_addr h))"
    using assms(1,2) unfolding upgrade_or_deploy_def upgrade_proxy_def getBendUpgradeableProxy_def
    by (auto intro!: coop_steps simp: method_simps; simp add: grown_def)
  then show ?thesis by (rule runs_mono) (use assms(3) in blast)
qed

lemma coop_collector:
  assumes "cooperative E" and "has_key E w ''BendProxyAdminFund''"
  shows "runs (full_deploy_bend_collector E False ''Bend'') w (\<lambda>_. grown E w)"
  using assms unfolding full_deploy_bend_collector_def deployBendCollector_def
  by (auto intro!: coop_steps simp: method_simps; simp add: grown_def)

lemma coop_address_provider:
  assumes "cooperative E"
  shows "runs (full_deploy_address_provider E False ''Bend'' True) w (\<lambda>_ w'. grown E w w' \<and>
    has_key E w' ''LendPoolAddressesProvider'')"
  using assms unfolding full_deploy_address_provider_def deployLendPoolAddressesProvider_def
  by (auto intro!: coop_steps simp: method_simps; simp add: grown_def)

lemma coop_deploy_linked [coop_steps]:
  assumes "cooperative E" and "n_artifact E k \<noteq> None"
    and "\<And>h w'. grown E w w' \<Longrightarrow> has_key E w' k \<Longrightarrow> usable E (h_addr h) \<Longrightarrow> h_type h = k \<Longrightarrow> Q h w'"
  shows "runs (deploy_linked E k libs False) w Q"
proof -
  obtain art where art: "n_artifact E k = Some art" using assms(2) by blast
  have "deploy_linked E k libs False = deploy_save E k [(''bytecode'', linkBytecode art libs)] [] k False"
    using art by (simp add: deploy_linked_def readArtifact_def deploy_save_def)
  then show ?thesis using coop_deploy_save [OF assms(1)] assms(3) by simp
qed

lemma coop_libraries [coop_steps]:
  assumes "cooperative E" and "\<And>w'. grown E w w' \<Longrightarrow> \<forall>k \<in> set library_ids. has_key E w' k \<Longrightarrow> Q () w'"
  shows "runs (deployBendLibraries E False) w Q"
proof -
  have art: "n_artifact E ''NftLogic'' \<noteq> None" "n_artifact E ''ValidationLogic'' \<noteq> None"
    using assms(1) by (simp_all add: cooperative_def)
  have "runs (deployBendLibraries E False) w (\<lambda>_ w'. grown E w w' \<and> (\<forall>k \<in> set library_ids. has_key E w' k))"
    using assms(1) art
    unfolding deployBendLibraries_def deployLendPoolLibraries_def deployConfiguratorLibraries_def
      deployGenericLogic_def deployReserveLogicLibrary_def deployNftLogicLibrary_def deployValidationLogic_def
      deploySupplyLogicLibrary_def deployBorrowLogicLibrary_def deployLiquidateLogicLibrary_def
      deployConfiguratorLogicLibrary_def library_ids_def
    by (auto intro!: coop_steps simp: method_simps; simp add: grown_def)
  then show ?thesis by (rule runs_mono) (use assms(2) in auto)
qed

lemma coop_install_impl [coop_steps]:
  assumes "cooperative E" and "h_type prov = ''LendPoolAddressesProvider''"
    and "(''LendPoolAddressesProvider'', s) \<in> set sent_methods"
    and "(''LendPoolAddressesProvider'', v) \<in> set address_methods"
    and "\<And>a. connect1 (Some a) = connect_or_db E t k (Some a)"
    and "runs deployImpl w (\<lambda>_. grown E w)"
    and "\<And>a w'. grown E w w' \<Longrightarrow> has_key E w' k \<Longrightarrow> Q (connect_at E t a) w'"
  shows "runs (install_impl E prov deployImpl s v connect1 k) w Q"
  unfolding install_impl_def
  by (rule runs_seq [OF assms(6)])
    (use assms(1-5,7) in \<open>auto intro!: coop_steps; simp add: grown_def\<close>)

lemma coop_deploy_pool_impls:
  assumes "cooperative E" and "\<forall>k \<in> set library_ids. has_key E w k"
  shows "runs (deployLendPool E False) w (\<lambda>_. grown E w)"
    "runs (deployLendPoolLoan E False) w (\<lambda>_. grown E w)"
    "runs (deployLendPoolConfigurator E False) w (\<lambda>_. grown E w)"
proof -
  have k: "k \<in> set library_ids \<Longrightarrow> has_key E w k" for k using assms(2) by blast
  show "runs (deployLendPool E False) w (\<lambda>_. grown E w)"
    unfolding deployLendPool_def getLendPoolLibraries_def
    by (auto intro!: coop_steps assms(1) k library_ids_mem)
  show "runs (deployLendPoolLoan E False) w (\<lambda>_. grown E w)"
    unfolding deployLendPoolLoan_def by (auto intro!: coop_steps assms(1))
  show "runs (deployLendPoolConfigurator E False) w (\<lambda>_. grown E w)"
    unfolding deployLendPoolConfigurator_def
    by (auto intro!: coop_steps assms(1) k library_ids_mem)
qed

text \<open>A network whose market is configured: what the migration reads of the configuration.\<close>

definition migration_networks :: "string list" where
  "migration_networks = [''goerli'', ''rinkeby'', ''sepolia'', ''main'']"

definition market_ready :: "'c net \<Rightarrow> bool" where
  "market_ready E \<longleftrightarrow> \<not> truthy (n_FORK E) \<and> n_network E \<in> set migration_networks \<and>
     notFalsyOrZeroAddress E (param_at commons_BNFTRegistry (n_network E)) \<and>
     notFalsyOrZeroAddress E (param_at commons_IncentivesController (n_network E))"

lemma market_ready_param:
  "market_ready E \<Longrightarrow> getParamPerNetwork E p (n_network E) = param_at p (n_network E)"
  by (auto simp: market_ready_def migration_networks_def eEthereumNetwork_def intro!: getParamPerNetwork_known)

lemma not_usable_zero: "cooperative E \<Longrightarrow> \<not> usable E ZERO_ADDRESS"
  by (simp add: cooperative_def)

lemma usable_Some: "notFalsyOrZeroAddress E p \<Longrightarrow> \<exists>a. p = Some a \<and> usable E a"
  by (cases p) auto

lemma bend_btoken_impls: "js_set (map (\<lambda>(_, entry). bTokenImpl entry) bend_ReservesConfig) = [''BToken'']"
  by (simp add: js_set_def bend_ReservesConfig_def strategyWETH_def strategyDAI_def strategyUSDC_def
      strategyUSDT_def)

lemma coop_token_impls [coop_steps]:
  assumes "cooperative E"
    and "\<And>w'. grown E w w' \<Longrightarrow> has_key E w' ''BToken'' \<Longrightarrow> has_key E w' ''DebtToken'' \<Longrightarrow> Q () w'"
  shows "runs (deployBTokenImplementations E ''Bend'' bend_ReservesConfig False) w Q"
proof -
  have "runs (deployBTokenImplementations E ''Bend'' bend_ReservesConfig False) w
      (\<lambda>_ w'. grown E w w' \<and> has_key E w' ''BToken'' \<and> has_key E w' ''DebtToken'')"
    using assms(1) not_usable_zero [OF assms(1)]
    unfolding deployBTokenImplementations_def bend_btoken_impls
    by (auto intro!: coop_steps simp: Let_def bend_btoken_impls getOptionalParamAddressPerNetwork_def
        chooseBTokenDeployment_def deployGenericBTokenImpl_def deployGenericDebtToken_def;
      simp add: grown_def)
  then show ?thesis by (rule runs_mono) (use assms(2) in auto)
qed

lemma coop_lend_pool:
  assumes "cooperative E" and "market_ready E" and "has_key E w ''LendPoolAddressesProvider''"
  shows "runs (full_deploy_lend_pool E False ''Bend'') w (\<lambda>_ w'. grown E w w' \<and>
    has_key E w' ''LendPool'' \<and> has_key E w' ''LendPoolLoan'' \<and> has_key E w' ''LendPoolConfigurator'' \<and>
    has_key E w' ''BToken'' \<and> has_key E w' ''DebtToken'')"
proof -
  obtain reg inc where cfg: "param_at commons_BNFTRegistry (n_network E) = Some reg" "usable E reg"
    "param_at commons_IncentivesController (n_network E) = Some inc" "usable E inc"
    using assms(2) usable_Some unfolding market_ready_def by metis
  show ?thesis
    using assms(1,3) cfg
    unfolding full_deploy_lend_pool_def getter_defs
    by (auto intro!: coop_steps coop_deploy_pool_impls
        simp: Let_def market_ready_param [OF assms(2)] method_simps;
      simp add: grown_def)
qed


lemma migration_network_cases:
  assumes "n \<in> set migration_networks"
  obtains "n = ''goerli''" | "n = ''rinkeby''" | "n = ''sepolia''" | "n = ''main''"
  using assms by (auto simp: migration_networks_def)

lemma migration_params:
  assumes "n \<in> set migration_networks"
  shows "truthy (param_at commons_WrappedNativeToken n)" "truthy (param_at commons_CryptoPunksMarket n)"
    "truthy (param_at commons_WrappedPunkToken n)" "param_at bend_ReserveAssets n \<noteq> None"
    "param_at bend_NftsAssets n \<noteq> None" "param_at commons_ReserveAggregators n \<noteq> None"
  using assms by (cases rule: migration_network_cases;
    simp add: param_at_def commons_WrappedNativeToken_def commons_CryptoPunksMarket_def
      commons_WrappedPunkToken_def bend_ReserveAssets_def bend_NftsAssets_def commons_ReserveAggregators_def)+

text \<open>On each of these networks every listed reserve, and the dollar, has an aggregator.\<close>

lemma migration_aggregators:
  assumes "n \<in> set migration_networks"
  shows "\<exists>pairs. getPairsTokenAggregator (obj_set ''USD'' usd (the (param_at bend_ReserveAssets n)))
    (the (param_at commons_ReserveAggregators n)) quote = Inr pairs"
  using assms by (cases rule: migration_network_cases;
    simp add: param_at_def getPairsTokenAggregator_lookup omit_def bend_ReserveAssets_def
      commons_ReserveAggregators_def aggregator_of_def)

lemma fork_network_param:
  assumes "market_ready E"
  shows "mainnet_fork_network E \<in> set migration_networks"
    "getParamPerNetwork E p (mainnet_fork_network E) = param_at p (mainnet_fork_network E)"
proof -
  show 1: "mainnet_fork_network E \<in> set migration_networks"
    using assms by (auto simp: mainnet_fork_network_def market_ready_def migration_networks_def)
  show "getParamPerNetwork E p (mainnet_fork_network E) = param_at p (mainnet_fork_network E)"
    using assms 1 by (auto simp: market_ready_def migration_networks_def eEthereumNetwork_def
      intro!: getParamPerNetwork_known)
qed

lemma coop_weth_address [coop_steps]:
  assumes "market_ready E" and "\<And>a. Q a w"
  shows "runs (getWrappedNativeTokenAddress E BendConfig) w Q"
  using assms migration_params(1) [OF fork_network_param(1) [OF assms(1)]]
  by (simp add: getWrappedNativeTokenAddress_def Let_def fork_network_param(2) [OF assms(1)])

lemma coop_punk_address [coop_steps]:
  assumes "market_ready E" and "\<And>a. Q a w"
  shows "runs (getCryptoPunksMarketAddress E BendConfig) w Q"
  using assms migration_params(2) [OF fork_network_param(1) [OF assms(1)]]
  by (simp add: getCryptoPunksMarketAddress_def Let_def fork_network_param(2) [OF assms(1)])

lemma coop_wpunk_address [coop_steps]:
  assumes "market_ready E" and "\<And>a. Q a w"
  shows "runs (getWrappedPunkTokenAddress E BendConfig punk) w Q"
  using assms migration_params(3) [OF fork_network_param(1) [OF assms(1)]]
  by (simp add: getWrappedPunkTokenAddress_def Let_def fork_network_param(2) [OF assms(1)])

lemma coop_oracle_reserve:
  assumes "cooperative E" and "market_ready E" and "has_key E w ''LendPoolAddressesProvider''"
    and "has_key E w ''BendProxyAdminPool''"
  shows "runs (full_deploy_oracle_reserve E False False ''Bend'') w (\<lambda>_. grown E w)"
proof -
  have net: "n_network E \<in> set migration_networks" using assms(2) by (simp add: market_ready_def)
  obtain ra where ra: "param_at bend_ReserveAssets (n_network E) = Some ra"
    using migration_params(4) [OF net] by blast
  obtain ag where ag: "param_at commons_ReserveAggregators (n_network E) = Some ag"
    using migration_params(6) [OF net] by blast
  obtain ts as where pairs: "getPairsTokenAggregator
      (obj_set ''USD'' (UsdAddress (ProtocolGlobalParams BendConfig)) ra) ag
      (OracleQuoteCurrency BendConfig) = Inr (ts, as)"
    using migration_aggregators [OF net] ra ag by (metis option.sel surj_pair)
  show ?thesis
    using assms
    unfolding full_deploy_oracle_reserve_def getter_defs deployReserveOracle_def
    by (auto intro!: coop_steps
        simp: Let_def market_ready_param [OF assms(2)] ra ag pairs method_simps;
      simp add: grown_def)
qed

lemma coop_oracle_nft:
  assumes "cooperative E" and "market_ready E" and "has_key E w ''LendPoolAddressesProvider''"
    and "has_key E w ''BendProxyAdminPool''"
  shows "runs (full_deploy_oracle_nft E False ''Bend'' False False None) w (\<lambda>_. grown E w)"
proof -
  have net: "n_network E \<in> set migration_networks" using assms(2) by (simp add: market_ready_def)
  obtain na where na: "param_at bend_NftsAssets (n_network E) = Some na"
    using migration_params(5) [OF net] by blast
  show ?thesis
    using assms
    unfolding full_deploy_oracle_nft_def getter_defs deployNFTOracle_def
    by (auto intro!: coop_steps
        simp: Let_def market_ready_param [OF assms(2)] na method_simps;
      simp add: grown_def)
qed

lemma coop_chain_id [coop_steps]:
  assumes "cooperative E" and "Q () w"
  shows "runs (check_chain_id E) w Q"
  using assms by (auto simp: cooperative_def check_chain_id_def)

lemma coop_weth_gateway:
  assumes "cooperative E" and "market_ready E" and "has_key E w ''LendPoolAddressesProvider''"
    and "has_key E w ''BendProxyAdminPool''"
  shows "runs (full_deploy_weth_gateway E False ''Bend'') w
    (\<lambda>_ w'. grown E w w' \<and> has_key E w' ''WETHGateway'')"
  using assms
  unfolding full_deploy_weth_gateway_def getter_defs deployWETHGateway_def
  by (auto intro!: coop_steps simp: Let_def method_simps; simp add: grown_def)

lemma coop_punk_gateway:
  assumes "cooperative E" and "market_ready E" and "has_key E w ''LendPoolAddressesProvider''"
    and "has_key E w ''BendProxyAdminPool''" and "has_key E w ''WETHGateway''"
  shows "runs (full_deploy_punk_gateway E False ''Bend'') w
    (\<lambda>_ w'. grown E w w' \<and> has_key E w' ''PunkGateway'')"
  using assms
  unfolding full_deploy_punk_gateway_def getter_defs deployPunkGateway_def
  by (auto intro!: coop_steps simp: Let_def method_simps; simp add: grown_def)

lemma coop_initialize_gateway:
  assumes "cooperative E" and "market_ready E" and "has_key E w ''WETHGateway''"
    and "has_key E w ''PunkGateway''"
  shows "runs (full_initialize_gateway E False ''Bend'') w (\<lambda>_. grown E w)"
proof -
  have net: "n_network E \<in> set migration_networks" using assms(2) by (simp add: market_ready_def)
  obtain ra where ra: "param_at bend_ReserveAssets (n_network E) = Some ra"
    using migration_params(4) [OF net] by blast
  obtain na where na: "param_at bend_NftsAssets (n_network E) = Some na"
    using migration_params(5) [OF net] by blast
  show ?thesis
    using assms
    unfolding full_initialize_gateway_def exit_on_error_def getter_defs
    by (auto intro!: coop_steps coop_set_DRE [OF assms(1)] runs_try_catch
        simp: Let_def market_ready_param [OF assms(2)] ra na method_simps;
      simp add: grown_def)
qed

lemma coop_data_provider:
  assumes "cooperative E" and "has_key E w ''LendPoolAddressesProvider''"
  shows "runs (full_deploy_data_provider E False True True True) w (\<lambda>_. grown E w)"
  using assms
  unfolding full_deploy_data_provider_def getter_defs deployWalletBalancerProvider_def
    deployBendProtocolDataProvider_def deployUiPoolDataProvider_def
  by (auto intro!: coop_steps simp: method_simps; simp add: grown_def)

section \<open>Filling the pool\<close>

lemma coop_rate_strategy [coop_steps]:
  assumes "cooperative E" and "\<And>a w'. grown E w w' \<Longrightarrow> usable E a \<Longrightarrow> Q a w'"
  shows "runs (deployRateStrategy E n args False) w Q"
  using assms unfolding deployRateStrategy_def deployInterestRate_def deployInterestRateWithID_def
  by (auto intro!: coop_steps)

lemma coop_strategy_for [coop_steps]:
  assumes "cooperative E" and "\<And>sa' w'. grown E w w' \<Longrightarrow> Q sa' w'"
  shows "runs (strategy_for E h s False sa) w Q"
proof -
  have "runs (strategy_for E h s False sa) w (\<lambda>_. grown E w)"
    using assms(1) unfolding strategy_for_def by (auto intro!: coop_steps; simp add: grown_def)
  then show ?thesis by (rule runs_mono) (use assms(2) in blast)
qed

lemma bend_btoken: "(s, p) \<in> set bend_ReservesConfig \<Longrightarrow> bTokenImpl p = ''BToken''"
  by (auto simp: bend_ReservesConfig_def strategyWETH_def strategyDAI_def strategyUSDC_def strategyUSDT_def)

lemma coop_send_chunks [coop_steps]:
  assumes "cooperative E" and "(h_type h, m) \<in> set sent_methods" and "\<And>w'. grown E w w' \<Longrightarrow> Q () w'"
  shows "runs (send_chunks E h m n inputs) w Q"
proof -
  have "runs (send_chunks E h m n inputs) w (\<lambda>_. grown E w)"
    unfolding send_chunks_def
    by (rule runs_for_each) (auto intro!: coop_steps assms(1,2) intro: grown_back)
  then show ?thesis by (rule runs_mono) (use assms(3) in auto)
qed

lemma coop_init_reserves [coop_steps]:
  assumes "cooperative E" and "has_key E w ''LendPoolAddressesProvider''"
    and "has_key E w ''LendPoolConfigurator''" and "has_key E w ''BToken''" and "has_key E w ''DebtToken''"
    and "\<And>w'. grown E w w' \<Longrightarrow> Q () w'"
  shows "runs (initReservesByHelper E bend_ReservesConfig addrs bp bs dp ds admin col ''Bend'' False) w Q"
proof -
  have step: "runs (init_reserve_step E h addrs bp bs dp ds col ''Bend'' False x st) w1 (\<lambda>_. grown E w)"
    if "x \<in> set bend_ReservesConfig" "grown E w w1" for h x st w1
  proof -
    obtain sy prm where x: "x = (sy, prm)" by (cases x)
    with that(1) have "bTokenImpl prm = ''BToken''" by (simp add: bend_btoken)
    moreover have "has_key E w1 ''BToken''" "has_key E w1 ''DebtToken''"
      using assms(4,5) that(2) by (simp_all add: grown_def)
    ultimately show ?thesis
      using assms(1) that(2) unfolding x init_reserve_step_def
      by (auto intro!: coop_steps simp: Let_def; simp add: grown_def)
  qed
  have fold: "runs (for_fold bend_ReservesConfig (init_reserve_step E h addrs bp bs dp ds col ''Bend'' False) st)
      w (\<lambda>_. grown E w)" for h st
    by (rule runs_for_fold) (use step in auto)
  have "runs (initReservesByHelper E bend_ReservesConfig addrs bp bs dp ds admin col ''Bend'' False) w
      (\<lambda>_. grown E w)"
    unfolding initReservesByHelper_def getter_defs Let_def
    apply (rule runs_awaitI, rule coop_connect_none [OF assms(2)])
    apply (rule runs_seq [OF fold])
    using assms(1,3) by (auto intro!: coop_steps simp: method_simps; simp add: grown_def)
  then show ?thesis by (rule runs_mono) (use assms(6) in auto)
qed

lemma coop_pure_fold:
  assumes "\<And>x acc w. x \<in> set xs \<Longrightarrow> \<exists>acc'. f x acc w = (Ret acc', w)"
  shows "runs (for_fold xs f acc) w (\<lambda>_ w'. w' = w)"
  by (rule runs_for_fold) (use assms in \<open>auto simp: runs_def\<close>)

lemma config_steps_pure:
  "\<exists>st'. config_reserve_step addrs x st w = (Ret st', w)"
  "\<exists>st'. config_nft_step addrs y st w = (Ret st', w)"
  by (auto simp: config_reserve_step_def config_nft_step_def destructure_entry_get await_def ret_def
      split: prod.splits option.splits)

lemma coop_configure_reserves [coop_steps]:
  assumes "cooperative E" and "has_key E w ''LendPoolAddressesProvider''"
    and "has_key E w ''LendPoolConfigurator''" and "\<And>w'. grown E w w' \<Longrightarrow> Q () w'"
  shows "runs (configureReservesByHelper E cfg addrs admin) w Q"
proof -
  have "runs (configureReservesByHelper E cfg addrs admin) w (\<lambda>_. grown E w)"
    unfolding configureReservesByHelper_def getter_defs Let_def
    apply (rule runs_awaitI, rule coop_connect_none [OF assms(2)])
    apply (rule runs_awaitI, rule coop_connect_none [OF assms(3)])
    apply (rule runs_seq [OF coop_pure_fold], rule config_steps_pure)
    using assms(1) by (auto intro!: coop_steps simp: method_simps; simp add: grown_def)
  then show ?thesis by (rule runs_mono) (use assms(4) in auto)
qed

lemma coop_configure_nfts [coop_steps]:
  assumes "cooperative E" and "has_key E w ''LendPoolAddressesProvider''"
    and "has_key E w ''LendPoolConfigurator''" and "\<And>w'. grown E w w' \<Longrightarrow> Q () w'"
  shows "runs (configureNftsByHelper E cfg addrs admin) w Q"
proof -
  have "runs (configureNftsByHelper E cfg addrs admin) w (\<lambda>_. grown E w)"
    unfolding configureNftsByHelper_def getter_defs Let_def
    apply (rule runs_awaitI, rule coop_connect_none [OF assms(2)])
    apply (rule runs_awaitI, rule coop_connect_none [OF assms(3)])
    apply (rule runs_seq [OF coop_pure_fold], rule config_steps_pure)
    using assms(1) by (auto intro!: coop_steps simp: method_simps)
  then show ?thesis by (rule runs_mono) (use assms(4) in auto)
qed

lemma coop_init_nfts [coop_steps]:
  assumes "cooperative E" and "has_key E w ''LendPoolAddressesProvider''"
    and "has_key E w ''LendPoolConfigurator''" and "\<And>w'. grown E w w' \<Longrightarrow> Q () w'"
  shows "runs (initNftsByHelper E cfg addrs admin pool False) w Q"
  using assms unfolding initNftsByHelper_def getter_defs Let_def
  by (auto intro!: coop_steps simp: method_simps)

lemma coop_initialize_pool:
  assumes "cooperative E" and "market_ready E" and "has_key E w ''LendPoolAddressesProvider''"
    and "has_key E w ''LendPoolConfigurator''" and "has_key E w ''BToken''" and "has_key E w ''DebtToken''"
  shows "runs (full_initialize_lend_pool E False ''Bend'') w (\<lambda>_. grown E w)"
proof -
  have net: "n_network E \<in> set migration_networks" using assms(2) by (simp add: market_ready_def)
  obtain ra where ra: "param_at bend_ReserveAssets (n_network E) = Some ra"
    using migration_params(4) [OF net] by blast
  obtain na where na: "param_at bend_NftsAssets (n_network E) = Some na"
    using migration_params(5) [OF net] by blast
  show ?thesis
    using assms
    unfolding full_initialize_lend_pool_def exit_on_error_def getLendPoolAddressesProvider_def
    by (auto intro!: coop_steps coop_set_DRE [OF assms(1)] runs_try_catch
        simp: Let_def market_ready_param [OF assms(2)] ra na method_simps;
      simp add: grown_def)
qed

section \<open>The whole migration\<close>

lemma coop_report [coop_steps]:
  assumes "cooperative E" and "Q () w"
  shows "runs (report_balances E (getDeploySigner E) (signer_or_default E a) (signer_or_default E b)) w Q"
proof -
  obtain d where d: "getDeploySigner E = Some d" using coop_signer [OF assms(1)] by blast
  have s: "\<exists>x. signer_or_default E c = Some x" for c
    using d by (auto simp: signer_or_default_def getEthersSignerByAddress_def getDeploySigner_def
        getEthersSigners_def split: option.splits)
  have one: "report_balance E (Some x) w = (Ret (), w)" for x
    using coop_balance [OF assms(1), of "[Str x]" "chain w"]
    by (auto simp: report_balance_def signer_address_def get_balance_def await_def node_view_def ret_def)
  from s [of a] s [of b] one d assms(2) show ?thesis
    by (auto simp: runs_def report_balances_def await_def)
qed

definition migrated_keys :: "string list" where
  "migrated_keys = [''BendProxyAdminPool'', ''BendProxyAdminFund'', ''BendProxyAdminWTL'',
     ''LendPoolAddressesProvider'', ''LendPool'', ''LendPoolLoan'', ''LendPoolConfigurator'',
     ''BToken'', ''DebtToken'', ''WETHGateway'', ''PunkGateway'']"

lemma bend_mainnet_returns:
  assumes "cooperative E" and "market_ready E"
  shows "runs (bend_mainnet E False True False) w (\<lambda>_ w'. grown E w w' \<and>
    (\<forall>k \<in> set migrated_keys. has_key E w' k))"
proof -
  note c = assms(1) and cm = assms
  show ?thesis
    unfolding bend_mainnet_def Let_def
    apply (rule runs_awaitI, rule coop_set_DRE [OF c])
    apply (simp only: loadPoolConfig_Bend lift_result_simps await_ret)
    apply (rule runs_awaitI, rule coop_report [OF c])
    apply (simp only: when_do_def if_False await_ret)
    apply (rule runs_seq [OF coop_proxy_admins [OF c]], elim conjE)
    apply (rule runs_seq [OF coop_collector [OF c]], assumption)
    apply (rule runs_seq [OF coop_address_provider [OF c]], elim conjE)
    apply (rule runs_seq [OF coop_lend_pool [OF cm]], assumption, elim conjE)
    apply (rule runs_seq [OF coop_oracle_reserve [OF cm]], (simp add: grown_def; fail)+)
    apply (rule runs_seq [OF coop_oracle_nft [OF cm]], (simp add: grown_def; fail)+)
    apply (rule runs_seq [OF coop_initialize_pool [OF cm]], (simp add: grown_def; fail)+)
    apply (rule runs_seq [OF coop_weth_gateway [OF cm]], (simp add: grown_def; fail)+, elim conjE)
    apply (rule runs_seq [OF coop_punk_gateway [OF cm]], (simp add: grown_def; fail)+, elim conjE)
    apply (rule runs_seq [OF coop_initialize_gateway [OF cm]], (simp add: grown_def; fail)+)
    apply (rule runs_seq [OF coop_data_provider [OF c]], (simp add: grown_def; fail)+)
    apply (rule coop_report [OF c])
    apply (simp add: grown_def migrated_keys_def)
    done
qed

end
