(* ===== verification/SampleNode.thy ===== *)
theory SampleNode
  imports Liveness
begin

text \<open>
  One concrete node, on which the theorems are applied to show that their hypotheses can
  hold.  Its chain is the number of contracts deployed so far; a deployment answers the
  next address, every transaction is accepted, every address-valued call answers
  \<^verbatim>\<open>0xCALL\<close>, a balance is 0.  \<open>sample_node\<close> is on the network \<^verbatim>\<open>hardhat\<close> without
  an Etherscan key; the variants change one field.
\<close>

definition sample_node :: "nat net" where
  "sample_node = \<lparr>
     n_network = ''hardhat'',
     n_FORK = None,
     n_MAINNET_FORK = None,
     n_ETHERSCAN_KEY = None,
     n_chainId = Some 31337,
     n_now_ms = 0,
     n_signers = [''0xA0'', ''0xA1'', ''0xA2''],
     n_is_address = (\<lambda>a. take 2 a = ''0x''),
     n_is_zero_address = (\<lambda>a. a = ZERO_ADDRESS),
     n_has_method = (\<lambda>t m. True),
     n_encode = (\<lambda>t m args. Inr (''0xDA'' @ m)),
     n_hexlify = (\<lambda>s. s),
     n_parse_units = (\<lambda>a d. Inr 1),
     n_mul_fixed = (\<lambda>x y places. x),
     n_deploy = (\<lambda>s n libs args c. (Inr (''0xC'' @ dec c), Suc c)),
     n_send = (\<lambda>s to t m args c. (None, c)),
     n_view = (\<lambda>a t m args c. if t = ''provider'' then Inr (Big 0) else Inr (Str ''0xCALL'')),
     n_bytes32 = (\<lambda>s. Inr s),
     n_artifact = (\<lambda>n. Some \<lparr>bytecode = ''0x'', linkReferences = []\<rparr>),
     n_verify = (\<lambda>p c. (None, c))\<rparr>"

lemma sample_node_simps [simp]:
  "n_network sample_node = ''hardhat''" "n_FORK sample_node = None"
  "n_ETHERSCAN_KEY sample_node = None" "n_signers sample_node = [''0xA0'', ''0xA1'', ''0xA2'']"
  "n_is_address sample_node = (\<lambda>a. take 2 a = ''0x'')"
  "n_is_zero_address sample_node = (\<lambda>a. a = ZERO_ADDRESS)"
  "n_has_method sample_node = (\<lambda>t m. True)" "n_chainId sample_node = Some 31337"
  "n_encode sample_node = (\<lambda>t m args. Inr (''0xDA'' @ m))"
  "n_deploy sample_node = (\<lambda>s n libs args c. (Inr (''0xC'' @ dec c), Suc c))"
  "n_send sample_node = (\<lambda>s to t m args c. (None, c))"
  "n_view sample_node =
     (\<lambda>a t m args c. if t = ''provider'' then Inr (Big 0) else Inr (Str ''0xCALL''))"
  "n_verify sample_node = (\<lambda>p c. (None, c))"
  by (simp_all add: sample_node_def)

text \<open>The same node on another network, with an Etherscan key, or forked.\<close>

definition on_network :: "string \<Rightarrow> nat net" where
  "on_network name = sample_node\<lparr>n_network := name\<rparr>"

definition with_key :: "string \<Rightarrow> nat net" where
  "with_key name = sample_node\<lparr>n_network := name, n_ETHERSCAN_KEY := Some ''key''\<rparr>"

lemma on_network_simps [simp]:
  "n_network (on_network name) = name" "n_FORK (on_network name) = None"
  "n_ETHERSCAN_KEY (on_network name) = None"
  "n_is_address (on_network name) = n_is_address sample_node"
  "n_is_zero_address (on_network name) = n_is_zero_address sample_node"
  "n_has_method (on_network name) = n_has_method sample_node"
  "n_signers (on_network name) = n_signers sample_node"
  "n_chainId (on_network name) = n_chainId sample_node"
  "n_view (on_network name) = n_view sample_node"
  "n_send (on_network name) = n_send sample_node"
  "n_deploy (on_network name) = n_deploy sample_node"
  "n_encode (on_network name) = n_encode sample_node"
  by (simp_all add: on_network_def)

lemma with_key_simps [simp]:
  "n_network (with_key name) = name" "n_FORK (with_key name) = None"
  "n_ETHERSCAN_KEY (with_key name) = Some ''key''"
  "n_verify (with_key name) = n_verify sample_node"
  "n_signers (with_key name) = n_signers sample_node"
  "n_has_method (with_key name) = n_has_method sample_node"
  "n_view (with_key name) = n_view sample_node"
  by (simp_all add: with_key_def)

lemma sample_node_answers: "answers sample_node"
  by (auto simp: answers_def)

lemma on_network_answers: "answers (on_network name)"
  by (auto simp: answers_def)

text \<open>The world before anything was deployed, and worlds with entries in the database.\<close>

definition empty_world :: "nat world" where
  "empty_world = \<lparr>db = (\<lambda>_. None), chain = 0, trace = [], dre_set = False\<rparr>"

definition world_with :: "string list \<Rightarrow> nat world" where
  "world_with keys = empty_world\<lparr>db := (\<lambda>k. if k \<in> set keys
     then Some \<lparr>e_address = ''0xDB'' @ k, e_deployer = None\<rparr> else None)\<rparr>"

lemma empty_world_simps [simp]:
  "db empty_world = (\<lambda>_. None)" "chain empty_world = 0" "trace empty_world = []"
  "dre_set empty_world = False"
  by (simp_all add: empty_world_def)

lemma world_with_simps [simp]:
  "db (world_with keys) k = (if k \<in> set keys
     then Some \<lparr>e_address = ''0xDB'' @ k, e_deployer = None\<rparr> else None)"
  "chain (world_with keys) = 0" "trace (world_with keys) = []" "dre_set (world_with keys) = False"
  by (simp_all add: world_with_def)

lemma db_address_world_with [simp]:
  "db_address (world_with keys) k = (if k \<in> set keys then Some (''0xDB'' @ k) else None)"
  by (simp add: db_address_def)

section \<open>The sample nodes cooperate\<close>

lemma runs_returns: "runs m w (\<lambda>_ _. True) \<Longrightarrow> \<exists>x w'. m w = (Ret x, w')"
  by (auto simp: runs_def)

lemma sample_usable [simp]:
  "usable (on_network n) a \<longleftrightarrow> take 2 a = ''0x'' \<and> a \<noteq> ZERO_ADDRESS"
  by (auto simp: notFalsyOrZeroAddress_def)

lemma on_network_cooperative: "cooperative (on_network n)"
  by (auto simp: cooperative_def address_methods_def ZERO_ADDRESS_def)
    (simp_all add: on_network_def sample_node_def)

lemma main_ready: "market_ready (on_network ''main'')"
  by (simp add: market_ready_def migration_networks_def param_at_def commons_BNFTRegistry_def
      commons_IncentivesController_def ZERO_ADDRESS_def)

end
