(* ===== verification/HelperProperties.thy ===== *)
theory HelperProperties
  imports SampleNode
begin

text \<open>
  The properties of the helpers: utilities on lists and objects, aggregator pairs, linking
  of libraries, configuration values per network, the deployment database, verification
  with its retries.  Each property stands beside the theorem that applies it on a concrete
  input.
\<close>

section \<open>Chunks and objects\<close>

lemma pieces_nth: "0 < n \<Longrightarrow> i < length (pieces n xs) \<Longrightarrow> pieces n xs ! i = take n (drop (i * n) xs)"
proof (induction n xs arbitrary: i rule: pieces.induct)
  case (1 n xs)
  show ?case
  proof (cases "xs = []")
    case True
    with 1 show ?thesis by simp
  next
    case False
    with 1(2) have eq: "pieces n xs = take n xs # pieces n (drop n xs)"
      by (subst pieces.simps) simp
    show ?thesis
    proof (cases i)
      case 0
      with eq show ?thesis by simp
    next
      case (Suc j)
      with eq 1(3) have j: "j < length (pieces n (drop n xs))" by simp
      with 1 False have "pieces n (drop n xs) ! j = take n (drop (j * n) (drop n xs))" by blast
      with eq Suc show ?thesis by (simp add: add.commute)
    qed
  qed
qed

text \<open>\<^verbatim>\<open>chunk(arr, n)\<close> with a positive \<open>n\<close> cuts the array into consecutive
  pieces: joined they are the array, the piece at index \<open>i\<close> is the \<open>n\<close> elements from \<open>i * n\<close>,
  none is empty, and there are as many as the length divided by \<open>n\<close>, rounded up.\<close>

theorem chunk_cuts:
  assumes "0 < n"
  shows "concat (chunk xs n) = xs \<and>
    length (chunk xs n) = (length xs + n - 1) div n \<and>
    (\<forall>i < length (chunk xs n). chunk xs n ! i = take n (drop (i * n) xs) \<and> chunk xs n ! i \<noteq> [])"
proof -
  have "chunk xs n ! i \<noteq> []" if "i < length (chunk xs n)" for i
    using pieces_length [of "chunk xs n ! i" n xs] that assms by (simp add: chunk_pieces)
  with assms show ?thesis by (simp add: chunk_pieces concat_pieces length_pieces pieces_nth)
qed

theorem chunk_cuts_witness:
  "concat (chunk [1, 2, 3, 4, 5 :: int] 2) = [1, 2, 3, 4, 5] \<and>
   length (chunk [1, 2, 3, 4, 5 :: int] 2) = 3"
  using chunk_cuts [of 2 "[1, 2, 3, 4, 5 :: int]"] by simp

text \<open>\<^verbatim>\<open>filterMapBy\<close> keeps exactly the members whose key passes the test and
  \<^verbatim>\<open>omit\<close> drops exactly the named keys, values and order unchanged.\<close>

theorem members_kept:
  assumes "distinct (obj_keys raw)"
  shows "filterMapBy raw fn = filter (\<lambda>p. fn (fst p)) raw \<and>
    omit raw keys = filter (\<lambda>p. fst p \<notin> set keys) raw"
  using assms by (simp add: filterMapBy_filter omit_filterMapBy)

theorem members_kept_witness:
  "omit [(''WETH'', 1 :: int), (''DAI'', 2)] [''ETH'', ''WETH''] = [(''DAI'', 2)]"
  using members_kept [of "[(''WETH'', 1 :: int), (''DAI'', 2)]" "\<lambda>_. True" "[''ETH'', ''WETH'']"]
  by simp

section \<open>Assets and aggregators\<close>

text \<open>The assets that need an aggregator: all but the quote currencies.\<close>

definition priced_assets :: "string obj \<Rightarrow> string obj" where
  "priced_assets assets = filter (\<lambda>p. fst p \<noteq> ''ETH'' \<and> fst p \<noteq> ''WETH'') assets"

lemma omit_priced: "distinct (obj_keys assets) \<Longrightarrow> omit assets [''ETH'', ''WETH''] = priced_assets assets"
  by (simp add: omit_filterMapBy filterMapBy_filter priced_assets_def)

lemma map_or_throw_aggregators:
  "map_or_throw (aggregator_of aggs) ps =
     (case filter (\<lambda>p. obj_get aggs (fst p) = None) ps of
        [] \<Rightarrow> Inr (map (\<lambda>(s, a). (a, the (obj_get aggs s))) ps)
      | (s, a) # _ \<Rightarrow> Inl (JsError (''can not find aggregator for '' @ s)))"
proof (induction ps)
  case Nil
  then show ?case by simp
next
  case (Cons p ps)
  obtain s a where p: "p = (s, a)" by (cases p)
  show ?case
  proof (cases "obj_get aggs s")
    case None
    with p show ?thesis by (simp add: aggregator_of_def)
  next
    case (Some agg)
    with p Cons.IH show ?thesis
      by (cases "filter (\<lambda>p. obj_get aggs (fst p) = None) ps")
        (auto simp: aggregator_of_def split: prod.splits)
  qed
qed

text \<open>\<^verbatim>\<open>getPairsTokenAggregator\<close> answers, for every asset but ETH and WETH and in the
  order of the assets, the asset's address and its aggregator's; if some of these assets have
  no aggregator it throws, naming the first of them.\<close>

theorem aggregator_pairs:
  assumes "distinct (obj_keys assets)"
  shows "getPairsTokenAggregator assets aggs quote =
    (case filter (\<lambda>p. obj_get aggs (fst p) = None) (priced_assets assets) of
       [] \<Rightarrow> Inr (map snd (priced_assets assets),
                 map (\<lambda>p. the (obj_get aggs (fst p))) (priced_assets assets))
     | p # _ \<Rightarrow> Inl (JsError (''can not find aggregator for '' @ fst p)))"
  using assms
  by (simp add: getPairsTokenAggregator_lookup omit_priced map_or_throw_aggregators case_prod_beta
      comp_def split: list.splits prod.splits)

theorem aggregator_pairs_witness:
  "getPairsTokenAggregator [(''WETH'', ''0x1''), (''USD'', ''0x2'')] [(''USD'', ''0x3'')] ''ETH'' =
     Inr ([''0x2''], [''0x3''])"
  using aggregator_pairs [of "[(''WETH'', ''0x1''), (''USD'', ''0x2'')]" "[(''USD'', ''0x3'')]" "''ETH''"]
  by (simp add: priced_assets_def)

lemma map_or_throw_init:
  assumes "\<forall>p \<in> set ps. fst p \<noteq> ''ETH'' \<and> fst p \<noteq> ''WETH''"
  shows "map_or_throw (\<lambda>(s, a).
      if s \<noteq> ''WETH'' \<and> s \<noteq> ''ETH'' then
        (case entry_by_key aggs s of None \<Rightarrow> Inl (TypeError ''undefined is not iterable'')
         | Some (_, agg) \<Rightarrow> Inr (Some (a, agg)))
      else Inr None) ps =
    (case map_or_throw (aggregator_of aggs) ps of
       Inl _ \<Rightarrow> Inl (TypeError ''undefined is not iterable'')
     | Inr prs \<Rightarrow> Inr (map Some prs))"
  using assms
proof (induction ps)
  case Nil
  then show ?case by simp
next
  case (Cons p ps)
  obtain s a where p: "p = (s, a)" by (cases p)
  from Cons.prems p have s: "s \<noteq> ''ETH''" "s \<noteq> ''WETH''" by simp_all
  from Cons.prems have "\<forall>p \<in> set ps. fst p \<noteq> ''ETH'' \<and> fst p \<noteq> ''WETH''" by simp
  note IH = Cons.IH [OF this]
  show ?case
    using s unfolding p
    by (cases "obj_get aggs s"; cases "map_or_throw (aggregator_of aggs) ps")
      (simp_all add: IH aggregator_of_def entry_by_key_map_of)
qed

text \<open>The two versions of \<^verbatim>\<open>getPairsTokenAggregator\<close> in the repository agree when every
  asset has an aggregator; when one is missing both throw, the one in
  \<^verbatim>\<open>init-helpers.ts\<close> with the engine's error instead of a message that names the asset.\<close>

theorem aggregator_pairs_variants_agree:
  assumes "distinct (obj_keys assets)"
  shows "getPairsTokenAggregator_init assets aggs =
    (case getPairsTokenAggregator assets aggs quote of
       Inl _ \<Rightarrow> Inl (TypeError ''undefined is not iterable'')
     | Inr pairs \<Rightarrow> Inr pairs)"
proof -
  have "\<forall>p \<in> set (priced_assets assets). fst p \<noteq> ''ETH'' \<and> fst p \<noteq> ''WETH''"
    by (simp add: priced_assets_def)
  note init = map_or_throw_init [OF this, of aggs]
  show ?thesis
    unfolding getPairsTokenAggregator_init_def getPairsTokenAggregator_lookup omit_priced [OF assms]
      Let_def init
    by (cases "map_or_throw (aggregator_of aggs) (priced_assets assets)") auto
qed

theorem aggregator_pairs_variants_agree_witness:
  "getPairsTokenAggregator_init [(''USD'', ''0x2'')] [] = Inl (TypeError ''undefined is not iterable'') \<and>
   (\<exists>e. getPairsTokenAggregator [(''USD'', ''0x2'')] [] ''ETH'' = Inl e)"
  using aggregator_pairs_variants_agree [of "[(''USD'', ''0x2'')]" "[]" "''ETH''"]
  by (auto simp: getPairsTokenAggregator_init_def omit_def entry_by_key_def split: sum.splits)

section \<open>Linking libraries\<close>

text \<open>The replacements in the order they are made: an address and a placeholder.\<close>

definition links :: "artifact \<Rightarrow> string obj \<Rightarrow> (string \<times> fixup) list" where
  "links art libraries = concat (map (\<lambda>(fileName, refs). concat (map (\<lambda>(libName, fixups).
     case obj_get libraries libName of None \<Rightarrow> [] | Some a \<Rightarrow> map (Pair a) fixups) refs))
     (linkReferences art))"

definition in_placeholder :: "fixup \<Rightarrow> nat \<Rightarrow> bool" where
  "in_placeholder f i \<longleftrightarrow> 2 + f_start f * 2 \<le> i \<and> i < 2 + (f_start f + f_length f) * 2"

definition apart :: "string \<times> fixup \<Rightarrow> string \<times> fixup \<Rightarrow> bool" where
  "apart p q \<longleftrightarrow> f_start (snd p) + f_length (snd p) \<le> f_start (snd q) \<or>
     f_start (snd q) + f_length (snd q) \<le> f_start (snd p)"

lemma apart_placeholder: "apart p q \<Longrightarrow> in_placeholder (snd p) i \<Longrightarrow> \<not> in_placeholder (snd q) i"
  by (auto simp: apart_def in_placeholder_def)

lemma link_refs:
  "fold (\<lambda>(libName, fixups) bc. case obj_get libraries libName of None \<Rightarrow> bc
     | Some addr \<Rightarrow> fold (link_fixup addr) fixups bc) refs bc =
   fold (\<lambda>(a, f). link_fixup a f) (concat (map (\<lambda>(libName, fixups).
     case obj_get libraries libName of None \<Rightarrow> [] | Some a \<Rightarrow> map (Pair a) fixups) refs)) bc"
  by (induction refs arbitrary: bc) (auto simp: fold_map comp_def split: option.splits)

lemma linkBytecode_links:
  "linkBytecode art libraries = fold (\<lambda>(a, f). link_fixup a f) (links art libraries) (bytecode art)"
proof -
  have "fold (\<lambda>(fileName, refs). fold (\<lambda>(libName, fixups) bc.
        case obj_get libraries libName of None \<Rightarrow> bc
        | Some addr \<Rightarrow> fold (link_fixup addr) fixups bc) refs) lr b =
      fold (\<lambda>(a, f). link_fixup a f) (concat (map (\<lambda>(fileName, refs). concat (map (\<lambda>(libName, fixups).
        case obj_get libraries libName of None \<Rightarrow> [] | Some a \<Rightarrow> map (Pair a) fixups) refs)) lr)) b"
    for lr b
    by (induction lr arbitrary: b) (auto simp: link_refs)
  then show ?thesis unfolding linkBytecode_def links_def .
qed

lemma fold_links:
  assumes "\<forall>(a, f) \<in> set ls. fixup_ok a (length bc) f" and "sorted_wrt apart ls"
  shows "length (fold (\<lambda>(a, f). link_fixup a f) ls bc) = length bc \<and>
    (\<forall>i < length bc. (\<forall>p \<in> set ls. \<not> in_placeholder (snd p) i) \<longrightarrow>
       fold (\<lambda>(a, f). link_fixup a f) ls bc ! i = bc ! i) \<and>
    (\<forall>(a, f) \<in> set ls. \<forall>j < 2 * f_length f.
       fold (\<lambda>(a, f). link_fixup a f) ls bc ! (2 + f_start f * 2 + j) = a ! (2 + j))"
  using assms
proof (induction ls arbitrary: bc)
  case Nil
  then show ?case by simp
next
  case (Cons p ls)
  obtain a f where p: "p = (a, f)" by (cases p)
  let ?bc = "link_fixup a f bc"
  from Cons.prems p have ok: "fixup_ok a (length bc) f" by simp
  then have len: "length ?bc = length bc" by (rule length_link_fixup)
  have "\<forall>(a, f) \<in> set ls. fixup_ok a (length ?bc) f" "sorted_wrt apart ls"
    using Cons.prems len by auto
  note IH = Cons.IH [OF this]
  have out: "?bc ! i = bc ! i" if "i < length bc" "\<not> in_placeholder f i" for i
    using link_fixup_outside [OF ok] that by (auto simp: in_placeholder_def)
  have ins: "?bc ! (2 + f_start f * 2 + j) = a ! (2 + j)" if "j < 2 * f_length f" for j
  proof -
    have "drop 2 a ! j = take (f_length f * 2) (drop (2 + f_start f * 2) ?bc) ! j"
      using link_fixup_inside [OF ok] by simp
    also have "\<dots> = ?bc ! (2 + f_start f * 2 + j)"
      using that ok len by (simp add: fixup_ok_def)
    finally show ?thesis using that ok by (simp add: fixup_ok_def)
  qed
  have keep: "fold (\<lambda>(a, f). link_fixup a f) ls ?bc ! (2 + f_start f * 2 + j) = a ! (2 + j)"
    if j: "j < 2 * f_length f" for j
  proof -
    let ?i = "2 + f_start f * 2 + j"
    from j have "in_placeholder f ?i" by (simp add: in_placeholder_def)
    then have "\<forall>q \<in> set ls. \<not> in_placeholder (snd q) ?i"
      using Cons.prems(2) p apart_placeholder [of p] by auto
    moreover from j ok have "?i < length bc" by (simp add: fixup_ok_def)
    ultimately show ?thesis using IH len ins [OF j] by auto
  qed
  show ?case using IH len out keep unfolding p by auto
qed

text \<open>\<^verbatim>\<open>linkBytecode\<close>, when the placeholders of the artifact lie inside the bytecode
  without overlapping and the addresses have their length: every byte of a placeholder whose
  library is given is the address's, every other byte is the artifact's, and the length is
  unchanged.\<close>

theorem linkBytecode_bytes:
  assumes "links_ok art libraries" and "sorted_wrt apart (links art libraries)"
  shows "length (linkBytecode art libraries) = length (bytecode art) \<and>
    (\<forall>(a, f) \<in> set (links art libraries). \<forall>j < 2 * f_length f.
       linkBytecode art libraries ! (2 + f_start f * 2 + j) = a ! (2 + j)) \<and>
    (\<forall>i < length (bytecode art). (\<forall>p \<in> set (links art libraries). \<not> in_placeholder (snd p) i) \<longrightarrow>
       linkBytecode art libraries ! i = bytecode art ! i)"
proof -
  have "\<forall>(a, f) \<in> set (links art libraries). fixup_ok a (length (bytecode art)) f"
    using assms(1) by (fastforce simp: links_def links_ok_def split: option.splits)
  from fold_links [OF this assms(2)] show ?thesis unfolding linkBytecode_links by blast
qed

text \<open>An artifact with one placeholder of two bytes at byte 1 of four.\<close>

definition sample_artifact :: artifact where
  "sample_artifact = \<lparr>bytecode = ''0x60____61'',
     linkReferences = [(''L.sol'', [(''L'', [\<lparr>f_start = 1, f_length = 2\<rparr>])])]\<rparr>"

theorem linkBytecode_bytes_witness:
  "length (linkBytecode sample_artifact [(''L'', ''0xABCD'')]) = 10 \<and>
   linkBytecode sample_artifact [(''L'', ''0xABCD'')] = ''0x60ABCD61''"
  using linkBytecode_bytes [of sample_artifact "[(''L'', ''0xABCD'')]"]
  by (simp add: links_ok_def fixup_ok_def links_def sample_artifact_def linkBytecode_def link_fixup_def)

section \<open>Values per network\<close>

text \<open>\<^verbatim>\<open>getParamPerNetwork\<close>: a fork's name overrides the current network; every
  network of the enumeration but \<^verbatim>\<open>monad\<close> gets its own value; \<^verbatim>\<open>monad\<close>, like a name
  that is not in the enumeration, gets the value of \<^verbatim>\<open>hardhat\<close>.\<close>

theorem param_of_network:
  "getParamPerNetwork E param network =
     (if truthy (n_FORK E) then param_at param (the (n_FORK E))
      else if network \<in> set eEthereumNetwork - {''monad''} then param_at param network
      else pn_hardhat param)"
  by (cases "truthy (n_FORK E)"; cases "network \<in> set eEthereumNetwork - {''monad''}")
    (auto simp: getParamPerNetwork_known getParamPerNetwork_fork,
     auto simp: getParamPerNetwork_def eEthereumNetwork_def)

text \<open>\<^verbatim>\<open>getContractAddressWithJsonFallback\<close> prefers the address of the market
  configuration, when it is set, an address and not zero; then the one saved in the
  database; and throws, naming the contract, when there is neither.  It changes nothing.\<close>

theorem fallback_priority:
  "getContractAddressWithJsonFallback E id1 ''Bend'' w =
     (let configured = getOptionalParamAddressPerNetwork E (config_param BendConfig id1) (n_network E) in
      if notFalsyOrZeroAddress E configured then (Ret (the configured), w)
      else case db w id1 of
          Some e \<Rightarrow> if e_address e \<noteq> '''' then (Ret (e_address e), w)
            else (Throw (JsError (''Missing contract address '' @ id1 @ '' at Market config and JSON local db'')), w)
        | None \<Rightarrow> (Throw (JsError (''Missing contract address '' @ id1 @ '' at Market config and JSON local db'')), w))"
proof (cases "notFalsyOrZeroAddress E
    (getOptionalParamAddressPerNetwork E (config_param BendConfig id1) (n_network E))")
  case True
  then obtain a where "getOptionalParamAddressPerNetwork E (config_param BendConfig id1) (n_network E) = Some a"
    by (auto dest: notFalsyOrZeroAddress_truthy elim: truthyE)
  with True show ?thesis
    by (simp add: getContractAddressWithJsonFallback_run market_address_def Let_def)
next
  case False
  then show ?thesis
    by (simp add: getContractAddressWithJsonFallback_run market_address_def Let_def db_address_def
        missing_address_def split: option.splits)
qed

section \<open>The deployment database\<close>


definition sample_handle :: handle where
  "sample_handle = \<lparr>h_type = ''LendPool'', h_addr = ''0xC0'', h_signer = Some ''0xA0'',
     h_deployer = Some ''0xA0''\<rparr>"


text \<open>Saving any sequence of contracts: a key is read back as the address saved last
  under it, and a key that was not saved keeps what it had.\<close>

theorem last_save_wins:
  "db (snd (for_each saves (\<lambda>(k, a). insertContractAddressInDb k a) w)) k =
     (case map_of (rev saves) k of
        Some a \<Rightarrow> Some \<lparr>e_address = a, e_deployer = None\<rparr> | None \<Rightarrow> db w k)"
proof -
  let ?e = "\<lambda>a. \<lparr>e_address = a, e_deployer = None\<rparr>"
  have run: "for_each saves (\<lambda>(k, a). insertContractAddressInDb k a) w =
      (Ret (), fold (\<lambda>(k, e). db_write k e) (map (\<lambda>(k, a). (k, ?e a)) saves) w)"
    by (induction saves arbitrary: w)
      (auto simp: ret_def insertContractAddressInDb_run await_run_Ret split: prod.splits)
  have rev: "map_of (rev (map (\<lambda>(k, a). (k, ?e a)) saves)) k = map_option ?e (map_of (rev saves) k)"
    by (simp add: rev_map map_of_map)
  show ?thesis
    using jsondb.look_stores [of "map (\<lambda>(k, a). (k, ?e a)) saves" w k]
    by (simp add: run rev db_entry_of_def split: option.splits)
qed

section \<open>Verification\<close>

text \<open>C31: Once \<^verbatim>\<open>checkVerification\<close> has let a migration start, no verification can stop
  it: \<^verbatim>\<open>withSaveAndVerify\<close> returns the contract, has saved it under its key and nothing
  else, and what it did besides is at most four requests to Etherscan and the removal of
  the temporary file.\<close>

theorem verification_cannot_stop:
  assumes "fst (checkVerification E w0) = Ret ()" and "h_deployer h = Some d"
  shows "\<exists>w' evs. withSaveAndVerify E h k args verify w = (Ret h, w') \<and>
    db w' = (db w)(k \<mapsto> \<lparr>e_address = h_addr h, e_deployer = Some d\<rparr>) \<and>
    trace w' = trace w @ evs \<and> verify_count evs \<le> 4 \<and> (\<forall>e \<in> set evs. is_EvVerify e \<or> e = EvCleanup)"
proof -
  obtain w1 where "checkVerification E w0 = (Ret (), w1)"
    using assms(1) by (cases "checkVerification E w0") simp
  then have can: "can_verify E" by (simp add: checkVerification_Ret_iff)
  let ?w1 = "db_write k \<lparr>e_address = h_addr h, e_deployer = Some d\<rparr> w"
  obtain ct where ct: "verifyContract E k h args = verifyEtherscanContract E (h_addr h) args ct None"
    using verifyContract_contract by blast
  obtain c evs where v: "verifyEtherscanContract E (h_addr h) args ct None ?w1 =
      (Ret (), ?w1\<lparr>chain := c, trace := trace ?w1 @ evs\<rparr>)" "verify_count evs \<le> 4"
    "\<forall>e \<in> set evs. is_EvVerify e \<or> e = EvCleanup"
    using verifyEtherscanContract_total [OF can, of "h_addr h" args ct None ?w1] by blast
  show ?thesis
  proof (cases verify)
    case True
    with v show ?thesis
      by (intro exI [of _ "?w1\<lparr>chain := c, trace := trace ?w1 @ evs\<rparr>"] exI [of _ evs])
        (simp add: withSaveAndVerify_def registerContractInJsonDb_run [OF assms(2)] await_run_Ret
          when_do_def ct ret_def)
  next
    case False
    then show ?thesis
      by (intro exI [of _ ?w1] exI [of _ "[]"]) (simp add: withSaveAndVerify_plain [OF assms(2)])
  qed
qed

theorem verification_cannot_stop_witness:
  "\<exists>w'. withSaveAndVerify (with_key ''main'') sample_handle ''LendPool'' [] True empty_world =
     (Ret sample_handle, w')"
  using verification_cannot_stop [of "with_key ''main''" empty_world sample_handle "''0xA0''" "''LendPool''" "[]"
      True empty_world]
  by (auto simp: checkVerification_def SUPPORTED_ETHERSCAN_NETWORKS_def ret_def sample_handle_def)

text \<open>When Etherscan keeps failing with messages that are neither final nor fatal, a
  contract is asked to be verified exactly four times, then the temporary file is removed
  once, and the script goes on.\<close>

theorem verification_exhausts_attempts:
  assumes "can_verify E" and "\<And>p c. \<exists>msg c'. n_verify E p c = (Some msg, c') \<and>
      \<not> list_ex (str_includes msg) okErrors \<and> \<not> list_ex (str_includes msg) fatalErrors"
  shows "\<exists>w' evs. verifyEtherscanContract E a args ct libs w = (Ret (), w') \<and>
    trace w' = trace w @ evs \<and> verify_count evs = 4 \<and> cleanup_count evs = 1 \<and> db w' = db w"
proof -
  obtain c evs where "retry E 4 \<lparr>v_address = a, v_contract = ct, v_libraries = libs,
      v_arguments = args, v_relatedSources = True\<rparr> w = (Ret (), w\<lparr>chain := c, trace := trace w @ evs\<rparr>)"
    "verify_count evs = 4" "cleanup_count evs = 1"
    using retry_exhausts [OF assms(2), of 4] by blast
  with assms(1) show ?thesis
    by (auto simp: verifyEtherscanContract_def can_verify_def runTaskWithRetry_def try_catch_def)
qed

theorem verification_exhausts_attempts_witness:
  "\<exists>w' evs. verifyEtherscanContract ((with_key ''main'')\<lparr>n_verify := \<lambda>p c. (Some ''timeout'', c)\<rparr>)
      ''0xC0'' [] None None empty_world = (Ret (), w') \<and> trace w' = evs \<and> verify_count evs = 4"
  using verification_exhausts_attempts [of "(with_key ''main'')\<lparr>n_verify := \<lambda>p c. (Some ''timeout'', c)\<rparr>"
      "''0xC0''" "[]" None None empty_world]
  by (auto simp: can_verify_def SUPPORTED_ETHERSCAN_NETWORKS_def okErrors_def fatalErrors_def)

text \<open>An answer that is final, that the source is verified already or that it can never
  be, ends the attempts at the first request, but the temporary argument file is then left
  in place: the trace has one request and no removal.\<close>

theorem final_answer_leaves_file:
  assumes "can_verify E" and "\<And>p c. \<exists>c'. n_verify E p c = (Some msg, c')"
    and "list_ex (str_includes msg) okErrors \<or> list_ex (str_includes msg) fatalErrors"
  shows "\<exists>w' evs. verifyEtherscanContract E a args ct libs w = (Ret (), w') \<and>
    trace w' = trace w @ evs \<and> verify_count evs = 1 \<and> cleanup_count evs = 0"
proof -
  let ?p = "\<lparr>v_address = a, v_contract = ct, v_libraries = libs, v_arguments = args,
      v_relatedSources = True\<rparr>"
  obtain c' where "n_verify E ?p (chain w) = (Some msg, c')" using assms(2) by blast
  then have "retry E (Suc n) ?p w = (Ret (), w\<lparr>chain := c', trace := trace w @ [EvVerify ?p]\<rparr>)"
    if "0 < n" for n
    using assms(3) that by (auto simp: Let_def try_catch_def await_def run_verify_def ret_def)
  from this [of 3] have "retry E 4 ?p w = (Ret (), w\<lparr>chain := c', trace := trace w @ [EvVerify ?p]\<rparr>)"
    by (simp del: retry.simps)
  with assms(1) show ?thesis
    by (auto simp: verifyEtherscanContract_def can_verify_def runTaskWithRetry_def try_catch_def
        simp del: retry.simps)
qed

theorem final_answer_leaves_file_witness:
  "\<exists>w' evs. verifyEtherscanContract ((with_key ''main'')\<lparr>n_verify := \<lambda>p c. (Some ''Already Verified'', c)\<rparr>)
      ''0xC0'' [] None None empty_world = (Ret (), w') \<and> trace w' = evs \<and> cleanup_count evs = 0"
  using final_answer_leaves_file [of "(with_key ''main'')\<lparr>n_verify := \<lambda>p c. (Some ''Already Verified'', c)\<rparr>"
      "''Already Verified''" "''0xC0''" "[]" None None empty_world]
  by (auto simp: can_verify_def SUPPORTED_ETHERSCAN_NETWORKS_def okErrors_def)

section \<open>Deployments\<close>

lemma answers_deploy_new:
  assumes "answers E" and "n_signers E \<noteq> []"
  shows "\<exists>h w1. deploy_new E t libs args w = (Ret h, w1) \<and> h_addr h \<noteq> [] \<and>
    h_deployer h = Some (hd (n_signers E)) \<and> db w1 = db w \<and>
    trace w1 = trace w @ [EvDeploy (Some (hd (n_signers E))) t libs args (h_addr h)]"
proof -
  have s: "getDeploySigner E = Some (hd (n_signers E))"
    using assms(2) by (simp add: getDeploySigner_def getEthersSigners_def arr_at_def hd_conv_nth)
  obtain ad c' where "n_deploy E (Some (hd (n_signers E))) t libs args (chain w) = (Inr ad, c')" "ad \<noteq> []"
    using assms(1) unfolding answers_def by blast
  then show ?thesis by (simp add: deploy_new_def deploy_with_def s)
qed

text \<open>C21: \<^verbatim>\<open>deployLendPool\<close> links the pool with the library addresses that the database has,
  placeholder by placeholder, and on a node that answers it returns once they are all
  there: one deployment, saved as the implementation and, for now, as the pool.\<close>

theorem lend_pool_linked_from_db:
  assumes "answers E" and "n_signers E \<noteq> []"
    and "\<forall>k \<in> {''ReserveLogic'', ''NftLogic'', ''ValidationLogic'', ''GenericLogic'', ''SupplyLogic'',
      ''BorrowLogic'', ''LiquidateLogic''}. db_address w k = Some (L k)"
  shows "\<exists>h w'. deployLendPool E False w = (Ret h, w') \<and>
    trace w' = trace w @ [EvDeploy (Some (hd (n_signers E))) ''LendPool''
      [(PLACEHOLDER_RESERVE_LOGIC, L ''ReserveLogic''), (PLACEHOLDER_NFT_LOGIC, L ''NftLogic''),
       (PLACEHOLDER_SUPPLY_LOGIC, L ''SupplyLogic''), (PLACEHOLDER_BORROW_LOGIC, L ''BorrowLogic''),
       (PLACEHOLDER_LIQUIDATE_LOGIC, L ''LiquidateLogic'')] [] (h_addr h)] \<and>
    db w' = (db w)(''LendPoolImpl'' \<mapsto> \<lparr>e_address = h_addr h, e_deployer = None\<rparr>,
      ''LendPool'' \<mapsto> \<lparr>e_address = h_addr h, e_deployer = Some (hd (n_signers E))\<rparr>)"
proof -
  let ?libs = "[(PLACEHOLDER_RESERVE_LOGIC, L ''ReserveLogic''), (PLACEHOLDER_NFT_LOGIC, L ''NftLogic''),
     (PLACEHOLDER_SUPPLY_LOGIC, L ''SupplyLogic''), (PLACEHOLDER_BORROW_LOGIC, L ''BorrowLogic''),
     (PLACEHOLDER_LIQUIDATE_LOGIC, L ''LiquidateLogic'')]"
  have "getLendPoolLibraries w = (Ret ?libs, w)"
    using assms(3) by (simp add: getLendPoolLibraries_Ret_iff)
  moreover obtain h w1 where "deploy_new E ''LendPool'' ?libs [] w = (Ret h, w1)"
    and h: "h_deployer h = Some (hd (n_signers E))" "db w1 = db w"
      "trace w1 = trace w @ [EvDeploy (Some (hd (n_signers E))) ''LendPool'' ?libs [] (h_addr h)]"
    using answers_deploy_new [OF assms(1,2)] by blast
  ultimately show ?thesis
    by (simp add: deployLendPool_def deploy_impl_def await_run_Ret insertContractAddressInDb_run
        withSaveAndVerify_plain)
qed

theorem lend_pool_linked_from_db_witness:
  "\<exists>h w'. deployLendPool sample_node False (world_with library_ids) = (Ret h, w')"
  using lend_pool_linked_from_db [OF sample_node_answers, of "world_with library_ids" "\<lambda>k. ''0xDB'' @ k"]
  by (auto simp: library_ids_def)

text \<open>Deploying an upgradeable contract with verification asked for but no Etherscan key
  throws after the database was written: the key that names the proxy is left pointing at
  the bare implementation, replacing what it had.\<close>

theorem missing_key_leaves_implementation:
  assumes "answers E" and "n_signers E \<noteq> []" and "\<not> truthy (n_ETHERSCAN_KEY E)"
  shows "\<exists>a w'. deployNFTOracle E True w = (Throw (JsError ''Missing process.env.ETHERSCAN_KEY.''), w') \<and>
    db w' = (db w)(''NFTOracleImpl'' \<mapsto> \<lparr>e_address = a, e_deployer = None\<rparr>,
      ''NFTOracle'' \<mapsto> \<lparr>e_address = a, e_deployer = Some (hd (n_signers E))\<rparr>) \<and>
    trace w' = trace w @ [EvDeploy (Some (hd (n_signers E))) ''NFTOracle'' [] [] (a)]"
proof -
  obtain h w1 where new: "deploy_new E ''NFTOracle'' [] [] w = (Ret h, w1)"
    and h: "h_deployer h = Some (hd (n_signers E))" "db w1 = db w"
      "trace w1 = trace w @ [EvDeploy (Some (hd (n_signers E))) ''NFTOracle'' [] [] (h_addr h)]"
    using answers_deploy_new [OF assms(1,2)] by blast
  let ?w = "db_write ''NFTOracle'' \<lparr>e_address = h_addr h, e_deployer = Some (hd (n_signers E))\<rparr>
        (db_write ''NFTOracleImpl'' \<lparr>e_address = h_addr h, e_deployer = None\<rparr> w1)"
  have "deployNFTOracle E True w = (Throw (JsError ''Missing process.env.ETHERSCAN_KEY.''), ?w)"
    using new h(1) assms(3)
    by (simp add: deployNFTOracle_def deploy_impl_def await_run_Ret
        insertContractAddressInDb_run withSaveAndVerify_def registerContractInJsonDb_run when_do_def
        await_run_Throw verifyContract_missing_key)
  moreover have "db ?w = (db w)(''NFTOracleImpl'' \<mapsto> \<lparr>e_address = h_addr h, e_deployer = None\<rparr>,
      ''NFTOracle'' \<mapsto> \<lparr>e_address = h_addr h, e_deployer = Some (hd (n_signers E))\<rparr>)"
    using h by simp
  moreover have "trace ?w = trace w @ [EvDeploy (Some (hd (n_signers E))) ''NFTOracle'' [] [] (h_addr h)]"
    using h by simp
  ultimately show ?thesis by blast
qed

theorem missing_key_leaves_implementation_witness:
  "\<exists>w'. deployNFTOracle sample_node True (world_with [''NFTOracle'']) =
     (Throw (JsError ''Missing process.env.ETHERSCAN_KEY.''), w') \<and>
     db w' ''NFTOracle'' \<noteq> db (world_with [''NFTOracle'']) ''NFTOracle''"
  using missing_key_leaves_implementation [OF sample_node_answers, of "world_with [''NFTOracle'']"]
  by auto

end
