(* ===== verification/TaskProperties.thy ===== *)
theory TaskProperties
  imports SampleNode
begin

text \<open>
  The properties of the tasks: what filling a pool sends to the chain, which entry a proxy
  leaves in the database, what a task may write, and the inputs on which a task cannot
  succeed.  A property that a task gets through is proved on nodes that cooperate
  (\<open>cooperative\<close>, theory \<open>Liveness\<close>); the others hold on every node.
\<close>

section \<open>Filling the pool\<close>

text \<open>C11: \<^verbatim>\<open>configureReservesByHelper\<close> on a cooperating node returns, having sent exactly this:
  the configuration structures of the listed reserves (those with an address), in the order of
  the configuration and in batches of at most twenty, then one call that enables borrowing on
  the listed reserves that allow it.\<close>

theorem configure_reserves_transactions:
  assumes "cooperative E" and "has_key E w ''LendPoolAddressesProvider''"
    and "has_key E w ''LendPoolConfigurator''" and "listed cfg addrs \<noteq> []"
  defines "h \<equiv> configurator_handle E w"
  shows "\<exists>w'. configureReservesByHelper E cfg addrs admin w = (Ret (), w') \<and> trace w' = trace w @
    map (\<lambda>c. EvTx (h_signer h) (h_addr h) ''batchConfigReserve'' [Arr c])
      (pieces 20 (map (\<lambda>(s, p, a). config_reserve_input a (reserveFactor p)) (listed cfg addrs))) @
    [EvTx (h_signer h) (h_addr h) ''setBorrowingFlagOnReserve''
       [Arr (map Str (map (\<lambda>(s, p, a). a) (filter (\<lambda>(s, p, a). borrowingEnabled p) (listed cfg addrs)))),
        Bool True]]"
proof -
  have "runs (configureReservesByHelper E cfg addrs admin) w (\<lambda>_ _. True)"
    by (rule coop_configure_reserves [OF assms(1-3)]) simp
  then obtain w' where "configureReservesByHelper E cfg addrs admin w = (Ret (), w')"
    using runs_returns by fastforce
  with configureReservesByHelper_trace [OF this assms(4)] show ?thesis unfolding h_def by blast
qed

definition pool_world :: "nat world" where
  "pool_world = world_with [''LendPoolAddressesProvider'', ''LendPoolConfigurator'', ''BToken'', ''DebtToken'']"

lemma pool_world_keys [simp]:
  "has_key (on_network n) pool_world ''LendPoolAddressesProvider''"
  "has_key (on_network n) pool_world ''LendPoolConfigurator''"
  "has_key (on_network n) pool_world ''BToken''" "has_key (on_network n) pool_world ''DebtToken''"
  by (simp_all add: has_key_def pool_world_def ZERO_ADDRESS_def)

theorem configure_reserves_transactions_witness:
  "\<exists>w'. configureReservesByHelper (on_network ''main'') bend_ReservesConfig [(''WETH'', ''0xE'')] None pool_world
     = (Ret (), w')"
  using configure_reserves_transactions [where w = pool_world and cfg = bend_ReservesConfig and
      addrs = "[(''WETH'', ''0xE'')]" and admin = None, OF on_network_cooperative [of "''main''"] pool_world_keys(1,2)]
  by (auto simp: listed_def bend_ReservesConfig_def)

text \<open>\<^verbatim>\<open>configureNftsByHelper\<close> on a cooperating node returns, having sent exactly the
  configuration structures of the listed NFTs whose loan-to-value is not -1, in the order of the
  configuration and in batches of at most twenty.\<close>

theorem configure_nfts_transactions:
  assumes "cooperative E" and "has_key E w ''LendPoolAddressesProvider''"
    and "has_key E w ''LendPoolConfigurator''"
  defines "h \<equiv> configurator_handle E w"
  shows "\<exists>w'. configureNftsByHelper E cfg addrs admin w = (Ret (), w') \<and> trace w' = trace w @
    map (\<lambda>c. EvTx (h_signer h) (h_addr h) ''batchConfigNft'' [Arr c])
      (pieces 20 (map (\<lambda>(s, p, a). config_nft_input a p)
        (filter (\<lambda>(s, p, a). baseLTVAsCollateral p \<noteq> ''-1'') (listed cfg addrs))))"
proof -
  have "runs (configureNftsByHelper E cfg addrs admin) w (\<lambda>_ _. True)"
    by (rule coop_configure_nfts [OF assms(1-3)]) simp
  then obtain w' where "configureNftsByHelper E cfg addrs admin w = (Ret (), w')"
    using runs_returns by fastforce
  with configureNftsByHelper_trace [OF this] show ?thesis unfolding h_def by blast
qed

theorem configure_nfts_transactions_witness:
  "\<exists>w'. configureNftsByHelper (on_network ''main'') bend_NftsConfig [(''BAYC'', ''0xB'')] None pool_world
     = (Ret (), w') \<and> length (trace w') = 1"
  using configure_nfts_transactions [where w = pool_world and cfg = bend_NftsConfig and
      addrs = "[(''BAYC'', ''0xB'')]" and admin = None, OF on_network_cooperative [of "''main''"] pool_world_keys(1,2)]
  by (auto simp: pool_world_def world_with_def listed_def bend_NftsConfig_def nft_strategy_defs pieces.simps)

text \<open>\<^verbatim>\<open>initNftsByHelper\<close> on a cooperating node returns, having sent one transaction per
  listed NFT, in the order of the configuration, and nothing else.\<close>

theorem init_nfts_transactions:
  assumes "cooperative E" and "has_key E w ''LendPoolAddressesProvider''"
    and "has_key E w ''LendPoolConfigurator''"
  defines "h \<equiv> configurator_handle E w"
  shows "\<exists>w'. initNftsByHelper E cfg addrs admin pool False w = (Ret (), w') \<and> trace w' = trace w @
    map (\<lambda>(s, p, a). EvTx (h_signer h) (h_addr h) ''batchInitNft'' [Arr [init_nft_input a]])
      (listed cfg addrs)"
proof -
  have "runs (initNftsByHelper E cfg addrs admin pool False) w (\<lambda>_ _. True)"
    by (rule coop_init_nfts [OF assms(1-3)]) simp
  then obtain w' where "initNftsByHelper E cfg addrs admin pool False w = (Ret (), w')"
    using runs_returns by fastforce
  with initNftsByHelper_trace [OF this] show ?thesis unfolding h_def by blast
qed

theorem init_nfts_transactions_witness:
  "\<exists>w'. initNftsByHelper (on_network ''main'') bend_NftsConfig [(''BAYC'', ''0xB'')] None ''Bend'' False pool_world
     = (Ret (), w') \<and> length (trace w') = 1"
  using init_nfts_transactions [where w = pool_world and cfg = bend_NftsConfig and
      addrs = "[(''BAYC'', ''0xB'')]" and admin = None and pool = "''Bend''",
      OF on_network_cooperative [of "''main''"] pool_world_keys(1,2)]
  by (auto simp: pool_world_def world_with_def listed_def bend_NftsConfig_def)




end
