(* ===== verification/SafetyProperties.thy ===== *)
theory SafetyProperties
  imports SampleNode
begin

text \<open>
  What a task may not do, on every node: overwrite entries it does not own, replace a proxy
  that the market configuration names, act for an owner it is not.  And the inputs on which a
  task cannot succeed, which the configuration of the repository contains.
\<close>

section \<open>Entries of the database\<close>



text \<open>C29: The NFT oracle task never moves a live oracle.  Where the market configuration names a
  usable oracle proxy for the network, the task, when it returns, has deployed an implementation,
  sent the proxy's admin the upgrade of that proxy to that implementation, and left the proxy's
  address in the database, although deploying the implementation had replaced it there.\<close>

theorem configured_oracle_kept:
  assumes "getParamPerNetwork E commons_NFTOracle (n_network E) = Some a"
    and "notFalsyOrZeroAddress E (Some a)"
    and "full_deploy_oracle_nft E verify ''Bend'' False skip admin w = (Ret u, w')"
  shows "db w' ''NFTOracle'' = Some \<lparr>e_address = a, e_deployer = None\<rparr> \<and> (\<exists>owner adm impl.
    db w' ''NFTOracleImpl'' = Some \<lparr>e_address = impl, e_deployer = None\<rparr> \<and>
    EvTx (Some owner) adm ''upgrade'' [Str a, Str impl] \<in> set (trace w'))"
proof -
  have "getParamPerNetwork E bend_NftsAssets (n_network E) \<noteq> None"
    using assms(3) unfolding full_deploy_oracle_nft_def Let_def
    by (auto simp: run_simps split: option.splits)
  then obtain na where na: "getParamPerNetwork E bend_NftsAssets (n_network E) = Some na" by blast
  from assms(3) obtain p w0 w1 w2 adm own impl data1
    where new: "deployNFTOracle E verify w0 = (Ret impl, w1)"
      and up: "upgrade_or_deploy E ''NFTOracle'' (Some a) adm own impl data1 verify w1 = (Ret p, w2)"
      and rest: "db w' = db w2" "\<exists>evs. trace w' = trace w2 @ evs"
    unfolding full_deploy_oracle_nft_def Let_def getter_defs
    by (simp add: assms(1,2) na run_simps)
      (elim exE conjE, rule that, assumption+, auto simp: run_simps split: if_splits)
  from up assms(2) have "upgrade_proxy E ''NFTOracle'' a adm own impl w1 = (Ret p, w2)"
    by (simp add: upgrade_or_deploy_def)
  note this = upgrade_proxy_Ret [OF this] deploy_impl_Ret [OF new [unfolded deployNFTOracle_def]] rest
  then have "db w' ''NFTOracle'' = Some \<lparr>e_address = a, e_deployer = None\<rparr>"
    "db w' ''NFTOracleImpl'' = Some \<lparr>e_address = h_addr impl, e_deployer = None\<rparr>"
    "EvTx (Some own) (h_addr adm) ''upgrade'' [Str a, Str (h_addr impl)] \<in> set (trace w')"
    by auto
  then show ?thesis by blast
qed

theorem configured_oracle_kept_witness:
  "\<exists>w'. full_deploy_oracle_nft (on_network ''main'') False ''Bend'' False False None
      (world_with [''LendPoolAddressesProvider'', ''BendProxyAdminPool'']) = (Ret (), w') \<and>
    db_address w' ''NFTOracle'' = Some ''0x7C2A19e54e48718f6C60908a9Cff3396E4Ea1eBA''"
proof -
  have "\<exists>w'. full_deploy_oracle_nft (on_network ''main'') False ''Bend'' False False None
      (world_with [''LendPoolAddressesProvider'', ''BendProxyAdminPool'']) = (Ret (), w')"
    using coop_oracle_nft [OF on_network_cooperative main_ready, of
        "world_with [''LendPoolAddressesProvider'', ''BendProxyAdminPool'']"]
    by (auto simp: runs_def has_key_def ZERO_ADDRESS_def)
  then obtain w' where run: "full_deploy_oracle_nft (on_network ''main'') False ''Bend'' False False None
      (world_with [''LendPoolAddressesProvider'', ''BendProxyAdminPool'']) = (Ret (), w')" by blast
  from configured_oracle_kept [OF _ _ run] show ?thesis using run
    by (auto simp: getParamPerNetwork_def commons_NFTOracle_def ZERO_ADDRESS_def db_address_def)
qed

section \<open>Acting for an owner\<close>

text \<open>\<^verbatim>\<open>add-market-to-registry\<close> on an existing registry acts for nobody else: on a live
  network, where the configured owner of the registry is not the signer the task runs with, the
  process exits with status 2 before any transaction, and the database, the chain and the trace
  are as they were.\<close>

theorem registry_of_another_owner:
  assumes "\<not> truthy (n_FORK E)" and "getDeploySigner E = Some signer"
    and "getParamPerNetwork E commons_ProviderRegistry (n_network E) = Some registry"
    and "notFalsyOrZeroAddress E (Some registry)"
    and "getParamPerNetwork E commons_ProviderRegistryOwner (n_network E) = Some owner"
    and "notFalsyOrZeroAddress E (Some owner)" and "js_lower owner \<noteq> js_lower signer"
  shows "add_market_to_registry E verify provider ''Bend'' False w = (Exit 2, w\<lparr>dre_set := True\<rparr>)"
  using assms
  by (simp add: add_market_to_registry_def Let_def unusable_iff await_def set_DRE_def ret_def exit_process_def)

theorem registry_of_another_owner_witness:
  "add_market_to_registry (on_network ''main'') False None ''Bend'' False empty_world
     = (Exit 2, empty_world\<lparr>dre_set := True\<rparr>)"
  by (rule registry_of_another_owner [where signer = "''0xA0''" and E = "on_network ''main''" and
        registry = "''0x2C16905Dfd953cf3BF3960c4A101c1eEBBd37E32''" and
        owner = "''0x868964fa49a6fd6e116FE82c8f4165904406f479''"])
    (simp_all add: getDeploySigner_def getEthersSigners_def arr_at_def getParamPerNetwork_def
      commons_ProviderRegistry_def commons_ProviderRegistryOwner_def ZERO_ADDRESS_def js_lower_def char_lower_def)

text \<open>A configurator handle, wherever its address comes from, has the configurator's methods.\<close>

lemma keeps_configurator:
  assumes "\<And>h. h_type h = ''LendPoolConfigurator'' \<Longrightarrow> keeps untouched (f h)"
  shows "keeps untouched (await (connect_or_db E ''LendPoolConfigurator'' k a) f)"
  using assms
  by (intro reads.keeps_await_in reads.keeps_connect_or_db)
    (auto simp: connect_or_db_Ret_iff connect_at_def split: if_splits)

definition as_declared :: "nat net \<Rightarrow> nat net" where
  "as_declared E = E\<lparr>n_has_method := (\<lambda>t m. t = ''LendPoolConfigurator'' \<longrightarrow> m \<in> set LendPoolConfigurator_functions)\<rparr>"

text \<open>The switches of the pool administrator cannot work.  With the methods the configurator
  contract has (none is called \<^verbatim>\<open>activateReserve\<close>, \<^verbatim>\<open>freezeNft\<close> and so on), a switch
  never sends a transaction, whichever way it ends: the chain and the database are as they were.\<close>

theorem switches_send_nothing:
  assumes "\<And>m. n_has_method E ''LendPoolConfigurator'' m \<longleftrightarrow> m \<in> set LendPoolConfigurator_functions"
    and "task \<in> {pool_admin_set_reserve_active E p asset state, pool_admin_set_reserve_frozen E p asset state,
      pool_admin_set_nft_active E p asset state, pool_admin_set_nft_frozen E p asset state}"
  shows "trace (snd (task w)) = trace w \<and> chain (snd (task w)) = chain w \<and> db (snd (task w)) = db w"
proof -
  have sw: "keeps untouched (pool_admin_switch E asset state cm f on off)"
    if "on \<notin> set LendPoolConfigurator_functions" "off \<notin> set LendPoolConfigurator_functions" for cm f on off
    unfolding pool_admin_switch_def getLendPoolAddressesProvider_def getLendPoolConfiguratorProxy_def
      getBendProtocolDataProvider_def Let_def
    by (rule keeps_configurator | rule keeps_intros
        | (rule reads.keeps_send_missing, simp add: assms(1) that))+
  have "keeps untouched task"
    using assms(2) unfolding pool_admin_set_reserve_active_def pool_admin_set_reserve_frozen_def
      pool_admin_set_nft_active_def pool_admin_set_nft_frozen_def
    by (auto intro!: sw simp: LendPoolConfigurator_functions_def)
  from keeps_snd [OF this, of w] show ?thesis by (simp add: untouched_def)
qed

theorem switches_send_nothing_witness:
  "trace (snd (pool_admin_set_nft_frozen (as_declared (on_network ''main'')) ''Bend'' ''0xB'' 1 empty_world)) = []"
  by (subst conjunct1 [OF switches_send_nothing [where p = "''Bend''" and asset = "''0xB''" and state = 1
          and E = "as_declared (on_network ''main'')"]])
    (simp_all add: as_declared_def)

section \<open>Inputs on which a task cannot succeed\<close>

text \<open>\<^verbatim>\<open>verify:nfts\<close> cannot succeed on a network whose asset list names an NFT that the
  configuration of NFTs does not: whatever the node and Etherscan answer, no run returns.  The
  list for \<^verbatim>\<open>rinkeby\<close> is such a one.\<close>

theorem verify_nfts_needs_config:
  assumes "getParamPerNetwork E bend_NftsAssets (n_network E) = Some assets"
    and "(symbol, address) \<in> set assets" and "obj_get bend_NftsConfig symbol = None"
  shows "never_returns (verify_nfts E ''Bend'') w"
proof -
  have "never_returns (for_each assets (verify_one_nft E bend_NftsConfig p r)) w" for p r w
    by (rule for_each_never_returns [OF assms(2)]) (rule verify_one_nft_missing [OF assms(3)])
  then show ?thesis
    unfolding verify_nfts_def object_entries_def
    by (intro never_returns_awaitI) (auto simp: run_simps assms(1))
qed

theorem verify_nfts_needs_config_witness: "never_returns (verify_nfts (on_network ''rinkeby'') ''Bend'') empty_world"
  by (rule verify_nfts_needs_config [where symbol = "''COOL''" and assets = "the (pn_rinkeby bend_NftsAssets)"
        and address = "''0x1F912E9b691858052196F11Aff9d8B6f89951AbD''"])
    (simp_all add: getParamPerNetwork_def bend_NftsAssets_def bend_NftsConfig_def)

text \<open>The development NFT oracle cannot be initialised.  Where the contract wrapper refuses a
  JavaScript number it cannot hold exactly, as \<^verbatim>\<open>ethers\<close> documents, no run of the task
  returns: its two thresholds are the numbers 2e17 and 1e17.  The same thresholds as big numbers,
  in the task for the full environment, pass.\<close>

theorem dev_oracle_number_overflow:
  assumes "\<And>s to t m args c n. Num n \<in> set args \<Longrightarrow> n > 2 ^ 53 - 1 \<Longrightarrow> fst (n_send E s to t m args c) \<noteq> None"
  shows "never_returns (dev_deploy_oracle_nft E verify ''Bend'') w"
proof -
  have "never_returns (send E h ''initialize'' (dev_nft_oracle_init_args a)) w1" for h a w1
    using assms [of "2 * 10 ^ 17" "dev_nft_oracle_init_args a" "h_signer h" "h_addr h" "h_type h" "''initialize''"
        "chain w1"]
    by (auto simp: never_returns_def send_Ret_iff dev_nft_oracle_init_args_def)
  then show ?thesis
    unfolding dev_deploy_oracle_nft_def Let_def
    by (intro never_returns_awaitI) (auto simp: never_returns_def)
qed

definition refusing_node :: "nat net" where
  "refusing_node = sample_node\<lparr>n_send := (\<lambda>s to t m args c.
     if \<exists>v \<in> set args. case v of Num n \<Rightarrow> n > 2 ^ 53 - 1 | _ \<Rightarrow> False then (Some ''overflow'', c) else (None, c))\<rparr>"

theorem dev_oracle_number_overflow_witness:
  "never_returns (dev_deploy_oracle_nft refusing_node False ''Bend'') empty_world"
  by (rule dev_oracle_number_overflow) (force simp: refusing_node_def)

section \<open>Proxy administrators\<close>

lemma deploy_one_proxy_admin_db:
  assumes "deploy_one_proxy_admin E k p verify w = (Ret u, w')"
  shows "(\<forall>k'. k' \<noteq> k \<longrightarrow> db w' k' = db w k') \<and>
    (\<forall>a. getParamPerNetwork E p (n_network E) = Some a \<and> notFalsyOrZeroAddress E (Some a) \<longrightarrow>
       db w' k = Some \<lparr>e_address = a, e_deployer = None\<rparr>)"
proof (cases "notFalsyOrZeroAddress E (getParamPerNetwork E p (n_network E))")
  case True
  then obtain a where "getParamPerNetwork E p (n_network E) = Some a"
    by (cases "getParamPerNetwork E p (n_network E)") (auto simp: notFalsyOrZeroAddress_def)
  with True assms show ?thesis
    by (auto simp: deploy_one_proxy_admin_def Let_def await_Ret_iff insertContractAddressInDb_Ret_iff
        getBendProxyAdminByAddress_def ret_Ret_iff view_Ret_iff db_write_def)
next
  case False
  with assms obtain h w1 where "deployBendProxyAdmin E k verify w = (Ret h, w1)" "db w' = db w1"
    by (auto simp: deploy_one_proxy_admin_def Let_def await_Ret_iff view_Ret_iff ret_Ret_iff split: if_splits)
  then show ?thesis using False deploy_save_Ret unfolding deployBendProxyAdmin_def by fastforce
qed

text \<open>\<^verbatim>\<open>full:deploy-proxy-admin\<close> adopts a configured administrator instead of deploying
  another: for each of the three administrators whose address the market configuration gives for
  the network, a run that returned has saved that very address.\<close>

theorem proxy_admins_adopted:
  assumes "full_deploy_proxy_admin E verify ''Bend'' True pid w = (Ret u, w')"
    and "(k, p) \<in> {(''BendProxyAdminPool'', commons_ProxyAdminPool), (''BendProxyAdminFund'', commons_ProxyAdminFund),
      (''BendProxyAdminWTL'', commons_ProxyAdminWTL)}"
    and "getParamPerNetwork E p (n_network E) = Some a" and "notFalsyOrZeroAddress E (Some a)"
  shows "db w' k = Some \<lparr>e_address = a, e_deployer = None\<rparr>"
proof -
  from assms(1) obtain w0 w1 w2
    where 1: "deploy_one_proxy_admin E ''BendProxyAdminPool'' commons_ProxyAdminPool verify w0 = (Ret (), w1)"
      and 2: "deploy_one_proxy_admin E ''BendProxyAdminFund'' commons_ProxyAdminFund verify w1 = (Ret (), w2)"
      and 3: "deploy_one_proxy_admin E ''BendProxyAdminWTL'' commons_ProxyAdminWTL verify w2 = (Ret (), w')"
    by (auto simp: full_deploy_proxy_admin_def run_simps)
  from assms(2-) deploy_one_proxy_admin_db [OF 1] deploy_one_proxy_admin_db [OF 2]
    deploy_one_proxy_admin_db [OF 3] show ?thesis by auto
qed

theorem proxy_admins_adopted_witness:
  "\<exists>w'. full_deploy_proxy_admin (on_network ''main'') False ''Bend'' True None empty_world = (Ret (), w') \<and>
    db w' ''BendProxyAdminPool'' = Some \<lparr>e_address = ''0x501c991E0D31D408c25bCf00da27BdF2759A394a'', e_deployer = None\<rparr>"
proof -
  have "runs (full_deploy_proxy_admin (on_network ''main'') False ''Bend'' True None) empty_world (\<lambda>_ _. True)"
    by (rule runs_mono [OF coop_proxy_admins [OF on_network_cooperative]]) simp
  then obtain w' where run: "full_deploy_proxy_admin (on_network ''main'') False ''Bend'' True None empty_world = (Ret (), w')"
    using runs_returns by fastforce
  from proxy_admins_adopted [OF run, of "''BendProxyAdminPool''" commons_ProxyAdminPool] run show ?thesis
    by (simp add: getParamPerNetwork_def commons_ProxyAdminPool_def ZERO_ADDRESS_def)
qed

end
