(* ===== verification/MockProperties.thy ===== *)
theory MockProperties
  imports SampleNode
begin

text \<open>
  The development market of mock contracts: what the deployment of the mocks registers is what
  the books of mocks read back, and the steps of the development migration that cannot succeed
  on the configuration of the repository.
\<close>

section \<open>Registering and reading the mocks\<close>

text \<open>
  A loop that deploys one contract per symbol and registers it under the upper-case symbol.  A
  round may write other keys, but not those of the other symbols.
\<close>

lemma register_fold:
  assumes step: "\<And>s w h w'. s \<in> set syms \<Longrightarrow> d s w = (Ret h, w') \<Longrightarrow>
      h_addr h \<noteq> [] \<and> (\<forall>s' \<in> all1. s' \<noteq> s \<longrightarrow> db w' (js_upper s') = db w (js_upper s'))"
    and inj: "inj_on js_upper all1" "set syms \<subseteq> all1" "distinct syms"
    and run: "for_fold syms (\<lambda>s acc. await (d s) (\<lambda>tok.
       await (registerContractInJsonDb (js_upper s) tok) (\<lambda>_. ret (obj_set s tok acc)))) acc w = (Ret book, w')"
    and fresh: "set syms \<inter> set (obj_keys acc) = {}"
  shows "\<exists>ps. book = acc @ ps \<and> obj_keys ps = syms \<and>
    (\<forall>(s, h) \<in> set ps. db_address w' (js_upper s) = Some (h_addr h) \<and> h_addr h \<noteq> []) \<and>
    (\<forall>s \<in> all1 - set syms. db w' (js_upper s) = db w (js_upper s))"
  using assms
proof (induction syms arbitrary: acc w)
  case Nil
  then show ?case by (auto simp: ret_Ret_iff)
next
  case (Cons s syms)
  from Cons.prems(5) obtain tok w1 w2 where d: "d s w = (Ret tok, w1)"
    and reg: "registerContractInJsonDb (js_upper s) tok w1 = (Ret (), w2)"
    and rest: "for_fold syms (\<lambda>s acc. await (d s) (\<lambda>tok.
       await (registerContractInJsonDb (js_upper s) tok) (\<lambda>_. ret (obj_set s tok acc))))
       (obj_set s tok acc) w2 = (Ret book, w')"
    by (auto simp: for_fold_Ret_Cons await_Ret_iff ret_Ret_iff simp del: for_fold.simps)
  from Cons.prems(1) [OF _ d] have tok: "h_addr tok \<noteq> []"
    and kept: "\<forall>s' \<in> all1. s' \<noteq> s \<longrightarrow> db w1 (js_upper s') = db w (js_upper s')" by auto
  have acc: "obj_set s tok acc = acc @ [(s, tok)]" using Cons.prems(6) by (intro obj_set_fresh) auto
  have "\<exists>ps. book = (acc @ [(s, tok)]) @ ps \<and> obj_keys ps = syms \<and>
    (\<forall>(s, h) \<in> set ps. db_address w' (js_upper s) = Some (h_addr h) \<and> h_addr h \<noteq> []) \<and>
    (\<forall>s \<in> all1 - set syms. db w' (js_upper s) = db w2 (js_upper s))"
    by (rule Cons.IH [OF Cons.prems(1)]) (use Cons.prems rest acc in auto)
  then obtain ps where ps: "book = acc @ (s, tok) # ps" "obj_keys ps = syms"
    "\<forall>(s, h) \<in> set ps. db_address w' (js_upper s) = Some (h_addr h) \<and> h_addr h \<noteq> []"
    "\<forall>s \<in> all1 - set syms. db w' (js_upper s) = db w2 (js_upper s)" by auto
  from reg obtain dd where w2: "w2 = db_write (js_upper s) \<lparr>e_address = h_addr tok, e_deployer = Some dd\<rparr> w1"
    by (auto simp: registerContractInJsonDb_Ret_iff)
  have s: "s \<in> all1" "s \<notin> set syms" using Cons.prems by auto
  with ps(4) w2 tok have "db_address w' (js_upper s) = Some (h_addr tok)"
    by (simp add: db_address_def db_write_def)
  moreover have "db w' (js_upper s') = db w (js_upper s')" if "s' \<in> all1 - set (s # syms)" for s'
  proof -
    from that s have "js_upper s' \<noteq> js_upper s" using Cons.prems(2) by (auto dest: inj_onD)
    with that ps(4) kept w2 show ?thesis by (auto simp: db_write_def)
  qed
  ultimately show ?case using ps tok by (intro exI [of _ "(s, tok) # ps"]) auto
qed

lemma book_fold:
  assumes "\<forall>(s, h) \<in> set ps. db_address w (js_upper s) = Some (h_addr h) \<and> h_addr h \<noteq> []"
    and "distinct (obj_keys ps)" and "set (obj_keys ps) \<inter> set (obj_keys acc) = {}"
  shows "for_fold (obj_keys ps) (\<lambda>s acc. await (db_value_address (js_upper s)) (\<lambda>address.
      await (connect_or_db E t k (Some address)) (\<lambda>h. ret (obj_set s h acc)))) acc w
    = (Ret (acc @ map (\<lambda>(s, h). (s, connect_at E t (h_addr h))) ps), w)"
  using assms
proof (induction ps arbitrary: acc)
  case Nil
  then show ?case by (simp add: ret_def)
next
  case (Cons p ps)
  obtain s h where p: "p = (s, h)" by (cases p)
  from Cons.prems(1) p have addr: "db_value_address (js_upper s) w = (Ret (h_addr h), w)" "h_addr h \<noteq> []"
    by (auto simp: db_value_address_Ret_iff db_address_def split: option.splits if_splits)
  have "obj_set s (connect_at E t (h_addr h)) acc = acc @ [(s, connect_at E t (h_addr h))]"
    using Cons.prems(3) p by (intro obj_set_fresh) auto
  with addr Cons.IH [of "acc @ [(s, connect_at E t (h_addr h))]"] Cons.prems p
  show ?case by (simp add: await_assoc await_run_Ret connect_or_db_some)
qed

text \<open>What the two together say of the addresses.\<close>

lemma registered_book:
  assumes "obj_keys ps = syms" "distinct syms"
    and "\<forall>(s, h) \<in> set ps. db_address w (js_upper s) = Some (h_addr h) \<and> h_addr h \<noteq> []"
  shows "\<exists>book. for_fold syms (\<lambda>s acc. await (db_value_address (js_upper s)) (\<lambda>address.
      await (connect_or_db E t k (Some address)) (\<lambda>h. ret (obj_set s h acc)))) [] w = (Ret book, w) \<and>
    addresses_of book [] = addresses_of ps []"
proof -
  have "addresses_of (map (\<lambda>(s, h). (s, connect_at E t (h_addr h))) ps) [] = addresses_of ps []"
    using assms(1,2) by (simp add: addresses_of_append comp_def split_def)
  with book_fold [of ps w "[]" E t k] assms show ?thesis by auto
qed

lemma deploy_save_nonempty:
  assumes "deploy_save E t libs args k verify w = (Ret h, w')" and "deploys_nonempty E"
  shows "h_addr h \<noteq> []"
  using assms unfolding deploy_save_def deploy_new_def await_Ret_iff deploy_with_Ret_iff deploys_nonempty_def
  by (fastforce dest: withSaveAndVerify_Ret)

lemma mock_symbols:
  "inj_on js_upper (set NftContractId)" "distinct NftContractId"
  "inj_on js_upper (set TokenContractId)" "distinct TokenContractId"
  by (simp_all add: NftContractId_def TokenContractId_def js_upper_def char_upper_def)

lemma deploy_save_frame:
  assumes "deploy_save E t libs args k verify w = (Ret h, w')" and "deploys_nonempty E"
  shows "h_addr h \<noteq> [] \<and> (\<forall>k'. k' \<noteq> k \<longrightarrow> db w' k' = db w k')"
  using deploy_save_Ret [OF assms(1)] deploy_save_nonempty [OF assms] by simp

lemma deploy_mock_nft_frame:
  assumes "deploy_mock_nft E s verify w = (Ret h, w')" and "deploys_nonempty E"
  shows "h_addr h \<noteq> [] \<and> (\<forall>k. k \<notin> {''CryptoPunksMarket'', ''WrappedPunk'', ''MockOtherdeed'',
    ''WrappedKoda'', ''MintableERC721''} \<longrightarrow> db w' k = db w k)"
proof (cases "s = ''WPUNKS'' \<or> s = ''WKODA''")
  case False
  with assms(1) have "deploy_save E ''MintableERC721'' [] [Str (''Bend Mock '' @ s), Str s]
      ''MintableERC721'' verify w = (Ret h, w')"
    by (simp add: deploy_mock_nft_def deployMintableERC721_def)
  from deploy_save_frame [OF this assms(2)] show ?thesis by blast
next
  case True
  with assms(1) obtain t1 a1 k1 t2 a2 k2 m w1
    where 1: "deploy_save E t1 [] a1 k1 verify w = (Ret m, w1)"
      and 2: "deploy_save E t2 [] a2 k2 verify w1 = (Ret h, w')"
      and k: "k1 \<in> {''CryptoPunksMarket'', ''MockOtherdeed''}" "k2 \<in> {''WrappedPunk'', ''WrappedKoda''}"
    by (elim disjE) (auto simp: deploy_mock_nft_def deployCryptoPunksMarket_def deployWrappedPunk_def
        deployMockERC721Underlying_def deployMockERC721Wrapper_def await_Ret_iff)
  from k deploy_save_frame [OF 1 assms(2)] deploy_save_frame [OF 2 assms(2)] show ?thesis by fastforce
qed

lemma upper_not_contract:
  "s \<in> set NftContractId \<Longrightarrow> js_upper s \<notin> {''CryptoPunksMarket'', ''WrappedPunk'', ''MockOtherdeed'',
    ''WrappedKoda'', ''MintableERC721''}"
  by (auto simp: NftContractId_def js_upper_def char_upper_def)

text \<open>The mock NFTs are read back as they were deployed.  After \<^verbatim>\<open>deployAllMockNfts\<close>
  returned, \<^verbatim>\<open>getAllMockedNfts\<close> returns without a change, and its book has one contract
  per symbol, in the order of the symbols, at the addresses that were deployed.\<close>

theorem mock_nfts_read_back:
  assumes "deployAllMockNfts E verify w = (Ret nfts, w')" and "deploys_nonempty E"
  shows "\<exists>book. getAllMockedNfts E w' = (Ret book, w') \<and> obj_keys nfts = NftContractId \<and>
    getAllNftAddresses book = getAllNftAddresses nfts"
proof -
  have "\<exists>ps. nfts = [] @ ps \<and> obj_keys ps = NftContractId \<and>
    (\<forall>(s, h) \<in> set ps. db_address w' (js_upper s) = Some (h_addr h) \<and> h_addr h \<noteq> []) \<and>
    (\<forall>s \<in> set NftContractId - set NftContractId. db w' (js_upper s) = db w (js_upper s))"
  proof (rule register_fold [OF _ mock_symbols(1) subset_refl mock_symbols(2) assms(1) [unfolded deployAllMockNfts_def]])
    fix s w h w'
    assume "deploy_mock_nft E s verify w = (Ret h, w')"
    from deploy_mock_nft_frame [OF this assms(2)] upper_not_contract
    show "h_addr h \<noteq> [] \<and> (\<forall>s' \<in> set NftContractId. s' \<noteq> s \<longrightarrow> db w' (js_upper s') = db w (js_upper s'))"
      by blast
  qed simp
  then have "obj_keys nfts = NftContractId"
    "\<forall>(s, h) \<in> set nfts. db_address w' (js_upper s) = Some (h_addr h) \<and> h_addr h \<noteq> []" by auto
  from registered_book [OF this(1) mock_symbols(2) this(2)] this(1) show ?thesis
    unfolding getAllMockedNfts_def mock_book_def getMintableERC721_def getAllNftAddresses_def by auto
qed

lemma sample_runs_save:
  assumes "\<And>h w'. h_deployer h = Some ''0xA0'' \<Longrightarrow> Q h w'"
  shows "runs (deploy_save sample_node t libs args k False) w Q"
  using assms by (simp add: runs_def deploy_save_def deploy_new_def deploy_with_def await_def
      withSaveAndVerify_plain getDeploySigner_def getEthersSigners_def arr_at_def)

lemma runs_register:
  assumes "h_deployer h = Some d" and "\<And>w'. Q () w'"
  shows "runs (registerContractInJsonDb k h) w Q"
  using assms by (simp add: runs_def registerContractInJsonDb_run)

theorem mock_nfts_read_back_witness:
  "\<exists>nfts w'. deployAllMockNfts sample_node False empty_world = (Ret nfts, w') \<and>
    (\<exists>book. getAllMockedNfts sample_node w' = (Ret book, w') \<and> obj_keys nfts = NftContractId)"
proof -
  have "runs (deployAllMockNfts sample_node False) empty_world (\<lambda>_ _. True)"
    unfolding deployAllMockNfts_def
    by (rule runs_for_fold [where I = "\<lambda>_ _. True"])
      (auto simp: deploy_mock_nft_def deployCryptoPunksMarket_def deployWrappedPunk_def
        deployMockERC721Underlying_def deployMockERC721Wrapper_def deployMintableERC721_def
        intro!: sample_runs_save runs_register)
  from runs_returns [OF this] obtain nfts w' where run: "deployAllMockNfts sample_node False empty_world = (Ret nfts, w')"
    by blast
  have "deploys_nonempty sample_node" by (auto simp: deploys_nonempty_def)
  from mock_nfts_read_back [OF run this] run show ?thesis by auto
qed

text \<open>The mock tokens are read back as they were deployed, in the test and in the deployment
  variant, although the deployment of the first one already writes a token's key.\<close>

theorem mock_tokens_read_back:
  assumes "deployAllMockTokens E forTestCases verify w = (Ret tokens, w')" and "deploys_nonempty E"
  shows "\<exists>book. getAllMockedTokens E w' = (Ret book, w') \<and> obj_keys tokens = TokenContractId \<and>
    getAllTokenAddresses book = getAllTokenAddresses tokens"
proof -
  have step: "h_addr h \<noteq> [] \<and> (\<forall>s' \<in> set TokenContractId. s' \<noteq> s \<longrightarrow> db w' (js_upper s') = db w (js_upper s'))"
    if "(if s = ''WETH'' then (if forTestCases then deployWETHMocked E False else deployWETH9 E False)
       else deployMintableERC20 E (args s) verify) w = (Ret h, w')" for s w h w' args
  proof -
    from that obtain t a k v where run: "deploy_save E t [] a k v w = (Ret h, w')"
      and k: "k \<in> {''WETHMocked'', ''MintableERC20''} \<or> k = ''WETH'' \<and> s = ''WETH''"
      by (auto simp: deployWETHMocked_def deployWETH9_def deployMintableERC20_def split: if_splits)
    from k have "s' \<in> set TokenContractId \<Longrightarrow> s' \<noteq> s \<Longrightarrow> js_upper s' \<noteq> k" for s'
      by (auto simp: TokenContractId_def js_upper_def char_upper_def)
    with deploy_save_frame [OF run assms(2)] show ?thesis by blast
  qed
  note run = assms(1) [unfolded deployAllMockTokens_def Let_def]
  have "\<exists>ps. tokens = [] @ ps \<and> obj_keys ps = TokenContractId \<and>
    (\<forall>(s, h) \<in> set ps. db_address w' (js_upper s) = Some (h_addr h) \<and> h_addr h \<noteq> []) \<and>
    (\<forall>s \<in> set TokenContractId - set TokenContractId. db w' (js_upper s) = db w (js_upper s))"
    by (rule register_fold [OF _ mock_symbols(3) subset_refl mock_symbols(4) run], erule step, simp)
  then have "obj_keys tokens = TokenContractId"
    "\<forall>(s, h) \<in> set tokens. db_address w' (js_upper s) = Some (h_addr h) \<and> h_addr h \<noteq> []" by auto
  from registered_book [OF this(1) mock_symbols(4) this(2)] this(1) show ?thesis
    unfolding getAllMockedTokens_def mock_book_def getMintableERC20_def getAllTokenAddresses_def by auto
qed

theorem mock_tokens_read_back_witness:
  "\<exists>tokens w'. deployAllMockTokens sample_node False False empty_world = (Ret tokens, w') \<and>
    (\<exists>book. getAllMockedTokens sample_node w' = (Ret book, w') \<and> obj_keys tokens = TokenContractId)"
proof -
  have "runs (deployAllMockTokens sample_node False False) empty_world (\<lambda>_ _. True)"
    unfolding deployAllMockTokens_def Let_def
    by (rule runs_for_fold [where I = "\<lambda>_ _. True"])
      (auto simp: deployWETH9_def deployMintableERC20_def intro!: sample_runs_save runs_register)
  from runs_returns [OF this] obtain tokens w' where run: "deployAllMockTokens sample_node False False empty_world = (Ret tokens, w')"
    by blast
  have "deploys_nonempty sample_node" by (auto simp: deploys_nonempty_def)
  from mock_tokens_read_back [OF run this] run show ?thesis by auto
qed

section \<open>Prices of the mock NFTs\<close>

text \<open>\<^verbatim>\<open>setPricesInNFTOracle\<close>, on a node that answers, returns exactly when every asset has a
  price; it then has sent one \<^verbatim>\<open>setAssetData\<close> per asset, in order, with the asset's own price.
  An asset without a price is not skipped, as the guard means to.\<close>

theorem nft_prices_all_or_throw:
  assumes "answers E" and "n_has_method E (h_type h) ''setAssetData''"
  shows "(\<exists>w'. setPricesInNFTOracle E prices assets h w = (Ret (), w') \<and>
      trace w' = trace w @ map (\<lambda>(k, a). EvTx (h_signer h) (h_addr h) ''setAssetData''
        [Str a, Str (the (obj_get prices k))]) assets) \<longleftrightarrow>
    (\<forall>(k, a) \<in> set assets. obj_get prices k \<noteq> None)"
proof
  assume "\<exists>w'. setPricesInNFTOracle E prices assets h w = (Ret (), w') \<and>
      trace w' = trace w @ map (\<lambda>(k, a). EvTx (h_signer h) (h_addr h) ''setAssetData''
        [Str a, Str (the (obj_get prices k))]) assets"
  then show "\<forall>(k, a) \<in> set assets. obj_get prices k \<noteq> None"
    using setPricesInNFTOracle_missing [of _ _ assets prices E h w] by (fastforce simp: never_returns_def)
next
  assume all: "\<forall>(k, a) \<in> set assets. obj_get prices k \<noteq> None"
  have "runs (setPricesInNFTOracle E prices assets h) w (\<lambda>_ _. True)"
    unfolding setPricesInNFTOracle_def
    by (rule runs_for_each [where I = "\<lambda>_. True"])
      (use all assms in \<open>auto simp: destructure_entry_get intro!: runs_send split: option.splits\<close>)
  then obtain w' where "setPricesInNFTOracle E prices assets h w = (Ret (), w')"
    using runs_returns by fastforce
  with for_each_lookup_send_Ret [OF this [unfolded setPricesInNFTOracle_def]]
  show "\<exists>w'. setPricesInNFTOracle E prices assets h w = (Ret (), w') \<and>
      trace w' = trace w @ map (\<lambda>(k, a). EvTx (h_signer h) (h_addr h) ''setAssetData''
        [Str a, Str (the (obj_get prices k))]) assets"
    by blast
qed

theorem nft_prices_all_or_throw_witness:
  "\<exists>w'. setPricesInNFTOracle sample_node [(''BAYC'', ''1'')] [(''BAYC'', ''0xB'')]
      (connect_at sample_node ''NFTOracle'' ''0xO'') empty_world = (Ret (), w')"
  using nft_prices_all_or_throw [OF sample_node_answers, where h = "connect_at sample_node ''NFTOracle'' ''0xO''"
      and prices = "[(''BAYC'', ''1'')]" and assets = "[(''BAYC'', ''0xB'')]" and w = empty_world]
  by auto

section \<open>The development migration\<close>

text \<open>The keys that the mocks of the development market write.\<close>

definition mock_keys :: "string list" where
  "mock_keys = contract_ids @ [''MockOtherdeed'', ''WrappedKoda''] @ map js_upper TokenContractId @ map js_upper NftContractId"

context effect_rel begin

lemma keeps_dev_mocks:
  assumes "\<And>k. k \<in> set mock_keys \<Longrightarrow> K k"
  shows "keeps R (deployAllMockTokens E forTestCases verify)" "keeps R (deployAllMockNfts E verify)"
proof -
  have K: "k \<in> set contract_ids \<Longrightarrow> K k" "s \<in> set TokenContractId \<Longrightarrow> K (js_upper s)"
    "s \<in> set NftContractId \<Longrightarrow> K (js_upper s)" "K ''MockOtherdeed''" "K ''WrappedKoda''" for k s
    using assms by (auto simp: mock_keys_def)
  show "keeps R (deployAllMockTokens E forTestCases verify)"
    unfolding deployAllMockTokens_def Let_def
    by (intro keeps_for_fold_in keeps_await keeps_if keeps_registerContractInJsonDb K(2) keeps_ret)
      (intro keeps_intros K(1) contract_ids_mem)+
  show "keeps R (deployAllMockNfts E verify)"
    unfolding deployAllMockNfts_def deploy_mock_nft_def
    by (intro keeps_for_fold_in keeps_await keeps_if keeps_registerContractInJsonDb K(3) keeps_ret)
      (intro keeps_intros K(4,5) K(1) contract_ids_mem)+
qed

lemma keeps_dev_registry:
  assumes "\<And>k. k \<in> set contract_ids \<Longrightarrow> K k"
  shows "keeps R (dev_deploy_mock_bnft_registry E verify pool)"
  unfolding dev_deploy_mock_bnft_registry_def Let_def by (intro keeps_intros assms contract_ids_mem)

end

text \<open>A later step of a sequence sees a key that the steps before do not write.\<close>

lemma never_returns_after:
  assumes "keeps (key_kept k) m" and "db w k = None"
    and "\<And>a w'. db w' k = None \<Longrightarrow> never_returns (f a) w'"
  shows "never_returns (await m f) w"
  using assms by (intro never_returns_awaitI) (auto simp: key_kept_def dest: keepsD)

lemma not_mock_key: "''MOLANDAKS'' \<notin> set mock_keys"
  by (simp add: mock_keys_def contract_ids_def eContractid_def TokenContractId_def NftContractId_def
      js_upper_def char_upper_def)

lemma bnft_tokens_need_config:
  assumes "db w ''MOLANDAKS'' = None"
  shows "never_returns (dev_deploy_mock_bnft_tokens E verify ''Bend'') w"
proof -
  have "''MOLANDAKS'' \<in> set (obj_keys bend_NftsConfig)" "js_upper ''MOLANDAKS'' = ''MOLANDAKS''"
    by (simp_all add: bend_NftsConfig_def js_upper_def char_upper_def)
  then have "never_returns (getConfigMockedNfts E BendConfig) w'" if "db w' = db w" for w'
    using that assms getConfigMockedNfts_Ret [of E BendConfig w'] by (fastforce simp: never_returns_def)
  then show ?thesis
    unfolding dev_deploy_mock_bnft_tokens_def getter_defs
    by (intro never_returns_awaitI never_returns_await_left) (auto simp: run_simps)
qed

text \<open>C39: The development migration never completes.  It deploys the mocks of the mock enumeration
  and then asks for a mock of every NFT of the market configuration, which lists more; unless the
  database already has an entry for one of these, no run of \<^verbatim>\<open>bend:dev\<close> returns, on any node.\<close>

theorem dev_migration_stuck:
  assumes "db w ''MOLANDAKS'' = None"
  shows "never_returns (bend_dev E verify) w"
proof -
  have K: "k \<in> set mock_keys \<Longrightarrow> k \<noteq> ''MOLANDAKS''" "k \<in> set contract_ids \<Longrightarrow> k \<noteq> ''MOLANDAKS''" for k
    using not_mock_key by (auto simp: mock_keys_def)
  note kept = frame.keeps_dev_mocks [OF K(1)] frame.keeps_dev_registry [OF K(2)]
  show ?thesis
    unfolding bend_dev_def Let_def dev_deploy_mock_reserves_def dev_deploy_mock_nfts_def
    by (intro never_returns_after [of "''MOLANDAKS''"] assms never_returns_await_left
        bnft_tokens_need_config keeps_intros kept)
qed

theorem dev_migration_stuck_witness: "never_returns (bend_dev sample_node False) empty_world"
  by (rule dev_migration_stuck) simp

end
