(* ===== verification/OperatorTasks.thy ===== *)
theory OperatorTasks
  imports AdminTasks
begin

text \<open>
  The tasks an operator runs on a live pool: \<^verbatim>\<open>tasks/misc/custom-task.ts\<close> (deposits,
  withdrawals, loans and repayments), \<^verbatim>\<open>liquidate-task.ts\<close> (auctions, redemptions,
  liquidations), \<^verbatim>\<open>recycle-task.ts\<close> (sweeping the accounts of a test network),
  \<^verbatim>\<open>hacker-task.ts\<close>, the tasks that print, and the second task of
  \<^verbatim>\<open>tasks/helpers/interest-rate.ts\<close>.  Amounts of money are \<^verbatim>\<open>BigNumber\<close>s
  (\<open>Big\<close>), or the constant \<^verbatim>\<open>MAX_UINT_AMOUNT\<close>, a decimal string.  The ether sent
  with a call is the member \<^verbatim>\<open>value\<close> of the overrides object, its last argument.
\<close>

section \<open>Amounts\<close>

text \<open>
  \<^verbatim>\<open>BigNumber.from\<close> of \<^verbatim>\<open>ethers\<close>, on the values the tasks compare: big numbers,
  exact JavaScript numbers, decimal strings.
\<close>

definition big_of :: "js_value \<Rightarrow> int option" where
  "big_of v = (case v of
     Big n \<Rightarrow> Some n
   | Num n \<Rightarrow> if \<bar>n\<bar> < 2 ^ 53 then Some n else None
   | Str s \<Rightarrow> if s \<noteq> [] \<and> list_all is_digit s then Some (int (dec_value s)) else None
   | _ \<Rightarrow> None)"

lemma big_of_simps [simp]: "big_of (Big n) = Some n" "big_of (Str (dec k)) = Some (int k)"
  by (simp_all add: big_of_def)

text \<open>A read that the wrapper decodes to a big number, and a member of a decoded structure.\<close>

definition as_big :: "js_value option \<Rightarrow> ('c, int) prog" where
  "as_big v = (case v of Some (Big n) \<Rightarrow> ret n | _ \<Rightarrow> throw (TypeError ''not a BigNumber''))"

definition view_big :: "'c net \<Rightarrow> handle \<Rightarrow> string \<Rightarrow> js_value list \<Rightarrow> ('c, int) prog" where
  "view_big E h m args = await (view E h m args) (\<lambda>v. as_big (Some v))"

definition member_big :: "js_value \<Rightarrow> string \<Rightarrow> ('c, int) prog" where
  "member_big v k = as_big (case v of Obj o1 \<Rightarrow> obj_get o1 k | _ \<Rightarrow> None)"

lemma as_big_Ret_iff [run_simps]: "as_big v w = (Ret n, w') \<longleftrightarrow> v = Some (Big n) \<and> w' = w"
  by (auto simp: as_big_def run_simps split: option.splits js_value.splits)

lemma view_big_Ret_iff [run_simps]:
  "view_big E h m args w = (Ret n, w') \<longleftrightarrow> n_has_method E (h_type h) m \<and> w' = w \<and>
     n_view E (h_addr h) (h_type h) m args (chain w) = Inr (Big n)"
  by (auto simp: view_big_def run_simps)

lemma member_big_Ret_iff [run_simps]:
  "member_big v k w = (Ret n, w') \<longleftrightarrow> w' = w \<and> (\<exists>o1. v = Obj o1 \<and> obj_get o1 k = Some (Big n))"
  by (auto simp: member_big_def run_simps split: js_value.splits)

definition with_value :: "js_value \<Rightarrow> js_value" where
  "with_value v = Obj [(''value'', v)]"

text \<open>\<^verbatim>\<open>new BigNumber(x.toString()).multipliedBy(1.1).toFixed(0)\<close>.\<close>

definition times_1_1 :: "'c net \<Rightarrow> int \<Rightarrow> string" where
  "times_1_1 E n = n_mul_fixed E (js_to_string (Big n)) ''1.1'' (Some 0)"

definition MAX_AMOUNT :: js_value where
  "MAX_AMOUNT = Str (dec MAX_UINT_AMOUNT)"

definition currency_amount :: "'c net \<Rightarrow> string \<Rightarrow> string \<Rightarrow> ('c, js_value) prog" where
  "currency_amount E token amount =
     await (convertToCurrencyDecimals E token amount) (\<lambda>n. ret (Big n))"

text \<open>\<^verbatim>\<open>allowance.lt(amount)\<close>.\<close>

definition big_lt :: "int \<Rightarrow> js_value \<Rightarrow> ('c, bool) prog" where
  "big_lt n v = (case big_of v of
     None \<Rightarrow> throw (RpcError ''invalid BigNumber value'') | Some m \<Rightarrow> ret (n < m))"

text \<open>What many tasks begin with.\<close>

definition pool_of_provider :: "'c net \<Rightarrow> handle \<Rightarrow> ('c, handle) prog" where
  "pool_of_provider E addressesProvider =
     await (view_addr E addressesProvider ''getLendPool'' []) (\<lambda>a. getLendPool E (Some a))"

definition data_provider_of :: "'c net \<Rightarrow> handle \<Rightarrow> ('c, handle) prog" where
  "data_provider_of E addressesProvider =
     await (view_addr E addressesProvider ''getBendDataProvider'' [])
       (\<lambda>a. getBendProtocolDataProvider E (Some a))"

definition token_in_db :: "'c net \<Rightarrow> string \<Rightarrow> ('c, handle) prog" where
  "token_in_db E symbol =
     await (getContractAddressInDb symbol) (\<lambda>a. getMintableERC20 E (Some a))"

definition nft_in_db :: "'c net \<Rightarrow> string \<Rightarrow> ('c, handle) prog" where
  "nft_in_db E symbol =
     await (getContractAddressInDb symbol) (\<lambda>a. getMintableERC721 E (Some a))"

section \<open>Deposits and withdrawals\<close>

text \<open>\<^verbatim>\<open>if (allowance.lt(amount)) await waitForTx(await token.approve(spender, MAX_UINT_AMOUNT))\<close>.\<close>

definition approve_if_short ::
  "'c net \<Rightarrow> handle \<Rightarrow> string \<Rightarrow> string \<Rightarrow> js_value \<Rightarrow> ('c, unit) prog" where
  "approve_if_short E token owner spender amount =
     await (view_big E token ''allowance'' [Str owner, Str spender]) (\<lambda>allowance.
     await (big_lt allowance amount) (\<lambda>short.
     when_do short (send E token ''approve'' [Str spender, MAX_AMOUNT])))"

definition dev_deposit_eth :: "'c net \<Rightarrow> string \<Rightarrow> string \<Rightarrow> ('c, unit) prog" where
  "dev_deposit_eth E pool amount =
     await set_DRE (\<lambda>_.
     await (lift_result (loadPoolConfig pool)) (\<lambda>poolConfig.
     await (getLendPoolAddressesProvider E None) (\<lambda>addressesProvider.
     await (pool_of_provider E addressesProvider) (\<lambda>lendPool.
     await (signer_address (getDeploySigner E)) (\<lambda>signerAddress.
     await (getWETHGateway E None) (\<lambda>wethGateway.
     await (token_in_db E ''WETH'') (\<lambda>weth.
     await (currency_amount E (h_addr weth) amount) (\<lambda>amountDecimals.
     await (approve_if_short E weth signerAddress (h_addr wethGateway) amountDecimals) (\<lambda>_.
     await (view E lendPool ''getReserveData'' [Str (h_addr weth)]) (\<lambda>wethResData.
     await (member_addr wethResData ''bTokenAddress'') (\<lambda>bTokenAddress.
     await (getBToken E (Some bTokenAddress)) (\<lambda>bWeth.
     await (send E wethGateway ''depositETH'' [Str signerAddress, Str ''0'', with_value amountDecimals]) (\<lambda>_.
     await (view E bWeth ''balanceOf'' [Str signerAddress]) (\<lambda>_. ret ()))))))))))))))"

text \<open>\<^verbatim>\<open>-1\<close> asks for everything.\<close>

definition amount_or_max :: "'c net \<Rightarrow> string \<Rightarrow> string \<Rightarrow> ('c, js_value) prog" where
  "amount_or_max E token amount =
     (if amount = ''-1'' then ret MAX_AMOUNT else currency_amount E token amount)"

definition dev_withdraw_eth :: "'c net \<Rightarrow> string \<Rightarrow> string \<Rightarrow> ('c, unit) prog" where
  "dev_withdraw_eth E pool amount =
     await set_DRE (\<lambda>_.
     await (lift_result (loadPoolConfig pool)) (\<lambda>poolConfig.
     await (getLendPoolAddressesProvider E None) (\<lambda>addressesProvider.
     await (signer_address (getDeploySigner E)) (\<lambda>signerAddress.
     await (pool_of_provider E addressesProvider) (\<lambda>lendPool.
     await (getWETHGateway E None) (\<lambda>wethGateway.
     await (token_in_db E ''WETH'') (\<lambda>weth.
     await (amount_or_max E (h_addr weth) amount) (\<lambda>amountDecimals.
     await (view E lendPool ''getReserveData'' [Str (h_addr weth)]) (\<lambda>wethResData.
     await (member_addr wethResData ''bTokenAddress'') (\<lambda>bTokenAddress.
     await (getBToken E (Some bTokenAddress)) (\<lambda>bWeth.
     await (approve_if_short E bWeth signerAddress (h_addr wethGateway) amountDecimals) (\<lambda>_.
     await (view E bWeth ''balanceOf'' [Str signerAddress]) (\<lambda>_.
     send E wethGateway ''withdrawETH'' [amountDecimals, Str signerAddress])))))))))))))"

section \<open>Loans\<close>

definition dev_borrow_eth_using_bayc :: "'c net \<Rightarrow> string \<Rightarrow> string \<Rightarrow> string \<Rightarrow> ('c, unit) prog" where
  "dev_borrow_eth_using_bayc E pool amount tokenId =
     await set_DRE (\<lambda>_.
     await (lift_result (loadPoolConfig pool)) (\<lambda>poolConfig.
     await (getLendPoolAddressesProvider E None) (\<lambda>addressesProvider.
     await (token_in_db E ''WETH'') (\<lambda>weth.
     await (amount_or_max E (h_addr weth) amount) (\<lambda>amountDecimals.
     await (getWETHGateway E None) (\<lambda>wethGateway.
     await (nft_in_db E ''BAYC'') (\<lambda>bayc.
     await (send E bayc ''setApprovalForAll'' [Str (h_addr wethGateway), Bool True]) (\<lambda>_.
     await (send E bayc ''mint'' [Str tokenId]) (\<lambda>_.
     await (signer_address (getDeploySigner E)) (\<lambda>signerAddress.
     send E wethGateway ''borrowETH''
       [amountDecimals, Str (h_addr bayc), Str tokenId, Str signerAddress, Str ''0'']))))))))))"

text \<open>The token and the amount of the loan are fixed: the task reads its parameters but does not use them.\<close>

definition dev_borrow_usdc_using_bayc :: "'c net \<Rightarrow> string \<Rightarrow> string \<Rightarrow> string \<Rightarrow> ('c, unit) prog" where
  "dev_borrow_usdc_using_bayc E pool amount tokenId =
     await set_DRE (\<lambda>_.
     await (lift_result (loadPoolConfig pool)) (\<lambda>poolConfig.
     await (getLendPoolAddressesProvider E None) (\<lambda>addressesProvider.
     await (token_in_db E ''USDC'') (\<lambda>weth.
     await (amount_or_max E (h_addr weth) amount) (\<lambda>amountDecimals.
     await (pool_of_provider E addressesProvider) (\<lambda>lendPool.
     await (token_in_db E ''USDC'') (\<lambda>usdc.
     await (nft_in_db E ''BAYC'') (\<lambda>bayc.
     await (send E bayc ''setApprovalForAll'' [Str (h_addr lendPool), Bool True]) (\<lambda>_.
     await (send E bayc ''mint'' [Num 5003]) (\<lambda>_.
     await (signer_address (getDeploySigner E)) (\<lambda>signerAddress.
     send E lendPool ''borrow''
       [Str (h_addr usdc), Str ''100000000'', Str (h_addr bayc), Str ''5003'', Str signerAddress,
        Str ''0''])))))))))))"

text \<open>
  A punk that is nobody's yet is claimed; one that is the signer's is offered to the gateway;
  one that is another account's is taken to be collateral of a loan already.  Both arms of the
  last test borrow alike.
\<close>

definition punk_owner_check :: "'c net \<Rightarrow> handle \<Rightarrow> string \<Rightarrow> string \<Rightarrow> ('c, bool) prog" where
  "punk_owner_check E punk id1 signerAddress =
     await (view_addr E punk ''punkIndexToAddress'' [Str id1]) (\<lambda>punkAddress.
     if notFalsyOrZeroAddress E (Some punkAddress) then ret (punkAddress \<noteq> signerAddress)
     else await (send E punk ''getPunk'' [Str id1]) (\<lambda>_. ret False))"

definition dev_borrow_eth_using_punk :: "'c net \<Rightarrow> string \<Rightarrow> string \<Rightarrow> string \<Rightarrow> ('c, unit) prog" where
  "dev_borrow_eth_using_punk E pool id1 amount =
     await set_DRE (\<lambda>_.
     await (lift_result (loadPoolConfig pool)) (\<lambda>poolConfig.
     await (getLendPoolAddressesProvider E None) (\<lambda>addressesProvider.
     await (signer_address (getDeploySigner E)) (\<lambda>signerAddress.
     await (getCryptoPunksMarket E None) (\<lambda>punk.
     await (getWrappedPunk E None) (\<lambda>wpunk.
     await (getPunkGateway E None) (\<lambda>punkGateway.
     await (token_in_db E ''WETH'') (\<lambda>weth.
     await (view E wpunk ''isApprovedForAll'' [Str signerAddress, Str (h_addr punkGateway)]) (\<lambda>isApproveOk.
     await (when_do (\<not> js_truthy isApproveOk)
         (send E wpunk ''setApprovalForAll'' [Str (h_addr punkGateway), Bool True])) (\<lambda>_.
     await (if amount = ''-1'' then
              await (data_provider_of E addressesProvider) (\<lambda>bendDataProvider.
              await (view E bendDataProvider ''getReserveData'' [Str (h_addr weth)]) (\<lambda>wethResData.
              await (member_big wethResData ''availableLiquidity'') (\<lambda>n. ret (Big n))))
            else currency_amount E (h_addr weth) amount) (\<lambda>amountDecimals.
     await (punk_owner_check E punk id1 signerAddress) (\<lambda>borrowMore.
     let borrow = send E punkGateway ''borrowETH''
           [amountDecimals, Str id1, Str signerAddress, Str ''0''] in
     await (if \<not> borrowMore then
              await (send E punk ''offerPunkForSaleToAddress'' [Str id1, Str ''0'', Str (h_addr punkGateway)])
                (\<lambda>_. borrow)
            else borrow) (\<lambda>_.
     await (view E punk ''punkIndexToAddress'' [Str id1]) (\<lambda>_. ret ()))))))))))))))"

definition dev_borrow_usdc_using_punk :: "'c net \<Rightarrow> string \<Rightarrow> ('c, unit) prog" where
  "dev_borrow_usdc_using_punk E pool =
     await set_DRE (\<lambda>_.
     await (lift_result (loadPoolConfig pool)) (\<lambda>poolConfig.
     await (getLendPoolAddressesProvider E None) (\<lambda>addressesProvider.
     await (getContractAddressInDb ''DAI'') (\<lambda>daiAddress.
     await (getCryptoPunksMarket E None) (\<lambda>punk.
     await (getPunkGateway E None) (\<lambda>punkGateway.
     await (send E punk ''getPunk'' [Str ''5002'']) (\<lambda>_.
     await (send E punk ''offerPunkForSaleToAddress''
         [Str ''5002'', Str ''0'', Str (h_addr punkGateway)]) (\<lambda>_.
     await (signer_address (getDeploySigner E)) (\<lambda>signerAddress.
     send E punkGateway ''borrow''
       [Str daiAddress, Str ''100000000000000000000'', Str ''5002'', Str signerAddress, Str ''0''])))))))))"

section \<open>Repayments and delegation\<close>

definition repay_amount ::
  "'c net \<Rightarrow> handle \<Rightarrow> string \<Rightarrow> string \<Rightarrow> string \<Rightarrow> string \<Rightarrow> ('c, js_value) prog" where
  "repay_amount E addressesProvider wpunkAddress wethAddress id1 amount =
     (if amount = ''-1'' then
        await (data_provider_of E addressesProvider) (\<lambda>bendDataProvider.
        await (view E bendDataProvider ''getLoanDataByCollateral'' [Str wpunkAddress, Str id1]) (\<lambda>loanData.
        await (member_big loanData ''currentAmount'') (\<lambda>currentAmount.
        ret (Str (times_1_1 E currentAmount)))))
      else currency_amount E wethAddress amount)"

definition dev_repay_eth_using_punk :: "'c net \<Rightarrow> string \<Rightarrow> string \<Rightarrow> string \<Rightarrow> ('c, unit) prog" where
  "dev_repay_eth_using_punk E pool id1 amount =
     await set_DRE (\<lambda>_.
     await (lift_result (loadPoolConfig pool)) (\<lambda>poolConfig.
     await (getLendPoolAddressesProvider E None) (\<lambda>addressesProvider.
     await (getCryptoPunksMarket E None) (\<lambda>punk.
     await (getWrappedPunkTokenAddress E poolConfig (h_addr punk)) (\<lambda>wpunkAddress.
     await (getWrappedPunk E (Some wpunkAddress)) (\<lambda>wpunk.
     await (getPunkGateway E None) (\<lambda>punkGateway.
     await (token_in_db E ''WETH'') (\<lambda>weth.
     await (repay_amount E addressesProvider (h_addr wpunk) (h_addr weth) id1 amount) (\<lambda>amountDecimals.
     await (send E punkGateway ''repayETH'' [Str id1, amountDecimals, with_value amountDecimals]) (\<lambda>_.
     await (view E punk ''punkIndexToAddress'' [Str id1]) (\<lambda>_. ret ())))))))))))"

definition dev_repay_eth_using_erc721 ::
  "'c net \<Rightarrow> string \<Rightarrow> string \<Rightarrow> string \<Rightarrow> string \<Rightarrow> ('c, unit) prog" where
  "dev_repay_eth_using_erc721 E pool token id1 amount =
     await set_DRE (\<lambda>_.
     await (lift_result (loadPoolConfig pool)) (\<lambda>poolConfig.
     await (getLendPoolAddressesProvider E None) (\<lambda>addressesProvider.
     await (getWETHGateway E None) (\<lambda>wethGateway.
     await (token_in_db E ''WETH'') (\<lambda>weth.
     await (if amount = ''-1'' \<or> amount = ''0'' then
              await (data_provider_of E addressesProvider) (\<lambda>bendDataProvider.
              await (view E bendDataProvider ''getLoanDataByCollateral'' [Str token, Str id1]) (\<lambda>loanData.
              await (member_big loanData ''currentAmount'') (\<lambda>currentAmount. ret (Big currentAmount))))
            else currency_amount E (h_addr weth) amount) (\<lambda>amountDecimals.
     send E wethGateway ''repayETH''
       [Str token, Str id1, amountDecimals, with_value amountDecimals]))))))"

definition dev_debt_approve_delegate :: "'c net \<Rightarrow> string \<Rightarrow> string \<Rightarrow> ('c, unit) prog" where
  "dev_debt_approve_delegate E pool asset =
     await set_DRE (\<lambda>_.
     await (lift_result (loadPoolConfig pool)) (\<lambda>poolConfig.
     await (getLendPoolAddressesProvider E None) (\<lambda>addressesProvider.
     await (getBendProtocolDataProvider E None) (\<lambda>bendDataProvider.
     await (getWETHGateway E None) (\<lambda>wethGateway.
     await (view E bendDataProvider ''getReserveTokenData'' [Str asset]) (\<lambda>reserveToken.
     await (member_addr reserveToken ''debtTokenAddress'') (\<lambda>debtTokenAddress.
     await (getDebtToken E (Some debtTokenAddress)) (\<lambda>debToken.
     await (signer_address (getDeploySigner E)) (\<lambda>signerAddress.
     await (view E debToken ''borrowAllowance'' [Str signerAddress, Str (h_addr wethGateway)]) (\<lambda>_.
     await (send E debToken ''approveDelegation'' [Str (h_addr wethGateway), MAX_AMOUNT]) (\<lambda>_.
     await (view E debToken ''borrowAllowance'' [Str signerAddress, Str (h_addr wethGateway)]) (\<lambda>_. ret ()))))))))))))"

section \<open>Other custom tasks\<close>

text \<open>The first call is sent without waiting for it, then the same call is sent again.\<close>

definition dev_cryptopunks_init :: "'c net \<Rightarrow> ('c, unit) prog" where
  "dev_cryptopunks_init E =
     await set_DRE (\<lambda>_.
     await (getCryptoPunksMarket E None) (\<lambda>punks.
     await (send E punks ''allInitialOwnersAssigned'' []) (\<lambda>_.
     send E punks ''allInitialOwnersAssigned'' [])))"

definition dev_generate_subgraph_events :: "'c net \<Rightarrow> string \<Rightarrow> string \<Rightarrow> ('c, unit) prog" where
  "dev_generate_subgraph_events E pool nftTokenId =
     await set_DRE (\<lambda>_.
     await (lift_result (loadPoolConfig pool)) (\<lambda>poolConfig.
     await (getLendPoolAddressesProvider E None) (\<lambda>addressesProvider.
     let depositer = arr_at (getEthersSigners E) 5; borrower = arr_at (getEthersSigners E) 6 in
     await (signer_address depositer) (\<lambda>depositerAddress.
     await (signer_address borrower) (\<lambda>borrowerAddress.
     await (pool_of_provider E addressesProvider) (\<lambda>lendPool.
     let depositerPool = connect_signer depositer lendPool;
         borrowerPool = connect_signer borrower lendPool in
     await (token_in_db E ''DAI'') (\<lambda>dai.
     let depositerDai = connect_signer depositer dai; borrowerDai = connect_signer borrower dai in
     await (send E depositerDai ''approve'' [Str (h_addr lendPool), Str ''100000000000000000000000000000'']) (\<lambda>_.
     await (send E depositerDai ''mint'' [Str ''1000000000000000000000'']) (\<lambda>_.
     await (send E depositerPool ''deposit''
         [Str (h_addr dai), Str ''1000000000000000000000'', Str depositerAddress, Str ''0'']) (\<lambda>_.
     await (nft_in_db E ''BAYC'') (\<lambda>bayc.
     let borrowerBayc = connect_signer borrower bayc in
     await (send E borrowerBayc ''setApprovalForAll'' [Str (h_addr lendPool), Bool True]) (\<lambda>_.
     await (send E borrowerBayc ''mint'' [Str nftTokenId]) (\<lambda>_.
     await (send E borrowerPool ''borrow''
         [Str (h_addr dai), Str ''500000000000000000000'', Str (h_addr bayc), Str nftTokenId,
          Str borrowerAddress, Str ''0'']) (\<lambda>_.
     await (send E borrowerDai ''approve'' [Str (h_addr lendPool), Str ''100000000000000000000000000000'']) (\<lambda>_.
     await (send E borrowerDai ''mint'' [Str ''1000000000000000000000'']) (\<lambda>_.
     await (send E borrowerPool ''repay''
         [Str (h_addr bayc), Str nftTokenId, Str ''100000000000000000000'']) (\<lambda>_.
     send E depositerPool ''withdraw''
       [Str (h_addr dai), Str ''100000000000000000000'', Str depositerAddress])))))))))))))))))"

definition hacker_deploy_lendpool_selfdestruct :: "'c net \<Rightarrow> string \<Rightarrow> ('c, unit) prog" where
  "hacker_deploy_lendpool_selfdestruct E pool =
     await set_DRE (\<lambda>_.
     await (lift_result (loadPoolConfig pool)) (\<lambda>poolConfig.
     await (getLendPoolAddressesProvider E None) (\<lambda>addressesProvider.
     await (signer_address (getDeploySigner E)) (\<lambda>deployerAddress. ret ()))))"

text \<open>The rates are decimal fractions, \<^verbatim>\<open>new BigNumber(rate).multipliedBy(oneRay).toFixed()\<close> rays.\<close>

definition in_ray :: "'c net \<Rightarrow> string \<Rightarrow> js_value" where
  "in_ray E rate = Str (n_mul_fixed E rate (dec oneRay) None)"

definition helpers_deploy_new_interest_rate ::
  "'c net \<Rightarrow> bool \<Rightarrow> string \<Rightarrow> string \<Rightarrow> string \<Rightarrow> string \<Rightarrow> string \<Rightarrow> string \<Rightarrow> ('c, unit) prog" where
  "helpers_deploy_new_interest_rate E verify pool id1 optUtilRate baseRate rateSlope1 rateSlope2 =
     await set_DRE (\<lambda>_.
     await (lift_result (loadPoolConfig pool)) (\<lambda>poolConfig.
     await (getLendPoolAddressesProvider E None) (\<lambda>addressesProviderRaw.
     await (view_owner E addressesProviderRaw) (\<lambda>owner.
     let addressesProvider = connect_signer (getEthersSignerByAddress owner) addressesProviderRaw in
     await (deployInterestRateWithID E id1
         [Str (h_addr addressesProvider), in_ray E optUtilRate, in_ray E baseRate,
          in_ray E rateSlope1, in_ray E rateSlope2] verify) (\<lambda>_. ret ())))))"

section \<open>Auctions, redemptions, liquidations\<close>

definition dev_pool_auction ::
  "'c net \<Rightarrow> string \<Rightarrow> string \<Rightarrow> string \<Rightarrow> string \<Rightarrow> ('c, unit) prog" where
  "dev_pool_auction E pool token id1 amount =
     await set_DRE (\<lambda>_.
     await (lift_result (loadPoolConfig pool)) (\<lambda>poolConfig.
     await (getLendPoolAddressesProvider E None) (\<lambda>addressesProvider.
     await (pool_of_provider E addressesProvider) (\<lambda>lendPool.
     await (data_provider_of E addressesProvider) (\<lambda>dataProvider.
     await (signer_address (getDeploySigner E)) (\<lambda>signerAddress.
     await (view E dataProvider ''getLoanDataByCollateral'' [Str token, Str id1]) (\<lambda>loanData.
     await (member_addr loanData ''reserveAsset'') (\<lambda>reserveAsset.
     await (currency_amount E reserveAsset amount) (\<lambda>amountDecimals.
     send E lendPool ''auction'' [Str token, Str id1, amountDecimals, Str signerAddress])))))))))"

definition dev_pool_redeem ::
  "'c net \<Rightarrow> string \<Rightarrow> string \<Rightarrow> string \<Rightarrow> string \<Rightarrow> ('c, unit) prog" where
  "dev_pool_redeem E pool token id1 amount =
     await set_DRE (\<lambda>_.
     await (lift_result (loadPoolConfig pool)) (\<lambda>poolConfig.
     await (getLendPoolAddressesProvider E None) (\<lambda>addressesProvider.
     await (pool_of_provider E addressesProvider) (\<lambda>lendPool.
     await (data_provider_of E addressesProvider) (\<lambda>dataProvider.
     await (signer_address (getDeploySigner E)) (\<lambda>signerAddress.
     await (view E dataProvider ''getLoanDataByCollateral'' [Str token, Str id1]) (\<lambda>loanData.
     await (member_addr loanData ''reserveAsset'') (\<lambda>reserveAsset.
     await (currency_amount E reserveAsset amount) (\<lambda>amountDecimals.
     await (view E lendPool ''getNftAuctionData'' [Str token, Str id1]) (\<lambda>auctionData.
     await (member_big auctionData ''bidFine'') (\<lambda>bidFine.
     send E lendPool ''redeem'' [Str token, Str id1, amountDecimals, Big bidFine])))))))))))"

definition dev_pool_liquidate :: "'c net \<Rightarrow> string \<Rightarrow> string \<Rightarrow> string \<Rightarrow> ('c, unit) prog" where
  "dev_pool_liquidate E pool token id1 =
     await set_DRE (\<lambda>_.
     await (lift_result (loadPoolConfig pool)) (\<lambda>poolConfig.
     await (getLendPoolAddressesProvider E None) (\<lambda>addressesProvider.
     await (pool_of_provider E addressesProvider) (\<lambda>lendPool.
     await (signer_address (getDeploySigner E)) (\<lambda>signerAddress.
     await (getWETHGateway E None) (\<lambda>wethGateway.
     send E lendPool ''liquidate'' [Str token, Str id1, Num 0]))))))"

definition dev_weth_auction ::
  "'c net \<Rightarrow> string \<Rightarrow> string \<Rightarrow> string \<Rightarrow> string \<Rightarrow> ('c, unit) prog" where
  "dev_weth_auction E pool token id1 amount =
     await set_DRE (\<lambda>_.
     await (signer_address (getDeploySigner E)) (\<lambda>signerAddress.
     await (getWETHGateway E None) (\<lambda>wethGateway.
     await (token_in_db E ''WETH'') (\<lambda>weth.
     await (currency_amount E (h_addr weth) amount) (\<lambda>amountDecimals.
     send E wethGateway ''auctionETH''
       [Str token, Str id1, Str signerAddress, with_value amountDecimals])))))"

text \<open>The amount redeemed is sent together with the fine of the bid.\<close>

definition redeem_with_fine ::
  "'c net \<Rightarrow> handle \<Rightarrow> handle \<Rightarrow> string \<Rightarrow> js_value list \<Rightarrow> string \<Rightarrow> string \<Rightarrow> string \<Rightarrow> ('c, unit) prog" where
  "redeem_with_fine E lendPool gateway wethAddress leading nftAsset id1 amount =
     await (convertToCurrencyDecimals E wethAddress amount) (\<lambda>amountDecimals.
     await (view E lendPool ''getNftAuctionData'' [Str nftAsset, Str id1]) (\<lambda>auctionData.
     await (member_big auctionData ''bidFine'') (\<lambda>bidFine.
     let sendValue = amountDecimals + bidFine in
     send E gateway ''redeemETH''
       (leading @ [Str id1, Big amountDecimals, Big bidFine, with_value (Big sendValue)]))))"

definition dev_weth_redeem ::
  "'c net \<Rightarrow> string \<Rightarrow> string \<Rightarrow> string \<Rightarrow> string \<Rightarrow> ('c, unit) prog" where
  "dev_weth_redeem E pool token id1 amount =
     await set_DRE (\<lambda>_.
     await (getLendPoolAddressesProvider E None) (\<lambda>addressesProvider.
     await (pool_of_provider E addressesProvider) (\<lambda>lendPool.
     await (getWETHGateway E None) (\<lambda>wethGateway.
     await (token_in_db E ''WETH'') (\<lambda>weth.
     redeem_with_fine E lendPool wethGateway (h_addr weth) [Str token] token id1 amount)))))"

definition dev_weth_liquidate :: "'c net \<Rightarrow> string \<Rightarrow> string \<Rightarrow> string \<Rightarrow> ('c, unit) prog" where
  "dev_weth_liquidate E pool token id1 =
     await set_DRE (\<lambda>_.
     await (getLendPoolAddressesProvider E None) (\<lambda>addressesProvider.
     await (data_provider_of E addressesProvider) (\<lambda>dataProvider.
     await (view E dataProvider ''getLoanDataByCollateral'' [Str token, Str id1]) (\<lambda>loanData.
     await (member_big loanData ''currentAmount'') (\<lambda>currentAmount.
     await (member_big loanData ''bidPrice'') (\<lambda>bidPrice.
     let extraAmount = (if currentAmount > bidPrice then times_1_1 E (currentAmount - bidPrice) else ''0'') in
     await (getWETHGateway E None) (\<lambda>wethGateway.
     send E wethGateway ''liquidateETH'' [Str token, Str id1, with_value (Str extraAmount)])))))))"

definition dev_punk_auction_eth :: "'c net \<Rightarrow> string \<Rightarrow> string \<Rightarrow> string \<Rightarrow> ('c, unit) prog" where
  "dev_punk_auction_eth E pool id1 amount =
     await set_DRE (\<lambda>_.
     await (signer_address (getDeploySigner E)) (\<lambda>signerAddress.
     await (getPunkGateway E None) (\<lambda>punkGateway.
     await (token_in_db E ''WETH'') (\<lambda>weth.
     await (currency_amount E (h_addr weth) amount) (\<lambda>amountDecimals.
     send E punkGateway ''auctionETH'' [Str id1, Str signerAddress, with_value amountDecimals])))))"

definition dev_punk_redeem_eth :: "'c net \<Rightarrow> string \<Rightarrow> string \<Rightarrow> string \<Rightarrow> ('c, unit) prog" where
  "dev_punk_redeem_eth E pool id1 amount =
     await set_DRE (\<lambda>_.
     await (lift_result (loadPoolConfig pool)) (\<lambda>poolConfig.
     await (getLendPoolAddressesProvider E None) (\<lambda>addressesProvider.
     await (pool_of_provider E addressesProvider) (\<lambda>lendPool.
     await (getCryptoPunksMarketAddress E poolConfig) (\<lambda>punksAddress.
     await (getWrappedPunkTokenAddress E poolConfig punksAddress) (\<lambda>wpunksAddress.
     await (getPunkGateway E None) (\<lambda>punkGateway.
     await (token_in_db E ''WETH'') (\<lambda>weth.
     redeem_with_fine E lendPool punkGateway (h_addr weth) [] wpunksAddress id1 amount))))))))"

definition dev_punk_liquidate_eth :: "'c net \<Rightarrow> string \<Rightarrow> string \<Rightarrow> ('c, unit) prog" where
  "dev_punk_liquidate_eth E pool id1 =
     await set_DRE (\<lambda>_.
     await (getPunkGateway E None) (\<lambda>punkGateway.
     send E punkGateway ''liquidateETH'' [Str id1]))"

section \<open>Recycling\<close>

definition dev_recycle_pool_eths :: "'c net \<Rightarrow> string \<Rightarrow> string \<Rightarrow> string \<Rightarrow> ('c, unit) prog" where
  "dev_recycle_pool_eths E pool id1 to =
     await set_DRE (\<lambda>_.
     await (signer_address (getDeploySigner E)) (\<lambda>deployerAddress.
     await (getLendPoolAddressesProvider E None) (\<lambda>addressesProvider.
     await (getLendPool E None) (\<lambda>lendPool.
     await (getWETHMocked E None) (\<lambda>weth.
     await (getWETHGateway E None) (\<lambda>wethGateway.
     await (view E lendPool ''getReserveData'' [Str (h_addr weth)]) (\<lambda>wethReserveData.
     await (member_addr wethReserveData ''bTokenAddress'') (\<lambda>bTokenAddress.
     await (getBToken E (Some bTokenAddress)) (\<lambda>bwethToken.
     await (view_big E weth ''balanceOf'' [Str (h_addr bwethToken)]) (\<lambda>availableBalance.
     if availableBalance < int (oneEther div 100) then ret ()
     else
       await (nft_in_db E ''BAYC'') (\<lambda>bayc.
       await (send E bayc ''mint'' [Str id1]) (\<lambda>_.
       await (view E bayc ''isApprovedForAll'' [Str deployerAddress, Str (h_addr wethGateway)]) (\<lambda>approved.
       await (when_do (\<not> js_truthy approved)
           (send E bayc ''setApprovalForAll'' [Str (h_addr wethGateway), Bool True])) (\<lambda>_.
       send E wethGateway ''borrowETH''
         [Big availableBalance, Str (h_addr bayc), Str id1, Str to, Str ''0'']))))))))))))))"

text \<open>
  The three sweeps of \<^verbatim>\<open>dev:recycle-signer-tokens\<close>.  Each runs over all signers and skips the
  deployer.  The tokens a signer holds are enumerated by index while they are sent away.
\<close>

definition recycle_erc20 :: "'c net \<Rightarrow> string \<Rightarrow> string \<Rightarrow> handle \<Rightarrow> ('c, unit) prog" where
  "recycle_erc20 E to signer erc20Token =
     await (view_big E erc20Token ''balanceOf'' [Str signer]) (\<lambda>tokenBalance.
     when_do (tokenBalance > 0)
       (send E (connect_signer (Some signer) erc20Token) ''transfer'' [Str to, Big tokenBalance]))"

text \<open>\<^verbatim>\<open>toNumber()\<close> throws when the number is not exact.\<close>

definition to_number :: "int \<Rightarrow> ('c, nat) prog" where
  "to_number n = (if \<bar>n\<bar> < 2 ^ 53 then ret (nat n) else throw (RpcError ''overflow''))"

definition send_token_at :: "'c net \<Rightarrow> string \<Rightarrow> string \<Rightarrow> handle \<Rightarrow> nat \<Rightarrow> ('c, unit) prog" where
  "send_token_at E to signer nftToken index =
     await (view_big E nftToken ''tokenOfOwnerByIndex'' [Str signer, Num (int index)]) (\<lambda>tokenId.
     send E (connect_signer (Some signer) nftToken) ''transferFrom'' [Str signer, Str to, Big tokenId])"

definition recycle_erc721 :: "'c net \<Rightarrow> string \<Rightarrow> string \<Rightarrow> handle \<Rightarrow> ('c, unit) prog" where
  "recycle_erc721 E to signer nftToken =
     await (view_big E nftToken ''balanceOf'' [Str signer]) (\<lambda>balance.
     await (to_number balance) (\<lambda>tokenBalance.
     for_each [0..<tokenBalance] (send_token_at E to signer nftToken)))"

text \<open>All of the ether but the cost of sending it.  \<open>gasLimit\<close> is 21000.\<close>

definition recycle_eth :: "'c net \<Rightarrow> string \<Rightarrow> string \<Rightarrow> ('c, unit) prog" where
  "recycle_eth E to signer =
     await (get_balance E signer) (\<lambda>ethBalance.
     when_do (ethBalance > 0)
       (await (node_view E ''getGasPrice'' []) (\<lambda>v.
        await (as_big (Some v)) (\<lambda>gasPrice.
        let gasLimit = 21000; ethSend = ethBalance - gasPrice * gasLimit in
        when_do (ethSend > 0)
          (node_call E (Some signer) to ''sendTransaction''
             [Obj [(''to'', Str to), (''value'', Big ethSend), (''gasPrice'', Big gasPrice),
                   (''gasLimit'', Num gasLimit)]])))))"

definition for_other_signers ::
  "'c net \<Rightarrow> string \<Rightarrow> (string \<Rightarrow> ('c, unit) prog) \<Rightarrow> ('c, unit) prog" where
  "for_other_signers E deployerAddress f =
     for_each (getEthersSigners E) (\<lambda>signer. if signer = deployerAddress then ret () else f signer)"

definition dev_recycle_signer_tokens :: "'c net \<Rightarrow> string \<Rightarrow> ('c, unit) prog" where
  "dev_recycle_signer_tokens E to =
     await set_DRE (\<lambda>_.
     await (signer_address (getDeploySigner E)) (\<lambda>deployerAddress.
     await (for_other_signers E deployerAddress (\<lambda>signer.
       await (getAllMockedTokens E) (\<lambda>allMockERC20s.
       for_each allMockERC20s (\<lambda>(symbol, erc20Token). recycle_erc20 E to signer erc20Token)))) (\<lambda>_.
     await (for_other_signers E deployerAddress (\<lambda>signer.
       await (getAllMockedNfts E) (\<lambda>allMockNfts.
       for_each allMockNfts (\<lambda>(symbol, nftToken). recycle_erc721 E to signer nftToken)))) (\<lambda>_.
     for_other_signers E deployerAddress (recycle_eth E to)))))"

section \<open>Printing\<close>

text \<open>\<^verbatim>\<open>fields.forEach(f => console.log(data[f].toString()))\<close>: a missing member is a \<^verbatim>\<open>TypeError\<close>.\<close>

definition show_fields :: "js_value \<Rightarrow> string list \<Rightarrow> ('c, unit) prog" where
  "show_fields v names = for_each names (\<lambda>field.
     if member_of v field = Undef
     then throw (TypeError ''Cannot read properties of undefined (reading 'toString')'')
     else ret ())"

definition print_accounts :: "'c net \<Rightarrow> ('c, unit) prog" where
  "print_accounts E = await set_DRE (\<lambda>_.
     for_each (getEthersSigners E) (\<lambda>signer. await (get_balance E signer) (\<lambda>_. ret ())))"

definition loan_fields :: "string list" where
  "loan_fields = [''loanId'', ''state'', ''nftAsset'', ''nftTokenId'', ''borrower'', ''reserveAsset'',
     ''scaledAmount'', ''currentAmount'']"

definition print_nft ::
  "'c net \<Rightarrow> string \<Rightarrow> string option \<Rightarrow> string option \<Rightarrow> string option \<Rightarrow> ('c, unit) prog" where
  "print_nft E pool asset tokenId loanId =
     await set_DRE (\<lambda>_.
     await (lift_result (loadPoolConfig pool)) (\<lambda>poolConfig.
     await (getBendProtocolDataProvider E None) (\<lambda>protocolDataProvider.
     await (case loanId of
         Some l \<Rightarrow> view E protocolDataProvider ''getLoanDataByLoanId'' [Str l]
       | None \<Rightarrow> view E protocolDataProvider ''getLoanDataByCollateral'' [val_of asset, val_of tokenId])
       (\<lambda>loanData. show_fields loanData loan_fields))))"

definition reserve_fields :: "string list" where
  "reserve_fields = [''availableLiquidity'', ''totalVariableDebt'', ''liquidityRate'', ''variableBorrowRate'',
     ''liquidityIndex'', ''variableBorrowIndex'', ''lastUpdateTimestamp'']"

definition user_reserve_fields :: "string list" where
  "user_reserve_fields = [''currentBTokenBalance'', ''currentVariableDebt'', ''scaledVariableDebt'']"

definition print_reserve :: "'c net \<Rightarrow> string \<Rightarrow> string \<Rightarrow> string option \<Rightarrow> ('c, unit) prog" where
  "print_reserve E pool asset user =
     await set_DRE (\<lambda>_.
     await (lift_result (loadPoolConfig pool)) (\<lambda>poolConfig.
     await (getLendPoolAddressesProvider E None) (\<lambda>addressProvider.
     await (data_provider_of E addressProvider) (\<lambda>protocolDataProvider.
     await (view_addr E addressProvider ''getUIDataProvider'' []) (\<lambda>ui.
     await (getUIPoolDataProvider E (Some ui)) (\<lambda>uiDataProvider.
     await (view E protocolDataProvider ''getReserveTokenData'' [Str asset]) (\<lambda>reserveToken.
     await (member_addr reserveToken ''bTokenAddress'') (\<lambda>bTokenAddress.
     await (getBToken E (Some bTokenAddress)) (\<lambda>bTokenContract.
     await (view E bTokenContract ''totalSupply'' []) (\<lambda>_.
     await (member_addr reserveToken ''debtTokenAddress'') (\<lambda>debtTokenAddress.
     await (getDebtToken E (Some debtTokenAddress)) (\<lambda>debtTokenContract.
     await (view E debtTokenContract ''totalSupply'' []) (\<lambda>_.
     await (getIErc20Detailed E (Some asset)) (\<lambda>underlyingContract.
     await (view E underlyingContract ''balanceOf'' [Str bTokenAddress]) (\<lambda>_.
     await (view E underlyingContract ''symbol'' []) (\<lambda>_.
     await (view E underlyingContract ''decimals'' []) (\<lambda>_.
     await (view E protocolDataProvider ''getReserveData'' [Str asset]) (\<lambda>reserveData.
     await (show_fields reserveData reserve_fields) (\<lambda>_.
     case user of
       None \<Rightarrow> ret ()
     | Some u \<Rightarrow> await (view E protocolDataProvider ''getUserReserveData'' [Str asset, Str u])
         (\<lambda>userReserveData. show_fields userReserveData user_reserve_fields))))))))))))))))))))"

text \<open>One asset of the configuration printed: two structures of the data provider.\<close>

definition print_asset ::
  "'c net \<Rightarrow> handle \<Rightarrow> string \<Rightarrow> string list \<Rightarrow> string \<Rightarrow> string list \<Rightarrow> string \<Rightarrow> ('c, unit) prog" where
  "print_asset E protocolDataProvider m1 fields1 m2 fields2 address =
     await (view E protocolDataProvider m1 [Str address]) (\<lambda>data.
     await (view E protocolDataProvider m2 [Str address]) (\<lambda>tokenData.
     await (show_fields data fields1) (\<lambda>_.
     show_fields tokenData fields2)))"

definition provider_views :: "string list" where
  "provider_views = [''getMarketId'', ''getPoolAdmin'', ''getEmergencyAdmin'', ''getLendPool'', ''getLendPoolLoan'',
     ''getLendPoolConfigurator'', ''getReserveOracle'', ''getNFTOracle'', ''getBNFTRegistry'',
     ''getIncentivesController'', ''getUIDataProvider'', ''getWalletBalanceProvider'']"

definition entries_or_throw :: "'a obj option \<Rightarrow> ('c, 'a obj) prog" where
  "entries_or_throw o1 = (case o1 of
     None \<Rightarrow> throw (TypeError ''Cannot convert undefined or null to object'') | Some es \<Rightarrow> ret es)"

definition print_config :: "'c net \<Rightarrow> string \<Rightarrow> ('c, unit) prog" where
  "print_config E pool =
     await set_DRE (\<lambda>_.
     let network = fork_network E in
     await (lift_result (loadPoolConfig pool)) (\<lambda>poolConfig.
     let providerRegistryAddress = getParamPerNetwork E (ProviderRegistry poolConfig) network in
     await (getLendPoolAddressesProviderRegistry E providerRegistryAddress) (\<lambda>providerRegistry.
     await (view E providerRegistry ''getAddressesProvidersList'' []) (\<lambda>providers.
     await (getLendPoolAddressesProvider E (case providers of Arr (Str p # _) \<Rightarrow> Some p | _ \<Rightarrow> None)) (\<lambda>addressesProvider.
     await (data_provider_of E addressesProvider) (\<lambda>protocolDataProvider.
     await (for_each provider_views (\<lambda>m. await (view E addressesProvider m []) (\<lambda>_. ret ()))) (\<lambda>_.
     await (view E addressesProvider ''getAddress'' [Str ADDRESS_ID_WETH_GATEWAY]) (\<lambda>_.
     await (view E addressesProvider ''getAddress'' [Str ADDRESS_ID_PUNK_GATEWAY]) (\<lambda>_.
     await (pool_of_provider E addressesProvider) (\<lambda>lendPoolProxy.
     await (for_each [''getMaxNumberOfReserves'', ''getMaxNumberOfNfts'', ''paused'']
         (\<lambda>m. await (view E lendPoolProxy m []) (\<lambda>_. ret ()))) (\<lambda>_.
     await (entries_or_throw (getParamPerNetwork E (ReserveAssets poolConfig) network)) (\<lambda>reserveAssets.
     await (for_each reserveAssets (\<lambda>(symbol, address).
         print_asset E protocolDataProvider
           ''getReserveConfigurationData'' [''decimals'', ''reserveFactor'', ''borrowingEnabled'', ''isActive'', ''isFrozen'']
           ''getReserveTokenData'' [''bTokenSymbol'', ''bTokenAddress'', ''debtTokenSymbol'', ''debtTokenAddress'']
           address)) (\<lambda>_.
     await (entries_or_throw (getParamPerNetwork E (NftsAssets poolConfig) network)) (\<lambda>nftsAsset.
     for_each nftsAsset (\<lambda>(symbol, address).
         print_asset E protocolDataProvider
           ''getNftConfigurationData'' [''ltv'', ''liquidationThreshold'', ''liquidationBonus'', ''redeemDuration'',
             ''auctionDuration'', ''redeemFine'', ''redeemThreshold'', ''minBidFine'', ''isActive'', ''isFrozen'']
           ''getNftTokenData'' [''bNftSymbol'', ''bNftAddress'']
           address)))))))))))))))"

definition print_ui_data ::
  "'c net \<Rightarrow> string \<Rightarrow> string \<Rightarrow> string \<Rightarrow> string \<Rightarrow> ('c, unit) prog" where
  "print_ui_data E simple perUser pool user =
     await set_DRE (\<lambda>_.
     await (lift_result (loadPoolConfig pool)) (\<lambda>poolConfig.
     await (getLendPoolAddressesProvider E None) (\<lambda>addressesProvider.
     await (getBendProtocolDataProvider E None) (\<lambda>dataProvider.
     await (getUIPoolDataProvider E None) (\<lambda>uiProvider.
     await (view E uiProvider simple [Str (h_addr addressesProvider)]) (\<lambda>_.
     await (view E uiProvider perUser [Str (h_addr addressesProvider), Str user]) (\<lambda>_. ret ())))))))"

definition dev_print_ui_reserve_data :: "'c net \<Rightarrow> string \<Rightarrow> string \<Rightarrow> ('c, unit) prog" where
  "dev_print_ui_reserve_data E = print_ui_data E ''getSimpleReservesData'' ''getUserReservesData''"

definition dev_print_ui_nft_data :: "'c net \<Rightarrow> string \<Rightarrow> string \<Rightarrow> ('c, unit) prog" where
  "dev_print_ui_nft_data E = print_ui_data E ''getSimpleNftsData'' ''getUserNftsData''"

definition dev_print_ui_loan_data :: "'c net \<Rightarrow> string \<Rightarrow> string \<Rightarrow> string \<Rightarrow> ('c, unit) prog" where
  "dev_print_ui_loan_data E pool token id1 =
     await set_DRE (\<lambda>_.
     await (getLendPoolAddressesProvider E None) (\<lambda>addressesProvider.
     await (getUIPoolDataProvider E None) (\<lambda>uiProvider.
     await (view E uiProvider ''getSimpleLoansData''
         [Str (h_addr addressesProvider), Arr [Str token], Arr [Str id1]]) (\<lambda>_. ret ()))))"

text \<open>\<^verbatim>\<open>.join\<close> of the answer, which is an array.\<close>

definition joined_view :: "'c net \<Rightarrow> handle \<Rightarrow> string \<Rightarrow> js_value list \<Rightarrow> ('c, unit) prog" where
  "joined_view E h m args = await (view E h m args) (\<lambda>v. case v of
     Arr _ \<Rightarrow> ret () | _ \<Rightarrow> throw (TypeError ''join is not a function''))"

definition dev_print_wallet_balance ::
  "'c net \<Rightarrow> string \<Rightarrow> string \<Rightarrow> string \<Rightarrow> string \<Rightarrow> string option \<Rightarrow> string option \<Rightarrow> ('c, unit) prog" where
  "dev_print_wallet_balance E pool method user token start count1 =
     await set_DRE (\<lambda>_.
     await (getWalletProvider E None) (\<lambda>walletProvider.
     if method = ''batchPunkOfOwner'' \<or> method = ''batchTokenOfOwner''
     then joined_view E walletProvider method [Str user, Str token, val_of start, val_of count1]
     else if method = ''batchTokenOfOwnerByIndex''
     then joined_view E walletProvider method [Str user, Str token]
     else ret ()))"

section \<open>What the reads keep\<close>

context run_rel begin

lemma keeps_as_big [keeps_intros]: "keeps R (as_big v)"
  unfolding as_big_def by (auto intro: keeps_ret keeps_throw split: option.splits js_value.splits)

lemma keeps_bigs [keeps_intros]:
  "keeps R (view_big E h m args)" "keeps R (member_big v k)" "keeps R (big_lt n v)" "keeps R (to_number n)"
  unfolding view_big_def member_big_def big_lt_def to_number_def by (intro keeps_intros)+

lemma keeps_joined_view [keeps_intros]: "keeps R (joined_view E h m args)"
  unfolding joined_view_def
  by (rule keeps_await [OF keeps_view]) (auto intro: keeps_ret keeps_throw split: js_value.splits)

lemma keeps_reads [keeps_intros]:
  "keeps R (pool_of_provider E h)" "keeps R (data_provider_of E h)" "keeps R (token_in_db E k)"
  "keeps R (nft_in_db E k)" "keeps R (show_fields v names)" "keeps R (entries_or_throw o1)"
  "keeps R (print_asset E h m1 f1 m2 f2 a)" "keeps R (print_ui_data E m1 m2 pool user)"
  "keeps R (mock_book (\<lambda>E a. connect_or_db E t k a) E syms)"
  unfolding pool_of_provider_def data_provider_of_def token_in_db_def nft_in_db_def show_fields_def
    entries_or_throw_def print_asset_def print_ui_data_def mock_book_def getter_defs
  by (intro keeps_intros)+

lemma keeps_repay_amount [keeps_intros]: "keeps R (repay_amount E h wpunk weth id1 amount)"
  unfolding repay_amount_def currency_amount_def by (intro keeps_intros)

end

section \<open>What the reads answer\<close>

lemma case_sum_Ret_iff [run_simps]:
  "(case r of Inl m \<Rightarrow> throw (f m) | Inr a \<Rightarrow> g a) w = (Ret x, w') \<longleftrightarrow> (\<exists>a. r = Inr a \<and> g a w = (Ret x, w'))"
  by (cases r) (auto simp: run_simps)

lemma convertToCurrencyDecimals_Ret:
  "convertToCurrencyDecimals E t a w = (Ret n, w') \<Longrightarrow> w' = w \<and> (\<exists>d. n_parse_units E a d = Inr n)"
  unfolding convertToCurrencyDecimals_def getIErc20Detailed_def Let_def
  by (auto simp: run_simps)

lemma currency_amount_Ret:
  "currency_amount E t a w = (Ret v, w') \<Longrightarrow> w' = w \<and> (\<exists>n d. v = Big n \<and> n_parse_units E a d = Inr n)"
  unfolding currency_amount_def by (auto simp: run_simps dest!: convertToCurrencyDecimals_Ret)

lemma token_in_db_Ret:
  "token_in_db E s w = (Ret h, w') \<Longrightarrow>
     w' = w \<and> (\<exists>a. db_address w s = Some a \<and> h = connect_at E ''MintableERC20'' a)"
  unfolding token_in_db_def getMintableERC20_def
  by (auto simp: run_simps getContractAddressInDb_run db_address_def split: option.splits if_splits)

lemma pool_of_provider_Ret: "pool_of_provider E h w = (Ret p, w') \<Longrightarrow> w' = w"
  unfolding pool_of_provider_def getLendPool_def by (auto simp: run_simps)

lemma signer_address_Ret_iff [run_simps]: "signer_address s w = (Ret a, w') \<longleftrightarrow> s = Some a \<and> w' = w"
  by (auto simp: signer_address_def run_simps split: option.splits)

lemma approve_if_short_Ret:
  assumes "approve_if_short E token owner spender (Big n) w = (Ret u, w')"
  shows "\<exists>allowance. n_view E (h_addr token) (h_type token) ''allowance'' [Str owner, Str spender] (chain w) = Inr (Big allowance) \<and>
    trace w' = trace w @ (if allowance < n
      then [EvTx (h_signer token) (h_addr token) ''approve'' [Str spender, MAX_AMOUNT]] else []) \<and>
    db w' = db w"
proof -
  have lt: "big_lt m (Big n) = ret (m < n)" for m
    by (simp add: big_lt_def)
  from assms obtain al where
    al: "n_view E (h_addr token) (h_type token) ''allowance'' [Str owner, Str spender] (chain w) = Inr (Big al)" and
    run: "when_do (al < n) (send E token ''approve'' [Str spender, MAX_AMOUNT]) w = (Ret u, w')"
    unfolding approve_if_short_def lt await_Ret_iff view_big_Ret_iff ret_Ret_iff by blast
  from run have "trace w' = trace w @ (if al < n
      then [EvTx (h_signer token) (h_addr token) ''approve'' [Str spender, MAX_AMOUNT]] else []) \<and> db w' = db w"
    by (cases "al < n") (auto simp: when_do_Ret_iff send_Ret_iff)
  with al show ?thesis by blast
qed

end
