(* ===== verification/OperatorProperties.thy ===== *)
theory OperatorProperties
  imports OperatorTasks SampleNode
begin

text \<open>
  The properties of the operator's tasks: what a sweep may send and where it stops, what a
  deposit sends, the repayment that deploys a contract, and that printing changes nothing.
\<close>

section \<open>Printing\<close>

text \<open>The printing tasks change nothing.  Whatever the node answers and however they end,
  \<^verbatim>\<open>print-accounts\<close>, \<^verbatim>\<open>print-config\<close>, \<^verbatim>\<open>print-nft\<close>, \<^verbatim>\<open>print-reserve\<close> and the
  \<^verbatim>\<open>dev:print-\<close> tasks leave the database, the chain and the trace as they were: they read.\<close>

theorem printing_changes_nothing:
  "keeps untouched (print_accounts E) \<and> keeps untouched (print_config E pool) \<and>
   keeps untouched (print_nft E pool asset tokenId loanId) \<and>
   keeps untouched (print_reserve E pool address user) \<and>
   keeps untouched (dev_print_ui_reserve_data E pool owner) \<and>
   keeps untouched (dev_print_ui_nft_data E pool owner) \<and>
   keeps untouched (dev_print_ui_loan_data E pool token id1) \<and>
   keeps untouched (dev_print_wallet_balance E pool method owner token start count1)"
  unfolding print_accounts_def print_config_def print_nft_def print_reserve_def
    dev_print_ui_reserve_data_def dev_print_ui_nft_data_def dev_print_ui_loan_data_def
    dev_print_wallet_balance_def getter_defs
  by (intro conjI keeps_intros)

section \<open>Sweeping the accounts of a test network\<close>

text \<open>A transaction of one of the accounts \<open>from\<close> that moves what it holds to \<open>to\<close>.\<close>

definition sweeps :: "string set \<Rightarrow> string \<Rightarrow> event \<Rightarrow> bool" where
  "sweeps from to e \<longleftrightarrow> (\<exists>s \<in> from. (\<exists>token n. e = EvTx (Some s) token ''transfer'' [Str to, n]) \<or>
     (\<exists>token n. e = EvTx (Some s) token ''transferFrom'' [Str s, Str to, n]) \<or>
     (\<exists>args. e = EvTx (Some s) to ''sendTransaction'' args))"

definition other_signers :: "'c net \<Rightarrow> string set" where
  "other_signers E = {s \<in> set (n_signers E). Some s \<noteq> getDeploySigner E}"

lemma sweeps_one:
  assumes "s \<in> from"
  shows "keeps (trace_adds (sweeps from to)) (recycle_erc20 E to s h)"
    and "keeps (trace_adds (sweeps from to)) (recycle_erc721 E to s h)"
    and "keeps (trace_adds (sweeps from to)) (recycle_eth E to s)"
proof -
  from assms show "keeps (trace_adds (sweeps from to)) (recycle_erc20 E to s h)"
    unfolding recycle_erc20_def by (intro keeps_intros adds_send) (auto simp: sweeps_def)
  from assms show "keeps (trace_adds (sweeps from to)) (recycle_erc721 E to s h)"
    unfolding recycle_erc721_def send_token_at_def by (intro keeps_intros adds_send) (auto simp: sweeps_def)
  have "keeps (trace_adds (sweeps from to)) (node_call E (Some s) to ''sendTransaction'' args)" for args
    using assms by (auto simp: keeps_def node_call_def trace_adds_same sweeps_def
        intro!: trace_adds_one split: prod.splits option.splits)
  then show "keeps (trace_adds (sweeps from to)) (recycle_eth E to s)"
    unfolding recycle_eth_def Let_def by (intro keeps_intros)
qed

lemma for_each_in:
  "(\<And>x. x \<in> set xs \<Longrightarrow> keeps (trace_adds P) (f x)) \<Longrightarrow> keeps (trace_adds P) (for_each xs f)"
  by (induction xs) (auto intro: adds.keeps_ret adds.keeps_await)

lemma sweeps_others:
  assumes "\<And>s. s \<in> from \<Longrightarrow> keeps (trace_adds (sweeps from to)) (f s)"
    and "\<And>s. s \<in> set (n_signers E) \<Longrightarrow> s \<noteq> d \<Longrightarrow> s \<in> from"
  shows "keeps (trace_adds (sweeps from to)) (for_other_signers E d f)"
  unfolding for_other_signers_def getEthersSigners_def
  using assms by (auto intro!: for_each_in intro: adds.keeps_ret)

text \<open>C36: \<^verbatim>\<open>dev:recycle-signer-tokens\<close> moves things only to the account it is given, and never
  from the deployer.  Whatever the node answers and however the run ends, each transaction of it is
  signed by a signer other than the deployer and transfers that signer's tokens, NFTs or ether to
  \<open>to\<close>.\<close>

theorem recycling_goes_to_target:
  "\<exists>evs. trace (snd (dev_recycle_signer_tokens E to w)) = trace w @ evs \<and>
    list_all (sweeps (other_signers E) to) evs"
proof -
  let ?R = "trace_adds (sweeps (other_signers E) to)"
  have "keeps ?R (dev_recycle_signer_tokens E to)"
  proof (cases "getDeploySigner E")
    case None
    then show ?thesis
      unfolding dev_recycle_signer_tokens_def signer_address_def by (auto intro!: keeps_intros)
  next
    case (Some d)
    show ?thesis
      unfolding dev_recycle_signer_tokens_def signer_address_def Some option.case await_ret
      by (intro adds.keeps_await adds.keeps_set_DRE sweeps_others keeps_intros sweeps_one)
        (auto simp: other_signers_def Some)
  qed
  then have "?R w (snd (dev_recycle_signer_tokens E to w))" by (rule keeps_snd)
  then show ?thesis by (simp add: trace_adds_def list_all_iff)
qed










section \<open>Deposits\<close>

text \<open>What \<^verbatim>\<open>dev:deposit-eth\<close> sends.  A run that returns has sent the gateway of the
  database one deposit for the signer, carrying the amount in the units of the wrapped token, and
  before it an unlimited approval of the gateway exactly when the allowance on the chain was below
  that amount.  The database is as it was.\<close>

theorem deposit_transactions:
  assumes "dev_deposit_eth E pool amount w = (Ret (), w')"
  shows "\<exists>signer gateway weth allowance units.
    getDeploySigner E = Some signer \<and> map_option e_address (db w ''WETHGateway'') = Some gateway \<and>
    db_address w ''WETH'' = Some weth \<and>
    n_view E weth ''MintableERC20'' ''allowance'' [Str signer, Str gateway] (chain w) = Inr (Big allowance) \<and>
    (\<exists>decimals. n_parse_units E amount decimals = Inr units) \<and>
    trace w' = trace w @
      (if allowance < units then [EvTx (Some signer) weth ''approve'' [Str gateway, MAX_AMOUNT]] else []) @
      [EvTx (Some signer) gateway ''depositETH'' [Str signer, Str ''0'', with_value (Big units)]] \<and>
    db w' = db w"
proof -
  from assms obtain w0 signer ge weth n d w1 where
    signer: "getDeploySigner E = Some signer" and gateway: "db w ''WETHGateway'' = Some ge" and
    weth: "db_address w ''WETH'' = Some weth" and n: "n_parse_units E amount d = Inr n" and
    approve: "approve_if_short E (connect_at E ''MintableERC20'' weth) signer (e_address ge) (Big n) w0 = (Ret (), w1)" and
    deposit: "send E (connect_at E ''WETHGateway'' (e_address ge)) ''depositETH''
      [Str signer, Str ''0'', with_value (Big n)] w1 = (Ret (), w')" and
    w0: "db w0 = db w" "chain w0 = chain w" "trace w0 = trace w"
    unfolding dev_deposit_eth_def getter_defs await_Ret_iff set_DRE_Ret_iff signer_address_Ret_iff
    by (auto simp: lift_result_Ret_iff connect_or_db_Ret_iff view_Ret_iff member_addr_Ret_iff ret_Ret_iff
        dest!: pool_of_provider_Ret token_in_db_Ret currency_amount_Ret split: if_split_asm)
  from approve_if_short_Ret [OF approve] w0 obtain al where
    al: "n_view E weth ''MintableERC20'' ''allowance'' [Str signer, Str (e_address ge)] (chain w) = Inr (Big al)" and
    w1: "trace w1 = trace w @ (if al < n then [EvTx (Some signer) weth ''approve'' [Str (e_address ge), MAX_AMOUNT]] else [])"
      "db w1 = db w"
    by (auto simp: signer)
  from deposit have "trace w' = trace w1 @ [EvTx (Some signer) (e_address ge) ''depositETH''
      [Str signer, Str ''0'', with_value (Big n)]]" "db w' = db w1"
    by (auto simp: send_Ret_iff signer)
  with signer gateway weth n al w1 show ?thesis
    by (intro exI [of _ signer] exI [of _ "e_address ge"] exI [of _ weth] exI [of _ al] exI [of _ n])
      (simp, blast)
qed

text \<open>The sample node with the answers the operator's tasks decode.\<close>

definition operator_node :: "string \<Rightarrow> nat net" where
  "operator_node network = sample_node\<lparr>n_network := network, n_view := (\<lambda>a t m args c.
     if m = ''allowance'' then Inr (Big 0)
     else if m = ''getReserveData'' then Inr (Obj [(''bTokenAddress'', Str ''0xB'')])
     else Inr (Str ''0xCALL''))\<rparr>"

lemma operator_node_simps [simp]:
  "n_network (operator_node network) = network" "n_FORK (operator_node network) = None"
  "n_MAINNET_FORK (operator_node network) = None"
  "n_has_method (operator_node network) = (\<lambda>t m. True)"
  "n_view (operator_node network) = (\<lambda>a t m args c.
     if m = ''allowance'' then Inr (Big 0)
     else if m = ''getReserveData'' then Inr (Obj [(''bTokenAddress'', Str ''0xB'')])
     else Inr (Str ''0xCALL''))"
  "n_send (operator_node network) = (\<lambda>s to t m args c. (None, c))"
  "n_deploy (operator_node network) = (\<lambda>s n libs args c. (Inr (''0xC'' @ dec c), Suc c))"
  "n_parse_units (operator_node network) = (\<lambda>a d. Inr 1)"
  "getDeploySigner (operator_node network) = Some ''0xA0''"
  by (simp_all add: operator_node_def sample_node_def getDeploySigner_def getEthersSigners_def arr_at_def)

lemma operator_usable: "usable (operator_node network) a \<longleftrightarrow> take 2 a = ''0x'' \<and> a \<noteq> ZERO_ADDRESS"
  by (auto simp: notFalsyOrZeroAddress_def operator_node_def)

theorem deposit_transactions_witness:
  "\<exists>w'. dev_deposit_eth (operator_node ''hardhat'') ''Bend'' ''1''
      (world_with [''LendPoolAddressesProvider'', ''WETHGateway'', ''WETH'']) = (Ret (), w') \<and> length (trace w') = 2"
proof -
  have "\<exists>w'. dev_deposit_eth (operator_node ''hardhat'') ''Bend'' ''1''
      (world_with [''LendPoolAddressesProvider'', ''WETHGateway'', ''WETH'']) = (Ret (), w')"
    unfolding dev_deposit_eth_def getter_defs pool_of_provider_def token_in_db_def
      currency_amount_def approve_if_short_def convertToCurrencyDecimals_def
    by (auto simp: run_simps big_lt_def member_addr_Ret_iff)
  then obtain w' where run: "dev_deposit_eth (operator_node ''hardhat'') ''Bend'' ''1''
      (world_with [''LendPoolAddressesProvider'', ''WETHGateway'', ''WETH'']) = (Ret (), w')" by blast
  from deposit_transactions [OF run] run show ?thesis by auto
qed

section \<open>A repayment that deploys\<close>

lemma deploy_save_plain:
  assumes "deploy_save E t libs args k False w = (Ret h, w')"
  shows "trace w' = trace w @ [EvDeploy (getDeploySigner E) t libs args (h_addr h)] \<and>
    db w' = (db w)(k \<mapsto> saved_entry h)"
proof -
  from assms obtain w1 where new: "deploy_new E t libs args w = (Ret h, w1)"
    and save: "withSaveAndVerify E h k args False w1 = (Ret h, w')"
    unfolding deploy_save_def await_Ret_iff using withSaveAndVerify_Ret by blast
  from save have "trace w' = trace w1"
    by (auto simp: withSaveAndVerify_def run_simps registerContractInJsonDb_def split: option.splits)
  with deploy_new_Ret [OF new] deploy_save_Ret [OF assms] show ?thesis by simp
qed

text \<open>\<^verbatim>\<open>dev:repay-eth-using-punk\<close> deploys a contract.  Where the market configuration has no
  wrapped punks (\<^verbatim>\<open>hardhat\<close>, \<^verbatim>\<open>coverage\<close>, and \<^verbatim>\<open>monad\<close>, which falls through to them), a
  run of the repayment that returns has first deployed a fresh wrapper and pointed the database at
  it: the contract that held the collateral of the loan is no longer registered.\<close>

theorem repayment_deploys_wrapper:
  assumes "\<not> truthy (n_FORK E)" and "n_MAINNET_FORK E \<noteq> Some ''true''"
    and "n_network E \<in> {''hardhat'', ''coverage'', ''monad''}"
    and "dev_repay_eth_using_punk E ''Bend'' id1 amount w = (Ret (), w')"
  shows "\<exists>punk fresh gateway v. trace w' = trace w @
      [EvDeploy (getDeploySigner E) ''WrappedPunk'' [] [Str punk] fresh,
       EvTx (getDeploySigner E) gateway ''repayETH'' [Str id1, v, with_value v]] \<and>
    map_option e_address (db w' ''WrappedPunk'') = Some fresh"
proof -
  from assms(1-3) have none: "getWrappedPunkTokenAddress E BendConfig a =
      (if \<not> notFalsyOrZeroAddress E (Some a)
       then throw (JsError ''PUNK not set at dev or testnet configuration.'')
       else await (deployWrappedPunk E [Str a] False) (\<lambda>wpunk. ret (h_addr wpunk)))" for a
    by (auto simp: getWrappedPunkTokenAddress_def mainnet_fork_network_def getParamPerNetwork_def
        commons_WrappedPunkToken_def)
  from assms(4) obtain w0 punk wp w1 gw v w2 p q t where
    deploy: "deployWrappedPunk E [Str punk] False w0 = (Ret wp, w1)" and
    read: "repay_amount E p q t id1 amount w1 = (Ret v, w2)" and
    repay: "send E (connect_at E ''PunkGateway'' gw) ''repayETH'' [Str id1, v, with_value v] w2 = (Ret (), w')" and
    w0: "db w0 = db w" "trace w0 = trace w"
    by (auto simp: dev_repay_eth_using_punk_def getter_defs await_Ret_iff set_DRE_Ret_iff lift_result_Ret_iff none
        ret_Ret_iff view_Ret_iff connect_or_db_Ret_iff throw_Ret_iff split: if_split_asm dest!: token_in_db_Ret)
  have "keeps untouched (repay_amount E p q t id1 amount)" by (rule keeps_intros)
  from keepsD [OF this read] have w2: "db w2 = db w1" "trace w2 = trace w1" by (simp_all add: untouched_def)
  from deploy_save_plain [OF deploy [unfolded deployWrappedPunk_def]] w0 w2 repay show ?thesis
    by (auto simp: send_Ret_iff saved_entry_def)
qed

theorem repayment_deploys_wrapper_witness:
  "\<exists>w' fresh. dev_repay_eth_using_punk (operator_node ''monad'') ''Bend'' ''7'' ''1''
      (world_with [''LendPoolAddressesProvider'', ''CryptoPunksMarket'', ''WrappedPunk'', ''PunkGateway'', ''WETH'']) = (Ret (), w') \<and>
    map_option e_address (db w' ''WrappedPunk'') = Some fresh"
proof -
  have "\<exists>w'. dev_repay_eth_using_punk (operator_node ''monad'') ''Bend'' ''7'' ''1''
      (world_with [''LendPoolAddressesProvider'', ''CryptoPunksMarket'', ''WrappedPunk'', ''PunkGateway'', ''WETH'']) = (Ret (), w')"
    by (simp add: dev_repay_eth_using_punk_def getter_defs await_def set_DRE_def ret_def connect_or_db_none
        connect_or_db_def getWrappedPunkTokenAddress_def mainnet_fork_network_def getParamPerNetwork_def
        commons_WrappedPunkToken_def deployWrappedPunk_def deploy_save_def deploy_new_def deploy_with_def
        withSaveAndVerify_plain token_in_db_def getContractAddressInDb_run repay_amount_def currency_amount_def
        convertToCurrencyDecimals_def view_def send_def operator_usable ZERO_ADDRESS_def
        db_value_address_def db_get_def Let_def)
  then obtain w' where "dev_repay_eth_using_punk (operator_node ''monad'') ''Bend'' ''7'' ''1''
      (world_with [''LendPoolAddressesProvider'', ''CryptoPunksMarket'', ''WrappedPunk'', ''PunkGateway'', ''WETH'']) = (Ret (), w')"
    by blast
  with repayment_deploys_wrapper [OF _ _ _ this] show ?thesis by fastforce
qed

end
