(* ===== verification/Solidity.thy ===== *)
theory Solidity
  imports Prelude "HOL-Library.Word"
begin

text \<open>
  Shared ground of the contracts under \<^verbatim>\<open>src/contracts\<close>, which Solidity 0.8.4
  compiles: a call returns a value or reverts with a reason, and a revert undoes the call, so an
  operation is a function into \<open>string + 'a\<close>.  Arithmetic on \<^verbatim>\<open>uint256\<close> is checked: the
  four operations revert with \<^verbatim>\<open>Panic(0x11)\<close> on overflow and \<^verbatim>\<open>Panic(0x12)\<close> on a
  division by zero.  The lemmas read every checked operation as the operation on natural numbers,
  so that the proofs about the contracts never unfold a word.
\<close>

type_synonym uint256 = "256 word"

section \<open>Reverts\<close>

definition require :: "bool \<Rightarrow> string \<Rightarrow> string + unit" where
  "require b e = (if b then Inr () else Inl e)"

definition bind_revert :: "string + 'a \<Rightarrow> ('a \<Rightarrow> string + 'b) \<Rightarrow> string + 'b" where
  "bind_revert r f = (case r of Inl e \<Rightarrow> Inl e | Inr a \<Rightarrow> f a)"

lemma bind_revert_simps [simp]: "bind_revert (Inl e) f = Inl e" "bind_revert (Inr a) f = f a"
  by (simp_all add: bind_revert_def)

lemma bind_revert_Inr: "bind_revert r f = Inr b \<longleftrightarrow> (\<exists>a. r = Inr a \<and> f a = Inr b)"
  by (cases r) simp_all

lemma require_Inr: "require b e = Inr u \<longleftrightarrow> b"
  by (simp add: require_def)

lemma require_True [simp]: "b \<Longrightarrow> require b e = Inr ()"
  by (simp add: require_def)

lemma require_False: "\<not> b \<Longrightarrow> require b e = Inl e"
  by (simp add: require_def)

lemma bind_requireE:
  assumes "bind_revert (require b e) f = Inr y"
  obtains "b" "f () = Inr y"
  using assms by (cases b) (simp_all add: require_def)

lemma bind_revertE:
  assumes "bind_revert r f = Inr y"
  obtains x where "r = Inr x" "f x = Inr y"
  using assms by (auto simp: bind_revert_Inr)

section \<open>Checked arithmetic\<close>

definition OVERFLOW :: string where
  "OVERFLOW = ''Panic(0x11)''"

definition DIVISION_BY_ZERO :: string where
  "DIVISION_BY_ZERO = ''Panic(0x12)''"

definition checked_add :: "uint256 \<Rightarrow> uint256 \<Rightarrow> string + uint256" where
  "checked_add a b = (if unat a + unat b < 2 ^ 256 then Inr (a + b) else Inl OVERFLOW)"

definition checked_sub :: "uint256 \<Rightarrow> uint256 \<Rightarrow> string + uint256" where
  "checked_sub a b = (if b \<le> a then Inr (a - b) else Inl OVERFLOW)"

definition checked_mul :: "uint256 \<Rightarrow> uint256 \<Rightarrow> string + uint256" where
  "checked_mul a b = (if unat a * unat b < 2 ^ 256 then Inr (a * b) else Inl OVERFLOW)"

definition checked_div :: "uint256 \<Rightarrow> uint256 \<Rightarrow> string + uint256" where
  "checked_div a b = (if b = 0 then Inl DIVISION_BY_ZERO else Inr (a div b))"

text \<open>\<^verbatim>\<open>type(uint256).max\<close>\<close>

definition UINT256_MAX :: uint256 where
  "UINT256_MAX = - 1"

lemma unat_UINT256_MAX: "unat UINT256_MAX = 2 ^ 256 - 1"
  unfolding UINT256_MAX_def by (simp add: unsigned_minus_1_eq_mask mask_eq_exp_minus_1)

lemma unat_uint256: "unat (a :: uint256) < 2 ^ 256"
  using unsigned_less [of a] by simp

lemma of_nat_uint256: "n < 2 ^ 256 \<Longrightarrow> unat (of_nat n :: uint256) = n"
  by (simp add: unat_of_nat take_bit_nat_eq_self)

lemma uint256_eqI: "unat a = unat b \<Longrightarrow> (a :: uint256) = b"
  by (rule unsigned_word_eqI)

lemma uint256_of_unat: "unat (w :: uint256) = n \<Longrightarrow> w = of_nat n"
  using unat_uint256 [of w] by (intro uint256_eqI) (simp add: of_nat_uint256)

lemma UINT256_MAX_ge: "(a :: uint256) \<le> UINT256_MAX"
  using unat_uint256 [of a] by (simp add: word_le_nat_alt unat_UINT256_MAX)

lemma checked_add_iff: "checked_add a b = Inr c \<longleftrightarrow> unat c = unat a + unat b"
proof
  assume "checked_add a b = Inr c"
  then show "unat c = unat a + unat b"
    by (auto simp: checked_add_def unat_word_ariths split: if_splits)
next
  assume c: "unat c = unat a + unat b"
  then have "unat a + unat b < 2 ^ 256" using unat_uint256 [of c] by simp
  then show "checked_add a b = Inr c"
    using c by (auto simp: checked_add_def unat_word_ariths intro!: uint256_eqI)
qed

lemma checked_mul_iff: "checked_mul a b = Inr c \<longleftrightarrow> unat c = unat a * unat b"
proof
  assume "checked_mul a b = Inr c"
  then show "unat c = unat a * unat b"
    by (auto simp: checked_mul_def unat_word_ariths split: if_splits)
next
  assume c: "unat c = unat a * unat b"
  then have "unat a * unat b < 2 ^ 256" using unat_uint256 [of c] by simp
  then show "checked_mul a b = Inr c"
    using c by (auto simp: checked_mul_def unat_word_ariths intro!: uint256_eqI)
qed

lemma checked_sub_iff: "checked_sub a b = Inr c \<longleftrightarrow> unat a = unat b + unat c"
proof
  assume "checked_sub a b = Inr c"
  then show "unat a = unat b + unat c"
    by (auto simp: checked_sub_def unat_sub word_le_nat_alt split: if_splits)
next
  assume c: "unat a = unat b + unat c"
  then show "checked_sub a b = Inr c"
    by (auto simp: checked_sub_def unat_sub word_le_nat_alt intro!: uint256_eqI)
qed

lemma checked_div_iff: "checked_div a b = Inr c \<longleftrightarrow> b \<noteq> 0 \<and> unat c = unat a div unat b"
  by (auto simp: checked_div_def unat_div intro: uint256_eqI)

lemmas checked_iff = checked_add_iff checked_sub_iff checked_mul_iff checked_div_iff

lemma checked_returns:
  "unat a + unat b < 2 ^ 256 \<Longrightarrow> \<exists>c. checked_add a b = Inr c \<and> unat c = unat a + unat b"
  "unat a * unat b < 2 ^ 256 \<Longrightarrow> \<exists>c. checked_mul a b = Inr c \<and> unat c = unat a * unat b"
  "unat b \<le> unat a \<Longrightarrow> \<exists>c. checked_sub a b = Inr c \<and> unat c = unat a - unat b"
  by (simp_all add: checked_add_def checked_mul_def checked_sub_def unat_word_ariths unat_sub
      word_le_nat_alt)

lemma uint256_eq_0: "(a :: uint256) = 0 \<longleftrightarrow> unat a = 0"
  by (simp add: unat_eq_zero)

text \<open>The narrower types: \<^verbatim>\<open>uint128\<close> for indexes and rates, \<^verbatim>\<open>uint40\<close> for times.\<close>

type_synonym uint128 = "128 word"
type_synonym uint40 = "40 word"

lemma narrow_bounds: "unat (x :: uint128) < 2 ^ 128" "unat (t :: uint40) < 2 ^ 40"
proof -
  have "(unsigned x :: nat) < 2 ^ LENGTH(128)" "(unsigned t :: nat) < 2 ^ LENGTH(40)" by (rule unsigned_less)+
  then show "unat x < 2 ^ 128" "unat t < 2 ^ 40" by simp_all
qed

lemma unat_widen [simp]: "unat (ucast t :: uint256) = unat (t :: uint40)"
  "unat (ucast x :: uint256) = unat (x :: uint128)"
proof -
  have "unat t < 2 ^ 256" "unat x < 2 ^ 256"
    using narrow_bounds(2) [of t] narrow_bounds(1) [of x] by simp_all
  then show "unat (ucast t :: uint256) = unat t" "unat (ucast x :: uint256) = unat x"
    by (simp_all add: unsigned_ucast_eq take_bit_nat_eq_self)
qed

lemma unat_narrow: "unat (a :: uint256) < 2 ^ 128 \<Longrightarrow> unat (ucast a :: uint128) = unat a"
  "unat (a :: uint256) < 2 ^ 40 \<Longrightarrow> unat (ucast a :: uint40) = unat a"
  by (simp_all add: unsigned_ucast_eq take_bit_nat_eq_self)

text \<open>An operation that gives the number \<open>n\<close> of type \<^verbatim>\<open>uint256\<close>, or reverts.\<close>

definition fits :: "nat \<Rightarrow> string \<Rightarrow> string + uint256" where
  "fits n e = (if n < 2 ^ 256 then Inr (of_nat n) else Inl e)"

lemma fits_Inr: "fits n e = Inr c \<longleftrightarrow> unat c = n"
  using unat_uint256 [of c] by (auto simp: fits_def of_nat_uint256 intro: uint256_eqI)

section \<open>Transactions\<close>

text \<open>
  A function that changes the storage: it returns a value and the new state, or reverts, and then
  there is no new state.
\<close>

type_synonym ('s, 'a) tx = "'s \<Rightarrow> string + 'a \<times> 's"

definition tx_return :: "'a \<Rightarrow> ('s, 'a) tx" where
  "tx_return a s = Inr (a, s)"

definition tx_bind :: "('s, 'a) tx \<Rightarrow> ('a \<Rightarrow> ('s, 'b) tx) \<Rightarrow> ('s, 'b) tx" where
  "tx_bind m f s = (case m s of Inl e \<Rightarrow> Inl e | Inr (a, s') \<Rightarrow> f a s')"

definition tx_lift :: "string + 'a \<Rightarrow> ('s, 'a) tx" where
  "tx_lift r s = (case r of Inl e \<Rightarrow> Inl e | Inr a \<Rightarrow> Inr (a, s))"

definition tx_require :: "bool \<Rightarrow> string \<Rightarrow> ('s, unit) tx" where
  "tx_require b e = tx_lift (require b e)"

definition tx_read :: "('s \<Rightarrow> 'a) \<Rightarrow> ('s, 'a) tx" where
  "tx_read f s = Inr (f s, s)"

definition tx_write :: "('s \<Rightarrow> 's) \<Rightarrow> ('s, unit) tx" where
  "tx_write f s = Inr ((), f s)"

text \<open>A transaction on a part of the state.\<close>

definition tx_zoom :: "('s \<Rightarrow> 't) \<Rightarrow> ('t \<Rightarrow> 's \<Rightarrow> 's) \<Rightarrow> ('t, 'a) tx \<Rightarrow> ('s, 'a) tx" where
  "tx_zoom part put m s = (case m (part s) of Inl e \<Rightarrow> Inl e | Inr (a, t) \<Rightarrow> Inr (a, put t s))"

lemma tx_simps [simp]:
  "tx_return a s = Inr (a, s)" "tx_read f s = Inr (f s, s)" "tx_write g s = Inr ((), g s)"
  "tx_lift (Inr a) s = Inr (a, s)" "tx_lift (Inl e) s = Inl e"
  "b \<Longrightarrow> tx_require b e s = Inr ((), s)" "\<not> b \<Longrightarrow> tx_require b e s = Inl e"
  by (simp_all add: tx_return_def tx_read_def tx_write_def tx_lift_def tx_require_def require_def)

lemma tx_bind_Inr [simp]: "m s = Inr (a, s') \<Longrightarrow> tx_bind m f s = f a s'"
  and tx_bind_Inl [simp]: "m s = Inl e \<Longrightarrow> tx_bind m f s = Inl e"
  by (simp_all add: tx_bind_def)

lemma tx_bindE:
  assumes "tx_bind m f s = Inr r"
  obtains a s' where "m s = Inr (a, s')" "f a s' = Inr r"
  using assms by (auto simp: tx_bind_def split: sum.splits)

lemma tx_liftE:
  assumes "tx_lift r s = Inr (a, s')"
  obtains "r = Inr a" "s' = s"
  using assms by (auto simp: tx_lift_def split: sum.splits)

lemma tx_requireE:
  assumes "tx_require b e s = Inr (a, s')"
  obtains "b" "s' = s"
  using assms by (cases b) simp_all

lemma tx_zoomE:
  assumes "tx_zoom part put m s = Inr (a, s')"
  obtains t where "m (part s) = Inr (a, t)" "s' = put t s"
  using assms by (auto simp: tx_zoom_def split: sum.splits)

lemma tx_returnE:
  assumes "tx_return a s = Inr (b, s')"
  obtains "b = a" "s' = s"
  using assms by (auto simp: tx_return_def)

lemma tx_readE:
  assumes "tx_read f s = Inr (b, s')"
  obtains "b = f s" "s' = s"
proof (rule that)
  have "(f s, s) = (b, s')" using assms unfolding tx_read_def by (rule Inr_inject)
  then show "b = f s" "s' = s" by (blast dest: prod.inject [THEN iffD1])+
qed

lemma tx_writeE:
  assumes "tx_write g s = Inr (u, s')"
  obtains "s' = g s"
  using assms by (auto simp: tx_write_def)

lemmas tx_elims = tx_bindE tx_liftE tx_requireE tx_zoomE tx_returnE tx_readE tx_writeE

text \<open>The invariant of a transaction, whatever it returns.\<close>

definition tx_keeps :: "('s \<Rightarrow> bool) \<Rightarrow> ('s, 'a) tx \<Rightarrow> bool" where
  "tx_keeps I m \<longleftrightarrow> (\<forall>s a s'. I s \<longrightarrow> m s = Inr (a, s') \<longrightarrow> I s')"

lemma tx_keepsI: "(\<And>s a s'. I s \<Longrightarrow> m s = Inr (a, s') \<Longrightarrow> I s') \<Longrightarrow> tx_keeps I m"
  by (simp add: tx_keeps_def)

lemma tx_keepsD: "tx_keeps I m \<Longrightarrow> I s \<Longrightarrow> m s = Inr (a, s') \<Longrightarrow> I s'"
  by (simp add: tx_keeps_def)

lemma tx_keeps_simps [simp]:
  "tx_keeps I (tx_return a)" "tx_keeps I (tx_read f)" "tx_keeps I (tx_lift r)" "tx_keeps I (tx_require b e)"
  by (auto simp: tx_keeps_def elim: tx_elims)

lemma tx_keeps_bind: "tx_keeps I m \<Longrightarrow> (\<And>a. tx_keeps I (f a)) \<Longrightarrow> tx_keeps I (tx_bind m f)"
  unfolding tx_keeps_def by (blast elim: tx_bindE)

lemma tx_keeps_write: "(\<And>s. I s \<Longrightarrow> I (f s)) \<Longrightarrow> tx_keeps I (tx_write f)"
  by (simp add: tx_keeps_def)

end
