(* ===== verification/NftConfiguration.thy ===== *)
theory NftConfiguration
  imports MarketConfig Solidity
begin

text \<open>
  The receiving end of the NFT configuration: the bitmap library
  \<^verbatim>\<open>contracts/libraries/configuration/NftConfiguration.sol\<close> on 256-bit words, and the
  loop \<^verbatim>\<open>executeBatchConfigNft\<close> of \<^verbatim>\<open>ConfiguratorLogic.sol\<close> that stores what the
  deployment scripts send.  A revert is an error string and undoes the call.  The lemmas
  show that a field is read back as it was set, that setting it leaves the other fields
  alone, and which inputs are accepted.
\<close>

unbundle bit_operations_syntax

section \<open>Masks and positions\<close>

definition LTV_MASK :: uint256 where
  "LTV_MASK = 0xFFFFFFFFFFFFFFFFFFFFFFFFFFFFFFFFFFFFFFFFFFFFFFFFFFFFFFFFFFFF0000"
definition LIQUIDATION_THRESHOLD_MASK :: uint256 where
  "LIQUIDATION_THRESHOLD_MASK = 0xFFFFFFFFFFFFFFFFFFFFFFFFFFFFFFFFFFFFFFFFFFFFFFFFFFFFFFFF0000FFFF"
definition LIQUIDATION_BONUS_MASK :: uint256 where
  "LIQUIDATION_BONUS_MASK = 0xFFFFFFFFFFFFFFFFFFFFFFFFFFFFFFFFFFFFFFFFFFFFFFFFFFFF0000FFFFFFFF"
definition ACTIVE_MASK :: uint256 where
  "ACTIVE_MASK = 0xFFFFFFFFFFFFFFFFFFFFFFFFFFFFFFFFFFFFFFFFFFFFFFFFFEFFFFFFFFFFFFFF"
definition FROZEN_MASK :: uint256 where
  "FROZEN_MASK = 0xFFFFFFFFFFFFFFFFFFFFFFFFFFFFFFFFFFFFFFFFFFFFFFFFFDFFFFFFFFFFFFFF"
definition REDEEM_DURATION_MASK :: uint256 where
  "REDEEM_DURATION_MASK = 0xFFFFFFFFFFFFFFFFFFFFFFFFFFFFFFFFFFFFFFFFFFFFFF00FFFFFFFFFFFFFFFF"
definition AUCTION_DURATION_MASK :: uint256 where
  "AUCTION_DURATION_MASK = 0xFFFFFFFFFFFFFFFFFFFFFFFFFFFFFFFFFFFFFFFFFFFF00FFFFFFFFFFFFFFFFFF"
definition REDEEM_FINE_MASK :: uint256 where
  "REDEEM_FINE_MASK = 0xFFFFFFFFFFFFFFFFFFFFFFFFFFFFFFFFFFFFFFFF0000FFFFFFFFFFFFFFFFFFFF"
definition REDEEM_THRESHOLD_MASK :: uint256 where
  "REDEEM_THRESHOLD_MASK = 0xFFFFFFFFFFFFFFFFFFFFFFFFFFFFFFFFFFFF0000FFFFFFFFFFFFFFFFFFFFFFFF"
definition MIN_BIDFINE_MASK :: uint256 where
  "MIN_BIDFINE_MASK = 0xFFFFFFFFFFFFFFFFFFFFFFFFFFFFFFFF0000FFFFFFFFFFFFFFFFFFFFFFFFFFFF"

text \<open>A field of \<open>n\<close> bits from position \<open>p\<close>: the mask has zeros there and ones elsewhere.\<close>

definition hole :: "nat \<Rightarrow> nat \<Rightarrow> uint256" where
  "hole p n = NOT (push_bit p (mask n))"

lemma masks_hole:
  "LTV_MASK = hole 0 16" "LIQUIDATION_THRESHOLD_MASK = hole 16 16" "LIQUIDATION_BONUS_MASK = hole 32 16"
  "ACTIVE_MASK = hole 56 1" "FROZEN_MASK = hole 57 1" "REDEEM_DURATION_MASK = hole 64 8"
  "AUCTION_DURATION_MASK = hole 72 8" "REDEEM_FINE_MASK = hole 80 16"
  "REDEEM_THRESHOLD_MASK = hole 96 16" "MIN_BIDFINE_MASK = hole 112 16"
  unfolding LTV_MASK_def LIQUIDATION_THRESHOLD_MASK_def LIQUIDATION_BONUS_MASK_def ACTIVE_MASK_def
    FROZEN_MASK_def REDEEM_DURATION_MASK_def AUCTION_DURATION_MASK_def REDEEM_FINE_MASK_def
    REDEEM_THRESHOLD_MASK_def MIN_BIDFINE_MASK_def hole_def mask_eq_exp_minus_1 push_bit_eq_mult
  by simp_all

section \<open>Setters and getters\<close>

definition setLtv :: "uint256 \<Rightarrow> uint256 \<Rightarrow> string + uint256" where
  "setLtv data ltv = (if ltv \<le> 65535 then Inr ((data AND LTV_MASK) OR ltv) else Inl ''RC_INVALID_LTV'')"

definition getLtv :: "uint256 \<Rightarrow> uint256" where
  "getLtv data = data AND NOT LTV_MASK"

definition setLiquidationThreshold :: "uint256 \<Rightarrow> uint256 \<Rightarrow> string + uint256" where
  "setLiquidationThreshold data threshold =
     (if threshold \<le> 65535 then Inr ((data AND LIQUIDATION_THRESHOLD_MASK) OR push_bit 16 threshold)
      else Inl ''RC_INVALID_LIQ_THRESHOLD'')"

definition getLiquidationThreshold :: "uint256 \<Rightarrow> uint256" where
  "getLiquidationThreshold data = drop_bit 16 (data AND NOT LIQUIDATION_THRESHOLD_MASK)"

definition setLiquidationBonus :: "uint256 \<Rightarrow> uint256 \<Rightarrow> string + uint256" where
  "setLiquidationBonus data bonus =
     (if bonus \<le> 65535 then Inr ((data AND LIQUIDATION_BONUS_MASK) OR push_bit 32 bonus)
      else Inl ''RC_INVALID_LIQ_BONUS'')"

definition getLiquidationBonus :: "uint256 \<Rightarrow> uint256" where
  "getLiquidationBonus data = drop_bit 32 (data AND NOT LIQUIDATION_BONUS_MASK)"

definition setActive :: "uint256 \<Rightarrow> bool \<Rightarrow> uint256" where
  "setActive data active = (data AND ACTIVE_MASK) OR push_bit 56 (if active then 1 else 0)"

definition getActive :: "uint256 \<Rightarrow> bool" where
  "getActive data \<longleftrightarrow> data AND NOT ACTIVE_MASK \<noteq> 0"

definition setFrozen :: "uint256 \<Rightarrow> bool \<Rightarrow> uint256" where
  "setFrozen data frozen = (data AND FROZEN_MASK) OR push_bit 57 (if frozen then 1 else 0)"

definition getFrozen :: "uint256 \<Rightarrow> bool" where
  "getFrozen data \<longleftrightarrow> data AND NOT FROZEN_MASK \<noteq> 0"

definition setRedeemDuration :: "uint256 \<Rightarrow> uint256 \<Rightarrow> string + uint256" where
  "setRedeemDuration data redeemDuration1 =
     (if redeemDuration1 \<le> 255 then Inr ((data AND REDEEM_DURATION_MASK) OR push_bit 64 redeemDuration1)
      else Inl ''RC_INVALID_REDEEM_DURATION'')"

definition getRedeemDuration :: "uint256 \<Rightarrow> uint256" where
  "getRedeemDuration data = drop_bit 64 (data AND NOT REDEEM_DURATION_MASK)"

definition setAuctionDuration :: "uint256 \<Rightarrow> uint256 \<Rightarrow> string + uint256" where
  "setAuctionDuration data auctionDuration1 =
     (if auctionDuration1 \<le> 255 then Inr ((data AND AUCTION_DURATION_MASK) OR push_bit 72 auctionDuration1)
      else Inl ''RC_INVALID_AUCTION_DURATION'')"

definition getAuctionDuration :: "uint256 \<Rightarrow> uint256" where
  "getAuctionDuration data = drop_bit 72 (data AND NOT AUCTION_DURATION_MASK)"

definition setRedeemFine :: "uint256 \<Rightarrow> uint256 \<Rightarrow> string + uint256" where
  "setRedeemFine data redeemFine1 =
     (if redeemFine1 \<le> 65535 then Inr ((data AND REDEEM_FINE_MASK) OR push_bit 80 redeemFine1)
      else Inl ''RC_INVALID_REDEEM_FINE'')"

definition getRedeemFine :: "uint256 \<Rightarrow> uint256" where
  "getRedeemFine data = drop_bit 80 (data AND NOT REDEEM_FINE_MASK)"

definition setRedeemThreshold :: "uint256 \<Rightarrow> uint256 \<Rightarrow> string + uint256" where
  "setRedeemThreshold data redeemThreshold1 =
     (if redeemThreshold1 \<le> 65535 then Inr ((data AND REDEEM_THRESHOLD_MASK) OR push_bit 96 redeemThreshold1)
      else Inl ''RC_INVALID_REDEEM_THRESHOLD'')"

definition getRedeemThreshold :: "uint256 \<Rightarrow> uint256" where
  "getRedeemThreshold data = drop_bit 96 (data AND NOT REDEEM_THRESHOLD_MASK)"

definition setMinBidFine :: "uint256 \<Rightarrow> uint256 \<Rightarrow> string + uint256" where
  "setMinBidFine data minBidFine1 =
     (if minBidFine1 \<le> 65535 then Inr ((data AND MIN_BIDFINE_MASK) OR push_bit 112 minBidFine1)
      else Inl ''RC_INVALID_MIN_BID_FINE'')"

definition getMinBidFine :: "uint256 \<Rightarrow> uint256" where
  "getMinBidFine data = drop_bit 112 (data AND NOT MIN_BIDFINE_MASK)"

section \<open>A bit field\<close>

definition put_field :: "nat \<Rightarrow> nat \<Rightarrow> uint256 \<Rightarrow> uint256 \<Rightarrow> uint256" where
  "put_field p n data v = (data AND hole p n) OR push_bit p v"

definition field :: "nat \<Rightarrow> nat \<Rightarrow> uint256 \<Rightarrow> uint256" where
  "field p n data = drop_bit p (data AND NOT (hole p n))"

lemma bit_hole: "bit (hole p n) i \<longleftrightarrow> i < 256 \<and> (i < p \<or> p + n \<le> i)"
  by (auto simp: hole_def bit_simps)

lemma small_bits: "v \<le> mask n \<Longrightarrow> n \<le> i \<Longrightarrow> \<not> bit (v :: uint256) i"
proof -
  assume v: "v \<le> mask n" and n: "n \<le> i"
  have "unat (mask n :: uint256) < 2 ^ n"
    unfolding take_bit_minus_one_eq_mask [symmetric] unsigned_take_bit_eq by (rule take_bit_nat_less_exp)
  with v have "unat v < 2 ^ n" by (simp add: word_le_nat_alt)
  also have "\<dots> \<le> 2 ^ i" using n by simp
  finally have "\<not> bit (unat v) i" by (simp add: bit_iff_odd)
  then show ?thesis by (simp add: bit_unsigned_iff)
qed

lemma field_put_same:
  assumes "v \<le> mask n" and "p + n \<le> 256"
  shows "field p n (put_field p n data v) = v"
proof (rule bit_word_eqI)
  fix i assume "i < LENGTH(256)"
  then show "bit (field p n (put_field p n data v)) i = bit v i"
    using small_bits [OF assms(1), of i] assms(2)
    by (cases "n \<le> i") (auto simp: field_def put_field_def bit_simps bit_hole)
qed

lemma field_put_other:
  assumes "v \<le> mask n" and "p + n \<le> q \<or> q + m \<le> p"
  shows "field q m (put_field p n data v) = field q m data"
proof (rule bit_word_eqI)
  fix i assume "i < LENGTH(256)"
  then show "bit (field q m (put_field p n data v)) i = bit (field q m data) i"
    using small_bits [OF assms(1), of "q + i - p"] assms(2)
    by (cases "n \<le> q + i - p") (auto simp: field_def put_field_def bit_simps bit_hole)
qed

lemma mask_numbers [simp]: "(mask 16 :: uint256) = 65535" "(mask 8 :: uint256) = 255" "(mask 1 :: uint256) = 1"
  by (simp_all add: mask_eq_exp_minus_1)

lemma setter_fields:
  "v \<le> 65535 \<Longrightarrow> setLtv d v = Inr (put_field 0 16 d v)"
  "v \<le> 65535 \<Longrightarrow> setLiquidationThreshold d v = Inr (put_field 16 16 d v)"
  "v \<le> 65535 \<Longrightarrow> setLiquidationBonus d v = Inr (put_field 32 16 d v)"
  "setActive d b = put_field 56 1 d (if b then 1 else 0)"
  "setFrozen d b = put_field 57 1 d (if b then 1 else 0)"
  "v \<le> 255 \<Longrightarrow> setRedeemDuration d v = Inr (put_field 64 8 d v)"
  "v \<le> 255 \<Longrightarrow> setAuctionDuration d v = Inr (put_field 72 8 d v)"
  "v \<le> 65535 \<Longrightarrow> setRedeemFine d v = Inr (put_field 80 16 d v)"
  "v \<le> 65535 \<Longrightarrow> setRedeemThreshold d v = Inr (put_field 96 16 d v)"
  "v \<le> 65535 \<Longrightarrow> setMinBidFine d v = Inr (put_field 112 16 d v)"
  by (simp_all add: setLtv_def setLiquidationThreshold_def setLiquidationBonus_def setActive_def
      setFrozen_def setRedeemDuration_def setAuctionDuration_def setRedeemFine_def
      setRedeemThreshold_def setMinBidFine_def masks_hole put_field_def)

lemma flag_field: "p < 256 \<Longrightarrow> data AND NOT (hole p 1) \<noteq> 0 \<longleftrightarrow> field p 1 data \<noteq> 0"
proof -
  assume p: "p < 256"
  have "drop_bit p (data AND NOT (hole p 1)) = 0 \<longleftrightarrow> data AND NOT (hole p 1) = 0"
  proof
    assume z: "drop_bit p (data AND NOT (hole p 1)) = 0"
    show "data AND NOT (hole p 1) = 0"
    proof (rule bit_word_eqI)
      fix i assume "i < LENGTH(256)"
      have "\<not> bit (drop_bit p (data AND NOT (hole p 1))) 0" unfolding z by simp
      then show "bit (data AND NOT (hole p 1)) i = bit 0 i"
        using p by (cases "i = p") (auto simp: bit_simps bit_hole)
    qed
  qed simp
  then show ?thesis by (simp add: field_def)
qed

lemma getter_fields:
  "getLtv d = field 0 16 d" "getLiquidationThreshold d = field 16 16 d"
  "getLiquidationBonus d = field 32 16 d" "getActive d \<longleftrightarrow> field 56 1 d \<noteq> 0"
  "getFrozen d \<longleftrightarrow> field 57 1 d \<noteq> 0" "getRedeemDuration d = field 64 8 d"
  "getAuctionDuration d = field 72 8 d" "getRedeemFine d = field 80 16 d"
  "getRedeemThreshold d = field 96 16 d" "getMinBidFine d = field 112 16 d"
  using flag_field [of 56 d] flag_field [of 57 d]
  by (simp_all add: getLtv_def getLiquidationThreshold_def getLiquidationBonus_def getActive_def getFrozen_def
      getRedeemDuration_def getAuctionDuration_def getRedeemFine_def getRedeemThreshold_def getMinBidFine_def
      masks_hole field_def)

section \<open>Storing a configuration\<close>

text \<open>The structure \<^verbatim>\<open>ConfigTypes.ConfigNftInput\<close> and what the pool stores of an NFT.\<close>

record ConfigNftInput =
  in_asset :: string
  in_baseLTV :: uint256
  in_liquidationThreshold :: uint256
  in_liquidationBonus :: uint256
  in_redeemDuration :: uint256
  in_auctionDuration :: uint256
  in_redeemFine :: uint256
  in_redeemThreshold :: uint256
  in_minBidFine :: uint256
  in_maxSupply :: uint256
  in_maxTokenId :: uint256
  in_maxCollateralCap :: uint256

record nft_data =
  configuration :: uint256
  nft_maxSupply :: uint256
  nft_maxTokenId :: uint256
  maxCollateralCap :: uint256

definition PERCENTAGE_FACTOR :: uint256 where
  "PERCENTAGE_FACTOR = 10000"

text \<open>The parameter checks, the eight setters, the stores: one round of the loop.\<close>

definition config_one_nft ::
  "ConfigNftInput \<Rightarrow> (string \<Rightarrow> nft_data) \<Rightarrow> string + (string \<Rightarrow> nft_data)" where
  "config_one_nft inp nfts =
     bind_revert (require (in_baseLTV inp \<le> in_liquidationThreshold inp) ''LPC_INVALID_CONFIGURATION'') (\<lambda>_.
     bind_revert (if in_liquidationThreshold inp \<noteq> 0
       then require (in_liquidationBonus inp \<le> PERCENTAGE_FACTOR) ''LPC_INVALID_CONFIGURATION''
       else require (in_liquidationBonus inp = 0) ''LPC_INVALID_CONFIGURATION'') (\<lambda>_.
     bind_revert (setLtv (configuration (nfts (in_asset inp))) (in_baseLTV inp)) (\<lambda>c1.
     bind_revert (setLiquidationThreshold c1 (in_liquidationThreshold inp)) (\<lambda>c2.
     bind_revert (setLiquidationBonus c2 (in_liquidationBonus inp)) (\<lambda>c3.
     bind_revert (setRedeemDuration c3 (in_redeemDuration inp)) (\<lambda>c4.
     bind_revert (setAuctionDuration c4 (in_auctionDuration inp)) (\<lambda>c5.
     bind_revert (setRedeemFine c5 (in_redeemFine inp)) (\<lambda>c6.
     bind_revert (setRedeemThreshold c6 (in_redeemThreshold inp)) (\<lambda>c7.
     bind_revert (setMinBidFine c7 (in_minBidFine inp)) (\<lambda>c8.
     Inr (nfts(in_asset inp := \<lparr>configuration = c8, nft_maxSupply = in_maxSupply inp,
       nft_maxTokenId = in_maxTokenId inp, maxCollateralCap = in_maxCollateralCap inp\<rparr>))))))))))))"

fun executeBatchConfigNft ::
  "ConfigNftInput list \<Rightarrow> (string \<Rightarrow> nft_data) \<Rightarrow> string + (string \<Rightarrow> nft_data)" where
  "executeBatchConfigNft [] nfts = Inr nfts"
| "executeBatchConfigNft (inp # inputs) nfts =
     bind_revert (config_one_nft inp nfts) (\<lambda>nfts'. executeBatchConfigNft inputs nfts')"

definition acceptable :: "ConfigNftInput \<Rightarrow> bool" where
  "acceptable inp \<longleftrightarrow> in_baseLTV inp \<le> in_liquidationThreshold inp \<and>
     (if in_liquidationThreshold inp \<noteq> 0 then in_liquidationBonus inp \<le> 10000
      else in_liquidationBonus inp = 0) \<and>
     in_liquidationThreshold inp \<le> 65535 \<and> in_redeemDuration inp \<le> 255 \<and>
     in_auctionDuration inp \<le> 255 \<and> in_redeemFine inp \<le> 65535 \<and> in_redeemThreshold inp \<le> 65535 \<and>
     in_minBidFine inp \<le> 65535"

text \<open>What the stored data of an asset says, against the input it was configured with.\<close>

definition configured :: "ConfigNftInput \<Rightarrow> nft_data \<Rightarrow> bool" where
  "configured inp nd \<longleftrightarrow>
     getLtv (configuration nd) = in_baseLTV inp \<and>
     getLiquidationThreshold (configuration nd) = in_liquidationThreshold inp \<and>
     getLiquidationBonus (configuration nd) = in_liquidationBonus inp \<and>
     getRedeemDuration (configuration nd) = in_redeemDuration inp \<and>
     getAuctionDuration (configuration nd) = in_auctionDuration inp \<and>
     getRedeemFine (configuration nd) = in_redeemFine inp \<and>
     getRedeemThreshold (configuration nd) = in_redeemThreshold inp \<and>
     getMinBidFine (configuration nd) = in_minBidFine inp \<and>
     nft_maxSupply nd = in_maxSupply inp \<and> nft_maxTokenId nd = in_maxTokenId inp \<and>
     maxCollateralCap nd = in_maxCollateralCap inp"

definition same_flags :: "nft_data \<Rightarrow> nft_data \<Rightarrow> bool" where
  "same_flags nd nd' \<longleftrightarrow> getActive (configuration nd') = getActive (configuration nd) \<and>
     getFrozen (configuration nd') = getFrozen (configuration nd)"

lemma config_one_nft_accepts:
  assumes "acceptable inp"
  shows "\<exists>nd. config_one_nft inp nfts = Inr (nfts(in_asset inp := nd)) \<and> configured inp nd \<and>
    same_flags (nfts (in_asset inp)) nd"
proof -
  have small: "in_baseLTV inp \<le> 65535" "in_liquidationBonus inp \<le> 65535"
    using assms unfolding acceptable_def by (auto intro: order_trans split: if_splits)
  note ok = assms [unfolded acceptable_def] small
  let ?c8 = "put_field 112 16 (put_field 96 16 (put_field 80 16 (put_field 72 8 (put_field 64 8
    (put_field 32 16 (put_field 16 16 (put_field 0 16 (configuration (nfts (in_asset inp)))
    (in_baseLTV inp)) (in_liquidationThreshold inp)) (in_liquidationBonus inp)) (in_redeemDuration inp))
    (in_auctionDuration inp)) (in_redeemFine inp)) (in_redeemThreshold inp)) (in_minBidFine inp)"
  let ?nd = "\<lparr>configuration = ?c8, nft_maxSupply = in_maxSupply inp,
       nft_maxTokenId = in_maxTokenId inp, maxCollateralCap = in_maxCollateralCap inp\<rparr>"
  have "config_one_nft inp nfts = Inr (nfts(in_asset inp := ?nd))"
    using ok by (simp add: config_one_nft_def require_def PERCENTAGE_FACTOR_def setter_fields)
  moreover have "configured inp ?nd"
    using ok by (simp add: configured_def getter_fields field_put_same field_put_other)
  moreover have "same_flags (nfts (in_asset inp)) ?nd"
    using ok by (simp add: same_flags_def getter_fields field_put_other)
  ultimately show ?thesis by blast
qed

lemma executeBatchConfigNft_accepts:
  assumes "\<forall>inp \<in> set inputs. acceptable inp" and "distinct (map in_asset inputs)"
  shows "\<exists>nfts'. executeBatchConfigNft inputs nfts = Inr nfts' \<and>
    (\<forall>inp \<in> set inputs. configured inp (nfts' (in_asset inp)) \<and>
       same_flags (nfts (in_asset inp)) (nfts' (in_asset inp))) \<and>
    (\<forall>a. a \<notin> in_asset ` set inputs \<longrightarrow> nfts' a = nfts a)"
  using assms
proof (induction inputs arbitrary: nfts)
  case Nil
  then show ?case by simp
next
  case (Cons inp inputs)
  then obtain nd where one: "config_one_nft inp nfts = Inr (nfts(in_asset inp := nd))"
    "configured inp nd" "same_flags (nfts (in_asset inp)) nd"
    using config_one_nft_accepts [of inp nfts] by auto
  have "\<forall>i \<in> set inputs. acceptable i" "distinct (map in_asset inputs)" using Cons.prems by simp_all
  from Cons.IH [OF this, of "nfts(in_asset inp := nd)"]
  obtain nfts' where rest: "executeBatchConfigNft inputs (nfts(in_asset inp := nd)) = Inr nfts'"
    "\<forall>i \<in> set inputs. configured i (nfts' (in_asset i)) \<and>
       same_flags ((nfts(in_asset inp := nd)) (in_asset i)) (nfts' (in_asset i))"
    "\<forall>a. a \<notin> in_asset ` set inputs \<longrightarrow> nfts' a = (nfts(in_asset inp := nd)) a"
    by blast
  have fresh: "in_asset inp \<notin> in_asset ` set inputs" using Cons.prems(2) by auto
  with rest(3) have "nfts' (in_asset inp) = nd" by simp
  moreover have "in_asset i \<noteq> in_asset inp" if "i \<in> set inputs" for i
    using fresh that by (metis image_eqI)
  ultimately show ?case using one rest fresh by auto
qed

lemma config_one_nft_rejects:
  assumes "config_one_nft inp nfts = Inr nfts'"
  shows "acceptable inp"
proof (rule ccontr)
  assume "\<not> acceptable inp"
  with assms show False
    unfolding config_one_nft_def require_def PERCENTAGE_FACTOR_def acceptable_def setLtv_def
      setLiquidationThreshold_def setLiquidationBonus_def setRedeemDuration_def setAuctionDuration_def
      setRedeemFine_def setRedeemThreshold_def setMinBidFine_def
    by (auto split: if_splits)
qed

section \<open>The market's strategies\<close>

text \<open>The structure the strategies are sent as.\<close>

definition nft_input :: "string \<Rightarrow> nft_params \<Rightarrow> ConfigNftInput" where
  "nft_input asset p = \<lparr>in_asset = asset,
     in_baseLTV = of_nat (dec_value (baseLTVAsCollateral p)),
     in_liquidationThreshold = of_nat (dec_value (liquidationThreshold p)),
     in_liquidationBonus = of_nat (dec_value (liquidationBonus p)),
     in_redeemDuration = of_nat (dec_value (redeemDuration p)),
     in_auctionDuration = of_nat (dec_value (auctionDuration p)),
     in_redeemFine = of_nat (dec_value (redeemFine p)),
     in_redeemThreshold = of_nat (dec_value (redeemThreshold p)),
     in_minBidFine = of_nat (dec_value (minBidFine p)),
     in_maxSupply = of_nat (dec_value (maxSupply p)),
     in_maxTokenId = of_nat (dec_value (maxTokenId p)),
     in_maxCollateralCap = 100\<rparr>"

lemma bend_nfts_acceptable: "(s, p) \<in> set bend_NftsConfig \<Longrightarrow> acceptable (nft_input a p)"
proof -
  have chars: "of_char (CHR ''0'') = (48 :: nat)" "of_char (CHR ''2'') = (50 :: nat)"
    "of_char (CHR ''3'') = (51 :: nat)" "of_char (CHR ''4'') = (52 :: nat)"
    "of_char (CHR ''5'') = (53 :: nat)" "of_char (CHR ''9'') = (57 :: nat)"
    "of_char (CHR ''1'') = (49 :: nat)"
    by simp_all
  assume "(s, p) \<in> set bend_NftsConfig"
  then have "baseLTVAsCollateral p \<in> {''4000'', ''3000''} \<and> liquidationThreshold p = ''9000'' \<and>
      liquidationBonus p = ''10000'' \<and> redeemDuration p = ''4'' \<and> auctionDuration p = ''4'' \<and>
      redeemFine p = ''500'' \<and> redeemThreshold p = ''5000'' \<and> minBidFine p = ''2000''"
    unfolding bend_NftsConfig_def by (auto simp: nft_strategy_defs)
  then show ?thesis
    by (auto simp: acceptable_def nft_input_def dec_value_def chars)
qed

text \<open>C14: One round of \<^verbatim>\<open>executeBatchConfigNft\<close> accepts an input exactly when the
  loan-to-value is at most the liquidation threshold, the bonus at most 100.00% (and zero for a
  threshold of zero) and every field fits its bits; then every getter reads back the value that
  was set, the active and frozen flags are as before, and no other asset changed.\<close>

theorem nft_config_roundtrip:
  "(\<exists>nfts'. config_one_nft inp nfts = Inr nfts') = acceptable inp \<and>
   (\<forall>nfts'. config_one_nft inp nfts = Inr nfts' \<longrightarrow>
      configured inp (nfts' (in_asset inp)) \<and> same_flags (nfts (in_asset inp)) (nfts' (in_asset inp)) \<and>
      (\<forall>a. a \<noteq> in_asset inp \<longrightarrow> nfts' a = nfts a))"
  using config_one_nft_accepts [of inp nfts] config_one_nft_rejects [of inp nfts] by fastforce

definition sample_nfts :: "string \<Rightarrow> nft_data" where
  "sample_nfts = (\<lambda>a. \<lparr>configuration = setActive 0 True, nft_maxSupply = 0, nft_maxTokenId = 0,
     maxCollateralCap = 0\<rparr>)"

theorem nft_config_roundtrip_witness:
  "\<exists>nfts'. config_one_nft (nft_input ''0xA'' strategyNft_BAYC) sample_nfts = Inr nfts' \<and>
     getLtv (configuration (nfts' ''0xA'')) = in_baseLTV (nft_input ''0xA'' strategyNft_BAYC)"
proof -
  have "(''BAYC'', strategyNft_BAYC) \<in> set bend_NftsConfig" by (simp add: bend_NftsConfig_def)
  then have "acceptable (nft_input ''0xA'' strategyNft_BAYC)" by (rule bend_nfts_acceptable)
  then show ?thesis
    using nft_config_roundtrip [of "nft_input ''0xA'' strategyNft_BAYC" sample_nfts]
    by (auto simp: configured_def) (auto simp: nft_input_def)
qed

text \<open>C19: Every NFT strategy of the Bend market is accepted by the contract: sent in one batch
  for distinct assets, the configurations are all stored, each asset's getters answer the numbers
  the market's file spells, and the active and frozen flags are untouched.\<close>

theorem bend_nfts_accepted:
  assumes "inj_on addr (set (obj_keys bend_NftsConfig))"
  shows "\<exists>nfts'. executeBatchConfigNft (map (\<lambda>(s, p). nft_input (addr s) p) bend_NftsConfig) nfts = Inr nfts' \<and>
    (\<forall>(s, p) \<in> set bend_NftsConfig. configured (nft_input (addr s) p) (nfts' (addr s)) \<and>
       same_flags (nfts (addr s)) (nfts' (addr s)))"
proof -
  let ?inputs = "map (\<lambda>(s, p). nft_input (addr s) p) bend_NftsConfig"
  have asset: "in_asset (nft_input a p) = a" for a p by (simp add: nft_input_def)
  have "map in_asset ?inputs = map addr (obj_keys bend_NftsConfig)"
    by (simp add: asset case_prod_beta)
  moreover have "distinct (map addr (obj_keys bend_NftsConfig))"
    using distinct_map assms distinct_bend_symbols(2) by metis
  ultimately have "distinct (map in_asset ?inputs)" by (simp only:)
  moreover have "\<forall>inp \<in> set ?inputs. acceptable inp"
    using bend_nfts_acceptable by auto
  ultimately obtain nfts' where run: "executeBatchConfigNft ?inputs nfts = Inr nfts'"
    and all: "\<forall>inp \<in> set ?inputs. configured inp (nfts' (in_asset inp)) \<and>
       same_flags (nfts (in_asset inp)) (nfts' (in_asset inp))"
    using executeBatchConfigNft_accepts by blast
  have "configured (nft_input (addr s) p) (nfts' (addr s)) \<and> same_flags (nfts (addr s)) (nfts' (addr s))"
    if "(s, p) \<in> set bend_NftsConfig" for s p
    using all that asset [of "addr s" p] by force
  with run show ?thesis by blast
qed

theorem bend_nfts_accepted_witness:
  "\<exists>nfts'. executeBatchConfigNft (map (\<lambda>(s, p). nft_input (''0x'' @ s) p) bend_NftsConfig) sample_nfts
     = Inr nfts'"
  using bend_nfts_accepted [of "\<lambda>s. ''0x'' @ s" sample_nfts] by (auto simp: inj_on_def)

end
