(* ===== verification/JsNumber.thy ===== *)
theory JsNumber
  imports Complex_Main Prelude
begin

text \<open>
  The numbers of JavaScript, as far as the web client uses them: doubles (\<^verbatim>\<open>Number\<close> of a
  string, multiplication, \<^verbatim>\<open>Math.round\<close>), big integers (\<^verbatim>\<open>BigInt\<close>), and their
  hexadecimal printing and reading.  A finite double is a rational number; every operation
  rounds its exact result to the nearest double, ties to the even one, as IEEE 754 and the
  language prescribe.  The sign of zero is not kept: the client only turns doubles into big
  integers, where it disappears.
\<close>

section \<open>Doubles\<close>

datatype js_num = Fin rat | PosInf | NegInf | NaN

fun nat_log2 :: "nat \<Rightarrow> nat" where
  "nat_log2 n = (if n < 2 then 0 else Suc (nat_log2 (n div 2)))"

declare nat_log2.simps [simp del]

lemma nat_log2_bounds: "0 < n \<Longrightarrow> 2 ^ nat_log2 n \<le> n \<and> n < 2 ^ Suc (nat_log2 n)"
proof (induction n rule: nat_log2.induct)
  case (1 n)
  show ?case
  proof (cases "n < 2")
    case True
    with 1 show ?thesis by (simp add: nat_log2.simps)
  next
    case False
    with 1 have "2 ^ nat_log2 (n div 2) \<le> n div 2" "n div 2 < 2 ^ Suc (nat_log2 (n div 2))" by auto
    moreover have "nat_log2 n = Suc (nat_log2 (n div 2))" using False by (simp add: nat_log2.simps [of n])
    moreover have "m \<le> n div 2 \<Longrightarrow> n div 2 < 2 * m \<Longrightarrow> 2 * m \<le> n \<and> n < 2 * (2 * m)" for m
      by presburger
    ultimately show ?thesis by (simp del: mult_2)
  qed
qed

text \<open>The exponent of the greatest power of two below a positive number.\<close>

definition ilog2 :: "rat \<Rightarrow> int" where
  "ilog2 q = (case quotient_of q of (a, b) \<Rightarrow>
     let k = int (nat_log2 (nat a)) - int (nat_log2 (nat b)) in if 2 powi k \<le> q then k else k - 1)"

lemma ilog2_bounds:
  assumes "0 < q"
  shows "2 powi (ilog2 q) \<le> q \<and> q < 2 powi (ilog2 q + 1)"
proof -
  obtain a b where ab: "quotient_of q = (a, b)" by (cases "quotient_of q")
  then have q: "q = of_int a / of_int b" and b: "0 < b"
    by (simp_all add: quotient_of_div quotient_of_denom_pos)
  with assms have a: "0 < a" by (simp add: zero_less_divide_iff)
  define la lb where "la = nat_log2 (nat a)" and "lb = nat_log2 (nat b)"
  define k where "k = int la - int lb"
  have A: "(2::rat) ^ la \<le> of_int a" "(of_int a :: rat) < 2 ^ Suc la"
    using nat_log2_bounds [of "nat a"] a unfolding la_def
    by (smt (verit) of_nat_numeral of_int_of_nat_eq int_nat_eq of_nat_le_iff of_nat_less_iff of_nat_power zero_less_nat_eq)+
  have B: "(2::rat) ^ lb \<le> of_int b" "(of_int b :: rat) < 2 ^ Suc lb"
    using nat_log2_bounds [of "nat b"] b unfolding lb_def
    by (smt (verit) of_nat_numeral of_int_of_nat_eq int_nat_eq of_nat_le_iff of_nat_less_iff of_nat_power zero_less_nat_eq)+
  have pk: "(2::rat) powi k = 2 ^ la / 2 ^ lb"
    by (simp add: k_def power_int_diff)
  have "q < 2 powi (k + 1)"
  proof -
    have "q < 2 ^ Suc la / 2 ^ lb"
      unfolding q using A B a b by (intro frac_less) auto
    then show ?thesis by (simp add: pk power_int_add mult.commute)
  qed
  moreover have "2 powi (k - 1) \<le> q"
  proof -
    have "2 ^ la / 2 ^ Suc lb \<le> q"
      unfolding q using A B a b by (intro frac_le) auto
    then show ?thesis by (simp add: pk power_int_diff)
  qed
  moreover have "ilog2 q = (if 2 powi k \<le> q then k else k - 1)"
    by (simp add: ilog2_def ab k_def la_def lb_def)
  ultimately show ?thesis by (auto simp: not_le)
qed

text \<open>The nearest integer, the even one of two.\<close>

definition round_even :: "rat \<Rightarrow> int" where
  "round_even x = (let f = \<lfloor>x\<rfloor>; d = x - of_int f in
     if d < 1 / 2 \<or> d = 1 / 2 \<and> even f then f else f + 1)"

lemma round_even_error: "\<bar>of_int (round_even x) - x\<bar> \<le> 1 / 2"
proof -
  have "of_int \<lfloor>x\<rfloor> \<le> x" "x < of_int \<lfloor>x\<rfloor> + 1" by linarith+
  then show ?thesis by (auto simp: round_even_def Let_def abs_le_iff)
qed

definition double_of :: "rat \<Rightarrow> js_num" where
  "double_of q = (if q = 0 then Fin 0 else
     let e = max (ilog2 \<bar>q\<bar> - 52) (- 1074);
         r = of_int (round_even (\<bar>q\<bar> / 2 powi e)) * 2 powi e in
     if r \<ge> 2 ^ 1024 then (if q > 0 then PosInf else NegInf) else Fin (sgn q * r))"

text \<open>The relative error of rounding is at most \<open>2 ^ - 53\<close>, outside the subnormal numbers.\<close>

lemma double_of_error:
  assumes "2 powi (- 1000) \<le> q" and "q < 2 ^ 1000"
  shows "\<exists>r. double_of q = Fin r \<and> \<bar>r - q\<bar> \<le> q / 2 ^ 53"
proof -
  have pos: "0 < q" using assms(1) by (meson less_le_trans zero_less_numeral zero_less_power_int)
  define l where "l = ilog2 q"
  define e where "e = l - 52"
  define r where "r = of_int (round_even (q / 2 powi e)) * (2 :: rat) powi e"
  from ilog2_bounds [OF pos] have l: "2 powi l \<le> q" "q < 2 powi (l + 1)" by (simp_all add: l_def)
  have "- 1001 < l"
  proof (rule ccontr)
    assume "\<not> - 1001 < l"
    then have "(2 :: rat) powi (l + 1) \<le> 2 powi (- 1000)" by (intro power_int_increasing) auto
    with l assms(1) show False by simp
  qed
  then have e: "max (ilog2 \<bar>q\<bar> - 52) (- 1074) = e" using pos by (simp add: e_def l_def)
  have pe: "0 < (2 :: rat) powi e" by simp
  have err: "\<bar>r - q\<bar> \<le> 2 powi e / 2"
  proof -
    have "r - q = (of_int (round_even (q / 2 powi e)) - q / 2 powi e) * 2 powi e"
      by (simp add: r_def algebra_simps)
    then have "\<bar>r - q\<bar> = \<bar>of_int (round_even (q / 2 powi e)) - q / 2 powi e\<bar> * 2 powi e"
      using pe by (simp add: abs_mult)
    with round_even_error [of "q / 2 powi e"] pe show ?thesis
      by (metis mult_right_mono less_imp_le mult.commute divide_inverse inverse_eq_divide)
  qed
  have "2 powi e = (2 :: rat) powi l / 2 ^ 52" by (simp add: e_def power_int_diff)
  with l have "2 powi e / 2 \<le> q / 2 ^ 53" by simp
  with err have err2: "\<bar>r - q\<bar> \<le> q / 2 ^ 53" by linarith
  then have "r \<le> q + q / 2 ^ 53" by linarith
  also have "\<dots> < 2 ^ 1024" using assms(2) pos by simp
  finally have "r < 2 ^ 1024" .
  then have "double_of q = Fin r"
    using pos e by (simp add: double_of_def Let_def r_def)
  with err2 show ?thesis by blast
qed

fun num_times :: "js_num \<Rightarrow> js_num \<Rightarrow> js_num" where
  "num_times (Fin a) (Fin b) = double_of (a * b)"
| "num_times NaN y = NaN"
| "num_times x NaN = NaN"
| "num_times (Fin a) PosInf = (if a = 0 then NaN else if a > 0 then PosInf else NegInf)"
| "num_times (Fin a) NegInf = (if a = 0 then NaN else if a > 0 then NegInf else PosInf)"
| "num_times PosInf (Fin b) = (if b = 0 then NaN else if b > 0 then PosInf else NegInf)"
| "num_times NegInf (Fin b) = (if b = 0 then NaN else if b > 0 then NegInf else PosInf)"
| "num_times PosInf PosInf = PosInf"
| "num_times PosInf NegInf = NegInf"
| "num_times NegInf PosInf = NegInf"
| "num_times NegInf NegInf = PosInf"

fun num_plus :: "js_num \<Rightarrow> js_num \<Rightarrow> js_num" where
  "num_plus (Fin a) (Fin b) = double_of (a + b)"
| "num_plus (Fin a) y = y"
| "num_plus x (Fin b) = x"
| "num_plus x y = (if x = y then x else NaN)"

text \<open>Division; the client divides by constants and by numbers it has compared with zero.\<close>

fun num_div :: "js_num \<Rightarrow> js_num \<Rightarrow> js_num" where
  "num_div (Fin a) (Fin b) =
     (if b = 0 then (if a = 0 then NaN else if a > 0 then PosInf else NegInf) else double_of (a / b))"
| "num_div NaN y = NaN"
| "num_div x NaN = NaN"
| "num_div (Fin a) y = Fin 0"
| "num_div PosInf (Fin b) = (if b \<ge> 0 then PosInf else NegInf)"
| "num_div NegInf (Fin b) = (if b \<ge> 0 then NegInf else PosInf)"
| "num_div x y = NaN"

text \<open>\<^verbatim>\<open>x < y\<close>, false of a \<^verbatim>\<open>NaN\<close>.\<close>

fun num_less :: "js_num \<Rightarrow> js_num \<Rightarrow> bool" where
  "num_less (Fin a) (Fin b) = (a < b)"
| "num_less NaN y = False"
| "num_less x NaN = False"
| "num_less NegInf y = (y \<noteq> NegInf)"
| "num_less x NegInf = False"
| "num_less PosInf y = False"
| "num_less x PosInf = True"

text \<open>\<^verbatim>\<open>Math.round\<close>: the nearest integer, the greater one of two.\<close>

fun math_round :: "js_num \<Rightarrow> js_num" where
  "math_round (Fin q) = Fin (of_int \<lfloor>q + 1 / 2\<rfloor>)"
| "math_round x = x"

section \<open>Reading numbers\<close>

text \<open>\<^verbatim>\<open>trim\<close> on the ASCII range.\<close>

definition is_space :: "char \<Rightarrow> bool" where
  "is_space c = (let n = of_char c :: nat in n = 32 \<or> 9 \<le> n \<and> n \<le> 13)"

definition js_trim :: "string \<Rightarrow> string" where
  "js_trim s = rev (dropWhile is_space (rev (dropWhile is_space s)))"

text \<open>The exponent part of a decimal literal, with nothing left after it.\<close>

definition parse_exponent :: "string \<Rightarrow> int option" where
  "parse_exponent s = (case s of
     [] \<Rightarrow> Some 0
   | c # r \<Rightarrow> if c \<noteq> CHR ''e'' \<and> c \<noteq> CHR ''E'' then None else
       (let ds = (if r \<noteq> [] \<and> (hd r = CHR ''+'' \<or> hd r = CHR ''-'') then tl r else r) in
        if ds = [] \<or> \<not> list_all is_digit ds then None
        else Some ((if hd r = CHR ''-'' then - 1 else 1) * int (dec_value ds))))"

definition parse_decimal :: "string \<Rightarrow> rat option" where
  "parse_decimal s =
     (let ip = takeWhile is_digit s; r1 = dropWhile is_digit s;
          fp = (if r1 \<noteq> [] \<and> hd r1 = CHR ''.'' then takeWhile is_digit (tl r1) else []);
          r2 = (if r1 \<noteq> [] \<and> hd r1 = CHR ''.'' then dropWhile is_digit (tl r1) else r1) in
      if ip = [] \<and> fp = [] then None
      else case parse_exponent r2 of
          None \<Rightarrow> None
        | Some e \<Rightarrow> Some (of_nat (dec_value (ip @ fp)) * 10 powi (e - int (length fp))))"

definition hex_digit_value :: "char \<Rightarrow> nat" where
  "hex_digit_value c = (let n = of_char c in
     if 48 \<le> n \<and> n \<le> 57 then n - 48 else if 65 \<le> n \<and> n \<le> 70 then n - 55
     else if 97 \<le> n \<and> n \<le> 102 then n - 87 else 16)"

definition is_hex :: "char \<Rightarrow> bool" where
  "is_hex c = (hex_digit_value c < 16)"

text \<open>The number a string of digits below a radix stands for.\<close>

definition radix_value :: "nat \<Rightarrow> string \<Rightarrow> nat" where
  "radix_value b s = fold (\<lambda>c n. b * n + hex_digit_value c) s 0"

definition parse_radix :: "string \<Rightarrow> nat option" where
  "parse_radix s = (case s of
     z # c # ds \<Rightarrow>
       (let b = (if c = CHR ''x'' \<or> c = CHR ''X'' then 16
                 else if c = CHR ''o'' \<or> c = CHR ''O'' then 8
                 else if c = CHR ''b'' \<or> c = CHR ''B'' then 2 else 0) in
        if z \<noteq> CHR ''0'' \<or> b = 0 \<or> ds = [] \<or> \<not> list_all (\<lambda>d. hex_digit_value d < b) ds then None
        else Some (radix_value b ds))
   | _ \<Rightarrow> None)"

definition num_neg :: "js_num \<Rightarrow> js_num" where
  "num_neg x = (case x of Fin q \<Rightarrow> Fin (- q) | PosInf \<Rightarrow> NegInf | NegInf \<Rightarrow> PosInf | NaN \<Rightarrow> NaN)"

definition parse_unsigned :: "string \<Rightarrow> js_num" where
  "parse_unsigned s = (if s = ''Infinity'' then PosInf else
     case parse_decimal s of None \<Rightarrow> NaN | Some q \<Rightarrow> double_of q)"

text \<open>\<^verbatim>\<open>Number(s)\<close> of a string.\<close>

definition js_number :: "string \<Rightarrow> js_num" where
  "js_number s = (let t = js_trim s in
     if t = [] then Fin 0
     else case parse_radix t of
         Some n \<Rightarrow> double_of (of_nat n)
       | None \<Rightarrow> if hd t = CHR ''+'' then parse_unsigned (tl t)
           else if hd t = CHR ''-'' then num_neg (parse_unsigned (tl t))
           else parse_unsigned t)"

text \<open>\<^verbatim>\<open>BigInt(n)\<close> of a number: a \<^verbatim>\<open>RangeError\<close> unless it is an integer.\<close>

definition big_of_num :: "js_num \<Rightarrow> int option" where
  "big_of_num x = (case x of Fin q \<Rightarrow> if of_int \<lfloor>q\<rfloor> = q then Some \<lfloor>q\<rfloor> else None | _ \<Rightarrow> None)"

text \<open>\<^verbatim>\<open>BigInt(s)\<close> of a string: a \<^verbatim>\<open>SyntaxError\<close> unless it is an integer literal.\<close>

definition big_of_text :: "string \<Rightarrow> int option" where
  "big_of_text s = (let t = js_trim s in
     if t = [] then Some 0
     else case parse_radix t of
         Some n \<Rightarrow> Some (int n)
       | None \<Rightarrow>
           (let ds = (if hd t = CHR ''+'' \<or> hd t = CHR ''-'' then tl t else t) in
            if ds = [] \<or> \<not> list_all is_digit ds then None
            else Some ((if hd t = CHR ''-'' then - 1 else 1) * int (dec_value ds))))"

section \<open>Hexadecimal\<close>

definition hex_char :: "nat \<Rightarrow> char" where
  "hex_char d = (if d mod 16 < 10 then char_of (48 + d mod 16) else char_of (87 + d mod 16))"

fun hex :: "nat \<Rightarrow> string" where
  "hex n = (if n < 16 then [hex_char n] else hex (n div 16) @ [hex_char n])"

declare hex.simps [simp del]

text \<open>\<^verbatim>\<open>toString(16)\<close> of a big integer.\<close>

definition big_hex :: "int \<Rightarrow> string" where
  "big_hex n = (if n < 0 then ''-'' @ hex (nat (- n)) else hex (nat n))"

text \<open>\<^verbatim>\<open>padStart(n, c)\<close>.\<close>

definition pad_start :: "nat \<Rightarrow> char \<Rightarrow> string \<Rightarrow> string" where
  "pad_start n c s = replicate (n - length s) c @ s"

text \<open>\<^verbatim>\<open>s.slice(a, b)\<close> for \<open>0 \<le> a\<close>, and \<^verbatim>\<open>s.slice(-n)\<close>.\<close>

definition js_slice :: "nat \<Rightarrow> nat \<Rightarrow> string \<Rightarrow> string" where
  "js_slice a b s = take (b - a) (drop a s)"

definition js_slice_last :: "nat \<Rightarrow> string \<Rightarrow> string" where
  "js_slice_last n s = drop (length s - n) s"

lemma hex_digit_value_hex_char [simp]: "hex_digit_value (hex_char d) = d mod 16"
proof -
  have "d mod 16 < 16" by simp
  then show ?thesis
    by (auto simp: hex_digit_value_def hex_char_def of_char_of [where 'a = nat] Let_def)
qed

lemma is_hex_hex_char [simp]: "is_hex (hex_char d)"
  by (simp add: is_hex_def)

lemma radix_value_append: "radix_value b (s @ [c]) = b * radix_value b s + hex_digit_value c"
  by (simp add: radix_value_def)

lemma radix_value_hex [simp]: "radix_value 16 (hex n) = n"
proof (induction n rule: hex.induct)
  case (1 n)
  then show ?case
    by (subst hex.simps) (auto simp: radix_value_append, auto simp: radix_value_def)
qed

lemma hex_is_hex [simp]: "list_all is_hex (hex n)"
proof (induction n rule: hex.induct)
  case (1 n)
  then show ?case by (subst hex.simps) auto
qed

lemma hex_nonempty [simp]: "hex n \<noteq> []"
  by (subst hex.simps) simp

text \<open>A number needs as many digits as powers of 16 it reaches.\<close>

lemma length_hex_le: "0 < k \<Longrightarrow> length (hex n) \<le> k \<longleftrightarrow> n < 16 ^ k"
proof (induction k arbitrary: n)
  case 0
  then show ?case by simp
next
  case (Suc k)
  show ?case
  proof (cases "n < 16")
    case True
    then have "n < 16 ^ Suc k" by (auto intro: less_le_trans)
    with True show ?thesis by (subst hex.simps) simp
  next
    case False
    then have "length (hex n) \<le> Suc k \<longleftrightarrow> length (hex (n div 16)) \<le> k"
      by (subst hex.simps) simp
    also have "\<dots> \<longleftrightarrow> n < 16 ^ Suc k"
    proof (cases "k = 0")
      case True
      with False show ?thesis by simp
    next
      case k: False
      then have "length (hex (n div 16)) \<le> k \<longleftrightarrow> n div 16 < 16 ^ k" using Suc.IH by simp
      also have "\<dots> \<longleftrightarrow> n < 16 ^ Suc k" by (simp add: div_less_iff_less_mult mult.commute)
      finally show ?thesis .
    qed
    finally show ?thesis .
  qed
qed

lemma length_pad_start [simp]: "length (pad_start n c s) = max n (length s)"
  by (auto simp: pad_start_def)

lemma radix_value_zeros: "radix_value b (replicate k (CHR ''0'') @ s) = radix_value b s"
proof -
  have "fold (\<lambda>c n. b * n + hex_digit_value c) (replicate k (CHR ''0'')) 0 = 0"
    by (induction k) (simp_all add: hex_digit_value_def)
  then show ?thesis by (simp add: radix_value_def)
qed

lemma radix_value_pad [simp]: "radix_value b (pad_start k (CHR ''0'') s) = radix_value b s"
  by (simp add: pad_start_def radix_value_zeros)

lemma is_hex_zero: "is_hex (CHR ''0'')"
  by (simp add: is_hex_def hex_digit_value_def)

lemma pad_start_is_hex [simp]: "list_all is_hex s \<Longrightarrow> list_all is_hex (pad_start k (CHR ''0'') s)"
  by (auto simp: pad_start_def list_all_iff is_hex_zero)

section \<open>Amounts with six decimals\<close>

text \<open>
  The client multiplies an amount by a million and rounds.  Both the reading of the amount and the
  product are rounded to doubles, but below \<open>2 ^ 50\<close> units the two errors together stay below a
  half, so the units come out exactly.
\<close>

definition million :: js_num where
  "million = Fin 1000000"

definition scaled_units :: "js_num \<Rightarrow> int option" where
  "scaled_units x = big_of_num (math_round (num_times x million))"

lemma double_of_zero [simp]: "double_of 0 = Fin 0"
  by (simp add: double_of_def)

lemma small_power: "(2 :: rat) powi (- 1000) \<le> 1 / 2 ^ 50"
proof -
  have "(2 :: rat) powi (- 1000) \<le> 2 powi (- 50)" by (rule power_int_increasing) auto
  also have "\<dots> = 1 / 2 ^ 50" by (simp add: power_int_def power_one_over)
  finally show ?thesis .
qed

lemma scaled_units_exact:
  assumes "k < 2 ^ 50"
  shows "scaled_units (double_of (of_nat k / 1000000)) = Some (int k)"
proof (cases "k = 0")
  case True
  have "\<lfloor>1 / 2 :: rat\<rfloor> = 0" by (simp add: floor_eq_iff)
  with True show ?thesis by (simp add: scaled_units_def million_def big_of_num_def)
next
  case False
  let ?k = "of_nat k :: rat"
  have k: "1 \<le> ?k" "?k < 2 ^ 50"
    using False assms by (simp_all add: Suc_le_eq of_nat_less_numeral_power_cancel_iff)
  have "(2 :: rat) powi (- 1000) \<le> ?k / 1000000" using small_power k by simp
  moreover have "?k / 1000000 < 2 ^ 1000" using k by simp
  ultimately obtain r where r: "double_of (?k / 1000000) = Fin r" "\<bar>r - ?k / 1000000\<bar> \<le> ?k / 1000000 / 2 ^ 53"
    using double_of_error by blast
  define p where "p = r * 1000000"
  have p: "\<bar>p - ?k\<bar> \<le> ?k / 2 ^ 53"
  proof -
    have "p - ?k = (r - ?k / 1000000) * 1000000" by (simp add: p_def algebra_simps)
    then have "\<bar>p - ?k\<bar> = \<bar>r - ?k / 1000000\<bar> * 1000000" by (simp only: abs_mult abs_numeral)
    also have "\<dots> \<le> (?k / 1000000 / 2 ^ 53) * 1000000" by (rule mult_right_mono [OF r(2)]) simp
    finally show ?thesis by simp
  qed
  have "?k / 2 ^ 53 \<le> 1 / 8" using k by simp
  with p have near: "\<bar>p - ?k\<bar> \<le> 1 / 8" by linarith
  have "1 / 2 \<le> p" using near k(1) by linarith
  moreover have "p < 2 ^ 51"
  proof -
    have "p \<le> ?k + 1 / 8" using near by linarith
    also have "\<dots> < 2 ^ 50 + 2 ^ 50" using k(2) by (intro add_strict_mono) simp_all
    finally show ?thesis by simp
  qed
  ultimately have pb: "1 / 2 \<le> p" "p < 2 ^ 51" by simp_all
  have "(2 :: rat) powi (- 1000) \<le> p" using small_power pb by simp
  moreover have "p < 2 ^ 1000" using pb by simp
  ultimately obtain t where t: "double_of p = Fin t" "\<bar>t - p\<bar> \<le> p / 2 ^ 53"
    using double_of_error by blast
  have "p / 2 ^ 53 < 1 / 4" using pb by simp
  with t(2) p \<open>?k / 2 ^ 53 \<le> 1 / 8\<close> have "\<bar>t - ?k\<bar> < 1 / 2" by linarith
  then have "?k \<le> t + 1 / 2" "t + 1 / 2 < ?k + 1" by linarith+
  then have "\<lfloor>t + 1 / 2\<rfloor> = int k" by (simp add: floor_eq_iff)
  then show ?thesis using r t by (simp add: scaled_units_def million_def p_def big_of_num_def)
qed

text \<open>An amount written with six decimals is read as the double nearest to it.\<close>

definition amount_text :: "nat \<Rightarrow> string" where
  "amount_text k = dec (k div 1000000) @ ''.'' @ pad_start 6 (CHR ''0'') (dec (k mod 1000000))"

lemma dec_value_append:
  "list_all is_digit t \<Longrightarrow> dec_value (s @ t) = dec_value s * 10 ^ length t + dec_value t"
proof (induction t rule: rev_induct)
  case Nil
  then show ?case by (simp add: dec_value_def)
next
  case (snoc c t)
  then have "dec_value (s @ t) = dec_value s * 10 ^ length t + dec_value t" by simp
  moreover have "dec_value (u @ [c]) = 10 * dec_value u + (of_char c - 48)" for u
    by (simp add: dec_value_def)
  ultimately have "dec_value (s @ t @ [c]) = 10 * (dec_value s * 10 ^ length t + dec_value t) + (of_char c - 48)"
    by (simp flip: append_assoc)
  moreover have "dec_value (t @ [c]) = 10 * dec_value t + (of_char c - 48)"
    by (simp add: dec_value_def)
  ultimately show ?case by (simp add: algebra_simps)
qed

lemma dec_value_zeros: "dec_value (replicate n (CHR ''0'') @ s) = dec_value s"
proof -
  have "fold (\<lambda>c n. 10 * n + (of_char c - 48)) (replicate n (CHR ''0'')) (0 :: nat) = 0"
    by (induction n) simp_all
  then show ?thesis by (simp add: dec_value_def)
qed

lemma digit_zero: "is_digit (CHR ''0'')" "\<not> is_digit (CHR ''.'')"
  by (simp_all add: is_digit_def)

lemma length_dec_le: "0 < k \<Longrightarrow> n < 10 ^ k \<Longrightarrow> length (dec n) \<le> k"
proof (induction k arbitrary: n)
  case 0
  then show ?case by simp
next
  case (Suc k)
  show ?case
  proof (cases "n < 10")
    case True
    then show ?thesis by (subst dec.simps) simp
  next
    case False
    with Suc.prems have "k \<noteq> 0" by (cases k) auto
    moreover from Suc.prems have "n div 10 < 10 ^ k" by (simp add: div_less_iff_less_mult mult.commute)
    ultimately have "length (dec (n div 10)) \<le> k" by (intro Suc.IH) auto
    with False show ?thesis by (subst dec.simps) simp
  qed
qed

lemma dec_value_millions:
  assumes "b < 1000000"
  shows "list_all is_digit (pad_start 6 (CHR ''0'') (dec b))" "length (pad_start 6 (CHR ''0'') (dec b)) = 6"
    "dec_value (dec a @ pad_start 6 (CHR ''0'') (dec b)) = a * 1000000 + b"
proof -
  show digits: "list_all is_digit (pad_start 6 (CHR ''0'') (dec b))"
    using dec_digits [of b] by (auto simp: pad_start_def list_all_iff digit_zero)
  have "length (dec b) \<le> 6" using assms by (intro length_dec_le) simp_all
  then show six: "length (pad_start 6 (CHR ''0'') (dec b)) = 6" by simp
  show "dec_value (dec a @ pad_start 6 (CHR ''0'') (dec b)) = a * 1000000 + b"
    unfolding dec_value_append [OF digits] six by (simp add: pad_start_def dec_value_zeros)
qed

lemma digit_not_special:
  "is_digit c \<Longrightarrow> \<not> is_space c" "is_digit c \<Longrightarrow> c \<noteq> CHR ''+''" "is_digit c \<Longrightarrow> c \<noteq> CHR ''-''"
  "is_digit c \<Longrightarrow> c \<notin> {CHR ''x'', CHR ''X'', CHR ''o'', CHR ''O'', CHR ''b'', CHR ''B'', CHR ''I''}"
proof -
  show "is_digit c \<Longrightarrow> \<not> is_space c" by (auto simp: is_digit_def is_space_def Let_def)
  show "is_digit c \<Longrightarrow> c \<noteq> CHR ''+''" "is_digit c \<Longrightarrow> c \<noteq> CHR ''-''"
    by (intro notI, simp add: is_digit_def)+
  show "is_digit c \<Longrightarrow> c \<notin> {CHR ''x'', CHR ''X'', CHR ''o'', CHR ''O'', CHR ''b'', CHR ''B'', CHR ''I''}"
    by (intro notI, elim insertE emptyE, simp_all add: is_digit_def)
qed

lemma js_trim_id:
  assumes "s \<noteq> []" and "\<not> is_space (hd s)" and "\<not> is_space (last s)"
  shows "js_trim s = s"
proof -
  have "dropWhile is_space s = s" using assms by (cases s) simp_all
  moreover have "dropWhile is_space (rev s) = rev s" using assms by (cases s rule: rev_cases) simp_all
  ultimately show ?thesis by (simp add: js_trim_def)
qed

text \<open>What a string of digits, or of digits around a point, reads as.\<close>

lemma parse_radix_decimal:
  assumes "\<forall>c \<in> set s. is_digit c \<or> c = CHR ''.''"
  shows "parse_radix s = None"
proof -
  have "c \<noteq> CHR ''x'' \<and> c \<noteq> CHR ''X'' \<and> c \<noteq> CHR ''o'' \<and> c \<noteq> CHR ''O'' \<and> c \<noteq> CHR ''b'' \<and> c \<noteq> CHR ''B''"
    if "c \<in> set s" for c using assms that digit_not_special(4) [of c] by auto
  then show ?thesis by (auto simp: parse_radix_def Let_def split: list.splits)
qed

lemma parse_decimal_point:
  assumes "list_all is_digit a" and "list_all is_digit b" and "a \<noteq> []"
  shows "parse_decimal (a @ ''.'' @ b) = Some (of_nat (dec_value (a @ b)) * 10 powi (- int (length b)))"
proof -
  have "takeWhile is_digit (a @ CHR ''.'' # b) = a" "dropWhile is_digit (a @ CHR ''.'' # b) = CHR ''.'' # b"
    using assms(1) by (simp_all add: takeWhile_append dropWhile_append list_all_iff digit_zero)
  moreover have "takeWhile is_digit b = b" "dropWhile is_digit b = []"
    using assms(2) by (simp_all add: takeWhile_eq_all_conv dropWhile_eq_Nil_conv list_all_iff)
  ultimately show ?thesis using assms(3) by (simp add: parse_decimal_def parse_exponent_def
      del: takeWhile_eq_all_conv dropWhile_eq_Nil_conv)
qed

lemma js_number_amount_text: "js_number (amount_text k) = double_of (of_nat k / 1000000)"
proof -
  define a b where "a = dec (k div 1000000)" and "b = pad_start 6 (CHR ''0'') (dec (k mod 1000000))"
  have "k mod 1000000 < 1000000" by simp
  note m = dec_value_millions [OF this]
  have a: "list_all is_digit a" "a \<noteq> []" and b: "list_all is_digit b" "length b = 6"
    using m by (simp_all add: a_def b_def)
  then have "b \<noteq> []" by auto
  have eq: "amount_text k = a @ ''.'' @ b" by (simp add: amount_text_def a_def b_def)
  have first: "is_digit (hd (a @ ''.'' @ b))" and last: "is_digit (last (a @ ''.'' @ b))"
    using a b \<open>b \<noteq> []\<close> by (auto simp: list_all_iff)
  then have "js_trim (amount_text k) = amount_text k"
    unfolding eq by (intro js_trim_id digit_not_special) auto
  moreover have "parse_radix (amount_text k) = None"
    unfolding eq using a b by (intro parse_radix_decimal) (auto simp: list_all_iff)
  moreover have "amount_text k \<noteq> []" "hd (amount_text k) \<noteq> CHR ''+''" "hd (amount_text k) \<noteq> CHR ''-''"
    using first digit_not_special unfolding eq by auto
  moreover have "amount_text k \<noteq> ''Infinity''"
    using first unfolding eq by (auto simp: is_digit_def)
  moreover have "parse_decimal (amount_text k) = Some (of_nat k / 1000000)"
  proof -
    have "dec_value (a @ b) = k" using m(3) [of "k div 1000000"] by (simp add: a_def b_def)
    moreover have "(10 :: rat) powi (- 6) = 1 / 1000000" by (simp add: power_int_def power_one_over)
    ultimately show ?thesis
      unfolding eq parse_decimal_point [OF a(1) b(1) a(2)] by (simp add: b(2))
  qed
  ultimately show ?thesis by (simp add: js_number_def parse_unsigned_def Let_def)
qed

section \<open>Words of hexadecimal digits\<close>

text \<open>The words of a text that is a prefix and a row of words of 64 digits.\<close>

lemma slice_words:
  assumes "\<forall>w \<in> set ws. length w = 64" and "i < length ws" and "length pre = k"
  shows "js_slice (k + i * 64) (k + (i + 1) * 64) (pre @ concat ws) = ws ! i"
  using assms(1,2)
proof -
  have "take 64 (drop (i * 64) (concat ws)) = ws ! i"
    using assms(1,2)
  proof (induction ws arbitrary: i)
    case Nil
    then show ?case by simp
  next
    case (Cons w ws)
    then show ?case by (cases i) simp_all
  qed
  with assms(3) show ?thesis by (simp add: js_slice_def)
qed

lemma is_hex_not_space: "is_hex c \<Longrightarrow> \<not> is_space c"
  by (auto simp: is_hex_def hex_digit_value_def is_space_def Let_def split: if_splits)

lemma big_of_text_hex:
  assumes "list_all is_hex w" and "w \<noteq> []"
  shows "big_of_text (''0x'' @ w) = Some (int (radix_value 16 w))"
proof -
  have "\<not> is_space (last (''0x'' @ w))" using assms by (auto simp: list_all_iff is_hex_not_space)
  then have "js_trim (''0x'' @ w) = ''0x'' @ w"
    by (intro js_trim_id) (auto simp: is_space_def)
  then show ?thesis using assms
    by (simp add: big_of_text_def parse_radix_def radix_value_def list_all_iff is_hex_def)
qed

lemma char_lower_hex: "is_hex c \<Longrightarrow> is_hex (char_lower c) \<and> hex_digit_value (char_lower c) = hex_digit_value c"
  by (auto simp: is_hex_def hex_digit_value_def char_lower_def Let_def of_char_of [where 'a = nat] split: if_splits)

lemma js_lower_hex:
  "list_all is_hex s \<Longrightarrow> list_all is_hex (js_lower s)"
  "list_all is_hex s \<Longrightarrow> radix_value b (js_lower s) = radix_value b s"
proof -
  show "list_all is_hex s \<Longrightarrow> list_all is_hex (js_lower s)"
    by (auto simp: js_lower_def list_all_iff char_lower_hex)
  have "fold (\<lambda>c n. b * n + hex_digit_value c) (map char_lower s) a = fold (\<lambda>c n. b * n + hex_digit_value c) s a"
    if "list_all is_hex s" for a using that
    by (induction s arbitrary: a) (auto simp: char_lower_hex)
  then show "list_all is_hex s \<Longrightarrow> radix_value b (js_lower s) = radix_value b s"
    by (simp add: radix_value_def js_lower_def)
qed

section \<open>Decimal text read back\<close>

lemma dec_head: "is_digit (hd (dec n))"
  using dec_digits [of n] dec_nonempty [of n] by (cases "dec n") auto

lemma digit_no_space: "is_digit c \<Longrightarrow> \<not> is_space c \<and> c \<noteq> CHR ''-'' \<and> c \<noteq> CHR ''+''"
  by (auto simp: is_digit_def is_space_def Let_def)

lemma takeWhile_dec [simp]: "takeWhile is_digit (dec n) = dec n"
  using dec_digits [of n] by (simp add: list_all_iff)

lemma dec_not_hex: "take 2 (dec n) \<noteq> ''0x'' \<and> take 2 (dec n) \<noteq> ''0X''"
proof -
  have "list_all is_digit (take 2 (dec n))"
    using dec_digits [of n] by (metis append_take_drop_id list_all_append)
  then show ?thesis by (auto simp: is_digit_def)
qed

lemma big_of_text_dec [simp]: "big_of_text (dec n) = Some (int n)"
proof -
  obtain c r where c: "dec n = c # r" using dec_nonempty [of n] by (cases "dec n") auto
  have digits: "list_all is_digit (c # r)" using dec_digits [of n] c by simp
  then have "\<not> is_space (hd (c # r))" "\<not> is_space (last (c # r))"
    by (auto simp: list_all_iff digit_no_space)
  then have trim: "js_trim (c # r) = c # r" by (intro js_trim_id) auto
  have "parse_radix (c # r) = None"
  proof (cases r)
    case (Cons d ds)
    with digits have "is_digit d" by simp
    then have "d \<noteq> CHR ''x'' \<and> d \<noteq> CHR ''X'' \<and> d \<noteq> CHR ''o'' \<and> d \<noteq> CHR ''O'' \<and> d \<noteq> CHR ''b'' \<and> d \<noteq> CHR ''B''"
      by (auto simp: is_digit_def)
    with Cons show ?thesis by (simp add: parse_radix_def)
  qed (simp add: parse_radix_def)
  moreover have "c \<noteq> CHR ''-'' \<and> c \<noteq> CHR ''+''" using digits digit_no_space by auto
  ultimately have "big_of_text (c # r) = Some (int (dec_value (c # r)))"
    using digits trim by (simp add: big_of_text_def Let_def)
  then show ?thesis by (simp add: c [symmetric])
qed

end
