(* ===== verification/Browser.thy ===== *)
theory Browser
  imports JsNumber Calculus
begin

text \<open>
  What the pages of the web client run on.  A page is a script over a \<open>client\<close>: the module
  variables of \<^verbatim>\<open>wallet.js\<close>, the two storages of the browser, everything outside
  (wallets, node, clock), and the requests made so far.  What is outside is given by a
  \<open>browser\<close>: the answers of a wallet, of the JSON-RPC node, and the clock.

  JavaScript runs to completion between two awaits, and while a page awaits, the wallet may fire
  events: the account changes, the connection ends, an extension announces itself (its reverse
  domain name, whether it is MetaMask, its provider).  Each answer from outside therefore comes with
  the events that were delivered before the page goes on, and the handlers of \<^verbatim>\<open>wallet.js\<close> run
  on them.  A theorem about a page thus holds under every interleaving with the wallet's events.
\<close>

section \<open>State\<close>

text \<open>
  A request is \<^verbatim>\<open>provider.request\<close> (the provider, the method, the parameters), a call of the
  node, a timer, or a transaction that the key of a vault signs (the key, the contract, the method,
  the arguments).
\<close>

datatype wallet_event =
    AccountsChanged "string list"
  | ChainChanged
  | Disconnected
  | Announced string bool nat

datatype request =
    Wallet nat string "js_value list"
  | Rpc string "js_value list"
  | Signed string string string "js_value list"
  | Sleep nat

text \<open>
  An entry of the local storage: the text of a JSON value, or text that is none.  The JSON
  \<^verbatim>\<open>null\<close> is \<open>Undef\<close>: the client asks only whether a value is nullish.
\<close>

datatype stored = Json js_value | Garbage string

record 'c client =
  cl_address :: "string option"
  cl_provider :: "nat option"
  cl_wc :: "nat option"
  cl_injected :: "nat obj"
  cl_session :: "string \<Rightarrow> string option"
  cl_storage :: "string \<Rightarrow> stored option"
  cl_outside :: 'c
  cl_requests :: "request list"

type_synonym ('c, 'a) page = "('c client, 'a) script"

text \<open>
  \<open>b_request\<close> is \<^verbatim>\<open>provider.request({method, params})\<close>; \<open>b_fetch\<close> a JSON-RPC request to the
  node of the configuration, answering the message of \<^verbatim>\<open>json.error\<close>, if any, and
  \<^verbatim>\<open>json.result\<close>; \<open>b_sleep\<close> is \<^verbatim>\<open>setTimeout\<close>; \<open>b_now\<close> is \<^verbatim>\<open>Date.now()\<close>;
  \<open>b_ethereum\<close> is \<^verbatim>\<open>window.ethereum\<close>, if it is a provider; the last three are the WalletConnect
  package: \<^verbatim>\<open>EthereumProvider.init\<close>, and the session and the accounts of its provider.
\<close>

record 'c browser =
  b_request :: "nat \<Rightarrow> string \<Rightarrow> js_value list \<Rightarrow> 'c \<Rightarrow> (js_error + js_value) \<times> wallet_event list \<times> 'c"
  b_fetch :: "string \<Rightarrow> js_value list \<Rightarrow> 'c
    \<Rightarrow> (js_error + (string option \<times> js_value)) \<times> wallet_event list \<times> 'c"
  b_sleep :: "nat \<Rightarrow> 'c \<Rightarrow> wallet_event list \<times> 'c"
  b_now :: "'c \<Rightarrow> nat"
  b_ethereum :: "nat option"
  b_wc_init :: "'c \<Rightarrow> (js_error + nat) \<times> wallet_event list \<times> 'c"
  b_wc_session :: "nat \<Rightarrow> 'c \<Rightarrow> bool"
  b_wc_accounts :: "nat \<Rightarrow> 'c \<Rightarrow> string list"

section \<open>The handlers of the wallet's events\<close>

definition SESSION_KEY :: string where "SESSION_KEY = ''lender-connector''"
definition SESSION_RDNS_KEY :: string where "SESSION_RDNS_KEY = ''lender-connector-rdns''"

text \<open>What \<^verbatim>\<open>fullLogout\<close> does before it first waits; the wallet is then told to disconnect.\<close>

definition fullLogout :: "'c client \<Rightarrow> 'c client" where
  "fullLogout s = s\<lparr>cl_address := None, cl_provider := None, cl_wc := None,
     cl_session := (cl_session s)(SESSION_KEY := None, SESSION_RDNS_KEY := None)\<rparr>"

definition onAccountsChanged :: "string list \<Rightarrow> 'c client \<Rightarrow> 'c client" where
  "onAccountsChanged accounts s =
     (if accounts = [] \<or> hd accounts = [] then fullLogout s
      else s\<lparr>cl_address := Some (hd accounts),
             cl_session := (cl_session s)(SESSION_KEY \<mapsto>
               (if truthy (cl_session s SESSION_KEY) then the (cl_session s SESSION_KEY)
                else if cl_wc s = cl_provider s then ''wc'' else ''injected''))\<rparr>)"

text \<open>
  \<^verbatim>\<open>rememberInjected\<close>: the provider under its trimmed name; one announced again replaces the old
  one.  The names and icons shown are left out.
\<close>

definition rememberInjected :: "string \<Rightarrow> bool \<Rightarrow> nat \<Rightarrow> 'c client \<Rightarrow> 'c client" where
  "rememberInjected name isMetaMask p s =
     (let rdns = js_trim (if name \<noteq> [] then name else if isMetaMask then ''io.metamask'' else '''') in
      if rdns = [] then s else s\<lparr>cl_injected := obj_set rdns p (cl_injected s)\<rparr>)"

text \<open>The handlers are bound while a provider is connected.\<close>

fun handle_event :: "wallet_event \<Rightarrow> 'c client \<Rightarrow> 'c client" where
  "handle_event (AccountsChanged accounts) s =
     (if cl_provider s = None then s else onAccountsChanged accounts s)"
| "handle_event ChainChanged s = s"
| "handle_event (Announced name isMetaMask p) s = rememberInjected name isMetaMask p s"
| "handle_event Disconnected s = (if cl_provider s = None then s else fullLogout s)"

definition deliver :: "wallet_event list \<Rightarrow> 'c client \<Rightarrow> 'c client" where
  "deliver evs s = fold handle_event evs s"

lemma handle_event_simps [simp]:
  "cl_storage (handle_event e s) = cl_storage s" "cl_requests (handle_event e s) = cl_requests s"
  "cl_outside (handle_event e s) = cl_outside s"
  by (cases e; simp add: onAccountsChanged_def fullLogout_def rememberInjected_def Let_def)+

lemma deliver_simps [simp]:
  "cl_storage (deliver evs s) = cl_storage s" "cl_requests (deliver evs s) = cl_requests s"
  "cl_outside (deliver evs s) = cl_outside s"
  unfolding deliver_def by (induction evs arbitrary: s) simp_all

lemma deliver_Nil [simp]: "deliver [] s = s"
  by (simp add: deliver_def)

section \<open>Requests\<close>

text \<open>The state once an answer has arrived and its events have been handled.\<close>

definition resumed :: "request \<Rightarrow> wallet_event list \<Rightarrow> 'c \<Rightarrow> 'c client \<Rightarrow> 'c client" where
  "resumed r evs c s = deliver evs (s\<lparr>cl_outside := c, cl_requests := cl_requests s @ [r]\<rparr>)"

lemma resumed_simps [simp]:
  "cl_storage (resumed r evs c s) = cl_storage s"
  "cl_requests (resumed r evs c s) = cl_requests s @ [r]"
  "cl_outside (resumed r evs c s) = c"
  by (simp_all add: resumed_def)

definition wallet_request :: "'c browser \<Rightarrow> nat \<Rightarrow> string \<Rightarrow> js_value list \<Rightarrow> ('c, js_value) page" where
  "wallet_request B p method params = (\<lambda>s.
     case b_request B p method params (cl_outside s) of
       (Inl e, evs, c) \<Rightarrow> (Throw e, resumed (Wallet p method params) evs c s)
     | (Inr v, evs, c) \<Rightarrow> (Ret v, resumed (Wallet p method params) evs c s))"

definition fetch_rpc :: "'c browser \<Rightarrow> string \<Rightarrow> js_value list \<Rightarrow> ('c, string option \<times> js_value) page" where
  "fetch_rpc B method params = (\<lambda>s.
     case b_fetch B method params (cl_outside s) of
       (Inl e, evs, c) \<Rightarrow> (Throw e, resumed (Rpc method params) evs c s)
     | (Inr json, evs, c) \<Rightarrow> (Ret json, resumed (Rpc method params) evs c s))"

definition rpc :: "'c browser \<Rightarrow> string \<Rightarrow> js_value list \<Rightarrow> ('c, js_value) page" where
  "rpc B method params = await (fetch_rpc B method params) (\<lambda>(error, result).
     case error of Some message \<Rightarrow> throw (JsError message) | None \<Rightarrow> ret result)"

definition sleep :: "'c browser \<Rightarrow> nat \<Rightarrow> ('c, unit) page" where
  "sleep B ms = (\<lambda>s. case b_sleep B ms (cl_outside s) of (evs, c) \<Rightarrow> (Ret (), resumed (Sleep ms) evs c s))"

definition now :: "'c browser \<Rightarrow> ('c, nat) page" where
  "now B = (\<lambda>s. (Ret (b_now B (cl_outside s)), s))"

text \<open>A synchronous read or write of the state.\<close>

definition get_state :: "('c client \<Rightarrow> 'a) \<Rightarrow> ('c, 'a) page" where
  "get_state f = (\<lambda>s. (Ret (f s), s))"

definition set_state :: "('c client \<Rightarrow> 'c client) \<Rightarrow> ('c, unit) page" where
  "set_state f = (\<lambda>s. (Ret (), f s))"

definition getAddress :: "('c, string option) page" where
  "getAddress = get_state cl_address"

definition getProvider :: "('c, nat option) page" where
  "getProvider = get_state cl_provider"

lemma get_state_Ret_iff [run_simps]: "get_state f s = (Ret x, s') \<longleftrightarrow> x = f s \<and> s' = s"
  by (auto simp: get_state_def)

lemma set_state_Ret_iff [run_simps]: "set_state f s = (Ret x, s') \<longleftrightarrow> s' = f s"
  by (auto simp: set_state_def)

lemma getAddress_Ret_iff [run_simps]: "getAddress s = (Ret x, s') \<longleftrightarrow> x = cl_address s \<and> s' = s"
  by (auto simp: getAddress_def run_simps)

lemma getProvider_Ret_iff [run_simps]: "getProvider s = (Ret x, s') \<longleftrightarrow> x = cl_provider s \<and> s' = s"
  by (auto simp: getProvider_def run_simps)

section \<open>Values\<close>

text \<open>\<^verbatim>\<open>String(v)\<close>.  An array prints its members between commas, a nullish member as nothing.\<close>

fun js_String :: "js_value \<Rightarrow> string" and js_join :: "js_value list \<Rightarrow> string" where
  "js_String Undef = ''undefined''"
| "js_String (Str s) = s"
| "js_String (Num n) = (if n < 0 then ''-'' @ dec (nat (- n)) else dec (nat n))"
| "js_String (Big n) = (if n < 0 then ''-'' @ dec (nat (- n)) else dec (nat n))"
| "js_String (Bool b) = (if b then ''true'' else ''false'')"
| "js_String (Obj o1) = ''[object Object]''"
| "js_String (Arr vs) = js_join vs"
| "js_join [] = ''''"
| "js_join [v] = (if v = Undef then '''' else js_String v)"
| "js_join (v # w # vs) = (if v = Undef then '''' else js_String v) @ '','' @ js_join (w # vs)"

text \<open>A value used as a string: \<^verbatim>\<open>slice\<close>, \<^verbatim>\<open>toLowerCase\<close> of anything else is a \<^verbatim>\<open>TypeError\<close>.\<close>

definition as_string :: "js_value \<Rightarrow> ('s, string) script" where
  "as_string v = (case v of Str t \<Rightarrow> ret t | _ \<Rightarrow> throw (TypeError ''is not a function''))"

lemma as_string_Ret_iff [run_simps]: "as_string v s = (Ret t, s') \<longleftrightarrow> v = Str t \<and> s' = s"
  by (auto simp: as_string_def run_simps split: js_value.splits)

text \<open>An optional result of a library function, its absence an error of the engine.\<close>

definition or_throw :: "string \<Rightarrow> 'a option \<Rightarrow> ('s, 'a) script" where
  "or_throw m v = (case v of None \<Rightarrow> throw (TypeError m) | Some x \<Rightarrow> ret x)"

lemma or_throw_Ret_iff [run_simps]: "or_throw m v s = (Ret x, s') \<longleftrightarrow> v = Some x \<and> s' = s"
  by (auto simp: or_throw_def run_simps split: option.splits)

section \<open>The transactions a page asks the wallet to sign\<close>

fun tx_of :: "request \<Rightarrow> js_value list option" where
  "tx_of (Wallet p m params) = (if m = ''eth_sendTransaction'' then Some params else None)"
| "tx_of (Rpc m params) = None"
| "tx_of (Signed k a m params) = None"
| "tx_of (Sleep n) = None"

definition sent :: "'c client \<Rightarrow> js_value list list" where
  "sent s = List.map_filter tx_of (cl_requests s)"

text \<open>A page keeps the local storage and every transaction it asks for satisfies \<open>P\<close>.\<close>

definition sends_only :: "(js_value list \<Rightarrow> bool) \<Rightarrow> 'c client \<Rightarrow> 'c client \<Rightarrow> bool" where
  "sends_only P s s' \<longleftrightarrow> cl_storage s' = cl_storage s \<and>
     (\<exists>txs. sent s' = sent s @ txs \<and> (\<forall>tx \<in> set txs. P tx))"

text \<open>
  The interface between the requests and the pages: a relation that sequencing respects and that
  holds over every request in \<open>W\<close>, whatever its answer and the events that come with it.
\<close>

locale page_rel = seq_rel R for R :: "'c client \<Rightarrow> 'c client \<Rightarrow> bool" +
  fixes W :: "request \<Rightarrow> bool"
  assumes rel_resumed: "W r \<Longrightarrow> R s (resumed r evs c s)"
begin

lemma keeps_wallet_request [keeps_intros]:
  "W (Wallet p m params) \<Longrightarrow> keeps R (wallet_request B p m params)"
  by (auto simp: keeps_def wallet_request_def rel_resumed split: prod.splits sum.splits)

lemma keeps_fetch_rpc [keeps_intros]: "W (Rpc m params) \<Longrightarrow> keeps R (fetch_rpc B m params)"
  by (auto simp: keeps_def fetch_rpc_def rel_resumed split: prod.splits sum.splits)

lemma keeps_rpc [keeps_intros]: "W (Rpc m params) \<Longrightarrow> keeps R (rpc B m params)"
  unfolding rpc_def
  by (intro keeps_await keeps_fetch_rpc) (auto intro: keeps_ret keeps_throw split: option.splits)

lemma keeps_sleep [keeps_intros]: "W (Sleep n) \<Longrightarrow> keeps R (sleep B n)"
  by (auto simp: keeps_def sleep_def rel_resumed split: prod.splits)

lemma keeps_get_state [keeps_intros]: "keeps R (get_state f)"
  by (auto simp: keeps_def get_state_def rel_refl)

lemma keeps_now [keeps_intros]: "keeps R (now B)"
  by (auto simp: keeps_def now_def rel_refl)

lemma keeps_getters [keeps_intros]: "keeps R getAddress" "keeps R getProvider"
  unfolding getAddress_def getProvider_def by (rule keeps_get_state)+

lemma keeps_values [keeps_intros]: "keeps R (as_string v)" "keeps R (or_throw m o1)"
  unfolding as_string_def or_throw_def
  by (auto intro: keeps_ret keeps_throw split: js_value.splits option.splits)

end

text \<open>A relation that holds over every request but a transaction.\<close>

locale client_rel = page_rel R W
  for R :: "'c client \<Rightarrow> 'c client \<Rightarrow> bool" and W :: "request \<Rightarrow> bool" +
  assumes no_transaction: "tx_of r = None \<Longrightarrow> W r"
begin

lemma keeps_request [keeps_intros]:
  "m \<noteq> ''eth_sendTransaction'' \<Longrightarrow> keeps R (wallet_request B p m params)"
  by (intro keeps_wallet_request no_transaction) simp

lemma keeps_node [keeps_intros]: "keeps R (rpc B m params)" "keeps R (fetch_rpc B m params)"
  "keeps R (sleep B n)"
  by (intro keeps_rpc keeps_fetch_rpc keeps_sleep no_transaction; simp)+

end

lemma sent_resumed [simp]:
  "sent (resumed r evs c s) = sent s @ (case tx_of r of None \<Rightarrow> [] | Some tx \<Rightarrow> [tx])"
  by (simp add: sent_def map_filter_def split: option.splits)

interpretation txs: client_rel "sends_only P" "\<lambda>r. \<forall>tx. tx_of r = Some tx \<longrightarrow> P tx" for P
  by unfold_locales (fastforce simp: sends_only_def split: option.splits)+

lemma sends_only_mono: "sends_only P s s' \<Longrightarrow> (\<And>tx. P tx \<Longrightarrow> Q tx) \<Longrightarrow> sends_only Q s s'"
  by (auto simp: sends_only_def)

text \<open>A page that asks for no transaction.\<close>

definition quiet :: "'c client \<Rightarrow> 'c client \<Rightarrow> bool" where
  "quiet s s' \<longleftrightarrow> cl_storage s' = cl_storage s \<and> sent s' = sent s"

interpretation quiet: client_rel quiet "\<lambda>r. tx_of r = None"
  by unfold_locales (auto simp: quiet_def)

lemma quiet_sends_only: "quiet s s' \<Longrightarrow> sends_only P s s'"
  by (auto simp: quiet_def sends_only_def)

lemma keeps_quiet: "keeps quiet m \<Longrightarrow> keeps (sends_only P) m"
  by (auto simp: keeps_def intro: quiet_sends_only)

end
