(* ===== verification/ClientConfig.thy ===== *)
theory ClientConfig
  imports Browser
begin

text \<open>
  \<^verbatim>\<open>frontend/js/config.js\<close>: the addresses and settings of the client, the listed collections, the
  patterns that addresses and token ids must match, and the check of the pool that the page runs
  when it loads.
\<close>

section \<open>Settings\<close>

record client_config =
  lendPoolAddress :: string
  lendPoolImpl :: string
  lendPoolLoan :: string
  nftOracle :: string
  bUsdc :: string
  usdcAddress :: string
  chainId :: nat
  chainIdHex :: string
  chainName :: string
  rpcUrl :: string
  explorerUrl :: string
  ltvPercent :: nat
  loanDays :: nat
  usdcDecimals :: nat
  feePercent :: nat
  walletConnectProjectId :: string

definition config :: client_config where
  "config = \<lparr>
     lendPoolAddress = ''0xc779850835B7C6872f7B2893A4d4A2cCf3733F15'',
     lendPoolImpl = ''0xED898b078b3F29AAC60d7a4bB55cfa008CCb1914'',
     lendPoolLoan = ''0x60E7D784866b349c474411C9D2b4ee3B8eC00f0C'',
     nftOracle = ''0x8C8728E0867D68C13476fBaFB23A86871D18fB56'',
     bUsdc = ''0xf1aDB4D3BA36CF8D747cBea5Ef9160C5B4cF20D4'',
     usdcAddress = ''0x754704Bc059F8C67012fEd69BC8A327a5aafb603'',
     chainId = 143,
     chainIdHex = ''0x8f'',
     chainName = ''Monad'',
     rpcUrl = ''https://rpc.monad.xyz'',
     explorerUrl = ''https://monadvision.com'',
     ltvPercent = 30,
     loanDays = 7,
     usdcDecimals = 6,
     feePercent = 3,
     walletConnectProjectId = ''4f449ee86c846a6430127ea1ca68d6d4''\<rparr>"

definition nativeCurrency :: js_value where
  "nativeCurrency = Obj [(''name'', Str ''MON''), (''symbol'', Str ''MON''), (''decimals'', Num 18)]"

record dust_config =
  d_token :: string
  d_veNft :: string
  d_pair :: string
  d_usdc :: string

definition DUST :: dust_config where
  "DUST = \<lparr>
     d_token = ''0xad96c3dffcd6374294e2573a7fbba96097cc8d7c'',
     d_veNft = ''0xbb4738d05ad1b3da57a4881bae62ce9bb1eeed6c'',
     d_pair = ''0x86dbf00485871c901c5129bd525348db96c2eb2d'',
     d_usdc = ''0x754704Bc059F8C67012fEd69BC8A327a5aafb603''\<rparr>"

text \<open>A listed collection; the links are left out.\<close>

record collection =
  c_id :: string
  c_name :: string
  c_address :: string
  c_floorMon :: nat
  c_items :: nat
  c_live :: bool
  c_valuation :: "string option"

definition COLLECTIONS :: "collection list" where
  "COLLECTIONS = [
     \<lparr>c_id = ''chog'', c_name = ''Chog Genesis'', c_address = ''0xc96d31f8626c6d03fae5dcd3d61e3fb9f4a73763'',
      c_floorMon = 11800, c_items = 1454, c_live = True, c_valuation = None\<rparr>,
     \<lparr>c_id = ''r3tards'', c_name = ''r3tards'', c_address = ''0x200723a706de0013316e5cd8eba2b3f53dd90c29'',
      c_floorMon = 5500, c_items = 1033, c_live = True, c_valuation = None\<rparr>,
     \<lparr>c_id = ''skrumpeys'', c_name = ''skrumpeys'', c_address = ''0xb0dad798c80e40dd6b8e8545074c6a5b7b97d2c0'',
      c_floorMon = 3343, c_items = 3333, c_live = True, c_valuation = None\<rparr>,
     \<lparr>c_id = ''squad10k'', c_name = ''The 10k Squad'', c_address = ''0x818030837e8350ba63e64d7dc01a547fa73c8279'',
      c_floorMon = 2399, c_items = 3333, c_live = True, c_valuation = None\<rparr>,
     \<lparr>c_id = ''vedust'', c_name = ''Voting Escrow DUST'', c_address = ''0xbb4738d05ad1b3da57a4881bae62ce9bb1eeed6c'',
      c_floorMon = 17, c_items = 0, c_live = True, c_valuation = Some ''locked-dust''\<rparr>]"

definition IMPL_SLOT :: string where
  "IMPL_SLOT = ''0x360894a13ba1a3210667c828492db98dca3e2076cc3735a920a3ca505d382bbc''"

section \<open>Patterns\<close>

text \<open>\<^verbatim>\<open>/^0x[a-fA-F0-9]{n}$/\<close>.\<close>

definition is_0x :: "nat \<Rightarrow> string \<Rightarrow> bool" where
  "is_0x n s \<longleftrightarrow> length s = n + 2 \<and> take 2 s = ''0x'' \<and> list_all is_hex (drop 2 s)"

definition isHexAddress :: "string \<Rightarrow> bool" where
  "isHexAddress value = is_0x 40 value"

definition isTokenId :: "string \<Rightarrow> bool" where
  "isTokenId value \<longleftrightarrow> list_all is_digit value \<and> 1 \<le> length value \<and> length value \<le> 78"

definition isWalletConnectConfigured :: bool where
  "isWalletConnectConfigured \<longleftrightarrow> length (walletConnectProjectId config) = 32 \<and>
     list_all is_hex (walletConnectProjectId config)"

definition explorerTx :: "string \<Rightarrow> string" where
  "explorerTx hash = (if \<not> is_0x 64 hash then explorerUrl config else explorerUrl config @ ''/tx/'' @ hash)"

section \<open>Amounts of USDC\<close>

text \<open>\<^verbatim>\<open>BigInt(Math.round(n * 10 ** config.usdcDecimals))\<close>.\<close>

definition usdc_units :: "js_num \<Rightarrow> ('s, int) script" where
  "usdc_units n = or_throw ''cannot be converted to a BigInt because it is not an integer'' (scaled_units n)"

definition positive_finite :: "js_num \<Rightarrow> bool" where
  "positive_finite n = (case n of Fin q \<Rightarrow> q > 0 | _ \<Rightarrow> False)"

definition toUsdcUnits :: "js_num \<Rightarrow> ('s, int) script" where
  "toUsdcUnits n = (if \<not> positive_finite n then throw (JsError ''Enter a USDC amount greater than 0'')
     else usdc_units n)"

section \<open>The pool behind the address\<close>

datatype pool_check = PoolOk string | PoolNotOk string

text \<open>\<^verbatim>\<open>!v || v === "0x"\<close>.\<close>

definition no_data :: "js_value \<Rightarrow> bool" where
  "no_data v \<longleftrightarrow> \<not> js_truthy v \<or> v = Str ''0x''"

definition verifyPool ::
  "(string \<Rightarrow> js_value list \<Rightarrow> ('s, js_value) script) \<Rightarrow> ('s, pool_check) script" where
  "verifyPool rpcCall =
     (if \<not> isHexAddress (lendPoolAddress config) then ret (PoolNotOk ''LendPool address is missing'')
      else
      await (rpcCall ''eth_getCode'' [Str (lendPoolAddress config), Str ''latest'']) (\<lambda>code.
      if no_data code then ret (PoolNotOk ''LendPool has no bytecode on Monad'')
      else
      await (rpcCall ''eth_getStorageAt''
          [Str (lendPoolAddress config), Str IMPL_SLOT, Str ''latest'']) (\<lambda>slot.
      await (if no_data slot then ret ''''
             else await (as_string slot) (\<lambda>t. ret (''0x'' @ js_slice_last 40 t))) (\<lambda>impl.
      if js_lower impl \<noteq> js_lower (lendPoolImpl config)
      then ret (PoolNotOk (''Unexpected LendPool implementation '' @ (if impl = [] then ''(none)'' else impl)))
      else
      await (rpcCall ''eth_chainId'' []) (\<lambda>chain.
      if js_lower (js_String chain) \<noteq> js_lower (chainIdHex config)
      then ret (PoolNotOk ''RPC is not Monad (chain 143)'')
      else ret (PoolOk impl))))))"

end
