(* ===== verification/WalletJs.thy ===== *)
theory WalletJs
  imports ClientConfig
begin

text \<open>
  \<^verbatim>\<open>frontend/js/wallet.js\<close>: the connection to a wallet.  A provider is a number, the identity of
  the object; its \<^verbatim>\<open>disconnect()\<close> and \<^verbatim>\<open>connect()\<close> are requests under those names.  The listeners
  that redraw the page have no state.  The concurrency of WalletConnect attempts is the subject of
  theory \<open>WalletConnect\<close>.
\<close>

section \<open>Errors\<close>

definition errCode :: "js_error \<Rightarrow> int option" where
  "errCode err = (case err of CodedError n _ \<Rightarrow> Some n | _ \<Rightarrow> None)"

definition rejectError :: "string \<Rightarrow> js_error" where
  "rejectError message = CodedError 4001 message"

definition rejected :: string where
  "rejected = ''Request rejected in the wallet.''"

section \<open>The pairing code of WalletConnect\<close>

text \<open>What the browser's \<^verbatim>\<open>URL\<close> gives of a text, a parameter below: none when it throws.\<close>

record url =
  u_protocol :: string
  u_hostname :: string
  u_pathname :: string
  u_searchParams :: "string \<Rightarrow> string option"

definition is_control :: "char \<Rightarrow> bool" where
  "is_control c = (let n = of_char c :: nat in n < 32 \<or> n = 127)"

text \<open>\<^verbatim>\<open>/^[a-f0-9-]{32,64}@2$/i\<close>.\<close>

definition is_topic :: "string \<Rightarrow> bool" where
  "is_topic path = (let n = length path - 2 in
     2 \<le> length path \<and> drop n path = ''@2'' \<and> 32 \<le> n \<and> n \<le> 64 \<and>
     list_all (\<lambda>c. is_hex c \<or> c = CHR ''-'') (take n path))"

definition isWcV2Uri :: "(string \<Rightarrow> url option) \<Rightarrow> string \<Rightarrow> bool" where
  "isWcV2Uri parse_url uri =
     (if length uri > 2048 then False
      else if list_ex is_control uri then False
      else case parse_url uri of
        None \<Rightarrow> False
      | Some parsed \<Rightarrow>
          (let path = dropWhile (\<lambda>c. c = CHR ''/'') (u_hostname parsed @ u_pathname parsed);
               key = (case u_searchParams parsed ''symKey'' of None \<Rightarrow> '''' | Some k \<Rightarrow> k) in
           u_protocol parsed = ''wc:'' \<and> is_topic path \<and>
           truthy (u_searchParams parsed ''relay-protocol'') \<and> length key = 64 \<and> list_all is_hex key))"

section \<open>The chain of the wallet\<close>

definition on_monad :: "string \<Rightarrow> bool" where
  "on_monad id1 \<longleftrightarrow> js_lower id1 = js_lower (chainIdHex config)"

definition ensureMonad :: "'c browser \<Rightarrow> nat option \<Rightarrow> ('c, unit) page" where
  "ensureMonad B walletProvider = (case walletProvider of
     None \<Rightarrow> throw (JsError ''Connect a wallet first.'')
   | Some p \<Rightarrow>
       await (try_catch
         (await (wallet_request B p ''wallet_switchEthereumChain''
             [Obj [(''chainId'', Str (chainIdHex config))]]) (\<lambda>_. ret ()))
         (\<lambda>err.
           if errCode err = Some 4902 \<or> str_includes (js_lower (err_message err)) ''unrecognized chain''
           then await (wallet_request B p ''wallet_addEthereumChain''
               [Obj [(''chainId'', Str (chainIdHex config)), (''chainName'', Str (chainName config)),
                     (''nativeCurrency'', nativeCurrency), (''rpcUrls'', Arr [Str (rpcUrl config)]),
                     (''blockExplorerUrls'', Arr [Str (explorerUrl config)])]]) (\<lambda>_. ret ())
           else if errCode err = Some 4001
           then throw (rejectError ''Switch to Monad in your wallet to continue.'')
           else throw err)) (\<lambda>_.
       await (wallet_request B p ''eth_chainId'' []) (\<lambda>id1.
       if \<not> on_monad (js_String id1) then throw (JsError ''Wallet is not on Monad.'') else ret ())))"

text \<open>A missing chain id is \<^verbatim>\<open>null\<close>; a number is printed in hexadecimal.\<close>

definition readChainId :: "'c browser \<Rightarrow> ('c, string option) page" where
  "readChainId B = await getProvider (\<lambda>provider. case provider of
     None \<Rightarrow> ret None
   | Some p \<Rightarrow> await (wallet_request B p ''eth_chainId'' []) (\<lambda>v. case v of
         Undef \<Rightarrow> ret None
       | Num n \<Rightarrow> ret (Some (js_lower (''0x'' @ big_hex n)))
       | _ \<Rightarrow> ret (Some (js_lower (js_String v)))))"

text \<open>\<^verbatim>\<open>(accounts || []).some(a => a.toLowerCase() === from.toLowerCase())\<close>.\<close>

fun some_account :: "string \<Rightarrow> js_value list \<Rightarrow> ('s, bool) script" where
  "some_account from [] = ret False"
| "some_account from (a # rest) = await (as_string a) (\<lambda>t.
     if js_lower t = js_lower from then ret True else some_account from rest)"

definition as_array :: "js_value \<Rightarrow> ('s, js_value list) script" where
  "as_array v = (case v of Arr vs \<Rightarrow> ret vs
     | _ \<Rightarrow> if js_truthy v then throw (TypeError ''some is not a function'') else ret [])"

definition assertActiveAccount :: "'c browser \<Rightarrow> string \<Rightarrow> ('c, unit) page" where
  "assertActiveAccount B from =
     await getProvider (\<lambda>provider. case provider of
       None \<Rightarrow> throw (JsError ''Connect a wallet first'')
     | Some p \<Rightarrow>
         await (wallet_request B p ''eth_accounts'' []) (\<lambda>v.
         await (as_array v) (\<lambda>accounts.
         await (some_account from accounts) (\<lambda>ok.
         if \<not> ok then throw (JsError ''Connected wallet does not match the signer'')
         else
         await (readChainId B) (\<lambda>id1.
         if \<not> on_monad (case id1 of None \<Rightarrow> '''' | Some c \<Rightarrow> c)
         then throw (JsError ''Wallet is not on Monad.'') else ret ())))))"

section \<open>Connecting and disconnecting\<close>

text \<open>\<^verbatim>\<open>clearWalletConnect\<close>: an error of \<^verbatim>\<open>disconnect()\<close> is ignored.\<close>

definition disconnect_wc :: "'c browser \<Rightarrow> nat option \<Rightarrow> ('c, unit) page" where
  "disconnect_wc B wc = (case wc of
     None \<Rightarrow> ret ()
   | Some p \<Rightarrow> try_catch (await (wallet_request B p ''disconnect'' []) (\<lambda>_. ret ())) (\<lambda>_. ret ()))"

definition clearWalletConnect :: "'c browser \<Rightarrow> ('c, unit) page" where
  "clearWalletConnect B = await (get_state cl_wc) (\<lambda>wc.
     await (set_state (\<lambda>s. s\<lparr>cl_wc := None\<rparr>)) (\<lambda>_. disconnect_wc B wc))"

definition disconnectWallet :: "'c browser \<Rightarrow> ('c, unit) page" where
  "disconnectWallet B = await (get_state cl_wc) (\<lambda>wc.
     await (set_state fullLogout) (\<lambda>_. disconnect_wc B wc))"

definition discoverInjected :: "'c browser \<Rightarrow> ('c, nat obj) page" where
  "discoverInjected B =
     await (sleep B 200) (\<lambda>_.
     await (get_state cl_injected) (\<lambda>injected.
     await (case b_ethereum B of
         Some p \<Rightarrow> when_do (injected = []) (set_state (rememberInjected ''injected'' False p))
       | None \<Rightarrow> ret ()) (\<lambda>_.
     get_state cl_injected)))"

text \<open>\<^verbatim>\<open>requested?.length\<close>: a non-empty array.\<close>

definition requestAccounts :: "'c browser \<Rightarrow> nat \<Rightarrow> ('c, js_value list) page" where
  "requestAccounts B walletProvider =
     await (try_catch (wallet_request B walletProvider ''eth_requestAccounts'' [])
       (\<lambda>err. if errCode err = Some 4001 then throw (rejectError rejected) else throw err)) (\<lambda>v.
     case v of
       Arr (a # rest) \<Rightarrow> ret (a # rest)
     | _ \<Rightarrow> throw (JsError ''No account returned from the wallet.''))"

definition session_set :: "string \<Rightarrow> string option \<Rightarrow> 'c client \<Rightarrow> 'c client" where
  "session_set k v s = s\<lparr>cl_session := (cl_session s)(k := v)\<rparr>"

definition connectInjected :: "'c browser \<Rightarrow> nat option \<Rightarrow> string \<Rightarrow> ('c, string option) page" where
  "connectInjected B injected rdns =
     await (case injected of
         Some p \<Rightarrow> ret (Some p)
       | None \<Rightarrow> await (discoverInjected B) (\<lambda>found. ret (case found of [] \<Rightarrow> None | (_, p) # _ \<Rightarrow> Some p))) (\<lambda>wallet.
     case wallet of
       None \<Rightarrow> throw (JsError ''No browser wallet found. Install MetaMask or Rabby, or use WalletConnect.'')
     | Some p \<Rightarrow>
         await (requestAccounts B p) (\<lambda>accounts.
         await (get_state cl_wc) (\<lambda>wc.
         await (when_do (wc \<noteq> None \<and> wc \<noteq> Some p) (clearWalletConnect B)) (\<lambda>_.
         await (as_string (hd accounts)) (\<lambda>account.
         await (set_state (\<lambda>s. session_set SESSION_RDNS_KEY (Some rdns)
             (session_set SESSION_KEY (Some ''injected'') (s\<lparr>cl_provider := Some p, cl_address := Some account\<rparr>)))) (\<lambda>_.
         await (try_catch (ensureMonad B (Some p))
             (\<lambda>err. if errCode err = Some 4001 then throw err else ret ())) (\<lambda>_.
         getAddress)))))))"

text \<open>
  The provider of WalletConnect, initialised once.  Answers the accounts it knows, or asks for them.
\<close>

definition getWalletConnectProvider :: "'c browser \<Rightarrow> ('c, nat) page" where
  "getWalletConnectProvider B = await (get_state cl_wc) (\<lambda>wc. case wc of
     Some p \<Rightarrow> ret p
   | None \<Rightarrow>
       if \<not> isWalletConnectConfigured then throw (JsError ''WalletConnect project ID is missing.'')
       else (\<lambda>s. case b_wc_init B (cl_outside s) of
           (Inl e, evs, c) \<Rightarrow> (Throw e, deliver evs (s\<lparr>cl_outside := c\<rparr>))
         | (Inr p, evs, c) \<Rightarrow> (Ret p, (deliver evs (s\<lparr>cl_outside := c\<rparr>))\<lparr>cl_wc := Some p\<rparr>)))"

definition wc_accounts :: "'c browser \<Rightarrow> nat \<Rightarrow> ('c, js_value list) page" where
  "wc_accounts B p = await (get_state (\<lambda>s. b_wc_accounts B p (cl_outside s))) (\<lambda>known.
     if known \<noteq> [] then ret (map Str known)
     else await (wallet_request B p ''eth_accounts'' []) (\<lambda>v. case v of Arr vs \<Rightarrow> ret vs | _ \<Rightarrow> ret []))"

text \<open>Reconnecting when the page loads: any error is ignored, and the address as it is then answered.\<close>

definition silent_wc :: "'c browser \<Rightarrow> ('c, string option) page" where
  "silent_wc B =
     await (getWalletConnectProvider B) (\<lambda>wc.
     await (get_state (\<lambda>s. b_wc_session B wc (cl_outside s))) (\<lambda>session.
     await (if session then wc_accounts B wc else ret []) (\<lambda>accounts.
     case accounts of
       a # _ \<Rightarrow>
         await (as_string a) (\<lambda>account.
         await (set_state (\<lambda>s. s\<lparr>cl_provider := Some wc, cl_address := Some account\<rparr>)) (\<lambda>_. getAddress))
     | [] \<Rightarrow>
         await (set_state (session_set SESSION_KEY None)) (\<lambda>_.
         await (clearWalletConnect B) (\<lambda>_. ret None)))))"

definition silent_injected :: "'c browser \<Rightarrow> ('c, string option) page" where
  "silent_injected B =
     await (discoverInjected B) (\<lambda>injected.
     await (get_state (\<lambda>s. cl_session s SESSION_RDNS_KEY)) (\<lambda>rdns.
     case (if truthy rdns then obj_get injected (the rdns) else None) of
       None \<Rightarrow>
         await (set_state (\<lambda>s. session_set SESSION_RDNS_KEY None (session_set SESSION_KEY None s)))
           (\<lambda>_. ret None)
     | Some p \<Rightarrow>
         await (wallet_request B p ''eth_accounts'' []) (\<lambda>v. case v of
           Arr (a # _) \<Rightarrow>
             await (as_string a) (\<lambda>account.
             await (set_state (\<lambda>s. s\<lparr>cl_provider := Some p, cl_address := Some account\<rparr>)) (\<lambda>_. getAddress))
         | _ \<Rightarrow> ret None)))"

definition silentConnect :: "'c browser \<Rightarrow> ('c, string option) page" where
  "silentConnect B = try_catch
     (await (get_state (\<lambda>s. cl_session s SESSION_KEY)) (\<lambda>last1.
      if last1 = Some ''wc'' then silent_wc B
      else if last1 \<noteq> Some ''injected'' then ret None
      else silent_injected B))
     (\<lambda>_. getAddress)"

section \<open>What the pages of the wallet keep\<close>

context client_rel begin

lemma keeps_some_account [keeps_intros]: "keeps R (some_account from accounts)"
  by (induction accounts) (auto intro!: keeps_ret keeps_await keeps_values)

lemma keeps_as_array [keeps_intros]: "keeps R (as_array v)"
  unfolding as_array_def by (auto intro: keeps_ret keeps_throw split: js_value.splits)

lemma keeps_readChainId [keeps_intros]: "keeps R (readChainId B)"
  unfolding readChainId_def
  by (intro keeps_intros keeps_option) (auto intro: keeps_intros split: js_value.splits)

lemma keeps_checks [keeps_intros]: "keeps R (ensureMonad B wp)" "keeps R (assertActiveAccount B from)"
  unfolding ensureMonad_def assertActiveAccount_def by (intro keeps_intros; simp)+

end

end
