(* ===== verification/PoolJs.thy ===== *)
theory PoolJs
  imports WalletJs
begin

text \<open>
  \<^verbatim>\<open>frontend/js/pool.js\<close>: the calls of the lending pool.  Calldata is text, a selector followed
  by words of 64 hexadecimal digits; a read goes to the node, a transaction through the wallet.  An
  answer of the node that is not text has no \<^verbatim>\<open>slice\<close>; the amounts that the error messages print
  are left out.
\<close>

section \<open>Calldata\<close>

definition SEL_ownerOf :: string where "SEL_ownerOf = ''0x6352211e''"
definition SEL_approve :: string where "SEL_approve = ''0x095ea7b3''"
definition SEL_allowance :: string where "SEL_allowance = ''0xdd62ed3e''"
definition SEL_balanceOf :: string where "SEL_balanceOf = ''0x70a08231''"
definition SEL_deposit :: string where "SEL_deposit = ''0xe8eda9df''"
definition SEL_borrow :: string where "SEL_borrow = ''0xb6529aee''"
definition SEL_repay :: string where "SEL_repay = ''0x8cd2e0c7''"
definition SEL_getNftCollateralData :: string where "SEL_getNftCollateralData = ''0xcc8ccdf2''"
definition SEL_getNftDebtData :: string where "SEL_getNftDebtData = ''0xec765d3d''"
definition SEL_getApproved :: string where "SEL_getApproved = ''0x081812fc''"

lemmas SEL_defs = SEL_ownerOf_def SEL_approve_def SEL_allowance_def SEL_balanceOf_def SEL_deposit_def
  SEL_borrow_def SEL_repay_def SEL_getNftCollateralData_def SEL_getNftDebtData_def SEL_getApproved_def

definition padAddr :: "string \<Rightarrow> string" where
  "padAddr addr = pad_start 64 (CHR ''0'') (js_lower (drop 2 addr))"

definition padUint :: "int \<Rightarrow> string" where
  "padUint value = pad_start 64 (CHR ''0'') (big_hex value)"

definition padBool :: "bool \<Rightarrow> string" where
  "padBool v = pad_start 64 (CHR ''0'') (if v then ''1'' else ''0'')"

text \<open>\<^verbatim>\<open>BigInt(value)\<close> of a token id, which is text.\<close>

definition token_big :: "string \<Rightarrow> ('s, int) script" where
  "token_big tokenId = or_throw ''Cannot convert to a BigInt'' (big_of_text tokenId)"

definition word :: "string \<Rightarrow> nat \<Rightarrow> ('s, int) script" where
  "word h i = or_throw ''Cannot convert to a BigInt''
     (big_of_text (''0x'' @ js_slice (2 + i * 64) (2 + (i + 1) * 64) h))"

definition addrWord :: "string \<Rightarrow> nat \<Rightarrow> string" where
  "addrWord h i = ''0x'' @ js_slice (2 + i * 64 + 24) (2 + (i + 1) * 64) h"

text \<open>\<^verbatim>\<open>padAddr(getAddress())\<close>: without an account it is a \<^verbatim>\<open>TypeError\<close>.\<close>

definition pad_account :: "string option \<Rightarrow> ('s, string) script" where
  "pad_account a = (case a of None \<Rightarrow> throw (TypeError ''Cannot read properties of null'')
     | Some t \<Rightarrow> ret (padAddr t))"

lemma pad_account_Ret_iff [run_simps]:
  "pad_account a s = (Ret t, s') \<longleftrightarrow> (\<exists>x. a = Some x \<and> t = padAddr x) \<and> s' = s"
  by (auto simp: pad_account_def run_simps split: option.splits)

section \<open>Transactions\<close>

definition walletCall :: "'c browser \<Rightarrow> string \<Rightarrow> js_value list \<Rightarrow> ('c, js_value) page" where
  "walletCall B method params = await getProvider (\<lambda>provider. case provider of
     None \<Rightarrow> throw (JsError ''Connect a Monad wallet first'')
   | Some p \<Rightarrow> await (ensureMonad B (Some p)) (\<lambda>_. wallet_request B p method params))"

definition ethCall :: "'c browser \<Rightarrow> string \<Rightarrow> string \<Rightarrow> ('c, js_value) page" where
  "ethCall B to1 data = rpc B ''eth_call'' [Obj [(''to'', Str to1), (''data'', Str data)], Str ''latest'']"

definition VAULT_KEY :: string where "VAULT_KEY = ''lender-mera-vault-v1''"

text \<open>The addresses of the stored vault, which a text that is no JSON does not have.\<close>

definition vault_target :: "'c client \<Rightarrow> string list" where
  "vault_target s = (case cl_storage s VAULT_KEY of
     Some (Json rec) \<Rightarrow> (if js_truthy (member_of rec ''address'')
       then [js_lower (js_String (member_of rec ''address''))] else [])
   | _ \<Rightarrow> [])"

definition allowed :: "'c client \<Rightarrow> string list" where
  "allowed s = [js_lower (lendPoolAddress config), js_lower (usdcAddress config)] @
     map (\<lambda>c. js_lower (c_address c)) COLLECTIONS @ vault_target s"

text \<open>The hash of a transaction and its receipt.\<close>

type_synonym mined = "js_value \<times> js_value"

text \<open>\<open>n\<close> is the number of rounds left of the loop's sixty.\<close>

primrec poll_receipt :: "'c browser \<Rightarrow> js_value \<Rightarrow> nat \<Rightarrow> ('c, mined) page" where
  "poll_receipt B hash 0 = throw (JsError (''No receipt yet for '' @ js_String hash))"
| "poll_receipt B hash (Suc n) =
     await (rpc B ''eth_getTransactionReceipt'' [hash]) (\<lambda>rec.
     if js_truthy rec then
       (if member_of rec ''status'' = Str ''0x1'' then ret (hash, rec)
        else throw (JsError (''Transaction reverted ('' @ js_String hash @ '')'')))
     else await (sleep B 1500) (\<lambda>_. poll_receipt B hash n))"

definition waitReceipt :: "'c browser \<Rightarrow> js_value \<Rightarrow> ('c, mined) page" where
  "waitReceipt B hash = poll_receipt B hash 60"

definition tx_params :: "string \<Rightarrow> string \<Rightarrow> string \<Rightarrow> string \<Rightarrow> js_value list" where
  "tx_params from to1 data val1 = [Obj [(''from'', Str from), (''to'', Str to1), (''data'', Str data),
     (''value'', Str val1), (''chainId'', Str (chainIdHex config))]]"

definition sendTx :: "'c browser \<Rightarrow> string \<Rightarrow> string \<Rightarrow> string \<Rightarrow> ('c, mined) page" where
  "sendTx B to1 data val1 = await getAddress (\<lambda>address.
     if \<not> truthy address then throw (JsError ''Connect a Monad wallet first'')
     else
     await (assertActiveAccount B (the address)) (\<lambda>_.
     await (get_state allowed) (\<lambda>targets.
     if js_lower to1 \<notin> set targets then throw (JsError ''Refusing to send to an unknown contract'')
     else
     await (walletCall B ''eth_sendTransaction''
       (tx_params (the address) to1 data (if val1 = [] then ''0x0'' else val1))) (\<lambda>hash.
     waitReceipt B hash))))"

section \<open>Reads\<close>

definition readOwner :: "'c browser \<Rightarrow> string \<Rightarrow> string \<Rightarrow> ('c, string) page" where
  "readOwner B collection tokenId =
     (if \<not> isHexAddress collection then throw (JsError ''Invalid collection'')
      else if \<not> isTokenId tokenId then throw (JsError ''Token ID must be an unsigned integer'')
      else
      await (token_big tokenId) (\<lambda>i.
      await (ethCall B collection (SEL_ownerOf @ padUint i)) (\<lambda>raw.
      if no_data raw then throw (JsError ''That token ID is not minted'')
      else await (as_string raw) (\<lambda>h. ret (addrWord h 0)))))"

definition assertOwnsNft :: "'c browser \<Rightarrow> string \<Rightarrow> string \<Rightarrow> ('c, unit) page" where
  "assertOwnsNft B collection tokenId = await getAddress (\<lambda>owner.
     if \<not> truthy owner then throw (JsError ''Connect a Monad wallet first'')
     else
     await (readOwner B collection tokenId) (\<lambda>tokenOwner.
     if js_lower tokenOwner \<noteq> js_lower (the owner)
     then throw (JsError ''Connected wallet does not own that token'') else ret ()))"

record pool_quote =
  collateralReserve :: int
  availableReserve :: int
  ltv :: js_num
  liquidationThreshold :: js_num

definition readPoolQuote :: "'c browser \<Rightarrow> string \<Rightarrow> ('c, pool_quote) page" where
  "readPoolQuote B nftAsset =
     await (ethCall B (lendPoolAddress config)
       (SEL_getNftCollateralData @ padAddr nftAsset @ padAddr (usdcAddress config))) (\<lambda>raw.
     if no_data raw then throw (JsError ''Collection is not listed on the pool'')
     else
     await (as_string raw) (\<lambda>h.
     await (word h 1) (\<lambda>reserve.
     await (word h 3) (\<lambda>available.
     await (word h 4) (\<lambda>l.
     await (word h 5) (\<lambda>t.
     ret \<lparr>collateralReserve = reserve, availableReserve = available,
       ltv = double_of (of_int l), liquidationThreshold = double_of (of_int t)\<rparr>))))))"

text \<open>The fields that a missing answer leaves out are read by no caller; here they are empty.\<close>

record debt =
  loanId :: int
  reserveAsset :: string
  totalCollateral :: int
  totalDebt :: int
  availableBorrows :: int

definition readDebt :: "'c browser \<Rightarrow> string \<Rightarrow> string \<Rightarrow> ('c, debt) page" where
  "readDebt B nftAsset tokenId =
     await (token_big tokenId) (\<lambda>i.
     await (ethCall B (lendPoolAddress config)
       (SEL_getNftDebtData @ padAddr nftAsset @ padUint i)) (\<lambda>raw.
     if no_data raw
     then ret \<lparr>loanId = 0, reserveAsset = '''', totalCollateral = 0, totalDebt = 0, availableBorrows = 0\<rparr>
     else
     await (as_string raw) (\<lambda>h.
     await (word h 0) (\<lambda>loan.
     await (word h 2) (\<lambda>collateral.
     await (word h 3) (\<lambda>total.
     await (word h 4) (\<lambda>available.
     ret \<lparr>loanId = loan, reserveAsset = addrWord h 1, totalCollateral = collateral,
       totalDebt = total, availableBorrows = available\<rparr>)))))))"

text \<open>\<^verbatim>\<open>raw && raw !== "0x" ? word(raw, 0) : 0n\<close>.\<close>

definition word_or_zero :: "js_value \<Rightarrow> ('s, int) script" where
  "word_or_zero raw = (if no_data raw then ret 0 else await (as_string raw) (\<lambda>h. word h 0))"

definition readUsdcBalance :: "'c browser \<Rightarrow> string \<Rightarrow> ('c, int) page" where
  "readUsdcBalance B owner =
     await (ethCall B (usdcAddress config) (SEL_balanceOf @ padAddr owner)) word_or_zero"

definition readBUsdcBalance :: "'c browser \<Rightarrow> string \<Rightarrow> ('c, int) page" where
  "readBUsdcBalance B owner =
     await (ethCall B (bUsdc config) (SEL_balanceOf @ padAddr owner)) word_or_zero"

section \<open>Approvals\<close>

definition approve_data :: "string \<Rightarrow> int \<Rightarrow> string" where
  "approve_data spender n = SEL_approve @ padAddr spender @ padUint n"

definition ensureErc20Allowance ::
  "'c browser \<Rightarrow> string \<Rightarrow> string \<Rightarrow> int \<Rightarrow> ('c, mined option) page" where
  "ensureErc20Allowance B token spender amount =
     await getAddress (\<lambda>owner.
     await (pad_account owner) (\<lambda>o1.
     await (ethCall B token (SEL_allowance @ o1 @ padAddr spender)) (\<lambda>raw.
     await (word_or_zero raw) (\<lambda>current.
     if current \<ge> amount then ret None
     else await (sendTx B token (approve_data spender amount) ''0x0'') (\<lambda>m. ret (Some m))))))"

definition ensureNftApproved :: "'c browser \<Rightarrow> string \<Rightarrow> string \<Rightarrow> ('c, mined option) page" where
  "ensureNftApproved B nft tokenId =
     await (token_big tokenId) (\<lambda>i.
     await (ethCall B nft (SEL_getApproved @ padUint i)) (\<lambda>approved.
     await (if no_data approved then ret ''''
            else await (as_string approved) (\<lambda>t. ret (''0x'' @ js_slice_last 40 t))) (\<lambda>who.
     if js_lower who = js_lower (lendPoolAddress config) then ret None
     else await (sendTx B nft (approve_data (lendPoolAddress config) i) ''0x0'') (\<lambda>m. ret (Some m)))))"

section \<open>Supplying, borrowing, repaying\<close>

text \<open>An amount as the pages give it: the text of a field, or a number.\<close>

datatype amount = AmountText string | AmountNum js_num

fun amount_num :: "amount \<Rightarrow> js_num" where
  "amount_num (AmountText t) = js_number t"
| "amount_num (AmountNum n) = n"

record supplied =
  s_approve :: "mined option"
  s_deposit :: mined

definition deposit_data :: "int \<Rightarrow> string \<Rightarrow> string" where
  "deposit_data units account =
     SEL_deposit @ padAddr (usdcAddress config) @ padUint units @ account @ padUint 0"

definition supplyUsdc :: "'c browser \<Rightarrow> amount \<Rightarrow> ('c, supplied) page" where
  "supplyUsdc B amountHuman =
     await (usdc_units (amount_num amountHuman)) (\<lambda>units.
     if units \<le> 0 then throw (JsError ''Enter a USDC amount greater than 0'')
     else
     await (ensureErc20Allowance B (usdcAddress config) (lendPoolAddress config) units) (\<lambda>approve.
     await getAddress (\<lambda>who.
     await (pad_account who) (\<lambda>account.
     await (sendTx B (lendPoolAddress config) (deposit_data units account) ''0x0'') (\<lambda>deposit.
     ret \<lparr>s_approve = approve, s_deposit = deposit\<rparr>)))))"

record borrowed =
  b_approve :: "mined option"
  b_borrow :: mined

definition borrow_data :: "int \<Rightarrow> string \<Rightarrow> int \<Rightarrow> string \<Rightarrow> string" where
  "borrow_data units nftAsset i account =
     SEL_borrow @ padAddr (usdcAddress config) @ padUint units @ padAddr nftAsset @ padUint i @
     account @ padUint 0"

definition borrowUsdc :: "'c browser \<Rightarrow> string \<Rightarrow> string \<Rightarrow> amount \<Rightarrow> ('c, borrowed) page" where
  "borrowUsdc B nftAsset tokenId amountHuman =
     (if \<not> isTokenId tokenId then throw (JsError ''Token ID must be an unsigned integer'')
      else
      await (usdc_units (amount_num amountHuman)) (\<lambda>units.
      if units \<le> 0 then throw (JsError ''Enter a USDC amount greater than 0'')
      else
      await (assertOwnsNft B nftAsset tokenId) (\<lambda>_.
      await (readPoolQuote B nftAsset) (\<lambda>quote.
      if units > availableReserve quote then throw (JsError ''Amount exceeds pool max'')
      else
      await (ensureNftApproved B nftAsset tokenId) (\<lambda>approve.
      await (token_big tokenId) (\<lambda>i.
      await getAddress (\<lambda>who.
      await (pad_account who) (\<lambda>account.
      await (sendTx B (lendPoolAddress config) (borrow_data units nftAsset i account) ''0x0'') (\<lambda>borrow.
      ret \<lparr>b_approve = approve, b_borrow = borrow\<rparr>)))))))))"

record repaid =
  r_approve :: "mined option"
  r_repay :: mined
  r_loanId :: string

definition repay_data :: "string \<Rightarrow> int \<Rightarrow> int \<Rightarrow> string" where
  "repay_data nftAsset i units = SEL_repay @ padAddr nftAsset @ padUint i @ padUint units"

definition repayLoan :: "'c browser \<Rightarrow> string \<Rightarrow> string \<Rightarrow> amount option \<Rightarrow> ('c, repaid) page" where
  "repayLoan B nftAsset tokenId amountHuman =
     (if \<not> isTokenId tokenId then throw (JsError ''Token ID must be an unsigned integer'')
      else
      await (readDebt B nftAsset tokenId) (\<lambda>d.
      if loanId d = 0 \<or> totalDebt d = 0 then throw (JsError ''No on-chain loan for that NFT'')
      else
      await (case amountHuman of None \<Rightarrow> ret (totalDebt d) | Some a \<Rightarrow> usdc_units (amount_num a)) (\<lambda>units.
      await (ensureErc20Allowance B (usdcAddress config) (lendPoolAddress config) units) (\<lambda>approve.
      await (token_big tokenId) (\<lambda>i.
      await (sendTx B (lendPoolAddress config) (repay_data nftAsset i units) ''0x0'') (\<lambda>repay.
      ret \<lparr>r_approve = approve, r_repay = repay, r_loanId = js_String (Big (loanId d))\<rparr>))))))"

section \<open>Words\<close>

lemma big_hex_nonneg: "0 \<le> v \<Longrightarrow> big_hex v = hex (nat v)"
  by (simp add: big_hex_def)

lemma padUint_word:
  assumes "0 \<le> v" and "v < 2 ^ 256"
  shows "length (padUint v) = 64" "list_all is_hex (padUint v)" "radix_value 16 (padUint v) = nat v"
proof -
  have "nat v < 2 ^ 256" using assms by (simp add: nat_less_iff)
  then have "nat v < 16 ^ 64" by simp
  then have "length (hex (nat v)) \<le> 64" using length_hex_le [of 64 "nat v"] by simp
  then show "length (padUint v) = 64" "list_all is_hex (padUint v)" "radix_value 16 (padUint v) = nat v"
    using assms(1) by (simp_all add: padUint_def big_hex_nonneg)
qed

text \<open>The number an address stands for.\<close>

definition address_value :: "string \<Rightarrow> nat" where
  "address_value a = radix_value 16 (drop 2 a)"

lemma padAddr_word:
  assumes "isHexAddress a"
  shows "length (padAddr a) = 64" "list_all is_hex (padAddr a)" "radix_value 16 (padAddr a) = address_value a"
  using assms
  by (simp_all add: isHexAddress_def is_0x_def padAddr_def address_value_def js_lower_hex js_lower_def [THEN arg_cong, of length])

lemma word_of_words:
  assumes "\<forall>w \<in> set ws. length w = 64 \<and> list_all is_hex w" and "i < length ws"
  shows "word (''0x'' @ concat ws) i = ret (int (radix_value 16 (ws ! i)))"
proof -
  have "ws ! i \<in> set ws" using assms(2) by simp
  with assms(1) have w: "length (ws ! i) = 64" "list_all is_hex (ws ! i)" by auto
  then have "ws ! i \<noteq> []" by auto
  moreover have "js_slice (2 + i * 64) (2 + (i + 1) * 64) (''0x'' @ concat ws) = ws ! i"
    using assms by (intro slice_words) auto
  moreover from calculation have "big_of_text (''0x'' @ ws ! i) = Some (int (radix_value 16 (ws ! i)))"
    using w(2) by (intro big_of_text_hex)
  ultimately show ?thesis unfolding word_def by (simp only: or_throw_def option.case)
qed
text \<open>A token id is read as the number its digits stand for.\<close>

lemma token_big_digits:
  assumes "isTokenId t"
  shows "big_of_text t = Some (int (dec_value t))"
proof -
  have d: "\<forall>c \<in> set t. is_digit c" "t \<noteq> []" using assms by (auto simp: isTokenId_def list_all_iff)
  then have h: "is_digit (hd t)" "is_digit (last t)" by simp_all
  then have "js_trim t = t" using d by (intro js_trim_id) (auto simp: digit_not_special)
  moreover have "parse_radix t = None" using d by (intro parse_radix_decimal) simp
  moreover have "hd t \<noteq> CHR ''+''" "hd t \<noteq> CHR ''-''" using h(1) digit_not_special by blast+
  ultimately show ?thesis using d by (simp add: big_of_text_def list_all_iff)
qed

end
