(* ===== verification/VaultJs.thy ===== *)
theory VaultJs
  imports PoolJs
begin

text \<open>
  \<^verbatim>\<open>frontend/js/vault.js\<close>: a second account, the vault, whose key a passkey of the browser
  locks.  The packages that hold and use the key, \<^verbatim>\<open>mera\<close> and \<^verbatim>\<open>ethers\<close>, are loaded
  from a server when they are first needed and are parameters here.  Writing to the local storage
  does not fail.
\<close>

section \<open>The packages\<close>

text \<open>
  \<open>k_import\<close> loads a package; \<open>k_parse_vault\<close>, \<open>k_decrypt\<close>, \<open>k_create_vault\<close> and \<open>k_address\<close>
  are \<^verbatim>\<open>parseSecretVault\<close>, \<^verbatim>\<open>decryptSecretVaultWithPasskey\<close>,
  \<^verbatim>\<open>createSecretVaultWithNewPasskey\<close> and the address of a signing session of \<^verbatim>\<open>mera\<close>;
  \<open>k_random\<close> is \<^verbatim>\<open>crypto.getRandomValues\<close>; \<open>k_wallet\<close> is the address of \<^verbatim>\<open>new Wallet(key)\<close>,
  \<open>k_call\<close> a method of a contract connected to it, answering the hash of the transaction, and
  \<open>k_wait\<close> its \<^verbatim>\<open>wait()\<close>, answering the receipt.
\<close>

record 'c packages =
  k_hostname :: string
  k_import :: "string \<Rightarrow> 'c \<Rightarrow> js_error option \<times> wallet_event list \<times> 'c"
  k_random :: "'c \<Rightarrow> nat list \<times> 'c"
  k_parse_vault :: "js_value \<Rightarrow> js_error + js_value"
  k_decrypt :: "js_value \<Rightarrow> string \<Rightarrow> 'c \<Rightarrow> (js_error + nat list) \<times> wallet_event list \<times> 'c"
  k_create_vault :: "string \<Rightarrow> nat list \<Rightarrow> 'c \<Rightarrow> (js_error + js_value) \<times> wallet_event list \<times> 'c"
  k_address :: "nat list \<Rightarrow> js_error + string"
  k_wallet :: "string \<Rightarrow> js_error + string"
  k_call :: "string \<Rightarrow> string \<Rightarrow> string \<Rightarrow> js_value list \<Rightarrow> 'c
    \<Rightarrow> (js_error + string) \<times> wallet_event list \<times> 'c"
  k_wait :: "string \<Rightarrow> 'c \<Rightarrow> (js_error + js_value) \<times> wallet_event list \<times> 'c"

text \<open>A call outside that is no request of the wallet or the node; its events are delivered.\<close>

definition outside :: "('c \<Rightarrow> (js_error + 'a) \<times> wallet_event list \<times> 'c) \<Rightarrow> ('c, 'a) page" where
  "outside f = (\<lambda>s. case f (cl_outside s) of
     (Inl e, evs, c) \<Rightarrow> (Throw e, deliver evs (s\<lparr>cl_outside := c\<rparr>))
   | (Inr v, evs, c) \<Rightarrow> (Ret v, deliver evs (s\<lparr>cl_outside := c\<rparr>)))"

definition from_sum :: "js_error + 'a \<Rightarrow> ('s, 'a) script" where
  "from_sum v = (case v of Inl e \<Rightarrow> throw e | Inr x \<Rightarrow> ret x)"

definition import_module :: "'c packages \<Rightarrow> string \<Rightarrow> ('c, unit) page" where
  "import_module K name = outside (\<lambda>c. case k_import K name c of
     (Some e, evs, c') \<Rightarrow> (Inl e, evs, c') | (None, evs, c') \<Rightarrow> (Inr (), evs, c'))"

text \<open>A transaction signed with the key \<open>key\<close>; it is recorded as a request whether it succeeds or not.\<close>

definition contract_call ::
  "'c packages \<Rightarrow> string \<Rightarrow> string \<Rightarrow> string \<Rightarrow> js_value list \<Rightarrow> ('c, string) page" where
  "contract_call K key to1 method args = (\<lambda>s. case k_call K key to1 method args (cl_outside s) of
     (Inl e, evs, c) \<Rightarrow> (Throw e, resumed (Signed key to1 method args) evs c s)
   | (Inr h, evs, c) \<Rightarrow> (Ret h, resumed (Signed key to1 method args) evs c s))"

lemma from_sum_Ret_iff [run_simps]: "from_sum v s = (Ret x, s') \<longleftrightarrow> v = Inr x \<and> s' = s"
  by (auto simp: from_sum_def run_simps split: sum.splits)

section \<open>The stored vault\<close>

definition stored_vault :: "'c client \<Rightarrow> js_value option" where
  "stored_vault s = (case cl_storage s VAULT_KEY of
     Some (Json raw) \<Rightarrow>
       (if js_truthy (member_of raw ''address'') \<and> js_truthy (member_of raw ''vault'')
        then Some raw else None)
   | _ \<Rightarrow> None)"

definition loadVaultRecord :: "('c, js_value option) page" where
  "loadVaultRecord = get_state stored_vault"

definition saveVaultRecord :: "js_value \<Rightarrow> ('c, unit) page" where
  "saveVaultRecord record1 =
     set_state (\<lambda>s. s\<lparr>cl_storage := (cl_storage s)(VAULT_KEY \<mapsto> Json record1)\<rparr>)"

record opened =
  o_address :: string
  o_secret :: "nat list"
  o_reused :: bool

definition open_vault :: "'c packages \<Rightarrow> js_value \<Rightarrow> ('c, opened) page" where
  "open_vault K rec =
     await (from_sum (k_parse_vault K (member_of rec ''vault''))) (\<lambda>vault.
     await (outside (k_decrypt K vault (k_hostname K))) (\<lambda>secret.
     await (from_sum (k_address K secret)) (\<lambda>address.
     await (as_string (member_of rec ''address'')) (\<lambda>known.
     if js_lower address \<noteq> js_lower known
     then throw (JsError ''Passkey opened a different vault than the one stored here'')
     else ret \<lparr>o_address = address, o_secret = secret, o_reused = True\<rparr>))))"

definition vault_record :: "'c packages \<Rightarrow> string \<Rightarrow> js_value \<Rightarrow> nat \<Rightarrow> js_value" where
  "vault_record K address vault t = Obj [(''address'', Str address), (''vault'', vault),
     (''createdAt'', Num (int t)), (''host'', Str (k_hostname K))]"

definition create_vault :: "'c browser \<Rightarrow> 'c packages \<Rightarrow> ('c, opened) page" where
  "create_vault B K =
     await (outside (\<lambda>c. case k_random K c of (bytes, c') \<Rightarrow> (Inr bytes, [], c'))) (\<lambda>secret.
     await (outside (k_create_vault K (k_hostname K) secret)) (\<lambda>vault.
     await (from_sum (k_address K secret)) (\<lambda>address.
     await (now B) (\<lambda>t.
     await (saveVaultRecord (vault_record K address vault t)) (\<lambda>_.
     ret \<lparr>o_address = address, o_secret = secret, o_reused = False\<rparr>)))))"

definition createOrOpenVault :: "'c browser \<Rightarrow> 'c packages \<Rightarrow> ('c, opened) page" where
  "createOrOpenVault B K =
     await (import_module K ''@category-labs/mera'') (\<lambda>_.
     await loadVaultRecord (\<lambda>existing. case existing of
       Some rec \<Rightarrow> open_vault K rec | None \<Rightarrow> create_vault B K))"

text \<open>The check that the vault named is the one stored, before anything is sent to it or for it.\<close>

definition require_stored :: "string \<Rightarrow> ('c, unit) page" where
  "require_stored vaultAddress =
     await loadVaultRecord (\<lambda>recorded. case recorded of
       None \<Rightarrow> throw (JsError ''Open a Mera vault first'')
     | Some rec \<Rightarrow>
         await (as_string (member_of rec ''address'')) (\<lambda>known.
         if js_lower vaultAddress \<noteq> js_lower known
         then throw (JsError ''Vault address does not match the stored passkey vault'')
         else ret ()))"

definition is_listed :: "string \<Rightarrow> bool" where
  "is_listed collection \<longleftrightarrow> list_ex (\<lambda>c. js_lower (c_address c) = js_lower collection) COLLECTIONS"

section \<open>The NFT and the gas of the vault\<close>

definition SEL_transferFrom :: string where "SEL_transferFrom = ''0x23b872dd''"

record moved =
  m_alreadyThere :: bool
  m_hash :: "js_value option"

definition transfer_data :: "string \<Rightarrow> string \<Rightarrow> int \<Rightarrow> string" where
  "transfer_data from to1 i = SEL_transferFrom @ padAddr from @ padAddr to1 @ padUint i"

definition transferNftToVault :: "'c browser \<Rightarrow> string \<Rightarrow> string \<Rightarrow> string \<Rightarrow> ('c, moved) page" where
  "transferNftToVault B collection tokenId vaultAddress =
     await getAddress (\<lambda>from.
     if \<not> truthy from then throw (JsError ''Connect the wallet that holds the NFT first'')
     else
     await (require_stored vaultAddress) (\<lambda>_.
     if \<not> isHexAddress collection \<or> \<not> isTokenId tokenId \<or> \<not> isHexAddress vaultAddress
     then throw (JsError ''Invalid transfer parameters'')
     else if \<not> is_listed collection then throw (JsError ''Collection is not listed on Lender'')
     else
     await (readOwner B collection tokenId) (\<lambda>owner.
     if js_lower owner = js_lower vaultAddress then ret \<lparr>m_alreadyThere = True, m_hash = None\<rparr>
     else if js_lower owner \<noteq> js_lower (the from)
     then throw (JsError (''Connected wallet does not own #'' @ tokenId))
     else
     await (token_big tokenId) (\<lambda>i.
     await (sendTx B collection (transfer_data (the from) vaultAddress i) ''0x0'') (\<lambda>(hash, receipt).
     ret \<lparr>m_alreadyThere = False, m_hash = Some hash\<rparr>)))))"

text \<open>
  The loop of \<^verbatim>\<open>waitUntilVaultOwns\<close> is bounded by the clock: \<open>n\<close> is fuel, and \<open>None\<close> that it ran
  out.
\<close>

primrec poll_owner ::
  "'c browser \<Rightarrow> string \<Rightarrow> string \<Rightarrow> string \<Rightarrow> nat \<Rightarrow> nat \<Rightarrow> nat \<Rightarrow> ('c, string option) page" where
  "poll_owner B collection tokenId vaultAddress start timeoutMs 0 = ret None"
| "poll_owner B collection tokenId vaultAddress start timeoutMs (Suc n) =
     await (now B) (\<lambda>t.
     if int t - int start < int timeoutMs then
       await (readOwner B collection tokenId) (\<lambda>owner.
       if js_lower owner = js_lower vaultAddress then ret (Some owner)
       else await (sleep B 2000) (\<lambda>_.
         poll_owner B collection tokenId vaultAddress start timeoutMs n))
     else throw (JsError ''Vault does not hold that NFT yet. Complete the transfer and retry.''))"

definition waitUntilVaultOwns ::
  "'c browser \<Rightarrow> nat \<Rightarrow> string \<Rightarrow> string \<Rightarrow> string \<Rightarrow> nat \<Rightarrow> ('c, string option) page" where
  "waitUntilVaultOwns B fuel collection tokenId vaultAddress timeoutMs =
     await (now B) (\<lambda>start. poll_owner B collection tokenId vaultAddress start timeoutMs fuel)"

text \<open>\<^verbatim>\<open>BigInt(v)\<close>.\<close>

definition big_of_value :: "js_value \<Rightarrow> int option" where
  "big_of_value v = (case v of
     Str t \<Rightarrow> big_of_text t
   | Num n \<Rightarrow> Some n
   | Big n \<Rightarrow> Some n
   | Bool b \<Rightarrow> Some (if b then 1 else 0)
   | Undef \<Rightarrow> None
   | _ \<Rightarrow> big_of_text (js_String v))"

record funded =
  f_funded :: bool
  f_hash :: "js_value option"

definition fundVaultForGas :: "'c browser \<Rightarrow> string \<Rightarrow> string \<Rightarrow> ('c, funded) page" where
  "fundVaultForGas B vaultAddress mon =
     await getAddress (\<lambda>from.
     if \<not> truthy from then throw (JsError ''Connect a wallet to fund vault gas'')
     else
     await (require_stored vaultAddress) (\<lambda>_.
     await getProvider (\<lambda>provider. case provider of
       None \<Rightarrow> throw (JsError ''Connect a wallet to fund vault gas'')
     | Some p \<Rightarrow>
         await (ensureMonad B (Some p)) (\<lambda>_.
         await (or_throw ''cannot be converted to a BigInt because it is not an integer''
           (big_of_num (math_round (num_times (js_number mon) (Fin (10 ^ 18)))))) (\<lambda>wei.
         await (wallet_request B p ''eth_getBalance'' [Str vaultAddress, Str ''latest'']) (\<lambda>balHex.
         await (or_throw ''Cannot convert to a BigInt''
           (if js_truthy balHex then big_of_value balHex else Some 0)) (\<lambda>bal.
         if bal \<ge> wei then ret \<lparr>f_funded = False, f_hash = None\<rparr>
         else
         await (sendTx B vaultAddress ''0x'' (''0x'' @ big_hex wei)) (\<lambda>(hash, receipt).
         ret \<lparr>f_funded = True, f_hash = Some hash\<rparr>))))))))"

section \<open>Borrowing with the key of the vault\<close>

definition toHex :: "nat list \<Rightarrow> string" where
  "toHex bytes = ''0x'' @ concat (map (\<lambda>b. pad_start 2 (CHR ''0'') (hex b)) bytes)"

record vault_loan =
  l_approve :: string
  l_borrow :: string

definition borrowFromVault ::
  "'c packages \<Rightarrow> nat list \<Rightarrow> string \<Rightarrow> string \<Rightarrow> string \<Rightarrow> amount \<Rightarrow> ('c, vault_loan) page" where
  "borrowFromVault K secret vaultAddress collection tokenId amountHuman =
     await (require_stored vaultAddress) (\<lambda>_.
     if \<not> is_listed collection then throw (JsError ''Collection is not listed on Lender'')
     else
     await (import_module K ''ethers'') (\<lambda>_.
     await (from_sum (k_wallet K (toHex secret))) (\<lambda>address.
     if js_lower address \<noteq> js_lower vaultAddress
     then throw (JsError ''Vault key does not match stored vault address'')
     else
     await (usdc_units (amount_num amountHuman)) (\<lambda>units.
     await (contract_call K (toHex secret) collection ''approve''
       [Str (lendPoolAddress config), Str tokenId]) (\<lambda>approveTx.
     await (outside (k_wait K approveTx)) (\<lambda>_.
     await (contract_call K (toHex secret) (lendPoolAddress config) ''borrow''
       [Str (usdcAddress config), Big units, Str collection, Str tokenId, Str vaultAddress, Num 0]) (\<lambda>borrowTx.
     await (outside (k_wait K borrowTx)) (\<lambda>receipt.
     if receipt = Undef then throw (TypeError ''Cannot read properties of null'')
     else if member_of receipt ''status'' \<noteq> Num 1 then throw (JsError ''Vault borrow reverted'')
     else ret \<lparr>l_approve = approveTx, l_borrow = borrowTx\<rparr>))))))))"

end
