(* ===== verification/VedustJs.thy ===== *)
theory VedustJs
  imports PoolJs
begin

text \<open>
  \<^verbatim>\<open>frontend/js/vedust.js\<close>: what a voting-escrow NFT locks, and its price in the pool of the
  pair.  The three reads are started together and none depends on another; here they run in the order
  they are written in, which matters only to which of several errors is reported.
\<close>

definition LOCKED_SEL :: string where "LOCKED_SEL = ''0xb45a3c0e''"
definition RESERVES_SEL :: string where "RESERVES_SEL = ''0x0902f1ac''"
definition TOKEN0_SEL :: string where "TOKEN0_SEL = ''0x0dfe1681''"

definition dust_call :: "'c browser \<Rightarrow> string \<Rightarrow> string \<Rightarrow> ('c, js_value) page" where
  "dust_call B to1 data =
     await (fetch_rpc B ''eth_call'' [Obj [(''to'', Str to1), (''data'', Str data)], Str ''latest''])
       (\<lambda>(error, result).
     if no_data result
     then throw (JsError (if truthy error then the error else ''RPC call failed''))
     else ret result)"

record dust_lock =
  dl_tokenId :: string
  dl_dust :: js_num
  dl_usd :: js_num
  dl_dustPriceUsd :: js_num
  dl_unlockAt :: js_num

definition scaled :: "int \<Rightarrow> nat \<Rightarrow> js_num" where
  "scaled w decimals = num_div (double_of (of_int w)) (Fin (10 ^ decimals))"

text \<open>What is computed from the three answers.\<close>

definition dust_price :: "string \<Rightarrow> int \<Rightarrow> int \<Rightarrow> js_num" where
  "dust_price token0 r0 r1 =
     (let usdcIs0 = (js_lower token0 = js_lower (d_usdc DUST));
          usdc = scaled (if usdcIs0 then r0 else r1) 6;
          dustRes = scaled (if usdcIs0 then r1 else r0) 18 in
      if num_less (Fin 0) dustRes then num_div usdc dustRes else Fin 0)"

definition readDustLock :: "'c browser \<Rightarrow> string \<Rightarrow> ('c, dust_lock) page" where
  "readDustLock B tokenId =
     (if tokenId = [] \<or> \<not> list_all is_digit tokenId then throw (JsError ''Enter a valid token ID'')
      else
      await (token_big tokenId) (\<lambda>i.
      await (dust_call B (d_veNft DUST) (LOCKED_SEL @ padUint i)) (\<lambda>lockHex.
      await (dust_call B (d_pair DUST) TOKEN0_SEL) (\<lambda>token0Hex.
      await (dust_call B (d_pair DUST) RESERVES_SEL) (\<lambda>reservesHex.
      await (as_string lockHex) (\<lambda>lock.
      await (word lock 0) (\<lambda>locked.
      if \<not> num_less (Fin 0) (scaled locked 18) then throw (JsError ''No DUST locked in this token'')
      else
      await (as_string token0Hex) (\<lambda>t0.
      await (as_string reservesHex) (\<lambda>reserves.
      await (word reserves 0) (\<lambda>r0.
      await (word reserves 1) (\<lambda>r1.
      await (word lock 1) (\<lambda>unlock.
      let price = dust_price (''0x'' @ js_slice_last 40 t0) r0 r1 in
      ret \<lparr>dl_tokenId = tokenId, dl_dust = scaled locked 18, dl_usd = num_times (scaled locked 18) price,
        dl_dustPriceUsd = price, dl_unlockAt = double_of (of_int unlock)\<rparr>))))))))))))"

end
