(* ===== verification/AppJs.thy ===== *)
theory AppJs
  imports VaultJs VedustJs
begin

text \<open>
  \<^verbatim>\<open>frontend/js/app.js\<close>: what the page does besides drawing.  A handler reads its fields when it
  starts; what it read is an argument here, and what it shows, a status line, is its result.  The
  elements of the page exist.  Amounts printed in a message are left out.
\<close>

section \<open>Tracked positions\<close>

definition POS_KEY :: string where "POS_KEY = ''lender-positions''"

text \<open>\<^verbatim>\<open>/^0x[a-fA-F0-9]{64}$/.test(String(p?.hash || ""))\<close>.\<close>

definition has_hash :: "js_value \<Rightarrow> bool" where
  "has_hash p = is_0x 64 (let h = member_of p ''hash'' in if js_truthy h then js_String h else '''')"

definition tracked :: "'c client \<Rightarrow> js_value list" where
  "tracked s = (case cl_storage s POS_KEY of
     Some (Json (Arr raw)) \<Rightarrow> filter has_hash raw
   | _ \<Rightarrow> [])"

definition loadPositions :: "('c, js_value list) page" where
  "loadPositions = get_state tracked"

record position =
  p_collection :: string
  p_collectionName :: string
  p_tokenId :: string
  p_hash :: js_value

definition position_value :: "position \<Rightarrow> js_value" where
  "position_value pos = Obj [(''collection'', Str (p_collection pos)),
     (''collectionName'', Str (p_collectionName pos)), (''tokenId'', Str (p_tokenId pos)),
     (''hash'', p_hash pos)]"

text \<open>\<^verbatim>\<open>p.collection?.toLowerCase()\<close>: a member that is nullish gives \<^verbatim>\<open>undefined\<close>.\<close>

definition lower_opt :: "js_value \<Rightarrow> ('s, string option) script" where
  "lower_opt v = (if v = Undef then ret None else await (as_string v) (\<lambda>t. ret (Some (js_lower t))))"

text \<open>The entries of other tokens, in their order.\<close>

primrec other_positions :: "position \<Rightarrow> js_value list \<Rightarrow> ('s, js_value list) script" where
  "other_positions pos [] = ret []"
| "other_positions pos (p # ps) =
     await (lower_opt (member_of p ''collection'')) (\<lambda>c.
     await (other_positions pos ps) (\<lambda>rest.
     ret (if c = Some (js_lower (p_collection pos)) \<and> member_of p ''tokenId'' = Str (p_tokenId pos)
          then rest else p # rest)))"

definition savePosition :: "position \<Rightarrow> ('c, unit) page" where
  "savePosition pos =
     await loadPositions (\<lambda>ps.
     await (other_positions pos ps) (\<lambda>next1.
     set_state (\<lambda>s. s\<lparr>cl_storage := (cl_storage s)(POS_KEY \<mapsto>
       Json (Arr (take 25 (position_value pos # next1))))\<rparr>)))"

section \<open>The wheel of collections\<close>

text \<open>\<^verbatim>\<open>a % b\<close>, whose sign is the dividend's.\<close>

definition js_rem :: "int \<Rightarrow> int \<Rightarrow> int" where
  "js_rem a b = sgn a * (\<bar>a\<bar> mod \<bar>b\<bar>)"

definition wrapIndex :: "int \<Rightarrow> int \<Rightarrow> int" where
  "wrapIndex i n = js_rem (js_rem i n + n) n"

text \<open>\<^verbatim>\<open>null\<close> stands for the slot \<^verbatim>\<open>"hidden"\<close>.\<close>

definition slotFor :: "int \<Rightarrow> int \<Rightarrow> int \<Rightarrow> int option" where
  "slotFor j selected n =
     (let d = j - selected;
          d = (if 2 * d > n then d - n else d);
          d = (if 2 * d < - n then d + n else d) in
      if \<bar>d\<bar> > 2 then None else Some d)"

lemma js_rem_nonneg: "0 \<le> a \<Longrightarrow> 0 < n \<Longrightarrow> js_rem a n = a mod n"
  by (auto simp: js_rem_def sgn_if)

lemma wrapIndex_mod: "0 < n \<Longrightarrow> wrapIndex i n = i mod n"
proof -
  assume n: "0 < n"
  have rem: "js_rem i n = (if i \<ge> 0 then i mod n else - ((- i) mod n))"
    using n by (auto simp: js_rem_def sgn_if)
  have "0 \<le> js_rem i n + n"
  proof (cases "0 \<le> i")
    case True
    with n show ?thesis by (simp add: rem)
  next
    case False
    then have "js_rem i n = - ((- i) mod n)" by (simp only: rem if_False)
    with pos_mod_bound [OF n, of "- i"] show ?thesis by linarith
  qed
  then have "wrapIndex i n = (js_rem i n + n) mod n"
    using n by (simp only: wrapIndex_def js_rem_nonneg)
  also have "\<dots> = i mod n" by (auto simp: rem mod_simps)
  finally show ?thesis .
qed

abbreviation wheel_size :: int where "wheel_size \<equiv> int (length COLLECTIONS)"

text \<open>\<^verbatim>\<open>rotateNft\<close> and \<^verbatim>\<open>selectCollection\<close> on the selected index.\<close>

definition rotateNft :: "int \<Rightarrow> int \<Rightarrow> int" where
  "rotateNft delta nftIndex = wrapIndex (nftIndex + delta) wheel_size"

definition selectCollection :: "collection \<Rightarrow> int \<Rightarrow> int" where
  "selectCollection c nftIndex =
     (let idx = findIndex (\<lambda>x. c_id x = c_id c) COLLECTIONS in if idx \<ge> 0 then idx else nftIndex)"

section \<open>The terms of a loan\<close>

definition fromUsdcUnits :: "int \<Rightarrow> js_num" where
  "fromUsdcUnits raw = num_div (double_of (of_int raw)) (Fin 1000000)"

record draft =
  dr_collectionName :: string
  dr_collection :: string
  dr_tokenId :: string
  dr_amount :: string

record terms =
  t_maxBorrow :: js_num
  t_maxRaw :: int
  t_principal :: js_num
  t_fee :: js_num
  t_repay :: js_num

text \<open>\<open>maxUnits\<close> is the attribute that a quote has left on the page.\<close>

definition updateTermsQuote :: "string option \<Rightarrow> draft \<Rightarrow> ('s, terms) script" where
  "updateTermsQuote maxUnits d =
     await (or_throw ''Cannot convert to a BigInt''
       (big_of_text (if truthy maxUnits then the maxUnits else ''0''))) (\<lambda>maxRaw.
     let amount = js_number (dr_amount d);
         principal = (if positive_finite amount then amount else Fin 0);
         fee = num_div (num_times principal (Fin (of_nat (feePercent config)))) (Fin 100) in
     ret \<lparr>t_maxBorrow = fromUsdcUnits maxRaw, t_maxRaw = maxRaw, t_principal = principal,
       t_fee = fee, t_repay = num_plus principal fee\<rparr>)"

section \<open>The handlers\<close>

datatype status = Plain string | Ok string | Err string

text \<open>\<^verbatim>\<open>catch (err) { setStatus(status, err?.message || fallback, "err") }\<close>.\<close>

definition reported :: "string \<Rightarrow> ('s, 'a) script \<Rightarrow> (string \<Rightarrow> 'a) \<Rightarrow> ('s, 'a) script" where
  "reported fallback m f = try_catch m
     (\<lambda>err. ret (f (if err_message err = [] then fallback else err_message err)))"

text \<open>\<^verbatim>\<open>slice(0, 6)\<close>, an ellipsis in UTF-8, \<^verbatim>\<open>slice(-4)\<close>.\<close>

definition shortAddress :: "string option \<Rightarrow> string" where
  "shortAddress addr = (if \<not> truthy addr then ''''
     else take 6 (the addr) @ [CHR 0xE2, CHR 0x80, CHR 0xA6] @ js_slice_last 4 (the addr))"

definition requireWallet :: "('c, unit) page" where
  "requireWallet = await getAddress (\<lambda>a.
     if truthy a then ret () else throw (JsError ''Connect a wallet first''))"

text \<open>
  \<^verbatim>\<open>refreshPoolQuote\<close>: the attribute it leaves, and the status it shows.  Of an address that is
  none it does nothing.
\<close>

definition refreshPoolQuote ::
  "'c browser \<Rightarrow> string \<Rightarrow> string option \<Rightarrow> ('c, string option \<times> status option) page" where
  "refreshPoolQuote B collection maxUnits =
     (if \<not> isHexAddress collection then ret (maxUnits, None)
      else reported ''Collection is not listed on the pool''
        (await (readPoolQuote B collection) (\<lambda>quote.
         ret (Some (js_String (Big (availableReserve quote))), None)))
        (\<lambda>m. (None, Some (Err m))))"

text \<open>The steps of the wizard; the first component is the step to go to.\<close>

definition borrow_to_terms ::
  "'c browser \<Rightarrow> draft \<Rightarrow> string option \<Rightarrow> ('c, nat option \<times> status) page" where
  "borrow_to_terms B d maxUnits = reported ''Cannot continue''
     (await requireWallet (\<lambda>_.
      if \<not> isHexAddress (dr_collection d) then throw (JsError ''Select a listed collection'')
      else if \<not> isTokenId (dr_tokenId d) then throw (JsError ''Token ID must be an unsigned integer'')
      else
      await (assertOwnsNft B (dr_collection d) (dr_tokenId d)) (\<lambda>_.
      await (refreshPoolQuote B (dr_collection d) maxUnits) (\<lambda>(units, shown).
      await (updateTermsQuote units d) (\<lambda>t.
      if t_maxRaw t = 0 then throw (JsError ''Pool reports no borrow capacity for this collection'')
      else ret (Some 2, Plain '''')))))) (\<lambda>m. (None, Err m))"

text \<open>\<^verbatim>\<open>1e-9\<close> is the double nearest to it.\<close>

definition borrow_to_confirm :: "terms \<Rightarrow> nat option \<times> status" where
  "borrow_to_confirm t =
     (if \<not> positive_finite (t_principal t) then (None, Err ''Enter a USDC amount greater than 0'')
      else if num_less (num_plus (t_maxBorrow t) (double_of (1 / 10 ^ 9))) (t_principal t)
      then (None, Err ''Amount exceeds pool max'')
      else (Some 3, Plain ''''))"

definition borrow_confirm ::
  "'c browser \<Rightarrow> draft \<Rightarrow> string option \<Rightarrow> ('c, nat option \<times> status) page" where
  "borrow_confirm B d maxUnits =
     await (updateTermsQuote maxUnits d) (\<lambda>t.
     reported ''Borrow transaction failed''
       (await requireWallet (\<lambda>_.
        await (borrowUsdc B (dr_collection d) (dr_tokenId d) (AmountNum (t_principal t))) (\<lambda>result.
        await (savePosition \<lparr>p_collection = dr_collection d,
            p_collectionName = (if dr_collectionName d \<noteq> [] then dr_collectionName d
              else shortAddress (Some (dr_collection d))),
            p_tokenId = dr_tokenId d, p_hash = fst (b_borrow result)\<rparr>) (\<lambda>_.
        await getAddress (\<lambda>a.
        ret (Some 1, Ok (''Borrow submitted. USDC to '' @ shortAddress a @ ''. '' @
          explorerTx (js_String (fst (b_borrow result))))))))))
       (\<lambda>m. (None, Err m)))"

definition supply_submit :: "'c browser \<Rightarrow> string \<Rightarrow> ('c, status) page" where
  "supply_submit B field = reported ''Deposit transaction failed''
     (await requireWallet (\<lambda>_.
      await (supplyUsdc B (AmountText (js_trim field))) (\<lambda>result.
      ret (Ok (''Deposit submitted. '' @ explorerTx (js_String (fst (s_deposit result))))))))
     Err"

definition repay_click :: "'c browser \<Rightarrow> string \<Rightarrow> string \<Rightarrow> ('c, status) page" where
  "repay_click B collection tokenId = reported ''Repay transaction failed''
     (await requireWallet (\<lambda>_.
      await (repayLoan B collection tokenId None) (\<lambda>result.
      ret (Ok (''Repay submitted. '' @ explorerTx (js_String (fst (r_repay result))))))))
     Err"

text \<open>The choice of an injected wallet, and the line of the network.\<close>

definition onInjectedChoice :: "'c browser \<Rightarrow> string \<Rightarrow> nat \<Rightarrow> ('c, status) page" where
  "onInjectedChoice B rdns p =
     try_catch (await (connectInjected B (Some p) rdns) (\<lambda>_. ret (Plain '''')))
       (\<lambda>err. ret (Err (if errCode err = Some 4001 then rejected
          else if err_message err = [] then ''Browser wallet failed'' else err_message err)))"

definition connect_injected_click :: "'c browser \<Rightarrow> ('c, status) page" where
  "connect_injected_click B =
     try_catch (await (discoverInjected B) (\<lambda>wallets. case wallets of
         [] \<Rightarrow> throw (JsError ''No browser wallet found. Install MetaMask or Rabby, or use WalletConnect.'')
       | [(rdns, p)] \<Rightarrow> onInjectedChoice B rdns p
       | _ \<Rightarrow> ret (Plain ''Pick the wallet to use.'')))
       (\<lambda>err. ret (Err (if errCode err = Some 4001 then rejected
          else if err_message err = [] then ''Browser wallet failed'' else err_message err)))"

definition refreshNetwork :: "'c browser \<Rightarrow> ('c, bool) page" where
  "refreshNetwork B = try_catch
     (await (readChainId B) (\<lambda>id1.
      await getAddress (\<lambda>a.
      ret (truthy a \<and> on_monad (case id1 of None \<Rightarrow> '''' | Some t \<Rightarrow> t)))))
     (\<lambda>_. ret False)"

definition initConfigBanner :: "'c browser \<Rightarrow> ('c, string option) page" where
  "initConfigBanner B = reported ''Could not verify LendPool''
     (await (verifyPool (rpc B)) (\<lambda>check. ret (case check of
        PoolOk impl \<Rightarrow> None | PoolNotOk reason \<Rightarrow> Some (''Pool check failed. '' @ reason))))
     Some"

text \<open>\<open>None\<close> where the collection selected is not the escrow.\<close>

definition dust_lookup :: "'c browser \<Rightarrow> string \<Rightarrow> string \<Rightarrow> ('c, status option) page" where
  "dust_lookup B collection tokenId =
     (if js_lower collection \<noteq> js_lower (d_veNft DUST) then ret None
      else if \<not> isTokenId (js_trim tokenId) then ret (Some (Plain ''Token ID must be an unsigned integer.''))
      else reported ''Could not read lock''
        (await (readDustLock B (js_trim tokenId)) (\<lambda>lock.
         ret (Some (Ok ''DUST locked (reference only). Pool quote still comes from the oracle.''))))
        (\<lambda>m. Some (Err m)))"

end
