(* ===== verification/ClientLemmas.thy ===== *)
theory ClientLemmas
  imports AppJs
begin

text \<open>
  What the pages of the client do to the requests: which ask for no transaction (\<open>quiet\<close>), what
  \<open>sendTx\<close> asks for, and the transactions of every page, all from an account of the client to a
  contract that is allowed (\<open>lawful\<close>).
\<close>

section \<open>Runs of a sequence\<close>

text \<open>A sequence goes on after its first part, or stops where that part stopped.\<close>

lemma await_cases:
  assumes "await m f w = (r, w')"
  obtains (Ret) a w1 where "m w = (Ret a, w1)" and "f a w1 = (r, w')"
  | (Stop) r1 where "m w = (r1, w')" and "\<And>x. r1 \<noteq> Ret x" and "\<And>x. r \<noteq> Ret x"
  using assms by (cases "m w", cases "fst (m w)") (auto simp: await_def)

lemma await_getAddress: "await getAddress f s = f (cl_address s) s"
  by (simp add: await_def getAddress_def get_state_def)

lemma await_getProvider: "await getProvider f s = f (cl_provider s) s"
  by (simp add: await_def getProvider_def get_state_def)

lemma await_get_state: "await (get_state g) f s = f (g s) s"
  by (simp add: await_def get_state_def)

lemmas await_reads = await_getAddress await_getProvider await_get_state

section \<open>Reads\<close>

context client_rel begin

lemma keeps_pure [keeps_intros]:
  "keeps R (usdc_units n)" "keeps R (token_big t)" "keeps R (word h i)"
  "keeps R (word_or_zero raw)" "keeps R (pad_account a)" "keeps R (lower_opt v)"
  "keeps R (from_sum x)"
  unfolding usdc_units_def token_big_def word_def word_or_zero_def pad_account_def lower_opt_def from_sum_def
  by (auto intro!: keeps_intros split: sum.splits)

lemma keeps_receipt [keeps_intros]:
  "keeps R (ethCall B to1 data)" "keeps R (poll_receipt B hash n)" "keeps R (waitReceipt B hash)"
proof -
  show "keeps R (ethCall B to1 data)" by (simp add: ethCall_def keeps_node)
  have poll: "keeps R (poll_receipt B hash n)" for n
    by (induction n) (auto intro!: keeps_intros)
  show "keeps R (poll_receipt B hash n)" "keeps R (waitReceipt B hash)"
    by (simp_all add: poll waitReceipt_def)
qed

lemma keeps_reads [keeps_intros]:
  "keeps R (readOwner B c t)" "keeps R (assertOwnsNft B c t)" "keeps R (readPoolQuote B c)"
  "keeps R (readDebt B c t)" "keeps R (readUsdcBalance B a)" "keeps R (readBUsdcBalance B a)"
  unfolding readOwner_def readPoolQuote_def readDebt_def readUsdcBalance_def readBUsdcBalance_def
    assertOwnsNft_def
  by (intro keeps_intros)+

text \<open>When transactions are requests like others.\<close>

lemma keeps_sendTx_any:
  assumes "\<And>r. W r"
  shows "keeps R (sendTx B to1 data v)"
  unfolding sendTx_def walletCall_def
  by (intro keeps_intros keeps_wallet_request assms)

end

section \<open>What \<open>sendTx\<close> asks for\<close>

text \<open>At most one transaction, from the account at its start.\<close>

definition one_tx :: "string \<Rightarrow> string \<Rightarrow> string \<Rightarrow> 'c client \<Rightarrow> 'c client \<Rightarrow> bool" where
  "one_tx to1 data val1 s s' \<longleftrightarrow> cl_storage s' = cl_storage s \<and>
     (sent s' = sent s \<or>
      (\<exists>a. cl_address s = Some a \<and> a \<noteq> [] \<and> js_lower to1 \<in> set (allowed s) \<and>
         sent s' = sent s @ [tx_params a to1 data val1]))"

lemma walletCall_run:
  assumes "walletCall B ''eth_sendTransaction'' tx s = (r, s')"
  shows "cl_storage s' = cl_storage s \<and> (sent s' = sent s @ [tx] \<or> sent s' = sent s)"
proof (cases "cl_provider s")
  case None
  with assms show ?thesis by (simp add: walletCall_def await_reads throw_def)
next
  case (Some p)
  with assms have "await (ensureMonad B (Some p)) (\<lambda>_. wallet_request B p ''eth_sendTransaction'' tx) s = (r, s')"
    by (simp add: walletCall_def await_reads)
  then show ?thesis
  proof (cases rule: await_cases)
    case (Ret u s1)
    from keepsD [OF quiet.keeps_checks(1) Ret(1)] Ret(2) show ?thesis
      by (auto simp: wallet_request_def quiet_def split: prod.splits sum.splits)
  next
    case (Stop r1)
    from keepsD [OF quiet.keeps_checks(1) Stop(1)] show ?thesis by (simp add: quiet_def)
  qed
qed

lemma allowed_storage: "cl_storage s' VAULT_KEY = cl_storage s VAULT_KEY \<Longrightarrow> allowed s' = allowed s"
  by (simp add: allowed_def vault_target_def)

lemma quiet_allowed: "quiet s s' \<Longrightarrow> allowed s' = allowed s"
  by (rule allowed_storage) (simp add: quiet_def)

lemma one_tx_refl: "quiet s s' \<Longrightarrow> one_tx to1 data v s s'"
  by (simp add: one_tx_def quiet_def)

lemma sendTx_run:
  assumes "sendTx B to1 data val1 s = (r, s')"
  shows "one_tx to1 data (if val1 = [] then ''0x0'' else val1) s s'"
proof (cases "truthy (cl_address s)")
  case False
  with assms have "s' = s" by (simp add: sendTx_def await_reads throw_def)
  then show ?thesis by (simp add: one_tx_def)
next
  let ?v = "if val1 = [] then ''0x0'' else val1"
  case True
  then obtain a where a: "cl_address s = Some a" "a \<noteq> []" by (auto elim: truthyE)
  have "await (assertActiveAccount B a) (\<lambda>_. await (get_state allowed) (\<lambda>targets.
      if js_lower to1 \<notin> set targets then throw (JsError ''Refusing to send to an unknown contract'')
      else await (walletCall B ''eth_sendTransaction'' (tx_params a to1 data ?v)) (waitReceipt B))) s = (r, s')"
    using assms by (simp add: a sendTx_def await_reads cong: if_cong)
  then show ?thesis
  proof (cases rule: await_cases)
    case (Stop r1)
    from keepsD [OF quiet.keeps_checks(2) Stop(1)] show ?thesis by (rule one_tx_refl)
  next
    case (Ret u s1)
    have q: "quiet s s1" using quiet.keeps_checks(2) Ret(1) by (rule keepsD)
    show ?thesis
    proof (cases "js_lower to1 \<in> set (allowed s)")
      case False
      with Ret(2) quiet_allowed [OF q] have "s' = s1" by (simp add: await_reads throw_def)
      with q show ?thesis by (simp add: one_tx_refl)
    next
      case ok: True
      with Ret(2) quiet_allowed [OF q]
      have "await (walletCall B ''eth_sendTransaction'' (tx_params a to1 data ?v)) (waitReceipt B) s1 = (r, s')"
        by (simp add: await_reads)
      then show ?thesis
      proof (cases rule: await_cases)
        case (Ret h s2)
        note 2 = walletCall_run [OF Ret(1)]
        have 3: "quiet s2 s'" using quiet.keeps_receipt(3) Ret(2) by (rule keepsD)
        from q 2 3 a ok show ?thesis unfolding one_tx_def quiet_def by metis
      next
        case (Stop r2)
        from q walletCall_run [OF Stop(1)] a ok show ?thesis unfolding one_tx_def quiet_def by metis
      qed
    qed
  qed
qed

section \<open>Allowed transactions\<close>

text \<open>
  A transaction on Monad, from an account that is not empty, to a contract of the list \<open>targets\<close>.
\<close>

definition tx_ok :: "string list \<Rightarrow> js_value list \<Rightarrow> bool" where
  "tx_ok targets tx \<longleftrightarrow> (\<exists>from to1 data val1. tx = tx_params from to1 data val1 \<and> from \<noteq> [] \<and>
     js_lower to1 \<in> set targets)"

definition lawful :: "'c client \<Rightarrow> 'c client \<Rightarrow> bool" where
  "lawful s s' \<longleftrightarrow> cl_storage s' VAULT_KEY = cl_storage s VAULT_KEY \<and>
     (\<exists>txs. sent s' = sent s @ txs \<and> (\<forall>tx \<in> set txs. tx_ok (allowed s) tx))"

lemma lawful_trans: "lawful s1 s2 \<Longrightarrow> lawful s2 s3 \<Longrightarrow> lawful s1 s3"
  unfolding lawful_def using allowed_storage [of s2 s1] by fastforce

lemma lawful_sendTx: "keeps lawful (sendTx B to1 data v)"
proof (rule keepsI)
  fix s r s'
  assume "sendTx B to1 data v s = (r, s')"
  from sendTx_run [OF this] show "lawful s s'"
    by (fastforce simp: one_tx_def lawful_def tx_ok_def)
qed

section \<open>What the pages keep\<close>

text \<open>
  The interface between \<open>sendTx\<close> and the pages that send with it: a relation it keeps is kept by
  all of them.
\<close>

locale sender_rel = client_rel R W
  for R :: "'c client \<Rightarrow> 'c client \<Rightarrow> bool" and W :: "request \<Rightarrow> bool" +
  fixes B :: "'c browser"
  assumes keeps_sendTx [keeps_intros]: "keeps R (sendTx B to1 data v)"
begin

lemma keeps_approvals [keeps_intros]:
  "keeps R (ensureErc20Allowance B token spender n)" "keeps R (ensureNftApproved B nft t)"
  unfolding ensureErc20Allowance_def ensureNftApproved_def by (intro keeps_intros)+

lemma keeps_pool [keeps_intros]:
  "keeps R (supplyUsdc B n1)" "keeps R (borrowUsdc B nft t n1)" "keeps R (repayLoan B nft t n2)"
  unfolding supplyUsdc_def borrowUsdc_def repayLoan_def by (intro keeps_intros)+

lemma keeps_vault [keeps_intros]:
  "keeps R (require_stored a)" "keeps R (transferNftToVault B c t a)" "keeps R (fundVaultForGas B a mon)"
proof -
  show r: "keeps R (require_stored a)" for a
    unfolding require_stored_def loadVaultRecord_def by (intro keeps_intros)
  show "keeps R (transferNftToVault B c t a)" unfolding transferNftToVault_def
    by (intro keeps_intros r)
  show "keeps R (fundVaultForGas B a mon)" unfolding fundVaultForGas_def
    by (intro keeps_intros r) simp
qed

lemma keeps_poll_owner [keeps_intros]:
  "keeps R (poll_owner B c t a start timeoutMs n)" "keeps R (waitUntilVaultOwns B n c t a timeoutMs)"
proof -
  show p: "keeps R (poll_owner B c t a start timeoutMs n)" for start
    by (induction n) (auto intro!: keeps_intros)
  show "keeps R (waitUntilVaultOwns B n c t a timeoutMs)"
    unfolding waitUntilVaultOwns_def by (intro keeps_intros p)
qed

end

interpretation lawful: sender_rel lawful "\<lambda>r. tx_of r = None" B for B
proof unfold_locales
  show "lawful s s" for s :: "'c client" by (simp add: lawful_def)
  show "lawful s1 s3" if "lawful s1 s2" "lawful s2 s3" for s1 s2 s3 :: "'c client"
    using that by (rule lawful_trans)
  show "lawful s (resumed r evs c s)" if "tx_of r = None" for r evs c and s :: "'c client"
    using that by (simp add: lawful_def)
qed (simp_all add: lawful_sendTx)

lemma lawful_storage: "k \<noteq> VAULT_KEY \<Longrightarrow>
    keeps lawful (set_state (\<lambda>s. s\<lparr>cl_storage := (cl_storage s)(k \<mapsto> f s)\<rparr>))"
  by (simp add: keeps_def set_state_def lawful_def sent_def)

lemma lawful_savePosition [keeps_intros]: "keeps lawful (savePosition pos)"
proof -
  have "keeps lawful (other_positions pos ps)" for ps
    by (induction ps) (auto intro!: keeps_intros)
  then show ?thesis unfolding savePosition_def loadPositions_def
    by (intro keeps_intros lawful_storage) (simp_all add: POS_KEY_def VAULT_KEY_def)
qed

lemma lawful_outside [keeps_intros]: "keeps lawful (outside f)"
proof -
  have "lawful s (deliver evs (s\<lparr>cl_outside := c\<rparr>))" for evs c and s :: "'c client"
    by (simp add: lawful_def sent_def)
  then show ?thesis
    by (auto simp: keeps_def outside_def split: prod.splits sum.splits)
qed

lemma lawful_packages [keeps_intros]:
  "keeps lawful (import_module K n)" "keeps lawful (contract_call K k a m xs)"
proof -
  show "keeps lawful (import_module K n)" by (simp add: import_module_def lawful_outside)
  show "keeps lawful (contract_call K k a m xs)"
    by (auto simp: keeps_def contract_call_def lawful.rel_resumed split: prod.splits sum.splits)
qed

lemma lawful_handlers [keeps_intros]:
  "keeps lawful (supply_submit B field)" "keeps lawful (repay_click B c t)"
  "keeps lawful (borrow_confirm B d u)" "keeps lawful (borrowFromVault K secret a c t n)"
proof -
  have r: "keeps lawful requireWallet" unfolding requireWallet_def by (intro keeps_intros)
  have u: "keeps lawful (updateTermsQuote u d)" unfolding updateTermsQuote_def by (intro keeps_intros)
  show "keeps lawful (supply_submit B field)" "keeps lawful (repay_click B c t)"
    "keeps lawful (borrow_confirm B d u)"
    unfolding supply_submit_def repay_click_def borrow_confirm_def reported_def by (intro keeps_intros r u)+
  show "keeps lawful (borrowFromVault K secret a c t n)"
    unfolding borrowFromVault_def by (intro keeps_intros)
qed

section \<open>The transactions of one page\<close>

lemma keeps_sends_sendTx:
  assumes "\<And>a. P (tx_params a to1 data (if v = [] then ''0x0'' else v))"
  shows "keeps (sends_only P) (sendTx B to1 data v)"
proof (rule keepsI)
  fix s r s'
  assume "sendTx B to1 data v s = (r, s')"
  from sendTx_run [OF this] assms show "sends_only P s s'"
    by (auto simp: one_tx_def sends_only_def)
qed

text \<open>The account named in the calldata is the account that sends: nothing happens in between.\<close>

lemma keeps_sends_as:
  assumes "\<And>a. P (tx_params a to1 (f (padAddr a)) ''0x0'')" and "\<And>m. keeps (sends_only P) (g m)"
  shows "keeps (sends_only P) (await getAddress (\<lambda>who. await (pad_account who) (\<lambda>account.
    await (sendTx B to1 (f account) ''0x0'') g)))"
proof (rule keepsI)
  fix s r s'
  assume run: "await getAddress (\<lambda>who. await (pad_account who) (\<lambda>account.
    await (sendTx B to1 (f account) ''0x0'') g)) s = (r, s')"
  show "sends_only P s s'"
  proof (cases "cl_address s")
    case None
    with run have "throw (TypeError ''Cannot read properties of null'') s = (r, s')"
      by (simp add: await_reads pad_account_def)
    then show ?thesis by (simp add: throw_def sends_only_def)
  next
    case (Some a)
    with run have "await (sendTx B to1 (f (padAddr a)) ''0x0'') g s = (r, s')"
      by (simp add: await_reads pad_account_def)
    then show ?thesis
    proof (cases rule: await_cases)
      case (Ret m s1)
      have "sends_only P s s1" using sendTx_run [OF Ret(1)] Some assms(1)
        by (auto simp: one_tx_def sends_only_def)
      then show ?thesis using keepsD [OF assms(2) Ret(2)] by (rule txs.rel_trans)
    next
      case (Stop r1)
      then show ?thesis using sendTx_run [OF Stop(1)] Some assms(1)
        by (auto simp: one_tx_def sends_only_def)
    qed
  qed
qed

lemma sendTx_Ret:
  assumes "sendTx B to1 data v s = (Ret m, s')"
  shows "\<exists>a. cl_address s = Some a \<and> sent s' = sent s @ [tx_params a to1 data (if v = [] then ''0x0'' else v)]"
proof -
  let ?v = "if v = [] then ''0x0'' else v"
  from assms obtain a s1 h s2 p s3 where a: "cl_address s = Some a"
    and 1: "assertActiveAccount B a s = (Ret (), s1)"
    and 2: "ensureMonad B (Some p) s1 = (Ret (), s3)"
    and 3: "wallet_request B p ''eth_sendTransaction'' (tx_params a to1 data ?v) s3 = (Ret h, s2)"
    and 4: "waitReceipt B h s2 = (Ret m, s')"
    by (auto simp: sendTx_def walletCall_def run_simps truthy_def throw_def await_reads
        split: if_splits option.splits)
  have "sent s2 = sent s3 @ [tx_params a to1 data ?v]"
    using 3 by (auto simp: wallet_request_def split: prod.splits sum.splits)
  moreover have "quiet s s1" "quiet s1 s3" "quiet s2 s'"
    using 1 2 4 quiet.keeps_checks quiet.keeps_receipt(3) by (blast intro: keepsD)+
  ultimately show ?thesis using a by (simp add: quiet_def)
qed

end
