(* ===== verification/ClientExamples.thy ===== *)
theory ClientExamples
  imports ClientLemmas
begin

text \<open>
  A concrete browser and client, on which the properties of the client are tried out, and how their
  pages run.
\<close>

section \<open>A browser for the examples\<close>

text \<open>
  The wallet holds one account, is on Monad and signs everything; every word the node answers is the
  number 170, which is also the account; every transaction is mined at once; the state is the clock.
\<close>

definition demo_account :: string where
  "demo_account = ''0x'' @ replicate 38 (CHR ''0'') @ ''aa''"

definition demo_words :: string where
  "demo_words = ''0x'' @ concat (replicate 6 (padAddr demo_account))"

definition demo_request :: "nat \<Rightarrow> string \<Rightarrow> js_value list \<Rightarrow> nat
    \<Rightarrow> (js_error + js_value) \<times> wallet_event list \<times> nat" where
  "demo_request p m params c = (Inr
     (if m = ''eth_chainId'' then Str (chainIdHex config)
      else if m = ''eth_accounts'' then Arr [Str demo_account]
      else if m = ''eth_sendTransaction'' then Str ''0x01''
      else if m = ''eth_getBalance'' then Str ''0x0'' else Undef), [], c)"

definition demo_fetch :: "string \<Rightarrow> js_value list \<Rightarrow> nat
    \<Rightarrow> (js_error + (string option \<times> js_value)) \<times> wallet_event list \<times> nat" where
  "demo_fetch m params c = (Inr (None,
     if m = ''eth_getTransactionReceipt'' then Obj [(''status'', Str ''0x1'')]
     else Str demo_words), [], c)"

definition demo_browser :: "nat browser" where
  "demo_browser = \<lparr>b_request = demo_request, b_fetch = demo_fetch, b_sleep = (\<lambda>ms c. ([], c + ms)),
     b_now = (\<lambda>c. c), b_ethereum = None, b_wc_init = (\<lambda>c. (Inl (JsError ''''), [], c)),
     b_wc_session = (\<lambda>p c. False), b_wc_accounts = (\<lambda>p c. [])\<rparr>"

definition demo_client :: "nat client" where
  "demo_client = \<lparr>cl_address = Some demo_account, cl_provider = Some 0, cl_wc = None, cl_injected = [],
     cl_session = Map.empty, cl_storage = Map.empty, cl_outside = 0, cl_requests = []\<rparr>"

section \<open>Runs on it\<close>

definition demo_ready :: "nat client \<Rightarrow> bool" where
  "demo_ready s \<longleftrightarrow> cl_address s = Some demo_account \<and> cl_provider s = Some 0 \<and> cl_storage s = Map.empty"

lemma demo_resumed [simp]: "demo_ready s \<Longrightarrow> demo_ready (resumed r [] c s)"
  by (simp add: demo_ready_def resumed_def)

lemma demo_readyD [simp]:
  "demo_ready s \<Longrightarrow> cl_address s = Some demo_account" "demo_ready s \<Longrightarrow> cl_provider s = Some 0"
  "demo_ready s \<Longrightarrow> allowed s = allowed demo_client"
  by (simp_all add: demo_ready_def demo_client_def allowed_def vault_target_def)

lemma runs_demo_request [simp]: "runs (wallet_request demo_browser p m ps) s Q \<longleftrightarrow>
    (case fst (demo_request p m ps 0) of Inr v \<Rightarrow> Q v (resumed (Wallet p m ps) [] (cl_outside s) s) | _ \<Rightarrow> False)"
  by (simp add: runs_def wallet_request_def demo_browser_def demo_request_def)

lemma runs_demo_rpc [simp]: "runs (rpc demo_browser m ps) s Q \<longleftrightarrow>
    Q (if m = ''eth_getTransactionReceipt'' then Obj [(''status'', Str ''0x1'')] else Str demo_words)
      (resumed (Rpc m ps) [] (cl_outside s) s)"
  by (simp add: runs_def rpc_def fetch_rpc_def await_def ret_def demo_browser_def demo_fetch_def)

lemma runs_reads [simp]:
  "runs getAddress s Q1 \<longleftrightarrow> Q1 (cl_address s) s" "runs getProvider s Q2 \<longleftrightarrow> Q2 (cl_provider s) s"
  "runs (get_state f) s Q3 \<longleftrightarrow> Q3 (f s) s"
  by (auto simp: runs_def run_simps)

lemma runs_values [simp]:
  "runs (as_string (Str t)) s Q1 \<longleftrightarrow> Q1 t s" "runs (or_throw m (Some x)) s Q2 \<longleftrightarrow> Q2 x s"
  "runs (pad_account (Some t)) s Q1 \<longleftrightarrow> Q1 (padAddr t) s"
  by (auto simp: runs_def run_simps)

lemma runs_demo_sendTx:
  assumes "demo_ready s" "js_lower to1 \<in> set (allowed demo_client)" 
    "\<And>s'. demo_ready s' \<Longrightarrow> Q (Str ''0x01'', Obj [(''status'', Str ''0x1'')]) s'"
  shows "runs (sendTx demo_browser to1 data v) s Q"
proof -
  have [simp]: "demo_account \<noteq> []" by (simp add: demo_account_def)
  have 1: "runs (ensureMonad demo_browser (Some 0)) s Q" if "demo_ready s" "\<And>s'. demo_ready s' \<Longrightarrow> Q () s'" for s Q
    unfolding ensureMonad_def option.case runs_await_iff
    by (rule runs_try_catch) (use that in \<open>simp add: demo_request_def on_monad_def\<close>)
  have 2: "runs (assertActiveAccount demo_browser demo_account) s Q" if "demo_ready s" "\<And>s'. demo_ready s' \<Longrightarrow> Q () s'" for s Q
    using that by (simp add: assertActiveAccount_def demo_request_def on_monad_def readChainId_def as_array_def)
  show ?thesis using assms
    by (auto simp: sendTx_def walletCall_def demo_request_def waitReceipt_def eval_nat_numeral member_of_def intro!: 1 2)
qed

lemma isHexAddress_demo: "isHexAddress demo_account"
  by (simp add: isHexAddress_def is_0x_def demo_account_def numeral_eq_Suc is_hex_def hex_digit_value_def)

lemma address_value_demo: "address_value demo_account = 170"
proof -
  have "drop 2 demo_account = replicate 38 (CHR ''0'') @ ''aa''" by (simp add: demo_account_def)
  moreover have "radix_value 16 ''aa'' = 170" by (simp add: radix_value_def hex_digit_value_def)
  ultimately show ?thesis by (simp only: address_value_def radix_value_zeros)
qed

lemma demo_word: "i < 6 \<Longrightarrow> word demo_words i = ret 170"
  unfolding demo_words_def using padAddr_word [OF isHexAddress_demo]
  by (subst word_of_words) (auto simp: address_value_demo)

lemma demo_words: "\<not> no_data (Str demo_words)"
proof -
  have "padAddr demo_account \<noteq> []" using padAddr_word(1) [OF isHexAddress_demo] by auto
  then show ?thesis by (simp add: no_data_def demo_words_def numeral_eq_Suc)
qed

lemma demo_allowed:
  "js_lower (lendPoolAddress config) \<in> set (allowed demo_client)"
  "js_lower (usdcAddress config) \<in> set (allowed demo_client)"
  "c \<in> set COLLECTIONS \<Longrightarrow> js_lower (c_address c) \<in> set (allowed demo_client)"
  by (auto simp: allowed_def)

lemma runs_demo_allowance:
  assumes "demo_ready s" "\<And>m s'. demo_ready s' \<Longrightarrow> Q m s'"
  shows "runs (ensureErc20Allowance demo_browser (usdcAddress config) (lendPoolAddress config) n) s Q"
  using assms by (auto simp: ensureErc20Allowance_def ethCall_def word_or_zero_def demo_words demo_word
      intro!: runs_demo_sendTx demo_allowed)

lemma demo_ready: "demo_ready demo_client"
  by (simp add: demo_ready_def demo_client_def)

end
