(* ===== verification/ClientProperties.thy ===== *)
theory ClientProperties
  imports ClientExamples
begin

text \<open>
  The properties of the web client.  A page is given any browser, so each holds whatever the wallet
  and the node answer, and whatever events come with the answers.
\<close>

section \<open>Transactions\<close>


text \<open>What the node answered to the request for the pool's quote of a collection.\<close>

definition quoted :: "'c browser \<Rightarrow> string \<Rightarrow> int \<Rightarrow> bool" where
  "quoted B nftAsset available \<longleftrightarrow> (\<exists>c h evs c'.
     b_fetch B ''eth_call'' [Obj [(''to'', Str (lendPoolAddress config)),
         (''data'', Str (SEL_getNftCollateralData @ padAddr nftAsset @ padAddr (usdcAddress config)))],
       Str ''latest''] c = (Inr (None, Str h), evs, c') \<and>
     big_of_text (''0x'' @ js_slice (2 + 3 * 64) (2 + 4 * 64) h) = Some available)"

lemma rpc_Ret: "rpc B m params s = (Ret v, s') \<Longrightarrow>
    \<exists>evs c. b_fetch B m params (cl_outside s) = (Inr (None, v), evs, c)"
  by (auto simp: rpc_def fetch_rpc_def run_simps throw_def split: prod.splits sum.splits option.splits)

lemma readPoolQuote_Ret: "readPoolQuote B nft s = (Ret q, s') \<Longrightarrow> quoted B nft (availableReserve q)"
  by (fastforce simp: readPoolQuote_def ethCall_def run_simps throw_def word_def quoted_def
      dest!: rpc_Ret split: if_splits)

definition nft_approval :: "string \<Rightarrow> int \<Rightarrow> js_value list \<Rightarrow> bool" where
  "nft_approval nft i tx \<longleftrightarrow>
     (\<exists>a. tx = tx_params a nft (approve_data (lendPoolAddress config) i) ''0x0'')"

definition borrow_tx :: "'c browser \<Rightarrow> string \<Rightarrow> int \<Rightarrow> amount \<Rightarrow> js_value list \<Rightarrow> bool" where
  "borrow_tx B nft i amt tx \<longleftrightarrow> (\<exists>a units available.
     tx = tx_params a (lendPoolAddress config) (borrow_data units nft i (padAddr a)) ''0x0'' \<and>
     scaled_units (amount_num amt) = Some units \<and> 0 < units \<and> units \<le> available \<and> quoted B nft available)"

text \<open>C3: borrowing asks for no transaction but an approval of the token for the pool and the borrow
  itself, for the amount entered, positive and at most what the pool quoted, in favour of the account
  that sends it, even if the account changes on the way.\<close>

theorem borrow_within_quote:
  "keeps (sends_only (\<lambda>tx. \<exists>i. big_of_text tokenId = Some i \<and>
      (nft_approval nft i tx \<or> borrow_tx B nft i amt tx)))
     (borrowUsdc B nft tokenId amt)"
proof -
  let ?P = "\<lambda>tx. \<exists>i. big_of_text tokenId = Some i \<and> (nft_approval nft i tx \<or> borrow_tx B nft i amt tx)"
  have approve: "keeps (sends_only ?P) (ensureNftApproved B nft tokenId)"
    unfolding ensureNftApproved_def
    by (intro txs.keeps_await_in txs.keeps_if txs.keeps_ret txs.keeps_receipt txs.keeps_values
        txs.keeps_pure keeps_sends_sendTx)
      (auto simp: token_big_def run_simps nft_approval_def)
  have borrow: "keeps (sends_only ?P) (await getAddress (\<lambda>who. await (pad_account who) (\<lambda>account.
      await (sendTx B (lendPoolAddress config) (borrow_data units nft i account) ''0x0'') (\<lambda>borrow.
      ret \<lparr>b_approve = m, b_borrow = borrow\<rparr>))))"
    if "big_of_text tokenId = Some i" "scaled_units (amount_num amt) = Some units" "0 < units"
      "units \<le> availableReserve q" "quoted B nft (availableReserve q)" for i units q m
    by (rule keeps_sends_as [where f = "borrow_data units nft i"])
      (use that in \<open>auto simp: borrow_tx_def intro: txs.keeps_ret\<close>)
  show ?thesis
    unfolding borrowUsdc_def
    by (intro txs.keeps_if_in txs.keeps_throw txs.keeps_await_in [OF txs.keeps_pure(1)]
        txs.keeps_await_in [OF txs.keeps_reads(2)] txs.keeps_await_in [OF txs.keeps_reads(3)]
        txs.keeps_await_in [OF approve] txs.keeps_await_in [OF txs.keeps_pure(2)] borrow)
      (auto simp: usdc_units_def token_big_def run_simps dest: readPoolQuote_Ret)
qed

text \<open>The transactions of a call that approves \<open>spender\<close> for an amount of USDC, if it is short.\<close>

definition usdc_approval :: "int \<Rightarrow> mined option \<Rightarrow> js_value list list \<Rightarrow> bool" where
  "usdc_approval n m txs \<longleftrightarrow> (case m of None \<Rightarrow> txs = []
     | Some _ \<Rightarrow> \<exists>a. txs = [tx_params a (usdcAddress config)
         (approve_data (lendPoolAddress config) n) ''0x0''])"

lemma ensureErc20Allowance_Ret:
  assumes "ensureErc20Allowance B (usdcAddress config) (lendPoolAddress config) n s = (Ret m, s')"
  shows "\<exists>txs. sent s' = sent s @ txs \<and> usdc_approval n m txs"
proof -
  from assms obtain o1 s1 raw s2 current s3
    where 1: "ethCall B (usdcAddress config)
        (SEL_allowance @ o1 @ padAddr (lendPoolAddress config)) s = (Ret raw, s1)"
      and 2: "word_or_zero raw s1 = (Ret current, s2)"
      and 3: "(if n \<le> current then ret None
        else await (sendTx B (usdcAddress config) (approve_data (lendPoolAddress config) n) ''0x0'')
          (\<lambda>m. ret (Some m))) s2 = (Ret m, s')"
    by (auto simp: ensureErc20Allowance_def await_Ret_iff getAddress_Ret_iff pad_account_Ret_iff)
  have "quiet s s1" "quiet s1 s2"
    using 1 2 quiet.keeps_receipt(1) quiet.keeps_pure(4) by (blast intro: keepsD)+
  moreover from 3 have "m = None \<and> s' = s2 \<or> (\<exists>m1 a. m = Some m1 \<and>
      sent s' = sent s2 @ [tx_params a (usdcAddress config) (approve_data (lendPoolAddress config) n) ''0x0''])"
    by (fastforce simp: run_simps dest: sendTx_Ret split: if_splits)
  ultimately show ?thesis by (auto simp: quiet_def usdc_approval_def)
qed

text \<open>C15: an amount of USDC typed with six decimals, below a billion, is deposited to the last unit:
  a supply that returns has asked for the approval of exactly that amount, if the allowance was short,
  and then for the deposit of it in favour of its sender.\<close>

theorem supply_exact_amount:
  assumes "k < 2 ^ 50" and "supplyUsdc B (AmountText (amount_text k)) s = (Ret d, s')"
  shows "\<exists>txs a. sent s' = sent s @ txs @
      [tx_params a (lendPoolAddress config) (deposit_data (int k) (padAddr a)) ''0x0''] \<and>
    usdc_approval (int k) (s_approve d) txs"
proof -
  have units: "scaled_units (amount_num (AmountText (amount_text k))) = Some (int k)"
    using assms(1) by (simp add: js_number_amount_text scaled_units_exact)
  from assms(2) obtain m s1 a mined
    where 1: "ensureErc20Allowance B (usdcAddress config) (lendPoolAddress config) (int k) s = (Ret m, s1)"
      and a: "cl_address s1 = Some a"
      and 2: "sendTx B (lendPoolAddress config) (deposit_data (int k) (padAddr a)) ''0x0'' s1 = (Ret mined, s')"
      and d: "d = \<lparr>s_approve = m, s_deposit = mined\<rparr>"
    unfolding supplyUsdc_def usdc_units_def units
    by (auto simp: await_Ret_iff getAddress_Ret_iff pad_account_Ret_iff or_throw_def throw_def ret_Ret_iff
        split: if_splits)
  from sendTx_Ret [OF 2] a have "sent s' = sent s1 @
      [tx_params a (lendPoolAddress config) (deposit_data (int k) (padAddr a)) ''0x0'']"
    by auto
  with ensureErc20Allowance_Ret [OF 1] d show ?thesis by auto
qed

theorem supply_exact_amount_witness:
  "\<exists>d s' txs a. supplyUsdc demo_browser (AmountText (amount_text 1500000)) demo_client = (Ret d, s') \<and>
     sent s' = sent demo_client @ txs @
       [tx_params a (lendPoolAddress config) (deposit_data 1500000 (padAddr a)) ''0x0''] \<and>
     usdc_approval 1500000 (s_approve d) txs"
proof -
  have "scaled_units (js_number (amount_text 1500000)) = Some 1500000"
    unfolding js_number_amount_text by (subst scaled_units_exact) simp_all
  then have "runs (supplyUsdc demo_browser (AmountText (amount_text 1500000))) demo_client (\<lambda>_ _. True)"
    using demo_ready
    by (auto simp: supplyUsdc_def usdc_units_def intro!: runs_demo_allowance runs_demo_sendTx demo_allowed)
  then obtain d s' where run: "supplyUsdc demo_browser (AmountText (amount_text 1500000)) demo_client = (Ret d, s')"
    by (auto simp: runs_def)
  from supply_exact_amount [OF _ run] run show ?thesis by auto
qed

text \<open>C22: a repayment without an amount repays the debt: a run that returns has read a loan and a debt
  that are not zero, and has asked for the approval of the debt in USDC, if the allowance was short,
  and then for its repayment.\<close>

theorem repayment_is_the_debt:
  assumes "repayLoan B nft tokenId None s = (Ret x, s')"
  shows "\<exists>d s1 i txs a. readDebt B nft tokenId s = (Ret d, s1) \<and> loanId d \<noteq> 0 \<and> totalDebt d \<noteq> 0 \<and>
    big_of_text tokenId = Some i \<and> sent s' = sent s @ txs @
      [tx_params a (lendPoolAddress config) (repay_data nft i (totalDebt d)) ''0x0''] \<and>
    usdc_approval (totalDebt d) (r_approve x) txs"
proof -
  from assms obtain d s1 m s2 i mined
    where 1: "readDebt B nft tokenId s = (Ret d, s1)" and d: "loanId d \<noteq> 0" "totalDebt d \<noteq> 0"
      and 2: "ensureErc20Allowance B (usdcAddress config) (lendPoolAddress config) (totalDebt d) s1 = (Ret m, s2)"
      and i: "big_of_text tokenId = Some i"
      and 3: "sendTx B (lendPoolAddress config) (repay_data nft i (totalDebt d)) ''0x0'' s2 = (Ret mined, s')"
      and x: "r_approve x = m"
    by (auto simp: repayLoan_def await_Ret_iff ret_Ret_iff token_big_def or_throw_Ret_iff throw_def
        split: if_splits)
  have "quiet s s1" using quiet.keeps_reads(4) 1 by (rule keepsD)
  with ensureErc20Allowance_Ret [OF 2] sendTx_Ret [OF 3] 1 d i x show ?thesis
    by (auto simp: quiet_def)
qed

theorem repayment_is_the_debt_witness:
  "\<exists>x s' d s1 txs a. repayLoan demo_browser (lendPoolLoan config) ''7'' None demo_client = (Ret x, s') \<and>
     readDebt demo_browser (lendPoolLoan config) ''7'' demo_client = (Ret d, s1) \<and>
     loanId d \<noteq> 0 \<and> totalDebt d \<noteq> 0 \<and> sent s' = sent demo_client @ txs @
       [tx_params a (lendPoolAddress config) (repay_data (lendPoolLoan config) 7 (totalDebt d)) ''0x0''] \<and>
     usdc_approval (totalDebt d) (r_approve x) txs"
proof -
  have "isTokenId ''7''" by (simp add: isTokenId_def is_digit_def)
  moreover from token_big_digits [OF this] have "big_of_text ''7'' = Some 7" by (simp add: dec_value_def)
  ultimately have seven: "isTokenId ''7''" "big_of_text ''7'' = Some 7" .
  have "runs (repayLoan demo_browser (lendPoolLoan config) ''7'' None) demo_client (\<lambda>_ _. True)"
    using demo_ready seven
    by (auto simp: repayLoan_def readDebt_def token_big_def ethCall_def demo_words demo_word
        intro!: runs_demo_allowance runs_demo_sendTx demo_allowed)
  then obtain x s' where run: "repayLoan demo_browser (lendPoolLoan config) ''7'' None demo_client = (Ret x, s')"
    by (auto simp: runs_def)
  from repayment_is_the_debt [OF run] run seven(2) show ?thesis by auto
qed









section \<open>Calldata\<close>

text \<open>The \<open>i\<close>-th argument of a call, as a contract reads it: the word after the selector.\<close>

definition calldata_arg :: "string \<Rightarrow> nat \<Rightarrow> nat" where
  "calldata_arg data i = radix_value 16 (js_slice (10 + i * 64) (10 + (i + 1) * 64) data)"

lemma calldata_args:
  assumes "length sel = 10" and "\<forall>w \<in> set ws. length w = 64"
  shows "map (calldata_arg (sel @ concat ws)) [0..<length ws] = map (radix_value 16) ws"
proof -
  have "calldata_arg (sel @ concat ws) i = radix_value 16 (ws ! i)" if "i < length ws" for i
    unfolding calldata_arg_def slice_words [OF assms(2) that assms(1)] ..
  then show ?thesis by (intro nth_equalityI) simp_all
qed

lemma length_words: "\<forall>w \<in> set ws. length w = 64 \<Longrightarrow> length (concat ws) = 64 * length ws"
  by (induction ws) simp_all

lemma isHexAddress_config:
  "isHexAddress (usdcAddress config)" "isHexAddress (lendPoolAddress config)"
  by (simp_all add: isHexAddress_def is_0x_def config_def is_hex_def hex_digit_value_def)

text \<open>C16: the calldata of a borrow has one word per argument, and reading them back gives the
  arguments: USDC, the amount, the collection, the token, the account and no referral; for any
  amount and token below 2^256 and any two addresses.\<close>

theorem borrow_calldata_roundtrip:
  assumes "0 \<le> units" "units < 2 ^ 256" and "0 \<le> i" "i < 2 ^ 256"
    and "isHexAddress nft" and "isHexAddress who"
  shows "take 10 (borrow_data units nft i (padAddr who)) = SEL_borrow \<and>
    length (borrow_data units nft i (padAddr who)) = 10 + 6 * 64 \<and>
    map (calldata_arg (borrow_data units nft i (padAddr who))) [0..<6] =
      [address_value (usdcAddress config), nat units, address_value nft, nat i, address_value who, 0]"
proof -
  let ?ws = "[padAddr (usdcAddress config), padUint units, padAddr nft, padUint i, padAddr who, padUint 0]"
  have data: "borrow_data units nft i (padAddr who) = SEL_borrow @ concat ?ws"
    by (simp add: borrow_data_def)
  have words: "\<forall>w \<in> set ?ws. length w = 64"
    using assms padAddr_word(1) padUint_word(1) isHexAddress_config by simp
  have sel: "length SEL_borrow = 10" by (simp add: SEL_defs)
  have "map (calldata_arg (SEL_borrow @ concat ?ws)) [0..<length ?ws] = map (radix_value 16) ?ws"
    using sel words by (rule calldata_args)
  moreover have "map (radix_value 16) ?ws =
      [address_value (usdcAddress config), nat units, address_value nft, nat i, address_value who, 0]"
    using assms padAddr_word(3) padUint_word(3) isHexAddress_config by simp
  moreover have "length ?ws = 6" by simp
  ultimately show ?thesis
    unfolding data using sel length_words [OF words] by (metis append_eq_conv_conj length_append mult.commute)
qed

theorem borrow_calldata_roundtrip_witness:
  "map (calldata_arg (borrow_data 5 demo_account 7 (padAddr demo_account))) [0..<6] =
     [address_value (usdcAddress config), 5, 170, 7, 170, 0]"
  using borrow_calldata_roundtrip [of 5 7 demo_account demo_account] isHexAddress_demo
  by (simp add: address_value_demo)

text \<open>C34: a token id of up to 78 digits is accepted, but not every such number fits a word: the word
  of an accepted id has 64 digits exactly when the number is below 2^256, and the largest accepted
  ids are not, so that their words have 65 digits and shift every argument after them.\<close>

theorem token_id_word:
  "(\<forall>t. isTokenId t \<longrightarrow> (length (padUint (int (dec_value t))) = 64 \<longleftrightarrow> dec_value t < 2 ^ 256)) \<and>
   isTokenId (replicate 78 (CHR ''9'')) \<and>
   length (padUint (int (dec_value (replicate 78 (CHR ''9''))))) = 65"
proof (intro conjI allI impI)
  have len: "length (padUint (int n)) = 64 \<longleftrightarrow> n < 2 ^ 256" for n
  proof -
    have "length (padUint (int n)) = 64 \<longleftrightarrow> length (hex n) \<le> 64"
      by (auto simp: padUint_def big_hex_nonneg)
    also have "\<dots> \<longleftrightarrow> n < 16 ^ 64" using length_hex_le [of 64 n] by simp
    finally show ?thesis by simp
  qed
  show "length (padUint (int (dec_value t))) = 64 \<longleftrightarrow> dec_value t < 2 ^ 256" for t
    by (rule len)
  show "isTokenId (replicate 78 (CHR ''9''))"
    by (simp add: isTokenId_def list_all_iff is_digit_def)
  have "dec_value (replicate n (CHR ''9'')) + 1 = 10 ^ n" for n
    by (induction n) (simp_all add: dec_value_append [of "[CHR ''9'']", simplified] replicate_append_same [symmetric] dec_value_def is_digit_def)
  then have v: "dec_value (replicate 78 (CHR ''9'')) = 10 ^ 78 - 1" by (metis add_diff_cancel_right')
  have "\<not> length (hex (10 ^ 78 - 1)) \<le> 64" "length (hex (10 ^ 78 - 1)) \<le> 65"
    using length_hex_le [of 64 "10 ^ 78 - 1"] length_hex_le [of 65 "10 ^ 78 - 1"] by simp_all
  then show "length (padUint (int (dec_value (replicate 78 (CHR ''9''))))) = 65"
    unfolding v by (simp add: padUint_def big_hex_nonneg)
qed

theorem token_id_word_witness:
  "isTokenId ''7'' \<and> length (padUint (int (dec_value ''7''))) = 64"
proof -
  have "isTokenId ''7''" "dec_value ''7'' < 2 ^ 256"
    by (simp_all add: isTokenId_def is_digit_def dec_value_def)
  with token_id_word show ?thesis by blast
qed

section \<open>Waiting\<close>

text \<open>The requests of a page, beyond those before it.\<close>

definition asks :: "(request list \<Rightarrow> bool) \<Rightarrow> 'c client \<Rightarrow> 'c client \<Rightarrow> bool" where
  "asks P s s' \<longleftrightarrow> (\<exists>rs. cl_requests s' = cl_requests s @ rs \<and> P rs)"

lemma fetch_requests: "rpc B m ps s = (r, s') \<Longrightarrow> cl_requests s' = cl_requests s @ [Rpc m ps]"
  by (auto simp: rpc_def fetch_rpc_def await_def ret_def throw_def
      split: prod.splits sum.splits option.splits)

lemma sleep_requests: "sleep B ms s = (r, s') \<Longrightarrow> r = Ret () \<and> cl_requests s' = cl_requests s @ [Sleep ms]"
  by (auto simp: sleep_def split: prod.splits)

text \<open>The requests of \<open>k\<close> rounds without a receipt.\<close>

definition rounds :: "js_value \<Rightarrow> nat \<Rightarrow> request list" where
  "rounds hash k = concat (replicate k [Rpc ''eth_getTransactionReceipt'' [hash], Sleep 1500])"

lemma rounds_Suc: "rounds hash (Suc k) = Rpc ''eth_getTransactionReceipt'' [hash] # Sleep 1500 # rounds hash k"
  by (simp add: rounds_def)

lemma poll_receipt_run:
  assumes "poll_receipt B hash n s = (r, s')"
  shows "(\<exists>k < n. cl_requests s' = cl_requests s @ rounds hash k @ [Rpc ''eth_getTransactionReceipt'' [hash]]) \<or>
    r = Throw (JsError (''No receipt yet for '' @ js_String hash)) \<and>
    cl_requests s' = cl_requests s @ rounds hash n"
  using assms
proof (induction n arbitrary: s)
  case 0
  then show ?case by (simp add: throw_def rounds_def)
next
  case (Suc n)
  from Suc.prems [unfolded poll_receipt.simps] show ?case
  proof (cases rule: await_cases)
    case (Stop r1)
    from fetch_requests [OF Stop(1)] show ?thesis by (auto intro!: exI [of _ 0] simp: rounds_def)
  next
    case (Ret rec s1)
    note 1 = fetch_requests [OF Ret(1)]
    show ?thesis
    proof (cases "js_truthy rec")
      case True
      with Ret(2) have "s' = s1" by (auto simp: ret_def throw_def split: if_splits)
      with 1 show ?thesis by (auto intro!: exI [of _ 0] simp: rounds_def)
    next
      case False
      obtain r2 s2 where 2: "sleep B 1500 s1 = (r2, s2)" by (cases "sleep B 1500 s1")
      with Ret(2) False sleep_requests [OF 2] have 3: "poll_receipt B hash n s2 = (r, s')"
        by (simp add: await_def)
      have eq: "cl_requests s2 = cl_requests s @ [Rpc ''eth_getTransactionReceipt'' [hash], Sleep 1500]"
        using 1 sleep_requests [OF 2] by simp
      from Suc.IH [OF 3] show ?thesis
      proof
        assume "\<exists>k<n. cl_requests s' = cl_requests s2 @ rounds hash k @ [Rpc ''eth_getTransactionReceipt'' [hash]]"
        then obtain k where "k < n"
          "cl_requests s' = cl_requests s2 @ rounds hash k @ [Rpc ''eth_getTransactionReceipt'' [hash]]" by blast
        with eq show ?thesis by (intro disjI1 exI [of _ "Suc k"]) (simp add: rounds_Suc)
      qed (simp add: eq rounds_Suc)
    qed
  qed
qed

text \<open>Waiting for a receipt asks the node at most sixty times, with a pause of 1.5 seconds
  between two questions, and asks for nothing else; it gives up after exactly sixty rounds, 90
  seconds of pauses, with the error that names the transaction.\<close>

theorem receipt_polls:
  "(\<exists>k < 60. cl_requests (snd (waitReceipt B hash s)) =
      cl_requests s @ rounds hash k @ [Rpc ''eth_getTransactionReceipt'' [hash]]) \<or>
   fst (waitReceipt B hash s) = Throw (JsError (''No receipt yet for '' @ js_String hash)) \<and>
   cl_requests (snd (waitReceipt B hash s)) = cl_requests s @ rounds hash 60"
  using poll_receipt_run [of B hash 60 s "fst (waitReceipt B hash s)" "snd (waitReceipt B hash s)"]
  by (simp add: waitReceipt_def)

text \<open>A clock that an answer does not turn back and that a pause moves on by its length.\<close>

definition clock_ok :: "'c browser \<Rightarrow> bool" where
  "clock_ok B \<longleftrightarrow> (\<forall>m ps c. b_now B c \<le> b_now B (snd (snd (b_fetch B m ps c)))) \<and>
     (\<forall>ms c. b_now B c + ms \<le> b_now B (snd (b_sleep B ms c)))"

definition clock :: "'c browser \<Rightarrow> 'c client \<Rightarrow> nat" where
  "clock B s = b_now B (cl_outside s)"

lemma clock_sleep: "clock_ok B \<Longrightarrow> sleep B ms s = (r, s') \<Longrightarrow> r = Ret () \<and> clock B s + ms \<le> clock B s'"
  by (auto simp: sleep_def clock_ok_def clock_def split: prod.splits) (metis snd_conv)

lemma clock_rpc:
  assumes "clock_ok B" and "rpc B m ps s = (r, s')"
  shows "clock B s \<le> clock B s'"
proof -
  have "cl_outside s' = snd (snd (b_fetch B m ps (cl_outside s)))"
    using assms(2) by (auto simp: rpc_def fetch_rpc_def await_def ret_def throw_def
        split: prod.splits sum.splits option.splits)
  with assms(1) show ?thesis by (simp add: clock_def clock_ok_def)
qed

text \<open>Time does not go back over the reads.\<close>

definition later :: "'c browser \<Rightarrow> 'c client \<Rightarrow> 'c client \<Rightarrow> bool" where
  "later B s s' \<longleftrightarrow> clock B s \<le> clock B s'"

interpretation later: seq_rel "later B" for B
  by unfold_locales (auto simp: later_def)

lemma later_readOwner: "clock_ok B \<Longrightarrow> keeps (later B) (readOwner B c t)"
proof -
  assume "clock_ok B"
  then have rpc: "keeps (later B) (rpc B m ps)" for m ps
    by (auto simp: keeps_def later_def clock_rpc)
  have pure: "keeps (later B) (token_big t)" for t
    unfolding token_big_def or_throw_def by (auto intro: later.keeps_ret later.keeps_throw split: option.splits)
  have str: "keeps (later B) (as_string v)" for v
    unfolding as_string_def by (auto intro: later.keeps_ret later.keeps_throw split: js_value.splits)
  show ?thesis unfolding readOwner_def ethCall_def
    by (intro later.keeps_if later.keeps_await later.keeps_throw later.keeps_ret rpc pure str)
qed

lemma poll_owner_fuel:
  assumes "clock_ok B" and "start + timeoutMs \<le> clock B s + 2000 * n"
  shows "fst (poll_owner B c t a start timeoutMs (Suc n) s) \<noteq> Ret None"
  using assms(2)
proof (induction n arbitrary: s)
  case 0
  then show ?case by (simp add: now_def clock_def await_def throw_def)
next
  case (Suc n)
  show ?case
  proof (cases "int (clock B s) - int start < int timeoutMs")
    case False
    then show ?thesis by (simp add: now_def clock_def await_def throw_def)
  next
    case True
    obtain r1 s1 where 1: "readOwner B c t s = (r1, s1)" by (cases "readOwner B c t s")
    have le: "clock B s \<le> clock B s1"
      using keepsD [OF later_readOwner [OF assms(1)] 1] by (simp add: later_def)
    obtain r2 s2 where 2: "sleep B 2000 s1 = (r2, s2)" by (cases "sleep B 2000 s1")
    note c2 = clock_sleep [OF assms(1) 2]
    then have "fst (poll_owner B c t a start timeoutMs (Suc n) s2) \<noteq> Ret None"
      using Suc.prems le by (intro Suc.IH) simp
    with 1 2 c2 True show ?thesis
      by (subst poll_owner.simps) (auto simp: now_def clock_def await_def ret_def split: outcome.splits)
  qed
qed

text \<open>C32: waiting until the vault owns a token ends: with a clock that pauses move on, one round for
  every two seconds of the limit, and one more, is fuel enough, so that it answers the owner or
  throws.\<close>

theorem vault_wait_ends:
  assumes "clock_ok B" and "timeoutMs \<le> 2000 * n"
  shows "fst (waitUntilVaultOwns B (Suc n) c t a timeoutMs s) \<noteq> Ret None"
proof -
  have "fst (poll_owner B c t a (clock B s) timeoutMs (Suc n) s) \<noteq> Ret None"
    using assms by (intro poll_owner_fuel) auto
  then show ?thesis by (simp add: waitUntilVaultOwns_def now_def clock_def await_def del: poll_owner.simps)
qed

theorem vault_wait_ends_witness:
  "fst (waitUntilVaultOwns demo_browser 46 demo_account ''7'' demo_account 90000 demo_client) \<noteq> Ret None"
proof -
  have "clock_ok demo_browser"
    by (simp add: clock_ok_def demo_browser_def demo_fetch_def)
  from vault_wait_ends [OF this, of 90000 45] show ?thesis by simp
qed

end
