(* ===== verification/WalletConnect.thy ===== *)
theory WalletConnect
  imports WalletJs
begin

text \<open>
  The attempts to connect over WalletConnect, \<^verbatim>\<open>connectWalletConnect\<close> and
  \<^verbatim>\<open>abortWalletConnect\<close> of \<^verbatim>\<open>frontend/js/wallet.js\<close>.  The user may close the dialog and try
  again while an attempt waits, so several run interleaved over the module's variables.  An attempt is
  a phase, the point it waits at, with the generation it started in; a step takes one attempt from the
  await it is at to its next, with whatever answer came, or is an abort, a logout, or the end of a
  session.  What \<^verbatim>\<open>init\<close>, \<^verbatim>\<open>connect\<close> and the wallet answer is not constrained; a provider that
  \<^verbatim>\<open>init\<close> makes is a new object.
\<close>

section \<open>State\<close>

datatype phase =
    Clearing (phase_gen: nat)
  | Initialising (phase_gen: nat)
  | Obtained (phase_gen: nat) nat
  | Connecting (phase_gen: nat) nat
  | Asking (phase_gen: nat) nat
  | Switching (phase_gen: nat) nat
  | Closing (phase_gen: nat)

text \<open>
  \<open>x_wc\<close> and \<open>x_provider\<close> are \<^verbatim>\<open>walletConnectProvider\<close> and \<^verbatim>\<open>provider\<close>, \<open>x_sessions\<close> the
  providers with a session, \<open>x_made\<close> the number of providers made so far, which are numbered in that
  order.
\<close>

record attempts =
  x_lock :: bool
  x_generation :: nat
  x_wc :: "nat option"
  x_provider :: "nat option"
  x_sessions :: "nat list"
  x_made :: nat
  x_running :: "nat \<Rightarrow> phase option"

definition x_start :: attempts where
  "x_start = \<lparr>x_lock = False, x_generation = 0, x_wc = None, x_provider = None, x_sessions = [],
     x_made = 0, x_running = Map.empty\<rparr>"

definition sessionless :: "attempts \<Rightarrow> bool" where
  "sessionless s = (case x_wc s of None \<Rightarrow> False | Some p \<Rightarrow> p \<notin> set (x_sessions s))"

definition goes_to :: "nat \<Rightarrow> phase \<Rightarrow> attempts \<Rightarrow> attempts" where
  "goes_to a ph s = s\<lparr>x_running := (x_running s)(a \<mapsto> ph)\<rparr>"

text \<open>The \<^verbatim>\<open>finally\<close> block of an attempt of generation \<open>gen\<close>.\<close>

definition finished :: "nat \<Rightarrow> nat \<Rightarrow> attempts \<Rightarrow> attempts" where
  "finished a gen s = s\<lparr>x_running := (x_running s)(a := None),
     x_lock := (if gen = x_generation s then False else x_lock s)\<rparr>"

text \<open>The call of \<^verbatim>\<open>getWalletConnectProvider\<close> up to its first wait.\<close>

definition getting :: "nat \<Rightarrow> nat \<Rightarrow> attempts \<Rightarrow> attempts" where
  "getting a gen s = goes_to a (case x_wc s of Some p \<Rightarrow> Obtained gen p | None \<Rightarrow> Initialising gen) s"

text \<open>The provider is taken over, and the wallet is asked to switch the chain.\<close>

definition taken :: "nat \<Rightarrow> nat \<Rightarrow> nat \<Rightarrow> attempts \<Rightarrow> attempts" where
  "taken a gen p s = goes_to a (Switching gen p) (s\<lparr>x_provider := Some p\<rparr>)"

text \<open>
  After \<^verbatim>\<open>connect\<close>, or at once over a session: the second check of the generation, then the accounts
  that the provider knows (\<open>known\<close>) or a request for them.
\<close>

definition connected :: "nat \<Rightarrow> nat \<Rightarrow> nat \<Rightarrow> bool \<Rightarrow> attempts \<Rightarrow> attempts" where
  "connected a gen p known s =
     (if gen \<noteq> x_generation s then finished a gen s
      else if known then taken a gen p s
      else goes_to a (Asking gen p) s)"

definition began :: "nat \<Rightarrow> attempts \<Rightarrow> attempts" where
  "began a s = (let s1 = s\<lparr>x_lock := True, x_generation := x_generation s + 1\<rparr> in
     if sessionless s1 then goes_to a (Clearing (x_generation s1)) (s1\<lparr>x_wc := None\<rparr>)
     else getting a (x_generation s1) s1)"

definition obtained :: "nat \<Rightarrow> nat \<Rightarrow> nat \<Rightarrow> bool \<Rightarrow> attempts \<Rightarrow> attempts" where
  "obtained a gen p known s =
     (if gen \<noteq> x_generation s then finished a gen s
      else if p \<in> set (x_sessions s) then connected a gen p known s
      else goes_to a (Connecting gen p) s)"

definition aborted :: "attempts \<Rightarrow> attempts" where
  "aborted s = s\<lparr>x_generation := x_generation s + 1, x_lock := False,
     x_wc := (if sessionless s then None else x_wc s)\<rparr>"

definition logged_out :: "attempts \<Rightarrow> attempts" where
  "logged_out s = s\<lparr>x_provider := None, x_wc := None\<rparr>"

section \<open>Steps\<close>

text \<open>An attempt that finds the lock taken throws at once and changes nothing; it has no step.\<close>

inductive wc_step :: "attempts \<Rightarrow> attempts \<Rightarrow> bool" where
  Begin: "\<not> x_lock s \<Longrightarrow> x_running s a = None \<Longrightarrow> wc_step s (began a s)"
| Cleared: "x_running s a = Some (Clearing gen) \<Longrightarrow> wc_step s (getting a gen s)"
| Init_done: "x_running s a = Some (Initialising gen) \<Longrightarrow>
    wc_step s (goes_to a (Obtained gen (x_made s)) (s\<lparr>x_wc := Some (x_made s), x_made := x_made s + 1\<rparr>))"
| Init_failed: "x_running s a = Some (Initialising gen) \<Longrightarrow> wc_step s (finished a gen s)"
| Obtained: "x_running s a = Some (Obtained gen p) \<Longrightarrow> wc_step s (obtained a gen p known s)"
| Connect_done: "x_running s a = Some (Connecting gen p) \<Longrightarrow>
    wc_step s (connected a gen p known (s\<lparr>x_sessions := p # x_sessions s\<rparr>))"
| Connect_failed: "x_running s a = Some (Connecting gen p) \<Longrightarrow> wc_step s (finished a gen s)"
| Asked: "x_running s a = Some (Asking gen p) \<Longrightarrow> wc_step s (taken a gen p s)"
| Asked_empty: "x_running s a = Some (Asking gen p) \<Longrightarrow>
    wc_step s (goes_to a (Closing gen) (s\<lparr>x_wc := None\<rparr>))"
| Asked_failed: "x_running s a = Some (Asking gen p) \<Longrightarrow> wc_step s (finished a gen s)"
| Closed: "x_running s a = Some (Closing gen) \<Longrightarrow> wc_step s (finished a gen s)"
| Switched: "x_running s a = Some (Switching gen p) \<Longrightarrow> wc_step s (finished a gen s)"
| Abort: "wc_step s (aborted s)"
| Logout: "wc_step s (logged_out s)"
| Session_end: "wc_step s (s\<lparr>x_sessions := removeAll p (x_sessions s)\<rparr>)"

inductive wc_reachable :: "attempts \<Rightarrow> bool" where
  Start: "wc_reachable x_start"
| Step: "wc_reachable s \<Longrightarrow> wc_step s s' \<Longrightarrow> wc_reachable s'"

inductive_cases wc_stepE: "wc_step s s'"

section \<open>The lock and the generation\<close>

definition gen_at :: "attempts \<Rightarrow> nat \<Rightarrow> nat option" where
  "gen_at s a = map_option phase_gen (x_running s a)"

text \<open>
  No attempt is of a generation to come, two attempts are of two generations, and the lock is held
  exactly while an attempt of the present generation runs.
\<close>

definition attempts_ok :: "attempts \<Rightarrow> bool" where
  "attempts_ok s \<longleftrightarrow>
     (\<forall>a g. gen_at s a = Some g \<longrightarrow> g \<le> x_generation s) \<and>
     (\<forall>a b g. gen_at s a = Some g \<longrightarrow> gen_at s b = Some g \<longrightarrow> a = b) \<and>
     (x_lock s \<longleftrightarrow> (\<exists>a. gen_at s a = Some (x_generation s)))"

lemma gen_at_simps [simp]:
  "x_running s a = Some ph \<Longrightarrow> gen_at s a = Some (phase_gen ph)"
  "gen_at (goes_to a ph s) b = (if b = a then Some (phase_gen ph) else gen_at s b)"
  "gen_at (finished a g s) b = (if b = a then None else gen_at s b)"
  "gen_at (s\<lparr>x_lock := l\<rparr>) b = gen_at s b" "gen_at (s\<lparr>x_generation := g\<rparr>) b = gen_at s b"
  "gen_at (s\<lparr>x_wc := w\<rparr>) b = gen_at s b" "gen_at (s\<lparr>x_provider := w\<rparr>) b = gen_at s b"
  "gen_at (s\<lparr>x_sessions := ps\<rparr>) b = gen_at s b" "gen_at (s\<lparr>x_made := n\<rparr>) b = gen_at s b"
  by (simp_all add: gen_at_def goes_to_def finished_def)

lemma frame_simps [simp]:
  "x_lock (goes_to a ph s) = x_lock s" "x_generation (goes_to a ph s) = x_generation s"
  "x_wc (goes_to a ph s) = x_wc s" "x_provider (goes_to a ph s) = x_provider s"
  "x_sessions (goes_to a ph s) = x_sessions s" "x_made (goes_to a ph s) = x_made s"
  "x_generation (finished a g s) = x_generation s"
  "x_lock (finished a g s) \<longleftrightarrow> g \<noteq> x_generation s \<and> x_lock s"
  "x_wc (finished a g s) = x_wc s" "x_provider (finished a g s) = x_provider s"
  "x_sessions (finished a g s) = x_sessions s" "x_made (finished a g s) = x_made s"
  by (simp_all add: goes_to_def finished_def)

lemma attempts_okI:
  assumes "\<And>a g. gen_at s a = Some g \<Longrightarrow> g \<le> x_generation s"
    and "\<And>a b g. gen_at s a = Some g \<Longrightarrow> gen_at s b = Some g \<Longrightarrow> a = b"
    and "x_lock s \<longleftrightarrow> (\<exists>a. gen_at s a = Some (x_generation s))"
  shows "attempts_ok s"
  using assms unfolding attempts_ok_def by blast

lemma attempts_okD:
  assumes "attempts_ok s"
  shows "gen_at s a = Some g \<Longrightarrow> g \<le> x_generation s"
    and "gen_at s a = Some g \<Longrightarrow> gen_at s b = Some g \<Longrightarrow> a = b"
    and "x_lock s \<longleftrightarrow> (\<exists>a. gen_at s a = Some (x_generation s))"
  using assms unfolding attempts_ok_def by blast+

text \<open>Whatever changes neither the lock nor the generations keeps the invariant.\<close>

lemma attempts_ok_same:
  "attempts_ok s \<Longrightarrow> (\<And>b. gen_at s' b = gen_at s b) \<Longrightarrow> x_generation s' = x_generation s \<Longrightarrow>
   x_lock s' = x_lock s \<Longrightarrow> attempts_ok s'"
  by (simp add: attempts_ok_def)

lemma attempts_ok_goes_to:
  "attempts_ok s \<Longrightarrow> gen_at s a = Some (phase_gen ph) \<Longrightarrow> attempts_ok (goes_to a ph s)"
  by (erule attempts_ok_same) auto

lemma attempts_ok_finished:
  assumes "attempts_ok s" and "gen_at s a = Some g"
  shows "attempts_ok (finished a g s)"
proof (rule attempts_okI)
  note ok = attempts_okD [OF assms(1)]
  show "c \<le> x_generation (finished a g s)" if "gen_at (finished a g s) b = Some c" for b c
    using that ok(1) by (auto split: if_splits)
  show "b = c" if "gen_at (finished a g s) b = Some h" "gen_at (finished a g s) c = Some h" for b c h
    using that ok(2) by (auto split: if_splits)
  have "gen_at s b = Some (x_generation s) \<Longrightarrow> b \<noteq> a \<longleftrightarrow> g \<noteq> x_generation s" for b
    using assms(2) ok(2) [of b "x_generation s" a] by auto
  then show "x_lock (finished a g s) \<longleftrightarrow>
      (\<exists>b. gen_at (finished a g s) b = Some (x_generation (finished a g s)))"
    using ok(3) by auto
qed

lemma attempts_ok_update [simp]:
  "attempts_ok (s\<lparr>x_wc := w\<rparr>) = attempts_ok s" "attempts_ok (s\<lparr>x_provider := w\<rparr>) = attempts_ok s"
  "attempts_ok (s\<lparr>x_sessions := ps\<rparr>) = attempts_ok s" "attempts_ok (s\<lparr>x_made := n\<rparr>) = attempts_ok s"
  by (simp_all add: attempts_ok_def)

lemma attempts_ok_connected:
  "attempts_ok s \<Longrightarrow> gen_at s a = Some g \<Longrightarrow> attempts_ok (connected a g p known s)"
  by (simp add: connected_def taken_def attempts_ok_finished attempts_ok_goes_to)

lemma attempts_ok_obtained:
  "attempts_ok s \<Longrightarrow> gen_at s a = Some g \<Longrightarrow> attempts_ok (obtained a g p known s)"
  by (simp add: obtained_def attempts_ok_connected attempts_ok_finished attempts_ok_goes_to)

lemma attempts_ok_getting:
  "attempts_ok s \<Longrightarrow> gen_at s a = Some g \<Longrightarrow> attempts_ok (getting a g s)"
  by (simp add: getting_def attempts_ok_goes_to split: option.split)

text \<open>A generation that no attempt has yet.\<close>

lemma fresh_generation: "attempts_ok s \<Longrightarrow> gen_at s a \<noteq> Some (Suc (x_generation s))"
  by (auto dest: attempts_okD(1))

lemma began_simps [simp]:
  "gen_at (began a s) b = (if b = a then Some (Suc (x_generation s)) else gen_at s b)"
  "x_generation (began a s) = Suc (x_generation s)" "x_lock (began a s)"
  by (auto simp: began_def getting_def Let_def split: option.split)

lemma attempts_ok_began:
  assumes "attempts_ok s"
  shows "attempts_ok (began a s)"
proof (rule attempts_okI)
  show "c \<le> x_generation (began a s)" if "gen_at (began a s) b = Some c" for b c
    using that attempts_okD(1) [OF assms] by (auto split: if_splits intro: le_SucI)
  show "b = c" if "gen_at (began a s) b = Some h" "gen_at (began a s) c = Some h" for b c h
    using that attempts_okD(2) [OF assms] fresh_generation [OF assms] by (auto split: if_splits)
  show "x_lock (began a s) \<longleftrightarrow> (\<exists>b. gen_at (began a s) b = Some (x_generation (began a s)))"
    by auto
qed

lemma attempts_ok_aborted:
  assumes "attempts_ok s"
  shows "attempts_ok (aborted s)"
proof (rule attempts_okI)
  have gen: "gen_at (aborted s) b = gen_at s b" "x_generation (aborted s) = Suc (x_generation s)"
    "\<not> x_lock (aborted s)" for b
    by (simp_all add: aborted_def)
  show "c \<le> x_generation (aborted s)" if "gen_at (aborted s) b = Some c" for b c
    using that attempts_okD(1) [OF assms] gen by (auto intro: le_SucI)
  show "b = c" if "gen_at (aborted s) b = Some h" "gen_at (aborted s) c = Some h" for b c h
    using that attempts_okD(2) [OF assms] gen by auto
  show "x_lock (aborted s) \<longleftrightarrow> (\<exists>b. gen_at (aborted s) b = Some (x_generation (aborted s)))"
    using gen fresh_generation [OF assms] by auto
qed

lemma attempts_ok_step: "wc_step s s' \<Longrightarrow> attempts_ok s \<Longrightarrow> attempts_ok s'"
  by (induction rule: wc_step.induct)
    (simp_all add: attempts_ok_began attempts_ok_getting attempts_ok_goes_to attempts_ok_finished
      attempts_ok_obtained attempts_ok_connected attempts_ok_aborted taken_def logged_out_def)

lemma attempts_ok_reachable: "wc_reachable s \<Longrightarrow> attempts_ok s"
proof (induction rule: wc_reachable.induct)
  case Start
  show ?case by (simp add: attempts_ok_def gen_at_def x_start_def)
next
  case (Step s s')
  then show ?case by (auto intro: attempts_ok_step)
qed

end
