(* ===== verification/ClientWallet.thy ===== *)
theory ClientWallet
  imports ClientExamples WalletConnect
begin

text \<open>
  The properties of the connection to a wallet: what its pages keep under the wallet's events, and
  the interleaved attempts over WalletConnect.
\<close>

section \<open>The account and the provider\<close>

text \<open>An account of the page always has a provider to sign with.\<close>

definition linked :: "'c client \<Rightarrow> bool" where
  "linked s \<longleftrightarrow> (cl_address s \<noteq> None \<longrightarrow> cl_provider s \<noteq> None)"

definition stays_linked :: "'c client \<Rightarrow> 'c client \<Rightarrow> bool" where
  "stays_linked s s' \<longleftrightarrow> (linked s \<longrightarrow> linked s')"

lemma linked_event: "linked s \<Longrightarrow> linked (handle_event e s)"
  by (cases e) (auto simp: linked_def onAccountsChanged_def fullLogout_def rememberInjected_def Let_def)

lemma linked_deliver: "linked s \<Longrightarrow> linked (deliver evs s)"
  unfolding deliver_def by (induction evs arbitrary: s) (simp_all add: linked_event)

lemma linked_resumed: "linked s \<Longrightarrow> linked (resumed r evs c s)"
  unfolding resumed_def by (rule linked_deliver) (simp add: linked_def)

interpretation linked: client_rel stays_linked "\<lambda>r. True"
  by unfold_locales (auto simp: stays_linked_def linked_resumed)

lemma linked_set_state: "(\<And>s. linked s \<Longrightarrow> linked (f s)) \<Longrightarrow> keeps stays_linked (set_state f)"
  by (simp add: keeps_def set_state_def stays_linked_def)

lemma linked_sets [keeps_intros]:
  "keeps stays_linked (set_state (\<lambda>s. s\<lparr>cl_wc := w\<rparr>))"
  "keeps stays_linked (set_state fullLogout)"
  "keeps stays_linked (set_state (session_set k v))"
  "keeps stays_linked (set_state (\<lambda>s. session_set k v (session_set k' v' s)))"
  "keeps stays_linked (set_state (\<lambda>s. s\<lparr>cl_provider := Some p, cl_address := a\<rparr>))"
  "keeps stays_linked (set_state (\<lambda>s. session_set k v (session_set k' v'
     (s\<lparr>cl_provider := Some p, cl_address := a\<rparr>))))"
  "keeps stays_linked (set_state (rememberInjected n b q))"
  by (auto intro!: linked_set_state simp: linked_def fullLogout_def session_set_def rememberInjected_def Let_def)

lemma linked_any [keeps_intros]: "keeps stays_linked (wallet_request B p m params)"
  by (rule linked.keeps_wallet_request) simp

lemma linked_wc_provider [keeps_intros]: "keeps stays_linked (getWalletConnectProvider B)"
proof -
  have "stays_linked s (deliver evs (s\<lparr>cl_outside := c\<rparr>))"
    "stays_linked s ((deliver evs (s\<lparr>cl_outside := c\<rparr>))\<lparr>cl_wc := w\<rparr>)" for evs c w and s :: "'c client"
    using linked_deliver [of "s\<lparr>cl_outside := c\<rparr>" evs] by (auto simp: stays_linked_def linked_def)
  then have "keeps stays_linked (\<lambda>s. case b_wc_init B (cl_outside s) of
      (Inl e, evs, c) \<Rightarrow> (Throw e, deliver evs (s\<lparr>cl_outside := c\<rparr>))
    | (Inr p, evs, c) \<Rightarrow> (Ret p, (deliver evs (s\<lparr>cl_outside := c\<rparr>))\<lparr>cl_wc := Some p\<rparr>))"
    by (auto simp: keeps_def split: prod.splits sum.splits)
  then show ?thesis unfolding getWalletConnectProvider_def by (intro keeps_intros)
qed

lemma linked_disconnect [keeps_intros]:
  "keeps stays_linked (disconnect_wc B wc)" "keeps stays_linked (clearWalletConnect B)"
proof -
  show d: "keeps stays_linked (disconnect_wc B wc)" for wc unfolding disconnect_wc_def by (intro keeps_intros)
  show "keeps stays_linked (clearWalletConnect B)" unfolding clearWalletConnect_def by (intro keeps_intros d)
qed

lemma linked_discover [keeps_intros]: "keeps stays_linked (discoverInjected B)"
  unfolding discoverInjected_def by (intro keeps_intros) 

lemma linked_accounts [keeps_intros]:
  "keeps stays_linked (requestAccounts B p)" "keeps stays_linked (wc_accounts B p)"
  unfolding requestAccounts_def wc_accounts_def
  by (intro keeps_intros; auto intro!: keeps_intros split: js_value.splits list.splits)+


section \<open>Logging out\<close>





section \<open>Attempts over WalletConnect\<close>

text \<open>C12: whatever attempts, aborts and answers are interleaved, the lock is held exactly while one
  attempt of the present generation runs, and then one only: an attempt is refused only for another
  that is not cancelled, and an abort always leaves the way free.\<close>

theorem connect_lock:
  assumes "wc_reachable s"
  shows "(x_lock s \<longleftrightarrow> (\<exists>!a. gen_at s a = Some (x_generation s))) \<and> \<not> x_lock (aborted s)"
proof -
  note ok = attempts_ok_reachable [OF assms]
  have "x_lock s \<longleftrightarrow> (\<exists>!a. gen_at s a = Some (x_generation s))"
    using attempts_okD(2,3) [OF ok] by blast
  then show ?thesis by (simp add: aborted_def)
qed

text \<open>A first attempt, until it waits for the scan of its code.\<close>

lemma wc_reachable_began: "wc_reachable (began 0 x_start)"
  by (rule wc_reachable.Step [OF wc_reachable.Start wc_step.Begin]) (simp_all add: x_start_def)

theorem connect_lock_witness:
  "x_lock (began 0 x_start) \<and> (\<exists>!a. gen_at (began 0 x_start) a = Some (x_generation (began 0 x_start)))"
  using connect_lock [OF wc_reachable_began] by simp










text \<open>
  Two attempts may each make a provider, when the first was cancelled while it did.  The one made last
  is then the one that a logout disconnects, while the other has the session.
\<close>

lemma logout_leaves_session:
  "\<exists>s p q. wc_reachable s \<and> x_provider s = Some p \<and> p \<in> set (x_sessions s) \<and> x_wc s = Some q \<and> q \<noteq> p"
proof -
  define s1 where "s1 = goes_to 0 (Initialising 1) (x_start\<lparr>x_lock := True, x_generation := 1\<rparr>)"
  define s2 where "s2 = s1\<lparr>x_generation := 2, x_lock := False\<rparr>"
  define s3 where "s3 = goes_to 1 (Initialising 3) (s2\<lparr>x_lock := True, x_generation := 3\<rparr>)"
  define s4 where "s4 = goes_to 1 (Obtained 3 0) (s3\<lparr>x_wc := Some 0, x_made := 1\<rparr>)"
  define s5 where "s5 = goes_to 1 (Connecting 3 0) s4"
  define s6 where "s6 = taken 1 3 0 (s5\<lparr>x_sessions := [0]\<rparr>)"
  define s7 where "s7 = goes_to 0 (Obtained 1 1) (s6\<lparr>x_wc := Some 1, x_made := 2\<rparr>)"
  note defs = s1_def s2_def s3_def s4_def s5_def s6_def s7_def x_start_def goes_to_def taken_def
  have r1: "wc_reachable s1"
    using wc_reachable_began by (simp add: began_def getting_def sessionless_def defs)
  have t1: "wc_step s1 s2"
    using wc_step.Abort [of s1] by (simp add: defs aborted_def sessionless_def numeral_2_eq_2)
  have t2: "wc_step s2 s3"
    using wc_step.Begin [of s2 1] by (simp add: defs began_def getting_def sessionless_def numeral_2_eq_2 numeral_3_eq_3)
  have t3: "wc_step s3 s4" using wc_step.Init_done [of s3 1 3] by (simp add: defs)
  have t4: "wc_step s4 s5" using wc_step.Obtained [of s4 1 3 0 False] by (simp add: defs obtained_def)
  have t5: "wc_step s5 s6" using wc_step.Connect_done [of s5 1 3 0 True] by (simp add: defs connected_def)
  have t6: "wc_step s6 s7" using wc_step.Init_done [of s6 0 1] by (simp add: defs numeral_2_eq_2)
  have "wc_reachable s7"
    by (rule wc_reachable.Step [OF _ t6], rule wc_reachable.Step [OF _ t5], rule wc_reachable.Step [OF _ t4],
        rule wc_reachable.Step [OF _ t3], rule wc_reachable.Step [OF _ t2], rule wc_reachable.Step [OF r1 t1])
  moreover have "x_provider s7 = Some 0" "0 \<in> set (x_sessions s7)" "x_wc s7 = Some 1" by (simp_all add: defs)
  ultimately show ?thesis by (intro exI [of _ s7] exI [of _ 0] exI [of _ 1]) simp
qed

end
