(* ===== verification/ClientStorage.thy ===== *)
theory ClientStorage
  imports ClientExamples
begin

text \<open>
  The properties of what the client stores, the vault and the tracked positions, and of the wheel of
  collections.
\<close>

section \<open>The vault\<close>

text \<open>
  What is relied on of the package that keeps the key: it loads, a vault it creates under a host name
  opens under it to the secret it was given, and addresses and vaults are not empty.
\<close>

definition mera_ok :: "'c packages \<Rightarrow> bool" where
  "mera_ok K \<longleftrightarrow> (\<forall>c. \<exists>evs c'. k_import K ''@category-labs/mera'' c = (None, evs, c')) \<and>
     (\<forall>secret v c evs c'. k_create_vault K (k_hostname K) secret c = (Inr v, evs, c') \<longrightarrow>
        js_truthy v \<and> (\<exists>v'. k_parse_vault K v = Inr v' \<and>
          (\<forall>c2. \<exists>evs2 c3. k_decrypt K v' (k_hostname K) c2 = (Inr secret, evs2, c3)))) \<and>
     (\<forall>secret a. k_address K secret = Inr a \<longrightarrow> a \<noteq> [])"

lemma outside_Ret: "outside f s = (Ret v, s') \<longleftrightarrow>
    (\<exists>evs c. f (cl_outside s) = (Inr v, evs, c) \<and> s' = deliver evs (s\<lparr>cl_outside := c\<rparr>))"
  by (auto simp: outside_def split: prod.splits sum.splits)

lemma import_Ret: "import_module K n s = (Ret u, s') \<longleftrightarrow>
    (\<exists>evs c. k_import K n (cl_outside s) = (None, evs, c) \<and> s' = deliver evs (s\<lparr>cl_outside := c\<rparr>))"
  by (auto simp: import_module_def outside_Ret split: prod.splits option.splits)

lemma createOrOpenVault_Ret: "createOrOpenVault B K s = (Ret made, s') \<longleftrightarrow>
    (\<exists>sa. import_module K ''@category-labs/mera'' s = (Ret (), sa) \<and>
       (case stored_vault s of Some rec \<Rightarrow> open_vault K rec | None \<Rightarrow> create_vault B K) sa = (Ret made, s'))"
proof -
  have "stored_vault sa = stored_vault s" if "import_module K ''@category-labs/mera'' s = (Ret u, sa)" for u sa
    using that by (auto simp: import_Ret stored_vault_def)
  then show ?thesis
    by (fastforce simp: createOrOpenVault_def await_Ret_iff loadVaultRecord_def get_state_Ret_iff)
qed

lemma create_vault_Ret:
  assumes "create_vault B K s = (Ret made, s')"
  shows "\<exists>secret v a c evs c' t. k_create_vault K (k_hostname K) secret c = (Inr v, evs, c') \<and>
    k_address K secret = Inr a \<and> made = \<lparr>o_address = a, o_secret = secret, o_reused = False\<rparr> \<and>
    cl_storage s' VAULT_KEY = Some (Json (vault_record K a v t))"
  using assms
  by (auto simp: create_vault_def await_Ret_iff outside_Ret from_sum_Ret_iff saveVaultRecord_def
      set_state_Ret_iff ret_Ret_iff) blast

lemma open_vault_run:
  assumes "k_parse_vault K v = Inr v'" and "k_decrypt K v' (k_hostname K) (cl_outside s) = (Inr secret, evs, c)"
    and "k_address K secret = Inr a"
  shows "open_vault K (vault_record K a v t) s =
    (Ret \<lparr>o_address = a, o_secret = secret, o_reused = True\<rparr>, deliver evs (s\<lparr>cl_outside := c\<rparr>))"
  using assms
  by (simp add: open_vault_def vault_record_def member_of_def from_sum_def as_string_def await_def outside_def ret_def)

text \<open>C24: a vault that was created can be opened again: the stored record gives back the same address
  and the same secret, on whatever page and after whatever else, as long as the record is kept and the
  package does what it is for.\<close>

theorem vault_reopens:
  assumes "mera_ok K" and "stored_vault s = None"
    and "createOrOpenVault B K s = (Ret made, s1)"
    and "cl_storage s2 VAULT_KEY = cl_storage s1 VAULT_KEY"
  shows "\<not> o_reused made \<and>
    (\<exists>s3. createOrOpenVault B' K s2 = (Ret (made\<lparr>o_reused := True\<rparr>), s3) \<and> cl_storage s3 = cl_storage s2)"
proof -
  from assms(2,3) obtain sa where "create_vault B K sa = (Ret made, s1)"
    by (auto simp: createOrOpenVault_Ret)
  from create_vault_Ret [OF this] obtain secret v a c evs c' t where
    create: "k_create_vault K (k_hostname K) secret c = (Inr v, evs, c')" and a: "k_address K secret = Inr a"
    and made: "made = \<lparr>o_address = a, o_secret = secret, o_reused = False\<rparr>"
    and s1: "cl_storage s1 VAULT_KEY = Some (Json (vault_record K a v t))"
    by blast
  from assms(1) create a obtain v' where v: "js_truthy v" "k_parse_vault K v = Inr v'"
    and open1: "\<And>c2. \<exists>evs2 c3. k_decrypt K v' (k_hostname K) c2 = (Inr secret, evs2, c3)" and "a \<noteq> []"
    unfolding mera_ok_def by blast
  from assms(1) obtain evs1 c1 where i: "k_import K ''@category-labs/mera'' (cl_outside s2) = (None, evs1, c1)"
    unfolding mera_ok_def by blast
  define s' where "s' = deliver evs1 (s2\<lparr>cl_outside := c1\<rparr>)"
  obtain evs2 c3 where d: "k_decrypt K v' (k_hostname K) (cl_outside s') = (Inr secret, evs2, c3)"
    using open1 by blast
  have "stored_vault s2 = Some (vault_record K a v t)"
    using s1 assms(4) v(1) \<open>a \<noteq> []\<close> by (simp add: stored_vault_def vault_record_def member_of_def)
  then have "createOrOpenVault B' K s2 =
      (Ret \<lparr>o_address = a, o_secret = secret, o_reused = True\<rparr>, deliver evs2 (s'\<lparr>cl_outside := c3\<rparr>))"
    unfolding createOrOpenVault_Ret using i open_vault_run [OF v(2) d a] by (auto simp: import_Ret s'_def)
  with made show ?thesis by (simp add: s'_def)
qed

text \<open>A package that keeps the secret in the vault itself.\<close>

definition demo_packages :: "nat packages" where
  "demo_packages = \<lparr>k_hostname = ''localhost'', k_import = (\<lambda>n c. (None, [], c)),
     k_random = (\<lambda>c. ([1, 2, 3], c)),
     k_parse_vault = (\<lambda>v. Inr v),
     k_decrypt = (\<lambda>v host c. (case v of Arr xs \<Rightarrow> (Inr (map (\<lambda>x. case x of Num n \<Rightarrow> nat n | _ \<Rightarrow> 0) xs), [], c)
       | _ \<Rightarrow> (Inl (JsError ''no vault''), [], c))),
     k_create_vault = (\<lambda>host secret c. (Inr (Arr (map (\<lambda>b. Num (int b)) secret)), [], c)),
     k_address = (\<lambda>secret. Inr demo_account), k_wallet = (\<lambda>key. Inr demo_account),
     k_call = (\<lambda>key to1 m args c. (Inr ''0x02'', [], c)),
     k_wait = (\<lambda>h c. (Inr (Obj [(''status'', Num 1)]), [], c))\<rparr>"

lemma mera_ok_demo: "mera_ok demo_packages"
  by (auto simp: mera_ok_def demo_packages_def demo_account_def comp_def)

theorem vault_reopens_witness:
  "\<exists>made s1 s3. createOrOpenVault demo_browser demo_packages demo_client = (Ret made, s1) \<and>
     createOrOpenVault demo_browser demo_packages s1 = (Ret (made\<lparr>o_reused := True\<rparr>), s3)"
proof -
  have "\<exists>made s1. createOrOpenVault demo_browser demo_packages demo_client = (Ret made, s1)"
    by (simp add: createOrOpenVault_Ret import_Ret stored_vault_def demo_client_def)
      (simp add: demo_packages_def create_vault_def await_def outside_def from_sum_def ret_def now_def
        saveVaultRecord_def set_state_def)
  then obtain made s1 where run: "createOrOpenVault demo_browser demo_packages demo_client = (Ret made, s1)"
    by blast
  moreover have "stored_vault demo_client = None" by (simp add: stored_vault_def demo_client_def)
  ultimately show ?thesis
    using vault_reopens [OF mera_ok_demo, of demo_client demo_browser made s1 s1 demo_browser] by blast
qed

text \<open>The vault of that name is the one stored.\<close>

definition vault_named :: "string \<Rightarrow> 'c client \<Rightarrow> bool" where
  "vault_named a s \<longleftrightarrow> (\<exists>rec known. stored_vault s = Some rec \<and> member_of rec ''address'' = Str known \<and>
     js_lower a = js_lower known)"

lemma require_stored_run:
  assumes "require_stored a s = (r, s')"
  shows "s' = s \<and> (\<forall>u. r = Ret u \<longrightarrow> vault_named a s)"
  using assms [unfolded require_stored_def loadVaultRecord_def await_get_state]
  by (auto simp: vault_named_def as_string_def ret_def [of "()"] throw_def [abs_def, where 'a = unit]
      split: option.splits js_value.splits if_splits)

text \<open>A page that keeps the storage and all of whose requests satisfy \<open>P\<close>.\<close>

definition requests_only :: "(request \<Rightarrow> bool) \<Rightarrow> 'c client \<Rightarrow> 'c client \<Rightarrow> bool" where
  "requests_only P s s' \<longleftrightarrow> cl_storage s' = cl_storage s \<and>
     (\<exists>rs. cl_requests s' = cl_requests s @ rs \<and> (\<forall>r \<in> set rs. P r))"

interpretation reqs: page_rel "requests_only P" P for P
  by unfold_locales (fastforce simp: requests_only_def)+

lemma reqs_outside: "keeps (requests_only P) (outside f)" "keeps (requests_only P) (import_module K n)"
  unfolding import_module_def
  by (auto simp: keeps_def outside_def requests_only_def split: prod.splits sum.splits)

lemma reqs_contract_call: "P (Signed k a m xs) \<Longrightarrow> keeps (requests_only P) (contract_call K k a m xs)"
  by (auto simp: keeps_def contract_call_def reqs.rel_resumed split: prod.splits sum.splits)

definition vault_borrow_request ::
  "'c packages \<Rightarrow> string \<Rightarrow> string \<Rightarrow> string \<Rightarrow> string \<Rightarrow> amount \<Rightarrow> request \<Rightarrow> bool" where
  "vault_borrow_request K key vaultAddress collection tokenId amt r \<longleftrightarrow>
     (\<exists>signer. k_wallet K key = Inr signer \<and> js_lower signer = js_lower vaultAddress) \<and> is_listed collection \<and>
     (r = Signed key collection ''approve'' [Str (lendPoolAddress config), Str tokenId] \<or>
      (\<exists>units. scaled_units (amount_num amt) = Some units \<and>
        r = Signed key (lendPoolAddress config) ''borrow'' [Str (usdcAddress config), Big units,
          Str collection, Str tokenId, Str vaultAddress, Num 0]))"

text \<open>C18: borrowing with the key of a vault signs, with that key, the approval of the token of a listed
  collection for the pool and the borrow in favour of the vault, for the amount entered, and nothing
  else; and nothing at all unless the key is that of the address named and the address is the one
  stored.\<close>

theorem vault_signs_only:
  "requests_only (\<lambda>r. vault_named vaultAddress s \<and>
      vault_borrow_request K (toHex secret) vaultAddress collection tokenId amt r)
    s (snd (borrowFromVault K secret vaultAddress collection tokenId amt s))"
proof -
  let ?P = "vault_borrow_request K (toHex secret) vaultAddress collection tokenId amt"
  define rest where "rest = (if \<not> is_listed collection
     then throw (JsError ''Collection is not listed on Lender'')
     else
     await (import_module K ''ethers'') (\<lambda>_.
     await (from_sum (k_wallet K (toHex secret))) (\<lambda>address.
     if js_lower address \<noteq> js_lower vaultAddress
     then throw (JsError ''Vault key does not match stored vault address'')
     else
     await (usdc_units (amount_num amt)) (\<lambda>units.
     await (contract_call K (toHex secret) collection ''approve''
       [Str (lendPoolAddress config), Str tokenId]) (\<lambda>approveTx.
     await (outside (k_wait K approveTx)) (\<lambda>_.
     await (contract_call K (toHex secret) (lendPoolAddress config) ''borrow''
       [Str (usdcAddress config), Big units, Str collection, Str tokenId, Str vaultAddress, Num 0]) (\<lambda>borrowTx.
     await (outside (k_wait K borrowTx)) (\<lambda>receipt.
     if receipt = Undef then throw (TypeError ''Cannot read properties of null'')
     else if member_of receipt ''status'' \<noteq> Num 1 then throw (JsError ''Vault borrow reverted'')
     else ret \<lparr>l_approve = approveTx, l_borrow = borrowTx\<rparr>))))))))"
  have pure: "keeps (requests_only ?P) (from_sum x)" "keeps (requests_only ?P) (usdc_units n)" for x n
    unfolding from_sum_def usdc_units_def or_throw_def
    by (auto intro: reqs.keeps_ret reqs.keeps_throw split: sum.splits option.splits)
  have keeps: "keeps (requests_only ?P) rest"
    unfolding rest_def
    by (intro reqs.keeps_if_in reqs.keeps_throw reqs.keeps_ret reqs.keeps_await_in [OF pure(1)]
        reqs.keeps_await_in [OF pure(2)] reqs.keeps_await reqs_outside reqs_contract_call)
      (auto simp: vault_borrow_request_def run_simps usdc_units_def)
  obtain r s' where run: "borrowFromVault K secret vaultAddress collection tokenId amt s = (r, s')"
    by (cases "borrowFromVault K secret vaultAddress collection tokenId amt s")
  then have "await (require_stored vaultAddress) (\<lambda>_. rest) s = (r, s')"
    by (simp add: borrowFromVault_def rest_def)
  then show ?thesis
  proof (cases rule: await_cases)
    case (Ret u s1)
    with require_stored_run [OF Ret(1)] keepsD [OF keeps, of s r s'] show ?thesis
      by (auto simp: run requests_only_def)
  next
    case (Stop r1)
    with require_stored_run [OF Stop(1)] show ?thesis by (simp add: run requests_only_def)
  qed
qed

section \<open>Tracked positions\<close>

text \<open>The collection, in lower case, and the token that an entry is of.\<close>

definition token_key :: "js_value \<Rightarrow> string option \<times> js_value" where
  "token_key p = (case member_of p ''collection'' of Str c \<Rightarrow> Some (js_lower c) | _ \<Rightarrow> None,
     member_of p ''tokenId'')"

lemma token_key_position: "token_key (position_value pos) = (Some (js_lower (p_collection pos)), Str (p_tokenId pos))"
  by (simp add: token_key_def position_value_def member_of_def)

lemma lower_opt_Ret: "lower_opt v s = (Ret c, s') \<Longrightarrow>
    s' = s \<and> c = (case v of Str t \<Rightarrow> Some (js_lower t) | _ \<Rightarrow> None)"
  by (cases v) (auto simp: lower_opt_def run_simps)

lemma other_positions_Ret: "other_positions pos ps s = (Ret qs, s') \<Longrightarrow>
    s' = s \<and> qs = filter (\<lambda>p. token_key p \<noteq> token_key (position_value pos)) ps"
proof (induction ps arbitrary: qs s')
  case Nil
  then show ?case by (simp add: ret_Ret_iff)
next
  case (Cons p ps)
  from Cons.prems obtain c s1 rest where
    1: "lower_opt (member_of p ''collection'') s = (Ret c, s1)"
    and 2: "other_positions pos ps s1 = (Ret rest, s')"
    and qs: "qs = (if c = Some (js_lower (p_collection pos)) \<and> member_of p ''tokenId'' = Str (p_tokenId pos)
      then rest else p # rest)"
    by (auto simp: await_Ret_iff ret_Ret_iff)
  from lower_opt_Ret [OF 1] have s1: "s1 = s"
    and c: "c = (case member_of p ''collection'' of Str t \<Rightarrow> Some (js_lower t) | _ \<Rightarrow> None)" by auto
  from Cons.IH [OF 2 [unfolded s1]] qs c show ?case
    by (auto simp: token_key_position) (auto simp: token_key_def)
qed

lemma savePosition_Ret:
  assumes "savePosition pos s = (Ret u, s')" and "has_hash (position_value pos)"
  shows "tracked s' = take 25 (position_value pos #
    filter (\<lambda>p. token_key p \<noteq> token_key (position_value pos)) (tracked s))"
proof -
  have hashed: "has_hash p" if "p \<in> set (tracked s)" for p
    using that by (auto simp: tracked_def split: option.splits stored.splits js_value.splits)
  from assms(1) obtain next1 s1 where 1: "other_positions pos (tracked s) s = (Ret next1, s1)"
    and s': "s' = s1\<lparr>cl_storage := (cl_storage s1)(POS_KEY \<mapsto>
       Json (Arr (take 25 (position_value pos # next1))))\<rparr>"
    by (auto simp: savePosition_def loadPositions_def await_Ret_iff get_state_Ret_iff set_state_Ret_iff)
  note o = other_positions_Ret [OF 1]
  have "tracked s' = filter has_hash (take 25 (position_value pos # next1))"
    by (simp add: s' tracked_def)
  also have "\<dots> = take 25 (position_value pos # next1)"
    using assms(2) o hashed by (intro filter_True) (auto dest!: in_set_takeD)
  finally show ?thesis using o by simp
qed

text \<open>recording a loan puts it first and replaces what was recorded of the same token, whatever
  the case of the address; the other entries stay, in their order, up to 25 in all; and no two entries
  are ever of one token.\<close>

theorem positions_recorded:
  assumes "savePosition pos s = (Ret u, s')" and "has_hash (position_value pos)"
    and "distinct (map token_key (tracked s))"
  shows "tracked s' = take 25 (position_value pos #
      filter (\<lambda>p. token_key p \<noteq> token_key (position_value pos)) (tracked s)) \<and>
    length (tracked s') \<le> 25 \<and> distinct (map token_key (tracked s'))"
proof -
  let ?ps = "position_value pos # filter (\<lambda>p. token_key p \<noteq> token_key (position_value pos)) (tracked s)"
  have "distinct (map token_key ?ps)"
    using assms(3) by (auto simp: distinct_map inj_on_def)
  then have "distinct (map token_key (take 25 ?ps))" by (simp only: take_map [symmetric] distinct_take)
  with savePosition_Ret [OF assms(1,2)] show ?thesis by auto
qed

definition demo_position :: position where
  "demo_position = \<lparr>p_collection = demo_account, p_collectionName = ''Demo'', p_tokenId = ''7'',
     p_hash = Str (''0x'' @ replicate 64 (CHR ''a''))\<rparr>"

theorem positions_recorded_witness:
  "\<exists>s'. savePosition demo_position demo_client = (Ret (), s') \<and> tracked s' = [position_value demo_position]"
proof -
  have t: "tracked demo_client = []" by (simp add: tracked_def demo_client_def)
  then obtain s' where run: "savePosition demo_position demo_client = (Ret (), s')"
    by (simp add: savePosition_def loadPositions_def await_get_state set_state_def)
  have "has_hash (position_value demo_position)"
    by (simp add: has_hash_def position_value_def member_of_def demo_position_def is_0x_def list_all_iff
        is_hex_def hex_digit_value_def Let_def)
  from positions_recorded [OF run this] t run show ?thesis by simp
qed

section \<open>The wheel\<close>

text \<open>Turning the wheel by any number selects the collection that many further round, whatever the
  sign of JavaScript's remainder, and then each of the five slots in view, from two to the left to two
  to the right, shows exactly one collection.\<close>

theorem wheel_slots:
  "rotateNft delta i = (i + delta) mod 5 \<and>
   bij_betw (\<lambda>j. slotFor j (rotateNft delta i) wheel_size) {0..<wheel_size} (Some ` {- 2..2})"
proof -
  have n: "wheel_size = 5" by (simp add: COLLECTIONS_def)
  define k where "k = (i + delta) mod 5"
  then have k: "rotateNft delta i = k" "0 \<le> k" "k < 5"
    by (simp_all add: rotateNft_def wrapIndex_mod n)
  have range: "{0..<5 :: int} = {0, 1, 2, 3, 4}" "{- 2..2 :: int} = {- 2, - 1, 0, 1, 2}" by auto
  from k consider "k = 0" | "k = 1" | "k = 2" | "k = 3" | "k = 4" by linarith
  then have "bij_betw (\<lambda>j. slotFor j k 5) {0..<5} (Some ` {- 2..2})"
    unfolding range bij_betw_def by cases (auto simp: slotFor_def Let_def)
  with k show ?thesis by (simp add: n k_def)
qed

section \<open>The quote of the pool\<close>

lemma reported_Throw: "m s = (Throw e, s') \<Longrightarrow>
    reported fallback m f s = (Ret (f (if err_message e = [] then fallback else err_message e)), s')"
  by (simp add: reported_def try_catch_def ret_def)

text \<open>When the pool gives no quote for a collection, the wizard does not say why: the reason that
  \<^verbatim>\<open>refreshPoolQuote\<close> shows is replaced at once by the error that there is no capacity.\<close>

theorem quote_error_hidden:
  assumes "cl_address s = Some who" "who \<noteq> []"
    and "isHexAddress (dr_collection d)" and "isTokenId (dr_tokenId d)"
    and "assertOwnsNft B (dr_collection d) (dr_tokenId d) s = (Ret (), s1)"
    and "readPoolQuote B (dr_collection d) s1 = (Throw e, s2)"
  shows "fst (refreshPoolQuote B (dr_collection d) u s1) =
      Ret (None, Some (Err (if err_message e = [] then ''Collection is not listed on the pool'' else err_message e))) \<and>
    fst (borrow_to_terms B d u s) = Ret (None, Err ''Pool reports no borrow capacity for this collection'')"
proof -
  have zero: "big_of_text ''0'' = Some 0" by code_simp
  have quote: "refreshPoolQuote B (dr_collection d) u s1 =
      (Ret (None, Some (Err (if err_message e = [] then ''Collection is not listed on the pool'' else err_message e))), s2)"
    using assms(3,6) by (simp add: refreshPoolQuote_def reported_def try_catch_def await_run_Throw ret_def)
  have terms: "\<exists>t. updateTermsQuote None d s = (Ret t, s) \<and> t_maxRaw t = 0" for s :: "'a client"
    by (simp add: updateTermsQuote_def zero or_throw_def Let_def) (simp add: ret_def)
  obtain t where t: "updateTermsQuote None d s2 = (Ret t, s2)" "t_maxRaw t = 0" using terms [of s2] by blast
  have wallet: "await requireWallet f s = f () s" for f :: "unit \<Rightarrow> ('a, nat option \<times> status) page"
    using assms(1,2) by (simp add: requireWallet_def await_assoc await_getAddress)
  have "borrow_to_terms B d u s = (Ret (None, Err ''Pool reports no borrow capacity for this collection''), s2)"
    unfolding borrow_to_terms_def using assms(3,4)
    by (intro reported_Throw [where e = "JsError ''Pool reports no borrow capacity for this collection''",
          simplified])
      (simp add: wallet
        await_run_Ret [where m = "assertOwnsNft B (dr_collection d) (dr_tokenId d)", OF assms(5)]
        await_run_Ret [where m = "refreshPoolQuote B (dr_collection d) u", OF quote]
        await_run_Ret [where m = "updateTermsQuote None d", OF t(1)] t(2) throw_def)
  with quote show ?thesis by simp
qed

text \<open>A node without the pool's quote.\<close>

definition quoteless_browser :: "nat browser" where
  "quoteless_browser = demo_browser\<lparr>b_fetch := (\<lambda>m params c.
     if m = ''eth_call'' \<and> member_of (hd params) ''to'' = Str (lendPoolAddress config)
     then (Inr (Some ''execution reverted'', Undef), [], c) else demo_fetch m params c)\<rparr>"

theorem quote_error_hidden_witness:
  "fst (borrow_to_terms quoteless_browser \<lparr>dr_collectionName = ''Demo'',
      dr_collection = usdcAddress config, dr_tokenId = ''7'', dr_amount = ''5''\<rparr> None demo_client) =
    Ret (None, Err ''Pool reports no borrow capacity for this collection'')"
proof -
  let ?d = "\<lparr>dr_collectionName = ''Demo'', dr_collection = usdcAddress config, dr_tokenId = ''7'', dr_amount = ''5''\<rparr>"
  have hex: "isHexAddress (usdcAddress config)" and id1: "isTokenId ''7''"
    by (simp_all add: isHexAddress_def is_0x_def config_def is_hex_def hex_digit_value_def isTokenId_def is_digit_def)
  have owner: "js_lower (addrWord demo_words 0) = js_lower demo_account"
    by code_simp
  have other: "usdcAddress config \<noteq> lendPoolAddress config" by (simp add: config_def)
  have same: "ethCall quoteless_browser (usdcAddress config) data = ethCall demo_browser (usdcAddress config) data"
    for data using other
    by (auto simp: ethCall_def rpc_def fetch_rpc_def quoteless_browser_def demo_browser_def member_of_def)
  have owner_same: "readOwner quoteless_browser (usdcAddress config) t = readOwner demo_browser (usdcAddress config) t" for t
    by (simp add: readOwner_def same)
  have "runs (assertOwnsNft demo_browser (usdcAddress config) ''7'') demo_client (\<lambda>_ _. True)"
    using demo_ready hex id1 owner demo_words
    by (simp add: assertOwnsNft_def readOwner_def token_big_digits token_big_def ethCall_def demo_account_def)
  then have "\<exists>s1. assertOwnsNft quoteless_browser (usdcAddress config) ''7'' demo_client = (Ret (), s1)"
    by (simp add: runs_def assertOwnsNft_def [of quoteless_browser] assertOwnsNft_def [of demo_browser] owner_same cong: if_cong)
  then obtain s1 where own: "assertOwnsNft quoteless_browser (usdcAddress config) ''7'' demo_client = (Ret (), s1)" ..
  have "\<exists>s2. readPoolQuote quoteless_browser (usdcAddress config) s1 = (Throw (JsError ''execution reverted''), s2)"
    by (simp add: readPoolQuote_def ethCall_def rpc_def fetch_rpc_def await_def throw_def quoteless_browser_def member_of_def)
  then obtain s2 where "readPoolQuote quoteless_browser (usdcAddress config) s1 = (Throw (JsError ''execution reverted''), s2)" ..
  with quote_error_hidden [of demo_client demo_account ?d quoteless_browser s1 "JsError ''execution reverted''" s2 None]
    own hex id1 show ?thesis by (simp add: demo_client_def demo_account_def)
qed

end
