(* ===== verification/PageViews.thy ===== *)
theory PageViews
  imports ClientStorage
begin

text \<open>
  What \<^verbatim>\<open>frontend/js/app.js\<close> draws from the state of the client: the list of loans with the
  buttons that repay them, the statistics, and the buttons that connect.
\<close>

section \<open>The list of loans\<close>

text \<open>\<open>lr_collection\<close> and \<open>lr_tokenId\<close> are the data attributes of the button that repays.\<close>

record loan_row =
  lr_title :: string
  lr_detail :: string
  lr_link :: "string option"
  lr_collection :: string
  lr_tokenId :: string

datatype loans_view = NoLoans string | Loans "loan_row list"

text \<open>\<^verbatim>\<open>v.slice(a, b)\<close> and \<^verbatim>\<open>v.slice(-n)\<close> in a template, of a text or of an array.\<close>

definition value_slice :: "nat \<Rightarrow> nat \<Rightarrow> js_value \<Rightarrow> ('s, string) script" where
  "value_slice a b v = (case v of
     Str t \<Rightarrow> ret (js_slice a b t)
   | Arr vs \<Rightarrow> ret (js_join (take (b - a) (drop a vs)))
   | _ \<Rightarrow> throw (TypeError ''slice is not a function''))"

definition value_slice_last :: "nat \<Rightarrow> js_value \<Rightarrow> ('s, string) script" where
  "value_slice_last n v = (case v of
     Str t \<Rightarrow> ret (js_slice_last n t)
   | Arr vs \<Rightarrow> ret (js_join (drop (length vs - n) vs))
   | _ \<Rightarrow> throw (TypeError ''slice is not a function''))"

text \<open>\<^verbatim>\<open>shortAddress\<close> of a stored value; the ellipsis in UTF-8.\<close>

definition short_value :: "js_value \<Rightarrow> ('s, string) script" where
  "short_value v = (if \<not> js_truthy v then ret ''''
     else await (value_slice 0 6 v) (\<lambda>a. await (value_slice_last 4 v) (\<lambda>b.
       ret (a @ [CHR 0xE2, CHR 0x80, CHR 0xA6] @ b))))"

text \<open>A middle dot, and an ellipsis.\<close>

definition loan_detail :: "js_value \<Rightarrow> ('s, string) script" where
  "loan_detail pos = (let hash = member_of pos ''hash''; vault = member_of pos ''vault'' in
     if js_truthy hash then
       await (if js_truthy vault then await (short_value vault) (\<lambda>v.
           ret (''Vault '' @ v @ [CHR '' '', CHR 0xC2, CHR 0xB7, CHR '' ''])) else ret '''') (\<lambda>a.
       await (value_slice 0 10 hash) (\<lambda>h.
       ret (a @ ''Borrow tx '' @ h @ [CHR 0xE2, CHR 0x80, CHR 0xA6])))
     else ret ''Awaiting chain read'')"

definition loan_row_of :: "js_value \<Rightarrow> ('s, loan_row) script" where
  "loan_row_of pos =
     await (let name = member_of pos ''collectionName'' in
       if js_truthy name then ret (js_String name) else short_value (member_of pos ''collection'')) (\<lambda>name.
     await (loan_detail pos) (\<lambda>detail.
     ret \<lparr>lr_title = name @ '' #'' @ js_String (member_of pos ''tokenId''),
       lr_detail = detail,
       lr_link = (let hash = member_of pos ''hash'' in
         if js_truthy hash then Some (explorerTx (js_String hash)) else None),
       lr_collection = js_String (member_of pos ''collection''),
       lr_tokenId = js_String (member_of pos ''tokenId'')\<rparr>))"

primrec loan_rows :: "js_value list \<Rightarrow> ('s, loan_row list) script" where
  "loan_rows [] = ret []"
| "loan_rows (p # ps) = await (loan_row_of p) (\<lambda>r. await (loan_rows ps) (\<lambda>rs. ret (r # rs)))"

definition renderLoans :: "('c, loans_view) page" where
  "renderLoans = await loadPositions (\<lambda>positions.
     if positions = []
     then ret (NoLoans ''No tracked positions yet. A loan appears here after the borrow transaction confirms.'')
     else await (loan_rows positions) (\<lambda>rows. ret (Loans rows)))"

section \<open>Statistics\<close>

text \<open>The three numbers shown; the supply is left as it was where it could not be read.\<close>

record stats =
  st_supply :: "js_num option"
  st_tvl :: js_num
  st_loans :: nat

definition refreshStats :: "'c browser \<Rightarrow> ('c, stats) page" where
  "refreshStats B =
     await getAddress (\<lambda>addr.
     await (if truthy addr
       then try_catch (await (readBUsdcBalance B (the addr)) (\<lambda>raw. ret (Some (fromUsdcUnits raw))))
              (\<lambda>_. ret None)
       else ret None) (\<lambda>supply.
     await loadPositions (\<lambda>positions.
     ret \<lparr>st_supply = supply,
       st_tvl = num_plus (Fin 8500) (case supply of None \<Rightarrow> Fin 0 | Some n \<Rightarrow> n),
       st_loans = length positions\<rparr>)))"

section \<open>The buttons that connect\<close>

text \<open>The text of a button and whether it is marked as connected, after \<^verbatim>\<open>onWalletChange\<close>.\<close>

definition wallet_button :: "string option \<Rightarrow> string \<times> bool" where
  "wallet_button address =
     (if truthy address then (shortAddress address, True) else (''Connect Wallet'', False))"

text \<open>A click on it: \<open>True\<close> where the dialog is opened.\<close>

definition connect_click :: "'c browser \<Rightarrow> bool \<Rightarrow> ('c, bool) page" where
  "connect_click B connected1 =
     (if connected1 then await (disconnectWallet B) (\<lambda>_. ret False) else ret True)"

section \<open>What is listed\<close>

lemma short_value_Str: "t \<noteq> [] \<Longrightarrow> short_value (Str t) = ret (shortAddress (Some t))"
  by (simp add: short_value_def value_slice_def value_slice_last_def shortAddress_def js_slice_def)

text \<open>The row of a position that the page recorded.\<close>

definition row_of_position :: "position \<Rightarrow> loan_row" where
  "row_of_position pos = (let hash = js_String (p_hash pos) in
     \<lparr>lr_title = (if p_collectionName pos \<noteq> [] then p_collectionName pos else shortAddress (Some (p_collection pos)))
        @ '' #'' @ p_tokenId pos,
      lr_detail = ''Borrow tx '' @ take 10 hash @ [CHR 0xE2, CHR 0x80, CHR 0xA6],
      lr_link = Some (explorerUrl config @ ''/tx/'' @ hash),
      lr_collection = p_collection pos, lr_tokenId = p_tokenId pos\<rparr>)"

lemma member_of_position [simp]:
  "member_of (position_value pos) ''collection'' = Str (p_collection pos)"
  "member_of (position_value pos) ''collectionName'' = Str (p_collectionName pos)"
  "member_of (position_value pos) ''tokenId'' = Str (p_tokenId pos)"
  "member_of (position_value pos) ''hash'' = p_hash pos"
  "member_of (position_value pos) ''vault'' = Undef"
  by (simp_all add: position_value_def member_of_def)

text \<open>A position as the page records it: a hash, and a collection.\<close>

definition drawable :: "position \<Rightarrow> bool" where
  "drawable pos \<longleftrightarrow> has_hash (position_value pos) \<and> p_hash pos = Str (js_String (p_hash pos)) \<and>
     p_collection pos \<noteq> []"

lemma loan_row_of_position:
  assumes "drawable pos"
  shows "loan_row_of (position_value pos) = ret (row_of_position pos)"
proof -
  obtain hash where h: "p_hash pos = Str hash" using assms by (auto simp: drawable_def)
  with assms have hash: "is_0x 64 hash" "hash \<noteq> []"
    by (auto simp: drawable_def has_hash_def Let_def is_0x_def split: if_splits)
  have detail: "loan_detail (position_value pos) = ret (''Borrow tx '' @ take 10 hash @ [CHR 0xE2, CHR 0x80, CHR 0xA6])"
    using h hash by (simp add: loan_detail_def value_slice_def js_slice_def Let_def)
  have name: "(let name = member_of (position_value pos) ''collectionName'' in
      if js_truthy name then ret (js_String name) else short_value (member_of (position_value pos) ''collection'')) =
    ret (if p_collectionName pos \<noteq> [] then p_collectionName pos else shortAddress (Some (p_collection pos)))"
    using assms by (simp add: drawable_def short_value_Str)
  show ?thesis
    unfolding loan_row_of_def name detail await_ret row_of_position_def
    using h hash by (simp add: explorerTx_def)
qed

lemma loan_rows_positions:
  "list_all drawable ps \<Longrightarrow> loan_rows (map position_value ps) = ret (map row_of_position ps)"
  by (induction ps) (simp_all add: loan_row_of_position)

text \<open>A recorded position always has its hash, so no row ever awaits the chain.\<close>

lemma tracked_has_hash: "pos \<in> set (tracked s) \<Longrightarrow> js_truthy (member_of pos ''hash'')"
proof -
  assume "pos \<in> set (tracked s)"
  then have "has_hash pos" by (auto simp: tracked_def split: option.splits stored.splits js_value.splits)
  then show ?thesis by (auto simp: has_hash_def Let_def is_0x_def split: if_splits)
qed

text \<open>A stored entry whose collection is a number stops the drawing, and what would follow it.\<close>

lemma bad_position_stops:
  assumes "member_of pos ''collection'' = Num n" "n \<noteq> 0" "\<not> js_truthy (member_of pos ''collectionName'')"
  shows "loan_row_of pos s = (Throw (TypeError ''slice is not a function''), s)"
  using assms by (simp add: loan_row_of_def short_value_def value_slice_def Let_def) (simp add: throw_def)

text \<open>The value locked that the page shows is a constant plus the user's own supply.\<close>

lemma tvl_without_account:
  "\<not> truthy (cl_address s) \<Longrightarrow> fst (refreshStats B s) =
   Ret \<lparr>st_supply = None, st_tvl = num_plus (Fin 8500) (Fin 0), st_loans = length (tracked s)\<rparr>"
  by (simp add: refreshStats_def loadPositions_def await_reads del: num_plus.simps)
    (simp add: ret_def del: num_plus.simps)

section \<open>Properties\<close>

text \<open>Recording a loan on a page that lists its own recordings draws the new loan first, then the
  loans of other tokens in their order, up to 25; and the row of each loan names its token, links to its
  transaction, and has a button for exactly its collection and its token.\<close>

theorem recorded_loan_listed:
  assumes "savePosition pos s = (Ret u, s')" "drawable pos" "list_all drawable ps"
    and "tracked s = map position_value ps"
  shows "renderLoans s' = (Ret (Loans (map row_of_position (take 25 (pos #
      filter (\<lambda>p. token_key (position_value p) \<noteq> token_key (position_value pos)) ps)))), s') \<and>
    list_all (\<lambda>p. lr_collection (row_of_position p) = p_collection p \<and>
      lr_tokenId (row_of_position p) = p_tokenId p \<and>
      lr_link (row_of_position p) = Some (explorerUrl config @ ''/tx/'' @ js_String (p_hash p))) (pos # ps)"
proof -
  let ?ps = "take 25 (pos # filter (\<lambda>p. token_key (position_value p) \<noteq> token_key (position_value pos)) ps)"
  have "tracked s' = take 25 (position_value pos #
      filter (\<lambda>p. token_key p \<noteq> token_key (position_value pos)) (tracked s))"
    using savePosition_Ret [OF assms(1)] assms(2) by (simp add: drawable_def)
  then have tracked: "tracked s' = map position_value ?ps"
    by (simp add: assms(4) filter_map comp_def take_map)
  have "list_all drawable ?ps"
    using assms(2,3) by (auto simp: list_all_iff dest: in_set_takeD)
  note rows = loan_rows_positions [OF this]
  have "map position_value ?ps \<noteq> []" by simp
  then have "renderLoans s' = (Ret (Loans (map row_of_position ?ps)), s')"
    unfolding renderLoans_def loadPositions_def await_reads tracked by (simp only: rows if_False await_ret) (simp only: ret_def)
  moreover have "list_all (\<lambda>p. lr_collection (row_of_position p) = p_collection p \<and>
      lr_tokenId (row_of_position p) = p_tokenId p \<and>
      lr_link (row_of_position p) = Some (explorerUrl config @ ''/tx/'' @ js_String (p_hash p))) (pos # ps)"
    by (simp add: row_of_position_def Let_def list_all_iff)
  ultimately show ?thesis by blast
qed

theorem recorded_loan_listed_witness:
  "\<exists>s'. savePosition demo_position demo_client = (Ret (), s') \<and>
     renderLoans s' = (Ret (Loans [row_of_position demo_position]), s')"
proof -
  have t: "tracked demo_client = []" by (simp add: tracked_def demo_client_def)
  then obtain s' where run: "savePosition demo_position demo_client = (Ret (), s')"
    by (simp add: savePosition_def loadPositions_def await_get_state set_state_def)
  have "drawable demo_position"
    by (simp add: drawable_def has_hash_def demo_position_def is_0x_def list_all_iff
        is_hex_def hex_digit_value_def Let_def) code_simp
  from recorded_loan_listed [OF run this, of "[]"] t run show ?thesis by simp
qed

end
