(* ===== verification/BorrowPage.thy ===== *)
theory BorrowPage
  imports AppJs
begin

text \<open>
  The page of \<^verbatim>\<open>frontend/js/app.js\<close> as a machine: the tabs, the steps of the borrow form, the
  wheel of collections, the fields, and the handlers that wait for the node or the wallet.  Theory
  \<open>AppJs\<close> runs one handler over the answers it gets; here the handlers run interleaved, since the
  user goes on while one of them waits.  An event is what the user does, on what is visible, or the
  answer to one of the waiting handlers, in any order.  The markup is that of
  \<^verbatim>\<open>frontend/index.html\<close>.
\<close>

section \<open>State\<close>

text \<open>
  The handlers that wait: \<open>Quoting c\<close> for the quote of the collection \<open>c\<close>; the handler of
  \<^verbatim>\<open>borrow-to-terms\<close> for the owner of the token (\<open>Owning\<close>) and then for the quote
  (\<open>Checking\<close>), with the draft it read when it started; the handler of \<^verbatim>\<open>borrow-confirm\<close> for
  the borrow of an amount.
\<close>

datatype task =
    Quoting string
  | Owning draft
  | Checking draft
  | Borrowing draft js_num

datatype answer =
    Failed js_error
  | Quoted nat
  | Owned
  | Borrowed string

record pick =
  pk_slot :: "int option"
  pk_selected :: bool
  pk_aria :: bool

text \<open>
  Tabs and steps are named by their data attributes and are selected or not; panels are hidden or
  not.  \<open>u_value\<close> is the number that the field \<^verbatim>\<open>borrow-value\<close> shows with two digits,
  \<open>u_maxUnits\<close> its attribute.
\<close>

record page_ui =
  u_tabs :: "(string \<times> bool) list"
  u_tab_panels :: "(string \<times> bool) list"
  u_steps :: "(nat \<times> bool) list"
  u_wizard :: "(nat \<times> bool) list"
  u_index :: int
  u_picks :: "pick list"
  u_collection :: string
  u_name :: "string option"
  u_readOnly :: bool
  u_token :: string
  u_value :: "js_num option"
  u_maxUnits :: "string option"
  u_amount :: string
  u_custom_hidden :: bool
  u_toggle :: string
  u_status1 :: status
  u_status2 :: status
  u_status3 :: status
  u_account :: "string option"
  u_waiting :: "task list"

section \<open>Tabs and steps\<close>

text \<open>A click on a tab, and \<^verbatim>\<open>showLoansTab\<close>, which names it.\<close>

definition select_tab :: "nat \<Rightarrow> page_ui \<Rightarrow> page_ui" where
  "select_tab i u = u\<lparr>
     u_tabs := map (\<lambda>(j, t). (fst t, j = i)) (enumerate 0 (u_tabs u)),
     u_tab_panels := map (\<lambda>p. (fst p, fst p \<noteq> fst (u_tabs u ! i))) (u_tab_panels u)\<rparr>"

definition showLoansTab :: "page_ui \<Rightarrow> page_ui" where
  "showLoansTab u = u\<lparr>
     u_tabs := map (\<lambda>t. (fst t, fst t = ''loans'')) (u_tabs u),
     u_tab_panels := map (\<lambda>p. (fst p, fst p \<noteq> ''loans'')) (u_tab_panels u)\<rparr>"

definition setWizardStep :: "nat \<Rightarrow> page_ui \<Rightarrow> page_ui" where
  "setWizardStep step u = u\<lparr>
     u_steps := map (\<lambda>s. (fst s, fst s = step)) (u_steps u),
     u_wizard := map (\<lambda>p. (fst p, fst p \<noteq> step)) (u_wizard u)\<rparr>"

definition shown :: "nat \<Rightarrow> page_ui \<Rightarrow> bool" where
  "shown step u \<longleftrightarrow> (step, False) \<in> set (u_wizard u)"

definition wait_for :: "task \<Rightarrow> page_ui \<Rightarrow> page_ui" where
  "wait_for t u = u\<lparr>u_waiting := u_waiting u @ [t]\<rparr>"

section \<open>Quotes\<close>

definition start_quote :: "string \<Rightarrow> page_ui \<Rightarrow> page_ui" where
  "start_quote collection u = (if isHexAddress collection then wait_for (Quoting collection) u else u)"

definition message_or :: "string \<Rightarrow> js_error \<Rightarrow> string" where
  "message_or fallback e = (if err_message e = [] then fallback else err_message e)"

text \<open>The rest of \<^verbatim>\<open>refreshPoolQuote\<close>, once \<^verbatim>\<open>readPoolQuote\<close> has answered.\<close>

definition quote_arrived :: "js_error + nat \<Rightarrow> page_ui \<Rightarrow> page_ui" where
  "quote_arrived r u = (case r of
     Inr available \<Rightarrow> u\<lparr>u_maxUnits := Some (js_String (Big (int available))),
       u_value := Some (fromUsdcUnits (int available))\<rparr>
   | Inl e \<Rightarrow> u\<lparr>u_maxUnits := None, u_value := None,
       u_status1 := Err (message_or ''Collection is not listed on the pool'' e)\<rparr>)"

section \<open>The wheel and the fields\<close>

definition layoutNftWheel :: "page_ui \<Rightarrow> page_ui" where
  "layoutNftWheel u = (let n = wheel_size; i = wrapIndex (u_index u) n in
     u\<lparr>u_index := i,
       u_picks := map (\<lambda>(j, p). p\<lparr>pk_slot := slotFor (int j) i n, pk_selected := (int j = i),
         pk_aria := (int j = i)\<rparr>) (enumerate 0 (u_picks u))\<rparr>)"

definition select_collection :: "collection \<Rightarrow> page_ui \<Rightarrow> page_ui" where
  "select_collection c u =
     (let u = layoutNftWheel (u\<lparr>u_index := selectCollection c (u_index u)\<rparr>) in
      start_quote (c_address c) (u\<lparr>u_collection := c_address c, u_name := Some (c_name c),
        u_readOnly := True, u_token := '''', u_value := None, u_maxUnits := None,
        u_custom_hidden := False, u_toggle := ''Hide token fields'',
        u_status1 := Plain ''Enter the token ID you own. The pool quote is read on-chain.''\<rparr>))"

definition rotate :: "int \<Rightarrow> page_ui \<Rightarrow> page_ui" where
  "rotate delta u = (let u = layoutNftWheel (u\<lparr>u_index := rotateNft delta (u_index u)\<rparr>) in
     select_collection (COLLECTIONS ! nat (u_index u)) u)"

text \<open>The end of a swipe over the wheel: more than 36 pixels to the right or to the left.\<close>

definition swipe :: "int \<Rightarrow> page_ui \<Rightarrow> page_ui" where
  "swipe dx u = (if dx > 36 then rotate (- 1) u else if dx < - 36 then rotate 1 u else u)"

definition toggle_custom :: "page_ui \<Rightarrow> page_ui" where
  "toggle_custom u =
     (if u_custom_hidden u
      then u\<lparr>u_custom_hidden := False, u_toggle := ''Hide custom token'',
        u_picks := map (\<lambda>p. p\<lparr>pk_selected := False\<rparr>) (u_picks u),
        u_collection := '''', u_readOnly := False, u_name := None\<rparr>
      else u\<lparr>u_custom_hidden := True, u_toggle := ''Use a different collection''\<rparr>)"

definition change_collection :: "string \<Rightarrow> page_ui \<Rightarrow> page_ui" where
  "change_collection t u = start_quote (js_trim t) (u\<lparr>u_collection := t\<rparr>)"

section \<open>The handlers of the form\<close>

definition readBorrowDraft :: "page_ui \<Rightarrow> draft" where
  "readBorrowDraft u = \<lparr>
     dr_collectionName = js_trim (case u_name u of None \<Rightarrow> '''' | Some n \<Rightarrow> n),
     dr_collection = js_trim (u_collection u), dr_tokenId = js_trim (u_token u),
     dr_amount = js_trim (u_amount u)\<rparr>"

text \<open>\<^verbatim>\<open>updateTermsQuote\<close> on what the page holds now; it throws when the attribute is no integer.\<close>

definition page_terms :: "page_ui \<Rightarrow> terms option" where
  "page_terms u = (case fst (updateTermsQuote (u_maxUnits u) (readBorrowDraft u) ()) of
     Ret t \<Rightarrow> Some t | _ \<Rightarrow> None)"

definition click_continue :: "page_ui \<Rightarrow> page_ui" where
  "click_continue u = (let d = readBorrowDraft u in
     if \<not> truthy (u_account u) then u\<lparr>u_status1 := Err ''Connect a wallet first''\<rparr>
     else if \<not> isHexAddress (dr_collection d) then u\<lparr>u_status1 := Err ''Select a listed collection''\<rparr>
     else if \<not> isTokenId (dr_tokenId d)
     then u\<lparr>u_status1 := Err ''Token ID must be an unsigned integer''\<rparr>
     else wait_for (Owning d) u)"

text \<open>The rest of that handler after its quote: \<^verbatim>\<open>refreshPoolQuote\<close> has swallowed any error.\<close>

definition terms_checked :: "page_ui \<Rightarrow> page_ui" where
  "terms_checked u = (case page_terms u of
     None \<Rightarrow> u\<lparr>u_status1 := Err ''Cannot convert to a BigInt''\<rparr>
   | Some t \<Rightarrow>
       if t_maxRaw t = 0
       then u\<lparr>u_status1 := Err ''Pool reports no borrow capacity for this collection''\<rparr>
       else setWizardStep 2 (u\<lparr>u_status1 := Plain ''''\<rparr>))"

definition click_to_confirm :: "page_ui \<Rightarrow> page_ui" where
  "click_to_confirm u = (case page_terms u of
     None \<Rightarrow> u
   | Some t \<Rightarrow> (case borrow_to_confirm t of (step, shown1) \<Rightarrow>
       (case step of None \<Rightarrow> u\<lparr>u_status2 := shown1\<rparr>
        | Some n \<Rightarrow> setWizardStep n (u\<lparr>u_status2 := shown1\<rparr>))))"

definition click_confirm :: "page_ui \<Rightarrow> page_ui" where
  "click_confirm u = (case page_terms u of
     None \<Rightarrow> u
   | Some t \<Rightarrow>
       if \<not> truthy (u_account u) then u\<lparr>u_status3 := Err ''Connect a wallet first''\<rparr>
       else wait_for (Borrowing (readBorrowDraft u) (t_principal t)) (u\<lparr>u_status3 :=
         Plain ''Approve the NFT, then confirm borrow in your wallet. USDC goes to this wallet.''\<rparr>))"

definition borrow_done :: "string \<Rightarrow> page_ui \<Rightarrow> page_ui" where
  "borrow_done hash u = showLoansTab (setWizardStep 1 (u\<lparr>u_status3 :=
     Ok (''Borrow submitted. USDC to '' @ shortAddress (u_account u) @ ''. '' @ explorerTx hash)\<rparr>))"

text \<open>An answer that does not fit the task cannot come.\<close>

fun resume :: "task \<Rightarrow> answer \<Rightarrow> page_ui \<Rightarrow> page_ui" where
  "resume (Quoting c) (Quoted n) u = quote_arrived (Inr n) u"
| "resume (Quoting c) (Failed e) u = quote_arrived (Inl e) u"
| "resume (Owning d) Owned u = wait_for (Checking d) u"
| "resume (Owning d) (Failed e) u = u\<lparr>u_status1 := Err (message_or ''Cannot continue'' e)\<rparr>"
| "resume (Checking d) (Quoted n) u = terms_checked (quote_arrived (Inr n) u)"
| "resume (Checking d) (Failed e) u = terms_checked (quote_arrived (Inl e) u)"
| "resume (Borrowing d p) (Borrowed hash) u = borrow_done hash u"
| "resume (Borrowing d p) (Failed e) u = u\<lparr>u_status3 := Err (message_or ''Borrow transaction failed'' e)\<rparr>"
| "resume t a u = wait_for t u"

section \<open>Events\<close>

datatype page_event =
    ClickTab nat
  | ClickPick nat
  | Rotate bool
  | Swipe int
  | ToggleCustom
  | EnterCollection string
  | EnterToken string
  | EnterAmount string
  | ClickContinue
  | ClickToConfirm
  | ClickConfirm
  | Back nat
  | Account "string option"
  | Answer nat answer

text \<open>
  What is not visible takes no event: the first panel has the wheel, the fields and the button to
  the terms, the second the amount, the third the last button; a button goes back to the panel before.
\<close>

fun page_step :: "page_event \<Rightarrow> page_ui \<Rightarrow> page_ui" where
  "page_step (ClickTab i) u = (if i < length (u_tabs u) then select_tab i u else u)"
| "page_step (ClickPick i) u =
     (if shown 1 u \<and> i < length COLLECTIONS \<and> c_live (COLLECTIONS ! i)
      then select_collection (COLLECTIONS ! i) u else u)"
| "page_step (Rotate forward) u =
     (if shown 1 u then rotate (if forward then 1 else - 1) u else u)"
| "page_step (Swipe dx) u = (if shown 1 u then swipe dx u else u)"
| "page_step ToggleCustom u = (if shown 1 u then toggle_custom u else u)"
| "page_step (EnterCollection t) u =
     (if shown 1 u \<and> \<not> u_custom_hidden u \<and> \<not> u_readOnly u then change_collection t u else u)"
| "page_step (EnterToken t) u =
     (if shown 1 u \<and> \<not> u_custom_hidden u then u\<lparr>u_token := t\<rparr> else u)"
| "page_step (EnterAmount t) u = (if shown 2 u then u\<lparr>u_amount := t\<rparr> else u)"
| "page_step ClickContinue u = (if shown 1 u then click_continue u else u)"
| "page_step ClickToConfirm u = (if shown 2 u then click_to_confirm u else u)"
| "page_step ClickConfirm u = (if shown 3 u then click_confirm u else u)"
| "page_step (Back n) u =
     (if n = 1 \<and> shown 2 u \<or> n = 2 \<and> shown 3 u then setWizardStep n u else u)"
| "page_step (Account a) u = u\<lparr>u_account := a\<rparr>"
| "page_step (Answer k a) u =
     (if k < length (u_waiting u)
      then resume (u_waiting u ! k) a (u\<lparr>u_waiting := take k (u_waiting u) @ drop (Suc k) (u_waiting u)\<rparr>)
      else u)"

section \<open>Loading\<close>

definition page_markup :: page_ui where
  "page_markup = \<lparr>
     u_tabs = [(''borrow'', True), (''supply'', False), (''loans'', False)],
     u_tab_panels = [(''borrow'', False), (''supply'', True), (''loans'', True)],
     u_steps = [(1, True), (2, False), (3, False)],
     u_wizard = [(1, False), (2, True), (3, True)],
     u_index = 0, u_picks = [], u_collection = '''', u_name = None, u_readOnly = False,
     u_token = '''', u_value = None, u_maxUnits = None, u_amount = '''',
     u_custom_hidden = True, u_toggle = ''Use a different collection'',
     u_status1 = Plain '''', u_status2 = Plain '''', u_status3 = Plain '''',
     u_account = None, u_waiting = []\<rparr>"

text \<open>\<^verbatim>\<open>renderNftGrid\<close>: a button per collection, laid out, the first one selected.\<close>

definition renderNftGrid :: "page_ui \<Rightarrow> page_ui" where
  "renderNftGrid u = select_collection (COLLECTIONS ! 0) (layoutNftWheel (u\<lparr>u_picks :=
     map (\<lambda>c. \<lparr>pk_slot = None, pk_selected = False, pk_aria = False\<rparr>) COLLECTIONS\<rparr>))"

definition page_start :: page_ui where
  "page_start = setWizardStep 1 (renderNftGrid page_markup)"

definition run_page :: "page_event list \<Rightarrow> page_ui" where
  "run_page es = fold page_step es page_start"

end
