(* ===== verification/BorrowMachine.thy ===== *)
theory BorrowMachine
  imports BorrowPage
begin

text \<open>
  What the page of theory \<open>BorrowPage\<close> keeps, whatever the user does and in whatever order the node
  and the wallet answer: one tab and one step are shown, the wheel is laid out around the index, the
  field and the attribute of the quote agree, and the last step is shown only with an amount.  And what
  it does not keep: the quote and the token that were checked need not be those on the page.
\<close>

section \<open>The invariant\<close>

definition tab_names :: "string list" where
  "tab_names = [''borrow'', ''supply'', ''loans'']"

definition one_tab :: "page_ui \<Rightarrow> bool" where
  "one_tab u \<longleftrightarrow> (\<exists>t \<in> set tab_names. u_tabs u = map (\<lambda>k. (k, k = t)) tab_names \<and>
     u_tab_panels u = map (\<lambda>k. (k, k \<noteq> t)) tab_names)"

definition at_step :: "nat \<Rightarrow> page_ui \<Rightarrow> bool" where
  "at_step n u \<longleftrightarrow> u_steps u = map (\<lambda>k. (k, k = n)) [1, 2, 3] \<and> u_wizard u = map (\<lambda>k. (k, k \<noteq> n)) [1, 2, 3]"

definition one_step :: "page_ui \<Rightarrow> bool" where
  "one_step u \<longleftrightarrow> (\<exists>n \<in> {1, 2, 3}. at_step n u)"

text \<open>\<^verbatim>\<open>toggle-custom\<close> removes the mark of the class from every button, not that of the aria attribute.\<close>

definition wheel_laid_out :: "page_ui \<Rightarrow> bool" where
  "wheel_laid_out u \<longleftrightarrow> 0 \<le> u_index u \<and> u_index u < wheel_size \<and> length (u_picks u) = length COLLECTIONS \<and>
     (\<forall>j < length (u_picks u). pk_slot (u_picks u ! j) = slotFor (int j) (u_index u) wheel_size \<and>
        pk_aria (u_picks u ! j) = (int j = u_index u) \<and>
        (pk_selected (u_picks u ! j) \<longrightarrow> int j = u_index u))"

definition quote_agrees :: "page_ui \<Rightarrow> bool" where
  "quote_agrees u \<longleftrightarrow> u_maxUnits u = None \<and> u_value u = None \<or>
     (\<exists>n :: nat. u_maxUnits u = Some (dec n) \<and> u_value u = Some (fromUsdcUnits (int n)))"

definition page_amount :: "page_ui \<Rightarrow> js_num" where
  "page_amount u = js_number (js_trim (u_amount u))"

definition amount_when_confirming :: "page_ui \<Rightarrow> bool" where
  "amount_when_confirming u \<longleftrightarrow> (shown 3 u \<longrightarrow> positive_finite (page_amount u))"

fun task_ok :: "task \<Rightarrow> bool" where
  "task_ok (Quoting c) = isHexAddress c"
| "task_ok (Owning d) = (isHexAddress (dr_collection d) \<and> isTokenId (dr_tokenId d))"
| "task_ok (Checking d) = (isHexAddress (dr_collection d) \<and> isTokenId (dr_tokenId d))"
| "task_ok (Borrowing d p) = positive_finite p"

definition page_ok :: "page_ui \<Rightarrow> bool" where
  "page_ok u \<longleftrightarrow> one_tab u \<and> one_step u \<and> wheel_laid_out u \<and> quote_agrees u \<and>
     amount_when_confirming u \<and> list_all task_ok (u_waiting u)"

lemmas page_ok_defs = page_ok_def one_tab_def one_step_def at_step_def wheel_laid_out_def
  quote_agrees_def amount_when_confirming_def page_amount_def shown_def

section \<open>Tabs and steps\<close>

lemma select_tab_one:
  assumes "one_tab u" "i < length (u_tabs u)"
  shows "one_tab (select_tab i u)"
proof -
  from assms(1) obtain t where t: "u_tabs u = map (\<lambda>k. (k, k = t)) tab_names"
    "u_tab_panels u = map (\<lambda>k. (k, k \<noteq> t)) tab_names"
    by (auto simp: one_tab_def)
  with assms(2) have "i = 0 \<or> i = 1 \<or> i = 2" by (auto simp: tab_names_def)
  with t show ?thesis by (auto simp: one_tab_def select_tab_def tab_names_def)
qed

lemma showLoansTab_one: "one_tab u \<Longrightarrow> one_tab (showLoansTab u)"
  by (auto simp: one_tab_def showLoansTab_def tab_names_def)

lemma setWizardStep_at: "one_step u \<Longrightarrow> n \<in> {1, 2, 3} \<Longrightarrow> at_step n (setWizardStep n u)"
  by (auto simp: one_step_def at_step_def setWizardStep_def)

lemma at_step_shown: "at_step n u \<Longrightarrow> n \<in> {1, 2, 3} \<Longrightarrow> shown k u \<longleftrightarrow> k = n"
  by (auto simp: at_step_def shown_def)

text \<open>Going to a step keeps the invariant, if the amount is positive where the step is the last.\<close>

lemma setWizardStep_ok:
  assumes "page_ok u" "n \<in> {1, 2, 3}" "n = 3 \<longrightarrow> positive_finite (page_amount u)"
  shows "page_ok (setWizardStep n u)"
proof -
  have at: "at_step n (setWizardStep n u)"
    using assms(1,2) setWizardStep_at by (auto simp: page_ok_def)
  then have "one_step (setWizardStep n u)" using assms(2) by (auto simp: one_step_def)
  moreover have "amount_when_confirming (setWizardStep n u)"
    using at_step_shown [OF at assms(2)] assms(3)
    by (auto simp: amount_when_confirming_def) (simp add: page_amount_def setWizardStep_def)
  moreover have "one_tab (setWizardStep n u)" "wheel_laid_out (setWizardStep n u)"
    "quote_agrees (setWizardStep n u)" "list_all task_ok (u_waiting (setWizardStep n u))"
    using assms(1) by (simp_all add: page_ok_def one_tab_def wheel_laid_out_def quote_agrees_def setWizardStep_def)
  ultimately show ?thesis by (simp add: page_ok_def)
qed

section \<open>What a change of one field keeps\<close>

lemma page_ok_simps [simp]:
  "page_ok (u\<lparr>u_status1 := s\<rparr>) = page_ok u" "page_ok (u\<lparr>u_status2 := s\<rparr>) = page_ok u"
  "page_ok (u\<lparr>u_status3 := s\<rparr>) = page_ok u" "page_ok (u\<lparr>u_account := a\<rparr>) = page_ok u"
  "page_ok (u\<lparr>u_token := t\<rparr>) = page_ok u" "page_ok (u\<lparr>u_collection := t\<rparr>) = page_ok u"
  "page_ok (u\<lparr>u_name := o1\<rparr>) = page_ok u" "page_ok (u\<lparr>u_readOnly := b\<rparr>) = page_ok u"
  "page_ok (u\<lparr>u_custom_hidden := b\<rparr>) = page_ok u" "page_ok (u\<lparr>u_toggle := t\<rparr>) = page_ok u"
  by (simp_all add: page_ok_defs)

lemma wait_for_ok [simp]: "page_ok (wait_for t u) \<longleftrightarrow> page_ok u \<and> task_ok t"
  by (auto simp: page_ok_defs wait_for_def)

lemma waiting_removed_ok:
  "page_ok u \<Longrightarrow> page_ok (u\<lparr>u_waiting := take k (u_waiting u) @ drop (Suc k) (u_waiting u)\<rparr>)"
  by (auto simp: page_ok_defs list_all_iff dest: in_set_takeD in_set_dropD)

lemma start_quote_ok: "page_ok u \<Longrightarrow> page_ok (start_quote c u)"
  by (simp add: start_quote_def)

lemma no_quote_ok: "page_ok u \<Longrightarrow> page_ok (u\<lparr>u_value := None, u_maxUnits := None\<rparr>)"
  by (simp add: page_ok_defs)

lemma quote_arrived_ok: "page_ok u \<Longrightarrow> page_ok (quote_arrived r u)"
  by (auto simp: page_ok_defs quote_arrived_def split: sum.split)

lemma layoutNftWheel_laid_out: "length (u_picks u) = length COLLECTIONS \<Longrightarrow> wheel_laid_out (layoutNftWheel u)"
  by (simp add: wheel_laid_out_def layoutNftWheel_def Let_def wrapIndex_mod nth_enumerate_eq COLLECTIONS_def)

lemma layoutNftWheel_simps [simp]:
  "one_tab (layoutNftWheel u) = one_tab u" "one_step (layoutNftWheel u) = one_step u"
  "quote_agrees (layoutNftWheel u) = quote_agrees u"
  "amount_when_confirming (layoutNftWheel u) = amount_when_confirming u"
  "u_waiting (layoutNftWheel u) = u_waiting u" "length (u_picks (layoutNftWheel u)) = length (u_picks u)"
  by (simp_all add: layoutNftWheel_def Let_def page_ok_defs)

text \<open>The wheel is laid out again whatever the index was.\<close>

lemma turned_ok: "page_ok u \<Longrightarrow> page_ok (layoutNftWheel (u\<lparr>u_index := i\<rparr>))"
proof -
  assume u: "page_ok u"
  then have "wheel_laid_out (layoutNftWheel (u\<lparr>u_index := i\<rparr>))"
    by (intro layoutNftWheel_laid_out) (simp add: page_ok_def wheel_laid_out_def)
  moreover from u have "one_tab (u\<lparr>u_index := i\<rparr>)" "one_step (u\<lparr>u_index := i\<rparr>)"
    "quote_agrees (u\<lparr>u_index := i\<rparr>)" "amount_when_confirming (u\<lparr>u_index := i\<rparr>)"
    "list_all task_ok (u_waiting u)"
    by (simp_all add: page_ok_defs)
  ultimately show ?thesis by (simp add: page_ok_def)
qed

lemma select_collection_ok: "page_ok u \<Longrightarrow> page_ok (select_collection c u)"
proof -
  assume "page_ok u"
  then have "page_ok (layoutNftWheel (u\<lparr>u_index := selectCollection c (u_index u)\<rparr>))" by (rule turned_ok)
  then have "page_ok ((layoutNftWheel (u\<lparr>u_index := selectCollection c (u_index u)\<rparr>))
      \<lparr>u_value := None, u_maxUnits := None\<rparr>)" by (rule no_quote_ok)
  then show ?thesis
    unfolding select_collection_def Let_def
    by (intro start_quote_ok) (simp add: page_ok_defs)
qed

lemma rotate_ok: "page_ok u \<Longrightarrow> page_ok (rotate d u)"
  by (simp add: rotate_def Let_def select_collection_ok turned_ok)

lemma toggle_custom_ok: "page_ok u \<Longrightarrow> page_ok (toggle_custom u)"
  by (auto simp: toggle_custom_def page_ok_defs)

section \<open>The terms\<close>

text \<open>The attribute is always a number in decimal, so the terms can always be drawn.\<close>

lemma page_terms_drawn:
  assumes "quote_agrees u"
  obtains t where "page_terms u = Some t"
    and "t_principal t = (if positive_finite (page_amount u) then page_amount u else Fin 0)"
    and "t_maxRaw t = (case u_maxUnits u of None \<Rightarrow> 0 | Some m \<Rightarrow> int (dec_value m))"
    and "t_maxBorrow t = fromUsdcUnits (t_maxRaw t)"
proof -
  let ?raw = "case u_maxUnits u of None \<Rightarrow> 0 | Some m \<Rightarrow> int (dec_value m)"
  let ?p = "if positive_finite (page_amount u) then page_amount u else Fin 0"
  let ?f = "num_div (num_times ?p (Fin (of_nat (feePercent config)))) (Fin 100)"
  let ?t = "\<lparr>t_maxBorrow = fromUsdcUnits ?raw, t_maxRaw = ?raw, t_principal = ?p, t_fee = ?f,
    t_repay = num_plus ?p ?f\<rparr>"
  have "big_of_text (if truthy (u_maxUnits u) then the (u_maxUnits u) else ''0'') =
      Some (case u_maxUnits u of None \<Rightarrow> 0 | Some m \<Rightarrow> int (dec_value m))"
  proof (cases "u_maxUnits u")
    case None
    have "big_of_text ''0'' = Some 0" by code_simp
    with None show ?thesis by simp
  next
    case (Some m)
    with assms obtain n where "m = dec n" by (auto simp: quote_agrees_def)
    with Some show ?thesis by simp
  qed
  then have "updateTermsQuote (u_maxUnits u) (readBorrowDraft u) = (ret ?t :: (unit, terms) script)"
    by (simp add: updateTermsQuote_def or_throw_def readBorrowDraft_def page_amount_def Let_def cong: if_cong)
  then have "page_terms u = Some ?t" by (simp only: page_terms_def ret_def fst_conv outcome.case)
  then show ?thesis by (rule that) simp_all
qed

lemma terms_checked_ok: "page_ok u \<Longrightarrow> page_ok (terms_checked u)"
  by (auto simp: terms_checked_def intro!: setWizardStep_ok split: option.split)

lemma click_to_confirm_ok:
  assumes "page_ok u"
  shows "page_ok (click_to_confirm u)"
proof -
  from assms have "quote_agrees u" by (simp add: page_ok_def)
  then obtain t where t: "page_terms u = Some t"
    "t_principal t = (if positive_finite (page_amount u) then page_amount u else Fin 0)"
    by (rule page_terms_drawn)
  have "\<not> positive_finite (Fin 0)" by (simp add: positive_finite_def)
  with t have step: "fst (borrow_to_confirm t) = None \<or>
      fst (borrow_to_confirm t) = Some 3 \<and> positive_finite (page_amount u)"
    by (auto simp: borrow_to_confirm_def)
  obtain st sh where b: "borrow_to_confirm t = (st, sh)" by fastforce
  have ok: "page_ok (u\<lparr>u_status2 := sh\<rparr>)" using assms by simp
  from step b consider "st = None" | "st = Some 3" "positive_finite (page_amount u)" by auto
  then show ?thesis
  proof cases
    case 1
    with ok t(1) b show ?thesis by (simp add: click_to_confirm_def)
  next
    case 2
    then have "page_ok (setWizardStep 3 (u\<lparr>u_status2 := sh\<rparr>))"
      by (intro setWizardStep_ok [OF ok]) (simp_all add: page_amount_def)
    with 2 t(1) b show ?thesis by (simp add: click_to_confirm_def)
  qed
qed

lemma click_confirm_ok:
  assumes "page_ok u" "shown 3 u"
  shows "page_ok (click_confirm u)"
proof -
  from assms have "quote_agrees u" "positive_finite (page_amount u)"
    by (simp_all add: page_ok_def amount_when_confirming_def)
  then obtain t where "page_terms u = Some t" "positive_finite (t_principal t)"
    by (elim page_terms_drawn) simp
  with assms(1) show ?thesis by (simp add: click_confirm_def)
qed

lemma click_continue_ok: "page_ok u \<Longrightarrow> page_ok (click_continue u)"
  by (simp add: click_continue_def Let_def)

lemma borrow_done_ok: "page_ok u \<Longrightarrow> page_ok (borrow_done hash u)"
proof -
  assume "page_ok u"
  then have "page_ok (setWizardStep 1 (u\<lparr>u_status3 :=
      Ok (''Borrow submitted. USDC to '' @ shortAddress (u_account u) @ ''. '' @ explorerTx hash)\<rparr>))"
    by (intro setWizardStep_ok) simp_all
  then show ?thesis
    by (auto simp: borrow_done_def page_ok_def showLoansTab_one)
      (simp_all add: page_ok_defs showLoansTab_def)
qed

section \<open>Every event\<close>

lemma resume_ok: "page_ok u \<Longrightarrow> task_ok t \<Longrightarrow> page_ok (resume t a u)"
  by (cases "(t, a, u)" rule: resume.cases)
    (simp_all add: quote_arrived_ok terms_checked_ok borrow_done_ok)

lemma page_step_ok:
  assumes "page_ok u"
  shows "page_ok (page_step e u)"
proof (cases e)
  case (ClickTab i)
  with assms select_tab_one show ?thesis by (auto simp: page_ok_def) (simp_all add: page_ok_defs select_tab_def)
next
  case (EnterAmount t)
  have "\<not> (shown 2 u \<and> shown 3 u)" using assms by (auto simp: page_ok_def one_step_def at_step_shown)
  with assms EnterAmount show ?thesis by (auto simp: page_ok_defs)
next
  case (Answer k a)
  have "k < length (u_waiting u) \<Longrightarrow> task_ok (u_waiting u ! k)"
    using assms by (auto simp: page_ok_def list_all_length)
  with assms Answer show ?thesis by (simp add: resume_ok waiting_removed_ok)
qed (use assms in \<open>auto simp: swipe_def change_collection_def intro: select_collection_ok rotate_ok
    toggle_custom_ok start_quote_ok click_continue_ok click_to_confirm_ok click_confirm_ok setWizardStep_ok\<close>)

lemma page_start_ok: "page_ok page_start"
proof -
  let ?u = "page_markup\<lparr>u_picks :=
    map (\<lambda>c. \<lparr>pk_slot = None, pk_selected = False, pk_aria = False\<rparr>) COLLECTIONS\<rparr>"
  have "wheel_laid_out (layoutNftWheel ?u)" by (rule layoutNftWheel_laid_out) simp
  moreover have "one_tab ?u" "one_step ?u" "quote_agrees ?u" "amount_when_confirming ?u" "u_waiting ?u = []"
    by (simp_all add: page_ok_defs page_markup_def tab_names_def)
  ultimately have "page_ok (layoutNftWheel ?u)" by (simp add: page_ok_def)
  then show ?thesis
    unfolding page_start_def renderNftGrid_def by (intro setWizardStep_ok select_collection_ok) simp_all
qed

lemma run_page_ok: "page_ok (run_page es)"
proof -
  have "page_ok u \<Longrightarrow> page_ok (fold page_step es u)" for u
    by (induction es arbitrary: u) (simp_all add: page_step_ok)
  from this [OF page_start_ok] show ?thesis by (simp add: run_page_def)
qed

section \<open>Races\<close>

lemma select_collection_fields [simp]:
  "u_collection (select_collection c u) = c_address c" "u_token (select_collection c u) = ''''"
  "u_wizard (select_collection c u) = u_wizard u" "u_account (select_collection c u) = u_account u"
  "u_amount (select_collection c u) = u_amount u" "u_custom_hidden (select_collection c u) = False"
  "u_steps (select_collection c u) = u_steps u"
  by (simp_all add: select_collection_def start_quote_def wait_for_def layoutNftWheel_def Let_def)

lemma select_collection_waits [simp]:
  "isHexAddress (c_address c) \<Longrightarrow> u_waiting (select_collection c u) = u_waiting u @ [Quoting (c_address c)]"
  by (simp add: select_collection_def start_quote_def wait_for_def layoutNftWheel_def Let_def)

lemma listed_hex: "list_all (\<lambda>c. isHexAddress (c_address c) \<and> c_live c) COLLECTIONS"
  by code_simp

lemma listed_hex_nth: "i < length COLLECTIONS \<Longrightarrow> isHexAddress (c_address (COLLECTIONS ! i)) \<and> c_live (COLLECTIONS ! i)"
  using listed_hex by (simp add: list_all_length)

lemma length_COLLECTIONS [simp]: "length COLLECTIONS = 5"
  by (simp add: COLLECTIONS_def)

text \<open>The page after loading, in the fields that the runs below read.\<close>

lemma page_start_fields:
  "u_waiting page_start = [Quoting (c_address (COLLECTIONS ! 0))]" "shown 1 page_start"
  "u_collection page_start = c_address (COLLECTIONS ! 0)" "\<not> u_custom_hidden page_start"
  using listed_hex_nth [of 0]
  by (simp_all add: page_start_def renderNftGrid_def setWizardStep_def page_markup_def layoutNftWheel_def
      Let_def shown_def)

lemma shown_select_collection [simp]: "shown n (select_collection c u) = shown n u"
  by (simp add: shown_def)
lemma quote_arrived_fields [simp]:
  "u_waiting (quote_arrived r u) = u_waiting u" "u_wizard (quote_arrived r u) = u_wizard u"
  "u_steps (quote_arrived r u) = u_steps u"
  "u_collection (quote_arrived r u) = u_collection u" "u_token (quote_arrived r u) = u_token u"
  "u_account (quote_arrived r u) = u_account u" "u_custom_hidden (quote_arrived r u) = u_custom_hidden u"
  "u_maxUnits (quote_arrived (Inr n) u) = Some (dec n)"
  by (simp_all add: quote_arrived_def split: sum.split)

lemma shown_quote_arrived [simp]: "shown k (quote_arrived r u) = shown k u"
  by (simp add: shown_def)

lemma shown_update [simp]:
  "shown k (u\<lparr>u_waiting := w\<rparr>) = shown k u" "shown k (u\<lparr>u_token := t\<rparr>) = shown k u"
  "shown k (u\<lparr>u_account := a\<rparr>) = shown k u"
  by (simp_all add: shown_def)

text \<open>
  With nothing else waiting, the quote on the page is that of the collection on the page: the answer
  to the click arrives before the next click.
\<close>

lemma quote_in_order:
  assumes "shown 1 u" "u_waiting u = []" "i < 5"
  shows "u_collection (page_step (Answer 0 (Quoted n)) (page_step (ClickPick i) u)) = c_address (COLLECTIONS ! i)"
    and "u_maxUnits (page_step (Answer 0 (Quoted n)) (page_step (ClickPick i) u)) = Some (dec n)"
  using assms listed_hex_nth [of i] by simp_all

lemma two_picks:
  assumes "shown 1 u" "u_waiting u = [Quoting c]" "i < 5"
  shows "u_waiting (page_step (ClickPick i) u) = [Quoting c, Quoting (c_address (COLLECTIONS ! i))]"
    and "u_collection (fold page_step [ClickPick i, Answer 1 (Quoted m), Answer 0 (Quoted n)] u) =
      c_address (COLLECTIONS ! i)"
    and "u_maxUnits (fold page_step [ClickPick i, Answer 1 (Quoted m), Answer 0 (Quoted n)] u) = Some (dec n)"
  using assms listed_hex_nth [of i] by simp_all

text \<open>A token entered while the owner of another is asked for is taken over unchecked.\<close>

definition first_try :: "string \<Rightarrow> nat \<Rightarrow> string \<Rightarrow> page_event list" where
  "first_try a k t = [Answer 0 (Quoted k), Account (Some a), EnterToken ''1'', ClickContinue, EnterToken t]"

lemma first_try_waits:
  assumes "a \<noteq> []" "isHexAddress (js_trim (u_collection u))" "shown 1 u" "u_waiting u = [Quoting c]"
    "\<not> u_custom_hidden u"
  obtains d where "u_waiting (fold page_step (first_try a k t) u) = [Owning d]" "dr_tokenId d = ''1''"
    "u_token (fold page_step (first_try a k t) u) = t"
    "u_wizard (fold page_step (first_try a k t) u) = u_wizard u"
    "u_steps (fold page_step (first_try a k t) u) = u_steps u"
proof -
  have token: "js_trim ''1'' = ''1''" "isTokenId ''1''" by code_simp+
  show ?thesis
    by (rule that) (use assms token in \<open>simp_all add: first_try_def click_continue_def readBorrowDraft_def
      wait_for_def Let_def\<close>, simp)
qed

lemma terms_checked_positive:
  assumes "u_maxUnits u = Some (dec n)" "0 < n" "quote_agrees u"
  shows "terms_checked u = setWizardStep 2 (u\<lparr>u_status1 := Plain ''''\<rparr>)"
proof -
  from assms(3) obtain t where "page_terms u = Some t"
    "t_maxRaw t = (case u_maxUnits u of None \<Rightarrow> 0 | Some m \<Rightarrow> int (dec_value m))"
    by (rule page_terms_drawn)
  with assms(1,2) show ?thesis by (simp add: terms_checked_def)
qed

lemma quote_arrived_agrees: "quote_agrees (quote_arrived (Inr n) u)"
  by (auto simp: quote_agrees_def quote_arrived_def)

text \<open>The answers to that first try lead to the terms, with the token on the page.\<close>

lemma first_try_answered:
  assumes "one_step u" "u_waiting u = [Owning d]"
  shows "shown 2 (fold page_step [Answer 0 Owned, Answer 0 (Quoted (Suc n))] u)"
    and "u_token (fold page_step [Answer 0 Owned, Answer 0 (Quoted (Suc n))] u) = u_token u"
proof -
  let ?q = "quote_arrived (Inr (Suc n)) (u\<lparr>u_waiting := []\<rparr>)"
  have eq: "fold page_step [Answer 0 Owned, Answer 0 (Quoted (Suc n))] u =
      setWizardStep 2 (?q\<lparr>u_status1 := Plain ''''\<rparr>)"
    using assms(2) by (simp add: wait_for_def terms_checked_positive [where n = "Suc n"] quote_arrived_agrees)
  have "one_step (?q\<lparr>u_status1 := Plain ''''\<rparr>)"
    using assms(1) by (simp add: one_step_def at_step_def)
  then have "at_step 2 (setWizardStep 2 (?q\<lparr>u_status1 := Plain ''''\<rparr>))"
    by (intro setWizardStep_at) simp_all
  then show "shown 2 (fold page_step [Answer 0 Owned, Answer 0 (Quoted (Suc n))] u)"
    unfolding eq by (simp add: at_step_shown)
  show "u_token (fold page_step [Answer 0 Owned, Answer 0 (Quoted (Suc n))] u) = u_token u"
    unfolding eq by (simp add: setWizardStep_def)
qed

section \<open>Properties\<close>

text \<open>C13: Whatever the user clicks and enters, and in whatever order the node and the wallet answer the
  handlers that wait, the page shows exactly one tab and exactly one step of the form, with the buttons
  marked accordingly; the wheel is laid out around a valid index; the quote shown and the quote compared
  with agree; the last step is shown only with a positive amount, and every borrow that was asked for
  has one.\<close>

theorem page_consistent: "page_ok (run_page es)"
  by (rule run_page_ok)

text \<open>The page does not tie an answer to the request: when a second collection is chosen before the
  quote of the first has come, and the first answer comes last, the page offers the first collection's
  maximum for the second.  And a token entered while the owner of another one is asked for reaches the
  terms without having been checked.\<close>

theorem answers_out_of_order:
  "u_collection (run_page [ClickPick 1, Answer 1 (Quoted m), Answer 0 (Quoted n)]) = c_address (COLLECTIONS ! 1) \<and>
   u_waiting (run_page [ClickPick 1]) =
     [Quoting (c_address (COLLECTIONS ! 0)), Quoting (c_address (COLLECTIONS ! 1))] \<and>
   u_maxUnits (run_page [ClickPick 1, Answer 1 (Quoted m), Answer 0 (Quoted n)]) = Some (dec n) \<and>
   (\<exists>d. u_waiting (run_page (first_try ''0xa'' k t)) = [Owning d] \<and> dr_tokenId d = ''1'') \<and>
   shown 2 (run_page (first_try ''0xa'' k t @ [Answer 0 Owned, Answer 0 (Quoted (Suc n))])) \<and>
   u_token (run_page (first_try ''0xa'' k t @ [Answer 0 Owned, Answer 0 (Quoted (Suc n))])) = t"
proof -
  note start = page_start_fields
  have "js_trim (c_address (COLLECTIONS ! 0)) = c_address (COLLECTIONS ! 0)" by code_simp
  then have hex: "isHexAddress (js_trim (u_collection page_start))"
    using listed_hex_nth [of 0] start by simp
  obtain d where d: "u_waiting (run_page (first_try ''0xa'' k t)) = [Owning d]" "dr_tokenId d = ''1''"
    "u_token (run_page (first_try ''0xa'' k t)) = t"
    unfolding run_page_def by (rule first_try_waits [OF _ hex start(2,1,4)]) auto
  have one: "one_step (run_page (first_try ''0xa'' k t))" using run_page_ok by (simp add: page_ok_def)
  have "run_page (es @ es') = fold page_step es' (run_page es)" for es es' by (simp add: run_page_def)
  with d one first_try_answered [OF one d(1)] two_picks [OF start(2,1), of 1] show ?thesis
    by (simp add: run_page_def)
qed

end
