(* ===== verification/ConnectDialog.thy ===== *)
theory ConnectDialog
  imports AppJs WalletConnect
begin

text \<open>
  The dialog of \<^verbatim>\<open>frontend/js/app.js\<close> in which a wallet is chosen, together with the WalletConnect
  attempts of theory \<open>WalletConnect\<close> that it starts and aborts.  A state is what the dialog shows and
  the attempts; a step is an action of the user, a pairing code of an attempt, the end of drawing one,
  a step of an attempt, or the end of an attempt, to which the handler that waits for it reacts.  The
  elements are those of \<^verbatim>\<open>frontend/index.html\<close>.
\<close>

section \<open>The dialog\<close>

text \<open>
  \<open>dg_drawn\<close> is the code on the canvas, \<open>dg_drawing\<close> the codes being drawn, \<open>dg_choices\<close>
  the buttons of the injected wallets and \<open>dg_listing\<close> the number of calls of
  \<^verbatim>\<open>renderInjectedChoices\<close> that wait.
\<close>

record dialog =
  dg_open :: bool
  dg_options_hidden :: bool
  dg_qr_hidden :: bool
  dg_lede :: string
  dg_link :: "string option"
  dg_link_hidden :: bool
  dg_drawn :: "string option"
  dg_drawing :: "string list"
  dg_status :: status
  dg_choices :: "(string \<times> nat) list"
  dg_listing :: nat

definition options_lede :: string where
  "options_lede = ''Choose how to connect. Browser wallets stay in this tab. WalletConnect uses a QR code.''"

definition dialog_markup :: dialog where
  "dialog_markup = \<lparr>dg_open = False, dg_options_hidden = False, dg_qr_hidden = True,
     dg_lede = options_lede, dg_link = Some ''#'', dg_link_hidden = True, dg_drawn = None,
     dg_drawing = [], dg_status = Plain '''', dg_choices = [], dg_listing = 0\<rparr>"

definition showConnectOptions :: "dialog \<Rightarrow> dialog" where
  "showConnectOptions g = g\<lparr>dg_options_hidden := False, dg_qr_hidden := True, dg_lede := options_lede,
     dg_link_hidden := True, dg_link := None, dg_drawn := None, dg_status := Plain ''''\<rparr>"

text \<open>\<^verbatim>\<open>renderInjectedChoices\<close> empties the list, waits for the wallets, and appends them.\<close>

definition start_listing :: "dialog \<Rightarrow> dialog" where
  "start_listing g = g\<lparr>dg_choices := [], dg_listing := dg_listing g + 1\<rparr>"

definition listed :: "(string \<times> nat) list \<Rightarrow> dialog \<Rightarrow> dialog" where
  "listed wallets g = g\<lparr>dg_choices := dg_choices g @ wallets, dg_listing := dg_listing g - 1\<rparr>"

definition openConnectDialog :: "dialog \<Rightarrow> dialog" where
  "openConnectDialog g = (start_listing (showConnectOptions g))\<lparr>dg_open := True\<rparr>"

text \<open>\<^verbatim>\<open>closeConnectDialog\<close>, besides the abort.\<close>

definition closeConnectDialog :: "dialog \<Rightarrow> dialog" where
  "closeConnectDialog g = g\<lparr>dg_open := False\<rparr>"

definition show_code :: "dialog \<Rightarrow> dialog" where
  "show_code g = g\<lparr>dg_options_hidden := True, dg_qr_hidden := False,
     dg_lede := ''Scan with a WalletConnect wallet.'', dg_link_hidden := True, dg_link := None,
     dg_status := Plain (''Waiting for WalletConnect'' @ [CHR 0xE2, CHR 0x80, CHR 0xA6])\<rparr>"

text \<open>\<^verbatim>\<open>onUri\<close>, up to the drawing, and after it.\<close>

definition uri_received :: "(string \<Rightarrow> url option) \<Rightarrow> string \<Rightarrow> dialog \<Rightarrow> dialog" where
  "uri_received parse_url uri g =
     (if \<not> isWcV2Uri parse_url uri
      then g\<lparr>dg_status := Err ''WalletConnect returned an invalid pairing code.''\<rparr>
      else g\<lparr>dg_drawing := dg_drawing g @ [uri]\<rparr>)"

definition uri_drawn :: "string \<Rightarrow> dialog \<Rightarrow> dialog" where
  "uri_drawn uri g = g\<lparr>dg_drawing := remove1 uri (dg_drawing g), dg_drawn := Some uri,
     dg_link := Some uri, dg_link_hidden := False,
     dg_status := Plain ''Scan the code, then approve in your wallet.''\<rparr>"

definition uri_not_drawn :: "string \<Rightarrow> string \<Rightarrow> dialog \<Rightarrow> dialog" where
  "uri_not_drawn uri m g = g\<lparr>dg_drawing := remove1 uri (dg_drawing g),
     dg_status := Err (if m = [] then ''Could not draw the QR code.'' else m)\<rparr>"

text \<open>The \<^verbatim>\<open>catch\<close> of the handler of \<^verbatim>\<open>connect-wc\<close>.\<close>

definition cancel_words :: "string list" where
  "cancel_words = [''reset'', ''closed'', ''rejected'', ''denied'', ''cancel'']"

definition connect_failed :: "js_error \<Rightarrow> dialog \<Rightarrow> dialog" where
  "connect_failed e g = (showConnectOptions g)\<lparr>dg_status := Err
     (if list_ex (str_includes (js_lower (err_message e))) cancel_words \<or> errCode e = Some 4001
        then ''WalletConnect cancelled.''
      else if err_message e = [] then ''WalletConnect failed'' else err_message e)\<rparr>"

definition in_progress :: js_error where
  "in_progress = JsError ''WalletConnect is already in progress.''"

section \<open>Steps\<close>

type_synonym connecting = "dialog \<times> attempts"

text \<open>
  The buttons of the view that is hidden, or of a closed dialog, cannot be clicked.  \<open>Escape\<close> closes
  a modal dialog without any handler of the page.  \<open>Internal\<close> is a step of an attempt, or of the
  wallet, in which no attempt ends; an attempt that ends in the switch of the chain has succeeded, any
  other has thrown.
\<close>

inductive dialog_step :: "(string \<Rightarrow> url option) \<Rightarrow> connecting \<Rightarrow> connecting \<Rightarrow> bool" for parse_url where
  Open_dialog: "\<not> dg_open g \<Longrightarrow> dialog_step parse_url (g, s) (openConnectDialog g, s)"
| Close_button: "dg_open g \<Longrightarrow> dialog_step parse_url (g, s) (closeConnectDialog g, aborted s)"
| Escape: "dg_open g \<Longrightarrow> dialog_step parse_url (g, s) (g\<lparr>dg_open := False\<rparr>, s)"
| Back_button: "dg_open g \<Longrightarrow> \<not> dg_qr_hidden g \<Longrightarrow>
    dialog_step parse_url (g, s) (showConnectOptions g, aborted s)"
| Click_wc: "dg_open g \<Longrightarrow> \<not> dg_options_hidden g \<Longrightarrow> \<not> x_lock s \<Longrightarrow> x_running s a = None \<Longrightarrow>
    dialog_step parse_url (g, s) (show_code g, began a s)"
| Click_wc_locked: "dg_open g \<Longrightarrow> \<not> dg_options_hidden g \<Longrightarrow> x_lock s \<Longrightarrow>
    dialog_step parse_url (g, s) (connect_failed in_progress (show_code g), s)"
| Uri: "x_running s a = Some (Connecting gen p) \<Longrightarrow>
    dialog_step parse_url (g, s) (uri_received parse_url uri g, s)"
| Drawn: "uri \<in> set (dg_drawing g) \<Longrightarrow> dialog_step parse_url (g, s) (uri_drawn uri g, s)"
| Not_drawn: "uri \<in> set (dg_drawing g) \<Longrightarrow> dialog_step parse_url (g, s) (uri_not_drawn uri m g, s)"
| Internal: "wc_step s s' \<Longrightarrow> dom (x_running s') = dom (x_running s) \<Longrightarrow>
    x_generation s' = x_generation s \<Longrightarrow> dialog_step parse_url (g, s) (g, s')"
| Succeeded: "x_running s a = Some (Switching gen p) \<Longrightarrow>
    dialog_step parse_url (g, s) (closeConnectDialog g, aborted (finished a gen s))"
| Attempt_failed: "x_running s a = Some ph \<Longrightarrow> (\<And>gen p. ph \<noteq> Switching gen p) \<Longrightarrow> wc_step s s' \<Longrightarrow>
    x_running s' a = None \<Longrightarrow> dialog_step parse_url (g, s) (connect_failed e g, s')"
| Click_injected: "dg_open g \<Longrightarrow> \<not> dg_options_hidden g \<Longrightarrow>
    dialog_step parse_url (g, s) (g\<lparr>dg_status := Plain m\<rparr>, s)"
| Injected_connected: "dialog_step parse_url (g, s) (closeConnectDialog g, aborted s)"
| Injected_failed: "dialog_step parse_url (g, s) (g\<lparr>dg_status := Err m\<rparr>, s)"
| Choose_again: "dialog_step parse_url (g, s) (start_listing (g\<lparr>dg_status := Plain ''Pick the wallet to use.''\<rparr>), s)"
| Listed: "0 < dg_listing g \<Longrightarrow> dialog_step parse_url (g, s) (listed wallets g, s)"

inductive dialog_reachable :: "(string \<Rightarrow> url option) \<Rightarrow> connecting \<Rightarrow> bool" for parse_url where
  Start: "dialog_reachable parse_url (dialog_markup, x_start)"
| Step: "dialog_reachable parse_url c \<Longrightarrow> dialog_step parse_url c c' \<Longrightarrow> dialog_reachable parse_url c'"

section \<open>What the dialog shows\<close>

text \<open>
  One of the two views is shown; a link that is shown, the code on the canvas and those being drawn
  have passed the check of the pairing code.
\<close>

definition dialog_ok :: "(string \<Rightarrow> url option) \<Rightarrow> dialog \<Rightarrow> bool" where
  "dialog_ok parse_url g \<longleftrightarrow> dg_options_hidden g = (\<not> dg_qr_hidden g) \<and>
     (\<not> dg_link_hidden g \<longrightarrow> (\<exists>uri. dg_link g = Some uri \<and> isWcV2Uri parse_url uri)) \<and>
     (\<forall>uri. dg_drawn g = Some uri \<longrightarrow> isWcV2Uri parse_url uri) \<and>
     list_all (isWcV2Uri parse_url) (dg_drawing g)"

lemma list_all_remove1: "list_all P xs \<Longrightarrow> list_all P (remove1 x xs)"
  by (auto simp: list_all_iff dest: notin_set_remove1 set_remove1_subset [THEN subsetD])

lemma dialog_ok_operations:
  assumes "dialog_ok P g"
  shows "dialog_ok P (showConnectOptions g)" "dialog_ok P (openConnectDialog g)"
    "dialog_ok P (closeConnectDialog g)" "dialog_ok P (show_code g)" "dialog_ok P (uri_received P uri g)"
    "dialog_ok P (uri_not_drawn uri m g)" "dialog_ok P (connect_failed e g)"
    "dialog_ok P (start_listing g)" "dialog_ok P (listed ws g)" "dialog_ok P (g\<lparr>dg_status := st\<rparr>)"
    "dialog_ok P (g\<lparr>dg_open := b\<rparr>)" "uri \<in> set (dg_drawing g) \<Longrightarrow> dialog_ok P (uri_drawn uri g)"
  using assms
  by (auto simp: dialog_ok_def showConnectOptions_def openConnectDialog_def closeConnectDialog_def
      show_code_def uri_received_def uri_not_drawn_def connect_failed_def start_listing_def listed_def
      uri_drawn_def list_all_remove1 list_all_iff dest: set_remove1_subset [THEN subsetD])

lemma dialog_step_ok:
  "dialog_step P c c' \<Longrightarrow> dialog_ok P (fst c) \<Longrightarrow> dialog_ok P (fst c')"
  by (induction rule: dialog_step.induct) (simp_all add: dialog_ok_operations)

lemma dialog_reachable_ok: "dialog_reachable P c \<Longrightarrow> dialog_ok P (fst c)"
proof (induction rule: dialog_reachable.induct)
  case Start
  show ?case by (simp add: dialog_ok_def dialog_markup_def)
next
  case (Step c c')
  then show ?case by (blast intro: dialog_step_ok)
qed

text \<open>The attempts under the dialog are attempts of theory \<open>WalletConnect\<close>, whose invariant holds here.\<close>

lemma dialog_step_attempts:
  "dialog_step P c c' \<Longrightarrow> wc_reachable (snd c) \<Longrightarrow> wc_reachable (snd c')"
proof (induction rule: dialog_step.induct)
  case (Succeeded s a gen p g)
  then have "wc_reachable (finished a gen s)"
    by (simp add: wc_reachable.Step wc_step.Switched)
  then show ?case by (simp add: wc_reachable.Step wc_step.Abort)
qed (auto intro: wc_reachable.Step wc_step.Abort wc_step.Begin)

lemma dialog_reachable_attempts: "dialog_reachable P c \<Longrightarrow> wc_reachable (snd c)"
  by (induction rule: dialog_reachable.induct) (auto intro: wc_reachable.Start dialog_step_attempts)

section \<open>Runs\<close>

text \<open>An attempt that was begun is given a new provider and waits for the wallet to scan its code.\<close>

definition waiting_attempt :: "nat \<Rightarrow> attempts \<Rightarrow> attempts" where
  "waiting_attempt a s = (let gen = x_generation s + 1; p = x_made s in
     goes_to a (Connecting gen p) (s\<lparr>x_lock := True, x_generation := gen, x_wc := Some p, x_made := p + 1\<rparr>))"

lemma goes_to_twice [simp]: "goes_to a ph (goes_to a ph' s) = goes_to a ph s"
  by (simp add: goes_to_def)

lemma goes_to_update [simp]:
  "(goes_to a ph s)\<lparr>x_wc := w, x_made := n\<rparr> = goes_to a ph (s\<lparr>x_wc := w, x_made := n\<rparr>)"
  by (simp add: goes_to_def)

lemma running_goes_to [simp]: "x_running (goes_to a ph s) b = (if b = a then Some ph else x_running s b)"
  by (simp add: goes_to_def)

lemma dom_goes_to: "x_running s a \<noteq> None \<Longrightarrow> dom (x_running (goes_to a ph s)) = dom (x_running s)"
  by (auto simp: goes_to_def)

lemma reach_waiting:
  assumes "dialog_reachable P (g, s)" "dg_open g" "\<not> dg_options_hidden g" "\<not> x_lock s"
    "x_running s a = None" "x_wc s = None" "x_made s \<notin> set (x_sessions s)"
  shows "dialog_reachable P (show_code g, waiting_attempt a s)"
proof -
  let ?gen = "x_generation s + 1" and ?p = "x_made s"
  let ?s1 = "goes_to a (Initialising ?gen) (s\<lparr>x_lock := True, x_generation := ?gen\<rparr>)"
  let ?s2 = "goes_to a (Obtained ?gen (x_made ?s1)) (?s1\<lparr>x_wc := Some (x_made ?s1), x_made := x_made ?s1 + 1\<rparr>)"
  have began: "began a s = ?s1" using assms(6) by (simp add: began_def getting_def sessionless_def Let_def)
  have 1: "dialog_reachable P (show_code g, ?s1)"
    using dialog_reachable.Step [OF assms(1) Click_wc [OF assms(2-5)]] by (simp add: began)
  have step: "wc_step ?s1 ?s2" by (rule wc_step.Init_done) simp
  have dom1: "dom (x_running ?s2) = dom (x_running ?s1)" by (auto simp: goes_to_def)
  have gen1: "x_generation ?s2 = x_generation ?s1" by simp
  have 2: "dialog_reachable P (show_code g, ?s2)"
    by (rule dialog_reachable.Step [OF 1 dialog_step.Internal [OF step dom1 gen1]])
  have "?p \<notin> set (x_sessions ?s2)" using assms(7) by simp
  then have waiting: "obtained a ?gen ?p False ?s2 = waiting_attempt a s"
    by (simp add: obtained_def waiting_attempt_def Let_def goes_to_def)
  have "wc_step ?s2 (obtained a ?gen ?p False ?s2)" by (rule wc_step.Obtained) simp
  then have "wc_step ?s2 (waiting_attempt a s)" by (simp only: waiting)
  moreover have "dom (x_running (waiting_attempt a s)) = dom (x_running ?s2)"
    by (auto simp: waiting_attempt_def goes_to_def Let_def)
  moreover have "x_generation (waiting_attempt a s) = x_generation ?s2"
    by (simp add: waiting_attempt_def Let_def)
  ultimately show ?thesis by (intro dialog_reachable.Step [OF 2 dialog_step.Internal])
qed

lemma waiting_attempt_simps [simp]:
  "x_running (waiting_attempt a s) b =
     (if b = a then Some (Connecting (x_generation s + 1) (x_made s)) else x_running s b)"
  "x_generation (waiting_attempt a s) = x_generation s + 1" "x_lock (waiting_attempt a s)"
  "x_wc (waiting_attempt a s) = Some (x_made s)" "x_made (waiting_attempt a s) = x_made s + 1"
  "x_sessions (waiting_attempt a s) = x_sessions s"
  by (simp_all add: waiting_attempt_def Let_def)

lemma aborted_simps [simp]:
  "x_running (aborted s) = x_running s" "x_generation (aborted s) = x_generation s + 1"
  "\<not> x_lock (aborted s)" "x_sessions (aborted s) = x_sessions s" "x_made (aborted s) = x_made s"
  "x_wc (aborted s) = (if sessionless s then None else x_wc s)"
  by (simp_all add: aborted_def)

text \<open>The user starts an attempt, goes back, and starts another.\<close>

definition first_attempt :: attempts where
  "first_attempt = waiting_attempt 0 x_start"

definition second_attempt :: attempts where
  "second_attempt = waiting_attempt 1 (aborted first_attempt)"

abbreviation opened_dialog :: dialog where
  "opened_dialog \<equiv> openConnectDialog dialog_markup"

lemma reach_opened: "dialog_reachable P (opened_dialog, x_start)"
  by (rule dialog_reachable.Step [OF dialog_reachable.Start dialog_step.Open_dialog])
    (simp add: dialog_markup_def)

lemma opened_simps [simp]:
  "dg_open (openConnectDialog g)" "\<not> dg_options_hidden (openConnectDialog g)"
  "dg_open (show_code g) = dg_open g" "\<not> dg_qr_hidden (show_code g)"
  "dg_open (showConnectOptions g) = dg_open g" "\<not> dg_options_hidden (showConnectOptions g)"
  by (simp_all add: openConnectDialog_def start_listing_def showConnectOptions_def show_code_def)

lemma reach_first: "dialog_reachable P (show_code opened_dialog, first_attempt)"
  unfolding first_attempt_def
  by (rule reach_waiting [OF reach_opened]) (simp_all add: x_start_def)

lemma reach_second:
  "dialog_reachable P (show_code (showConnectOptions (show_code opened_dialog)), second_attempt)"
proof -
  have "dialog_reachable P (showConnectOptions (show_code opened_dialog), aborted first_attempt)"
    by (rule dialog_reachable.Step [OF reach_first dialog_step.Back_button]) simp_all
  then show ?thesis
    unfolding second_attempt_def
    by (rule reach_waiting) (simp_all add: first_attempt_def sessionless_def x_start_def)
qed

text \<open>Then the first one ends, as its provider was disconnected when it was aborted.\<close>

lemma reach_stale_failure:
  "dialog_reachable P (connect_failed e (show_code (showConnectOptions (show_code opened_dialog))),
     finished 0 1 second_attempt)"
proof (rule dialog_reachable.Step [OF reach_second dialog_step.Attempt_failed])
  show run: "x_running second_attempt 0 = Some (Connecting 1 0)"
    by (simp add: second_attempt_def first_attempt_def x_start_def)
  show "wc_step second_attempt (finished 0 1 second_attempt)" by (rule wc_step.Connect_failed [OF run])
qed (simp_all add: finished_def)

text \<open>
  A double click on the browser wallet's button, with two wallets installed, lists every wallet twice:
  both calls empty the list before either appends to it.
\<close>

lemma choices_doubled:
  "\<exists>g s. dialog_reachable P (g, s) \<and> dg_open g \<and> dg_choices g = wallets @ wallets"
proof -
  let ?g0 = "listed [] opened_dialog"
  let ?again = "\<lambda>g. start_listing (g\<lparr>dg_status := Plain ''Pick the wallet to use.''\<rparr>)"
  have listing: "dg_listing opened_dialog = 1"
    by (simp add: openConnectDialog_def start_listing_def showConnectOptions_def dialog_markup_def)
  have "dialog_reachable P (?g0, x_start)"
    by (rule dialog_reachable.Step [OF reach_opened dialog_step.Listed]) (simp add: listing)
  then have "dialog_reachable P (?again ?g0, x_start)"
    by (rule dialog_reachable.Step [OF _ dialog_step.Choose_again])
  then have "dialog_reachable P (?again (?again ?g0), x_start)"
    by (rule dialog_reachable.Step [OF _ dialog_step.Choose_again])
  then have "dialog_reachable P (listed wallets (?again (?again ?g0)), x_start)"
    by (rule dialog_reachable.Step [OF _ dialog_step.Listed]) (simp add: start_listing_def)
  then have "dialog_reachable P (listed wallets (listed wallets (?again (?again ?g0))), x_start)"
    by (rule dialog_reachable.Step [OF _ dialog_step.Listed]) (simp add: start_listing_def listed_def listing)
  moreover have "dg_choices (listed wallets (listed wallets (?again (?again ?g0)))) = wallets @ wallets"
    by (simp add: listed_def start_listing_def)
  moreover have "dg_open (listed wallets (listed wallets (?again (?again ?g0))))"
    by (simp add: listed_def start_listing_def openConnectDialog_def)
  ultimately show ?thesis by blast
qed

section \<open>Properties\<close>

text \<open>C26: Whatever the user clicks, and however the WalletConnect attempts are interleaved, the dialog
  shows exactly one of its two views, and every link it offers, every code on its canvas and every code
  being drawn has passed the check of a WalletConnect pairing code; under it the lock is held exactly
  while an attempt of the present generation runs.\<close>

theorem connect_dialog_safe:
  assumes "dialog_reachable parse_url (g, s)"
  shows "dialog_ok parse_url g \<and> (x_lock s \<longleftrightarrow> (\<exists>a. gen_at s a = Some (x_generation s)))"
proof -
  from dialog_reachable_ok [OF assms] have "dialog_ok parse_url g" by simp
  moreover from dialog_reachable_attempts [OF assms] have "attempts_ok s"
    by (simp add: attempts_ok_reachable)
  ultimately show ?thesis by (simp add: attempts_okD(3))
qed

theorem connect_dialog_safe_witness:
  "dialog_ok (\<lambda>_. None) (show_code opened_dialog) \<and> x_lock first_attempt \<and>
   (\<exists>a. gen_at first_attempt a = Some (x_generation first_attempt))"
proof -
  have "x_lock first_attempt" by (simp add: first_attempt_def)
  with connect_dialog_safe [OF reach_first, of "\<lambda>_. None"] show ?thesis by simp
qed

text \<open>The dialog and the attempts can disagree.  An attempt that was given up by going back ends
  after the next one has begun, and its failure hides the code of the next one, which still waits with
  the lock held.  And a dialog closed with the Escape key aborts nothing: opened again, it refuses every
  attempt, although it shows no code to scan for the one in progress.\<close>

theorem dialog_out_of_step:
  "(\<exists>g s. dialog_reachable P (g, s) \<and> gen_at s 1 = Some (x_generation s) \<and> x_lock s \<and>
     dg_open g \<and> dg_qr_hidden g \<and> dg_status g = Err ''WalletConnect cancelled.'') \<and>
   (\<exists>g s. dialog_reachable P (g, s) \<and> gen_at s 0 = Some (x_generation s) \<and> x_lock s \<and>
     dg_open g \<and> dg_qr_hidden g \<and> dg_status g = Err (err_message in_progress))"
proof
  let ?e = "CodedError 4001 ''WalletConnect cancelled.''"
  let ?g = "connect_failed ?e (show_code (showConnectOptions (show_code opened_dialog)))"
  let ?s = "finished 0 1 second_attempt"
  have "gen_at ?s 1 = Some (x_generation ?s) \<and> x_lock ?s"
    by (simp add: second_attempt_def first_attempt_def x_start_def gen_at_def finished_def)
  moreover have "dg_open ?g \<and> dg_qr_hidden ?g \<and> dg_status ?g = Err ''WalletConnect cancelled.''"
    by (simp add: connect_failed_def) (simp add: showConnectOptions_def errCode_def)
  ultimately show "\<exists>g s. dialog_reachable P (g, s) \<and> gen_at s 1 = Some (x_generation s) \<and> x_lock s \<and>
      dg_open g \<and> dg_qr_hidden g \<and> dg_status g = Err ''WalletConnect cancelled.''"
    using reach_stale_failure by blast
next
  let ?h = "openConnectDialog ((show_code opened_dialog)\<lparr>dg_open := False\<rparr>)"
  let ?g = "connect_failed in_progress (show_code ?h)"
  have "dialog_reachable P ((show_code opened_dialog)\<lparr>dg_open := False\<rparr>, first_attempt)"
    by (rule dialog_reachable.Step [OF reach_first dialog_step.Escape]) simp
  then have "dialog_reachable P (?h, first_attempt)"
    by (rule dialog_reachable.Step [OF _ dialog_step.Open_dialog]) simp
  then have "dialog_reachable P (?g, first_attempt)"
    by (rule dialog_reachable.Step [OF _ dialog_step.Click_wc_locked]) (simp_all add: first_attempt_def)
  moreover have "gen_at first_attempt 0 = Some (x_generation first_attempt) \<and> x_lock first_attempt"
    by (simp add: first_attempt_def gen_at_def)
  moreover have "dg_status ?g = Err (err_message in_progress)"
    unfolding connect_failed_def by simp code_simp
  moreover have "dg_open ?g \<and> dg_qr_hidden ?g"
    by (simp add: connect_failed_def) (simp add: showConnectOptions_def)
  ultimately show "\<exists>g s. dialog_reachable P (g, s) \<and> gen_at s 0 = Some (x_generation s) \<and> x_lock s \<and>
      dg_open g \<and> dg_qr_hidden g \<and> dg_status g = Err (err_message in_progress)"
    by blast
qed

end
