(* ===== verification/Listeners.thy ===== *)
theory Listeners
  imports WalletJs
begin

text \<open>
  \<^verbatim>\<open>bindProviderListeners\<close> and \<^verbatim>\<open>unbindProvider\<close> of \<^verbatim>\<open>frontend/js/wallet.js\<close>: on which
  provider the handlers of the wallet's events are registered.  Theory \<open>Browser\<close> runs a handler
  exactly once for each event of the connected provider, and not at all without one; this theory is
  the reason.
\<close>

section \<open>State\<close>

text \<open>
  \<open>ls_handlers\<close> has an entry for each registration of the three handlers on a provider;
  \<open>ls_marked\<close> are the providers with \<^verbatim>\<open>__lenderListenersBound\<close>.  A provider need not have
  \<^verbatim>\<open>on\<close> or \<^verbatim>\<open>removeListener\<close>.
\<close>

record bindings =
  ls_provider :: "nat option"
  ls_bound :: "nat option"
  ls_marked :: "nat list"
  ls_handlers :: "nat list"

record provider_api =
  has_on :: "nat \<Rightarrow> bool"
  has_removeListener :: "nat \<Rightarrow> bool"

definition no_bindings :: bindings where
  "no_bindings = \<lparr>ls_provider = None, ls_bound = None, ls_marked = [], ls_handlers = []\<rparr>"

section \<open>Operations\<close>

text \<open>\<^verbatim>\<open>removeListener\<close> takes away one registration, as in an event emitter.\<close>

definition unbindProvider :: "provider_api \<Rightarrow> nat option \<Rightarrow> bindings \<Rightarrow> bindings" where
  "unbindProvider A p1 s = (case p1 of
     None \<Rightarrow> s
   | Some p \<Rightarrow> s\<lparr>
       ls_handlers := (if has_removeListener A p then remove1 p (ls_handlers s) else ls_handlers s),
       ls_marked := removeAll p (ls_marked s),
       ls_bound := (if ls_bound s = Some p then None else ls_bound s)\<rparr>)"

definition bindProviderListeners :: "provider_api \<Rightarrow> nat \<Rightarrow> bindings \<Rightarrow> bindings" where
  "bindProviderListeners A p s =
     (if \<not> has_on A p then s
      else
        let s = (if ls_bound s \<noteq> None \<and> ls_bound s \<noteq> Some p then unbindProvider A (ls_bound s) s else s) in
        if p \<in> set (ls_marked s) then s\<lparr>ls_bound := Some p\<rparr>
        else s\<lparr>ls_marked := p # ls_marked s, ls_handlers := ls_handlers s @ [p], ls_bound := Some p\<rparr>)"

text \<open>
  Where the module changes its provider: \<^verbatim>\<open>connectInjected\<close> and \<^verbatim>\<open>silentConnect\<close>, which bind the
  new one; \<^verbatim>\<open>connectWalletConnect\<close>, which first unbinds another; \<^verbatim>\<open>fullLogout\<close>; and
  \<^verbatim>\<open>bindWalletListeners\<close>, which the page calls once.
\<close>

datatype provider_change = Connect nat | TakeOver nat | LogOut | BindAgain

fun change_provider :: "provider_api \<Rightarrow> provider_change \<Rightarrow> bindings \<Rightarrow> bindings" where
  "change_provider A (Connect p) s = bindProviderListeners A p (s\<lparr>ls_provider := Some p\<rparr>)"
| "change_provider A (TakeOver p) s = bindProviderListeners A p
     ((if ls_provider s \<noteq> None \<and> ls_provider s \<noteq> Some p then unbindProvider A (ls_provider s) s else s)
      \<lparr>ls_provider := Some p\<rparr>)"
| "change_provider A LogOut s = unbindProvider A (ls_provider s) (s\<lparr>ls_provider := None\<rparr>)"
| "change_provider A BindAgain s = (case ls_provider s of None \<Rightarrow> s | Some p \<Rightarrow> bindProviderListeners A p s)"

definition run_changes :: "provider_api \<Rightarrow> provider_change list \<Rightarrow> bindings" where
  "run_changes A cs = fold (change_provider A) cs no_bindings"

section \<open>The handlers follow the provider\<close>

definition follows :: "bindings \<Rightarrow> bool" where
  "follows s \<longleftrightarrow> ls_bound s = ls_provider s \<and> ls_marked s = ls_handlers s \<and>
     ls_handlers s = (case ls_provider s of None \<Rightarrow> [] | Some p \<Rightarrow> [p])"

text \<open>Every provider that the client meets has both methods, as the standard of wallets asks.\<close>

definition standard :: "provider_api \<Rightarrow> bool" where
  "standard A \<longleftrightarrow> has_on A = (\<lambda>_. True) \<and> has_removeListener A = (\<lambda>_. True)"

lemma change_provider_follows:
  assumes "standard A" "follows s"
  shows "follows (change_provider A c s)"
  using assms
  by (cases c) (auto simp: follows_def standard_def bindProviderListeners_def unbindProvider_def Let_def
      split: option.splits)

lemma run_changes_follows:
  assumes "standard A"
  shows "follows (run_changes A cs)"
proof -
  have "follows s \<Longrightarrow> follows (fold (change_provider A) cs s)" for s
    by (induction cs arbitrary: s) (simp_all add: change_provider_follows assms)
  then show ?thesis by (simp add: run_changes_def follows_def no_bindings_def)
qed

text \<open>
  With a provider that cannot be unbound a handler stays, and with one that takes no handlers the
  old one's stay, although the client is connected to the new one.
\<close>

lemma handlers_pile_up:
  "ls_handlers (run_changes \<lparr>has_on = (\<lambda>_. True), has_removeListener = (\<lambda>_. False)\<rparr> [Connect 0, LogOut, Connect 0]) =
   [0, 0]"
  by code_simp

lemma old_provider_keeps_handlers:
  "ls_handlers (run_changes \<lparr>has_on = (\<lambda>p. p = 0), has_removeListener = (\<lambda>_. True)\<rparr> [Connect 0, Connect 1]) = [0]"
  "ls_provider (run_changes \<lparr>has_on = (\<lambda>p. p = 0), has_removeListener = (\<lambda>_. True)\<rparr> [Connect 0, Connect 1]) = Some 1"
  by code_simp+

text \<open>With providers that have both methods, the handlers of the wallet's events are registered
  exactly once, on the connected provider and on no other, after any sequence of connections, takeovers,
  logouts and repeated bindings; without a provider they are registered nowhere.\<close>

theorem handlers_follow_provider:
  assumes "standard A"
  shows "ls_handlers (run_changes A cs) =
      (case ls_provider (run_changes A cs) of None \<Rightarrow> [] | Some p \<Rightarrow> [p]) \<and>
    ls_bound (run_changes A cs) = ls_provider (run_changes A cs)"
  using run_changes_follows [OF assms, of cs] by (simp add: follows_def)

definition standard_api :: provider_api where
  "standard_api = \<lparr>has_on = (\<lambda>_. True), has_removeListener = (\<lambda>_. True)\<rparr>"

theorem handlers_follow_provider_witness:
  "ls_handlers (run_changes standard_api [Connect 3, TakeOver 5, BindAgain]) = [5]"
proof -
  have "standard standard_api" by (simp add: standard_def standard_api_def)
  moreover have "ls_provider (run_changes standard_api [Connect 3, TakeOver 5, BindAgain]) = Some 5" by code_simp
  ultimately show ?thesis
    using handlers_follow_provider [of standard_api "[Connect 3, TakeOver 5, BindAgain]"] by simp
qed

end
