(* ===== verification/NavMenu.thy ===== *)
theory NavMenu
  imports JsNumber
begin

text \<open>
  \<^verbatim>\<open>frontend/js/nav-dropdown.js\<close>: a menu of triggers and panels.  The state is the part of
  the document that the module writes (attributes of the triggers, of the panels and of the backdrop,
  the scroll lock), its variable \<^verbatim>\<open>openKey\<close>, the calls of \<^verbatim>\<open>focus\<close> and the animations it
  asked for.  An event carries what the browser tells the handlers: the element that has the focus,
  whether motion is reduced, and the rectangles of the container before and after the change.  An
  event on an element inside the menu goes on to the document, as it bubbles.
\<close>

section \<open>State\<close>

record trigger =
  g_key :: string
  g_controls :: "string option"
  g_expanded :: "string option"
  g_haspopup :: "string option"
  g_type :: "string option"

text \<open>An element that can take the focus; one that is not shown has no \<^verbatim>\<open>offsetParent\<close>.\<close>

record focusable =
  f_disabled :: bool
  f_shown :: bool

record nav_panel =
  pn_key :: string
  pn_id :: string
  pn_hidden :: bool
  pn_items :: "focusable list"

datatype element = TriggerEl nat | PanelItem nat nat

record rect =
  r_left :: js_num
  r_top :: js_num
  r_width :: js_num
  r_height :: js_num

text \<open>The translation and the scale of the first frame; the last frame is the place itself.\<close>

record animation =
  a_deltaX :: js_num
  a_deltaY :: js_num
  a_deltaW :: js_num
  a_deltaH :: js_num

record nav =
  nv_triggers :: "trigger list"
  nv_panels :: "nav_panel list"
  nv_backdrop_hidden :: "bool option"
  nv_openKey :: "string option"
  nv_locked :: bool
  nv_focused :: "element list"
  nv_frames :: "element list"
  nv_animations :: "animation list"

text \<open>\<^verbatim>\<open>document.activeElement\<close>, \<^verbatim>\<open>prefersReducedMotion()\<close>, and the two rectangles.\<close>

record surroundings =
  sr_active :: "element option"
  sr_reduced :: bool
  sr_first :: rect
  sr_last :: rect

definition map_nth :: "(nat \<Rightarrow> 'a \<Rightarrow> 'b) \<Rightarrow> 'a list \<Rightarrow> 'b list" where
  "map_nth f xs = map (\<lambda>(i, x). f i x) (enumerate 0 xs)"

lemma length_map_nth [simp]: "length (map_nth f xs) = length xs"
  by (simp add: map_nth_def)

lemma nth_map_nth [simp]: "i < length xs \<Longrightarrow> map_nth f xs ! i = f i (xs ! i)"
  by (simp add: map_nth_def nth_enumerate_eq)

lemma map_map_nth [simp]: "(\<And>i x. g (f i x) = h x) \<Longrightarrow> map g (map_nth f xs) = map h xs"
  by (rule nth_equalityI) simp_all

section \<open>Operations\<close>

definition panelFor :: "string \<Rightarrow> nav \<Rightarrow> int" where
  "panelFor key s = findIndex (\<lambda>k. k = key) (map pn_key (nv_panels s))"

definition triggerFor :: "string \<Rightarrow> nav \<Rightarrow> int" where
  "triggerFor key s = findIndex (\<lambda>k. k = key) (map g_key (nv_triggers s))"

text \<open>An attribute that is set only where it is missing or empty.\<close>

definition or_default :: "string option \<Rightarrow> string \<Rightarrow> string option" where
  "or_default a d = (if truthy a then a else Some d)"

definition init_trigger :: "nav \<Rightarrow> nat \<Rightarrow> nav" where
  "init_trigger s i = (let t = nv_triggers s ! i; key = g_key t; j = panelFor key s in
     if j < 0 then s
     else
       let p = nv_panels s ! nat j;
           p = (if pn_id p = [] then p\<lparr>pn_id := ''panel-'' @ key\<rparr> else p) in
       s\<lparr>nv_panels := (nv_panels s)[nat j := p],
         nv_triggers := (nv_triggers s)[i := t\<lparr>g_controls := or_default (g_controls t) (pn_id p),
           g_expanded := Some ''false'', g_haspopup := Some ''true'',
           g_type := or_default (g_type t) ''button''\<rparr>]\<rparr>)"

definition initNavDropdown :: "nav \<Rightarrow> nav" where
  "initNavDropdown s = fold (\<lambda>i s. init_trigger s i) [0..<length (nv_triggers s)] (s\<lparr>nv_openKey := None\<rparr>)"

definition setScrollLock :: "bool \<Rightarrow> nav \<Rightarrow> nav" where
  "setScrollLock locked s = s\<lparr>nv_locked := locked\<rparr>"

definition focus_on :: "element \<Rightarrow> nav \<Rightarrow> nav" where
  "focus_on el s = s\<lparr>nv_focused := el # nv_focused s\<rparr>"

definition closeAll :: "bool \<Rightarrow> nav \<Rightarrow> nav" where
  "closeAll restoreFocus s =
     (if \<not> truthy (nv_openKey s) then s
      else
        let prevKey = the (nv_openKey s);
            s = s\<lparr>nv_openKey := None,
              nv_triggers := map (\<lambda>t. t\<lparr>g_expanded := Some ''false''\<rparr>) (nv_triggers s),
              nv_panels := map (\<lambda>p. p\<lparr>pn_hidden := True\<rparr>) (nv_panels s),
              nv_backdrop_hidden := map_option (\<lambda>_. True) (nv_backdrop_hidden s)\<rparr>;
            s = setScrollLock False s in
        if restoreFocus \<and> triggerFor prevKey s \<ge> 0
        then focus_on (TriggerEl (nat (triggerFor prevKey s))) s else s)"

definition too_small :: "rect \<Rightarrow> bool" where
  "too_small r \<longleftrightarrow> num_less (r_width r) (Fin 1) \<or> num_less (r_height r) (Fin 1)"

definition num_minus :: "js_num \<Rightarrow> js_num \<Rightarrow> js_num" where
  "num_minus x y = num_plus x (num_neg y)"

text \<open>The container exists: it is the root where the page names none.\<close>

definition flipContainer :: "surroundings \<Rightarrow> (nav \<Rightarrow> nav) \<Rightarrow> nav \<Rightarrow> nav" where
  "flipContainer sr applyDomChange s =
     (if sr_reduced sr then applyDomChange s
      else
        let s = applyDomChange s; first = sr_first sr; last1 = sr_last sr in
        if too_small first \<or> too_small last1 then s
        else s\<lparr>nv_animations := nv_animations s @ [\<lparr>
          a_deltaX = num_minus (r_left first) (r_left last1),
          a_deltaY = num_minus (r_top first) (r_top last1),
          a_deltaW = num_div (r_width first) (r_width last1),
          a_deltaH = num_div (r_height first) (r_height last1)\<rparr>]\<rparr>)"

definition show_panel :: "nat \<Rightarrow> nat \<Rightarrow> nav \<Rightarrow> nav" where
  "show_panel trigger1 panel s = s\<lparr>
     nv_triggers := map_nth (\<lambda>i t. t\<lparr>g_expanded := Some (if i = trigger1 then ''true'' else ''false'')\<rparr>)
       (nv_triggers s),
     nv_panels := map_nth (\<lambda>j p. p\<lparr>pn_hidden := (j \<noteq> panel)\<rparr>) (nv_panels s),
     nv_backdrop_hidden := map_option (\<lambda>_. False) (nv_backdrop_hidden s)\<rparr>"

definition openPanel :: "surroundings \<Rightarrow> string \<Rightarrow> nav \<Rightarrow> nav" where
  "openPanel sr key s =
     (let panel = panelFor key s; trigger1 = triggerFor key s in
      if panel < 0 \<or> trigger1 < 0 then s
      else if nv_openKey s = Some key then closeAll True s
      else
        let isSwitch = (nv_openKey s \<noteq> None);
            s = flipContainer sr (show_panel (nat trigger1) (nat panel)) s;
            s = setScrollLock True (s\<lparr>nv_openKey := Some key\<rparr>) in
        if pn_items (nv_panels s ! nat panel) \<noteq> [] \<and>
           (isSwitch \<or> sr_active sr = Some (TriggerEl (nat trigger1)))
        then s\<lparr>nv_frames := nv_frames s @ [PanelItem (nat panel) 0]\<rparr> else s)"

text \<open>The elements of a panel that Tab goes through.\<close>

definition focusables :: "nav_panel \<Rightarrow> nat list" where
  "focusables p = filter (\<lambda>i. \<not> f_disabled (pn_items p ! i) \<and> f_shown (pn_items p ! i))
     [0..<length (pn_items p)]"

definition trap_focus :: "surroundings \<Rightarrow> nat \<Rightarrow> bool \<Rightarrow> nav \<Rightarrow> nav" where
  "trap_focus sr j shift s =
     (let fs = focusables (nv_panels s ! j) in
      if fs = [] then s
      else if shift \<and> sr_active sr = Some (PanelItem j (hd fs)) then focus_on (PanelItem j (last fs)) s
      else if \<not> shift \<and> sr_active sr = Some (PanelItem j (last fs)) then focus_on (PanelItem j (hd fs)) s
      else s)"

section \<open>Events\<close>

text \<open>
  A click or key on the trigger or panel with an index (one that does not exist does nothing), a click
  on the document outside or inside the menu, a click on the backdrop, a key pressed elsewhere, the
  next animation frame, and a call of what \<^verbatim>\<open>initNavDropdown\<close> returns.
\<close>

datatype nav_event =
    TriggerClick nat surroundings
  | TriggerKey nat string surroundings
  | PanelKey nat string bool surroundings
  | DocumentClick bool
  | BackdropClick
  | DocumentKey string
  | Frame
  | CloseAll bool
  | OpenPanel string surroundings

definition document_click :: "bool \<Rightarrow> nav \<Rightarrow> nav" where
  "document_click inside s = (if \<not> truthy (nv_openKey s) \<or> inside then s else closeAll False s)"

definition document_key :: "string \<Rightarrow> nav \<Rightarrow> nav" where
  "document_key key s = (if key = ''Escape'' \<and> truthy (nv_openKey s) then closeAll True s else s)"

definition trigger_click :: "surroundings \<Rightarrow> nat \<Rightarrow> nav \<Rightarrow> nav" where
  "trigger_click sr i s = (let key = g_key (nv_triggers s ! i) in
     if nv_openKey s = Some key then closeAll True s else openPanel sr key s)"

definition trigger_key :: "surroundings \<Rightarrow> nat \<Rightarrow> string \<Rightarrow> nav \<Rightarrow> nav" where
  "trigger_key sr i k s =
     (let key = g_key (nv_triggers s ! i);
          s = (if k = ''ArrowDown'' \<and> nv_openKey s \<noteq> Some key then openPanel sr key s else s) in
      if k = ''Escape'' then closeAll True s else s)"

fun nav_step :: "nav_event \<Rightarrow> nav \<Rightarrow> nav" where
  "nav_step (TriggerClick i sr) s =
     (if i < length (nv_triggers s) then document_click True (trigger_click sr i s) else s)"
| "nav_step (TriggerKey i k sr) s =
     (if i < length (nv_triggers s) then document_key k (trigger_key sr i k s) else s)"
| "nav_step (PanelKey j k shift sr) s =
     (if j < length (nv_panels s) then
        if k = ''Escape'' then closeAll True s
        else document_key k (if k = ''Tab'' then trap_focus sr j shift s else s)
      else s)"
| "nav_step (DocumentClick inside) s = document_click inside s"
| "nav_step BackdropClick s =
     (if nv_backdrop_hidden s = None then s else document_click True (closeAll True s))"
| "nav_step (DocumentKey k) s = document_key k s"
| "nav_step Frame s = (case nv_frames s of
     [] \<Rightarrow> s | el # els \<Rightarrow> focus_on el (s\<lparr>nv_frames := els\<rparr>))"
| "nav_step (CloseAll restoreFocus) s = closeAll restoreFocus s"
| "nav_step (OpenPanel key sr) s = openPanel sr key s"

definition run_nav :: "nav_event list \<Rightarrow> nav \<Rightarrow> nav" where
  "run_nav es s = fold nav_step es s"

section \<open>What is shown is what is open\<close>

text \<open>The abstract menu: the document as a function of the open key.\<close>

definition shown_panel :: "nav \<Rightarrow> nat option" where
  "shown_panel s = (case nv_openKey s of None \<Rightarrow> None
     | Some k \<Rightarrow> if panelFor k s < 0 then None else Some (nat (panelFor k s)))"

definition shown_trigger :: "nav \<Rightarrow> nat option" where
  "shown_trigger s = (case nv_openKey s of None \<Rightarrow> None
     | Some k \<Rightarrow> if triggerFor k s < 0 then None else Some (nat (triggerFor k s)))"

definition nav_ok :: "nav \<Rightarrow> bool" where
  "nav_ok s \<longleftrightarrow>
     (\<forall>j < length (nv_panels s). pn_hidden (nv_panels s ! j) = (shown_panel s \<noteq> Some j)) \<and>
     (\<forall>i < length (nv_triggers s).
        (g_expanded (nv_triggers s ! i) = Some ''true'') = (shown_trigger s = Some i)) \<and>
     (nv_locked s = (nv_openKey s \<noteq> None)) \<and>
     (nv_backdrop_hidden s \<noteq> Some (nv_openKey s \<noteq> None)) \<and>
     (\<forall>k. nv_openKey s = Some k \<longrightarrow> 0 \<le> panelFor k s \<and> 0 \<le> triggerFor k s)"

lemma panelFor_cong: "map pn_key (nv_panels s) = map pn_key (nv_panels t) \<Longrightarrow> panelFor k s = panelFor k t"
  by (simp add: panelFor_def)

lemma triggerFor_cong:
  "map g_key (nv_triggers s) = map g_key (nv_triggers t) \<Longrightarrow> triggerFor k s = triggerFor k t"
  by (simp add: triggerFor_def)

text \<open>Only the three operations that show or hide touch what the invariant is about.\<close>

lemma nav_ok_irrelevant [simp]:
  "nav_ok (s\<lparr>nv_focused := x\<rparr>) = nav_ok s" "nav_ok (s\<lparr>nv_frames := y\<rparr>) = nav_ok s"
  "nav_ok (s\<lparr>nv_animations := z\<rparr>) = nav_ok s" "nav_ok (focus_on el s) = nav_ok s"
  by (simp_all add: nav_ok_def shown_panel_def shown_trigger_def panelFor_def triggerFor_def focus_on_def
      split: option.splits)

lemma nav_ok_closed:
  assumes "nv_openKey s = None" "list_all pn_hidden (nv_panels s)"
    "list_all (\<lambda>t. g_expanded t \<noteq> Some ''true'') (nv_triggers s)"
    "\<not> nv_locked s" "nv_backdrop_hidden s \<noteq> Some False"
  shows "nav_ok s"
  using assms by (simp add: nav_ok_def shown_panel_def shown_trigger_def list_all_length)

lemma closeAll_keeps_ok: "nav_ok s \<Longrightarrow> nav_ok (closeAll r s)"
proof (cases "truthy (nv_openKey s)")
  case True
  let ?s = "s\<lparr>nv_openKey := None,
      nv_triggers := map (\<lambda>t. t\<lparr>g_expanded := Some ''false''\<rparr>) (nv_triggers s),
      nv_panels := map (\<lambda>p. p\<lparr>pn_hidden := True\<rparr>) (nv_panels s),
      nv_backdrop_hidden := map_option (\<lambda>_. True) (nv_backdrop_hidden s), nv_locked := False\<rparr>"
  have "nav_ok ?s" by (rule nav_ok_closed) (simp_all add: list_all_length)
  with True show ?thesis by (simp add: closeAll_def Let_def setScrollLock_def)
next
  case False
  then show "nav_ok s \<Longrightarrow> ?thesis" by (simp add: closeAll_def)
qed

text \<open>After the change of \<^verbatim>\<open>openPanel\<close> exactly the panel and the trigger of the key are shown.\<close>

lemma show_panel_ok:
  assumes "0 \<le> panelFor key s" "0 \<le> triggerFor key s"
  shows "nav_ok ((show_panel (nat (triggerFor key s)) (nat (panelFor key s)) s)
    \<lparr>nv_openKey := Some key, nv_locked := True\<rparr>)"
proof -
  let ?t = "(show_panel (nat (triggerFor key s)) (nat (panelFor key s)) s)
    \<lparr>nv_openKey := Some key, nv_locked := True\<rparr>"
  have "panelFor k ?t = panelFor k s" "triggerFor k ?t = triggerFor k s" for k
    by (simp_all add: panelFor_def triggerFor_def show_panel_def)
  with assms have "shown_panel ?t = Some (nat (panelFor key s))"
    "shown_trigger ?t = Some (nat (triggerFor key s))" "0 \<le> panelFor key ?t" "0 \<le> triggerFor key ?t"
    by (simp_all add: shown_panel_def shown_trigger_def)
  then show ?thesis by (auto simp: nav_ok_def show_panel_def)
qed

lemma flipContainer_cases:
  obtains a where "flipContainer sr f s = (f s)\<lparr>nv_animations := a\<rparr>"
proof (cases "sr_reduced sr \<or> too_small (sr_first sr) \<or> too_small (sr_last sr)")
  case True
  then have "flipContainer sr f s = f s" by (auto simp: flipContainer_def Let_def)
  then show ?thesis using that [of "nv_animations (f s)"] by simp
next
  case False
  then show ?thesis using that by (auto simp: flipContainer_def Let_def)
qed

lemma openPanel_keeps_ok:
  assumes "nav_ok s"
  shows "nav_ok (openPanel sr key s)"
proof (cases "panelFor key s < 0 \<or> triggerFor key s < 0 \<or> nv_openKey s = Some key")
  case True
  with assms show ?thesis by (auto simp: openPanel_def Let_def closeAll_keeps_ok)
next
  case False
  let ?show = "show_panel (nat (triggerFor key s)) (nat (panelFor key s))"
  obtain a where flip: "flipContainer sr ?show s = (?show s)\<lparr>nv_animations := a\<rparr>"
    by (rule flipContainer_cases)
  from False have "nav_ok ((?show s)\<lparr>nv_openKey := Some key, nv_locked := True\<rparr>)"
    by (intro show_panel_ok) auto
  moreover have "(?show s)\<lparr>nv_animations := a, nv_openKey := Some key, nv_locked := True\<rparr> =
      (?show s)\<lparr>nv_openKey := Some key, nv_locked := True\<rparr>\<lparr>nv_animations := a\<rparr>"
    by simp
  ultimately have "nav_ok ((?show s)\<lparr>nv_animations := a, nv_openKey := Some key, nv_locked := True\<rparr>)"
    by (simp only: nav_ok_irrelevant)
  with False flip show ?thesis
    by (simp add: openPanel_def Let_def setScrollLock_def)
qed

lemma nav_step_keeps_ok: "nav_ok s \<Longrightarrow> nav_ok (nav_step e s)"
proof (cases e)
  case (PanelKey j k shift sr)
  moreover have "nav_ok s \<Longrightarrow> nav_ok (trap_focus sr j shift s)" by (simp add: trap_focus_def Let_def)
  ultimately show "nav_ok s \<Longrightarrow> ?thesis" by (simp add: document_key_def closeAll_keeps_ok)
qed (auto simp: document_click_def document_key_def trigger_click_def trigger_key_def Let_def
    intro: closeAll_keeps_ok openPanel_keeps_ok split: list.splits)

lemma run_nav_keeps_ok: "nav_ok s \<Longrightarrow> nav_ok (run_nav es s)"
  by (induction es arbitrary: s) (simp_all add: run_nav_def nav_step_keeps_ok)

section \<open>The initial document\<close>

text \<open>The markup that the page serves: every panel hidden, nothing expanded, the page free to scroll.\<close>

definition closed_markup :: "nav \<Rightarrow> bool" where
  "closed_markup s \<longleftrightarrow> list_all pn_hidden (nv_panels s) \<and>
     list_all (\<lambda>t. g_expanded t \<noteq> Some ''true'') (nv_triggers s) \<and>
     \<not> nv_locked s \<and> nv_backdrop_hidden s \<noteq> Some False"

lemma list_all_update: "list_all P xs \<Longrightarrow> P x \<Longrightarrow> list_all P (xs[i := x])"
  by (induction xs arbitrary: i) (auto split: nat.split)

lemma findIndex_bound: "0 \<le> findIndex P xs \<Longrightarrow> nat (findIndex P xs) < length xs"
  by (induction xs) (auto simp: Let_def split: if_splits)

lemma panelFor_bound: "0 \<le> panelFor k s \<Longrightarrow> nat (panelFor k s) < length (nv_panels s)"
  using findIndex_bound [of "\<lambda>k'. k' = k" "map pn_key (nv_panels s)"] by (simp add: panelFor_def)

lemma init_trigger_closed:
  assumes "closed_markup s" "nv_openKey s = None"
  shows "closed_markup (init_trigger s i) \<and> nv_openKey (init_trigger s i) = None"
proof (cases "panelFor (g_key (nv_triggers s ! i)) s < 0")
  case True
  with assms show ?thesis by (simp add: init_trigger_def Let_def)
next
  case False
  then have "nat (panelFor (g_key (nv_triggers s ! i)) s) < length (nv_panels s)"
    by (intro panelFor_bound) simp
  with assms have "pn_hidden (nv_panels s ! nat (panelFor (g_key (nv_triggers s ! i)) s))"
    by (simp add: closed_markup_def list_all_length)
  with False assms show ?thesis
    by (simp add: init_trigger_def closed_markup_def Let_def list_all_update)
qed

lemma initNavDropdown_ok:
  assumes "closed_markup s"
  shows "nav_ok (initNavDropdown s)"
proof -
  have "closed_markup t \<Longrightarrow> nv_openKey t = None \<Longrightarrow>
      closed_markup (fold (\<lambda>i s. init_trigger s i) ks t) \<and>
      nv_openKey (fold (\<lambda>i s. init_trigger s i) ks t) = None" for ks t
    by (induction ks arbitrary: t) (simp_all add: init_trigger_closed)
  from this [of "s\<lparr>nv_openKey := None\<rparr>"] assms
  have "closed_markup (initNavDropdown s)" "nv_openKey (initNavDropdown s) = None"
    by (simp_all add: initNavDropdown_def closed_markup_def)
  then show ?thesis by (intro nav_ok_closed) (simp_all add: closed_markup_def)
qed

section \<open>Closing\<close>

text \<open>A key pressed anywhere: Escape closes a menu whose key is not empty, from wherever it comes.\<close>

lemma closeAll_closes: "nv_openKey s \<noteq> Some [] \<Longrightarrow> nv_openKey (closeAll r s) = None"
  by (cases "nv_openKey s") (auto simp: closeAll_def Let_def setScrollLock_def focus_on_def)

lemma closeAll_empty: "nv_openKey s = Some [] \<Longrightarrow> closeAll r s = s"
  by (simp add: closeAll_def)

text \<open>
  A menu opened with the empty key stays: neither Escape, nor the backdrop, nor a click outside
  closes it, since the code takes the empty key for none.
\<close>

lemma empty_key_stays:
  assumes "nv_openKey s = Some []"
  shows "nv_openKey (nav_step (DocumentKey ''Escape'') s) = Some []"
    and "nv_openKey (nav_step BackdropClick s) = Some []"
    and "nv_openKey (nav_step (DocumentClick inside) s) = Some []"
  using assms by (simp_all add: document_key_def document_click_def closeAll_empty)

text \<open>Leaving the menu with a click does not move the focus; every other way of closing does.\<close>

lemma outside_click_keeps_focus: "nv_focused (nav_step (DocumentClick inside) s) = nv_focused s"
  by (simp add: document_click_def closeAll_def Let_def setScrollLock_def)

lemma triggerFor_map_key:
  "map g_key ts = map g_key (nv_triggers s) \<Longrightarrow> triggerFor k (s\<lparr>nv_triggers := ts\<rparr>) = triggerFor k s"
  by (simp add: triggerFor_def)

lemma closeAll_restores_focus:
  assumes "nav_ok s" "nv_openKey s = Some k" "k \<noteq> []"
  shows "nv_focused (closeAll True s) = TriggerEl (nat (triggerFor k s)) # nv_focused s"
proof -
  from assms have "0 \<le> triggerFor k s" by (simp add: nav_ok_def)
  moreover have "triggerFor k (closeAll False s) = triggerFor k s"
    by (auto simp: closeAll_def Let_def setScrollLock_def triggerFor_def comp_def)
  ultimately show ?thesis using assms(2,3)
    by (simp add: closeAll_def Let_def setScrollLock_def focus_on_def triggerFor_def comp_def)
qed

text \<open>Tab goes round: past the last element it reaches the first, and back.\<close>

lemma tab_wraps:
  assumes "j < length (nv_panels s)" "focusables (nv_panels s ! j) = fs" "fs \<noteq> []"
    "sr_active sr = Some (PanelItem j (if shift then hd fs else last fs))"
  shows "nv_focused (nav_step (PanelKey j ''Tab'' shift sr) s) =
    PanelItem j (if shift then last fs else hd fs) # nv_focused s"
  using assms by (simp add: document_key_def trap_focus_def Let_def focus_on_def)

section \<open>The keys never change\<close>

abbreviation trigger_keys :: "nav \<Rightarrow> string list" where
  "trigger_keys s \<equiv> map g_key (nv_triggers s)"

lemma keys_closeAll [simp]: "trigger_keys (closeAll r s) = trigger_keys s"
  by (simp add: closeAll_def Let_def setScrollLock_def focus_on_def comp_def)

lemma keys_openPanel [simp]: "trigger_keys (openPanel sr key s) = trigger_keys s"
  by (simp add: openPanel_def flipContainer_def show_panel_def Let_def setScrollLock_def)

lemma keys_nav_step [simp]: "trigger_keys (nav_step e s) = trigger_keys s"
proof (cases e)
  case (PanelKey j k shift sr)
  then show ?thesis by (simp add: document_key_def trap_focus_def Let_def focus_on_def)
qed (auto simp: document_click_def document_key_def trigger_click_def trigger_key_def Let_def focus_on_def
    split: list.splits)

lemma keys_run_nav [simp]: "trigger_keys (run_nav es s) = trigger_keys s"
  by (induction es arbitrary: s) (simp_all add: run_nav_def)

lemma keys_init_trigger: "i < length (nv_triggers s) \<Longrightarrow> trigger_keys (init_trigger s i) = trigger_keys s"
  by (simp add: init_trigger_def Let_def map_update list_update_same_conv)

lemma keys_initNavDropdown [simp]: "trigger_keys (initNavDropdown s) = trigger_keys s"
proof -
  have "list_all (\<lambda>i. i < length (nv_triggers t)) ks \<Longrightarrow>
      trigger_keys (fold (\<lambda>i s. init_trigger s i) ks t) = trigger_keys t" for ks t
  proof (induction ks arbitrary: t)
    case (Cons k ks)
    then have keys: "trigger_keys (init_trigger t k) = trigger_keys t" by (simp add: keys_init_trigger)
    then have "length (nv_triggers (init_trigger t k)) = length (nv_triggers t)"
      by (metis length_map)
    with Cons keys show ?case by simp
  qed simp
  from this [of "s\<lparr>nv_openKey := None\<rparr>" "[0..<length (nv_triggers s)]"] show ?thesis
    by (simp add: initNavDropdown_def list_all_iff)
qed

lemma open_key_is_a_key: "nav_ok s \<Longrightarrow> nv_openKey s = Some k \<Longrightarrow> k \<in> set (trigger_keys s)"
  using findIndex_neg [of "\<lambda>k'. k' = k" "trigger_keys s"]
  by (auto simp: nav_ok_def triggerFor_def not_less)

lemma escape_closes:
  assumes "nav_ok s" "[] \<notin> set (trigger_keys s)"
  shows "nv_openKey (nav_step (DocumentKey ''Escape'') s) = None"
proof (cases "nv_openKey s")
  case (Some k)
  with assms open_key_is_a_key have "k \<noteq> []" by blast
  with Some show ?thesis by (simp add: document_key_def closeAll_closes)
qed (simp add: document_key_def)

section \<open>A menu with two panels\<close>

definition two_menus :: nav where
  "two_menus = \<lparr>
     nv_triggers = [\<lparr>g_key = ''lend'', g_controls = None, g_expanded = None, g_haspopup = None, g_type = None\<rparr>,
       \<lparr>g_key = ''help'', g_controls = None, g_expanded = None, g_haspopup = None, g_type = Some ''button''\<rparr>],
     nv_panels = [\<lparr>pn_key = ''help'', pn_id = ''h'', pn_hidden = True, pn_items = []\<rparr>,
       \<lparr>pn_key = ''lend'', pn_id = '''', pn_hidden = True,
        pn_items = [\<lparr>f_disabled = False, f_shown = True\<rparr>, \<lparr>f_disabled = True, f_shown = True\<rparr>]\<rparr>],
     nv_backdrop_hidden = Some True, nv_openKey = None, nv_locked = False, nv_focused = [],
     nv_frames = [], nv_animations = []\<rparr>"

definition still :: surroundings where
  "still = \<lparr>sr_active = Some (TriggerEl 0), sr_reduced = True,
     sr_first = \<lparr>r_left = Fin 0, r_top = Fin 0, r_width = Fin 1, r_height = Fin 1\<rparr>,
     sr_last = \<lparr>r_left = Fin 0, r_top = Fin 0, r_width = Fin 1, r_height = Fin 1\<rparr>\<rparr>"

lemma two_menus_closed: "closed_markup two_menus"
  by (simp add: closed_markup_def two_menus_def)

lemma two_menus_runs:
  "pn_hidden (nv_panels (run_nav [TriggerClick 0 still] (initNavDropdown two_menus)) ! 0)"
  "\<not> pn_hidden (nv_panels (run_nav [TriggerClick 0 still] (initNavDropdown two_menus)) ! 1)"
  "nv_openKey (run_nav [TriggerClick 0 still, TriggerKey 1 ''ArrowDown'' still]
     (initNavDropdown two_menus)) = Some ''help''"
  by code_simp+

section \<open>The property\<close>

text \<open>Whatever the user clicks or presses, and in whatever order, the menu shows what its variable
  says: at most the panel of the open key is visible and at most its trigger is expanded, the page is
  locked and the backdrop shown exactly while a panel is open; Escape then closes it, wherever it is
  pressed, provided no trigger has the empty key.\<close>

theorem nav_menu_consistent:
  assumes "closed_markup s"
  shows "nav_ok (run_nav es (initNavDropdown s)) \<and>
    ([] \<notin> set (trigger_keys s) \<longrightarrow>
     nv_openKey (run_nav (es @ [DocumentKey ''Escape'']) (initNavDropdown s)) = None)"
proof -
  have ok: "nav_ok (run_nav es (initNavDropdown s))"
    by (rule run_nav_keeps_ok [OF initNavDropdown_ok [OF assms]])
  have "run_nav (es @ [DocumentKey ''Escape'']) t = nav_step (DocumentKey ''Escape'') (run_nav es t)" for t
    by (simp add: run_nav_def)
  with ok escape_closes [OF ok] show ?thesis by simp
qed

theorem nav_menu_consistent_witness:
  "nav_ok (run_nav [TriggerClick 0 still] (initNavDropdown two_menus)) \<and>
   nv_openKey (run_nav [TriggerClick 0 still, DocumentKey ''Escape''] (initNavDropdown two_menus)) = None"
proof -
  have "[] \<notin> set (trigger_keys two_menus)" by (simp add: two_menus_def)
  with nav_menu_consistent [OF two_menus_closed, of "[TriggerClick 0 still]"] show ?thesis by simp
qed

end
