(* ===== verification/ThemeJs.thy ===== *)
theory ThemeJs
  imports Prelude
begin

text \<open>
  \<^verbatim>\<open>frontend/js/theme.js\<close>: the colour theme of the page and the button that goes to the next one.
  The state is the local storage, which a browser may refuse to read or to write, and what the
  module writes into the document.
\<close>

section \<open>State\<close>

record theme =
  th_id :: string
  th_label :: string

definition KEY :: string where "KEY = ''lender-theme-v2''"

definition THEMES :: "theme list" where
  "THEMES = [
     \<lparr>th_id = ''neverland'', th_label = ''Neverland''\<rparr>,
     \<lparr>th_id = ''mermaid-lagoon'', th_label = ''Lagoon''\<rparr>,
     \<lparr>th_id = ''grove'', th_label = ''Lender''\<rparr>]"

definition DEFAULT_THEME :: string where "DEFAULT_THEME = ''neverland''"

text \<open>
  \<open>td_readable\<close> and \<open>td_writable\<close> tell whether \<^verbatim>\<open>getItem\<close> and \<^verbatim>\<open>setItem\<close> return or
  throw; \<open>td_button\<close> is the button, if the page has it, with its title and its label.
\<close>

record themed =
  td_readable :: bool
  td_writable :: bool
  td_storage :: "string \<Rightarrow> string option"
  td_classes :: "string list"
  td_theme :: "string option"
  td_button :: "(string \<times> string) option"

section \<open>Operations\<close>

definition readTheme :: "themed \<Rightarrow> string" where
  "readTheme s =
     (if td_readable s then
        case td_storage s KEY of
          Some raw \<Rightarrow> if list_ex (\<lambda>t. th_id t = raw) THEMES then raw else DEFAULT_THEME
        | None \<Rightarrow> DEFAULT_THEME
      else DEFAULT_THEME)"

definition class_add :: "string \<Rightarrow> string list \<Rightarrow> string list" where
  "class_add c cs = (if c \<in> set cs then cs else cs @ [c])"

definition class_remove :: "string list \<Rightarrow> string list \<Rightarrow> string list" where
  "class_remove ds cs = filter (\<lambda>c. c \<notin> set ds) cs"

definition theme_classes :: "string list" where
  "theme_classes = map (\<lambda>t. ''theme-'' @ th_id t) THEMES"

definition old_classes :: "string list" where
  "old_classes = [''theme-skull-rock'', ''theme-second-star'']"

text \<open>\<^verbatim>\<open>THEMES[(THEMES.findIndex((t) => t.id === id) + 1) % THEMES.length]\<close>.\<close>

definition next_theme :: "string \<Rightarrow> theme" where
  "next_theme id1 = THEMES ! nat ((findIndex (\<lambda>t. th_id t = id1) THEMES + 1) mod int (length THEMES))"

definition current_theme :: "string \<Rightarrow> theme" where
  "current_theme id1 = (case find (\<lambda>t. th_id t = id1) THEMES of Some t \<Rightarrow> t | None \<Rightarrow> THEMES ! 0)"

definition button_text :: "string \<Rightarrow> string \<times> string" where
  "button_text id1 = (let current = th_label (current_theme id1); next1 = th_label (next_theme id1) in
     (''Theme: '' @ current @ ''. Next: '' @ next1,
      ''Colour theme '' @ current @ ''. Click to switch to '' @ next1))"

definition applyTheme :: "string \<Rightarrow> themed \<Rightarrow> themed" where
  "applyTheme id1 s = s\<lparr>
     td_classes := class_add (''theme-'' @ id1) (class_remove old_classes (class_remove theme_classes (td_classes s))),
     td_theme := Some id1,
     td_storage := (if td_writable s then (td_storage s)(KEY \<mapsto> id1) else td_storage s),
     td_button := map_option (\<lambda>_. button_text id1) (td_button s)\<rparr>"

definition cycleTheme :: "themed \<Rightarrow> themed" where
  "cycleTheme s = applyTheme (th_id (next_theme (readTheme s))) s"

text \<open>What the module does when it is loaded.\<close>

definition load_theme :: "themed \<Rightarrow> themed" where
  "load_theme s = applyTheme (readTheme s) s"

section \<open>What is kept\<close>

definition theme_ids :: "string list" where
  "theme_ids = map th_id THEMES"

lemmas theme_defs = THEMES_def theme_ids_def DEFAULT_THEME_def

lemma theme_ids_simps [simp]: "theme_ids = [''neverland'', ''mermaid-lagoon'', ''grove'']"
  by (simp add: theme_defs)

lemma readTheme_known: "readTheme s \<in> set theme_ids"
  by (auto simp: readTheme_def theme_defs split: option.split)

lemma next_theme_ids [simp]:
  "th_id (next_theme ''neverland'') = ''mermaid-lagoon''"
  "th_id (next_theme ''mermaid-lagoon'') = ''grove''"
  "th_id (next_theme ''grove'') = ''neverland''"
  by code_simp+

lemma next_theme_known: "id1 \<in> set theme_ids \<Longrightarrow> th_id (next_theme id1) \<in> set theme_ids"
  by auto

lemma readTheme_applyTheme:
  "td_readable s \<Longrightarrow> td_writable s \<Longrightarrow> id1 \<in> set theme_ids \<Longrightarrow> readTheme (applyTheme id1 s) = id1"
  by (auto simp: readTheme_def applyTheme_def theme_defs)

lemma applyTheme_simps [simp]:
  "td_readable (applyTheme id1 s) = td_readable s" "td_writable (applyTheme id1 s) = td_writable s"
  "td_theme (applyTheme id1 s) = Some id1"
  by (simp_all add: applyTheme_def)

text \<open>The page wears exactly the class of the theme applied; other classes stay.\<close>

definition wears :: "string \<Rightarrow> themed \<Rightarrow> bool" where
  "wears id1 s \<longleftrightarrow> td_theme s = Some id1 \<and>
     filter (\<lambda>c. c \<in> set (theme_classes @ old_classes)) (td_classes s) = [''theme-'' @ id1]"

lemma filter_class_add_remove:
  "id1 \<in> set theme_ids \<Longrightarrow>
   filter (\<lambda>c. c \<in> set (theme_classes @ old_classes))
     (class_add (''theme-'' @ id1) (class_remove old_classes (class_remove theme_classes cs))) =
   [''theme-'' @ id1]"
  by (auto simp: class_add_def class_remove_def theme_classes_def old_classes_def theme_defs filter_empty_conv)

lemma applyTheme_wears: "id1 \<in> set theme_ids \<Longrightarrow> wears id1 (applyTheme id1 s)"
  using filter_class_add_remove [of id1 "td_classes s"]
  by (simp add: wears_def applyTheme_def del: theme_ids_simps)

lemma applyTheme_other_classes:
  "c \<notin> set (theme_classes @ old_classes) \<Longrightarrow> c \<noteq> ''theme-'' @ id1 \<Longrightarrow>
   c \<in> set (td_classes (applyTheme id1 s)) \<longleftrightarrow> c \<in> set (td_classes s)"
  by (auto simp: applyTheme_def class_add_def class_remove_def)

lemma load_theme_wears: "wears (readTheme s) (load_theme s)"
  by (simp add: load_theme_def applyTheme_wears readTheme_known del: theme_ids_simps)

text \<open>With a storage that works, three clicks pass through all themes and come back.\<close>

lemma cycle_three:
  assumes "td_readable s" "td_writable s" "readTheme s = id1"
  shows "readTheme (cycleTheme s) = th_id (next_theme id1)"
    and "readTheme (cycleTheme (cycleTheme (cycleTheme s))) = id1"
proof -
  have known: "id1 \<in> set theme_ids" using assms(3) readTheme_known by blast
  have step: "readTheme (cycleTheme t) = th_id (next_theme (readTheme t)) \<and>
      td_readable (cycleTheme t) \<and> td_writable (cycleTheme t)"
    if "td_readable t" "td_writable t" for t
    using that by (simp add: cycleTheme_def readTheme_applyTheme next_theme_known readTheme_known del: theme_ids_simps)
  with assms show "readTheme (cycleTheme s) = th_id (next_theme id1)" by simp
  have "readTheme (cycleTheme (cycleTheme (cycleTheme s))) =
      th_id (next_theme (th_id (next_theme (th_id (next_theme id1)))))"
    using assms step by simp
  also have "\<dots> = id1" using known by auto
  finally show "readTheme (cycleTheme (cycleTheme (cycleTheme s))) = id1" .
qed

text \<open>
  With a storage that cannot be read the button is stuck: each click applies the second theme, while
  the button goes on to announce the third.
\<close>

lemma cycle_stuck:
  assumes "\<not> td_readable s"
  shows "td_theme (cycleTheme s) = Some ''mermaid-lagoon''"
    and "td_theme (cycleTheme (cycleTheme s)) = Some ''mermaid-lagoon''"
  using assms by (simp_all add: cycleTheme_def readTheme_def DEFAULT_THEME_def)

lemma button_announces_lender:
  "td_button s = Some b \<Longrightarrow> \<not> td_readable s \<Longrightarrow>
   td_button (cycleTheme s) = Some (''Theme: Lagoon. Next: Lender'',
     ''Colour theme Lagoon. Click to switch to Lender'')"
  by (simp add: cycleTheme_def readTheme_def DEFAULT_THEME_def applyTheme_def) code_simp

end
