(* ===== verification/NetworkSettings.thy ===== *)
theory NetworkSettings
  imports JsNumber Types
begin

text \<open>
  \<^verbatim>\<open>hardhat.config.ts\<close>, \<^verbatim>\<open>helper-hardhat-config.ts\<close> and \<^verbatim>\<open>test-wallets.js\<close>: the table of
  networks that the build tool connects to, as a function of the process environment (which
  \<^verbatim>\<open>dotenv\<close> has filled), and the fork of another network that the local node starts from.  What
  only the compiler, the reporters and the plugins read is left out.
\<close>

section \<open>The environment\<close>

record environment =
  v_INFURA_KEY :: "string option"
  v_ALCHEMY_KEY :: "string option"
  v_FORK :: "string option"
  v_FORK_BLOCK_NUMBER :: "string option"
  v_MONAD_RPC_URL :: "string option"
  v_PRIVATE_KEY :: "string option"
  v_MNEMONIC :: "string option"
  v_UNLIMITED_BYTECODE_SIZE :: "string option"

text \<open>\<^verbatim>\<open>process.env.X || d\<close>.\<close>

definition env_or :: "string option \<Rightarrow> string \<Rightarrow> string" where
  "env_or v d = (if truthy v then the v else d)"

text \<open>
  \<^verbatim>\<open>parseInt(s)\<close>: white space and a sign, then the longest run of digits, hexadecimal after
  \<^verbatim>\<open>0x\<close>; \<^verbatim>\<open>NaN\<close> where there is none.
\<close>

definition parse_int_unsigned :: "string \<Rightarrow> js_num" where
  "parse_int_unsigned s =
     (if take 2 s = ''0x'' \<or> take 2 s = ''0X''
      then let ds = takeWhile is_hex (drop 2 s) in
        if ds = [] then NaN else double_of (of_nat (radix_value 16 ds))
      else let ds = takeWhile is_digit s in
        if ds = [] then NaN else double_of (of_nat (dec_value ds)))"

definition parse_int :: "string \<Rightarrow> js_num" where
  "parse_int s = (let t = dropWhile is_space s in
     if t \<noteq> [] \<and> hd t = CHR ''-'' then num_neg (parse_int_unsigned (tl t))
     else if t \<noteq> [] \<and> hd t = CHR ''+'' then parse_int_unsigned (tl t)
     else parse_int_unsigned t)"

definition num_truthy :: "js_num \<Rightarrow> bool" where
  "num_truthy n \<longleftrightarrow> n \<noteq> NaN \<and> n \<noteq> Fin 0"

section \<open>Values per network\<close>

definition GWEI :: nat where "GWEI = 1000 * 1000 * 1000"

text \<open>The address of a public test network or of the main one: Alchemy with a key, else Infura.\<close>

definition provider_url :: "environment \<Rightarrow> string \<Rightarrow> string \<Rightarrow> string" where
  "provider_url e alchemy infura = (let ALCHEMY_KEY = env_or (v_ALCHEMY_KEY e) '''' in
     if ALCHEMY_KEY \<noteq> [] then ''https://'' @ alchemy @ ''.g.alchemy.com/v2/'' @ ALCHEMY_KEY
     else ''https://'' @ infura @ ''.infura.io/v3/'' @ env_or (v_INFURA_KEY e) '''')"

definition NETWORKS_RPC_URL :: "environment \<Rightarrow> string per_network" where
  "NETWORKS_RPC_URL e = \<lparr>
     pn_coverage = Some ''http://localhost:8555'',
     pn_hardhat = Some ''http://localhost:8545'',
     pn_localhost = Some ''http://localhost:8545'',
     pn_goerli = Some (provider_url e ''eth-goerli'' ''goerli''),
     pn_rinkeby = Some (provider_url e ''eth-rinkeby'' ''rinkeby''),
     pn_sepolia = Some (provider_url e ''eth-sepolia'' ''sepolia''),
     pn_main = Some (provider_url e ''eth-mainnet'' ''mainnet''),
     pn_monad = Some (env_or (v_MONAD_RPC_URL e) ''https://rpc.monad.xyz'')\<rparr>"

definition NETWORKS_DEFAULT_GAS :: "nat per_network" where
  "NETWORKS_DEFAULT_GAS = \<lparr>
     pn_coverage = Some (65 * GWEI), pn_hardhat = Some (65 * GWEI), pn_localhost = Some (65 * GWEI),
     pn_goerli = Some (65 * GWEI), pn_rinkeby = Some (65 * GWEI), pn_sepolia = Some (15 * GWEI),
     pn_main = Some (5 * GWEI), pn_monad = Some (50 * GWEI)\<rparr>"

definition BLOCK_TO_FORK :: "nat per_network" where
  "BLOCK_TO_FORK = \<lparr>
     pn_coverage = Some 0, pn_hardhat = Some 0, pn_localhost = Some 0, pn_goerli = Some 0,
     pn_rinkeby = Some 0, pn_sepolia = Some 0, pn_main = Some 13623705, pn_monad = Some 0\<rparr>"

section \<open>Forking\<close>

record fork =
  fk_url :: "string option"
  fk_blockNumber :: "js_num option"

definition FORK_BLOCK_NUMBER :: "environment \<Rightarrow> js_num" where
  "FORK_BLOCK_NUMBER e =
     (if truthy (v_FORK_BLOCK_NUMBER e) then parse_int (the (v_FORK_BLOCK_NUMBER e)) else Fin 0)"

text \<open>The entry of a table as a number; a missing one is falsy like zero.\<close>

definition block_to_fork :: "string \<Rightarrow> js_num" where
  "block_to_fork network = (case param_at BLOCK_TO_FORK network of
     Some n \<Rightarrow> Fin (of_nat n) | None \<Rightarrow> Fin 0)"

definition buildForkConfig :: "environment \<Rightarrow> fork option" where
  "buildForkConfig e = (let FORK = env_or (v_FORK e) '''' in
     if FORK = [] then None
     else
       let number1 = (if num_truthy (FORK_BLOCK_NUMBER e) then FORK_BLOCK_NUMBER e else block_to_fork FORK) in
       Some \<lparr>fk_url = param_at (NETWORKS_RPC_URL e) FORK,
         fk_blockNumber = (if num_truthy number1 then Some number1 else None)\<rparr>)"

section \<open>The networks\<close>

definition DEFAULT_BLOCK_GAS_LIMIT :: nat where "DEFAULT_BLOCK_GAS_LIMIT = 12450000"
definition DEFAULT_GAS_MUL :: nat where "DEFAULT_GAS_MUL = 5"
definition HARDFORK :: string where "HARDFORK = ''london''"
definition BUIDLEREVM_CHAINID :: nat where "BUIDLEREVM_CHAINID = 31337"
definition COVERAGE_CHAINID :: nat where "COVERAGE_CHAINID = 1337"

text \<open>\<^verbatim>\<open>m/44'/60'/0'/0\<close>; the apostrophe by its code.\<close>

definition MNEMONIC_PATH :: string where
  "MNEMONIC_PATH = ''m/44'' @ [CHR 0x27] @ ''/60'' @ [CHR 0x27] @ ''/0'' @ [CHR 0x27] @ ''/0''"

text \<open>The accounts of the test node: a secret key and a balance each.\<close>

definition test_balance :: string where "test_balance = ''1000000000000000000000000''"

definition test_accounts :: "(string \<times> string) list" where
  "test_accounts = map (\<lambda>secretKey. (secretKey, test_balance)) [
     ''0xa1fe94e437cbcf1ef6bf4de610b89ee459ca67cff976135f958a4c238e424baa'',
     ''0xaec050154a7412da0f32abfa8f80575036a10052278c61e819ab71972f21ac6c'',
     ''0x92901699decb6309b068a655be0191155a3b9611f3fcd5d3aa93e3e058a394d8'',
     ''0xeb21c7c3f922b1be7ea7342c5e5f488db02442c26caae26fccca831fbcdfed37'',
     ''0x9f69e5c1ac53649d61a63fbd9983dc1be963ff8e8d88db69ac9e1587e0750090'',
     ''0xf939df6b8a8219e2bedc05b1af2ad0e1621146f03e2df182c7c63f30757ae8fc'',
     ''0x3e533eaeb93089b0a77ec4ccab359e8f258907c27c86f6d75fda41d619a967dc'',
     ''0xdeb70f1d14f23a305d2d41ff0b2546eb2b10f7b4960627eee12beadfae12fd82'',
     ''0xc5130959324977df5afdf2ab43fa464d01d5baab4aa67ced57c82483c0c1c7c2'',
     ''0xb1e22ab3d3cc0cc8347fbb181322c32dfc5ad0aee4b162f409467b59af79d364'']"

datatype accounts =
    PrivateKeys "string list"
  | FundedKeys "(string \<times> string) list"
  | Mnemonic string string nat nat

text \<open>\<open>nc_strict\<close> is \<^verbatim>\<open>throwOnTransactionFailures\<close> and \<^verbatim>\<open>throwOnCallFailures\<close>.\<close>

record network_config =
  nc_url :: "string option"
  nc_hardfork :: string
  nc_blockGasLimit :: "nat option"
  nc_gas :: "nat option"
  nc_gasMultiplier :: "nat option"
  nc_gasPrice :: "nat option"
  nc_chainId :: "nat option"
  nc_accounts :: "accounts option"
  nc_unlimited :: "bool option"
  nc_strict :: "bool option"
  nc_forking :: "fork option"

definition getCommonNetworkConfig :: "environment \<Rightarrow> string \<Rightarrow> nat \<Rightarrow> network_config" where
  "getCommonNetworkConfig e networkName networkId = \<lparr>
     nc_url = param_at (NETWORKS_RPC_URL e) networkName,
     nc_hardfork = HARDFORK,
     nc_blockGasLimit = Some DEFAULT_BLOCK_GAS_LIMIT,
     nc_gas = None,
     nc_gasMultiplier = Some DEFAULT_GAS_MUL,
     nc_gasPrice = param_at NETWORKS_DEFAULT_GAS networkName,
     nc_chainId = Some networkId,
     nc_accounts = Some
       (let PRIVATE_KEY = env_or (v_PRIVATE_KEY e) '''' in
        if PRIVATE_KEY \<noteq> [] then PrivateKeys [PRIVATE_KEY]
        else Mnemonic (env_or (v_MNEMONIC e) '''') MNEMONIC_PATH 0 20),
     nc_unlimited = None, nc_strict = None, nc_forking = None\<rparr>"

definition plain_network :: "string option \<Rightarrow> string \<Rightarrow> nat option \<Rightarrow> accounts option \<Rightarrow> network_config" where
  "plain_network url hardfork chainId1 accounts1 = \<lparr>
     nc_url = url, nc_hardfork = hardfork, nc_blockGasLimit = None, nc_gas = None,
     nc_gasMultiplier = None, nc_gasPrice = None, nc_chainId = chainId1, nc_accounts = accounts1,
     nc_unlimited = None, nc_strict = None, nc_forking = None\<rparr>"

definition hardhat_network :: "environment \<Rightarrow> network_config" where
  "hardhat_network e = \<lparr>
     nc_url = None, nc_hardfork = ''london'', nc_blockGasLimit = Some DEFAULT_BLOCK_GAS_LIMIT,
     nc_gas = Some DEFAULT_BLOCK_GAS_LIMIT, nc_gasMultiplier = None,
     nc_gasPrice = param_at NETWORKS_DEFAULT_GAS ''hardhat'', nc_chainId = Some BUIDLEREVM_CHAINID,
     nc_accounts = Some (FundedKeys test_accounts),
     nc_unlimited = Some (v_UNLIMITED_BYTECODE_SIZE e = Some ''true''), nc_strict = Some True,
     nc_forking = buildForkConfig e\<rparr>"

definition networks :: "environment \<Rightarrow> network_config obj" where
  "networks e = [
     (''coverage'', plain_network (Some ''http://localhost:8555'') ''istanbul'' (Some COVERAGE_CHAINID) None),
     (''localhost'', plain_network (Some ''http://localhost:8545'') ''london'' (Some BUIDLEREVM_CHAINID)
        (Some (PrivateKeys (map fst test_accounts)))),
     (''sepolia'', getCommonNetworkConfig e ''sepolia'' 11155111),
     (''goerli'', getCommonNetworkConfig e ''goerli'' 5),
     (''rinkeby'', getCommonNetworkConfig e ''rinkeby'' 4),
     (''main'', getCommonNetworkConfig e ''main'' 1),
     (''monad'', getCommonNetworkConfig e ''monad'' 143),
     (''hardhat'', hardhat_network e),
     (''ganache'', plain_network (Some ''http://ganache:8545'') ''istanbul'' None
        (Some (Mnemonic ''fox sight canyon orphan hotel grow hedgehog build bless august weather swarm''
           MNEMONIC_PATH 0 20)))]"

section \<open>What the tables give\<close>

text \<open>Every network of the enumeration is in the table, with a price of gas and an address.\<close>

lemma in_eEthereumNetwork: "n \<in> set eEthereumNetwork \<longleftrightarrow>
   n \<in> {''coverage'', ''hardhat'', ''localhost'', ''goerli'', ''rinkeby'', ''sepolia'', ''main'', ''monad''}"
  by (simp add: eEthereumNetwork_def)

lemma networks_complete: "n \<in> set eEthereumNetwork \<Longrightarrow> obj_get (networks e) n \<noteq> None"
  by (auto simp: in_eEthereumNetwork networks_def)

lemma tables_complete:
  "n \<in> set eEthereumNetwork \<Longrightarrow>
   param_at NETWORKS_DEFAULT_GAS n \<noteq> None \<and> param_at BLOCK_TO_FORK n \<noteq> None \<and>
   (\<exists>url. param_at (NETWORKS_RPC_URL e) n = Some url \<and> url \<noteq> [])"
  by (auto simp: in_eEthereumNetwork param_at_def NETWORKS_DEFAULT_GAS_def BLOCK_TO_FORK_def
      NETWORKS_RPC_URL_def provider_url_def env_or_def Let_def elim: truthyE)

text \<open>Only the two local networks share a chain.\<close>

definition separate_networks :: "string list" where
  "separate_networks = [''coverage'', ''sepolia'', ''goerli'', ''rinkeby'', ''main'', ''monad'', ''hardhat'']"

lemma chain_ids_distinct:
  "distinct (map (\<lambda>n. map_option nc_chainId (obj_get (networks e) n)) separate_networks)"
  by (simp add: separate_networks_def networks_def getCommonNetworkConfig_def plain_network_def
      hardhat_network_def BUIDLEREVM_CHAINID_def COVERAGE_CHAINID_def)

text \<open>A private key wins over a mnemonic, on every public network.\<close>

lemma private_key_wins:
  "truthy (v_PRIVATE_KEY e) \<Longrightarrow>
   nc_accounts (getCommonNetworkConfig e n i) = Some (PrivateKeys [the (v_PRIVATE_KEY e)])"
  by (auto simp: getCommonNetworkConfig_def env_or_def elim: truthyE)

lemma num_truthy_Fin [simp]: "num_truthy (Fin q) \<longleftrightarrow> q \<noteq> 0"
  by (simp add: num_truthy_def)

text \<open>The block a fork starts at: the number given, else that of the table, else the latest.\<close>

lemma fork_of_main:
  assumes "v_FORK e = Some ''main''" "\<not> num_truthy (FORK_BLOCK_NUMBER e)"
  shows "map_option fk_blockNumber (buildForkConfig e) = Some (Some (Fin 13623705))"
  using assms
  by (simp add: buildForkConfig_def env_or_def block_to_fork_def param_at_def BLOCK_TO_FORK_def Let_def)

lemma fork_of_other:
  assumes "v_FORK e = Some n" "n \<noteq> []" "n \<noteq> ''main''" "\<not> num_truthy (FORK_BLOCK_NUMBER e)"
  shows "map_option fk_blockNumber (buildForkConfig e) = Some None"
  using assms
  by (simp add: buildForkConfig_def env_or_def block_to_fork_def param_at_def BLOCK_TO_FORK_def Let_def)

lemma fork_at_number:
  assumes "truthy (v_FORK e)" "num_truthy (FORK_BLOCK_NUMBER e)"
  shows "map_option fk_blockNumber (buildForkConfig e) = Some (Some (FORK_BLOCK_NUMBER e))"
  using assms by (auto simp: buildForkConfig_def env_or_def Let_def elim!: truthyE)

text \<open>Text that is no number is as good as none: the table decides, without a message.\<close>

lemma fork_number_garbage: "v_FORK_BLOCK_NUMBER e = Some ''latest'' \<Longrightarrow> \<not> num_truthy (FORK_BLOCK_NUMBER e)"
  by (simp add: FORK_BLOCK_NUMBER_def) code_simp

text \<open>A fork of a name that is none of the networks has no address: \<^verbatim>\<open>FORK\<close> is cast, not checked.\<close>

lemma fork_of_unknown:
  assumes "v_FORK e = Some ''mainnet''"
  shows "map_option fk_url (buildForkConfig e) = Some None"
  using assms by (simp add: buildForkConfig_def env_or_def param_at_def Let_def)

end
