(* ===== verification/TestNode.thy ===== *)
theory TestNode
  imports MiscUtils NetworkSettings
begin

text \<open>
  The helpers of \<^verbatim>\<open>helpers/misc-utils.ts\<close> and \<^verbatim>\<open>helpers/contracts-helpers.ts\<close> that drive a
  local test node over JSON-RPC (snapshots, time travel, impersonation) or only read it, and the
  listing of the deployment database.  The node is a parameter; what the helpers asked of it is kept
  in the state.
\<close>

section \<open>The node\<close>

text \<open>
  \<open>d_send\<close> is \<^verbatim>\<open>provider.send(method, params)\<close>, which is also what
  \<^verbatim>\<open>network.provider.request\<close> reaches; \<open>d_block\<close> the timestamp of a block by its number, or of
  the latest, absent when the node answers \<^verbatim>\<open>null\<close>; \<open>d_TENDERLY\<close> is the variable of the
  environment.
\<close>

record 'c dev_node =
  d_send :: "string \<Rightarrow> js_value list \<Rightarrow> 'c \<Rightarrow> (js_error + js_value) \<times> 'c"
  d_block :: "nat option \<Rightarrow> 'c \<Rightarrow> nat option"
  d_blockNumber :: "'c \<Rightarrow> nat"
  d_TENDERLY :: "string option"

record 'c dev_state =
  dv_chain :: 'c
  dv_sent :: "(string \<times> js_value list) list"

type_synonym ('c, 'a) dev = "('c dev_state, 'a) script"

definition dev_send :: "'c dev_node \<Rightarrow> string \<Rightarrow> js_value list \<Rightarrow> ('c, js_value) dev" where
  "dev_send D m ps = (\<lambda>s. case d_send D m ps (dv_chain s) of (answer, c) \<Rightarrow>
     ((case answer of Inl e \<Rightarrow> Throw e | Inr v \<Rightarrow> Ret v),
      s\<lparr>dv_chain := c, dv_sent := dv_sent s @ [(m, ps)]\<rparr>))"

section \<open>Snapshots and time\<close>

definition evmSnapshot :: "'c dev_node \<Rightarrow> ('c, js_value) dev" where
  "evmSnapshot D = dev_send D ''evm_snapshot'' []"

definition evmRevert :: "'c dev_node \<Rightarrow> string \<Rightarrow> ('c, js_value) dev" where
  "evmRevert D id1 = dev_send D ''evm_revert'' [Str id1]"

definition getCurrentBlock :: "'c dev_node \<Rightarrow> ('c, nat) dev" where
  "getCurrentBlock D = (\<lambda>s. (Ret (d_blockNumber D (dv_chain s)), s))"

definition block_timestamp :: "'c dev_node \<Rightarrow> nat option \<Rightarrow> ('c, nat option) dev" where
  "block_timestamp D n = (\<lambda>s. (Ret (d_block D n (dv_chain s)), s))"

definition timeLatest :: "'c dev_node \<Rightarrow> ('c, nat) dev" where
  "timeLatest D = await (block_timestamp D None) (\<lambda>block. case block of
     None \<Rightarrow> throw (TypeError ''Cannot read properties of null'') | Some timestamp \<Rightarrow> ret timestamp)"

definition advanceBlock :: "'c dev_node \<Rightarrow> int \<Rightarrow> ('c, js_value) dev" where
  "advanceBlock D timestamp = dev_send D ''evm_mine'' [Num timestamp]"

definition increaseTime :: "'c dev_node \<Rightarrow> int \<Rightarrow> ('c, unit) dev" where
  "increaseTime D secondsToIncrease =
     await (dev_send D ''evm_increaseTime'' [Num secondsToIncrease]) (\<lambda>_.
     await (dev_send D ''evm_mine'' []) (\<lambda>_. ret ()))"

definition advanceTimeAndBlock :: "'c dev_node \<Rightarrow> int \<Rightarrow> ('c, unit) dev" where
  "advanceTimeAndBlock D forwardTime =
     await (dev_send D ''evm_increaseTime'' [Num forwardTime]) (\<lambda>_.
     await (dev_send D ''evm_mine'' []) (\<lambda>_.
     await (dev_send D ''evm_increaseTime'' [Num 15]) (\<lambda>_. ret ())))"

definition advanceTimeAndBlock_coverage_failed :: "'c dev_node \<Rightarrow> int \<Rightarrow> ('c, unit) dev" where
  "advanceTimeAndBlock_coverage_failed D forwardTime =
     await (getCurrentBlock D) (\<lambda>currentBlockNumber.
     await (block_timestamp D (Some currentBlockNumber)) (\<lambda>currentBlock.
     case currentBlock of
       None \<Rightarrow>
         await (dev_send D ''evm_increaseTime'' [Num forwardTime]) (\<lambda>_.
         await (dev_send D ''evm_mine'' []) (\<lambda>_.
         await (dev_send D ''evm_increaseTime'' [Num 15]) (\<lambda>_. ret ())))
     | Some currentTime \<Rightarrow>
         await (dev_send D ''evm_setNextBlockTimestamp'' [Num (int currentTime + forwardTime)]) (\<lambda>_.
         await (dev_send D ''evm_mine'' []) (\<lambda>_. ret ()))))"

section \<open>Accounts and numbers\<close>

definition impersonateAccountsHardhat :: "'c dev_node \<Rightarrow> string list \<Rightarrow> ('c, unit) dev" where
  "impersonateAccountsHardhat D accounts1 =
     (if d_TENDERLY D = Some ''true'' then ret ()
      else for_each accounts1 (\<lambda>account.
        await (dev_send D ''hardhat_impersonateAccount'' [Str account]) (\<lambda>_. ret ())))"

text \<open>
  \<open>decode\<close> is the decoder of \<^verbatim>\<open>ethers\<close> for one number; the number is printed and read again
  as a double, which is exact only below \<open>2 ^ 53\<close>.
\<close>

definition decodeAbiNumber :: "(string \<Rightarrow> js_error + nat) \<Rightarrow> string \<Rightarrow> js_error + js_num" where
  "decodeAbiNumber decode data = (case decode data of
     Inl e \<Rightarrow> Inl e | Inr n \<Rightarrow> Inr (parse_int (dec n)))"

text \<open>
  The lines of \<^verbatim>\<open>printContracts\<close>, from the entries of the database in their order; an entry may
  be \<^verbatim>\<open>null\<close>.
\<close>

definition printContracts :: "string \<Rightarrow> db_entry option obj \<Rightarrow> string list" where
  "printContracts network state1 =
     (let entries = filter (\<lambda>(_, value1). value1 \<noteq> None) state1 in
      [''Contracts deployed at '' @ network, ''---------------------------------'',
       ''N# Contracts: '' @ dec (length entries)] @
      map (\<lambda>(key, value1). key @ '': '' @ e_address (the value1)) entries)"

section \<open>What is asked of the node\<close>

text \<open>A sequence of requests, the answers unused.\<close>

primrec send_all :: "'c dev_node \<Rightarrow> (string \<times> js_value list) list \<Rightarrow> ('c, unit) dev" where
  "send_all D [] = ret ()"
| "send_all D (r # rs) = await (dev_send D (fst r) (snd r)) (\<lambda>_. send_all D rs)"

text \<open>
  A sequence that returned sent everything, in order; one that threw sent a part of it, up to the
  request that failed.
\<close>

lemma send_all_sent:
  "send_all D rs s = (out, s') \<Longrightarrow>
   \<exists>k \<le> length rs. dv_sent s' = dv_sent s @ take k rs \<and> (out = Ret () \<longrightarrow> k = length rs) \<and>
     (\<forall>n. out \<noteq> Exit n)"
proof (induction rs arbitrary: s)
  case Nil
  then show ?case by (auto simp: ret_def)
next
  case (Cons r rs)
  obtain answer c where a: "d_send D (fst r) (snd r) (dv_chain s) = (answer, c)" by fastforce
  let ?s = "s\<lparr>dv_chain := c, dv_sent := dv_sent s @ [r]\<rparr>"
  show ?case
  proof (cases answer)
    case (Inl e)
    with Cons.prems a have "out = Throw e" "s' = ?s" by (auto simp: await_def dev_send_def)
    then show ?thesis by (intro exI [of _ 1]) simp
  next
    case (Inr v)
    with Cons.prems a have "send_all D rs ?s = (out, s')" by (simp add: await_def dev_send_def)
    from Cons.IH [OF this] obtain k where "k \<le> length rs" "dv_sent s' = dv_sent ?s @ take k rs"
      "out = Ret () \<longrightarrow> k = length rs" "\<forall>n. out \<noteq> Exit n" by blast
    then show ?thesis by (intro exI [of _ "Suc k"]) simp
  qed
qed

lemma increaseTime_requests:
  "increaseTime D n = send_all D [(''evm_increaseTime'', [Num n]), (''evm_mine'', [])]"
  by (simp add: increaseTime_def)

lemma advanceTimeAndBlock_requests:
  "advanceTimeAndBlock D n =
   send_all D [(''evm_increaseTime'', [Num n]), (''evm_mine'', []), (''evm_increaseTime'', [Num 15])]"
  by (simp add: advanceTimeAndBlock_def)

lemma impersonate_requests:
  "d_TENDERLY D \<noteq> Some ''true'' \<Longrightarrow> impersonateAccountsHardhat D accounts1 =
   send_all D (map (\<lambda>account. (''hardhat_impersonateAccount'', [Str account])) accounts1)"
proof -
  assume "d_TENDERLY D \<noteq> Some ''true''"
  moreover have "for_each accounts1 (\<lambda>account.
      await (dev_send D ''hardhat_impersonateAccount'' [Str account]) (\<lambda>_. ret ())) =
    send_all D (map (\<lambda>account. (''hardhat_impersonateAccount'', [Str account])) accounts1)"
    by (induction accounts1) (simp_all add: await_assoc)
  ultimately show ?thesis by (simp add: impersonateAccountsHardhat_def)
qed

lemma impersonate_nothing_on_tenderly:
  "d_TENDERLY D = Some ''true'' \<Longrightarrow> impersonateAccountsHardhat D accounts1 s = (Ret (), s)"
  by (simp add: impersonateAccountsHardhat_def ret_def)

text \<open>
  Time travel over a block that is known: if the node keeps what it documents of
  \<^verbatim>\<open>evm_setNextBlockTimestamp\<close> followed by \<^verbatim>\<open>evm_mine\<close>, the latest block is exactly
  \<open>forwardTime\<close> seconds after the one it started from.
\<close>

lemma coverage_failed_advances:
  assumes "d_block D (Some (d_blockNumber D (dv_chain s))) (dv_chain s) = Some t"
    and "\<And>u v w c c1 c2. d_send D ''evm_setNextBlockTimestamp'' [Num (int u)] c = (Inr v, c1) \<Longrightarrow>
       d_send D ''evm_mine'' [] c1 = (Inr w, c2) \<Longrightarrow> d_block D None c2 = Some u"
    and "advanceTimeAndBlock_coverage_failed D (int n) s = (Ret (), s')"
  shows "fst (timeLatest D s') = Ret (t + n)"
proof -
  obtain a c1 where 1: "d_send D ''evm_setNextBlockTimestamp'' [Num (int (t + n))] (dv_chain s) = (a, c1)"
    by fastforce
  obtain b c2 where 2: "d_send D ''evm_mine'' [] c1 = (b, c2)" by fastforce
  from assms(1,3) 1 2 obtain v w where "a = Inr v" "b = Inr w" "dv_chain s' = c2"
    by (cases a; cases b) (auto simp: advanceTimeAndBlock_coverage_failed_def getCurrentBlock_def
        block_timestamp_def dev_send_def await_def ret_def)
  with 1 2 assms(2) have "d_block D None (dv_chain s') = Some (t + n)" by blast
  then show ?thesis by (simp add: timeLatest_def block_timestamp_def await_def ret_def)
qed

section \<open>Reading back a number\<close>

lemma parse_int_dec: "parse_int (dec n) = double_of (of_nat n)"
proof -
  obtain c r where c: "dec n = c # r" using dec_nonempty [of n] by (cases "dec n") auto
  with dec_head [of n] have "is_digit c" by simp
  with digit_no_space have "dropWhile is_space (dec n) = dec n" "hd (dec n) \<noteq> CHR ''-''" "hd (dec n) \<noteq> CHR ''+''"
    using c by auto
  then show ?thesis by (simp add: parse_int_def parse_int_unsigned_def dec_not_hex Let_def)
qed

lemma decodeAbiNumber_rounds: "decode data = Inr n \<Longrightarrow> decodeAbiNumber decode data = Inr (double_of (of_nat n))"
  by (simp add: decodeAbiNumber_def parse_int_dec)

end
