(* ===== verification/BuildScripts.thy ===== *)
theory BuildScripts
  imports Prelude
begin

text \<open>
  The two scripts of \<^verbatim>\<open>scripts/\<close>: \<^verbatim>\<open>updateAbis.js\<close>, which copies the interfaces of compiled
  contracts, and \<^verbatim>\<open>check-no-binary-files.js\<close>.  A path is the list of its names from the root of the
  file system; the compiled artifacts, which the build makes, are a parameter.
\<close>

section \<open>Files\<close>

record file_system =
  fs_dirs :: "string list list"
  fs_files :: "string list \<Rightarrow> string option"

text \<open>\<^verbatim>\<open>fs.rmSync(path, {recursive: true})\<close>, where the path exists.\<close>

definition below :: "string list \<Rightarrow> string list \<Rightarrow> bool" where
  "below d p \<longleftrightarrow> take (length d) p = d"

definition deleteFolderRecursive :: "string list \<Rightarrow> file_system \<Rightarrow> file_system" where
  "deleteFolderRecursive d s = s\<lparr>fs_dirs := filter (\<lambda>p. \<not> below d p) (fs_dirs s),
     fs_files := (\<lambda>p. if below d p then None else fs_files s p)\<rparr>"

text \<open>\<^verbatim>\<open>fs.writeFileSync\<close> throws where the directory does not exist.\<close>

definition writeFileSync :: "string list \<Rightarrow> string \<Rightarrow> file_system \<Rightarrow> bool \<times> file_system" where
  "writeFileSync p content s =
     (if butlast p \<in> set (fs_dirs s) then (True, s\<lparr>fs_files := (fs_files s)(p \<mapsto> content)\<rparr>) else (False, s))"

section \<open>updateAbis\<close>

definition protocolContractList :: "string list" where
  "protocolContractList = [''LendPoolAddressesProviderRegistry'', ''LendPoolAddressesProvider'',
     ''LendPoolConfigurator'', ''LendPool'', ''LendPoolLoan'', ''InterestRate'', ''ReserveOracle'',
     ''NFTOracle'', ''BToken'', ''DebtToken'', ''PunkGateway'', ''WETHGateway'', ''WrapperGateway'']"

definition miscContractList :: "string list" where
  "miscContractList = [''UiPoolDataProvider'', ''BendProtocolDataProvider'', ''WalletBalanceProvider'',
     ''ChainlinkAggregatorHelper'']"

definition interfacesContractList :: "string list" where
  "interfacesContractList = [''IERC20Detailed'', ''IERC721Detailed'', ''IIncentivesController'']"

definition adaptersContractList :: "string list" where
  "adaptersContractList = [''UniswapV3DebtSwapAdapter'']"

text \<open>\<^verbatim>\<open>path.join(dir, "../abis")\<close>, and a path relative to the working directory.\<close>

definition parent_abis :: "string list \<Rightarrow> string list" where
  "parent_abis d = butlast d @ [''abis'']"

text \<open>
  One list: an artifact that is missing or a file that cannot be written stops it.  The answer tells
  whether the promise is fulfilled.  \<open>abi sub contract\<close> is the printed interface of an artifact.
\<close>

fun updateAbis ::
  "(string \<Rightarrow> string \<Rightarrow> string option) \<Rightarrow> string list \<Rightarrow> string \<Rightarrow> string list \<Rightarrow> file_system \<Rightarrow> bool \<times> file_system" where
  "updateAbis abi dirname subDir [] s = (True, s)"
| "updateAbis abi dirname subDir (contract # rest) s = (case abi subDir contract of
     None \<Rightarrow> (False, s)
   | Some text1 \<Rightarrow> (case writeFileSync (parent_abis dirname @ [contract @ ''.json'']) text1 s of
       (False, s') \<Rightarrow> (False, s')
     | (True, s') \<Rightarrow> updateAbis abi dirname subDir rest s'))"

text \<open>
  The script, run in the directory \<open>cwd\<close> and stored in \<open>dirname\<close>: the lists run one after the
  other, whatever became of the one before; a promise that is rejected fails the process at the end,
  since \<^verbatim>\<open>catch()\<close> without a handler passes the rejection on.
\<close>

definition update_abis_script ::
  "(string \<Rightarrow> string \<Rightarrow> string option) \<Rightarrow> string list \<Rightarrow> string list \<Rightarrow> file_system \<Rightarrow> bool \<times> file_system" where
  "update_abis_script abi cwd dirname s =
     (let s0 = deleteFolderRecursive (parent_abis cwd) s;
          (b1, s1) = updateAbis abi dirname ''protocol'' protocolContractList s0;
          (b2, s2) = updateAbis abi dirname ''misc'' miscContractList s1;
          (b3, s3) = updateAbis abi dirname ''interfaces'' interfacesContractList s2;
          (b4, s4) = updateAbis abi dirname ''adapters'' adaptersContractList s3 in
      (b1 \<and> b2 \<and> b3 \<and> b4, s4))"

section \<open>No binary files\<close>

text \<open>
  \<open>content\<close> gives the bytes of a tracked path that is a file; \<^verbatim>\<open>git ls-files\<close> prints one per line.
\<close>

definition binaryFiles :: "(string \<Rightarrow> nat list option) \<Rightarrow> string list \<Rightarrow> string list" where
  "binaryFiles content trackedFiles = filter (\<lambda>filePath. case content filePath of
     None \<Rightarrow> False | Some bytes \<Rightarrow> 0 \<in> set (take 8192 bytes)) trackedFiles"

definition check_no_binary_files :: "(string \<Rightarrow> nat list option) \<Rightarrow> string list \<Rightarrow> nat" where
  "check_no_binary_files content listed1 =
     (let trackedFiles = filter (\<lambda>p. p \<noteq> []) listed1 in
      if binaryFiles content trackedFiles \<noteq> [] then 1 else 0)"

lemma check_no_binary_files_zero:
  "check_no_binary_files content listed1 = 0 \<longleftrightarrow>
   (\<forall>p \<in> set listed1. p \<noteq> [] \<longrightarrow> (\<forall>bytes. content p = Some bytes \<longrightarrow> 0 \<notin> set (take 8192 bytes)))"
  by (auto simp: check_no_binary_files_def binaryFiles_def Let_def filter_empty_conv split: option.splits)

section \<open>What the script of the interfaces does\<close>

lemma updateAbis_dirs: "updateAbis abi dirname sub cs s = (b, s') \<Longrightarrow> fs_dirs s' = fs_dirs s"
  by (induction cs arbitrary: s) (auto simp: writeFileSync_def split: option.splits if_splits)

lemma updateAbis_elsewhere:
  "updateAbis abi dirname sub cs s = (b, s') \<Longrightarrow> \<not> below (parent_abis dirname) p \<Longrightarrow> fs_files s' p = fs_files s p"
  by (induction cs arbitrary: s) (auto simp: writeFileSync_def below_def split: option.splits if_splits)

lemma updateAbis_no_dir:
  "parent_abis dirname \<notin> set (fs_dirs s) \<Longrightarrow> cs \<noteq> [] \<Longrightarrow> updateAbis abi dirname sub cs s = (False, s)"
  by (cases cs) (auto simp: writeFileSync_def split: option.splits)

text \<open>
  Run in its own directory the script deletes the directory it writes to, does not make it again, and
  fails without writing anything.
\<close>

lemma abis_deleted_and_not_written:
  "update_abis_script abi dirname dirname s = (False, deleteFolderRecursive (parent_abis dirname) s)"
proof -
  let ?s = "deleteFolderRecursive (parent_abis dirname) s"
  have "parent_abis dirname \<notin> set (fs_dirs ?s)" by (simp add: deleteFolderRecursive_def below_def)
  then have "updateAbis abi dirname sub cs ?s = (False, ?s)" if "cs \<noteq> []" for sub cs
    using that by (rule updateAbis_no_dir)
  moreover have "protocolContractList \<noteq> []" "miscContractList \<noteq> []" "interfacesContractList \<noteq> []"
    "adaptersContractList \<noteq> []"
    by (simp_all add: protocolContractList_def miscContractList_def interfacesContractList_def
        adaptersContractList_def)
  ultimately show ?thesis by (simp add: update_abis_script_def Let_def)
qed

text \<open>
  Run from the root of the repository, as \<^verbatim>\<open>npm\<close> does, it deletes a directory \<^verbatim>\<open>abis\<close> beside the
  repository, and leaves in the repository the interfaces of contracts that are gone.
\<close>

lemma abis_beside_repository_deleted:
  assumes "repo \<noteq> []" "update_abis_script abi repo (repo @ [''scripts'']) s = (b, s')"
    and "below (parent_abis repo) p" "\<not> below (repo @ [''abis'']) p"
  shows "fs_files s' p = None"
  using assms
  by (auto simp: update_abis_script_def Let_def parent_abis_def deleteFolderRecursive_def
      split: prod.splits dest!: updateAbis_elsewhere [where p = p])

end
