(* ===== verification/PoolMath.thy ===== *)
theory PoolMath
  imports Types Solidity
begin

text \<open>
  The arithmetic of the pool: \<^verbatim>\<open>contracts/libraries/math/WadRayMath.sol\<close>,
  \<^verbatim>\<open>PercentageMath.sol\<close> and \<^verbatim>\<open>MathUtils.sol\<close>.  A wad has 18 decimals, a ray 27, a
  percentage two; products and quotients round half up and revert before they overflow.  The
  locale \<open>rounding\<close> states once what such a pair of operations promises, in natural numbers; the
  three libraries interpret it.
\<close>

section \<open>WadRayMath\<close>

definition WAD256 :: uint256 where "WAD256 = 1000000000000000000"
definition HALF_WAD256 :: uint256 where "HALF_WAD256 = WAD256 div 2"
definition RAY256 :: uint256 where "RAY256 = 1000000000000000000000000000"
definition HALF_RAY256 :: uint256 where "HALF_RAY256 = RAY256 div 2"
definition WAD_RAY_RATIO256 :: uint256 where "WAD_RAY_RATIO256 = 1000000000"

definition wadMul :: "uint256 \<Rightarrow> uint256 \<Rightarrow> string + uint256" where
  "wadMul a b = (if a = 0 \<or> b = 0 then Inr 0 else
     bind_revert (require (a \<le> (UINT256_MAX - HALF_WAD256) div b) ''MATH_MULTIPLICATION_OVERFLOW'') (\<lambda>_.
     bind_revert (checked_mul a b) (\<lambda>p. bind_revert (checked_add p HALF_WAD256) (\<lambda>s. checked_div s WAD256))))"

definition wadDiv :: "uint256 \<Rightarrow> uint256 \<Rightarrow> string + uint256" where
  "wadDiv a b =
     bind_revert (require (b \<noteq> 0) ''MATH_DIVISION_BY_ZERO'') (\<lambda>_. let halfB = b div 2 in
     bind_revert (require (a \<le> (UINT256_MAX - halfB) div WAD256) ''MATH_MULTIPLICATION_OVERFLOW'') (\<lambda>_.
     bind_revert (checked_mul a WAD256) (\<lambda>p. bind_revert (checked_add p halfB) (\<lambda>s. checked_div s b))))"

definition rayMul :: "uint256 \<Rightarrow> uint256 \<Rightarrow> string + uint256" where
  "rayMul a b = (if a = 0 \<or> b = 0 then Inr 0 else
     bind_revert (require (a \<le> (UINT256_MAX - HALF_RAY256) div b) ''MATH_MULTIPLICATION_OVERFLOW'') (\<lambda>_.
     bind_revert (checked_mul a b) (\<lambda>p. bind_revert (checked_add p HALF_RAY256) (\<lambda>s. checked_div s RAY256))))"

definition rayDiv :: "uint256 \<Rightarrow> uint256 \<Rightarrow> string + uint256" where
  "rayDiv a b =
     bind_revert (require (b \<noteq> 0) ''MATH_DIVISION_BY_ZERO'') (\<lambda>_. let halfB = b div 2 in
     bind_revert (require (a \<le> (UINT256_MAX - halfB) div RAY256) ''MATH_MULTIPLICATION_OVERFLOW'') (\<lambda>_.
     bind_revert (checked_mul a RAY256) (\<lambda>p. bind_revert (checked_add p halfB) (\<lambda>s. checked_div s b))))"

text \<open>In 0.8.4 the addition is checked before the comparison that was to check it.\<close>

definition rayToWad :: "uint256 \<Rightarrow> string + uint256" where
  "rayToWad a = (let halfRatio = WAD_RAY_RATIO256 div 2 in
     bind_revert (checked_add halfRatio a) (\<lambda>result.
     bind_revert (require (halfRatio \<le> result) ''MATH_ADDITION_OVERFLOW'') (\<lambda>_.
     checked_div result WAD_RAY_RATIO256)))"

definition wadToRay :: "uint256 \<Rightarrow> string + uint256" where
  "wadToRay a =
     bind_revert (checked_mul a WAD_RAY_RATIO256) (\<lambda>result.
     bind_revert (require (result div WAD_RAY_RATIO256 = a) ''MATH_MULTIPLICATION_OVERFLOW'') (\<lambda>_.
     Inr result))"

section \<open>PercentageMath\<close>

definition PERCENT :: uint256 where "PERCENT = 10000"
definition HALF_PERCENT :: uint256 where "HALF_PERCENT = PERCENT div 2"
definition ONE_PERCENT :: uint256 where "ONE_PERCENT = 100"
definition TEN_PERCENT :: uint256 where "TEN_PERCENT = 1000"

definition percentMul :: "uint256 \<Rightarrow> uint256 \<Rightarrow> string + uint256" where
  "percentMul value1 percentage = (if value1 = 0 \<or> percentage = 0 then Inr 0 else
     bind_revert (require (value1 \<le> (UINT256_MAX - HALF_PERCENT) div percentage)
       ''MATH_MULTIPLICATION_OVERFLOW'') (\<lambda>_.
     bind_revert (checked_mul value1 percentage) (\<lambda>p.
     bind_revert (checked_add p HALF_PERCENT) (\<lambda>s. checked_div s PERCENT))))"

definition percentDiv :: "uint256 \<Rightarrow> uint256 \<Rightarrow> string + uint256" where
  "percentDiv value1 percentage =
     bind_revert (require (percentage \<noteq> 0) ''MATH_DIVISION_BY_ZERO'') (\<lambda>_.
     let halfPercentage = percentage div 2 in
     bind_revert (require (value1 \<le> (UINT256_MAX - halfPercentage) div PERCENT)
       ''MATH_MULTIPLICATION_OVERFLOW'') (\<lambda>_.
     bind_revert (checked_mul value1 PERCENT) (\<lambda>p.
     bind_revert (checked_add p halfPercentage) (\<lambda>s. checked_div s percentage))))"

section \<open>What the operations promise\<close>

text \<open>
  The reference: the product and the quotient of fixed point numbers with the unit \<open>one\<close>, rounded
  half up, on natural numbers.
\<close>

definition mul_round :: "nat \<Rightarrow> nat \<Rightarrow> nat \<Rightarrow> nat" where
  "mul_round one a b = (a * b + one div 2) div one"

definition div_round :: "nat \<Rightarrow> nat \<Rightarrow> nat \<Rightarrow> nat" where
  "div_round one a b = (a * one + b div 2) div b"

locale rounding =
  fixes mulr divr :: "uint256 \<Rightarrow> uint256 \<Rightarrow> string + uint256" and one :: nat
  assumes unit: "even one" "2 \<le> one" "one < 2 ^ 128"
    and mul_spec: "mulr a b = (if unat a * unat b + one div 2 < 2 ^ 256
      then Inr (of_nat (mul_round one (unat a) (unat b))) else Inl ''MATH_MULTIPLICATION_OVERFLOW'')"
    and div_spec: "divr a b = (if b = 0 then Inl ''MATH_DIVISION_BY_ZERO''
      else if unat a * one + unat b div 2 < 2 ^ 256
      then Inr (of_nat (div_round one (unat a) (unat b))) else Inl ''MATH_MULTIPLICATION_OVERFLOW'')"
begin

lemma mul_round_fits: "a * b + one div 2 < 2 ^ 256 \<Longrightarrow> mul_round one a b < 2 ^ 256"
  unfolding mul_round_def by (rule le_less_trans [OF div_le_dividend])

lemma div_round_fits: "a * one + b div 2 < 2 ^ 256 \<Longrightarrow> div_round one a b < 2 ^ 256"
  unfolding div_round_def by (rule le_less_trans [OF div_le_dividend])

lemma mul_Inr:
  "mulr a b = Inr c \<longleftrightarrow> unat c = mul_round one (unat a) (unat b) \<and> unat a * unat b + one div 2 < 2 ^ 256"
  unfolding mul_spec using mul_round_fits [of "unat a" "unat b"] fits_Inr [of "mul_round one (unat a) (unat b)" "[]" c]
  by (auto simp: fits_def)

lemma div_Inr:
  "divr a b = Inr c \<longleftrightarrow>
     b \<noteq> 0 \<and> unat c = div_round one (unat a) (unat b) \<and> unat a * one + unat b div 2 < 2 ^ 256"
  unfolding div_spec using div_round_fits [of "unat a" "unat b"] fits_Inr [of "div_round one (unat a) (unat b)" "[]" c]
  by (auto simp: fits_def)

lemma mul_returns:
  "unat a * unat b + one div 2 < 2 ^ 256 \<Longrightarrow> \<exists>c. mulr a b = Inr c \<and> unat c = mul_round one (unat a) (unat b)"
  using mul_round_fits [of "unat a" "unat b"] by (auto simp: mul_spec of_nat_uint256)

lemma div_returns:
  "b \<noteq> 0 \<Longrightarrow> unat a * one + unat b div 2 < 2 ^ 256 \<Longrightarrow>
   \<exists>c. divr a b = Inr c \<and> unat c = div_round one (unat a) (unat b)"
  using div_round_fits [of "unat a" "unat b"] by (auto simp: div_spec of_nat_uint256)

text \<open>The rounding error is at most half a unit, and a tie is rounded up.\<close>

lemma mul_bounds: "one * mul_round one a b \<le> a * b + one div 2" "a * b + one div 2 < one * mul_round one a b + one"
  unfolding mul_round_def using unit dividend_less_times_div [of one "a * b + one div 2"] by simp_all

lemma div_bounds:
  assumes "0 < b"
  shows "b * div_round one a b \<le> a * one + b div 2" "a * one + b div 2 < b * div_round one a b + b"
  unfolding div_round_def using assms dividend_less_times_div [of b "a * one + b div 2"] by simp_all

lemma mul_round_mono: "a \<le> a' \<Longrightarrow> b \<le> b' \<Longrightarrow> mul_round one a b \<le> mul_round one a' b'"
  unfolding mul_round_def by (intro div_le_mono add_mono mult_mono) auto

lemma div_round_mono: "a \<le> a' \<Longrightarrow> div_round one a b \<le> div_round one a' b"
  unfolding div_round_def by (intro div_le_mono add_mono mult_mono) auto

lemma mul_round_one: "mul_round one a one = a"
  unfolding mul_round_def using unit by simp

lemma mul_round_le: "b \<le> one \<Longrightarrow> mul_round one a b \<le> a"
  using mul_round_mono [of a a b one] by (simp add: mul_round_one)

lemma mul_round_ge: "one \<le> b \<Longrightarrow> a \<le> mul_round one a b"
  using mul_round_mono [of a a one b] by (simp add: mul_round_one)

lemma mul_round_exact: "a * b = one * q \<Longrightarrow> mul_round one a b = q"
  unfolding mul_round_def using unit by simp

lemma mul_round_zero [simp]: "mul_round one 0 b = 0" "mul_round one a 0 = 0"
  unfolding mul_round_def using unit by simp_all

lemma mul_round_commute: "mul_round one a b = mul_round one b a"
  unfolding mul_round_def by (simp add: mult.commute)

lemma div_round_self: "0 < b \<Longrightarrow> div_round one b b = one"
  unfolding div_round_def by (simp add: div_mult_self3)

lemma div_round_le: "0 < b \<Longrightarrow> a \<le> b \<Longrightarrow> div_round one a b \<le> one"
  using div_round_mono [of a b b] by (simp add: div_round_self)

text \<open>A quotient grows with its fraction, whatever the two denominators.\<close>

lemma div_round_fraction_mono:
  assumes "0 < b" "0 < b'" "a * b' \<le> a' * b"
  shows "div_round one a b \<le> div_round one a' b'"
proof -
  let ?k = "div_round one a b"
  have "2 * (?k * b) \<le> 2 * (a * one) + b" using div_bounds(1) [OF assms(1), of a] by (simp add: mult.commute)
  then have "2 * (?k * b) * b' \<le> (2 * (a * one) + b) * b'" by (rule mult_le_mono1)
  also have "\<dots> = 2 * one * (a * b') + b * b'" by (simp add: algebra_simps)
  also have "\<dots> \<le> 2 * one * (a' * b) + b * b'" using assms(3) by simp
  also have "\<dots> = (2 * (a' * one) + b') * b" by (simp add: algebra_simps)
  finally have "(2 * (?k * b')) * b \<le> (2 * (a' * one) + b') * b" by (simp add: algebra_simps)
  then have "2 * (?k * b') \<le> 2 * (a' * one) + b'" using assms(1) by simp
  then have "?k * b' \<le> a' * one + b' div 2" by linarith
  then show ?thesis unfolding div_round_def [of one a' b'] using assms(2) by (simp add: less_eq_div_iff_mult_less_eq)
qed

text \<open>
  A number taken times a factor of at least one and divided by it again is the number itself:
  the rounding of the product is less than half of the factor.
\<close>

lemma div_mul_round:
  assumes "one \<le> b"
  shows "div_round one (mul_round one a b) b = a"
proof (cases "b = one")
  case True
  with unit show ?thesis by (simp add: mul_round_one div_round_def mult.commute)
next
  case False
  let ?c = "mul_round one a b"
  from unit obtain h where h: "one = 2 * h" by (auto elim: evenE)
  have "one * ?c \<le> a * b + h" "a * b + h < one * ?c + one" using mul_bounds [of a b] by (simp_all add: h)
  moreover have "h + b div 2 < b" "h \<le> b div 2" using assms False by (auto simp: h)
  ultimately have "a * b \<le> ?c * one + b div 2" "?c * one + b div 2 < a * b + b"
    by (simp_all add: h algebra_simps)
  then have "(?c * one + b div 2) div b = a"
    by (intro div_nat_eqI) (simp_all add: algebra_simps)
  then show ?thesis by (simp add: div_round_def)
qed

end

section \<open>The three libraries keep the promise\<close>

lemma checked_mul_round:
  assumes "unat half = unat u div 2" and "u \<noteq> 0"
  shows "(if a = 0 \<or> b = 0 then Inr 0 else
      bind_revert (require (a \<le> (UINT256_MAX - half) div b) e) (\<lambda>_.
      bind_revert (checked_mul a b) (\<lambda>p. bind_revert (checked_add p half) (\<lambda>s. checked_div s u)))) =
    (if unat a * unat b + unat u div 2 < 2 ^ 256
      then Inr (of_nat (mul_round (unat u) (unat a) (unat b))) else Inl e)"
proof (cases "a = 0 \<or> b = 0")
  case True
  have "unat u div 2 < 2 ^ 256" using unat_uint256 [of u] by linarith
  moreover have "unat u div 2 div unat u = 0" using assms(2) by (simp add: uint256_eq_0)
  ultimately show ?thesis using True by (auto simp: mul_round_def)
next
  case False
  then have pos: "0 < unat a" "0 < unat b" by (auto simp: uint256_eq_0)
  have "a \<le> (UINT256_MAX - half) div b \<longleftrightarrow> unat a \<le> (2 ^ 256 - 1 - unat half) div unat b"
    by (simp add: word_le_nat_alt unat_div unat_sub [OF UINT256_MAX_ge] unat_UINT256_MAX)
  also have "\<dots> \<longleftrightarrow> unat a * unat b \<le> 2 ^ 256 - 1 - unat half"
    using pos by (simp add: less_eq_div_iff_mult_less_eq)
  also have "\<dots> \<longleftrightarrow> unat a * unat b + unat u div 2 < 2 ^ 256"
    using assms(1) unat_uint256 [of half] by linarith
  finally have iff: "a \<le> (UINT256_MAX - half) div b \<longleftrightarrow> unat a * unat b + unat u div 2 < 2 ^ 256" .
  show ?thesis
  proof (cases "unat a * unat b + unat u div 2 < 2 ^ 256")
    case True
    then obtain p where p: "checked_mul a b = Inr p" "unat p = unat a * unat b"
      using checked_returns(2) [of a b] by auto
    moreover obtain s where s: "checked_add p half = Inr s" "unat s = unat p + unat half"
      using checked_returns(1) [of p half] True p(2) assms(1) by auto
    moreover have "s div u = of_nat (mul_round (unat u) (unat a) (unat b))"
      using s(2) p(2) assms(1) by (intro uint256_of_unat) (simp add: unat_div mul_round_def)
    ultimately show ?thesis using iff True False assms(2) by (auto simp: checked_div_def)
  next
    case no: False
    then have "\<not> a \<le> (UINT256_MAX - half) div b" using iff by blast
    then show ?thesis using no False by (simp add: require_False)
  qed
qed

lemma checked_div_round:
  assumes "u \<noteq> 0"
  shows "bind_revert (require (b \<noteq> 0) e0) (\<lambda>_. let half = b div 2 in
      bind_revert (require (a \<le> (UINT256_MAX - half) div u) e) (\<lambda>_.
      bind_revert (checked_mul a u) (\<lambda>p. bind_revert (checked_add p half) (\<lambda>s. checked_div s b)))) =
    (if b = 0 then Inl e0 else if unat a * unat u + unat b div 2 < 2 ^ 256
      then Inr (of_nat (div_round (unat u) (unat a) (unat b))) else Inl e)"
proof (cases "b = 0")
  case True
  then show ?thesis by (simp add: require_def)
next
  case False
  let ?h = "b div 2"
  have h: "unat ?h = unat b div 2" by (simp add: unat_div)
  have pos: "0 < unat u" using assms by (simp add: uint256_eq_0)
  have "a \<le> (UINT256_MAX - ?h) div u \<longleftrightarrow> unat a \<le> (2 ^ 256 - 1 - unat ?h) div unat u"
    by (simp add: word_le_nat_alt unat_div unat_sub [OF UINT256_MAX_ge] unat_UINT256_MAX)
  also have "\<dots> \<longleftrightarrow> unat a * unat u \<le> 2 ^ 256 - 1 - unat ?h"
    using pos by (simp add: less_eq_div_iff_mult_less_eq)
  also have "\<dots> \<longleftrightarrow> unat a * unat u + unat b div 2 < 2 ^ 256"
    using h unat_uint256 [of ?h] by linarith
  finally have iff: "a \<le> (UINT256_MAX - ?h) div u \<longleftrightarrow> unat a * unat u + unat b div 2 < 2 ^ 256" .
  show ?thesis
  proof (cases "unat a * unat u + unat b div 2 < 2 ^ 256")
    case True
    then obtain p where p: "checked_mul a u = Inr p" "unat p = unat a * unat u"
      using checked_returns(2) [of a u] by auto
    moreover obtain s where s: "checked_add p ?h = Inr s" "unat s = unat p + unat ?h"
      using checked_returns(1) [of p ?h] True p(2) h by auto
    moreover have "s div b = of_nat (div_round (unat u) (unat a) (unat b))"
      using s(2) p(2) h by (intro uint256_of_unat) (simp add: unat_div div_round_def)
    ultimately show ?thesis using iff True False by (simp add: checked_div_def Let_def)
  next
    case no: False
    then have "\<not> a \<le> (UINT256_MAX - ?h) div u" using iff by blast
    then show ?thesis using no False by (simp add: require_False Let_def)
  qed
qed

lemma unit_numbers: "WAD = 1000000000000000000" "RAY = 1000000000000000000000000000"
  "PERCENTAGE_FACTOR = 10000" "WAD_RAY_RATIO = 1000000000"
  by (simp_all add: WAD_def RAY_def PERCENTAGE_FACTOR_def WAD_RAY_RATIO_def)

lemma unat_units: "unat WAD256 = WAD" "unat RAY256 = RAY" "unat PERCENT = PERCENTAGE_FACTOR"
  "unat HALF_WAD256 = WAD div 2" "unat HALF_RAY256 = RAY div 2" "unat HALF_PERCENT = PERCENTAGE_FACTOR div 2"
  "unat WAD_RAY_RATIO256 = WAD_RAY_RATIO" "unat ONE_PERCENT = 100" "unat TEN_PERCENT = 1000"
  by (simp_all add: WAD256_def RAY256_def PERCENT_def HALF_WAD256_def HALF_RAY256_def HALF_PERCENT_def WAD_RAY_RATIO256_def
      ONE_PERCENT_def TEN_PERCENT_def unat_div unit_numbers)

lemma units_nonzero: "WAD256 \<noteq> 0" "RAY256 \<noteq> 0" "PERCENT \<noteq> 0" "WAD_RAY_RATIO256 \<noteq> 0"
  by (simp_all add: uint256_eq_0 unat_units unit_numbers)

lemma unit_sizes: "even RAY" "2 \<le> RAY" "RAY < 2 ^ 128" "even WAD" "2 \<le> WAD" "WAD < 2 ^ 128"
  "even PERCENTAGE_FACTOR" "2 \<le> PERCENTAGE_FACTOR" "PERCENTAGE_FACTOR < 2 ^ 128"
  by (simp_all add: unit_numbers)

interpretation ray: rounding rayMul rayDiv RAY
proof
  fix a b
  show "rayMul a b = (if unat a * unat b + RAY div 2 < 2 ^ 256
    then Inr (of_nat (mul_round RAY (unat a) (unat b))) else Inl ''MATH_MULTIPLICATION_OVERFLOW'')"
    using checked_mul_round [of HALF_RAY256 RAY256 a b "''MATH_MULTIPLICATION_OVERFLOW''"]
    unfolding rayMul_def unat_units using units_nonzero by blast
  show "rayDiv a b = (if b = 0 then Inl ''MATH_DIVISION_BY_ZERO''
    else if unat a * RAY + unat b div 2 < 2 ^ 256
    then Inr (of_nat (div_round RAY (unat a) (unat b))) else Inl ''MATH_MULTIPLICATION_OVERFLOW'')"
    using checked_div_round [of RAY256 b "''MATH_DIVISION_BY_ZERO''" a "''MATH_MULTIPLICATION_OVERFLOW''"]
    unfolding rayDiv_def unat_units using units_nonzero by blast
qed (rule unit_sizes)+

interpretation wad: rounding wadMul wadDiv WAD
proof
  fix a b
  show "wadMul a b = (if unat a * unat b + WAD div 2 < 2 ^ 256
    then Inr (of_nat (mul_round WAD (unat a) (unat b))) else Inl ''MATH_MULTIPLICATION_OVERFLOW'')"
    using checked_mul_round [of HALF_WAD256 WAD256 a b "''MATH_MULTIPLICATION_OVERFLOW''"]
    unfolding wadMul_def unat_units using units_nonzero by blast
  show "wadDiv a b = (if b = 0 then Inl ''MATH_DIVISION_BY_ZERO''
    else if unat a * WAD + unat b div 2 < 2 ^ 256
    then Inr (of_nat (div_round WAD (unat a) (unat b))) else Inl ''MATH_MULTIPLICATION_OVERFLOW'')"
    using checked_div_round [of WAD256 b "''MATH_DIVISION_BY_ZERO''" a "''MATH_MULTIPLICATION_OVERFLOW''"]
    unfolding wadDiv_def unat_units using units_nonzero by blast
qed (rule unit_sizes)+

interpretation percent: rounding percentMul percentDiv PERCENTAGE_FACTOR
proof
  fix a b
  show "percentMul a b = (if unat a * unat b + PERCENTAGE_FACTOR div 2 < 2 ^ 256
    then Inr (of_nat (mul_round PERCENTAGE_FACTOR (unat a) (unat b))) else Inl ''MATH_MULTIPLICATION_OVERFLOW'')"
    using checked_mul_round [of HALF_PERCENT PERCENT a b "''MATH_MULTIPLICATION_OVERFLOW''"]
    unfolding percentMul_def unat_units using units_nonzero by blast
  show "percentDiv a b = (if b = 0 then Inl ''MATH_DIVISION_BY_ZERO''
    else if unat a * PERCENTAGE_FACTOR + unat b div 2 < 2 ^ 256
    then Inr (of_nat (div_round PERCENTAGE_FACTOR (unat a) (unat b))) else Inl ''MATH_MULTIPLICATION_OVERFLOW'')"
    using checked_div_round [of PERCENT b "''MATH_DIVISION_BY_ZERO''" a "''MATH_MULTIPLICATION_OVERFLOW''"]
    unfolding percentDiv_def unat_units using units_nonzero by blast
qed (rule unit_sizes)+

section \<open>MathUtils\<close>

text \<open>The time of the block is an argument; \<^verbatim>\<open>uint40\<close> timestamps are widened as in the code.\<close>

definition SECONDS_PER_YEAR :: uint256 where "SECONDS_PER_YEAR = 31536000"

definition calculateLinearInterest :: "uint256 \<Rightarrow> uint256 \<Rightarrow> uint40 \<Rightarrow> string + uint256" where
  "calculateLinearInterest now rate lastUpdateTimestamp =
     bind_revert (checked_sub now (ucast lastUpdateTimestamp)) (\<lambda>timeDifference.
     bind_revert (checked_mul rate timeDifference) (\<lambda>p.
     bind_revert (checked_div p SECONDS_PER_YEAR) (\<lambda>q. checked_add q RAY256)))"

definition calculateCompoundedInterest :: "uint256 \<Rightarrow> uint256 \<Rightarrow> uint40 \<Rightarrow> string + uint256" where
  "calculateCompoundedInterest now rate lastUpdateTimestamp =
     bind_revert (checked_sub now (ucast lastUpdateTimestamp)) (\<lambda>exp1.
     if exp1 = 0 then Inr RAY256 else
     bind_revert (checked_sub exp1 1) (\<lambda>expMinusOne.
     bind_revert (if 2 < exp1 then checked_sub exp1 2 else Inr 0) (\<lambda>expMinusTwo.
     bind_revert (checked_div rate SECONDS_PER_YEAR) (\<lambda>ratePerSecond.
     bind_revert (rayMul ratePerSecond ratePerSecond) (\<lambda>basePowerTwo.
     bind_revert (rayMul basePowerTwo ratePerSecond) (\<lambda>basePowerThree.
     bind_revert (checked_mul exp1 expMinusOne) (\<lambda>e2.
     bind_revert (checked_mul e2 basePowerTwo) (\<lambda>s2.
     bind_revert (checked_div s2 2) (\<lambda>secondTerm.
     bind_revert (checked_mul e2 expMinusTwo) (\<lambda>e3.
     bind_revert (checked_mul e3 basePowerThree) (\<lambda>s3.
     bind_revert (checked_div s3 6) (\<lambda>thirdTerm.
     bind_revert (checked_mul ratePerSecond exp1) (\<lambda>firstTerm.
     bind_revert (checked_add RAY256 firstTerm) (\<lambda>t1.
     bind_revert (checked_add t1 secondTerm) (\<lambda>t2. checked_add t2 thirdTerm)))))))))))))))"

text \<open>
  The reference: the first four terms of the binomial series of \<open>(1 + x)^n\<close>, in rays, where \<open>x\<close> is the
  rate per second.
\<close>

definition linear_interest :: "nat \<Rightarrow> nat \<Rightarrow> nat" where
  "linear_interest rate n = rate * n div 31536000 + RAY"

definition compounded_interest :: "nat \<Rightarrow> nat \<Rightarrow> nat" where
  "compounded_interest rate n = (let x = rate div 31536000; x2 = mul_round RAY x x;
     x3 = mul_round RAY x2 x
     in RAY + x * n + n * (n - 1) * x2 div 2 + n * (n - 1) * (n - 2) * x3 div 6)"

lemma unat_SECONDS_PER_YEAR [simp]: "unat SECONDS_PER_YEAR = 31536000"
  by (simp add: SECONDS_PER_YEAR_def)

lemma linear_interest_Inr:
  assumes "calculateLinearInterest now rate ts = Inr c"
  shows "unat ts \<le> unat now \<and> unat c = linear_interest (unat rate) (unat now - unat ts)"
  using assms
  by (auto simp: calculateLinearInterest_def linear_interest_def bind_revert_Inr checked_iff unat_units)

lemma compounded_interest_Inr:
  assumes "calculateCompoundedInterest now rate ts = Inr c"
  shows "unat ts \<le> unat now \<and> unat c = compounded_interest (unat rate) (unat now - unat ts)"
proof -
  from assms obtain n where n: "checked_sub now (ucast ts) = Inr n"
    unfolding calculateCompoundedInterest_def by (auto elim: bind_revertE)
  then have time: "unat now = unat ts + unat n" by (simp add: checked_iff)
  show ?thesis
  proof (cases "n = 0")
    case True
    with assms n time show ?thesis
      by (simp add: calculateCompoundedInterest_def compounded_interest_def unat_units Let_def)
  next
    case False
    have two: "(if 2 < n then checked_sub n 2 else Inr 0) = Inr m \<longleftrightarrow> unat m = unat n - 2" for m
      by (auto simp: checked_iff word_less_nat_alt uint256_eq_0)
    from False have pos: "0 < unat n" by (simp add: uint256_eq_0)
    from assms obtain m1 m2 x x2 x3 e2 s2 q2 e3 s3 q3 f t1 t2 where steps:
      "checked_sub n 1 = Inr m1" "unat m2 = unat n - 2" "checked_div rate SECONDS_PER_YEAR = Inr x"
      "rayMul x x = Inr x2" "rayMul x2 x = Inr x3" "checked_mul n m1 = Inr e2" "checked_mul e2 x2 = Inr s2"
      "checked_div s2 2 = Inr q2" "checked_mul e2 m2 = Inr e3" "checked_mul e3 x3 = Inr s3"
      "checked_div s3 6 = Inr q3" "checked_mul x n = Inr f" "checked_add RAY256 f = Inr t1"
      "checked_add t1 q2 = Inr t2" "checked_add t2 q3 = Inr c"
      unfolding calculateCompoundedInterest_def n bind_revert_simps using False
      by (auto simp: bind_revert_Inr two)
    note nums = steps [unfolded checked_iff ray.mul_Inr]
    have m1: "unat m1 = unat n - 1" using nums(1) by simp
    show ?thesis using nums m1 time
      by (simp add: compounded_interest_def Let_def unat_units)
  qed
qed

text \<open>Both grow with time and start at one.\<close>

lemma linear_interest_mono: "m \<le> n \<Longrightarrow> linear_interest r m \<le> linear_interest r n"
  unfolding linear_interest_def by (intro add_mono div_le_mono mult_mono) auto

lemma compounded_interest_mono: "m \<le> n \<Longrightarrow> compounded_interest r m \<le> compounded_interest r n"
  unfolding compounded_interest_def Let_def by (intro add_mono div_le_mono mult_mono) auto

lemma interest_ge_ray: "RAY \<le> linear_interest r n" "RAY \<le> compounded_interest r n"
  by (simp_all add: linear_interest_def compounded_interest_def Let_def)

text \<open>
  With a rate of 128 bits, as a reserve stores it, and a clock of 40 bits nothing overflows: the
  rate per second is below \<open>2\<^sup>1\<^sup>0\<^sup>4\<close>, its square and cube in rays below \<open>2\<^sup>1\<^sup>1\<^sup>9\<close> and \<open>2\<^sup>1\<^sup>3\<^sup>4\<close>.
\<close>

lemma powers_below:
  assumes "r < 2 ^ 128"
  shows "r div 31536000 \<le> 2 ^ 104" (is "?x \<le> _")
    and "mul_round RAY (r div 31536000) (r div 31536000) \<le> 2 ^ 119" (is "?x2 \<le> _")
    and "mul_round RAY (mul_round RAY (r div 31536000) (r div 31536000)) (r div 31536000) \<le> 2 ^ 134"
proof -
  show x: "?x \<le> 2 ^ 104" using assms by simp
  have "?x2 \<le> mul_round RAY (2 ^ 104) (2 ^ 104)" by (rule ray.mul_round_mono [OF x x])
  also have "\<dots> \<le> 2 ^ 119" by (simp add: mul_round_def unit_numbers)
  finally show x2: "?x2 \<le> 2 ^ 119" .
  have "mul_round RAY ?x2 ?x \<le> mul_round RAY (2 ^ 119) (2 ^ 104)" by (rule ray.mul_round_mono [OF x2 x])
  also have "\<dots> \<le> 2 ^ 134" by (simp add: mul_round_def unit_numbers)
  finally show "mul_round RAY ?x2 ?x \<le> 2 ^ 134" .
qed

lemma mult_le_powers: "a \<le> 2 ^ i \<Longrightarrow> b \<le> 2 ^ j \<Longrightarrow> a * b \<le> (2 :: nat) ^ (i + j)"
  by (simp add: power_add mult_mono)

lemma compounded_returns:
  assumes rate: "unat rate < 2 ^ 128" and time: "unat ts \<le> unat now" "unat now < 2 ^ 40"
  shows "\<exists>c. calculateCompoundedInterest now rate ts = Inr c \<and>
    unat c = compounded_interest (unat rate) (unat now - unat ts)"
proof -
  obtain n where n: "checked_sub now (ucast ts) = Inr n" "unat n = unat now - unat ts"
    using checked_returns(3) [of "ucast ts" now] time by auto
  have n40: "unat n \<le> 2 ^ 40" using n(2) time by simp
  have "\<exists>c. calculateCompoundedInterest now rate ts = Inr c"
  proof (cases "n = 0")
    case True
    then show ?thesis using n by (simp add: calculateCompoundedInterest_def)
  next
    case False
    then have pos: "0 < unat n" by (simp add: uint256_eq_0)
    obtain m1 where m1: "checked_sub n 1 = Inr m1" "unat m1 = unat n - 1"
      using checked_returns(3) [of 1 n] pos by auto
    obtain m2 where m2: "(if 2 < n then checked_sub n 2 else Inr 0) = Inr m2" "unat m2 = unat n - 2"
      using checked_returns(3) [of 2 n] by (cases "2 < n") (auto simp: word_less_nat_alt)
    define x where "x = rate div SECONDS_PER_YEAR"
    have x: "checked_div rate SECONDS_PER_YEAR = Inr x" "unat x = unat rate div 31536000"
      unfolding x_def checked_div_def by (auto simp: unat_div uint256_eq_0)
    note below = powers_below [OF rate, folded x(2)]
    have xx: "unat x * unat x + RAY div 2 < 2 ^ 256"
      using mult_le_powers [OF below(1) below(1)] by (simp add: unit_numbers)
    obtain x2 where x2: "rayMul x x = Inr x2" "unat x2 = mul_round RAY (unat x) (unat x)"
      using ray.mul_returns [OF xx] by blast
    note x2b = below(2) [folded x2(2)]
    have xx: "unat x2 * unat x + RAY div 2 < 2 ^ 256"
      using mult_le_powers [OF x2b below(1)] by (simp add: unit_numbers)
    obtain x3 where x3: "rayMul x2 x = Inr x3" "unat x3 = mul_round RAY (unat x2) (unat x)"
      using ray.mul_returns [OF xx] by blast
    note x3b = below(3) [folded x2(2), folded x3(2)]
    have m: "unat m1 \<le> 2 ^ 40" "unat m2 \<le> 2 ^ 40" using m1 m2 n40 by simp_all
    have e2b: "unat n * unat m1 \<le> 2 ^ 80" using mult_le_powers [OF n40 m(1)] by simp
    obtain e2 where e2: "checked_mul n m1 = Inr e2" "unat e2 = unat n * unat m1"
      using checked_returns(2) [of n m1] e2b by fastforce
    note e2b = e2b [folded e2(2)]
    have s2b: "unat e2 * unat x2 \<le> 2 ^ 199" using mult_le_powers [OF e2b x2b] by simp
    obtain s2 where s2: "checked_mul e2 x2 = Inr s2" "unat s2 = unat e2 * unat x2"
      using checked_returns(2) [of e2 x2] s2b by fastforce
    obtain q2 where q2: "checked_div s2 2 = Inr q2" "unat q2 \<le> 2 ^ 199"
      using s2b s2(2) by (auto simp: checked_div_def unat_div)
    have e3b: "unat e2 * unat m2 \<le> 2 ^ 120" using mult_le_powers [OF e2b m(2)] by simp
    obtain e3 where e3: "checked_mul e2 m2 = Inr e3" "unat e3 = unat e2 * unat m2"
      using checked_returns(2) [of e2 m2] e3b by fastforce
    have s3b: "unat e3 * unat x3 \<le> 2 ^ 254" using mult_le_powers [OF e3b [folded e3(2)] x3b] by simp
    obtain s3 where s3: "checked_mul e3 x3 = Inr s3" "unat s3 = unat e3 * unat x3"
      using checked_returns(2) [of e3 x3] s3b by fastforce
    obtain q3 where q3: "checked_div s3 6 = Inr q3" "unat q3 \<le> 2 ^ 254"
      using s3b s3(2) by (auto simp: checked_div_def unat_div)
    have fb: "unat x * unat n \<le> 2 ^ 144" using mult_le_powers [OF below(1) n40] by simp
    obtain f where f: "checked_mul x n = Inr f" "unat f = unat x * unat n"
      using checked_returns(2) [of x n] fb by fastforce
    obtain t1 where t1: "checked_add RAY256 f = Inr t1" "unat t1 = RAY + unat f"
      using checked_returns(1) [of RAY256 f] fb f(2) by (fastforce simp: unat_units unit_numbers)
    obtain t2 where t2: "checked_add t1 q2 = Inr t2" "unat t2 = unat t1 + unat q2"
      using checked_returns(1) [of t1 q2] t1(2) fb f(2) q2(2) by (fastforce simp: unit_numbers)
    obtain c where "checked_add t2 q3 = Inr c"
      using checked_returns(1) [of t2 q3] t2(2) t1(2) fb f(2) q2(2) q3(2) by (fastforce simp: unit_numbers)
    then show ?thesis
      using False n m1 m2 x x2 x3 e2 s2 q2 e3 s3 q3 f t1 t2 by (simp add: calculateCompoundedInterest_def)
  qed
  then show ?thesis using compounded_interest_Inr by blast
qed

lemma linear_returns:
  assumes rate: "unat rate < 2 ^ 128" and time: "unat ts \<le> unat now" "unat now < 2 ^ 40"
  shows "\<exists>c. calculateLinearInterest now rate ts = Inr c \<and>
    unat c = linear_interest (unat rate) (unat now - unat ts)"
proof -
  obtain n where n: "checked_sub now (ucast ts) = Inr n" "unat n = unat now - unat ts"
    using checked_returns(3) [of "ucast ts" now] time by auto
  have b: "unat rate * unat n \<le> 2 ^ 168" using mult_le_powers [of "unat rate" 128 "unat n" 40] n(2) rate time by simp
  obtain p where p: "checked_mul rate n = Inr p" "unat p = unat rate * unat n"
    using checked_returns(2) [of rate n] b by fastforce
  obtain q where q: "checked_div p SECONDS_PER_YEAR = Inr q" "unat q = unat p div 31536000"
    by (auto simp: checked_div_def unat_div uint256_eq_0)
  have "unat q \<le> 2 ^ 168" using q(2) p(2) b by (metis div_le_dividend order_trans)
  then obtain c where "checked_add q RAY256 = Inr c"
    using checked_returns(1) [of q RAY256] by (fastforce simp: unat_units unit_numbers)
  then have "calculateLinearInterest now rate ts = Inr c"
    using n p q by (simp add: calculateLinearInterest_def)
  then show ?thesis using linear_interest_Inr by blast
qed

end
