(* ===== verification/InterestRates.thy ===== *)
theory InterestRates
  imports PoolMath MarketConfig
begin

text \<open>
  The contract \<^verbatim>\<open>contracts/protocol/InterestRate.sol\<close>, deployed by the scripts once per
  interest rate strategy: the rate borrowers pay has one slope up to the optimal utilization and
  another above it.  The lemmas give the curve on natural numbers, its bounds and its growth, and
  apply them to the strategies of the market configuration.
\<close>

section \<open>The contract\<close>

record interest_rate =
  rate_owner :: string
  rate_provider :: string
  OPTIMAL_UTILIZATION_RATE :: uint256
  EXCESS_UTILIZATION_RATE :: uint256
  rate_base :: uint256
  rate_slope1 :: uint256
  rate_slope2 :: uint256

definition InterestRate_constructor ::
  "string \<Rightarrow> string \<Rightarrow> uint256 \<Rightarrow> uint256 \<Rightarrow> uint256 \<Rightarrow> uint256 \<Rightarrow> string + interest_rate" where
  "InterestRate_constructor sender provider optimal base slope1 slope2 =
     bind_revert (checked_sub RAY256 optimal) (\<lambda>excess.
     Inr \<lparr>rate_owner = sender, rate_provider = provider, OPTIMAL_UTILIZATION_RATE = optimal,
       EXCESS_UTILIZATION_RATE = excess, rate_base = base, rate_slope1 = slope1, rate_slope2 = slope2\<rparr>)"

definition setInterestRateParams ::
  "string \<Rightarrow> uint256 \<Rightarrow> uint256 \<Rightarrow> uint256 \<Rightarrow> uint256 \<Rightarrow> interest_rate \<Rightarrow> string + interest_rate" where
  "setInterestRateParams sender optimal base slope1 slope2 ir =
     bind_revert (require (sender = rate_owner ir) ''Ownable: caller is not the owner'') (\<lambda>_.
     bind_revert (checked_sub RAY256 optimal) (\<lambda>excess.
     Inr (ir\<lparr>OPTIMAL_UTILIZATION_RATE := optimal, EXCESS_UTILIZATION_RATE := excess,
       rate_base := base, rate_slope1 := slope1, rate_slope2 := slope2\<rparr>)))"

definition getMaxVariableBorrowRate :: "interest_rate \<Rightarrow> string + uint256" where
  "getMaxVariableBorrowRate ir =
     bind_revert (checked_add (rate_base ir) (rate_slope1 ir)) (\<lambda>r. checked_add r (rate_slope2 ir))"

definition getOverallBorrowRate :: "uint256 \<Rightarrow> uint256 \<Rightarrow> string + uint256" where
  "getOverallBorrowRate totalVariableDebt currentVariableBorrowRate =
     (if totalVariableDebt = 0 then Inr 0 else
      bind_revert (wadToRay totalVariableDebt) (\<lambda>d.
      bind_revert (rayMul d currentVariableBorrowRate) (\<lambda>weightedVariableRate.
      bind_revert (wadToRay totalVariableDebt) (\<lambda>d'. rayDiv weightedVariableRate d'))))"

definition utilizationRate :: "uint256 \<Rightarrow> uint256 \<Rightarrow> string + uint256" where
  "utilizationRate availableLiquidity totalDebt =
     (if totalDebt = 0 then Inr 0 else
      bind_revert (checked_add availableLiquidity totalDebt) (\<lambda>t. rayDiv totalDebt t))"

definition variableBorrowRate :: "interest_rate \<Rightarrow> uint256 \<Rightarrow> string + uint256" where
  "variableBorrowRate ir u =
     (if OPTIMAL_UTILIZATION_RATE ir < u then
        bind_revert (checked_sub u (OPTIMAL_UTILIZATION_RATE ir)) (\<lambda>d.
        bind_revert (rayDiv d (EXCESS_UTILIZATION_RATE ir)) (\<lambda>excessUtilizationRateRatio.
        bind_revert (checked_add (rate_base ir) (rate_slope1 ir)) (\<lambda>r.
        bind_revert (rayMul (rate_slope2 ir) excessUtilizationRateRatio) (\<lambda>x. checked_add r x))))
      else
        bind_revert (rayMul u (rate_slope1 ir)) (\<lambda>p.
        bind_revert (rayDiv p (OPTIMAL_UTILIZATION_RATE ir)) (\<lambda>x. checked_add (rate_base ir) x)))"

definition calculateInterestRates ::
  "interest_rate \<Rightarrow> uint256 \<Rightarrow> uint256 \<Rightarrow> uint256 \<Rightarrow> string + uint256 \<times> uint256" where
  "calculateInterestRates ir availableLiquidity totalVariableDebt factor =
     bind_revert (utilizationRate availableLiquidity totalVariableDebt) (\<lambda>u.
     bind_revert (variableBorrowRate ir u) (\<lambda>currentVariableBorrowRate.
     bind_revert (getOverallBorrowRate totalVariableDebt currentVariableBorrowRate) (\<lambda>overall.
     bind_revert (rayMul overall u) (\<lambda>r.
     bind_revert (checked_sub PERCENT factor) (\<lambda>f.
     bind_revert (percentMul r f) (\<lambda>currentLiquidityRate.
     Inr (currentLiquidityRate, currentVariableBorrowRate)))))))"

text \<open>The other overloading: \<open>balance\<close> is what the bToken holds of the reserve's token.\<close>

definition calculateInterestRates_of_pool ::
  "interest_rate \<Rightarrow> uint256 \<Rightarrow> uint256 \<Rightarrow> uint256 \<Rightarrow> uint256 \<Rightarrow> uint256 \<Rightarrow> string + uint256 \<times> uint256" where
  "calculateInterestRates_of_pool ir balance liquidityAdded liquidityTaken totalVariableDebt factor =
     bind_revert (checked_add balance liquidityAdded) (\<lambda>a.
     bind_revert (checked_sub a liquidityTaken) (\<lambda>availableLiquidity.
     calculateInterestRates ir availableLiquidity totalVariableDebt factor))"

section \<open>The curve\<close>

definition utilization :: "nat \<Rightarrow> nat \<Rightarrow> nat" where
  "utilization avail debt = (if debt = 0 then 0 else div_round RAY debt (avail + debt))"

definition curve :: "nat \<Rightarrow> nat \<Rightarrow> nat \<Rightarrow> nat \<Rightarrow> nat \<Rightarrow> nat" where
  "curve optimal base slope1 slope2 u =
     (if optimal < u
      then base + slope1 + mul_round RAY slope2 (div_round RAY (u - optimal) (RAY - optimal))
      else base + div_round RAY (mul_round RAY u slope1) optimal)"

text \<open>
  The first slope meets the second one exactly when no digit of \<open>optimal * slope1\<close> is below a ray;
  otherwise rounding may put the end of the first piece one unit above the start of the second.
\<close>

definition exact_kink :: "nat \<Rightarrow> nat \<Rightarrow> bool" where
  "exact_kink optimal slope1 \<longleftrightarrow> 0 < optimal \<and> optimal < RAY \<and> RAY dvd optimal * slope1"

lemma utilization_le: "utilization avail debt \<le> RAY"
  by (simp add: utilization_def ray.div_round_le)

lemma utilization_mono:
  assumes "debt \<le> debt'" "avail' \<le> avail"
  shows "utilization avail debt \<le> utilization avail' debt'"
proof (cases "debt = 0")
  case False
  have "debt * (avail' + debt') \<le> debt' * (avail + debt)"
    using mult_le_mono [OF assms] by (simp add: distrib_left mult.commute)
  then show ?thesis using False assms(1) by (simp add: utilization_def ray.div_round_fraction_mono)
qed (simp add: utilization_def)

lemma kink_value:
  assumes "exact_kink optimal slope1"
  shows "div_round RAY (mul_round RAY optimal slope1) optimal = slope1"
proof -
  from assms obtain q where q: "optimal * slope1 = RAY * q" by (auto simp: exact_kink_def dvd_def)
  then have "mul_round RAY optimal slope1 = q" by (rule ray.mul_round_exact)
  moreover have "div_round RAY q optimal = slope1"
  proof -
    have "q * RAY = slope1 * optimal" using q by (simp add: mult.commute)
    then show ?thesis using assms unfolding div_round_def exact_kink_def by simp
  qed
  ultimately show ?thesis by simp
qed

lemma curve_first:
  assumes "exact_kink optimal slope1" "u \<le> optimal"
  shows "curve optimal base slope1 slope2 u \<le> base + slope1"
proof -
  have "div_round RAY (mul_round RAY u slope1) optimal
      \<le> div_round RAY (mul_round RAY optimal slope1) optimal"
    using assms(2) by (intro ray.div_round_mono ray.mul_round_mono) simp_all
  then show ?thesis using assms by (simp add: curve_def kink_value)
qed

lemma curve_bounds:
  assumes "exact_kink optimal slope1" "u \<le> RAY"
  shows "base \<le> curve optimal base slope1 slope2 u" "curve optimal base slope1 slope2 u \<le> base + slope1 + slope2"
proof -
  show "base \<le> curve optimal base slope1 slope2 u" by (simp add: curve_def)
  have "mul_round RAY slope2 (div_round RAY (u - optimal) (RAY - optimal)) \<le> slope2"
    using assms by (intro ray.mul_round_le ray.div_round_le) (simp_all add: exact_kink_def)
  then show "curve optimal base slope1 slope2 u \<le> base + slope1 + slope2"
    using curve_first [OF assms(1), of u base slope2] by (cases "optimal < u") (auto simp: curve_def)
qed

lemma curve_mono:
  assumes "exact_kink optimal slope1" "u \<le> v"
  shows "curve optimal base slope1 slope2 u \<le> curve optimal base slope1 slope2 v"
proof -
  consider "v \<le> optimal" | "u \<le> optimal" "optimal < v" | "optimal < u" using assms(2) by linarith
  then show ?thesis
  proof cases
    case 1
    with assms(2) show ?thesis
      unfolding curve_def by (auto intro!: ray.div_round_mono ray.mul_round_mono)
  next
    case 2
    then have "curve optimal base slope1 slope2 u \<le> base + slope1" by (intro curve_first [OF assms(1)])
    also have "\<dots> \<le> curve optimal base slope1 slope2 v" using 2 by (simp add: curve_def)
    finally show ?thesis .
  next
    case 3
    with assms(2) show ?thesis
      unfolding curve_def by (auto intro!: ray.div_round_mono ray.mul_round_mono)
  qed
qed

section \<open>The contract follows the curve\<close>

definition follows :: "interest_rate \<Rightarrow> nat \<Rightarrow> nat" where
  "follows ir = curve (unat (OPTIMAL_UTILIZATION_RATE ir)) (unat (rate_base ir)) (unat (rate_slope1 ir))
     (unat (rate_slope2 ir))"

text \<open>What the constructor and the setter establish, with slopes and a base below \<open>2\<^sup>9\<^sup>1\<close>, more than two rays.\<close>

definition well_set :: "interest_rate \<Rightarrow> bool" where
  "well_set ir \<longleftrightarrow> unat (EXCESS_UTILIZATION_RATE ir) = RAY - unat (OPTIMAL_UTILIZATION_RATE ir) \<and>
     exact_kink (unat (OPTIMAL_UTILIZATION_RATE ir)) (unat (rate_slope1 ir)) \<and>
     unat (rate_base ir) < 2 ^ 91 \<and> unat (rate_slope1 ir) < 2 ^ 91 \<and> unat (rate_slope2 ir) < 2 ^ 91"

lemma follows_bounds:
  assumes "well_set ir" "u \<le> RAY"
  shows "unat (rate_base ir) \<le> follows ir u"
    "follows ir u \<le> unat (rate_base ir) + unat (rate_slope1 ir) + unat (rate_slope2 ir)"
  using assms curve_bounds unfolding well_set_def follows_def by blast+

lemma follows_below:
  assumes "well_set ir" "u \<le> RAY"
  shows "follows ir u < 2 ^ 93"
proof -
  have "unat (rate_base ir) < 2 ^ 91" "unat (rate_slope1 ir) < 2 ^ 91" "unat (rate_slope2 ir) < 2 ^ 91"
    using assms(1) by (simp_all add: well_set_def)
  with follows_bounds(2) [OF assms] show ?thesis by simp
qed

lemma follows_mono: "well_set ir \<Longrightarrow> u \<le> v \<Longrightarrow> follows ir u \<le> follows ir v"
  unfolding well_set_def follows_def by (intro curve_mono) auto

lemma utilization_returns:
  assumes "unat avail < 2 ^ 128" "unat debt < 2 ^ 128"
  shows "\<exists>u. utilizationRate avail debt = Inr u \<and> unat u = utilization (unat avail) (unat debt)"
proof (cases "debt = 0")
  case True
  then show ?thesis by (simp add: utilizationRate_def utilization_def)
next
  case False
  obtain t where t: "checked_add avail debt = Inr t" "unat t = unat avail + unat debt"
    using checked_returns(1) [of avail debt] assms by fastforce
  have nz: "t \<noteq> 0" using False t(2) by (auto simp: uint256_eq_0)
  have "unat debt * RAY + unat t div 2 < 2 ^ 256"
    using assms t(2) unit_sizes(3) mult_strict_mono [of "unat debt" "2 ^ 128" RAY "2 ^ 90"] by (simp add: unit_numbers)
  then show ?thesis
    using ray.div_returns [OF nz, of debt] False t by (auto simp: utilizationRate_def utilization_def uint256_eq_0)
qed

lemma variable_rate_returns:
  assumes set: "well_set ir" and u: "unat u \<le> RAY"
  shows "\<exists>r. variableBorrowRate ir u = Inr r \<and> unat r = follows ir (unat u)"
proof -
  let ?o = "OPTIMAL_UTILIZATION_RATE ir" and ?e = "EXCESS_UTILIZATION_RATE ir"
  note ws = set [unfolded well_set_def exact_kink_def]
  have nz: "?o \<noteq> 0" "?e \<noteq> 0" using ws by (auto simp: uint256_eq_0)
  show ?thesis
  proof (cases "?o < u")
    case True
    then have lt: "unat ?o < unat u" by (simp add: word_less_nat_alt)
    obtain d where d: "checked_sub u ?o = Inr d" "unat d = unat u - unat ?o"
      using checked_returns(3) [of ?o u] lt by auto
    have "unat d * RAY + unat ?e div 2 < 2 ^ 256"
      using d(2) u ws mult_le_mono [of "unat d" RAY RAY RAY] by (simp add: unit_numbers)
    from ray.div_returns [OF nz(2) this]
    obtain x where x: "rayDiv d ?e = Inr x" "unat x = div_round RAY (unat d) (unat ?e)" by blast
    have x1: "unat x \<le> RAY" unfolding x(2) using d(2) u ws by (intro ray.div_round_le) auto
    obtain r where r: "checked_add (rate_base ir) (rate_slope1 ir) = Inr r" "unat r = unat (rate_base ir) + unat (rate_slope1 ir)"
      using checked_returns(1) [of "rate_base ir" "rate_slope1 ir"] ws by fastforce
    have "unat (rate_slope2 ir) * unat x + RAY div 2 < 2 ^ 256"
      using x1 ws mult_le_mono [of "unat (rate_slope2 ir)" "2 ^ 91" "unat x" RAY] by (simp add: unit_numbers)
    from ray.mul_returns [OF this]
    obtain y where y: "rayMul (rate_slope2 ir) x = Inr y" "unat y = mul_round RAY (unat (rate_slope2 ir)) (unat x)" by blast
    have "unat y \<le> unat (rate_slope2 ir)" unfolding y(2) by (rule ray.mul_round_le [OF x1])
    then obtain z where z: "checked_add r y = Inr z" "unat z = unat r + unat y"
      using checked_returns(1) [of r y] r(2) ws by fastforce
    show ?thesis
      using True lt d r x y z ws by (simp add: variableBorrowRate_def follows_def curve_def)
  next
    case False
    then have le: "unat u \<le> unat ?o" by (simp add: word_less_nat_alt)
    have "unat u * unat (rate_slope1 ir) + RAY div 2 < 2 ^ 256"
      using u ws mult_le_mono [of "unat u" RAY "unat (rate_slope1 ir)" "2 ^ 91"] by (simp add: unit_numbers)
    from ray.mul_returns [OF this]
    obtain p where p: "rayMul u (rate_slope1 ir) = Inr p" "unat p = mul_round RAY (unat u) (unat (rate_slope1 ir))" by blast
    have "unat p \<le> unat (rate_slope1 ir)"
      unfolding p(2) ray.mul_round_commute [of "unat u"] by (rule ray.mul_round_le [OF u])
    then have "unat p < 2 ^ 91" "unat ?o < RAY" using ws by simp_all
    then have "unat p * RAY + unat ?o div 2 < 2 ^ 256" by (simp add: unit_numbers)
    from ray.div_returns [OF nz(1) this]
    obtain x where x: "rayDiv p ?o = Inr x" "unat x = div_round RAY (unat p) (unat ?o)" by blast
    have "unat (rate_base ir) + unat x = follows ir (unat u)"
      using le x(2) p(2) by (simp add: follows_def curve_def)
    moreover have "follows ir (unat u) < 2 ^ 256" using follows_below [OF set u] by simp
    ultimately obtain z where z: "checked_add (rate_base ir) x = Inr z" "unat z = follows ir (unat u)"
      using checked_returns(1) [of "rate_base ir" x] by auto
    show ?thesis using False p x z by (simp add: variableBorrowRate_def)
  qed
qed

lemma max_rate_returns:
  assumes "well_set ir"
  shows "\<exists>m. getMaxVariableBorrowRate ir = Inr m \<and>
    unat m = unat (rate_base ir) + unat (rate_slope1 ir) + unat (rate_slope2 ir)"
proof -
  note ws = assms [unfolded well_set_def]
  obtain r where r: "checked_add (rate_base ir) (rate_slope1 ir) = Inr r" "unat r = unat (rate_base ir) + unat (rate_slope1 ir)"
    using checked_returns(1) [of "rate_base ir" "rate_slope1 ir"] ws by fastforce
  then show ?thesis
    using checked_returns(1) [of r "rate_slope2 ir"] ws by (fastforce simp: getMaxVariableBorrowRate_def)
qed

lemma wadToRay_returns:
  assumes "unat a < 2 ^ 128"
  shows "\<exists>d. wadToRay a = Inr d \<and> unat d = unat a * WAD_RAY_RATIO"
proof -
  obtain d where d: "checked_mul a WAD_RAY_RATIO256 = Inr d" "unat d = unat a * WAD_RAY_RATIO"
    using checked_returns(2) [of a WAD_RAY_RATIO256] assms by (fastforce simp: unat_units unit_numbers)
  moreover have "d div WAD_RAY_RATIO256 = a"
    using d(2) by (intro uint256_eqI) (simp add: unat_div unat_units unit_numbers)
  ultimately show ?thesis by (simp add: wadToRay_def)
qed

text \<open>
  The overall rate of a debt \<open>d\<close> is the rate of its only part, up to \<open>RAY div (2 * d)\<close>: the debt is
  multiplied by the rate and divided out again.
\<close>

lemma overall_returns:
  assumes debt: "unat debt < 2 ^ 128" and rate: "unat r < 2 ^ 93"
  shows "\<exists>v. getOverallBorrowRate debt r = Inr v \<and> unat v \<le> unat r + 10 ^ 18"
proof (cases "debt = 0")
  case True
  then show ?thesis by (simp add: getOverallBorrowRate_def)
next
  case False
  obtain d where d: "wadToRay debt = Inr d" "unat d = unat debt * WAD_RAY_RATIO"
    using wadToRay_returns [OF debt] by blast
  have size: "10 ^ 9 \<le> unat d" "unat d < 2 ^ 158"
    using False debt d(2) by (auto simp: uint256_eq_0 unit_numbers)
  then have nz: "d \<noteq> 0" by auto
  have prod: "unat d * unat r \<le> 2 ^ 251"
    using size(2) rate mult_le_powers [of "unat d" 158 "unat r" 93] by simp
  then have "unat d * unat r + RAY div 2 < 2 ^ 256" by (simp add: unit_numbers)
  from ray.mul_returns [OF this]
  obtain w where w: "rayMul d r = Inr w" "unat w = mul_round RAY (unat d) (unat r)" by blast
  have wb: "RAY * unat w \<le> unat d * unat r + RAY div 2" unfolding w(2) by (rule ray.mul_bounds)
  then have "unat w * RAY + unat d div 2 < 2 ^ 256"
    using prod size(2) by (simp add: unit_numbers)
  from ray.div_returns [OF nz this]
  obtain v where v: "rayDiv w d = Inr v" "unat v = div_round RAY (unat w) (unat d)" by blast
  have "unat d * unat v \<le> unat w * RAY + unat d div 2"
    unfolding v(2) using size(1) by (intro ray.div_bounds) simp
  also have "\<dots> \<le> unat d * unat r + (RAY div 2 + unat d div 2)" using wb by (simp add: mult.commute)
  also have "\<dots> \<le> unat d * unat r + unat d * 10 ^ 18" using size(1) by (simp add: unit_numbers)
  also have "\<dots> = unat d * (unat r + 10 ^ 18)" by (simp add: distrib_left)
  finally have "unat v \<le> unat r + 10 ^ 18" using size(1) by simp
  then show ?thesis using False d(1) w(1) v(1) by (simp add: getOverallBorrowRate_def)
qed

text \<open>With a reserve factor of 30% the depositors' rate is below the borrowers'.\<close>

lemma rates_return:
  assumes set: "well_set ir" and base: "10 ^ 20 \<le> unat (rate_base ir)"
    and avail: "unat avail < 2 ^ 128" and debt: "unat debt < 2 ^ 128"
  shows "\<exists>l b. calculateInterestRates ir avail debt 3000 = Inr (l, b) \<and>
    unat b = follows ir (utilization (unat avail) (unat debt)) \<and> unat l \<le> unat b"
proof -
  obtain u where u: "utilizationRate avail debt = Inr u" "unat u = utilization (unat avail) (unat debt)"
    using utilization_returns [OF avail debt] by blast
  have u1: "unat u \<le> RAY" unfolding u(2) by (rule utilization_le)
  obtain b where b: "variableBorrowRate ir u = Inr b" "unat b = follows ir (unat u)"
    using variable_rate_returns [OF set u1] by blast
  have bb: "10 ^ 20 \<le> unat b" "unat b < 2 ^ 93"
    using follows_bounds(1) [OF set u1] follows_below [OF set u1] base b(2) by simp_all
  obtain v where v: "getOverallBorrowRate debt b = Inr v" "unat v \<le> unat b + 10 ^ 18"
    using overall_returns [OF debt bb(2)] by blast
  have "unat v * unat u + RAY div 2 < 2 ^ 256"
    using v(2) bb(2) u1 mult_le_mono [of "unat v" "2 ^ 94" "unat u" RAY] by (simp add: unit_numbers)
  from ray.mul_returns [OF this]
  obtain r where r: "rayMul v u = Inr r" "unat r = mul_round RAY (unat v) (unat u)" by blast
  have rv: "unat r \<le> unat v" unfolding r(2) by (rule ray.mul_round_le [OF u1])
  have f: "checked_sub PERCENT 3000 = Inr 7000"
    by (simp add: checked_iff unat_units unit_numbers)
  have "unat r * unat (7000 :: uint256) + PERCENTAGE_FACTOR div 2 < 2 ^ 256"
    using rv v(2) bb(2) by (simp add: unit_numbers)
  from percent.mul_returns [OF this]
  obtain l where l: "percentMul r 7000 = Inr l" "unat l = mul_round PERCENTAGE_FACTOR (unat r) 7000" by auto
  have "10000 * unat l \<le> unat r * 7000 + 5000"
    unfolding l(2) using percent.mul_bounds(1) [of "unat r" 7000] by (simp add: unit_numbers)
  then have "unat l \<le> unat b" using rv v(2) bb(1) by simp
  then show ?thesis using u b v r f l by (simp add: calculateInterestRates_def)
qed

section \<open>The strategies of the market\<close>

text \<open>
  The contract of a strategy: the scripts send the four numbers of the market file in decimal, in
  this order (\<open>deploy_rate_strategy\<close>), and the constructor reads them as \<^verbatim>\<open>uint256\<close>.
\<close>

definition strategy_rate :: "string \<Rightarrow> string \<Rightarrow> rate_strategy \<Rightarrow> string + interest_rate" where
  "strategy_rate sender provider s = InterestRate_constructor sender provider
     (of_nat (dec_value (optimalUtilizationRate s))) (of_nat (dec_value (baseVariableBorrowRate s)))
     (of_nat (dec_value (variableRateSlope1 s))) (of_nat (dec_value (variableRateSlope2 s)))"

lemma bend_strategies:
  assumes "(a, p) \<in> set bend_ReservesConfig"
  shows "r_strategy p \<in> {rateStrategyStableOne, rateStrategyStableTwo, rateStrategyStableThree, rateStrategyWETH}"
    and "of_nat (dec_value (reserveFactor p)) = (3000 :: uint256)"
  using assms by (auto simp: bend_ReservesConfig_def strategyWETH_def strategyDAI_def strategyUSDC_def
      strategyUSDT_def dec_value_def)

lemma ray_frac_value: "dec_value (ray_frac n d) = n * RAY div d"
  by (simp add: ray_frac_def oneRay_def RAY_def)

lemma constructor_well_set:
  assumes "exact_kink n s1" "b < 2 ^ 91" "s1 < 2 ^ 91" "s2 < 2 ^ 91"
  shows "\<exists>ir. InterestRate_constructor sender provider (of_nat n) (of_nat b) (of_nat s1) (of_nat s2) = Inr ir \<and>
    well_set ir \<and> unat (rate_base ir) = b"
proof -
  have "n < RAY" using assms(1) by (simp add: exact_kink_def)
  then have nums: "unat (of_nat n :: uint256) = n" "unat (of_nat b :: uint256) = b"
      "unat (of_nat s1 :: uint256) = s1" "unat (of_nat s2 :: uint256) = s2" "n \<le> RAY"
    using assms by (simp_all add: of_nat_uint256 unit_numbers)
  then obtain e where "checked_sub RAY256 (of_nat n) = Inr e" "unat e = RAY - n"
    using checked_returns(3) [of "of_nat n" RAY256] by (auto simp: unat_units)
  then show ?thesis using assms nums by (simp add: InterestRate_constructor_def well_set_def)
qed

lemma strategy_well_set:
  assumes "s \<in> {rateStrategyStableOne, rateStrategyStableTwo, rateStrategyStableThree, rateStrategyWETH}"
  shows "\<exists>ir. strategy_rate sender provider s = Inr ir \<and> well_set ir \<and> 10 ^ 20 \<le> unat (rate_base ir)"
proof -
  let ?v = "\<lambda>f. dec_value (f s)"
  have "exact_kink (?v optimalUtilizationRate) (?v variableRateSlope1) \<and> ?v baseVariableBorrowRate < 2 ^ 91 \<and>
      ?v variableRateSlope1 < 2 ^ 91 \<and> ?v variableRateSlope2 < 2 ^ 91 \<and> 10 ^ 20 \<le> ?v baseVariableBorrowRate"
    using assms
    by (auto simp: rateStrategyStableOne_def rateStrategyStableTwo_def rateStrategyStableThree_def
        rateStrategyWETH_def ray_frac_value exact_kink_def unit_numbers)
  then show ?thesis unfolding strategy_rate_def using constructor_well_set by fastforce
qed

text \<open>C9: For every reserve of the market the interest rate contract is deployed without a revert,
  and for all amounts below \<open>2\<^sup>1\<^sup>2\<^sup>8\<close> of liquidity and debt, zero included, it returns two rates: the
  borrowers' rate is at least the base rate and at most what
  \<^verbatim>\<open>getMaxVariableBorrowRate\<close> announces, and the depositors' rate is never above it.\<close>

theorem market_rates_bounded:
  assumes "(a, p) \<in> set bend_ReservesConfig" and "unat avail < 2 ^ 128" and "unat debt < 2 ^ 128"
  shows "\<exists>ir l b m. strategy_rate sender provider (r_strategy p) = Inr ir \<and>
    getMaxVariableBorrowRate ir = Inr m \<and>
    calculateInterestRates ir avail debt (of_nat (dec_value (reserveFactor p))) = Inr (l, b) \<and>
    rate_base ir \<le> b \<and> b \<le> m \<and> l \<le> b"
proof -
  obtain ir where ir: "strategy_rate sender provider (r_strategy p) = Inr ir" "well_set ir"
    "10 ^ 20 \<le> unat (rate_base ir)"
    using strategy_well_set [OF bend_strategies(1) [OF assms(1)]] by blast
  obtain l b where r: "calculateInterestRates ir avail debt 3000 = Inr (l, b)"
    "unat b = follows ir (utilization (unat avail) (unat debt))" "unat l \<le> unat b"
    using rates_return [OF ir(2,3) assms(2,3)] by blast
  obtain m where m: "getMaxVariableBorrowRate ir = Inr m"
    "unat m = unat (rate_base ir) + unat (rate_slope1 ir) + unat (rate_slope2 ir)"
    using max_rate_returns [OF ir(2)] by blast
  have "rate_base ir \<le> b" "b \<le> m" "l \<le> b"
    using follows_bounds [OF ir(2) utilization_le] r(2,3) m(2) by (simp_all add: word_le_nat_alt)
  then show ?thesis unfolding bend_strategies(2) [OF assms(1)] using ir(1) r(1) m(1) by blast
qed

lemma market_rates_bounded_witness:
  "\<exists>ir l b m. strategy_rate ''0xa'' ''0xb'' (r_strategy strategyWETH) = Inr ir \<and>
    getMaxVariableBorrowRate ir = Inr m \<and>
    calculateInterestRates ir 1000 3000 (of_nat (dec_value (reserveFactor strategyWETH))) = Inr (l, b) \<and>
    rate_base ir \<le> b \<and> b \<le> m \<and> l \<le> b"
  by (rule market_rates_bounded [of "''WETH''"]) (simp_all add: bend_ReservesConfig_def)

text \<open>C23: The borrowers' rate of a reserve of the market grows with the debt and falls with the
  liquidity, across the kink of the curve as well and in spite of every rounding on the way.\<close>

theorem market_rates_grow:
  assumes "(a, p) \<in> set bend_ReservesConfig" and "strategy_rate sender provider (r_strategy p) = Inr ir"
    and "unat avail < 2 ^ 128" and "unat debt' < 2 ^ 128" and "avail' \<le> avail" and "debt \<le> debt'"
    and "calculateInterestRates ir avail debt 3000 = Inr (l, b)"
    and "calculateInterestRates ir avail' debt' 3000 = Inr (l', b')"
  shows "b \<le> b'"
proof -
  have ir: "well_set ir" "10 ^ 20 \<le> unat (rate_base ir)"
    using strategy_well_set [OF bend_strategies(1) [OF assms(1)], of sender provider] assms(2) by auto
  have le: "unat avail' \<le> unat avail" "unat debt \<le> unat debt'" using assms(5,6) by (simp_all add: word_le_nat_alt)
  have "unat b = follows ir (utilization (unat avail) (unat debt))"
    using rates_return [OF ir, of avail debt] assms(3,4,7) le by auto
  moreover have "unat b' = follows ir (utilization (unat avail') (unat debt'))"
    using rates_return [OF ir, of avail' debt'] assms(3,4,8) le by auto
  ultimately show ?thesis
    using follows_mono [OF ir(1) utilization_mono [OF le(2,1)]] by (simp add: word_le_nat_alt)
qed

text \<open>The rates of the WETH reserve at one half and at nine tenths of utilization.\<close>

definition weth_rate :: interest_rate where
  "weth_rate = \<lparr>rate_owner = ''0xa'', rate_provider = ''0xb'',
     OPTIMAL_UTILIZATION_RATE = 650000000000000000000000000, EXCESS_UTILIZATION_RATE = 350000000000000000000000000,
     rate_base = 30000000000000000000000000, rate_slope1 = 80000000000000000000000000,
     rate_slope2 = 1000000000000000000000000000\<rparr>"

lemma weth_rate: "strategy_rate ''0xa'' ''0xb'' (r_strategy strategyWETH) = Inr weth_rate"
  by (simp add: strategy_rate_def InterestRate_constructor_def strategyWETH_def rateStrategyWETH_def
      ray_frac_value checked_sub_def RAY256_def unit_numbers weth_rate_def)

lemmas rate_evaluation = calculateInterestRates_def utilizationRate_def variableBorrowRate_def
  getOverallBorrowRate_def wadToRay_def weth_rate_def ray.mul_spec ray.div_spec percent.mul_spec mul_round_def
  div_round_def unit_numbers checked_add_def checked_sub_def checked_mul_def PERCENT_def WAD_RAY_RATIO256_def

lemma weth_rates:
  "calculateInterestRates weth_rate 50 50 3000 = Inr (32038461539000000000000000, 91538461538461538461538462)"
  "calculateInterestRates weth_rate 10 90 3000 = Inr (519300000002000000000000000, 824285714285714285714285714)"
  by (simp_all add: rate_evaluation)

lemma market_rates_grow_witness:
  "(91538461538461538461538462 :: uint256) \<le> 824285714285714285714285714"
proof (rule market_rates_grow [of "''WETH''" strategyWETH "''0xa''" "''0xb''" weth_rate 50 90 10 50
    32038461539000000000000000 _ 519300000002000000000000000])
  show "(''WETH'', strategyWETH) \<in> set bend_ReservesConfig" by (simp add: bend_ReservesConfig_def)
qed (rule weth_rate weth_rates | simp)+

end
