(* ===== verification/ReserveConfiguration.thy ===== *)
theory ReserveConfiguration
  imports NftConfiguration
begin

text \<open>
  The bitmap of a reserve, \<^verbatim>\<open>contracts/libraries/configuration/ReserveConfiguration.sol\<close>, and the
  two operations of \<^verbatim>\<open>ConfiguratorLogic.sol\<close> that write it: the flags set when a reserve is
  initialised, and the loop \<^verbatim>\<open>executeBatchConfigReserve\<close> that stores what
  \<open>configureReservesByHelper\<close> sends.  The fields are those of \<open>NftConfiguration\<close>, at other positions.
\<close>

section \<open>Masks\<close>

definition DECIMALS_MASK :: uint256 where
  "DECIMALS_MASK = 0xFFFFFFFFFFFFFFFFFFFFFFFFFFFFFFFFFFFFFFFFFFFFFFFFFF00FFFFFFFFFFFF"
definition RESERVE_ACTIVE_MASK :: uint256 where
  "RESERVE_ACTIVE_MASK = 0xFFFFFFFFFFFFFFFFFFFFFFFFFFFFFFFFFFFFFFFFFFFFFFFFFEFFFFFFFFFFFFFF"
definition RESERVE_FROZEN_MASK :: uint256 where
  "RESERVE_FROZEN_MASK = 0xFFFFFFFFFFFFFFFFFFFFFFFFFFFFFFFFFFFFFFFFFFFFFFFFFDFFFFFFFFFFFFFF"
definition BORROWING_MASK :: uint256 where
  "BORROWING_MASK = 0xFFFFFFFFFFFFFFFFFFFFFFFFFFFFFFFFFFFFFFFFFFFFFFFFFBFFFFFFFFFFFFFF"
definition STABLE_BORROWING_MASK :: uint256 where
  "STABLE_BORROWING_MASK = 0xFFFFFFFFFFFFFFFFFFFFFFFFFFFFFFFFFFFFFFFFFFFFFFFFF7FFFFFFFFFFFFFF"
definition RESERVE_FACTOR_MASK :: uint256 where
  "RESERVE_FACTOR_MASK = 0xFFFFFFFFFFFFFFFFFFFFFFFFFFFFFFFFFFFFFFFFFFFF0000FFFFFFFFFFFFFFFF"

lemma reserve_masks_hole:
  "DECIMALS_MASK = hole 48 8" "RESERVE_ACTIVE_MASK = hole 56 1" "RESERVE_FROZEN_MASK = hole 57 1"
  "BORROWING_MASK = hole 58 1" "STABLE_BORROWING_MASK = hole 59 1" "RESERVE_FACTOR_MASK = hole 64 16"
  unfolding DECIMALS_MASK_def RESERVE_ACTIVE_MASK_def RESERVE_FROZEN_MASK_def BORROWING_MASK_def
    STABLE_BORROWING_MASK_def RESERVE_FACTOR_MASK_def hole_def mask_eq_exp_minus_1 push_bit_eq_mult
  by simp_all

section \<open>Setters and getters\<close>

definition setDecimals :: "uint256 \<Rightarrow> uint256 \<Rightarrow> string + uint256" where
  "setDecimals data decimals =
     (if decimals \<le> 255 then Inr ((data AND DECIMALS_MASK) OR push_bit 48 decimals)
      else Inl ''RC_INVALID_DECIMALS'')"

definition getDecimals :: "uint256 \<Rightarrow> uint256" where
  "getDecimals data = drop_bit 48 (data AND NOT DECIMALS_MASK)"

definition setReserveActive :: "uint256 \<Rightarrow> bool \<Rightarrow> uint256" where
  "setReserveActive data active = (data AND RESERVE_ACTIVE_MASK) OR push_bit 56 (if active then 1 else 0)"

definition getReserveActive :: "uint256 \<Rightarrow> bool" where
  "getReserveActive data \<longleftrightarrow> data AND NOT RESERVE_ACTIVE_MASK \<noteq> 0"

definition setReserveFrozen :: "uint256 \<Rightarrow> bool \<Rightarrow> uint256" where
  "setReserveFrozen data frozen = (data AND RESERVE_FROZEN_MASK) OR push_bit 57 (if frozen then 1 else 0)"

definition setBorrowingEnabled :: "uint256 \<Rightarrow> bool \<Rightarrow> uint256" where
  "setBorrowingEnabled data enabled = (data AND BORROWING_MASK) OR push_bit 58 (if enabled then 1 else 0)"

definition setReserveFactor :: "uint256 \<Rightarrow> uint256 \<Rightarrow> string + uint256" where
  "setReserveFactor data factor =
     (if factor \<le> 65535 then Inr ((data AND RESERVE_FACTOR_MASK) OR push_bit 64 factor)
      else Inl ''RC_INVALID_RESERVE_FACTOR'')"

definition getReserveFactor :: "uint256 \<Rightarrow> uint256" where
  "getReserveFactor data = drop_bit 64 (data AND NOT RESERVE_FACTOR_MASK)"

text \<open>Active, frozen, borrowing enabled, stable rate borrowing enabled.\<close>

definition getReserveFlags :: "uint256 \<Rightarrow> bool \<times> bool \<times> bool \<times> bool" where
  "getReserveFlags data =
     (data AND NOT RESERVE_ACTIVE_MASK \<noteq> 0, data AND NOT RESERVE_FROZEN_MASK \<noteq> 0,
      data AND NOT BORROWING_MASK \<noteq> 0, data AND NOT STABLE_BORROWING_MASK \<noteq> 0)"

lemma reserve_setter_fields:
  "v \<le> 255 \<Longrightarrow> setDecimals d v = Inr (put_field 48 8 d v)"
  "setReserveActive d b = put_field 56 1 d (if b then 1 else 0)"
  "setReserveFrozen d b = put_field 57 1 d (if b then 1 else 0)"
  "setBorrowingEnabled d b = put_field 58 1 d (if b then 1 else 0)"
  "v \<le> 65535 \<Longrightarrow> setReserveFactor d v = Inr (put_field 64 16 d v)"
  by (simp_all add: setDecimals_def setReserveActive_def setReserveFrozen_def setBorrowingEnabled_def
      setReserveFactor_def reserve_masks_hole put_field_def)

lemma reserve_getter_fields:
  "getDecimals d = field 48 8 d" "getReserveFactor d = field 64 16 d"
  "getReserveActive d \<longleftrightarrow> field 56 1 d \<noteq> 0"
  "getReserveFlags d = (field 56 1 d \<noteq> 0, field 57 1 d \<noteq> 0, field 58 1 d \<noteq> 0, field 59 1 d \<noteq> 0)"
  using flag_field [of 56 d] flag_field [of 57 d] flag_field [of 58 d] flag_field [of 59 d]
  by (simp_all add: getDecimals_def getReserveFactor_def getReserveActive_def getReserveFlags_def
      reserve_masks_hole field_def)

section \<open>Storing a configuration\<close>

text \<open>What \<^verbatim>\<open>executeInitReserve\<close> writes into the bitmap of a reserve.\<close>

definition init_reserve_config :: "uint256 \<Rightarrow> uint256 \<Rightarrow> string + uint256" where
  "init_reserve_config decimals data =
     bind_revert (setDecimals data decimals) (\<lambda>c. Inr (setReserveFrozen (setReserveActive c True) False))"

text \<open>The structure \<^verbatim>\<open>ConfigTypes.ConfigReserveInput\<close>; the pool stores a bitmap and a limit per asset.\<close>

record ConfigReserveInput =
  cr_asset :: string
  cr_reserveFactor :: uint256
  cr_maxUtilizationRate :: uint256

type_synonym reserve_config = "string \<Rightarrow> uint256 \<times> uint256"

fun executeBatchConfigReserve :: "ConfigReserveInput list \<Rightarrow> reserve_config \<Rightarrow> string + reserve_config" where
  "executeBatchConfigReserve [] rs = Inr rs"
| "executeBatchConfigReserve (inp # inputs) rs =
     bind_revert (setReserveFactor (fst (rs (cr_asset inp))) (cr_reserveFactor inp)) (\<lambda>c.
     executeBatchConfigReserve inputs (rs(cr_asset inp := (c, cr_maxUtilizationRate inp))))"

text \<open>
  A batch is stored when every factor fits its 16 bits and is read back, the flags and the decimals
  as before; a factor above 65535 reverts the whole batch, one between 100.00% and that is taken.
\<close>

lemma executeBatchConfigReserve_reads_back:
  assumes "\<forall>inp \<in> set inputs. cr_reserveFactor inp \<le> 65535" and "distinct (map cr_asset inputs)"
  shows "\<exists>rs'. executeBatchConfigReserve inputs rs = Inr rs' \<and>
    (\<forall>inp \<in> set inputs. getReserveFactor (fst (rs' (cr_asset inp))) = cr_reserveFactor inp \<and>
       snd (rs' (cr_asset inp)) = cr_maxUtilizationRate inp \<and>
       getReserveFlags (fst (rs' (cr_asset inp))) = getReserveFlags (fst (rs (cr_asset inp))) \<and>
       getDecimals (fst (rs' (cr_asset inp))) = getDecimals (fst (rs (cr_asset inp)))) \<and>
    (\<forall>a. a \<notin> cr_asset ` set inputs \<longrightarrow> rs' a = rs a)"
  using assms
proof (induction inputs arbitrary: rs)
  case Nil
  then show ?case by simp
next
  case (Cons inp inputs)
  let ?c = "put_field 64 16 (fst (rs (cr_asset inp))) (cr_reserveFactor inp)"
  let ?rs = "rs(cr_asset inp := (?c, cr_maxUtilizationRate inp))"
  have small: "cr_reserveFactor inp \<le> 65535" using Cons.prems(1) by simp
  then have c: "getReserveFactor ?c = cr_reserveFactor inp"
    "getReserveFlags ?c = getReserveFlags (fst (rs (cr_asset inp)))"
    "getDecimals ?c = getDecimals (fst (rs (cr_asset inp)))"
    by (simp_all add: reserve_getter_fields field_put_same field_put_other)
  have fresh: "cr_asset inp \<notin> cr_asset ` set inputs" using Cons.prems(2) by auto
  have "\<forall>i \<in> set inputs. cr_reserveFactor i \<le> 65535" "distinct (map cr_asset inputs)"
    using Cons.prems by simp_all
  from Cons.IH [OF this, of ?rs] obtain rs' where rest:
    "executeBatchConfigReserve inputs ?rs = Inr rs'"
    "\<forall>i \<in> set inputs. getReserveFactor (fst (rs' (cr_asset i))) = cr_reserveFactor i \<and>
       snd (rs' (cr_asset i)) = cr_maxUtilizationRate i \<and>
       getReserveFlags (fst (rs' (cr_asset i))) = getReserveFlags (fst (?rs (cr_asset i))) \<and>
       getDecimals (fst (rs' (cr_asset i))) = getDecimals (fst (?rs (cr_asset i)))"
    "\<forall>a. a \<notin> cr_asset ` set inputs \<longrightarrow> rs' a = ?rs a"
    by blast
  have "rs' (cr_asset inp) = ?rs (cr_asset inp)" using rest(3) fresh by blast
  moreover have "cr_asset i \<noteq> cr_asset inp" if "i \<in> set inputs" for i
    using fresh that by (metis image_eqI)
  moreover have "rs' a = rs a" if "a \<notin> cr_asset ` set (inp # inputs)" for a
    using rest(3) that by simp
  ultimately show ?case
    using rest(1,2) c small by (intro exI [of _ rs']) (auto simp: reserve_setter_fields)
qed

lemma factor_too_large:
  "\<not> cr_reserveFactor inp \<le> 65535 \<Longrightarrow>
   executeBatchConfigReserve (inp # inputs) rs = Inl ''RC_INVALID_RESERVE_FACTOR''"
  by (simp add: setReserveFactor_def)

lemma init_reserve_flags:
  assumes "decimals \<le> 255"
  shows "\<exists>c. init_reserve_config decimals data = Inr c \<and> getDecimals c = decimals \<and>
    fst (getReserveFlags c) \<and> \<not> fst (snd (getReserveFlags c))"
  using assms
  by (simp add: init_reserve_config_def reserve_setter_fields reserve_getter_fields field_put_same field_put_other)

end
