(* ===== verification/LoanBook.thy ===== *)
theory LoanBook
  imports PoolMath
begin

text \<open>
  The contract \<^verbatim>\<open>contracts/protocol/LendPoolLoan.sol\<close>: the loans, each with its collateral, and the
  registers kept beside them (which loan an NFT secures, how many NFTs of a collection are held, of
  all borrowers and of each).  A loan goes from active to repaid, or through an auction to defaulted
  or back to active.  Other contracts (tokens, bound NFTs, interceptors) are asked through \<open>ext\<close>:
  what they answer is a parameter, and what was asked of them is kept in order.
\<close>

section \<open>Other contracts\<close>

datatype hook_stage = BeforeRepaid | AfterRepaid

datatype ext_call =
    NftSafeTransferFrom string string string uint256
  | Erc20SafeTransferFrom string string string uint256
  | Erc20SafeTransfer string string string uint256
  | BnftMint string string uint256
  | BnftBurn string uint256
  | SetFlashLoanLocking string uint256 string bool
  | InterceptorHook hook_stage string string uint256
  | SetApprovalForAll string string

text \<open>
  \<open>e_ok\<close>: whether a call succeeds (of an interceptor: returns true), given the calls so far;
  \<open>e_reenter\<close>: what the called contract did to the registered interceptors meanwhile, the only part of
  the state that a caller other than the pool and its configurator may change.
\<close>

record env =
  e_now :: uint256
  e_pool :: string
  e_loan :: string
  e_configurator :: string
  e_bnft :: "string \<Rightarrow> string"
  e_ok :: "ext_call list \<Rightarrow> ext_call \<Rightarrow> bool"
  e_reenter :: "ext_call list \<Rightarrow> ext_call \<Rightarrow> (string \<Rightarrow> uint256 \<Rightarrow> string list) \<Rightarrow> string \<Rightarrow> uint256 \<Rightarrow> string list"
  e_nft_price :: "string \<Rightarrow> string + uint256"
  e_price_stale :: "string \<Rightarrow> bool"
  e_reserve_price :: "string \<Rightarrow> string + uint256"
  e_erc20_balance :: "ext_call list \<Rightarrow> string \<Rightarrow> string \<Rightarrow> uint256"
  e_nft_supply :: "ext_call list \<Rightarrow> string \<Rightarrow> uint256"
  e_isContract :: "string \<Rightarrow> bool"

section \<open>State\<close>

datatype loan_state = LS_None | LS_Created | LS_Active | LS_Auction | LS_Repaid | LS_Defaulted

record loan_data =
  ln_loanId :: uint256
  ln_state :: loan_state
  ln_borrower :: string
  ln_nftAsset :: string
  ln_nftTokenId :: uint256
  ln_reserveAsset :: string
  ln_scaledAmount :: uint256
  ln_bidStartTimestamp :: uint256
  ln_bidderAddress :: string
  ln_bidPrice :: uint256
  ln_bidBorrowAmount :: uint256
  ln_firstBidderAddress :: string

definition ADDRESS_0 :: string where
  "ADDRESS_0 = ''0x0000000000000000000000000000000000000000''"

definition no_loan :: loan_data where
  "no_loan = \<lparr>ln_loanId = 0, ln_state = LS_None, ln_borrower = ADDRESS_0, ln_nftAsset = ADDRESS_0,
     ln_nftTokenId = 0, ln_reserveAsset = ADDRESS_0, ln_scaledAmount = 0, ln_bidStartTimestamp = 0,
     ln_bidderAddress = ADDRESS_0, ln_bidPrice = 0, ln_bidBorrowAmount = 0,
     ln_firstBidderAddress = ADDRESS_0\<rparr>"

record loan_book =
  lb_loanIdTracker :: uint256
  lb_loans :: "uint256 \<Rightarrow> loan_data"
  lb_nftToLoanIds :: "string \<Rightarrow> uint256 \<Rightarrow> uint256"
  lb_nftTotalCollateral :: "string \<Rightarrow> uint256"
  lb_userNftCollateral :: "string \<Rightarrow> string \<Rightarrow> uint256"
  lb_interceptorWhitelist :: "string \<Rightarrow> bool"
  lb_interceptors :: "string \<Rightarrow> uint256 \<Rightarrow> string list"
  lb_lockerWhitelist :: "string \<Rightarrow> bool"
  lb_calls :: "ext_call list"

text \<open>The book after \<^verbatim>\<open>initialize\<close>: loan ids start at one, zero means no loan.\<close>

definition initial_book :: loan_book where
  "initial_book = \<lparr>lb_loanIdTracker = 1, lb_loans = (\<lambda>_. no_loan), lb_nftToLoanIds = (\<lambda>_ _. 0),
     lb_nftTotalCollateral = (\<lambda>_. 0), lb_userNftCollateral = (\<lambda>_ _. 0), lb_interceptorWhitelist = (\<lambda>_. False),
     lb_interceptors = (\<lambda>_ _. []), lb_lockerWhitelist = (\<lambda>_. False), lb_calls = []\<rparr>"

definition set2 :: "('a \<Rightarrow> 'b \<Rightarrow> 'c) \<Rightarrow> 'a \<Rightarrow> 'b \<Rightarrow> 'c \<Rightarrow> 'a \<Rightarrow> 'b \<Rightarrow> 'c" where
  "set2 f a b c = f(a := (f a)(b := c))"

lemma set2_apply [simp]: "set2 f a b c x y = (if x = a \<and> y = b then c else f x y)"
  by (simp add: set2_def)

definition ext :: "env \<Rightarrow> ext_call \<Rightarrow> string \<Rightarrow> (loan_book, unit) tx" where
  "ext E c err s =
     (if e_ok E (lb_calls s) c
      then Inr ((), s\<lparr>lb_calls := lb_calls s @ [c],
        lb_interceptors := e_reenter E (lb_calls s) c (lb_interceptors s)\<rparr>)
      else Inl err)"

definition onlyLendPool :: "env \<Rightarrow> string \<Rightarrow> (loan_book, unit) tx" where
  "onlyLendPool E sender = tx_require (sender = e_pool E) ''CT_CALLER_MUST_BE_LEND_POOL''"

definition onlyLendPoolConfigurator :: "env \<Rightarrow> string \<Rightarrow> (loan_book, unit) tx" where
  "onlyLendPoolConfigurator E sender =
     tx_require (sender = e_configurator E) ''LP_CALLER_NOT_LEND_POOL_CONFIGURATOR''"

definition set_loan :: "uint256 \<Rightarrow> (loan_data \<Rightarrow> loan_data) \<Rightarrow> (loan_book, unit) tx" where
  "set_loan i f = tx_write (\<lambda>s. s\<lparr>lb_loans := (lb_loans s)(i := f (lb_loans s i))\<rparr>)"

definition lock_flash_loan :: "env \<Rightarrow> string \<Rightarrow> uint256 \<Rightarrow> string \<Rightarrow> bool \<Rightarrow> (loan_book, unit) tx" where
  "lock_flash_loan E nft token operator locked =
     ext E (SetFlashLoanLocking (e_bnft E nft) token operator locked) ''reverted''"

section \<open>Hooks\<close>

fun call_hooks :: "env \<Rightarrow> hook_stage \<Rightarrow> string list \<Rightarrow> string \<Rightarrow> uint256 \<Rightarrow> string \<Rightarrow> (loan_book, unit) tx" where
  "call_hooks E stage [] nft token err = tx_return ()"
| "call_hooks E stage (i # is) nft token err =
     tx_bind (ext E (InterceptorHook stage i nft token) err) (\<lambda>_. call_hooks E stage is nft token err)"

definition handleBeforeLoanRepaid :: "env \<Rightarrow> string \<Rightarrow> uint256 \<Rightarrow> (loan_book, unit) tx" where
  "handleBeforeLoanRepaid E nft token =
     tx_bind (tx_read (\<lambda>s. lb_interceptors s nft token)) (\<lambda>is.
     call_hooks E BeforeRepaid is nft token ''BNFT: call interceptor before token burn failed'')"

definition handleAfterLoanRepaid :: "env \<Rightarrow> string \<Rightarrow> uint256 \<Rightarrow> (loan_book, unit) tx" where
  "handleAfterLoanRepaid E nft token =
     tx_bind (tx_read (\<lambda>s. lb_interceptors s nft token)) (\<lambda>is.
     call_hooks E AfterRepaid is nft token ''BNFT: call interceptor after token burn failed'')"

section \<open>Loans\<close>

definition count_nft :: "string \<Rightarrow> string \<Rightarrow> (loan_book, unit) tx" where
  "count_nft user nft =
     tx_bind (tx_read (\<lambda>s. (lb_userNftCollateral s user nft, lb_nftTotalCollateral s nft))) (\<lambda>(u, t).
     tx_bind (tx_lift (checked_add u 1)) (\<lambda>u'.
     tx_bind (tx_lift (checked_add t 1)) (\<lambda>t'.
     tx_write (\<lambda>s. s\<lparr>lb_userNftCollateral := set2 (lb_userNftCollateral s) user nft u',
       lb_nftTotalCollateral := (lb_nftTotalCollateral s)(nft := t')\<rparr>))))"

definition uncount_nft :: "string \<Rightarrow> string \<Rightarrow> (loan_book, unit) tx" where
  "uncount_nft user nft =
     tx_bind (tx_read (\<lambda>s. (lb_userNftCollateral s user nft, lb_nftTotalCollateral s nft))) (\<lambda>(u, t).
     tx_bind (tx_require (1 \<le> u) ''LP_INVALIED_USER_NFT_AMOUNT'') (\<lambda>_.
     tx_bind (tx_require (1 \<le> t) ''LP_INVALIED_NFT_AMOUNT'') (\<lambda>_.
     tx_write (\<lambda>s. s\<lparr>lb_userNftCollateral := set2 (lb_userNftCollateral s) user nft (u - 1),
       lb_nftTotalCollateral := (lb_nftTotalCollateral s)(nft := t - 1)\<rparr>))))"

definition createLoan ::
  "env \<Rightarrow> string \<Rightarrow> string \<Rightarrow> string \<Rightarrow> uint256 \<Rightarrow> string \<Rightarrow> string \<Rightarrow> uint256 \<Rightarrow> uint256 \<Rightarrow> (loan_book, uint256) tx" where
  "createLoan E sender onBehalfOf nft token bNft reserve amount borrowIndex =
     tx_bind (onlyLendPool E sender) (\<lambda>_.
     tx_bind (tx_read (\<lambda>s. lb_nftToLoanIds s nft token)) (\<lambda>used.
     tx_bind (tx_require (used = 0) ''LP_NFT_HAS_USED_AS_COLLATERAL'') (\<lambda>_.
     tx_bind (tx_lift (rayDiv amount borrowIndex)) (\<lambda>amountScaled.
     tx_bind (tx_read lb_loanIdTracker) (\<lambda>i.
     tx_bind (tx_write (\<lambda>s. s\<lparr>lb_loanIdTracker := i + 1,
       lb_nftToLoanIds := set2 (lb_nftToLoanIds s) nft token i\<rparr>)) (\<lambda>_.
     tx_bind (ext E (NftSafeTransferFrom nft sender (e_loan E) token) ''reverted'') (\<lambda>_.
     tx_bind (ext E (BnftMint bNft onBehalfOf token) ''reverted'') (\<lambda>_.
     tx_bind (set_loan i (\<lambda>l. l\<lparr>ln_loanId := i, ln_state := LS_Active, ln_borrower := onBehalfOf,
       ln_nftAsset := nft, ln_nftTokenId := token, ln_reserveAsset := reserve,
       ln_scaledAmount := amountScaled\<rparr>)) (\<lambda>_.
     tx_bind (count_nft onBehalfOf nft) (\<lambda>_. tx_return i))))))))))"

definition updateLoan :: "env \<Rightarrow> string \<Rightarrow> uint256 \<Rightarrow> uint256 \<Rightarrow> uint256 \<Rightarrow> uint256 \<Rightarrow> (loan_book, unit) tx" where
  "updateLoan E sender i amountAdded amountTaken borrowIndex =
     tx_bind (onlyLendPool E sender) (\<lambda>_.
     tx_bind (tx_read (\<lambda>s. ln_state (lb_loans s i))) (\<lambda>st.
     tx_bind (tx_require (st = LS_Active) ''LPL_INVALID_LOAN_STATE'') (\<lambda>_.
     tx_bind (if 0 < amountAdded then
         tx_bind (tx_lift (rayDiv amountAdded borrowIndex)) (\<lambda>sc.
         tx_bind (tx_require (sc \<noteq> 0) ''LPL_INVALID_LOAN_AMOUNT'') (\<lambda>_.
         tx_bind (tx_read (\<lambda>s. ln_scaledAmount (lb_loans s i))) (\<lambda>a.
         tx_bind (tx_lift (checked_add a sc)) (\<lambda>a'.
         set_loan i (\<lambda>l. l\<lparr>ln_scaledAmount := a'\<rparr>)))))
       else tx_return ()) (\<lambda>_.
     if 0 < amountTaken then
       tx_bind (tx_lift (rayDiv amountTaken borrowIndex)) (\<lambda>sc.
       tx_bind (tx_require (sc \<noteq> 0) ''LPL_INVALID_TAKEN_AMOUNT'') (\<lambda>_.
       tx_bind (tx_read (\<lambda>s. ln_scaledAmount (lb_loans s i))) (\<lambda>a.
       tx_bind (tx_require (sc \<le> a) ''LPL_AMOUNT_OVERFLOW'') (\<lambda>_.
       set_loan i (\<lambda>l. l\<lparr>ln_scaledAmount := a - sc\<rparr>)))))
     else tx_return ()))))"

text \<open>The NFT and the registers are given back: the end of \<^verbatim>\<open>repayLoan\<close> and of \<^verbatim>\<open>liquidateLoan\<close>.\<close>

definition release_nft :: "env \<Rightarrow> string \<Rightarrow> string \<Rightarrow> loan_data \<Rightarrow> (loan_book, unit) tx" where
  "release_nft E sender bNft l =
     tx_bind (ext E (BnftBurn bNft (ln_nftTokenId l)) ''reverted'') (\<lambda>_.
     tx_bind (ext E (NftSafeTransferFrom (ln_nftAsset l) (e_loan E) sender (ln_nftTokenId l)) ''reverted'') (\<lambda>_.
     handleAfterLoanRepaid E (ln_nftAsset l) (ln_nftTokenId l)))"

definition LendPoolLoan_repayLoan :: "env \<Rightarrow> string \<Rightarrow> uint256 \<Rightarrow> string \<Rightarrow> (loan_book, unit) tx" where
  "LendPoolLoan_repayLoan E sender i bNft =
     tx_bind (onlyLendPool E sender) (\<lambda>_.
     tx_bind (tx_read (\<lambda>s. lb_loans s i)) (\<lambda>l.
     tx_bind (tx_require (ln_state l = LS_Active) ''LPL_INVALID_LOAN_STATE'') (\<lambda>_.
     tx_bind (handleBeforeLoanRepaid E (ln_nftAsset l) (ln_nftTokenId l)) (\<lambda>_.
     tx_bind (set_loan i (\<lambda>l. l\<lparr>ln_state := LS_Repaid\<rparr>)) (\<lambda>_.
     tx_bind (tx_write (\<lambda>s. s\<lparr>lb_nftToLoanIds := set2 (lb_nftToLoanIds s) (ln_nftAsset l) (ln_nftTokenId l) 0\<rparr>)) (\<lambda>_.
     tx_bind (uncount_nft (ln_borrower l) (ln_nftAsset l)) (\<lambda>_.
     release_nft E sender bNft l)))))))"

definition auctionLoan :: "env \<Rightarrow> string \<Rightarrow> uint256 \<Rightarrow> string \<Rightarrow> uint256 \<Rightarrow> uint256 \<Rightarrow> (loan_book, unit) tx" where
  "auctionLoan E sender i onBehalfOf bidPrice borrowAmount =
     tx_bind (onlyLendPool E sender) (\<lambda>_.
     tx_bind (tx_read (\<lambda>s. lb_loans s i)) (\<lambda>l.
     tx_bind (if ln_bidStartTimestamp l = 0 then
         tx_bind (tx_require (ln_state l = LS_Active) ''LPL_INVALID_LOAN_STATE'') (\<lambda>_.
         tx_bind (set_loan i (\<lambda>l. l\<lparr>ln_state := LS_Auction, ln_bidStartTimestamp := e_now E,
           ln_firstBidderAddress := onBehalfOf\<rparr>)) (\<lambda>_.
         lock_flash_loan E (ln_nftAsset l) (ln_nftTokenId l) (e_loan E) True))
       else
         tx_bind (tx_require (ln_state l = LS_Auction) ''LPL_INVALID_LOAN_STATE'') (\<lambda>_.
         tx_require (ln_bidPrice l < bidPrice) ''LPL_BID_PRICE_LESS_THAN_HIGHEST_PRICE'')) (\<lambda>_.
     set_loan i (\<lambda>l. l\<lparr>ln_bidBorrowAmount := borrowAmount, ln_bidderAddress := onBehalfOf,
       ln_bidPrice := bidPrice\<rparr>))))"

definition redeemLoan :: "env \<Rightarrow> string \<Rightarrow> uint256 \<Rightarrow> uint256 \<Rightarrow> uint256 \<Rightarrow> (loan_book, unit) tx" where
  "redeemLoan E sender i amountTaken borrowIndex =
     tx_bind (onlyLendPool E sender) (\<lambda>_.
     tx_bind (tx_read (\<lambda>s. lb_loans s i)) (\<lambda>l.
     tx_bind (tx_require (ln_state l = LS_Auction) ''LPL_INVALID_LOAN_STATE'') (\<lambda>_.
     tx_bind (tx_lift (rayDiv amountTaken borrowIndex)) (\<lambda>sc.
     tx_bind (tx_require (sc \<noteq> 0) ''LPL_INVALID_TAKEN_AMOUNT'') (\<lambda>_.
     tx_bind (tx_require (sc \<le> ln_scaledAmount l) ''LPL_AMOUNT_OVERFLOW'') (\<lambda>_.
     tx_bind (set_loan i (\<lambda>l. l\<lparr>ln_scaledAmount := ln_scaledAmount l - sc, ln_state := LS_Active,
       ln_bidStartTimestamp := 0, ln_bidBorrowAmount := 0, ln_bidderAddress := ADDRESS_0, ln_bidPrice := 0,
       ln_firstBidderAddress := ADDRESS_0\<rparr>)) (\<lambda>_.
     lock_flash_loan E (ln_nftAsset l) (ln_nftTokenId l) (e_loan E) False)))))))"

definition liquidateLoan :: "env \<Rightarrow> string \<Rightarrow> uint256 \<Rightarrow> string \<Rightarrow> uint256 \<Rightarrow> (loan_book, unit) tx" where
  "liquidateLoan E sender i bNft borrowAmount =
     tx_bind (onlyLendPool E sender) (\<lambda>_.
     tx_bind (tx_read (\<lambda>s. lb_loans s i)) (\<lambda>l.
     tx_bind (tx_require (ln_state l = LS_Auction) ''LPL_INVALID_LOAN_STATE'') (\<lambda>_.
     tx_bind (handleBeforeLoanRepaid E (ln_nftAsset l) (ln_nftTokenId l)) (\<lambda>_.
     tx_bind (set_loan i (\<lambda>l. l\<lparr>ln_state := LS_Defaulted, ln_bidBorrowAmount := borrowAmount\<rparr>)) (\<lambda>_.
     tx_bind (tx_write (\<lambda>s. s\<lparr>lb_nftToLoanIds := set2 (lb_nftToLoanIds s) (ln_nftAsset l) (ln_nftTokenId l) 0\<rparr>)) (\<lambda>_.
     tx_bind (uncount_nft (ln_borrower l) (ln_nftAsset l)) (\<lambda>_.
     tx_bind (lock_flash_loan E (ln_nftAsset l) (ln_nftTokenId l) (e_loan E) False) (\<lambda>_.
     release_nft E sender bNft l))))))))"

section \<open>Interceptors and lockers\<close>

definition initNft :: "env \<Rightarrow> string \<Rightarrow> string \<Rightarrow> string \<Rightarrow> (loan_book, unit) tx" where
  "initNft E sender nft bNft =
     tx_bind (onlyLendPool E sender) (\<lambda>_. ext E (SetApprovalForAll nft bNft) ''reverted'')"

definition approveLoanRepaidInterceptor :: "env \<Rightarrow> string \<Rightarrow> string \<Rightarrow> bool \<Rightarrow> (loan_book, unit) tx" where
  "approveLoanRepaidInterceptor E sender interceptor approved =
     tx_bind (onlyLendPoolConfigurator E sender) (\<lambda>_.
     tx_write (\<lambda>s. s\<lparr>lb_interceptorWhitelist := (lb_interceptorWhitelist s)(interceptor := approved)\<rparr>))"

definition addLoanRepaidInterceptor :: "string \<Rightarrow> string \<Rightarrow> uint256 \<Rightarrow> (loan_book, unit) tx" where
  "addLoanRepaidInterceptor sender nft token =
     tx_bind (tx_read (\<lambda>s. lb_interceptorWhitelist s sender)) (\<lambda>ok.
     tx_bind (tx_require ok ''LP_CALLER_NOT_VALID_INTERCEPTOR'') (\<lambda>_.
     tx_write (\<lambda>s. let is = lb_interceptors s nft token in
       if sender \<in> set is then s
       else s\<lparr>lb_interceptors := set2 (lb_interceptors s) nft token (is @ [sender])\<rparr>)))"

text \<open>The last interceptor takes the place of the one deleted.\<close>

definition delete_at :: "nat \<Rightarrow> 'a list \<Rightarrow> 'a list" where
  "delete_at n xs = (let last1 = length xs - 1 in
     butlast (if n < last1 then xs[n := xs ! last1] else xs))"

fun find_index :: "'a \<Rightarrow> 'a list \<Rightarrow> nat option" where
  "find_index a [] = None"
| "find_index a (x # xs) = (if x = a then Some 0 else map_option Suc (find_index a xs))"

definition delete_interceptor :: "string \<Rightarrow> string \<Rightarrow> uint256 \<Rightarrow> loan_book \<Rightarrow> loan_book" where
  "delete_interceptor interceptor nft token s = (let is = lb_interceptors s nft token in
     case find_index interceptor is of None \<Rightarrow> s
     | Some n \<Rightarrow> s\<lparr>lb_interceptors := set2 (lb_interceptors s) nft token (delete_at n is)\<rparr>)"

definition deleteLoanRepaidInterceptor :: "string \<Rightarrow> string \<Rightarrow> uint256 \<Rightarrow> (loan_book, unit) tx" where
  "deleteLoanRepaidInterceptor sender nft token =
     tx_bind (tx_read (\<lambda>s. lb_interceptorWhitelist s sender)) (\<lambda>ok.
     tx_bind (tx_require ok ''LP_CALLER_NOT_VALID_INTERCEPTOR'') (\<lambda>_.
     tx_write (delete_interceptor sender nft token)))"

definition purgeLoanRepaidInterceptor :: "env \<Rightarrow> string \<Rightarrow> string \<Rightarrow> uint256 list \<Rightarrow> string \<Rightarrow> (loan_book, unit) tx" where
  "purgeLoanRepaidInterceptor E sender nft tokens interceptor =
     tx_bind (onlyLendPoolConfigurator E sender) (\<lambda>_.
     tx_write (fold (delete_interceptor interceptor nft) tokens))"

definition approveFlashLoanLocker :: "env \<Rightarrow> string \<Rightarrow> string \<Rightarrow> bool \<Rightarrow> (loan_book, unit) tx" where
  "approveFlashLoanLocker E sender locker approved =
     tx_bind (onlyLendPoolConfigurator E sender) (\<lambda>_.
     tx_write (\<lambda>s. s\<lparr>lb_lockerWhitelist := (lb_lockerWhitelist s)(locker := approved)\<rparr>))"

definition setFlashLoanLocking :: "env \<Rightarrow> string \<Rightarrow> string \<Rightarrow> uint256 \<Rightarrow> bool \<Rightarrow> (loan_book, unit) tx" where
  "setFlashLoanLocking E sender nft token locked =
     tx_bind (tx_read (\<lambda>s. lb_lockerWhitelist s sender)) (\<lambda>ok.
     tx_bind (tx_require ok ''LP_CALLER_NOT_VALID_LOCKER'') (\<lambda>_.
     lock_flash_loan E nft token sender locked))"

fun purge_lockings :: "env \<Rightarrow> string \<Rightarrow> uint256 list \<Rightarrow> string \<Rightarrow> (loan_book, unit) tx" where
  "purge_lockings E nft [] locker = tx_return ()"
| "purge_lockings E nft (t # ts) locker =
     tx_bind (lock_flash_loan E nft t locker False) (\<lambda>_. purge_lockings E nft ts locker)"

definition purgeFlashLoanLocking :: "env \<Rightarrow> string \<Rightarrow> string \<Rightarrow> uint256 list \<Rightarrow> string \<Rightarrow> (loan_book, unit) tx" where
  "purgeFlashLoanLocking E sender nft tokens locker =
     tx_bind (onlyLendPoolConfigurator E sender) (\<lambda>_. purge_lockings E nft tokens locker)"

end
