(* ===== verification/LoanBookInvariant.thy ===== *)
theory LoanBookInvariant
  imports LoanBook "HOL-Library.Multiset"
begin

text \<open>
  What the operations of the loan book change, one lemma each, and the invariant they keep: an NFT
  secures at most one living loan, the registers name exactly the living loans, and the counters of
  a collection and of a borrower are the numbers of their living loans.
\<close>

section \<open>What happens aside\<close>

text \<open>The calls that move a reserve's tokens; none of them is made by the loan book.\<close>

fun is_money :: "ext_call \<Rightarrow> bool" where
  "is_money (Erc20SafeTransferFrom t a b n) \<longleftrightarrow> True"
| "is_money (Erc20SafeTransfer t a b n) \<longleftrightarrow> True"
| "is_money _ \<longleftrightarrow> False"

text \<open>Nothing but calls of other contracts, and what those did to the interceptors.\<close>

definition aside :: "loan_book \<Rightarrow> loan_book \<Rightarrow> bool" where
  "aside s s' \<longleftrightarrow> lb_loanIdTracker s' = lb_loanIdTracker s \<and> lb_loans s' = lb_loans s \<and>
     lb_nftToLoanIds s' = lb_nftToLoanIds s \<and> lb_nftTotalCollateral s' = lb_nftTotalCollateral s \<and>
     lb_userNftCollateral s' = lb_userNftCollateral s \<and>
     filter is_money (lb_calls s') = filter is_money (lb_calls s)"

lemma aside_refl [simp]: "aside s s"
  by (simp add: aside_def)

lemma aside_trans: "aside s s' \<Longrightarrow> aside s' s'' \<Longrightarrow> aside s s''"
  by (simp add: aside_def)

lemma ext_aside: "ext E c err s = Inr (u, s') \<Longrightarrow> \<not> is_money c \<Longrightarrow> aside s s'"
  by (auto simp: ext_def aside_def split: if_splits)

lemma call_hooks_aside: "call_hooks E st is nft token err s = Inr (u, s') \<Longrightarrow> aside s s'"
proof (induction "is" arbitrary: s)
  case Nil
  then show ?case by simp
next
  case (Cons i "is")
  from Cons.prems obtain s1 where s1: "ext E (InterceptorHook st i nft token) err s = Inr ((), s1)"
    "call_hooks E st is nft token err s1 = Inr (u, s')"
    by (auto elim!: tx_bindE)
  from ext_aside [OF s1(1)] have "aside s s1" by simp
  with Cons.IH [OF s1(2)] show ?case by (blast intro: aside_trans)
qed

lemma hooks_aside:
  "handleBeforeLoanRepaid E nft token s = Inr (u, s') \<Longrightarrow> aside s s'"
  "handleAfterLoanRepaid E nft token s = Inr (u, s') \<Longrightarrow> aside s s'"
  unfolding handleBeforeLoanRepaid_def handleAfterLoanRepaid_def
  by (auto elim!: tx_bindE dest: call_hooks_aside)

lemma lock_flash_loan_aside: "lock_flash_loan E nft token p b s = Inr (u, s') \<Longrightarrow> aside s s'"
  unfolding lock_flash_loan_def by (auto dest: ext_aside)

lemma release_nft_aside: "release_nft E sender bNft l s = Inr (u, s') \<Longrightarrow> aside s s'"
  unfolding release_nft_def
  by (auto elim!: tx_bindE dest!: ext_aside hooks_aside(2) intro: aside_trans)

lemmas aside_calls = ext_aside hooks_aside lock_flash_loan_aside release_nft_aside

section \<open>What an operation changes\<close>

text \<open>The fields an effect is stated over: tracker, loans, the register of NFTs, and the two counters.\<close>

definition book_is ::
  "loan_book \<Rightarrow> uint256 \<Rightarrow> (uint256 \<Rightarrow> loan_data) \<Rightarrow> (string \<Rightarrow> uint256 \<Rightarrow> uint256) \<Rightarrow> (string \<Rightarrow> uint256) \<Rightarrow>
   (string \<Rightarrow> string \<Rightarrow> uint256) \<Rightarrow> ext_call list \<Rightarrow> bool" where
  "book_is s n ls reg tot us cs \<longleftrightarrow> lb_loanIdTracker s = n \<and> lb_loans s = ls \<and> lb_nftToLoanIds s = reg \<and>
     lb_nftTotalCollateral s = tot \<and> lb_userNftCollateral s = us \<and> filter is_money (lb_calls s) = cs"

lemma uint256_minus_1: "1 \<le> u \<Longrightarrow> unat (u :: uint256) = unat (u - 1) + 1"
  by (simp add: unat_sub word_le_nat_alt)

lemma createLoan_effect:
  assumes "createLoan E sender user nft token bNft reserve amount idx s = Inr (i, s')"
  obtains sc u t where "i = lb_loanIdTracker s" "lb_nftToLoanIds s nft token = 0" "rayDiv amount idx = Inr sc"
    "unat u = unat (lb_userNftCollateral s user nft) + 1" "unat t = unat (lb_nftTotalCollateral s nft) + 1"
    "book_is s' (i + 1) ((lb_loans s)(i := (lb_loans s i)\<lparr>ln_loanId := i, ln_state := LS_Active,
       ln_borrower := user, ln_nftAsset := nft, ln_nftTokenId := token, ln_reserveAsset := reserve,
       ln_scaledAmount := sc\<rparr>))
     (set2 (lb_nftToLoanIds s) nft token i) ((lb_nftTotalCollateral s)(nft := t))
     (set2 (lb_userNftCollateral s) user nft u) (filter is_money (lb_calls s))"
  using assms unfolding createLoan_def onlyLendPool_def set_loan_def count_nft_def book_is_def
  by (auto elim!: tx_elims dest!: ext_aside simp: aside_def checked_iff)

lemma updateLoan_adds:
  assumes "updateLoan E sender i amount 0 idx s = Inr (u, s')" and "0 < amount"
  obtains a sc where "ln_state (lb_loans s i) = LS_Active" "rayDiv amount idx = Inr sc"
    "unat a = unat (ln_scaledAmount (lb_loans s i)) + unat sc"
    "book_is s' (lb_loanIdTracker s) ((lb_loans s)(i := (lb_loans s i)\<lparr>ln_scaledAmount := a\<rparr>))
      (lb_nftToLoanIds s) (lb_nftTotalCollateral s) (lb_userNftCollateral s) (filter is_money (lb_calls s))"
  using assms unfolding updateLoan_def onlyLendPool_def set_loan_def book_is_def
  by (auto elim!: tx_elims simp: checked_iff)

lemma taken_off: "sc \<le> a \<Longrightarrow> unat (a :: uint256) = unat (a - sc) + unat sc"
  by (simp add: unat_sub word_le_nat_alt)

lemma updateLoan_takes:
  assumes "updateLoan E sender i 0 amount idx s = Inr (u, s')" and "0 < amount"
  obtains a sc where "ln_state (lb_loans s i) = LS_Active" "rayDiv amount idx = Inr sc"
    "unat (ln_scaledAmount (lb_loans s i)) = unat a + unat sc"
    "book_is s' (lb_loanIdTracker s) ((lb_loans s)(i := (lb_loans s i)\<lparr>ln_scaledAmount := a\<rparr>))
      (lb_nftToLoanIds s) (lb_nftTotalCollateral s) (lb_userNftCollateral s) (filter is_money (lb_calls s))"
proof -
  let ?a = "ln_scaledAmount (lb_loans s i)"
  from assms obtain sc where "ln_state (lb_loans s i) = LS_Active" "rayDiv amount idx = Inr sc" "sc \<le> ?a"
    "s' = s\<lparr>lb_loans := (lb_loans s)(i := (lb_loans s i)\<lparr>ln_scaledAmount := ?a - sc\<rparr>)\<rparr>"
    unfolding updateLoan_def onlyLendPool_def set_loan_def by (auto elim!: tx_elims)
  with taken_off [of sc ?a] show ?thesis by (intro that [of sc "?a - sc"]) (simp_all add: book_is_def)
qed

lemma LendPoolLoan_repayLoan_effect:
  assumes "LendPoolLoan_repayLoan E sender i bNft s = Inr (x, s')"
  obtains u t where "ln_state (lb_loans s i) = LS_Active"
    "unat (lb_userNftCollateral s (ln_borrower (lb_loans s i)) (ln_nftAsset (lb_loans s i))) = unat u + 1"
    "unat (lb_nftTotalCollateral s (ln_nftAsset (lb_loans s i))) = unat t + 1"
    "book_is s' (lb_loanIdTracker s) ((lb_loans s)(i := (lb_loans s i)\<lparr>ln_state := LS_Repaid\<rparr>))
      (set2 (lb_nftToLoanIds s) (ln_nftAsset (lb_loans s i)) (ln_nftTokenId (lb_loans s i)) 0)
      ((lb_nftTotalCollateral s)(ln_nftAsset (lb_loans s i) := t))
      (set2 (lb_userNftCollateral s) (ln_borrower (lb_loans s i)) (ln_nftAsset (lb_loans s i)) u)
      (filter is_money (lb_calls s))"
proof -
  let ?l = "lb_loans s i" let ?u = "lb_userNftCollateral s (ln_borrower ?l) (ln_nftAsset ?l)"
  let ?t = "lb_nftTotalCollateral s (ln_nftAsset ?l)"
  from assms have "ln_state ?l = LS_Active" "1 \<le> ?u" "1 \<le> ?t"
    "book_is s' (lb_loanIdTracker s) ((lb_loans s)(i := ?l\<lparr>ln_state := LS_Repaid\<rparr>))
      (set2 (lb_nftToLoanIds s) (ln_nftAsset ?l) (ln_nftTokenId ?l) 0)
      ((lb_nftTotalCollateral s)(ln_nftAsset ?l := ?t - 1))
      (set2 (lb_userNftCollateral s) (ln_borrower ?l) (ln_nftAsset ?l) (?u - 1)) (filter is_money (lb_calls s))"
    unfolding LendPoolLoan_repayLoan_def onlyLendPool_def set_loan_def uncount_nft_def book_is_def
    by (auto elim!: tx_elims dest!: aside_calls simp: aside_def)
  with uint256_minus_1 [of ?u] uint256_minus_1 [of ?t] show ?thesis by (intro that [of "?u - 1" "?t - 1"])
qed

lemma liquidateLoan_effect:
  assumes "liquidateLoan E sender i bNft amount s = Inr (x, s')"
  obtains u t where "ln_state (lb_loans s i) = LS_Auction"
    "unat (lb_userNftCollateral s (ln_borrower (lb_loans s i)) (ln_nftAsset (lb_loans s i))) = unat u + 1"
    "unat (lb_nftTotalCollateral s (ln_nftAsset (lb_loans s i))) = unat t + 1"
    "book_is s' (lb_loanIdTracker s)
      ((lb_loans s)(i := (lb_loans s i)\<lparr>ln_state := LS_Defaulted, ln_bidBorrowAmount := amount\<rparr>))
      (set2 (lb_nftToLoanIds s) (ln_nftAsset (lb_loans s i)) (ln_nftTokenId (lb_loans s i)) 0)
      ((lb_nftTotalCollateral s)(ln_nftAsset (lb_loans s i) := t))
      (set2 (lb_userNftCollateral s) (ln_borrower (lb_loans s i)) (ln_nftAsset (lb_loans s i)) u)
      (filter is_money (lb_calls s))"
proof -
  let ?l = "lb_loans s i" let ?u = "lb_userNftCollateral s (ln_borrower ?l) (ln_nftAsset ?l)"
  let ?t = "lb_nftTotalCollateral s (ln_nftAsset ?l)"
  from assms have "ln_state ?l = LS_Auction" "1 \<le> ?u" "1 \<le> ?t"
    "book_is s' (lb_loanIdTracker s)
      ((lb_loans s)(i := ?l\<lparr>ln_state := LS_Defaulted, ln_bidBorrowAmount := amount\<rparr>))
      (set2 (lb_nftToLoanIds s) (ln_nftAsset ?l) (ln_nftTokenId ?l) 0)
      ((lb_nftTotalCollateral s)(ln_nftAsset ?l := ?t - 1))
      (set2 (lb_userNftCollateral s) (ln_borrower ?l) (ln_nftAsset ?l) (?u - 1)) (filter is_money (lb_calls s))"
    unfolding liquidateLoan_def onlyLendPool_def set_loan_def uncount_nft_def book_is_def
    by (auto elim!: tx_elims dest!: aside_calls simp: aside_def)
  with uint256_minus_1 [of ?u] uint256_minus_1 [of ?t] show ?thesis by (intro that [of "?u - 1" "?t - 1"])
qed

lemma auctionLoan_effect:
  assumes "auctionLoan E sender i bidder price borrowed s = Inr (x, s')"
  obtains
    (first) "ln_bidStartTimestamp (lb_loans s i) = 0" "ln_state (lb_loans s i) = LS_Active"
      "book_is s' (lb_loanIdTracker s) ((lb_loans s)(i := (lb_loans s i)\<lparr>ln_state := LS_Auction,
        ln_bidStartTimestamp := e_now E, ln_firstBidderAddress := bidder, ln_bidBorrowAmount := borrowed,
        ln_bidderAddress := bidder, ln_bidPrice := price\<rparr>))
       (lb_nftToLoanIds s) (lb_nftTotalCollateral s) (lb_userNftCollateral s) (filter is_money (lb_calls s))"
  | (higher) "ln_bidStartTimestamp (lb_loans s i) \<noteq> 0" "ln_state (lb_loans s i) = LS_Auction"
      "ln_bidPrice (lb_loans s i) < price"
      "book_is s' (lb_loanIdTracker s) ((lb_loans s)(i := (lb_loans s i)\<lparr>ln_bidBorrowAmount := borrowed,
        ln_bidderAddress := bidder, ln_bidPrice := price\<rparr>))
       (lb_nftToLoanIds s) (lb_nftTotalCollateral s) (lb_userNftCollateral s) (filter is_money (lb_calls s))"
proof (cases "ln_bidStartTimestamp (lb_loans s i) = 0")
  case True
  with assms show ?thesis
    unfolding auctionLoan_def onlyLendPool_def set_loan_def
    by (intro first) (auto elim!: tx_elims dest!: aside_calls simp: aside_def book_is_def)
next
  case False
  with assms show ?thesis
    unfolding auctionLoan_def onlyLendPool_def set_loan_def
    by (intro higher) (auto elim!: tx_elims simp: book_is_def)
qed

lemma redeemLoan_effect:
  assumes "redeemLoan E sender i amount idx s = Inr (x, s')"
  obtains a sc where "ln_state (lb_loans s i) = LS_Auction" "rayDiv amount idx = Inr sc"
    "unat (ln_scaledAmount (lb_loans s i)) = unat a + unat sc"
    "book_is s' (lb_loanIdTracker s) ((lb_loans s)(i := (lb_loans s i)\<lparr>ln_scaledAmount := a, ln_state := LS_Active,
       ln_bidStartTimestamp := 0, ln_bidBorrowAmount := 0, ln_bidderAddress := ADDRESS_0, ln_bidPrice := 0,
       ln_firstBidderAddress := ADDRESS_0\<rparr>))
      (lb_nftToLoanIds s) (lb_nftTotalCollateral s) (lb_userNftCollateral s) (filter is_money (lb_calls s))"
proof -
  let ?a = "ln_scaledAmount (lb_loans s i)"
  from assms obtain sc where "ln_state (lb_loans s i) = LS_Auction" "rayDiv amount idx = Inr sc" "sc \<le> ?a"
    "book_is s' (lb_loanIdTracker s) ((lb_loans s)(i := (lb_loans s i)\<lparr>ln_scaledAmount := ?a - sc, ln_state := LS_Active,
       ln_bidStartTimestamp := 0, ln_bidBorrowAmount := 0, ln_bidderAddress := ADDRESS_0, ln_bidPrice := 0,
       ln_firstBidderAddress := ADDRESS_0\<rparr>))
      (lb_nftToLoanIds s) (lb_nftTotalCollateral s) (lb_userNftCollateral s) (filter is_money (lb_calls s))"
    unfolding redeemLoan_def onlyLendPool_def set_loan_def
    by (auto elim!: tx_elims dest!: aside_calls simp: aside_def book_is_def)
  with taken_off [of sc ?a] show ?thesis by (intro that [of sc "?a - sc"])
qed

section \<open>The invariant\<close>

definition living :: "loan_data \<Rightarrow> bool" where
  "living l \<longleftrightarrow> ln_state l = LS_Active \<or> ln_state l = LS_Auction"

text \<open>A sum over all loans; an id that was never used counts as \<open>h no_loan\<close>.\<close>

definition loan_sum :: "(loan_data \<Rightarrow> nat) \<Rightarrow> (uint256 \<Rightarrow> loan_data) \<Rightarrow> nat" where
  "loan_sum h ls = (\<Sum>i\<in>UNIV. h (ls i))"

lemma loan_sum_upd: "loan_sum h (ls(i := l)) + h (ls i) = loan_sum h ls + h l"
proof -
  have "loan_sum h ls = h (ls i) + (\<Sum>j\<in>UNIV - {i}. h (ls j))"
    unfolding loan_sum_def by (rule sum.remove) simp_all
  moreover have "loan_sum h (ls(i := l)) = h l + (\<Sum>j\<in>UNIV - {i}. h (ls j))"
    unfolding loan_sum_def by (subst sum.remove [of _ i]) simp_all
  ultimately show ?thesis by simp
qed

lemma loan_sum_upd_same: "h l = h (ls i) \<Longrightarrow> loan_sum h (ls(i := l)) = loan_sum h ls"
  using loan_sum_upd [of h ls i l] by simp

definition of_collection :: "string \<Rightarrow> loan_data \<Rightarrow> nat" where
  "of_collection a l = of_bool (living l \<and> ln_nftAsset l = a)"

definition of_borrower :: "string \<Rightarrow> string \<Rightarrow> loan_data \<Rightarrow> nat" where
  "of_borrower u a l = of_bool (living l \<and> ln_borrower l = u \<and> ln_nftAsset l = a)"

definition bid_fields :: "loan_data \<Rightarrow> bool" where
  "bid_fields l \<longleftrightarrow>
     (ln_state l = LS_Active \<longrightarrow> ln_bidStartTimestamp l = 0 \<and> ln_bidPrice l = 0 \<and> ln_bidderAddress l = ADDRESS_0) \<and>
     (ln_state l = LS_Auction \<longrightarrow> ln_bidStartTimestamp l \<noteq> 0)"

definition book_ok :: "loan_book \<Rightarrow> bool" where
  "book_ok s \<longleftrightarrow> lb_loanIdTracker s \<noteq> 0 \<and>
     (\<forall>i. i = 0 \<or> lb_loanIdTracker s \<le> i \<longrightarrow> lb_loans s i = no_loan) \<and>
     (\<forall>i. living (lb_loans s i) \<longrightarrow>
        lb_nftToLoanIds s (ln_nftAsset (lb_loans s i)) (ln_nftTokenId (lb_loans s i)) = i) \<and>
     (\<forall>a t. lb_nftToLoanIds s a t \<noteq> 0 \<longrightarrow> living (lb_loans s (lb_nftToLoanIds s a t)) \<and>
        ln_nftAsset (lb_loans s (lb_nftToLoanIds s a t)) = a \<and>
        ln_nftTokenId (lb_loans s (lb_nftToLoanIds s a t)) = t) \<and>
     (\<forall>i. bid_fields (lb_loans s i)) \<and>
     (\<forall>a. unat (lb_nftTotalCollateral s a) = loan_sum (of_collection a) (lb_loans s)) \<and>
     (\<forall>u a. unat (lb_userNftCollateral s u a) = loan_sum (of_borrower u a) (lb_loans s))"

lemma no_loan_simps [simp]: "\<not> living no_loan" "bid_fields no_loan"
  by (simp_all add: no_loan_def living_def bid_fields_def)

lemma initial_book_ok: "book_ok initial_book"
  by (simp add: book_ok_def initial_book_def loan_sum_def of_collection_def of_borrower_def)

text \<open>A living loan that stays living, with the same borrower and collateral.\<close>

lemma book_ok_stays:
  assumes ok: "book_ok s" and s': "book_is s' (lb_loanIdTracker s) ((lb_loans s)(i := l))
      (lb_nftToLoanIds s) (lb_nftTotalCollateral s) (lb_userNftCollateral s) cs"
    and l: "living (lb_loans s i)" "living l" "bid_fields l"
    and same: "ln_borrower l = ln_borrower (lb_loans s i)" "ln_nftAsset l = ln_nftAsset (lb_loans s i)"
      "ln_nftTokenId l = ln_nftTokenId (lb_loans s i)"
  shows "book_ok s'"
proof -
  have "loan_sum (of_collection a) ((lb_loans s)(i := l)) = loan_sum (of_collection a) (lb_loans s)" for a
    using l same by (intro loan_sum_upd_same) (simp add: of_collection_def)
  moreover have "loan_sum (of_borrower u a) ((lb_loans s)(i := l)) = loan_sum (of_borrower u a) (lb_loans s)" for u a
    using l same by (intro loan_sum_upd_same) (simp add: of_borrower_def)
  moreover have "i \<noteq> 0 \<and> \<not> lb_loanIdTracker s \<le> i" using ok l(1) by (auto simp: book_ok_def)
  ultimately show ?thesis using ok s' l same by (auto simp: book_ok_def book_is_def)
qed

text \<open>A living loan that ends: its NFT is struck off the register and the counters.\<close>

lemma book_ok_ends:
  assumes ok: "book_ok s" and s': "book_is s' (lb_loanIdTracker s) ((lb_loans s)(i := l))
      (set2 (lb_nftToLoanIds s) (ln_nftAsset (lb_loans s i)) (ln_nftTokenId (lb_loans s i)) 0)
      ((lb_nftTotalCollateral s)(ln_nftAsset (lb_loans s i) := t))
      (set2 (lb_userNftCollateral s) (ln_borrower (lb_loans s i)) (ln_nftAsset (lb_loans s i)) u) cs"
    and l: "living (lb_loans s i)" "\<not> living l" "bid_fields l"
    and count: "unat (lb_userNftCollateral s (ln_borrower (lb_loans s i)) (ln_nftAsset (lb_loans s i))) = unat u + 1"
      "unat (lb_nftTotalCollateral s (ln_nftAsset (lb_loans s i))) = unat t + 1"
  shows "book_ok s'"
proof -
  let ?l = "lb_loans s i"
  have "loan_sum (of_collection a) ((lb_loans s)(i := l)) + of_bool (ln_nftAsset ?l = a)
      = loan_sum (of_collection a) (lb_loans s)" for a
    using loan_sum_upd [of "of_collection a" "lb_loans s" i l] l by (simp add: of_collection_def)
  then have total: "loan_sum (of_collection a) ((lb_loans s)(i := l))
      = loan_sum (of_collection a) (lb_loans s) - of_bool (ln_nftAsset ?l = a)" for a by (metis add_diff_cancel_right')
  have "loan_sum (of_borrower v a) ((lb_loans s)(i := l)) + of_bool (ln_borrower ?l = v \<and> ln_nftAsset ?l = a)
      = loan_sum (of_borrower v a) (lb_loans s)" for v a
    using loan_sum_upd [of "of_borrower v a" "lb_loans s" i l] l by (simp add: of_borrower_def)
  then have user: "loan_sum (of_borrower v a) ((lb_loans s)(i := l))
      = loan_sum (of_borrower v a) (lb_loans s) - of_bool (ln_borrower ?l = v \<and> ln_nftAsset ?l = a)" for v a
    by (metis add_diff_cancel_right')
  have "i \<noteq> 0 \<and> \<not> lb_loanIdTracker s \<le> i" using ok l(1) by (auto simp: book_ok_def)
  moreover have reg: "lb_nftToLoanIds s (ln_nftAsset ?l) (ln_nftTokenId ?l) = i"
    using ok l(1) by (simp add: book_ok_def)
  moreover have "j = i" if "living (lb_loans s j)" "ln_nftAsset (lb_loans s j) = ln_nftAsset ?l"
      "ln_nftTokenId (lb_loans s j) = ln_nftTokenId ?l" for j
    using ok that reg by (metis book_ok_def)
  ultimately show ?thesis using ok s' l count by (auto simp: book_ok_def book_is_def total user)
qed

text \<open>A new loan, with an id that was not used, on an NFT that secures none.\<close>

lemma book_ok_begins:
  assumes ok: "book_ok s" and free: "lb_nftToLoanIds s nft token = 0" "lb_loanIdTracker s \<noteq> UINT256_MAX"
    and s': "book_is s' (lb_loanIdTracker s + 1) ((lb_loans s)(lb_loanIdTracker s := l))
      (set2 (lb_nftToLoanIds s) nft token (lb_loanIdTracker s)) ((lb_nftTotalCollateral s)(nft := t))
      (set2 (lb_userNftCollateral s) user nft u) cs"
    and l: "living l" "bid_fields l" "ln_borrower l = user" "ln_nftAsset l = nft" "ln_nftTokenId l = token"
    and count: "unat u = unat (lb_userNftCollateral s user nft) + 1" "unat t = unat (lb_nftTotalCollateral s nft) + 1"
  shows "book_ok s'"
proof -
  let ?i = "lb_loanIdTracker s"
  have i: "?i \<noteq> 0" "lb_loans s ?i = no_loan" using ok by (auto simp: book_ok_def)
  have "unat ?i \<noteq> 2 ^ 256 - 1" using free(2) unat_UINT256_MAX by (metis uint256_eqI)
  then have next1: "unat (?i + 1) = unat ?i + 1"
    using unat_uint256 [of ?i] by (simp add: unat_word_ariths)
  then have later: "?i + 1 \<noteq> 0" "\<And>j. ?i + 1 \<le> j \<Longrightarrow> ?i \<le> j \<and> j \<noteq> ?i"
    by (auto simp: uint256_eq_0 word_le_nat_alt)
  have total: "loan_sum (of_collection a) ((lb_loans s)(?i := l))
      = loan_sum (of_collection a) (lb_loans s) + of_bool (nft = a)" for a
    using loan_sum_upd [of "of_collection a" "lb_loans s" ?i l] l i by (simp add: of_collection_def)
  have user: "loan_sum (of_borrower v a) ((lb_loans s)(?i := l))
      = loan_sum (of_borrower v a) (lb_loans s) + of_bool (user = v \<and> nft = a)" for v a
    using loan_sum_upd [of "of_borrower v a" "lb_loans s" ?i l] l i by (simp add: of_borrower_def)
  have "lb_nftToLoanIds s a tk \<noteq> ?i" for a tk using ok i by (metis book_ok_def no_loan_simps(1))
  then show ?thesis
    using ok s' l count i later free(1) by (auto simp: book_ok_def book_is_def total user)
qed

section \<open>Every history of the loan book\<close>

text \<open>A call that concerns interceptors, locks or approvals only.\<close>

inductive register_step :: "loan_book \<Rightarrow> loan_book \<Rightarrow> bool" where
  init_nft: "initNft E sender nft bNft s = Inr (u, s') \<Longrightarrow> register_step s s'"
| approve_interceptor: "approveLoanRepaidInterceptor E sender p b s = Inr (u, s') \<Longrightarrow> register_step s s'"
| add_interceptor: "addLoanRepaidInterceptor sender nft token s = Inr (u, s') \<Longrightarrow> register_step s s'"
| delete_interceptor: "deleteLoanRepaidInterceptor sender nft token s = Inr (u, s') \<Longrightarrow> register_step s s'"
| purge_interceptor: "purgeLoanRepaidInterceptor E sender nft tokens p s = Inr (u, s') \<Longrightarrow> register_step s s'"
| approve_locker: "approveFlashLoanLocker E sender p b s = Inr (u, s') \<Longrightarrow> register_step s s'"
| lock: "setFlashLoanLocking E sender nft token b s = Inr (u, s') \<Longrightarrow> register_step s s'"
| purge_lock: "purgeFlashLoanLocking E sender nft tokens p s = Inr (u, s') \<Longrightarrow> register_step s s'"

text \<open>
  A step is a call, by anybody, that did not revert; what other contracts answer (\<open>E\<close>) is free in each
  step.  The clock is not zero, and the counter of loans has not reached its last value.
\<close>

inductive book_step :: "loan_book \<Rightarrow> loan_book \<Rightarrow> bool" where
  create: "createLoan E sender user nft token bNft reserve amount idx s = Inr (i, s') \<Longrightarrow>
    lb_loanIdTracker s \<noteq> UINT256_MAX \<Longrightarrow> book_step s s'"
| add: "updateLoan E sender i amount 0 idx s = Inr (u, s') \<Longrightarrow> 0 < amount \<Longrightarrow> book_step s s'"
| take: "updateLoan E sender i 0 amount idx s = Inr (u, s') \<Longrightarrow> 0 < amount \<Longrightarrow> book_step s s'"
| repay: "LendPoolLoan_repayLoan E sender i bNft s = Inr (u, s') \<Longrightarrow> book_step s s'"
| auction: "auctionLoan E sender i user price amount s = Inr (u, s') \<Longrightarrow> e_now E \<noteq> 0 \<Longrightarrow> book_step s s'"
| redeem: "redeemLoan E sender i amount idx s = Inr (u, s') \<Longrightarrow> book_step s s'"
| liquidate: "liquidateLoan E sender i bNft amount s = Inr (u, s') \<Longrightarrow> book_step s s'"
| register: "register_step s s' \<Longrightarrow> book_step s s'"

inductive book_reach :: "loan_book \<Rightarrow> bool" where
  start: "book_reach initial_book"
| step: "book_reach s \<Longrightarrow> book_step s s' \<Longrightarrow> book_reach s'"

lemma aside_ok: "aside s s' \<Longrightarrow> book_ok s \<Longrightarrow> book_ok s'"
  by (simp add: aside_def book_ok_def)

lemma delete_interceptor_aside: "aside s (delete_interceptor p nft token s)"
  by (simp add: delete_interceptor_def aside_def Let_def split: option.split)

lemma purge_aside: "aside s (fold (delete_interceptor p nft) tokens s)"
proof (induction tokens arbitrary: s)
  case (Cons t tokens)
  show ?case using aside_trans [OF delete_interceptor_aside Cons.IH] by simp
qed simp

lemma purge_lockings_aside: "purge_lockings E nft ts p s = Inr (u, s') \<Longrightarrow> aside s s'"
proof (induction ts arbitrary: s)
  case (Cons t ts)
  from Cons.prems obtain s1 where s1: "lock_flash_loan E nft t p False s = Inr ((), s1)"
    "purge_lockings E nft ts p s1 = Inr (u, s')"
    by (auto elim!: tx_bindE)
  from Cons.IH [OF s1(2)] lock_flash_loan_aside [OF s1(1)] show ?case by (blast intro: aside_trans)
qed simp

lemma registers_aside:
  "initNft E sender nft bNft s = Inr (u, s') \<Longrightarrow> aside s s'"
  "approveLoanRepaidInterceptor E sender p b s = Inr (u, s') \<Longrightarrow> aside s s'"
  "addLoanRepaidInterceptor sender nft token s = Inr (u, s') \<Longrightarrow> aside s s'"
  "deleteLoanRepaidInterceptor sender nft token s = Inr (u, s') \<Longrightarrow> aside s s'"
  "purgeLoanRepaidInterceptor E sender nft tokens p s = Inr (u, s') \<Longrightarrow> aside s s'"
  "approveFlashLoanLocker E sender p b s = Inr (u, s') \<Longrightarrow> aside s s'"
  "setFlashLoanLocking E sender nft token b s = Inr (u, s') \<Longrightarrow> aside s s'"
  "purgeFlashLoanLocking E sender nft tokens p s = Inr (u, s') \<Longrightarrow> aside s s'"
  unfolding initNft_def approveLoanRepaidInterceptor_def addLoanRepaidInterceptor_def
    deleteLoanRepaidInterceptor_def purgeLoanRepaidInterceptor_def approveFlashLoanLocker_def
    setFlashLoanLocking_def purgeFlashLoanLocking_def onlyLendPool_def onlyLendPoolConfigurator_def
  by (auto elim!: tx_elims dest!: ext_aside lock_flash_loan_aside purge_lockings_aside
      simp: aside_def Let_def delete_interceptor_aside [unfolded aside_def] purge_aside [unfolded aside_def])

lemma register_step_aside: "register_step s s' \<Longrightarrow> aside s s'"
  by (induction rule: register_step.induct) (blast dest: registers_aside)+

text \<open>A step of the loans changes one loan that is not closed; the others change none.\<close>

lemma living_simps [simp]: "ln_state l = LS_Active \<Longrightarrow> living l" "ln_state l = LS_Auction \<Longrightarrow> living l"
  by (simp_all add: living_def)

lemma createLoan_ok:
  assumes run: "createLoan E sender user nft token bNft reserve amount idx s = Inr (i, s')"
    and free: "lb_loanIdTracker s \<noteq> UINT256_MAX" and ok: "book_ok s"
  shows "book_ok s'"
  using run
proof (cases rule: createLoan_effect)
  case (1 sc u t)
  have fresh: "lb_loans s (lb_loanIdTracker s) = no_loan" using ok by (simp add: book_ok_def)
  show ?thesis
    by (rule book_ok_begins [OF ok 1(2) free 1(6) [unfolded 1(1)] _ _ _ _ _ 1(4,5)])
      (simp_all add: fresh bid_fields_def no_loan_def)
qed

lemma updateLoan_ok:
  assumes run: "updateLoan E sender i added taken idx s = Inr (u, s')" and ok: "book_ok s"
    and one: "added = 0 \<and> 0 < taken \<or> 0 < added \<and> taken = 0"
  shows "book_ok s'"
proof -
  have f: "bid_fields (lb_loans s i)" using ok by (simp add: book_ok_def)
  from run one consider "0 < added" "updateLoan E sender i added 0 idx s = Inr (u, s')"
    | "0 < taken" "updateLoan E sender i 0 taken idx s = Inr (u, s')" by auto
  then show ?thesis
  proof cases
    case 1
    from 1(2,1) show ?thesis
    proof (cases rule: updateLoan_adds)
      case (1 a sc)
      show ?thesis by (rule book_ok_stays [OF ok 1(4)]) (use 1 f in \<open>simp_all add: bid_fields_def living_def\<close>)
    qed
  next
    case 2
    from 2(2,1) show ?thesis
    proof (cases rule: updateLoan_takes)
      case (1 a sc)
      show ?thesis by (rule book_ok_stays [OF ok 1(4)]) (use 1 f in \<open>simp_all add: bid_fields_def living_def\<close>)
    qed
  qed
qed

lemma LendPoolLoan_repayLoan_ok:
  assumes "LendPoolLoan_repayLoan E sender i bNft s = Inr (x, s')" and ok: "book_ok s"
  shows "book_ok s'"
  using assms(1)
proof (cases rule: LendPoolLoan_repayLoan_effect)
  case (1 u t)
  show ?thesis by (rule book_ok_ends [OF ok 1(4) _ _ _ 1(2,3)]) (use 1 in \<open>simp_all add: bid_fields_def living_def\<close>)
qed

lemma auctionLoan_ok:
  assumes "auctionLoan E sender i user price amount s = Inr (x, s')" and ok: "book_ok s" and "e_now E \<noteq> 0"
  shows "book_ok s'"
  using assms(1)
proof (cases rule: auctionLoan_effect)
  case first
  show ?thesis by (rule book_ok_stays [OF ok first(3)]) (use first assms(3) in \<open>simp_all add: bid_fields_def living_def\<close>)
next
  case higher
  have f: "bid_fields (lb_loans s i)" using ok by (simp add: book_ok_def)
  show ?thesis by (rule book_ok_stays [OF ok higher(4)]) (use higher f in \<open>simp_all add: bid_fields_def living_def\<close>)
qed

lemma redeemLoan_ok:
  assumes "redeemLoan E sender i amount idx s = Inr (x, s')" and ok: "book_ok s"
  shows "book_ok s'"
  using assms(1)
proof (cases rule: redeemLoan_effect)
  case (1 a sc)
  show ?thesis by (rule book_ok_stays [OF ok 1(4)]) (use 1 in \<open>simp_all add: bid_fields_def living_def\<close>)
qed

lemma liquidateLoan_ok:
  assumes "liquidateLoan E sender i bNft amount s = Inr (x, s')" and ok: "book_ok s"
  shows "book_ok s'"
  using assms(1)
proof (cases rule: liquidateLoan_effect)
  case (1 u t)
  show ?thesis by (rule book_ok_ends [OF ok 1(4) _ _ _ 1(2,3)]) (use 1 in \<open>simp_all add: bid_fields_def living_def\<close>)
qed

lemma book_step_ok: "book_step s s' \<Longrightarrow> book_ok s \<Longrightarrow> book_ok s'"
  by (induction rule: book_step.induct)
    (blast intro: createLoan_ok updateLoan_ok LendPoolLoan_repayLoan_ok auctionLoan_ok redeemLoan_ok liquidateLoan_ok
      aside_ok dest: register_step_aside)+

lemma book_reach_ok: "book_reach s \<Longrightarrow> book_ok s"
  by (induction rule: book_reach.induct) (auto intro: initial_book_ok book_step_ok)

definition closed :: "loan_data \<Rightarrow> bool" where
  "closed l \<longleftrightarrow> ln_state l = LS_Repaid \<or> ln_state l = LS_Defaulted"

lemma closed_loan_stays:
  assumes "book_step s s'" "book_ok s" "closed (lb_loans s i)"
  shows "lb_loans s' i = lb_loans s i"
  using assms
proof (induction rule: book_step.induct)
  case (create E sender user nft token bNft reserve amount idx s j s')
  have "lb_loans s (lb_loanIdTracker s) = no_loan" using create.prems by (simp add: book_ok_def)
  then have "i \<noteq> lb_loanIdTracker s" using create.prems by (auto simp: closed_def no_loan_def)
  then show ?case using create by (elim createLoan_effect) (simp add: book_is_def)
next
  case (auction E sender j user price amount s u s')
  from auction(1) auction(4) show ?case
    by (cases rule: auctionLoan_effect) (auto simp: closed_def book_is_def)
qed (auto elim!: updateLoan_adds updateLoan_takes LendPoolLoan_repayLoan_effect redeemLoan_effect liquidateLoan_effect
    dest!: register_step_aside simp: closed_def book_is_def aside_def)

lemma loan_sum_card: "loan_sum (\<lambda>l. of_bool (P l)) ls = card {i. P (ls i)}"
  by (simp add: loan_sum_def)

text \<open>C8: In every history of the loan book, whatever the other contracts answer: an NFT is registered
  to the loan \<open>i\<close> exactly when \<open>i\<close> is a living loan (active or in auction) secured by that NFT, so no NFT
  secures two; the counters of a collection and of a borrower are the numbers of their living loans; a
  loan without a bid has no bidder and no auction time; and a loan that is repaid or defaulted never
  changes again.\<close>

theorem loan_book_consistent:
  assumes "book_reach s"
  shows "(\<forall>i a t. i \<noteq> 0 \<longrightarrow> lb_nftToLoanIds s a t = i \<longleftrightarrow>
      living (lb_loans s i) \<and> ln_nftAsset (lb_loans s i) = a \<and> ln_nftTokenId (lb_loans s i) = t) \<and>
    (\<forall>a. unat (lb_nftTotalCollateral s a) = card {i. living (lb_loans s i) \<and> ln_nftAsset (lb_loans s i) = a}) \<and>
    (\<forall>u a. unat (lb_userNftCollateral s u a) =
      card {i. living (lb_loans s i) \<and> ln_borrower (lb_loans s i) = u \<and> ln_nftAsset (lb_loans s i) = a}) \<and>
    (\<forall>i. bid_fields (lb_loans s i)) \<and>
    (\<forall>s' i. book_step s s' \<longrightarrow> closed (lb_loans s i) \<longrightarrow> lb_loans s' i = lb_loans s i)"
proof -
  have ok: "book_ok s" by (rule book_reach_ok [OF assms])
  have "lb_nftToLoanIds s a t = i \<longleftrightarrow>
      living (lb_loans s i) \<and> ln_nftAsset (lb_loans s i) = a \<and> ln_nftTokenId (lb_loans s i) = t"
    if "i \<noteq> 0" for i a t
    using ok that unfolding book_ok_def by blast
  moreover have "unat (lb_nftTotalCollateral s a) = card {i. living (lb_loans s i) \<and> ln_nftAsset (lb_loans s i) = a}" for a
    using ok unfolding book_ok_def of_collection_def loan_sum_card by blast
  moreover have "unat (lb_userNftCollateral s u a) =
      card {i. living (lb_loans s i) \<and> ln_borrower (lb_loans s i) = u \<and> ln_nftAsset (lb_loans s i) = a}" for u a
    using ok unfolding book_ok_def of_borrower_def loan_sum_card by blast
  moreover have "\<forall>i. bid_fields (lb_loans s i)" using ok by (simp add: book_ok_def)
  ultimately show ?thesis using closed_loan_stays [OF _ ok] by blast
qed

text \<open>A book in which one loan was taken, in a world where every call succeeds.\<close>

definition sample_env :: env where
  "sample_env = \<lparr>e_now = 1700000000, e_pool = ''pool'', e_loan = ''loan'', e_configurator = ''configurator'',
     e_bnft = (\<lambda>_. ''bnft''), e_ok = (\<lambda>_ _. True), e_reenter = (\<lambda>_ _ t. t),
     e_nft_price = (\<lambda>_. Inr 1000000000000000000), e_price_stale = (\<lambda>_. False),
     e_reserve_price = (\<lambda>_. Inr 1000000000000000000), e_erc20_balance = (\<lambda>_ _ _. 1000),
     e_nft_supply = (\<lambda>_ _. 1), e_isContract = (\<lambda>_. True)\<rparr>"

definition sample_loan :: loan_data where
  "sample_loan = no_loan\<lparr>ln_loanId := 1, ln_state := LS_Active, ln_borrower := ''alice'', ln_nftAsset := ''nft'',
     ln_nftTokenId := 7, ln_reserveAsset := ''weth'', ln_scaledAmount := 100\<rparr>"

definition sample_book :: loan_book where
  "sample_book = initial_book\<lparr>lb_loanIdTracker := 2, lb_loans := (\<lambda>_. no_loan)(1 := sample_loan),
     lb_nftToLoanIds := set2 (\<lambda>_ _. 0) ''nft'' 7 1, lb_nftTotalCollateral := (\<lambda>_. 0)(''nft'' := 1),
     lb_userNftCollateral := set2 (\<lambda>_ _. 0) ''alice'' ''nft'' 1,
     lb_calls := [NftSafeTransferFrom ''nft'' ''pool'' ''loan'' 7, BnftMint ''bnft'' ''alice'' 7]\<rparr>"

lemma sample_rate: "rayDiv 100 1000000000000000000000000000 = Inr 100"
  by (simp add: ray.div_spec div_round_def unit_numbers)

lemma sample_created:
  "createLoan sample_env ''pool'' ''alice'' ''nft'' 7 ''bnft'' ''weth'' 100 1000000000000000000000000000 initial_book
   = Inr (1, sample_book)"
  by (simp add: createLoan_def onlyLendPool_def set_loan_def count_nft_def ext_def sample_rate sample_env_def
      initial_book_def sample_book_def sample_loan_def checked_add_def)

lemma sample_reached: "book_reach sample_book"
  by (rule book_reach.step [OF book_reach.start book_step.create [OF sample_created]])
    (simp add: initial_book_def UINT256_MAX_def)

lemma loan_book_consistent_witness:
  "lb_nftToLoanIds sample_book ''nft'' 7 = 1 \<and> living (lb_loans sample_book 1) \<and>
   card {i. living (lb_loans sample_book i) \<and> ln_nftAsset (lb_loans sample_book i) = ''nft''} = 1"
proof -
  note c = loan_book_consistent [OF sample_reached]
  have r: "lb_nftToLoanIds sample_book ''nft'' 7 = 1" "lb_nftTotalCollateral sample_book ''nft'' = 1"
    by (simp_all add: sample_book_def)
  have "card {i. living (lb_loans sample_book i) \<and> ln_nftAsset (lb_loans sample_book i) = ''nft''}
      = unat (lb_nftTotalCollateral sample_book ''nft'')"
    by (rule sym, rule spec [OF conjunct1 [OF conjunct2 [OF c]]])
  moreover have "living (lb_loans sample_book 1)"
    using spec [OF spec [OF spec [OF conjunct1 [OF c], of 1], of "''nft''"], of 7] r by simp
  ultimately show ?thesis using r by simp
qed

section \<open>Interceptors\<close>

text \<open>Swapping with the last and popping deletes exactly the interceptor that was found.\<close>

lemma find_index_Some: "find_index a xs = Some n \<Longrightarrow> n < length xs \<and> xs ! n = a"
  by (induction xs arbitrary: n) (auto split: if_splits)

lemma find_index_None: "find_index a xs = None \<longleftrightarrow> a \<notin> set xs"
  by (induction xs) auto

lemma delete_at_mset:
  assumes "n < length xs"
  shows "mset (delete_at n xs) = mset xs - {#xs ! n#}"
proof -
  from assms obtain ys z where xs: "xs = ys @ [z]" by (metis length_0_conv not_less_zero rev_exhaust)
  show ?thesis
  proof (cases "n < length ys")
    case True
    then show ?thesis using xs by (simp add: delete_at_def list_update_append1 nth_append mset_update)
  next
    case False
    with assms xs have "n = length ys" by simp
    then show ?thesis using xs by (simp add: delete_at_def)
  qed
qed

lemma delete_interceptor_removes:
  assumes "distinct (lb_interceptors s nft token)"
  shows "set (lb_interceptors (delete_interceptor p nft token s) nft token) = set (lb_interceptors s nft token) - {p}"
    and "distinct (lb_interceptors (delete_interceptor p nft token s) nft token)"
proof -
  let ?is = "lb_interceptors s nft token"
  let ?new = "lb_interceptors (delete_interceptor p nft token s) nft token"
  have m: "mset ?new = mset ?is - {#p#}"
  proof (cases "find_index p ?is")
    case None
    then have "p \<notin> set ?is" by (simp only: find_index_None [symmetric])
    with None show ?thesis by (simp add: delete_interceptor_def Let_def diff_single_trivial)
  next
    case (Some n)
    with find_index_Some [OF Some] show ?thesis by (simp add: delete_interceptor_def Let_def delete_at_mset)
  qed
  then have new: "mset ?new = mset (remove1 p ?is)" by simp
  have "distinct (remove1 p ?is)" using assms by simp
  then show "distinct ?new" by (rule iffD2 [OF mset_eq_imp_distinct_iff [OF new]])
  show "set ?new = set ?is - {p}" using mset_eq_setD [OF new] set_remove1_eq [OF assms] by (rule trans)
qed

end
