(* ===== verification/Reserves.thy ===== *)
theory Reserves
  imports InterestRates ReserveConfiguration LoanBookInvariant
begin

text \<open>
  The reserves of the pool: \<^verbatim>\<open>contracts/libraries/logic/ReserveLogic.sol\<close> with the indexes by which
  deposits and debts grow, and the two tokens of a reserve, \<^verbatim>\<open>contracts/protocol/BToken.sol\<close> and
  \<^verbatim>\<open>DebtToken.sol\<close>, which keep amounts divided by the index.  The ledger below those tokens is
  OpenZeppelin's \<^verbatim>\<open>ERC20Upgradeable\<close>, a package: \<open>erc20\<close> holds its operations as a parameter, and
  \<open>erc20_laws\<close> is what its documentation says of them.
\<close>

section \<open>State\<close>

definition UINT128_MAX :: uint256 where "UINT128_MAX = 0xFFFFFFFFFFFFFFFFFFFFFFFFFFFFFFFF"

record reserve_data =
  rd_configuration :: uint256
  rd_liquidityIndex :: uint128
  rd_variableBorrowIndex :: uint128
  rd_currentLiquidityRate :: uint128
  rd_currentVariableBorrowRate :: uint128
  rd_lastUpdateTimestamp :: uint40
  rd_bTokenAddress :: string
  rd_debtTokenAddress :: string
  rd_interestRateAddress :: string
  rd_id :: "8 word"
  rd_maxUtilizationRate :: uint256

record pool_nft = nft_data +
  pn_bNftAddress :: string
  pn_id :: "8 word"

record 'l erc20 =
  l_mint :: "string \<Rightarrow> uint256 \<Rightarrow> 'l \<Rightarrow> string + 'l"
  l_burn :: "string \<Rightarrow> uint256 \<Rightarrow> 'l \<Rightarrow> string + 'l"
  l_transfer :: "string \<Rightarrow> string \<Rightarrow> uint256 \<Rightarrow> 'l \<Rightarrow> string + 'l"
  l_balance :: "'l \<Rightarrow> string \<Rightarrow> uint256"
  l_total :: "'l \<Rightarrow> uint256"

definition erc20_laws :: "'l erc20 \<Rightarrow> bool" where
  "erc20_laws L \<longleftrightarrow>
     (\<forall>a v t t'. l_mint L a v t = Inr t' \<longrightarrow>
        unat (l_total L t') = unat (l_total L t) + unat v \<and>
        unat (l_balance L t' a) = unat (l_balance L t a) + unat v \<and>
        (\<forall>b. b \<noteq> a \<longrightarrow> l_balance L t' b = l_balance L t b)) \<and>
     (\<forall>a v t t'. l_burn L a v t = Inr t' \<longrightarrow>
        unat (l_total L t) = unat (l_total L t') + unat v \<and>
        unat (l_balance L t a) = unat (l_balance L t' a) + unat v \<and>
        (\<forall>b. b \<noteq> a \<longrightarrow> l_balance L t' b = l_balance L t b))"

text \<open>
  The pool: reserves and NFTs, with the lists of both, and, by the asset of the reserve, the tokens deployed for it; the delegated
  allowances of a debt token; the interest rate contracts by address; the pause; the loan book.
\<close>

record 'l pool =
  po_reserves :: "string \<Rightarrow> reserve_data"
  po_nfts :: "string \<Rightarrow> pool_nft"
  po_reservesList :: "uint256 \<Rightarrow> string"
  po_reservesCount :: uint256
  po_nftsList :: "uint256 \<Rightarrow> string"
  po_nftsCount :: uint256
  po_maxNumberOfReserves :: uint256
  po_maxNumberOfNfts :: uint256
  po_btoken :: "string \<Rightarrow> 'l"
  po_debt :: "string \<Rightarrow> 'l"
  po_allowances :: "string \<Rightarrow> string \<Rightarrow> string \<Rightarrow> uint256"
  po_treasury :: "string \<Rightarrow> string"
  po_rates :: "string \<Rightarrow> interest_rate"
  po_paused :: bool
  po_pauseStartTime :: uint256
  po_pauseDurationTime :: uint256
  po_book :: loan_book

text \<open>The pool after \<^verbatim>\<open>initialize\<close>; a storage that was never written is zero.\<close>

definition no_reserve :: reserve_data where
  "no_reserve = \<lparr>rd_configuration = 0, rd_liquidityIndex = 0, rd_variableBorrowIndex = 0,
     rd_currentLiquidityRate = 0, rd_currentVariableBorrowRate = 0, rd_lastUpdateTimestamp = 0,
     rd_bTokenAddress = ADDRESS_0, rd_debtTokenAddress = ADDRESS_0, rd_interestRateAddress = ADDRESS_0,
     rd_id = 0, rd_maxUtilizationRate = 0\<rparr>"

definition no_nft :: pool_nft where
  "no_nft = \<lparr>configuration = 0, nft_maxSupply = 0, nft_maxTokenId = 0, maxCollateralCap = 0,
     pn_bNftAddress = ADDRESS_0, pn_id = 0\<rparr>"

definition initial_pool :: "'l \<Rightarrow> (string \<Rightarrow> string) \<Rightarrow> (string \<Rightarrow> interest_rate) \<Rightarrow> 'l pool" where
  "initial_pool ledger treasuries rates = \<lparr>po_reserves = (\<lambda>_. no_reserve), po_nfts = (\<lambda>_. no_nft),
     po_reservesList = (\<lambda>_. ADDRESS_0), po_reservesCount = 0, po_nftsList = (\<lambda>_. ADDRESS_0), po_nftsCount = 0,
     po_maxNumberOfReserves = 32, po_maxNumberOfNfts = 256, po_btoken = (\<lambda>_. ledger), po_debt = (\<lambda>_. ledger),
     po_allowances = (\<lambda>_ _ _. 0), po_treasury = treasuries, po_rates = rates, po_paused = False,
     po_pauseStartTime = 0, po_pauseDurationTime = 0, po_book = initial_book\<rparr>"

definition on_book :: "(loan_book, 'a) tx \<Rightarrow> ('l pool, 'a) tx" where
  "on_book = tx_zoom po_book (\<lambda>b s. s\<lparr>po_book := b\<rparr>)"

definition pool_ext :: "env \<Rightarrow> ext_call \<Rightarrow> ('l pool, unit) tx" where
  "pool_ext E c = on_book (ext E c ''reverted'')"

definition set_reserve :: "string \<Rightarrow> reserve_data \<Rightarrow> ('l pool, unit) tx" where
  "set_reserve asset r = tx_write (\<lambda>s. s\<lparr>po_reserves := (po_reserves s)(asset := r)\<rparr>)"

section \<open>Tokens\<close>

definition set_debt :: "string \<Rightarrow> ('l \<Rightarrow> string + 'l) \<Rightarrow> ('l pool, unit) tx" where
  "set_debt asset f =
     tx_bind (tx_read (\<lambda>s. po_debt s asset)) (\<lambda>t.
     tx_bind (tx_lift (f t)) (\<lambda>t'. tx_write (\<lambda>s. s\<lparr>po_debt := (po_debt s)(asset := t')\<rparr>)))"

definition set_btoken :: "string \<Rightarrow> ('l \<Rightarrow> string + 'l) \<Rightarrow> ('l pool, unit) tx" where
  "set_btoken asset f =
     tx_bind (tx_read (\<lambda>s. po_btoken s asset)) (\<lambda>t.
     tx_bind (tx_lift (f t)) (\<lambda>t'. tx_write (\<lambda>s. s\<lparr>po_btoken := (po_btoken s)(asset := t')\<rparr>)))"

definition decreaseBorrowAllowance :: "string \<Rightarrow> string \<Rightarrow> string \<Rightarrow> uint256 \<Rightarrow> ('l pool, unit) tx" where
  "decreaseBorrowAllowance asset delegator delegatee amount =
     tx_bind (tx_read (\<lambda>s. po_allowances s asset delegator delegatee)) (\<lambda>a.
     tx_bind (tx_require (amount \<le> a) ''CT_BORROW_ALLOWANCE_NOT_ENOUGH'') (\<lambda>_.
     tx_write (\<lambda>s. s\<lparr>po_allowances := (po_allowances s)(asset :=
       set2 (po_allowances s asset) delegator delegatee (a - amount))\<rparr>)))"

definition approveDelegation :: "string \<Rightarrow> string \<Rightarrow> string \<Rightarrow> uint256 \<Rightarrow> ('l pool, unit) tx" where
  "approveDelegation asset sender delegatee amount =
     tx_write (\<lambda>s. s\<lparr>po_allowances := (po_allowances s)(asset :=
       set2 (po_allowances s asset) sender delegatee amount)\<rparr>)"

definition DebtToken_mint :: "'l erc20 \<Rightarrow> string \<Rightarrow> string \<Rightarrow> string \<Rightarrow> uint256 \<Rightarrow> uint256 \<Rightarrow> ('l pool, unit) tx" where
  "DebtToken_mint L asset initiator onBehalfOf amount index =
     tx_bind (if initiator \<noteq> onBehalfOf then decreaseBorrowAllowance asset onBehalfOf initiator amount
       else tx_return ()) (\<lambda>_.
     tx_bind (tx_lift (rayDiv amount index)) (\<lambda>amountScaled.
     tx_bind (tx_require (amountScaled \<noteq> 0) ''CT_INVALID_MINT_AMOUNT'') (\<lambda>_.
     set_debt asset (l_mint L onBehalfOf amountScaled))))"

definition DebtToken_burn :: "'l erc20 \<Rightarrow> string \<Rightarrow> string \<Rightarrow> uint256 \<Rightarrow> uint256 \<Rightarrow> ('l pool, unit) tx" where
  "DebtToken_burn L asset user amount index =
     tx_bind (tx_lift (rayDiv amount index)) (\<lambda>amountScaled.
     tx_bind (tx_require (amountScaled \<noteq> 0) ''CT_INVALID_BURN_AMOUNT'') (\<lambda>_.
     set_debt asset (l_burn L user amountScaled)))"

definition BToken_mint :: "'l erc20 \<Rightarrow> string \<Rightarrow> string \<Rightarrow> uint256 \<Rightarrow> uint256 \<Rightarrow> ('l pool, unit) tx" where
  "BToken_mint L asset user amount index =
     tx_bind (tx_lift (rayDiv amount index)) (\<lambda>amountScaled.
     tx_bind (tx_require (amountScaled \<noteq> 0) ''CT_INVALID_MINT_AMOUNT'') (\<lambda>_.
     set_btoken asset (l_mint L user amountScaled)))"

definition BToken_burn ::
  "env \<Rightarrow> 'l erc20 \<Rightarrow> string \<Rightarrow> string \<Rightarrow> string \<Rightarrow> string \<Rightarrow> uint256 \<Rightarrow> uint256 \<Rightarrow> ('l pool, unit) tx" where
  "BToken_burn E L asset bToken user receiver amount index =
     tx_bind (tx_lift (rayDiv amount index)) (\<lambda>amountScaled.
     tx_bind (tx_require (amountScaled \<noteq> 0) ''CT_INVALID_BURN_AMOUNT'') (\<lambda>_.
     tx_bind (set_btoken asset (l_burn L user amountScaled)) (\<lambda>_.
     pool_ext E (Erc20SafeTransfer asset bToken receiver amount))))"

definition BToken_mintToTreasury :: "'l erc20 \<Rightarrow> string \<Rightarrow> uint256 \<Rightarrow> uint256 \<Rightarrow> ('l pool, unit) tx" where
  "BToken_mintToTreasury L asset amount index =
     (if amount = 0 then tx_return () else
      tx_bind (tx_read (\<lambda>s. po_treasury s asset)) (\<lambda>treasury.
      tx_bind (tx_lift (rayDiv amount index)) (\<lambda>shares. set_btoken asset (l_mint L treasury shares))))"

definition transferUnderlyingTo :: "env \<Rightarrow> string \<Rightarrow> string \<Rightarrow> string \<Rightarrow> uint256 \<Rightarrow> ('l pool, unit) tx" where
  "transferUnderlyingTo E asset bToken target amount = pool_ext E (Erc20SafeTransfer asset bToken target amount)"

section \<open>Indexes\<close>

definition getNormalizedIncome :: "uint256 \<Rightarrow> reserve_data \<Rightarrow> string + uint256" where
  "getNormalizedIncome now r =
     (if rd_lastUpdateTimestamp r = ucast now then Inr (ucast (rd_liquidityIndex r)) else
      bind_revert (calculateLinearInterest now (ucast (rd_currentLiquidityRate r)) (rd_lastUpdateTimestamp r)) (\<lambda>i.
      rayMul i (ucast (rd_liquidityIndex r))))"

definition getNormalizedDebt :: "uint256 \<Rightarrow> reserve_data \<Rightarrow> string + uint256" where
  "getNormalizedDebt now r =
     (if rd_lastUpdateTimestamp r = ucast now then Inr (ucast (rd_variableBorrowIndex r)) else
      bind_revert (calculateCompoundedInterest now (ucast (rd_currentVariableBorrowRate r)) (rd_lastUpdateTimestamp r)) (\<lambda>i.
      rayMul i (ucast (rd_variableBorrowIndex r))))"

text \<open>\<^verbatim>\<open>_updateIndexes\<close>: the new indexes as \<^verbatim>\<open>uint256\<close>, and the reserve that stores them.\<close>

definition updateIndexes ::
  "uint256 \<Rightarrow> uint256 \<Rightarrow> uint256 \<Rightarrow> uint256 \<Rightarrow> uint40 \<Rightarrow> reserve_data \<Rightarrow> string + uint256 \<times> uint256 \<times> reserve_data" where
  "updateIndexes now scaledVariableDebt liquidityIndex borrowIndex timestamp r =
     bind_revert (if 0 < rd_currentLiquidityRate r then
       bind_revert (calculateLinearInterest now (ucast (rd_currentLiquidityRate r)) timestamp) (\<lambda>i.
       bind_revert (rayMul i liquidityIndex) (\<lambda>newLiquidityIndex.
       bind_revert (require (newLiquidityIndex \<le> UINT128_MAX) ''RL_LIQUIDITY_INDEX_OVERFLOW'') (\<lambda>_.
       let r1 = r\<lparr>rd_liquidityIndex := ucast newLiquidityIndex\<rparr> in
       if scaledVariableDebt \<noteq> 0 then
         bind_revert (calculateCompoundedInterest now (ucast (rd_currentVariableBorrowRate r)) timestamp) (\<lambda>j.
         bind_revert (rayMul j borrowIndex) (\<lambda>newBorrowIndex.
         bind_revert (require (newBorrowIndex \<le> UINT128_MAX) ''RL_VARIABLE_BORROW_INDEX_OVERFLOW'') (\<lambda>_.
         Inr (newLiquidityIndex, newBorrowIndex, r1\<lparr>rd_variableBorrowIndex := ucast newBorrowIndex\<rparr>))))
       else Inr (newLiquidityIndex, borrowIndex, r1))))
     else Inr (liquidityIndex, borrowIndex, r))
     (\<lambda>(l, b, r'). Inr (l, b, r'\<lparr>rd_lastUpdateTimestamp := ucast now\<rparr>))"

definition mintToTreasury :: "'l erc20 \<Rightarrow> string \<Rightarrow> uint256 \<Rightarrow> uint256 \<Rightarrow> uint256 \<Rightarrow> uint256 \<Rightarrow> ('l pool, unit) tx" where
  "mintToTreasury L asset scaledVariableDebt previousIndex newLiquidityIndex newIndex =
     tx_bind (tx_read (\<lambda>s. getReserveFactor (rd_configuration (po_reserves s asset)))) (\<lambda>factor.
     if factor = 0 then tx_return () else
     tx_bind (tx_lift (rayMul scaledVariableDebt previousIndex)) (\<lambda>previousVariableDebt.
     tx_bind (tx_lift (rayMul scaledVariableDebt newIndex)) (\<lambda>currentVariableDebt.
     tx_bind (tx_lift (checked_sub currentVariableDebt previousVariableDebt)) (\<lambda>totalDebtAccrued.
     tx_bind (tx_lift (percentMul totalDebtAccrued factor)) (\<lambda>amountToMint.
     if amountToMint \<noteq> 0 then BToken_mintToTreasury L asset amountToMint newLiquidityIndex
     else tx_return ())))))"

definition updateState :: "env \<Rightarrow> 'l erc20 \<Rightarrow> string \<Rightarrow> ('l pool, unit) tx" where
  "updateState E L asset =
     tx_bind (tx_read (\<lambda>s. (po_reserves s asset, l_total L (po_debt s asset)))) (\<lambda>(r, scaledVariableDebt).
     tx_bind (tx_lift (updateIndexes (e_now E) scaledVariableDebt (ucast (rd_liquidityIndex r))
       (ucast (rd_variableBorrowIndex r)) (rd_lastUpdateTimestamp r) r)) (\<lambda>(newLiquidityIndex, newIndex, r').
     tx_bind (set_reserve asset r') (\<lambda>_.
     mintToTreasury L asset scaledVariableDebt (ucast (rd_variableBorrowIndex r)) newLiquidityIndex newIndex)))"

definition updateInterestRates :: "env \<Rightarrow> 'l erc20 \<Rightarrow> string \<Rightarrow> uint256 \<Rightarrow> uint256 \<Rightarrow> ('l pool, unit) tx" where
  "updateInterestRates E L asset liquidityAdded liquidityTaken =
     tx_bind (tx_read (\<lambda>s. (po_reserves s asset, l_total L (po_debt s asset), lb_calls (po_book s),
       po_rates s (rd_interestRateAddress (po_reserves s asset))))) (\<lambda>(r, scaled, calls, ir).
     tx_bind (tx_lift (rayMul scaled (ucast (rd_variableBorrowIndex r)))) (\<lambda>totalVariableDebt.
     tx_bind (tx_lift (calculateInterestRates_of_pool ir (e_erc20_balance E calls asset (rd_bTokenAddress r))
       liquidityAdded liquidityTaken totalVariableDebt (getReserveFactor (rd_configuration r)))) (\<lambda>(l, b).
     tx_bind (tx_require (l \<le> UINT128_MAX) ''RL_LIQUIDITY_RATE_OVERFLOW'') (\<lambda>_.
     tx_bind (tx_require (b \<le> UINT128_MAX) ''RL_VARIABLE_BORROW_RATE_OVERFLOW'') (\<lambda>_.
     set_reserve asset (r\<lparr>rd_currentLiquidityRate := ucast l, rd_currentVariableBorrowRate := ucast b\<rparr>))))))"

text \<open>\<^verbatim>\<open>ReserveLogic.init\<close>, for a reserve that is added, and \<^verbatim>\<open>cumulateToLiquidityIndex\<close>, which no
  contract of the repository calls.\<close>

definition init_reserve :: "string \<Rightarrow> string \<Rightarrow> string \<Rightarrow> reserve_data \<Rightarrow> string + reserve_data" where
  "init_reserve bToken debtToken rate r =
     bind_revert (require (rd_bTokenAddress r = ADDRESS_0) ''RL_RESERVE_ALREADY_INITIALIZED'') (\<lambda>_.
     Inr (r\<lparr>rd_liquidityIndex := ucast RAY256, rd_variableBorrowIndex := ucast RAY256,
       rd_bTokenAddress := bToken, rd_debtTokenAddress := debtToken, rd_interestRateAddress := rate\<rparr>))"

definition cumulateToLiquidityIndex :: "uint256 \<Rightarrow> uint256 \<Rightarrow> reserve_data \<Rightarrow> string + reserve_data" where
  "cumulateToLiquidityIndex totalLiquidity amount r =
     bind_revert (wadToRay amount) (\<lambda>a. bind_revert (wadToRay totalLiquidity) (\<lambda>t.
     bind_revert (rayDiv a t) (\<lambda>ratio. bind_revert (checked_add ratio RAY256) (\<lambda>x.
     bind_revert (rayMul x (ucast (rd_liquidityIndex r))) (\<lambda>result.
     bind_revert (require (result \<le> UINT128_MAX) ''RL_LIQUIDITY_INDEX_OVERFLOW'') (\<lambda>_.
     Inr (r\<lparr>rd_liquidityIndex := ucast result\<rparr>)))))))"

end
