(* ===== verification/LoanMath.thy ===== *)
theory LoanMath
  imports Reserves
begin

text \<open>
  What a loan is worth: \<^verbatim>\<open>contracts/libraries/logic/GenericLogic.sol\<close> (debt, collateral, health factor,
  liquidation price, fine and end of an auction) and the checks of \<^verbatim>\<open>ValidationLogic.sol\<close>.  Prices come
  from the two oracles and are answers of the environment.
\<close>

section \<open>Debt and collateral\<close>

definition checked_pow10 :: "uint256 \<Rightarrow> string + uint256" where
  "checked_pow10 n = fits (10 ^ unat n) OVERFLOW"

definition getLoanReserveBorrowAmount :: "env \<Rightarrow> 'l pool \<Rightarrow> uint256 \<Rightarrow> string + uint256" where
  "getLoanReserveBorrowAmount E s i = (let l = lb_loans (po_book s) i in
     if ln_scaledAmount l = 0 then Inr 0 else
     bind_revert (getNormalizedDebt (e_now E) (po_reserves s (ln_reserveAsset l))) (\<lambda>n.
     rayMul (ln_scaledAmount l) n))"

definition calculateNftDebtData :: "env \<Rightarrow> 'l pool \<Rightarrow> string \<Rightarrow> uint256 \<Rightarrow> string + uint256 \<times> uint256" where
  "calculateNftDebtData E s reserve i =
     bind_revert (checked_pow10 (getDecimals (rd_configuration (po_reserves s reserve)))) (\<lambda>unit1.
     bind_revert (e_reserve_price E reserve) (\<lambda>price.
     bind_revert (getLoanReserveBorrowAmount E s i) (\<lambda>debt.
     bind_revert (checked_mul debt price) (\<lambda>p.
     bind_revert (checked_div p unit1) (\<lambda>inETH. Inr (inETH, debt))))))"

definition calculateNftCollateralData :: "env \<Rightarrow> 'l pool \<Rightarrow> string \<Rightarrow> string \<Rightarrow> string + uint256 \<times> uint256" where
  "calculateNftCollateralData E s reserve nft =
     bind_revert (e_nft_price E nft) (\<lambda>inETH.
     if reserve = ADDRESS_0 then Inr (inETH, 0) else
     bind_revert (checked_pow10 (getDecimals (rd_configuration (po_reserves s reserve)))) (\<lambda>unit1.
     bind_revert (e_reserve_price E reserve) (\<lambda>price.
     bind_revert (checked_mul inETH unit1) (\<lambda>p.
     bind_revert (checked_div p price) (\<lambda>inReserve. Inr (inETH, inReserve))))))"

definition calculateHealthFactorFromBalances :: "uint256 \<Rightarrow> uint256 \<Rightarrow> uint256 \<Rightarrow> string + uint256" where
  "calculateHealthFactorFromBalances totalCollateral totalDebt threshold =
     (if totalDebt = 0 then Inr UINT256_MAX else
      bind_revert (percentMul totalCollateral threshold) (\<lambda>c. wadDiv c totalDebt))"

definition calculateAvailableBorrows :: "uint256 \<Rightarrow> uint256 \<Rightarrow> uint256 \<Rightarrow> string + uint256" where
  "calculateAvailableBorrows totalCollateral totalDebt ltv =
     bind_revert (percentMul totalCollateral ltv) (\<lambda>availableBorrows.
     if availableBorrows < totalDebt then Inr 0 else checked_sub availableBorrows totalDebt)"

definition calculateLoanData :: "env \<Rightarrow> 'l pool \<Rightarrow> string \<Rightarrow> string \<Rightarrow> uint256 \<Rightarrow> string + uint256 \<times> uint256 \<times> uint256" where
  "calculateLoanData E s reserve nft i =
     bind_revert (if i \<noteq> 0 then calculateNftDebtData E s reserve i else Inr (0, 0)) (\<lambda>(_, debt).
     bind_revert (calculateNftCollateralData E s reserve nft) (\<lambda>(_, collateral).
     bind_revert (calculateHealthFactorFromBalances collateral debt
       (getLiquidationThreshold (configuration (po_nfts s nft)))) (\<lambda>health.
     Inr (collateral, debt, health))))"

text \<open>The borrowed amount, the threshold price, the price to liquidate at.\<close>

definition calculateLoanLiquidatePrice ::
  "env \<Rightarrow> 'l pool \<Rightarrow> uint256 \<Rightarrow> string \<Rightarrow> string \<Rightarrow> string + uint256 \<times> uint256 \<times> uint256" where
  "calculateLoanLiquidatePrice E s i reserve nft =
     (let config = configuration (po_nfts s nft); bonus = getLiquidationBonus config in
     bind_revert (getLoanReserveBorrowAmount E s i) (\<lambda>borrowAmount.
     bind_revert (e_nft_price E nft) (\<lambda>nftPrice.
     bind_revert (e_reserve_price E reserve) (\<lambda>reservePrice.
     bind_revert (checked_pow10 (getDecimals (rd_configuration (po_reserves s reserve)))) (\<lambda>unit1.
     bind_revert (checked_mul unit1 nftPrice) (\<lambda>p.
     bind_revert (checked_div p reservePrice) (\<lambda>priceInReserve.
     bind_revert (percentMul priceInReserve (getLiquidationThreshold config)) (\<lambda>thresholdPrice.
     bind_revert (if bonus < PERCENT
       then bind_revert (checked_sub PERCENT bonus) (\<lambda>share. percentMul priceInReserve share)
       else Inr 0) (\<lambda>liquidatePrice.
     Inr (borrowAmount, thresholdPrice,
       if liquidatePrice < borrowAmount then borrowAmount else liquidatePrice))))))))))"

text \<open>The fine for redeeming: at least the minimum, both zero before the first bid.\<close>

definition calculateLoanBidFine ::
  "env \<Rightarrow> 'l pool \<Rightarrow> string \<Rightarrow> string \<Rightarrow> loan_data \<Rightarrow> string + uint256 \<times> uint256" where
  "calculateLoanBidFine E s reserve nft l =
     (if ln_bidPrice l = 0 then Inr (0, 0) else
      let config = configuration (po_nfts s nft) in
      bind_revert (e_reserve_price E reserve) (\<lambda>price.
      bind_revert (checked_pow10 (getDecimals (rd_configuration (po_reserves s reserve)))) (\<lambda>unit1.
      bind_revert (checked_mul WAD256 unit1) (\<lambda>p.
      bind_revert (checked_div p price) (\<lambda>baseBidFine.
      bind_revert (percentMul baseBidFine (getMinBidFine config)) (\<lambda>minBidFine.
      bind_revert (getLoanReserveBorrowAmount E s (ln_loanId l)) (\<lambda>debt.
      bind_revert (percentMul debt (getRedeemFine config)) (\<lambda>bidFine.
      Inr (minBidFine, if bidFine < minBidFine then minBidFine else bidFine)))))))))"

text \<open>A pause that began after the first bid lengthens the auction by its duration.\<close>

definition extra_duration :: "'l pool \<Rightarrow> loan_data \<Rightarrow> uint256" where
  "extra_duration s l =
     (if 0 < po_pauseDurationTime s \<and> ln_bidStartTimestamp l \<le> po_pauseStartTime s
      then po_pauseDurationTime s else 0)"

definition end_after :: "'l pool \<Rightarrow> loan_data \<Rightarrow> uint256 \<Rightarrow> string + uint256" where
  "end_after s l hours =
     bind_revert (checked_add (ln_bidStartTimestamp l) (extra_duration s l)) (\<lambda>t.
     bind_revert (checked_mul hours 3600) (\<lambda>d. checked_add t d))"

definition calculateLoanAuctionEndTimestamp :: "'l pool \<Rightarrow> string \<Rightarrow> loan_data \<Rightarrow> string + uint256 \<times> uint256" where
  "calculateLoanAuctionEndTimestamp s nft l =
     bind_revert (end_after s l (getAuctionDuration (configuration (po_nfts s nft)))) (\<lambda>auctionEnd.
     bind_revert (end_after s l (getRedeemDuration (configuration (po_nfts s nft)))) (\<lambda>redeemEnd.
     Inr (auctionEnd, redeemEnd)))"

section \<open>Validation\<close>

definition validateDeposit :: "reserve_data \<Rightarrow> uint256 \<Rightarrow> string + unit" where
  "validateDeposit r amount = (case getReserveFlags (rd_configuration r) of (active, frozen, _, _) \<Rightarrow>
     bind_revert (require (amount \<noteq> 0) ''VL_INVALID_AMOUNT'') (\<lambda>_.
     bind_revert (require active ''VL_NO_ACTIVE_RESERVE'') (\<lambda>_.
     require (\<not> frozen) ''VL_RESERVE_FROZEN'')))"

definition validateWithdraw :: "reserve_data \<Rightarrow> uint256 \<Rightarrow> uint256 \<Rightarrow> string + unit" where
  "validateWithdraw r amount userBalance =
     bind_revert (require (amount \<noteq> 0) ''VL_INVALID_AMOUNT'') (\<lambda>_.
     bind_revert (require (amount \<le> userBalance) ''VL_NOT_ENOUGH_AVAILABLE_USER_BALANCE'') (\<lambda>_.
     require (fst (getReserveFlags (rd_configuration r))) ''VL_NO_ACTIVE_RESERVE''))"

definition validate_loan :: "'l pool \<Rightarrow> string \<Rightarrow> string \<Rightarrow> uint256 \<Rightarrow> string + unit" where
  "validate_loan s user reserve i = (let l = lb_loans (po_book s) i in
     if i = 0 then Inr () else
     bind_revert (require (ln_state l = LS_Active) ''LPL_INVALID_LOAN_STATE'') (\<lambda>_.
     bind_revert (require (reserve = ln_reserveAsset l) ''VL_SPECIFIED_RESERVE_NOT_BORROWED_BY_USER'') (\<lambda>_.
     require (user = ln_borrower l) ''VL_SPECIFIED_LOAN_NOT_BORROWED_BY_USER'')))"

definition validate_utilization :: "env \<Rightarrow> 'l erc20 \<Rightarrow> 'l pool \<Rightarrow> string \<Rightarrow> uint256 \<Rightarrow> string + unit" where
  "validate_utilization E L s reserve amount = (let r = po_reserves s reserve in
     bind_revert (rayMul (l_total L (po_debt s reserve)) (ucast (rd_variableBorrowIndex r))) (\<lambda>d.
     bind_revert (checked_add d amount) (\<lambda>totalDebt.
     bind_revert (checked_add (e_erc20_balance E (lb_calls (po_book s)) reserve (rd_bTokenAddress r)) totalDebt) (\<lambda>t.
     bind_revert (rayDiv totalDebt t) (\<lambda>u.
     require (u \<le> rd_maxUtilizationRate r) ''VL_EXCEED_MAX_UTILIZATION_RATE'')))))"

definition validateBorrow ::
  "env \<Rightarrow> 'l erc20 \<Rightarrow> 'l pool \<Rightarrow> string \<Rightarrow> string \<Rightarrow> uint256 \<Rightarrow> string \<Rightarrow> uint256 \<Rightarrow> string + unit" where
  "validateBorrow E L s user reserve amount nft i =
     (let r = po_reserves s reserve; n = po_nfts s nft in
     bind_revert (require (rd_bTokenAddress r \<noteq> ADDRESS_0) ''VL_INVALID_RESERVE_ADDRESS'') (\<lambda>_.
     bind_revert (require (pn_bNftAddress n \<noteq> ADDRESS_0) ''LPC_INVALIED_BNFT_ADDRESS'') (\<lambda>_.
     bind_revert (require (0 < amount) ''VL_INVALID_AMOUNT'') (\<lambda>_.
     bind_revert (validate_loan s user reserve i) (\<lambda>_.
     case getReserveFlags (rd_configuration r) of (active, frozen, borrowing, _) \<Rightarrow>
     bind_revert (require active ''VL_NO_ACTIVE_RESERVE'') (\<lambda>_.
     bind_revert (require (\<not> frozen) ''VL_RESERVE_FROZEN'') (\<lambda>_.
     bind_revert (require borrowing ''VL_BORROWING_NOT_ENABLED'') (\<lambda>_.
     bind_revert (require (getActive (configuration n)) ''VL_NO_ACTIVE_NFT'') (\<lambda>_.
     bind_revert (require (\<not> getFrozen (configuration n)) ''VL_NFT_FROZEN'') (\<lambda>_.
     bind_revert (require (\<not> e_price_stale E nft) ''VL_PRICE_STALE'') (\<lambda>_.
     bind_revert (validate_utilization E L s reserve amount) (\<lambda>_.
     bind_revert (calculateLoanData E s reserve nft i) (\<lambda>(collateral, debt, health).
     bind_revert (require (0 < collateral) ''VL_COLLATERAL_BALANCE_IS_0'') (\<lambda>_.
     bind_revert (require (WAD256 < health) ''VL_HEALTH_FACTOR_LOWER_THAN_LIQUIDATION_THRESHOLD'') (\<lambda>_.
     bind_revert (checked_add debt amount) (\<lambda>total.
     bind_revert (percentDiv total (getLtv (configuration n))) (\<lambda>needed.
     require (needed \<le> collateral) ''VL_COLLATERAL_CANNOT_COVER_NEW_BORROW'')))))))))))))))))"

text \<open>The checks that repaying, bidding, redeeming and liquidating begin with.\<close>

definition validate_active :: "reserve_data \<Rightarrow> pool_nft \<Rightarrow> string + unit" where
  "validate_active r n =
     bind_revert (require (pn_bNftAddress n \<noteq> ADDRESS_0) ''LPC_INVALIED_BNFT_ADDRESS'') (\<lambda>_.
     bind_revert (require (rd_bTokenAddress r \<noteq> ADDRESS_0) ''VL_INVALID_RESERVE_ADDRESS'') (\<lambda>_.
     bind_revert (require (getReserveActive (rd_configuration r)) ''VL_NO_ACTIVE_RESERVE'') (\<lambda>_.
     require (getActive (configuration n)) ''VL_NO_ACTIVE_NFT'')))"

definition validateRepay :: "reserve_data \<Rightarrow> pool_nft \<Rightarrow> loan_data \<Rightarrow> uint256 \<Rightarrow> uint256 \<Rightarrow> string + unit" where
  "validateRepay r n l amountSent borrowAmount =
     bind_revert (validate_active r n) (\<lambda>_.
     bind_revert (require (0 < amountSent) ''VL_INVALID_AMOUNT'') (\<lambda>_.
     bind_revert (require (0 < borrowAmount) ''VL_NO_DEBT_OF_SELECTED_TYPE'') (\<lambda>_.
     require (ln_state l = LS_Active) ''LPL_INVALID_LOAN_STATE'')))"

definition validateAuction :: "reserve_data \<Rightarrow> pool_nft \<Rightarrow> loan_data \<Rightarrow> uint256 \<Rightarrow> string + unit" where
  "validateAuction r n l bidPrice =
     bind_revert (validate_active r n) (\<lambda>_.
     bind_revert (require (ln_state l = LS_Active \<or> ln_state l = LS_Auction) ''LPL_INVALID_LOAN_STATE'') (\<lambda>_.
     require (0 < bidPrice) ''VL_INVALID_AMOUNT''))"

definition validateRedeem :: "reserve_data \<Rightarrow> pool_nft \<Rightarrow> loan_data \<Rightarrow> uint256 \<Rightarrow> string + unit" where
  "validateRedeem r n l amount =
     bind_revert (validate_active r n) (\<lambda>_.
     bind_revert (require (ln_state l = LS_Auction) ''LPL_INVALID_LOAN_STATE'') (\<lambda>_.
     bind_revert (require (ln_bidderAddress l \<noteq> ADDRESS_0) ''LPL_INVALID_BIDDER_ADDRESS'') (\<lambda>_.
     require (0 < amount) ''VL_INVALID_AMOUNT'')))"

definition validateLiquidate :: "reserve_data \<Rightarrow> pool_nft \<Rightarrow> loan_data \<Rightarrow> string + unit" where
  "validateLiquidate r n l =
     bind_revert (validate_active r n) (\<lambda>_.
     bind_revert (require (ln_state l = LS_Auction) ''LPL_INVALID_LOAN_STATE'') (\<lambda>_.
     require (ln_bidderAddress l \<noteq> ADDRESS_0) ''LPL_INVALID_BIDDER_ADDRESS''))"

end
