(* ===== verification/Pool.thy ===== *)
theory Pool
  imports LoanMath
begin

text \<open>
  The operations of \<^verbatim>\<open>contracts/protocol/LendPool.sol\<close>, one transaction each, with the libraries
  that carry them out: \<^verbatim>\<open>SupplyLogic.sol\<close>, \<^verbatim>\<open>BorrowLogic.sol\<close> and \<^verbatim>\<open>LiquidateLogic.sol\<close> under
  \<^verbatim>\<open>contracts/libraries/logic\<close>.  The pool holds the bids of running auctions itself; deposits and
  repayments are held by the bToken of the reserve.
\<close>

section \<open>Deposits and withdrawals\<close>

definition deposit_logic :: "env \<Rightarrow> 'l erc20 \<Rightarrow> string \<Rightarrow> string \<Rightarrow> uint256 \<Rightarrow> string \<Rightarrow> ('l pool, unit) tx" where
  "deposit_logic E L initiator asset amount onBehalfOf =
     tx_bind (tx_require (onBehalfOf \<noteq> ADDRESS_0) ''VL_INVALID_ONBEHALFOF_ADDRESS'') (\<lambda>_.
     tx_bind (tx_read (\<lambda>s. po_reserves s asset)) (\<lambda>r.
     tx_bind (tx_require (rd_bTokenAddress r \<noteq> ADDRESS_0) ''VL_INVALID_RESERVE_ADDRESS'') (\<lambda>_.
     tx_bind (tx_lift (validateDeposit r amount)) (\<lambda>_.
     tx_bind (updateState E L asset) (\<lambda>_.
     tx_bind (updateInterestRates E L asset amount 0) (\<lambda>_.
     tx_bind (pool_ext E (Erc20SafeTransferFrom asset initiator (rd_bTokenAddress r) amount)) (\<lambda>_.
     tx_bind (tx_read (\<lambda>s. rd_liquidityIndex (po_reserves s asset))) (\<lambda>index.
     BToken_mint L asset onBehalfOf amount (ucast index)))))))))"

definition withdraw_logic :: "env \<Rightarrow> 'l erc20 \<Rightarrow> string \<Rightarrow> string \<Rightarrow> uint256 \<Rightarrow> string \<Rightarrow> ('l pool, uint256) tx" where
  "withdraw_logic E L initiator asset amount to =
     tx_bind (tx_require (to \<noteq> ADDRESS_0) ''VL_INVALID_TARGET_ADDRESS'') (\<lambda>_.
     tx_bind (tx_read (\<lambda>s. (po_reserves s asset, l_balance L (po_btoken s asset) initiator))) (\<lambda>(r, scaled).
     tx_bind (tx_require (rd_bTokenAddress r \<noteq> ADDRESS_0) ''VL_INVALID_RESERVE_ADDRESS'') (\<lambda>_.
     tx_bind (tx_lift (getNormalizedIncome (e_now E) r)) (\<lambda>n.
     tx_bind (tx_lift (rayMul scaled n)) (\<lambda>userBalance.
     let amountToWithdraw = (if amount = UINT256_MAX then userBalance else amount) in
     tx_bind (tx_lift (validateWithdraw r amountToWithdraw userBalance)) (\<lambda>_.
     tx_bind (updateState E L asset) (\<lambda>_.
     tx_bind (updateInterestRates E L asset 0 amountToWithdraw) (\<lambda>_.
     tx_bind (tx_read (\<lambda>s. rd_liquidityIndex (po_reserves s asset))) (\<lambda>index.
     tx_bind (BToken_burn E L asset (rd_bTokenAddress r) initiator to amountToWithdraw (ucast index)) (\<lambda>_.
     tx_return amountToWithdraw))))))))))"

section \<open>Loans\<close>

definition borrow_index :: "string \<Rightarrow> 'l pool \<Rightarrow> uint256" where
  "borrow_index asset s = ucast (rd_variableBorrowIndex (po_reserves s asset))"

text \<open>The two branches of \<^verbatim>\<open>_borrow\<close>: a first loan on the NFT, or more of the loan it secures.\<close>

definition open_or_extend ::
  "env \<Rightarrow> string \<Rightarrow> string \<Rightarrow> uint256 \<Rightarrow> string \<Rightarrow> uint256 \<Rightarrow> string \<Rightarrow> uint256 \<Rightarrow> ('l pool, uint256) tx" where
  "open_or_extend E initiator asset amount nft token onBehalfOf i =
     (if i = 0 then
        tx_bind (tx_read (\<lambda>s. (e_nft_supply E (lb_calls (po_book s)) (pn_bNftAddress (po_nfts s nft)), po_nfts s nft))) (\<lambda>(supply, n).
        tx_bind (tx_require (supply < maxCollateralCap n) ''LP_NFT_COLLATERAL_NUM_EXCEED_CAP_LIMIT'') (\<lambda>_.
        tx_bind (pool_ext E (NftSafeTransferFrom nft initiator (e_pool E) token)) (\<lambda>_.
        tx_bind (tx_read (borrow_index asset)) (\<lambda>index.
        on_book (createLoan E (e_pool E) onBehalfOf nft token (pn_bNftAddress n) asset amount index)))))
      else
        tx_bind (tx_read (borrow_index asset)) (\<lambda>index.
        tx_bind (on_book (updateLoan E (e_pool E) i amount 0 index)) (\<lambda>_. tx_return i)))"

definition borrow_logic ::
  "env \<Rightarrow> 'l erc20 \<Rightarrow> string \<Rightarrow> string \<Rightarrow> uint256 \<Rightarrow> string \<Rightarrow> uint256 \<Rightarrow> string \<Rightarrow> ('l pool, unit) tx" where
  "borrow_logic E L initiator asset amount nft token onBehalfOf =
     tx_bind (tx_require (onBehalfOf \<noteq> ADDRESS_0) ''VL_INVALID_ONBEHALFOF_ADDRESS'') (\<lambda>_.
     tx_bind (updateState E L asset) (\<lambda>_.
     tx_bind (tx_read (\<lambda>s. (lb_nftToLoanIds (po_book s) nft token, po_nfts s nft,
       e_nft_supply E (lb_calls (po_book s)) nft))) (\<lambda>(i, n, supply).
     tx_bind (tx_require (supply \<le> nft_maxSupply n) ''LP_NFT_SUPPLY_NUM_EXCEED_MAX_LIMIT'') (\<lambda>_.
     tx_bind (tx_require (token \<le> nft_maxTokenId n) ''LP_NFT_TOKEN_ID_EXCEED_MAX_LIMIT'') (\<lambda>_.
     tx_bind (tx_read (\<lambda>s. validateBorrow E L s onBehalfOf asset amount nft i)) (\<lambda>valid.
     tx_bind (tx_lift valid) (\<lambda>_.
     tx_bind (open_or_extend E initiator asset amount nft token onBehalfOf i) (\<lambda>_.
     tx_bind (tx_read (borrow_index asset)) (\<lambda>index.
     tx_bind (DebtToken_mint L asset initiator onBehalfOf amount index) (\<lambda>_.
     tx_bind (updateInterestRates E L asset 0 amount) (\<lambda>_.
     tx_bind (tx_read (\<lambda>s. rd_bTokenAddress (po_reserves s asset))) (\<lambda>bToken.
     transferUnderlyingTo E asset bToken initiator amount))))))))))))"

definition repay_logic :: "env \<Rightarrow> 'l erc20 \<Rightarrow> string \<Rightarrow> string \<Rightarrow> uint256 \<Rightarrow> uint256 \<Rightarrow> ('l pool, uint256 \<times> bool) tx" where
  "repay_logic E L initiator nft token amount =
     tx_bind (tx_read (\<lambda>s. lb_nftToLoanIds (po_book s) nft token)) (\<lambda>i.
     tx_bind (tx_require (i \<noteq> 0) ''LP_NFT_IS_NOT_USED_AS_COLLATERAL'') (\<lambda>_.
     tx_bind (tx_read (\<lambda>s. lb_loans (po_book s) i)) (\<lambda>l. let asset = ln_reserveAsset l in
     tx_bind (updateState E L asset) (\<lambda>_.
     tx_bind (tx_read (\<lambda>s. getLoanReserveBorrowAmount E s i)) (\<lambda>debt.
     tx_bind (tx_lift debt) (\<lambda>borrowAmount.
     tx_bind (tx_read (\<lambda>s. (po_reserves s asset, po_nfts s (ln_nftAsset l)))) (\<lambda>(r, n).
     tx_bind (tx_lift (validateRepay r n l amount borrowAmount)) (\<lambda>_.
     let isUpdate = (amount < borrowAmount); repayAmount = (if isUpdate then amount else borrowAmount) in
     tx_bind (if isUpdate
       then on_book (updateLoan E (e_pool E) i 0 repayAmount (ucast (rd_variableBorrowIndex r)))
       else on_book (LendPoolLoan_repayLoan E (e_pool E) i (pn_bNftAddress n))) (\<lambda>_.
     tx_bind (DebtToken_burn L asset (ln_borrower l) repayAmount (ucast (rd_variableBorrowIndex r))) (\<lambda>_.
     tx_bind (updateInterestRates E L asset repayAmount 0) (\<lambda>_.
     tx_bind (pool_ext E (Erc20SafeTransferFrom asset initiator (rd_bTokenAddress r) repayAmount)) (\<lambda>_.
     tx_bind (if isUpdate then tx_return ()
       else pool_ext E (NftSafeTransferFrom (ln_nftAsset l) (e_pool E) (ln_borrower l) token)) (\<lambda>_.
     tx_return (repayAmount, \<not> isUpdate))))))))))))))"

section \<open>Auctions\<close>

definition first_bid_checks :: "uint256 \<Rightarrow> uint256 \<Rightarrow> uint256 \<Rightarrow> uint256 \<Rightarrow> string + unit" where
  "first_bid_checks bidPrice borrowAmount thresholdPrice liquidatePrice =
     bind_revert (require (thresholdPrice < borrowAmount) ''LP_BORROW_NOT_EXCEED_LIQUIDATION_THRESHOLD'') (\<lambda>_.
     bind_revert (require (borrowAmount \<le> bidPrice) ''LPL_BID_PRICE_LESS_THAN_BORROW'') (\<lambda>_.
     require (liquidatePrice \<le> bidPrice) ''LPL_BID_PRICE_LESS_THAN_LIQUIDATION_PRICE''))"

definition next_bid_checks :: "env \<Rightarrow> 'l pool \<Rightarrow> loan_data \<Rightarrow> uint256 \<Rightarrow> uint256 \<Rightarrow> string + unit" where
  "next_bid_checks E s l bidPrice borrowAmount =
     bind_revert (require (borrowAmount \<le> bidPrice) ''LPL_BID_PRICE_LESS_THAN_BORROW'') (\<lambda>_.
     bind_revert (end_after s l (getAuctionDuration (configuration (po_nfts s (ln_nftAsset l))))) (\<lambda>auctionEnd.
     bind_revert (require (e_now E \<le> auctionEnd) ''LPL_BID_AUCTION_DURATION_HAS_END'') (\<lambda>_.
     bind_revert (percentMul borrowAmount ONE_PERCENT) (\<lambda>minBidDelta.
     bind_revert (checked_add (ln_bidPrice l) minBidDelta) (\<lambda>least.
     require (least \<le> bidPrice) ''LPL_BID_PRICE_LESS_THAN_HIGHEST_PRICE'')))))"

definition auction_logic :: "env \<Rightarrow> 'l erc20 \<Rightarrow> string \<Rightarrow> string \<Rightarrow> uint256 \<Rightarrow> uint256 \<Rightarrow> string \<Rightarrow> ('l pool, unit) tx" where
  "auction_logic E L initiator nft token bidPrice onBehalfOf =
     tx_bind (tx_require (onBehalfOf \<noteq> ADDRESS_0) ''VL_INVALID_ONBEHALFOF_ADDRESS'') (\<lambda>_.
     tx_bind (tx_read (\<lambda>s. lb_nftToLoanIds (po_book s) nft token)) (\<lambda>i.
     tx_bind (tx_require (i \<noteq> 0) ''LP_NFT_IS_NOT_USED_AS_COLLATERAL'') (\<lambda>_.
     tx_bind (tx_read (\<lambda>s. lb_loans (po_book s) i)) (\<lambda>l. let asset = ln_reserveAsset l in
     tx_bind (tx_read (\<lambda>s. validateAuction (po_reserves s asset) (po_nfts s (ln_nftAsset l)) l bidPrice)) (\<lambda>valid.
     tx_bind (tx_lift valid) (\<lambda>_.
     tx_bind (updateState E L asset) (\<lambda>_.
     tx_bind (tx_read (\<lambda>s. calculateLoanLiquidatePrice E s i asset (ln_nftAsset l))) (\<lambda>prices.
     tx_bind (tx_lift prices) (\<lambda>(borrowAmount, thresholdPrice, liquidatePrice).
     tx_bind (tx_read (\<lambda>s. if ln_state l = LS_Active
       then first_bid_checks bidPrice borrowAmount thresholdPrice liquidatePrice
       else next_bid_checks E s l bidPrice borrowAmount)) (\<lambda>checks.
     tx_bind (tx_lift checks) (\<lambda>_.
     tx_bind (on_book (auctionLoan E (e_pool E) i onBehalfOf bidPrice borrowAmount)) (\<lambda>_.
     tx_bind (pool_ext E (Erc20SafeTransferFrom asset initiator (e_pool E) bidPrice)) (\<lambda>_.
     tx_bind (if ln_bidderAddress l \<noteq> ADDRESS_0
       then pool_ext E (Erc20SafeTransfer asset (e_pool E) (ln_bidderAddress l) (ln_bidPrice l))
       else tx_return ()) (\<lambda>_.
     updateInterestRates E L asset 0 0))))))))))))))"

definition redeem_logic :: "env \<Rightarrow> 'l erc20 \<Rightarrow> string \<Rightarrow> string \<Rightarrow> uint256 \<Rightarrow> uint256 \<Rightarrow> uint256 \<Rightarrow> ('l pool, uint256) tx" where
  "redeem_logic E L initiator nft token amount maxBidFine =
     tx_bind (tx_read (\<lambda>s. lb_nftToLoanIds (po_book s) nft token)) (\<lambda>i.
     tx_bind (tx_require (i \<noteq> 0) ''LP_NFT_IS_NOT_USED_AS_COLLATERAL'') (\<lambda>_.
     tx_bind (tx_read (\<lambda>s. lb_loans (po_book s) i)) (\<lambda>l. let asset = ln_reserveAsset l in
     tx_bind (tx_read (\<lambda>s. (validateRedeem (po_reserves s asset) (po_nfts s (ln_nftAsset l)) l amount,
       end_after s l (getRedeemDuration (configuration (po_nfts s (ln_nftAsset l))))))) (\<lambda>(valid, redeemEnd).
     tx_bind (tx_lift valid) (\<lambda>_.
     tx_bind (tx_lift redeemEnd) (\<lambda>redeemEnd.
     tx_bind (tx_require (e_now E \<le> redeemEnd) ''LPL_BID_REDEEM_DURATION_HAS_END'') (\<lambda>_.
     tx_bind (updateState E L asset) (\<lambda>_.
     tx_bind (tx_read (\<lambda>s. (calculateLoanLiquidatePrice E s i asset (ln_nftAsset l),
       calculateLoanBidFine E s asset (ln_nftAsset l) l))) (\<lambda>(prices, fines).
     tx_bind (tx_lift prices) (\<lambda>(borrowAmount, _, _).
     tx_bind (tx_lift fines) (\<lambda>(_, bidFine).
     tx_bind (tx_require (bidFine \<le> maxBidFine) ''LPL_INVALID_BID_FINE'') (\<lambda>_.
     tx_bind (tx_read (\<lambda>s. (po_reserves s asset, getRedeemThreshold (configuration (po_nfts s (ln_nftAsset l)))))) (\<lambda>(r, redeemThreshold).
     tx_bind (tx_lift (percentMul borrowAmount redeemThreshold)) (\<lambda>minRepayAmount.
     tx_bind (tx_require (minRepayAmount \<le> amount) ''LP_AMOUNT_LESS_THAN_REDEEM_THRESHOLD'') (\<lambda>_.
     tx_bind (tx_lift (percentMul borrowAmount (PERCENT - TEN_PERCENT))) (\<lambda>maxRepayAmount.
     tx_bind (tx_require (amount \<le> maxRepayAmount) ''LP_AMOUNT_GREATER_THAN_MAX_REPAY'') (\<lambda>_.
     tx_bind (on_book (redeemLoan E (e_pool E) i amount (ucast (rd_variableBorrowIndex r)))) (\<lambda>_.
     tx_bind (DebtToken_burn L asset (ln_borrower l) amount (ucast (rd_variableBorrowIndex r))) (\<lambda>_.
     tx_bind (updateInterestRates E L asset amount 0) (\<lambda>_.
     tx_bind (pool_ext E (Erc20SafeTransferFrom asset initiator (rd_bTokenAddress r) amount)) (\<lambda>_.
     tx_bind (if ln_bidderAddress l \<noteq> ADDRESS_0 then
         tx_bind (pool_ext E (Erc20SafeTransfer asset (e_pool E) (ln_bidderAddress l) (ln_bidPrice l))) (\<lambda>_.
         pool_ext E (Erc20SafeTransferFrom asset initiator (ln_firstBidderAddress l) bidFine))
       else tx_return ()) (\<lambda>_.
     tx_lift (checked_add amount bidFine)))))))))))))))))))))))"

definition liquidate_logic :: "env \<Rightarrow> 'l erc20 \<Rightarrow> string \<Rightarrow> string \<Rightarrow> uint256 \<Rightarrow> uint256 \<Rightarrow> ('l pool, uint256) tx" where
  "liquidate_logic E L initiator nft token amount =
     tx_bind (tx_read (\<lambda>s. lb_nftToLoanIds (po_book s) nft token)) (\<lambda>i.
     tx_bind (tx_require (i \<noteq> 0) ''LP_NFT_IS_NOT_USED_AS_COLLATERAL'') (\<lambda>_.
     tx_bind (tx_read (\<lambda>s. lb_loans (po_book s) i)) (\<lambda>l. let asset = ln_reserveAsset l in
     tx_bind (tx_read (\<lambda>s. (validateLiquidate (po_reserves s asset) (po_nfts s (ln_nftAsset l)) l,
       end_after s l (getAuctionDuration (configuration (po_nfts s (ln_nftAsset l))))))) (\<lambda>(valid, auctionEnd).
     tx_bind (tx_lift valid) (\<lambda>_.
     tx_bind (tx_lift auctionEnd) (\<lambda>auctionEnd.
     tx_bind (tx_require (auctionEnd < e_now E) ''LPL_BID_AUCTION_DURATION_NOT_END'') (\<lambda>_.
     tx_bind (updateState E L asset) (\<lambda>_.
     tx_bind (tx_read (\<lambda>s. calculateLoanLiquidatePrice E s i asset (ln_nftAsset l))) (\<lambda>prices.
     tx_bind (tx_lift prices) (\<lambda>(borrowAmount, _, _).
     let extraDebtAmount = (if ln_bidPrice l < borrowAmount then borrowAmount - ln_bidPrice l else 0);
         remainAmount = (if borrowAmount < ln_bidPrice l then ln_bidPrice l - borrowAmount else 0) in
     tx_bind (tx_require (extraDebtAmount \<le> amount) ''LP_AMOUNT_LESS_THAN_EXTRA_DEBT'') (\<lambda>_.
     tx_bind (tx_read (\<lambda>s. (po_reserves s asset, po_nfts s (ln_nftAsset l)))) (\<lambda>(r, n).
     tx_bind (on_book (liquidateLoan E (e_pool E) i (pn_bNftAddress n) borrowAmount)) (\<lambda>_.
     tx_bind (DebtToken_burn L asset (ln_borrower l) borrowAmount (ucast (rd_variableBorrowIndex r))) (\<lambda>_.
     tx_bind (updateInterestRates E L asset borrowAmount 0) (\<lambda>_.
     tx_bind (if 0 < extraDebtAmount
       then pool_ext E (Erc20SafeTransferFrom asset initiator (e_pool E) extraDebtAmount) else tx_return ()) (\<lambda>_.
     tx_bind (pool_ext E (Erc20SafeTransfer asset (e_pool E) (rd_bTokenAddress r) borrowAmount)) (\<lambda>_.
     tx_bind (if 0 < remainAmount
       then pool_ext E (Erc20SafeTransfer asset (e_pool E) (ln_borrower l) remainAmount) else tx_return ()) (\<lambda>_.
     tx_bind (pool_ext E (NftSafeTransferFrom (ln_nftAsset l) (e_pool E) (ln_bidderAddress l) token)) (\<lambda>_.
     tx_return extraDebtAmount)))))))))))))))))))"

section \<open>The pool\<close>

definition whenNotPaused :: "('l pool, 'a) tx \<Rightarrow> ('l pool, 'a) tx" where
  "whenNotPaused m = tx_bind (tx_read po_paused) (\<lambda>p. tx_bind (tx_require (\<not> p) ''LP_IS_PAUSED'') (\<lambda>_. m))"

definition pool_deposit :: "env \<Rightarrow> 'l erc20 \<Rightarrow> string \<Rightarrow> string \<Rightarrow> uint256 \<Rightarrow> string \<Rightarrow> ('l pool, unit) tx" where
  "pool_deposit E L sender asset amount onBehalfOf = whenNotPaused (deposit_logic E L sender asset amount onBehalfOf)"

definition pool_withdraw :: "env \<Rightarrow> 'l erc20 \<Rightarrow> string \<Rightarrow> string \<Rightarrow> uint256 \<Rightarrow> string \<Rightarrow> ('l pool, uint256) tx" where
  "pool_withdraw E L sender asset amount to = whenNotPaused (withdraw_logic E L sender asset amount to)"

definition pool_borrow ::
  "env \<Rightarrow> 'l erc20 \<Rightarrow> string \<Rightarrow> string \<Rightarrow> uint256 \<Rightarrow> string \<Rightarrow> uint256 \<Rightarrow> string \<Rightarrow> ('l pool, unit) tx" where
  "pool_borrow E L sender asset amount nft token onBehalfOf =
     whenNotPaused (borrow_logic E L sender asset amount nft token onBehalfOf)"

definition pool_repay :: "env \<Rightarrow> 'l erc20 \<Rightarrow> string \<Rightarrow> string \<Rightarrow> uint256 \<Rightarrow> uint256 \<Rightarrow> ('l pool, uint256 \<times> bool) tx" where
  "pool_repay E L sender nft token amount = whenNotPaused (repay_logic E L sender nft token amount)"

definition pool_auction :: "env \<Rightarrow> 'l erc20 \<Rightarrow> string \<Rightarrow> string \<Rightarrow> uint256 \<Rightarrow> uint256 \<Rightarrow> string \<Rightarrow> ('l pool, unit) tx" where
  "pool_auction E L sender nft token bidPrice onBehalfOf =
     whenNotPaused (auction_logic E L sender nft token bidPrice onBehalfOf)"

definition pool_redeem :: "env \<Rightarrow> 'l erc20 \<Rightarrow> string \<Rightarrow> string \<Rightarrow> uint256 \<Rightarrow> uint256 \<Rightarrow> uint256 \<Rightarrow> ('l pool, uint256) tx" where
  "pool_redeem E L sender nft token amount bidFine = whenNotPaused (redeem_logic E L sender nft token amount bidFine)"

definition pool_liquidate :: "env \<Rightarrow> 'l erc20 \<Rightarrow> string \<Rightarrow> string \<Rightarrow> uint256 \<Rightarrow> uint256 \<Rightarrow> ('l pool, uint256) tx" where
  "pool_liquidate E L sender nft token amount = whenNotPaused (liquidate_logic E L sender nft token amount)"

text \<open>The batches: \<^verbatim>\<open>executeBatchBorrow\<close> and \<^verbatim>\<open>executeBatchRepay\<close>, all or nothing.\<close>

fun borrow_each ::
  "env \<Rightarrow> 'l erc20 \<Rightarrow> string \<Rightarrow> string list \<Rightarrow> uint256 list \<Rightarrow> string list \<Rightarrow> uint256 list \<Rightarrow> string \<Rightarrow> ('l pool, unit) tx" where
  "borrow_each E L sender (a # as) (m # ms) (n # ns) (t # ts) onBehalfOf =
     tx_bind (borrow_logic E L sender a m n t onBehalfOf) (\<lambda>_. borrow_each E L sender as ms ns ts onBehalfOf)"
| "borrow_each E L sender _ _ _ _ onBehalfOf = tx_return ()"

definition pool_batchBorrow ::
  "env \<Rightarrow> 'l erc20 \<Rightarrow> string \<Rightarrow> string list \<Rightarrow> uint256 list \<Rightarrow> string list \<Rightarrow> uint256 list \<Rightarrow> string \<Rightarrow> ('l pool, unit) tx" where
  "pool_batchBorrow E L sender assets amounts nfts tokens onBehalfOf =
     whenNotPaused (tx_bind (tx_require (length nfts = length assets) ''inconsistent assets length'') (\<lambda>_.
     tx_bind (tx_require (length nfts = length amounts) ''inconsistent amounts length'') (\<lambda>_.
     tx_bind (tx_require (length nfts = length tokens) ''inconsistent tokenIds length'') (\<lambda>_.
     borrow_each E L sender assets amounts nfts tokens onBehalfOf))))"

fun repay_each ::
  "env \<Rightarrow> 'l erc20 \<Rightarrow> string \<Rightarrow> string list \<Rightarrow> uint256 list \<Rightarrow> uint256 list \<Rightarrow> ('l pool, (uint256 \<times> bool) list) tx" where
  "repay_each E L sender (n # ns) (t # ts) (m # ms) =
     tx_bind (repay_logic E L sender n t m) (\<lambda>r.
     tx_bind (repay_each E L sender ns ts ms) (\<lambda>rs. tx_return (r # rs)))"
| "repay_each E L sender _ _ _ = tx_return []"

definition pool_batchRepay ::
  "env \<Rightarrow> 'l erc20 \<Rightarrow> string \<Rightarrow> string list \<Rightarrow> uint256 list \<Rightarrow> uint256 list \<Rightarrow> ('l pool, (uint256 \<times> bool) list) tx" where
  "pool_batchRepay E L sender nfts tokens amounts =
     whenNotPaused (tx_bind (tx_require (length nfts = length amounts) ''inconsistent amounts length'') (\<lambda>_.
     tx_bind (tx_require (length nfts = length tokens) ''inconsistent tokenIds length'') (\<lambda>_.
     repay_each E L sender nfts tokens amounts)))"

definition setPause :: "env \<Rightarrow> string \<Rightarrow> bool \<Rightarrow> ('l pool, unit) tx" where
  "setPause E sender val =
     tx_bind (tx_require (sender = e_configurator E) ''LP_CALLER_NOT_LEND_POOL_CONFIGURATOR'') (\<lambda>_.
     tx_bind (tx_read id) (\<lambda>s.
     if po_paused s = val then tx_return ()
     else if val then tx_write (\<lambda>s. s\<lparr>po_paused := val, po_pauseStartTime := e_now E\<rparr>)
     else tx_bind (tx_lift (checked_sub (e_now E) (po_pauseStartTime s))) (\<lambda>d.
       tx_write (\<lambda>s. s\<lparr>po_paused := val, po_pauseDurationTime := d\<rparr>))))"

definition setPausedTime :: "env \<Rightarrow> string \<Rightarrow> uint256 \<Rightarrow> uint256 \<Rightarrow> ('l pool, unit) tx" where
  "setPausedTime E sender startTime durationTime =
     tx_bind (tx_require (sender = e_configurator E) ''LP_CALLER_NOT_LEND_POOL_CONFIGURATOR'') (\<lambda>_.
     tx_write (\<lambda>s. s\<lparr>po_pauseStartTime := startTime, po_pauseDurationTime := durationTime\<rparr>))"

section \<open>The configurator\<close>

definition configure_reserve :: "env \<Rightarrow> string \<Rightarrow> string \<Rightarrow> (reserve_data \<Rightarrow> reserve_data) \<Rightarrow> ('l pool, unit) tx" where
  "configure_reserve E sender asset f =
     tx_bind (tx_require (sender = e_configurator E) ''LP_CALLER_NOT_LEND_POOL_CONFIGURATOR'') (\<lambda>_.
     tx_write (\<lambda>s. s\<lparr>po_reserves := (po_reserves s)(asset := f (po_reserves s asset))\<rparr>))"

definition configure_nft :: "env \<Rightarrow> string \<Rightarrow> string \<Rightarrow> (pool_nft \<Rightarrow> pool_nft) \<Rightarrow> ('l pool, unit) tx" where
  "configure_nft E sender asset f =
     tx_bind (tx_require (sender = e_configurator E) ''LP_CALLER_NOT_LEND_POOL_CONFIGURATOR'') (\<lambda>_.
     tx_write (\<lambda>s. s\<lparr>po_nfts := (po_nfts s)(asset := f (po_nfts s asset))\<rparr>))"

definition setReserveInterestRateAddress :: "env \<Rightarrow> string \<Rightarrow> string \<Rightarrow> string \<Rightarrow> ('l pool, unit) tx" where
  "setReserveInterestRateAddress E sender asset rateAddress =
     configure_reserve E sender asset (\<lambda>r. r\<lparr>rd_interestRateAddress := rateAddress\<rparr>)"

definition setReserveMaxUtilizationRate :: "env \<Rightarrow> string \<Rightarrow> string \<Rightarrow> uint256 \<Rightarrow> ('l pool, unit) tx" where
  "setReserveMaxUtilizationRate E sender asset maxUtilRate =
     configure_reserve E sender asset (\<lambda>r. r\<lparr>rd_maxUtilizationRate := maxUtilRate\<rparr>)"

definition setReserveConfiguration :: "env \<Rightarrow> string \<Rightarrow> string \<Rightarrow> uint256 \<Rightarrow> ('l pool, unit) tx" where
  "setReserveConfiguration E sender asset data =
     configure_reserve E sender asset (\<lambda>r. r\<lparr>rd_configuration := data\<rparr>)"

definition setNftConfiguration :: "env \<Rightarrow> string \<Rightarrow> string \<Rightarrow> uint256 \<Rightarrow> ('l pool, unit) tx" where
  "setNftConfiguration E sender asset data = configure_nft E sender asset (\<lambda>n. n\<lparr>configuration := data\<rparr>)"

definition setNftMaxSupplyAndTokenId :: "env \<Rightarrow> string \<Rightarrow> string \<Rightarrow> uint256 \<Rightarrow> uint256 \<Rightarrow> ('l pool, unit) tx" where
  "setNftMaxSupplyAndTokenId E sender asset supply token =
     configure_nft E sender asset (\<lambda>n. n\<lparr>nft_maxSupply := supply, nft_maxTokenId := token\<rparr>)"

definition setNftMaxCollateralCap :: "env \<Rightarrow> string \<Rightarrow> string \<Rightarrow> uint256 \<Rightarrow> ('l pool, unit) tx" where
  "setNftMaxCollateralCap E sender asset maxCap = configure_nft E sender asset (\<lambda>n. n\<lparr>maxCollateralCap := maxCap\<rparr>)"

definition setMaxNumberOfReserves :: "env \<Rightarrow> string \<Rightarrow> uint256 \<Rightarrow> ('l pool, unit) tx" where
  "setMaxNumberOfReserves E sender val =
     tx_bind (tx_require (sender = e_configurator E) ''LP_CALLER_NOT_LEND_POOL_CONFIGURATOR'') (\<lambda>_.
     tx_write (\<lambda>s. s\<lparr>po_maxNumberOfReserves := val\<rparr>))"

definition setMaxNumberOfNfts :: "env \<Rightarrow> string \<Rightarrow> uint256 \<Rightarrow> ('l pool, unit) tx" where
  "setMaxNumberOfNfts E sender val =
     tx_bind (tx_require (sender = e_configurator E) ''LP_CALLER_NOT_LEND_POOL_CONFIGURATOR'') (\<lambda>_.
     tx_write (\<lambda>s. s\<lparr>po_maxNumberOfNfts := val\<rparr>))"

text \<open>The lists of the reserves and NFTs; an id has eight bits.\<close>

definition addReserveToList :: "string \<Rightarrow> ('l pool, unit) tx" where
  "addReserveToList asset =
     tx_bind (tx_read id) (\<lambda>s. let count = po_reservesCount s in
     tx_bind (tx_require (count < po_maxNumberOfReserves s) ''LP_NO_MORE_RESERVES_ALLOWED'') (\<lambda>_.
     if rd_id (po_reserves s asset) \<noteq> 0 \<or> po_reservesList s 0 = asset then tx_return ()
     else tx_write (\<lambda>s. s\<lparr>po_reserves := (po_reserves s)(asset := (po_reserves s asset)\<lparr>rd_id := ucast count\<rparr>),
       po_reservesList := (po_reservesList s)(count := asset), po_reservesCount := count + 1\<rparr>)))"

definition addNftToList :: "string \<Rightarrow> ('l pool, unit) tx" where
  "addNftToList asset =
     tx_bind (tx_read id) (\<lambda>s. let count = po_nftsCount s in
     tx_bind (tx_require (count < po_maxNumberOfNfts s) ''LP_NO_MORE_NFTS_ALLOWED'') (\<lambda>_.
     if pn_id (po_nfts s asset) \<noteq> 0 \<or> po_nftsList s 0 = asset then tx_return ()
     else tx_write (\<lambda>s. s\<lparr>po_nfts := (po_nfts s)(asset := (po_nfts s asset)\<lparr>pn_id := ucast count\<rparr>),
       po_nftsList := (po_nftsList s)(count := asset), po_nftsCount := count + 1\<rparr>)))"

definition pool_initReserve :: "env \<Rightarrow> string \<Rightarrow> string \<Rightarrow> string \<Rightarrow> string \<Rightarrow> string \<Rightarrow> ('l pool, unit) tx" where
  "pool_initReserve E sender asset bToken debtToken rate =
     tx_bind (tx_require (sender = e_configurator E) ''LP_CALLER_NOT_LEND_POOL_CONFIGURATOR'') (\<lambda>_.
     tx_bind (tx_require (e_isContract E asset) ''LP_NOT_CONTRACT'') (\<lambda>_.
     tx_bind (tx_read (\<lambda>s. po_reserves s asset)) (\<lambda>r.
     tx_bind (tx_lift (init_reserve bToken debtToken rate r)) (\<lambda>r'.
     tx_bind (set_reserve asset r') (\<lambda>_. addReserveToList asset)))))"

definition init_nft_data :: "string \<Rightarrow> pool_nft \<Rightarrow> string + pool_nft" where
  "init_nft_data bNft n =
     bind_revert (require (pn_bNftAddress n = ADDRESS_0) ''RL_RESERVE_ALREADY_INITIALIZED'') (\<lambda>_.
     Inr (n\<lparr>pn_bNftAddress := bNft\<rparr>))"

definition pool_initNft :: "env \<Rightarrow> string \<Rightarrow> string \<Rightarrow> string \<Rightarrow> ('l pool, unit) tx" where
  "pool_initNft E sender asset bNft =
     tx_bind (tx_require (sender = e_configurator E) ''LP_CALLER_NOT_LEND_POOL_CONFIGURATOR'') (\<lambda>_.
     tx_bind (tx_require (e_isContract E asset) ''LP_NOT_CONTRACT'') (\<lambda>_.
     tx_bind (tx_read (\<lambda>s. po_nfts s asset)) (\<lambda>n.
     tx_bind (tx_lift (init_nft_data bNft n)) (\<lambda>n'.
     tx_bind (tx_write (\<lambda>s. s\<lparr>po_nfts := (po_nfts s)(asset := n')\<rparr>)) (\<lambda>_.
     tx_bind (addNftToList asset) (\<lambda>_.
     tx_bind (tx_require (e_loan E \<noteq> ADDRESS_0) ''LPC_INVALIED_LOAN_ADDRESS'') (\<lambda>_.
     tx_bind (pool_ext E (SetApprovalForAll asset (e_loan E))) (\<lambda>_.
     on_book (initNft E (e_pool E) asset bNft)))))))))"

section \<open>Transfers of bTokens\<close>

definition finalizeTransfer :: "string \<Rightarrow> string \<Rightarrow> ('l pool, unit) tx" where
  "finalizeTransfer sender asset =
     whenNotPaused (tx_bind (tx_read (\<lambda>s. rd_bTokenAddress (po_reserves s asset))) (\<lambda>bToken.
     tx_require (sender = bToken) ''LP_CALLER_MUST_BE_AN_BTOKEN''))"

text \<open>\<^verbatim>\<open>_transfer\<close> of the bToken \<open>self\<close>, behind \<^verbatim>\<open>transfer\<close> and \<^verbatim>\<open>transferFrom\<close> of the package.\<close>

definition BToken_transfer ::
  "env \<Rightarrow> 'l erc20 \<Rightarrow> string \<Rightarrow> string \<Rightarrow> string \<Rightarrow> string \<Rightarrow> uint256 \<Rightarrow> ('l pool, unit) tx" where
  "BToken_transfer E L self asset from to amount =
     tx_bind (tx_read (\<lambda>s. getNormalizedIncome (e_now E) (po_reserves s asset))) (\<lambda>income.
     tx_bind (tx_lift income) (\<lambda>index.
     tx_bind (tx_read (\<lambda>s. (l_balance L (po_btoken s asset) from, l_balance L (po_btoken s asset) to))) (\<lambda>(f, t).
     tx_bind (tx_lift (rayMul f index)) (\<lambda>_.
     tx_bind (tx_lift (rayMul t index)) (\<lambda>_.
     tx_bind (tx_lift (rayDiv amount index)) (\<lambda>amountScaled.
     tx_bind (set_btoken asset (l_transfer L from to amountScaled)) (\<lambda>_.
     finalizeTransfer self asset)))))))"

end
