(* ===== verification/ReserveIndexes.thy ===== *)
theory ReserveIndexes
  imports Pool
begin

text \<open>
  How the indexes of a reserve move: never below one ray, never downwards, and not at all within a
  block.  It follows that an amount of debt read and repaid at the same index gives back exactly the
  scaled debt, which is what keeps the debt token and the loan book in step.
\<close>

section \<open>The indexes never fall\<close>

definition idx_ok :: "reserve_data \<Rightarrow> bool" where
  "idx_ok r \<longleftrightarrow> RAY \<le> unat (rd_liquidityIndex r) \<and> RAY \<le> unat (rd_variableBorrowIndex r)"

text \<open>What an update of the indexes or the rates leaves alone.\<close>

definition same_setup :: "reserve_data \<Rightarrow> reserve_data \<Rightarrow> bool" where
  "same_setup r r' \<longleftrightarrow> rd_configuration r' = rd_configuration r \<and> rd_bTokenAddress r' = rd_bTokenAddress r \<and>
     rd_debtTokenAddress r' = rd_debtTokenAddress r \<and> rd_interestRateAddress r' = rd_interestRateAddress r \<and>
     rd_maxUtilizationRate r' = rd_maxUtilizationRate r"

lemma same_setup_refl [simp]: "same_setup r r"
  by (simp add: same_setup_def)

lemma same_setup_trans: "same_setup r r' \<Longrightarrow> same_setup r' r'' \<Longrightarrow> same_setup r r''"
  by (simp add: same_setup_def)

definition indexes_grow :: "reserve_data \<Rightarrow> reserve_data \<Rightarrow> bool" where
  "indexes_grow r r' \<longleftrightarrow> rd_liquidityIndex r \<le> rd_liquidityIndex r' \<and> rd_variableBorrowIndex r \<le> rd_variableBorrowIndex r'"

lemma grow_idx_ok: "indexes_grow r r' \<Longrightarrow> idx_ok r \<Longrightarrow> idx_ok r'"
  unfolding indexes_grow_def idx_ok_def word_le_nat_alt by linarith

lemma unat_UINT128_MAX: "unat UINT128_MAX = 2 ^ 128 - 1"
  by (simp add: UINT128_MAX_def)

lemma narrow_index:
  assumes "x \<le> UINT128_MAX"
  shows "ucast (ucast x :: uint128) = x" "unat (ucast x :: uint128) = unat x"
proof -
  have "unat x < 2 ^ 128" using assms by (simp add: word_le_nat_alt unat_UINT128_MAX)
  then show "unat (ucast x :: uint128) = unat x" by (rule unat_narrow)
  then show "ucast (ucast x :: uint128) = x" by (intro uint256_eqI) simp
qed

text \<open>Times a factor of at least one, an index does not fall.\<close>

lemma index_times:
  assumes "rayMul i (ucast x) = Inr y" "RAY \<le> unat i" "y \<le> UINT128_MAX"
  shows "(x :: uint128) \<le> ucast y"
proof -
  have "unat y = mul_round RAY (unat i) (unat x)" using assms(1) by (simp add: ray.mul_Inr)
  also have "\<dots> \<ge> unat x" using ray.mul_round_ge [OF assms(2), of "unat x"] by (simp add: ray.mul_round_commute)
  finally show ?thesis using narrow_index [OF assms(3)] by (simp add: word_le_nat_alt)
qed

lemma updateIndexes_effect:
  assumes "updateIndexes now scaled (ucast (rd_liquidityIndex r)) (ucast (rd_variableBorrowIndex r)) t r = Inr (l, b, r')"
  shows "indexes_grow r r'" "rd_lastUpdateTimestamp r' = ucast now" "same_setup r r'"
    "l = ucast (rd_liquidityIndex r')" "b = ucast (rd_variableBorrowIndex r')"
proof -
  have lin: "RAY \<le> unat i" if "calculateLinearInterest now q t = Inr i" for q i
    using linear_interest_Inr [OF that] interest_ge_ray(1) by metis
  have comp: "RAY \<le> unat i" if "calculateCompoundedInterest now q t = Inr i" for q i
    using compounded_interest_Inr [OF that] interest_ge_ray(2) by metis
  show "indexes_grow r r'" "rd_lastUpdateTimestamp r' = ucast now" "same_setup r r'"
    "l = ucast (rd_liquidityIndex r')" "b = ucast (rd_variableBorrowIndex r')"
    using assms unfolding updateIndexes_def indexes_grow_def
    by (auto simp: bind_revert_Inr require_Inr Let_def narrow_index same_setup_def split: if_splits
        dest!: lin comp intro: index_times)
qed

text \<open>Within a block an update of the indexes changes nothing more.\<close>

lemma interest_of_no_time:
  assumes "unat now < 2 ^ 40" "t = ucast now"
  shows "calculateLinearInterest now q t = Inr RAY256" "calculateCompoundedInterest now q t = Inr RAY256"
proof -
  have "ucast t = now" using unat_narrow(2) [OF assms(1)] assms(2) by (intro uint256_eqI) simp
  then have "checked_sub now (ucast t) = Inr 0" by (simp add: checked_iff)
  then show "calculateLinearInterest now q t = Inr RAY256" "calculateCompoundedInterest now q t = Inr RAY256"
    by (simp_all add: calculateLinearInterest_def calculateCompoundedInterest_def checked_mul_def
        checked_div_def checked_add_def SECONDS_PER_YEAR_def unat_units unit_numbers)
qed

lemma ray_times_one:
  "rayMul RAY256 (ucast (x :: uint128)) = Inr (ucast x)"
proof -
  have "unat RAY256 * unat x + RAY div 2 < 2 ^ 256"
    using narrow_bounds(1) [of x] by (simp add: unat_units unit_numbers)
  moreover have "mul_round RAY RAY (unat x) = unat x"
    using ray.mul_round_one [of "unat x"] by (subst ray.mul_round_commute) simp
  ultimately show ?thesis by (simp add: ray.mul_Inr unat_units)
qed

lemma index_fits: "ucast (x :: uint128) \<le> UINT128_MAX"
  using narrow_bounds(1) [of x] by (simp add: word_le_nat_alt unat_UINT128_MAX)

lemma narrow_widen [simp]: "(ucast (ucast (x :: uint128) :: uint256) :: uint128) = x"
proof (rule unsigned_word_eqI)
  show "unat (ucast (ucast x :: uint256) :: uint128) = unat x"
    using unat_narrow(1) [of "ucast x"] narrow_bounds(1) [of x] by simp
qed

lemma updateIndexes_same_block:
  assumes "unat now < 2 ^ 40" "rd_lastUpdateTimestamp r = ucast now"
  shows "updateIndexes now scaled (ucast (rd_liquidityIndex r)) (ucast (rd_variableBorrowIndex r))
      (rd_lastUpdateTimestamp r) r = Inr (ucast (rd_liquidityIndex r), ucast (rd_variableBorrowIndex r), r)"
  unfolding updateIndexes_def
  using interest_of_no_time [OF assms(1) assms(2)] assms(2)
  by (simp add: ray_times_one index_fits Let_def narrow_index)

section \<open>Scaled amounts\<close>

text \<open>An amount read at an index of at least one ray and divided by it is the scaled amount again.\<close>

lemma rayDiv_rayMul:
  assumes "rayMul scaled idx = Inr amount" "rayDiv amount idx = Inr sc" "RAY \<le> unat idx"
  shows "sc = scaled"
proof (rule uint256_eqI)
  have "unat sc = div_round RAY (mul_round RAY (unat scaled) (unat idx)) (unat idx)"
    using assms(1,2) by (simp add: ray.mul_Inr ray.div_Inr)
  then show "unat sc = unat scaled" using ray.div_mul_round [OF assms(3)] by simp
qed

section \<open>What the pool's parts change\<close>

definition money :: "'l pool \<Rightarrow> ext_call list" where
  "money s = filter is_money (lb_calls (po_book s))"

definition pool_loans :: "'l pool \<Rightarrow> uint256 \<Rightarrow> loan_data" where
  "pool_loans s = lb_loans (po_book s)"

text \<open>A reserve that is set up has sound indexes; \<open>P\<close> is the address of the pool.\<close>

definition res_ok :: "string \<Rightarrow> 'l pool \<Rightarrow> bool" where
  "res_ok P s \<longleftrightarrow> (\<forall>a. rd_bTokenAddress (po_reserves s a) \<noteq> P \<and>
     (rd_bTokenAddress (po_reserves s a) \<noteq> ADDRESS_0 \<longrightarrow> idx_ok (po_reserves s a)))"

lemma res_ok_update:
  "res_ok P s \<Longrightarrow> same_setup (po_reserves s a) r' \<Longrightarrow> indexes_grow (po_reserves s a) r' \<Longrightarrow>
   po_reserves s' = (po_reserves s)(a := r') \<Longrightarrow> res_ok P s'"
  by (auto simp: res_ok_def same_setup_def intro: grow_idx_ok)

text \<open>Only the indexes and rates of one reserve, and the ledgers of bTokens, moved.\<close>

definition quiet :: "string \<Rightarrow> 'l pool \<Rightarrow> 'l pool \<Rightarrow> bool" where
  "quiet a s s' \<longleftrightarrow> po_debt s' = po_debt s \<and> po_book s' = po_book s \<and> po_nfts s' = po_nfts s \<and>
     po_paused s' = po_paused s \<and> po_rates s' = po_rates s \<and>
     po_pauseStartTime s' = po_pauseStartTime s \<and> po_pauseDurationTime s' = po_pauseDurationTime s \<and>
     (\<exists>r'. po_reserves s' = (po_reserves s)(a := r') \<and> same_setup (po_reserves s a) r' \<and>
       indexes_grow (po_reserves s a) r')"

lemma quiet_refl: "quiet a s s"
  by (auto simp: quiet_def indexes_grow_def intro: exI [of _ "po_reserves s a"])

lemma quietI:
  assumes "po_debt s' = po_debt s" "po_book s' = po_book s" "po_nfts s' = po_nfts s"
    "po_paused s' = po_paused s" "po_rates s' = po_rates s"
    "po_pauseStartTime s' = po_pauseStartTime s" "po_pauseDurationTime s' = po_pauseDurationTime s"
    "po_reserves s' = (po_reserves s)(a := r')" "same_setup (po_reserves s a) r'" "indexes_grow (po_reserves s a) r'"
  shows "quiet a s s'"
  using assms unfolding quiet_def by blast

lemma indexes_grow_trans: "indexes_grow r r' \<Longrightarrow> indexes_grow r' r'' \<Longrightarrow> indexes_grow r r''"
  unfolding indexes_grow_def by (blast intro: order_trans)

lemma quiet_trans:
  assumes "quiet a s s'" "quiet a s' s''"
  shows "quiet a s s''"
proof -
  from assms(1) obtain r' where r': "po_reserves s' = (po_reserves s)(a := r')" "same_setup (po_reserves s a) r'"
      "indexes_grow (po_reserves s a) r'" unfolding quiet_def by blast
  from assms(2) obtain r'' where "po_reserves s'' = (po_reserves s')(a := r'')" "same_setup (po_reserves s' a) r''"
      "indexes_grow (po_reserves s' a) r''" unfolding quiet_def by blast
  with r' have "po_reserves s'' = (po_reserves s)(a := r'')" "same_setup r' r''" "indexes_grow r' r''" by simp_all
  then show ?thesis
    using assms r' by (intro quietI [where r' = r'']) (auto simp: quiet_def intro: same_setup_trans indexes_grow_trans)
qed

lemma quiet_res_ok: "quiet a s s' \<Longrightarrow> res_ok P s \<Longrightarrow> res_ok P s'"
  unfolding quiet_def by (blast intro: res_ok_update)

lemma set_btoken_quiet: "set_btoken asset f s = Inr (u, s') \<Longrightarrow> quiet a s s' \<and> po_reserves s' = po_reserves s"
  unfolding set_btoken_def
  by (auto elim!: tx_elims simp: quiet_def indexes_grow_def intro: exI [of _ "po_reserves s a"])

lemma mintToTreasury_quiet:
  "mintToTreasury L asset d p l n s = Inr (u, s') \<Longrightarrow> quiet a s s' \<and> po_reserves s' = po_reserves s"
  unfolding mintToTreasury_def BToken_mintToTreasury_def
  by (auto elim!: tx_elims dest!: set_btoken_quiet simp: quiet_refl split: if_splits)

lemma updateState_effect:
  assumes "updateState E L asset s = Inr (u, s')"
  shows "quiet asset s s'" "rd_lastUpdateTimestamp (po_reserves s' asset) = ucast (e_now E)"
proof -
  from assms obtain l b r' where idx: "updateIndexes (e_now E) (l_total L (po_debt s asset))
      (ucast (rd_liquidityIndex (po_reserves s asset))) (ucast (rd_variableBorrowIndex (po_reserves s asset)))
      (rd_lastUpdateTimestamp (po_reserves s asset)) (po_reserves s asset) = Inr (l, b, r')"
    and rest: "mintToTreasury L asset (l_total L (po_debt s asset)) (ucast (rd_variableBorrowIndex (po_reserves s asset)))
      l b (s\<lparr>po_reserves := (po_reserves s)(asset := r')\<rparr>) = Inr (u, s')"
    unfolding updateState_def set_reserve_def by (auto elim!: tx_elims)
  note e = updateIndexes_effect [OF idx]
  have "quiet asset s (s\<lparr>po_reserves := (po_reserves s)(asset := r')\<rparr>)"
    using e by (auto simp: quiet_def)
  then show "quiet asset s s'" using mintToTreasury_quiet [OF rest, of asset] by (blast intro: quiet_trans)
  show "rd_lastUpdateTimestamp (po_reserves s' asset) = ucast (e_now E)"
    using mintToTreasury_quiet [OF rest, of asset] e(2) by simp
qed

text \<open>In a second update in the same block the reserve stays as it is.\<close>

lemma updateState_same_block:
  assumes "updateState E L asset s = Inr (u, s')" "unat (e_now E) < 2 ^ 40"
    and "rd_lastUpdateTimestamp (po_reserves s asset) = ucast (e_now E)"
  shows "po_reserves s' = po_reserves s"
proof -
  from assms(1) obtain l b r' where idx: "updateIndexes (e_now E) (l_total L (po_debt s asset))
      (ucast (rd_liquidityIndex (po_reserves s asset))) (ucast (rd_variableBorrowIndex (po_reserves s asset)))
      (rd_lastUpdateTimestamp (po_reserves s asset)) (po_reserves s asset) = Inr (l, b, r')"
    and rest: "mintToTreasury L asset (l_total L (po_debt s asset)) (ucast (rd_variableBorrowIndex (po_reserves s asset)))
      l b (s\<lparr>po_reserves := (po_reserves s)(asset := r')\<rparr>) = Inr (u, s')"
    unfolding updateState_def set_reserve_def by (auto elim!: tx_elims)
  from idx have "r' = po_reserves s asset" unfolding updateIndexes_same_block [OF assms(2,3)] by simp
  then show ?thesis using mintToTreasury_quiet [OF rest, of asset] by simp
qed

lemma updateInterestRates_effect:
  assumes "updateInterestRates E L asset added taken s = Inr (u, s')"
  shows "quiet asset s s'" "rd_variableBorrowIndex (po_reserves s' asset) = rd_variableBorrowIndex (po_reserves s asset)"
    "rd_liquidityIndex (po_reserves s' asset) = rd_liquidityIndex (po_reserves s asset)"
    "rd_lastUpdateTimestamp (po_reserves s' asset) = rd_lastUpdateTimestamp (po_reserves s asset)"
proof -
  from assms obtain q p where s': "s' = s\<lparr>po_reserves := (po_reserves s)(asset :=
      (po_reserves s asset)\<lparr>rd_currentLiquidityRate := q, rd_currentVariableBorrowRate := p\<rparr>)\<rparr>"
    unfolding updateInterestRates_def set_reserve_def by (auto elim!: tx_elims)
  show "quiet asset s s'" unfolding s' quiet_def same_setup_def indexes_grow_def
    by (auto intro!: exI [of _ "(po_reserves s asset)\<lparr>rd_currentLiquidityRate := q, rd_currentVariableBorrowRate := p\<rparr>"])
  show "rd_variableBorrowIndex (po_reserves s' asset) = rd_variableBorrowIndex (po_reserves s asset)"
    "rd_liquidityIndex (po_reserves s' asset) = rd_liquidityIndex (po_reserves s asset)"
    "rd_lastUpdateTimestamp (po_reserves s' asset) = rd_lastUpdateTimestamp (po_reserves s asset)"
    unfolding s' by simp_all
qed

end
