(* ===== verification/PoolInvariant.thy ===== *)
theory PoolInvariant
  imports ReserveIndexes
begin

text \<open>
  The invariant of the whole pool, over every transaction of \<^verbatim>\<open>LendPool.sol\<close>: the loan book is
  consistent, the debt tokens of a reserve are exactly the scaled amounts of its living loans, for the
  reserve and for each borrower, and the tokens that came to the pool's own address cover all bids of
  running auctions.  An operation is cut into what happens before, the change of one loan with its
  debt tokens, and the settlement after it.
\<close>

section \<open>The invariant\<close>

definition debt_of :: "string \<Rightarrow> loan_data \<Rightarrow> nat" where
  "debt_of a l = (if living l \<and> ln_reserveAsset l = a then unat (ln_scaledAmount l) else 0)"

definition debt_by :: "string \<Rightarrow> string \<Rightarrow> loan_data \<Rightarrow> nat" where
  "debt_by a u l = (if ln_borrower l = u then debt_of a l else 0)"

definition bid_of :: "string \<Rightarrow> loan_data \<Rightarrow> nat" where
  "bid_of a l = (if ln_state l = LS_Auction \<and> ln_reserveAsset l = a then unat (ln_bidPrice l) else 0)"

text \<open>The tokens of \<open>a\<close> that a call moves to \<open>P\<close>, and those it moves away from \<open>P\<close>.\<close>

fun inflow :: "string \<Rightarrow> string \<Rightarrow> ext_call \<Rightarrow> nat" where
  "inflow P a (Erc20SafeTransferFrom t x y n) = (if t = a \<and> y = P \<and> x \<noteq> P then unat n else 0)"
| "inflow P a (Erc20SafeTransfer t x y n) = (if t = a \<and> y = P \<and> x \<noteq> P then unat n else 0)"
| "inflow P a _ = 0"

fun outflow :: "string \<Rightarrow> string \<Rightarrow> ext_call \<Rightarrow> nat" where
  "outflow P a (Erc20SafeTransferFrom t x y n) = (if t = a \<and> x = P \<and> y \<noteq> P then unat n else 0)"
| "outflow P a (Erc20SafeTransfer t x y n) = (if t = a \<and> x = P \<and> y \<noteq> P then unat n else 0)"
| "outflow P a _ = 0"

definition received :: "string \<Rightarrow> string \<Rightarrow> ext_call list \<Rightarrow> nat" where
  "received P a cs = sum_list (map (inflow P a) cs)"

definition spent :: "string \<Rightarrow> string \<Rightarrow> ext_call list \<Rightarrow> nat" where
  "spent P a cs = sum_list (map (outflow P a) cs)"

definition debts_match :: "'l erc20 \<Rightarrow> 'l pool \<Rightarrow> bool" where
  "debts_match L s \<longleftrightarrow> (\<forall>a. unat (l_total L (po_debt s a)) = loan_sum (debt_of a) (pool_loans s) \<and>
     (\<forall>u. unat (l_balance L (po_debt s a) u) = loan_sum (debt_by a u) (pool_loans s)))"

definition bids_held :: "string \<Rightarrow> 'l pool \<Rightarrow> bool" where
  "bids_held P s \<longleftrightarrow> (\<forall>a. loan_sum (bid_of a) (pool_loans s) + spent P a (money s) \<le> received P a (money s))"

definition pool_inv :: "string \<Rightarrow> 'l erc20 \<Rightarrow> 'l pool \<Rightarrow> bool" where
  "pool_inv P L s \<longleftrightarrow> book_ok (po_book s) \<and> res_ok P s \<and> debts_match L s \<and> bids_held P s"

lemma flows_append [simp]: "received P a (cs @ ds) = received P a cs + received P a ds"
  "spent P a (cs @ ds) = spent P a cs + spent P a ds"
  "received P a [] = 0" "spent P a [] = 0"
  "received P a (c # cs) = inflow P a c + received P a cs" "spent P a (c # cs) = outflow P a c + spent P a cs"
  by (simp_all add: received_def spent_def)

section \<open>Pieces of an operation\<close>

text \<open>Indexes, rates and calls of other contracts, but no loan and no debt.\<close>

definition settles :: "string \<Rightarrow> ext_call list \<Rightarrow> 'l pool \<Rightarrow> 'l pool \<Rightarrow> bool" where
  "settles a cs s s' \<longleftrightarrow> po_debt s' = po_debt s \<and> pool_loans s' = pool_loans s \<and> po_nfts s' = po_nfts s \<and>
     lb_loanIdTracker (po_book s') = lb_loanIdTracker (po_book s) \<and> money s' = money s @ cs \<and>
     (book_ok (po_book s) \<longrightarrow> book_ok (po_book s')) \<and>
     (\<exists>r'. po_reserves s' = (po_reserves s)(a := r') \<and> same_setup (po_reserves s a) r' \<and>
       indexes_grow (po_reserves s a) r')"

lemma settlesI:
  assumes "po_debt s' = po_debt s" "pool_loans s' = pool_loans s" "po_nfts s' = po_nfts s"
    "lb_loanIdTracker (po_book s') = lb_loanIdTracker (po_book s)" "money s' = money s @ cs"
    "book_ok (po_book s) \<Longrightarrow> book_ok (po_book s')"
    "po_reserves s' = (po_reserves s)(a := r')" "same_setup (po_reserves s a) r'" "indexes_grow (po_reserves s a) r'"
  shows "settles a cs s s'"
  using assms unfolding settles_def by blast

lemma indexes_grow_refl [simp]: "indexes_grow r r"
  by (simp add: indexes_grow_def)

lemma quiet_settles: "quiet a s s' \<Longrightarrow> settles a [] s s'"
  by (auto simp: quiet_def settles_def pool_loans_def money_def)

lemma settles_refl: "settles a [] s s"
  by (rule quiet_settles [OF quiet_refl])

lemma settles_trans:
  assumes "settles a cs s s'" "settles a ds s' s''"
  shows "settles a (cs @ ds) s s''"
proof -
  from assms(1) obtain r' where r': "po_reserves s' = (po_reserves s)(a := r')" "same_setup (po_reserves s a) r'"
      "indexes_grow (po_reserves s a) r'" unfolding settles_def by blast
  from assms(2) obtain r'' where "po_reserves s'' = (po_reserves s')(a := r'')" "same_setup (po_reserves s' a) r''"
      "indexes_grow (po_reserves s' a) r''" unfolding settles_def by blast
  with r' have "po_reserves s'' = (po_reserves s)(a := r'')" "same_setup r' r''" "indexes_grow r' r''" by simp_all
  then show ?thesis
    using assms r' by (intro settlesI [where r' = r'']) (auto simp: settles_def intro: same_setup_trans indexes_grow_trans)
qed

lemma settles_res_ok: "settles a cs s s' \<Longrightarrow> res_ok P s \<Longrightarrow> res_ok P s'"
  unfolding settles_def by (blast intro: res_ok_update)

lemma res_ok_bToken: "res_ok P s \<Longrightarrow> rd_bTokenAddress (po_reserves s a) \<noteq> P"
  by (simp add: res_ok_def)

lemma res_ok_idx: "res_ok P s \<Longrightarrow> rd_bTokenAddress (po_reserves s a) \<noteq> ADDRESS_0 \<Longrightarrow> idx_ok (po_reserves s a)"
  by (simp add: res_ok_def)

lemma res_ok_same: "po_reserves s' = po_reserves s \<Longrightarrow> res_ok P s' = res_ok P s"
  by (simp add: res_ok_def)

lemma on_bookE:
  assumes "on_book m s = Inr (x, s')"
  obtains b where "m (po_book s) = Inr (x, b)" "s' = s\<lparr>po_book := b\<rparr>"
  using assms unfolding on_book_def by (auto elim!: tx_zoomE)

lemma ext_ok: "ext E c err b = Inr (u, b') \<Longrightarrow> book_ok b \<Longrightarrow> book_ok b'"
  by (auto simp: ext_def book_ok_def split: if_splits)

lemma pool_ext_settles:
  assumes "pool_ext E c s = Inr (u, s')"
  shows "settles a (filter is_money [c]) s s'" "po_reserves s' = po_reserves s"
proof -
  from assms obtain b where b: "ext E c ''reverted'' (po_book s) = Inr (u, b)" "s' = s\<lparr>po_book := b\<rparr>"
    unfolding pool_ext_def by (elim on_bookE)
  show "po_reserves s' = po_reserves s" using b(2) by simp
  show "settles a (filter is_money [c]) s s'"
    by (rule settlesI [where r' = "po_reserves s a"])
      (use b in \<open>auto simp: ext_def pool_loans_def money_def intro: ext_ok split: if_splits\<close>)
qed

text \<open>One loan changes, and the debt tokens of its reserve.\<close>

definition changes :: "string \<Rightarrow> 'l \<Rightarrow> uint256 \<Rightarrow> loan_data \<Rightarrow> 'l pool \<Rightarrow> 'l pool \<Rightarrow> bool" where
  "changes a t i l s s' \<longleftrightarrow> po_debt s' = (po_debt s)(a := t) \<and> pool_loans s' = (pool_loans s)(i := l) \<and>
     po_nfts s' = po_nfts s \<and> po_reserves s' = po_reserves s \<and> money s' = money s \<and> book_ok (po_book s')"

lemma pool_inv_settles:
  assumes "pool_inv P L s" "settles a cs s s'" "\<And>b. spent P b cs \<le> received P b cs"
  shows "pool_inv P L s'"
proof -
  have "bids_held P s'" unfolding bids_held_def
  proof
    fix b show "loan_sum (bid_of b) (pool_loans s') + spent P b (money s') \<le> received P b (money s')"
      using assms(1,2) assms(3) [of b] unfolding pool_inv_def bids_held_def settles_def
      by (simp, metis add.assoc add_mono)
  qed
  moreover have "debts_match L s'" using assms(1,2) by (simp add: pool_inv_def debts_match_def settles_def)
  moreover have "book_ok (po_book s')" using assms(1,2) by (simp add: pool_inv_def settles_def)
  moreover have "res_ok P s'" using settles_res_ok [OF assms(2)] assms(1) by (simp add: pool_inv_def)
  ultimately show ?thesis by (simp add: pool_inv_def)
qed

lemma pool_inv_changes:
  assumes inv: "pool_inv P L s" and ch: "changes a t i l s s'"
    and post: "settles a cs s' s''"
    and total: "unat (l_total L t) + debt_of a (pool_loans s i) = unat (l_total L (po_debt s a)) + debt_of a l"
    and user: "\<And>u. unat (l_balance L t u) + debt_by a u (pool_loans s i)
      = unat (l_balance L (po_debt s a) u) + debt_by a u l"
    and other: "\<And>b. b \<noteq> a \<Longrightarrow> debt_of b l = 0" "\<And>b. b \<noteq> a \<Longrightarrow> debt_of b (pool_loans s i) = 0"
    and bids: "\<And>b. bid_of b l + spent P b cs \<le> bid_of b (pool_loans s i) + received P b cs"
  shows "pool_inv P L s''"
proof -
  have sum: "loan_sum h (pool_loans s') + h (pool_loans s i) = loan_sum h (pool_loans s) + h l" for h
    using ch loan_sum_upd [of h "pool_loans s" i l] by (simp add: changes_def)
  have debts: "unat (l_total L (po_debt s' b)) = loan_sum (debt_of b) (pool_loans s')" for b
  proof (cases "b = a")
    case True
    then show ?thesis using sum [of "debt_of a"] total inv ch by (simp add: changes_def pool_inv_def debts_match_def)
  next
    case False
    then show ?thesis using sum [of "debt_of b"] other inv ch by (simp add: changes_def pool_inv_def debts_match_def)
  qed
  have users: "unat (l_balance L (po_debt s' b) u) = loan_sum (debt_by b u) (pool_loans s')" for b u
  proof (cases "b = a")
    case True
    then show ?thesis using sum [of "debt_by a u"] user [of u] inv ch
      by (simp add: changes_def pool_inv_def debts_match_def)
  next
    case False
    then have "debt_by b u l = 0" "debt_by b u (pool_loans s i) = 0" using other by (simp_all add: debt_by_def)
    then show ?thesis using False sum [of "debt_by b u"] inv ch by (simp add: changes_def pool_inv_def debts_match_def)
  qed
  have "bids_held P s''" unfolding bids_held_def
  proof
    fix b
    have "loan_sum (bid_of b) (pool_loans s) + spent P b (money s) \<le> received P b (money s)"
      using inv by (simp add: pool_inv_def bids_held_def)
    moreover have "pool_loans s'' = pool_loans s'" "money s'' = money s @ cs"
      using ch post by (simp_all add: changes_def settles_def)
    ultimately show "loan_sum (bid_of b) (pool_loans s'') + spent P b (money s'') \<le> received P b (money s'')"
      using bids [of b] sum [of "bid_of b"] by simp
  qed
  moreover have "debts_match L s''" using debts users post by (simp add: debts_match_def settles_def)
  moreover have "book_ok (po_book s'')" using ch post by (simp add: changes_def settles_def)
  moreover have "res_ok P s''"
  proof (rule settles_res_ok [OF post])
    show "res_ok P s'" using inv ch by (simp add: pool_inv_def changes_def res_ok_def)
  qed
  ultimately show ?thesis by (simp add: pool_inv_def)
qed

section \<open>Deposits and withdrawals\<close>

lemma rates_settle: "updateInterestRates E L asset x y s = Inr (u, s') \<Longrightarrow> settles asset [] s s'"
  by (rule quiet_settles [OF updateInterestRates_effect(1)])

lemma state_settles: "updateState E L asset s = Inr (u, s') \<Longrightarrow> settles asset [] s s'"
  by (rule quiet_settles [OF updateState_effect(1)])

lemma money_settles:
  "pool_ext E (Erc20SafeTransferFrom t x y n) s = Inr (u, s') \<Longrightarrow> settles a [Erc20SafeTransferFrom t x y n] s s'"
  "pool_ext E (Erc20SafeTransfer t x y n) s = Inr (u, s') \<Longrightarrow> settles a [Erc20SafeTransfer t x y n] s s'"
  "pool_ext E (NftSafeTransferFrom t x y k) s = Inr (u, s') \<Longrightarrow> settles a [] s s'"
  "pool_ext E (SetApprovalForAll t x) s = Inr (u, s') \<Longrightarrow> settles a [] s s'"
  using pool_ext_settles(1) by fastforce+

lemma btoken_settles:
  "BToken_mint L asset user n index s = Inr (u, s') \<Longrightarrow> settles a [] s s'"
  "BToken_burn E L asset bToken user to n index s = Inr (u, s') \<Longrightarrow> settles a [Erc20SafeTransfer asset bToken to n] s s'"
proof -
  show "settles a [] s s'" if "BToken_mint L asset user n index s = Inr (u, s')"
    using that unfolding BToken_mint_def by (auto elim!: tx_elims dest!: set_btoken_quiet intro: quiet_settles)
  show "settles a [Erc20SafeTransfer asset bToken to n] s s'"
    if burn: "BToken_burn E L asset bToken user to n index s = Inr (u, s')"
  proof -
    from burn obtain sc s1 where 1: "set_btoken asset (l_burn L user sc) s = Inr ((), s1)"
      "pool_ext E (Erc20SafeTransfer asset bToken to n) s1 = Inr (u, s')"
      unfolding BToken_burn_def by (auto elim!: tx_elims)
    show ?thesis
      using settles_trans [OF quiet_settles money_settles(2) [OF 1(2)]] set_btoken_quiet [OF 1(1)] by fastforce
  qed
qed

lemma deposit_inv:
  assumes "deposit_logic E L sender asset n user s = Inr (u, s')" and inv: "pool_inv P L s" and "sender \<noteq> P"
  shows "pool_inv P L s'"
proof -
  let ?b = "rd_bTokenAddress (po_reserves s asset)"
  from assms(1) obtain s1 s2 s3 index where run: "updateState E L asset s = Inr ((), s1)"
    "updateInterestRates E L asset n 0 s1 = Inr ((), s2)"
    "pool_ext E (Erc20SafeTransferFrom asset sender ?b n) s2 = Inr ((), s3)"
    "BToken_mint L asset user n index s3 = Inr (u, s')"
    unfolding deposit_logic_def by (auto elim!: tx_elims)
  have "settles asset [Erc20SafeTransferFrom asset sender ?b n] s s'"
    using settles_trans [OF settles_trans [OF settles_trans [OF state_settles [OF run(1)] rates_settle [OF run(2)]]
      money_settles(1) [OF run(3)]] btoken_settles(1) [OF run(4)]] by simp
  then show ?thesis by (rule pool_inv_settles [OF inv]) (use assms(3) in simp)
qed

lemma withdraw_inv:
  assumes "withdraw_logic E L sender asset n to s = Inr (r, s')" and inv: "pool_inv P L s"
  shows "pool_inv P L s'"
proof -
  let ?b = "rd_bTokenAddress (po_reserves s asset)"
  from assms(1) obtain s1 s2 index m where run: "updateState E L asset s = Inr ((), s1)"
    "updateInterestRates E L asset 0 m s1 = Inr ((), s2)"
    "BToken_burn E L asset ?b sender to m index s2 = Inr ((), s')"
    unfolding withdraw_logic_def Let_def by (auto elim!: tx_elims)
  have "settles asset [Erc20SafeTransfer asset ?b to m] s s'"
    using settles_trans [OF settles_trans [OF state_settles [OF run(1)] rates_settle [OF run(2)]]
      btoken_settles(2) [OF run(3)]] by simp
  then show ?thesis
    by (rule pool_inv_settles [OF inv]) (use inv in \<open>simp add: pool_inv_def res_ok_def\<close>)
qed
section \<open>Loans\<close>

lemma set_debtE:
  assumes "set_debt asset f s = Inr (u, s')"
  obtains t where "f (po_debt s asset) = Inr t" "s' = s\<lparr>po_debt := (po_debt s)(asset := t)\<rparr>"
  using assms unfolding set_debt_def by (auto elim!: tx_elims)

lemma DebtToken_mint_effect:
  assumes "DebtToken_mint L asset initiator user n index s = Inr (u, s')"
  obtains sc t where "rayDiv n index = Inr sc" "l_mint L user sc (po_debt s asset) = Inr t"
    "po_debt s' = (po_debt s)(asset := t)" "po_reserves s' = po_reserves s" "po_book s' = po_book s" "po_nfts s' = po_nfts s"
proof -
  from assms obtain s1 sc where
    1: "(if initiator \<noteq> user then decreaseBorrowAllowance asset user initiator n else tx_return ()) s = Inr ((), s1)"
    and sc: "rayDiv n index = Inr sc" "set_debt asset (l_mint L user sc) s1 = Inr (u, s')"
    unfolding DebtToken_mint_def by (auto elim!: tx_elims)
  have same: "po_debt s1 = po_debt s \<and> po_reserves s1 = po_reserves s \<and> po_book s1 = po_book s \<and> po_nfts s1 = po_nfts s"
    using 1 unfolding decreaseBorrowAllowance_def by (auto elim!: tx_elims split: if_splits)
  from sc(2) show ?thesis by (rule set_debtE) (use same sc(1) that in auto)
qed

lemma DebtToken_burn_effect:
  assumes "DebtToken_burn L asset user n index s = Inr (u, s')"
  obtains sc t where "rayDiv n index = Inr sc" "sc \<noteq> 0" "l_burn L user sc (po_debt s asset) = Inr t"
    "po_debt s' = (po_debt s)(asset := t)" "po_reserves s' = po_reserves s" "po_book s' = po_book s" "po_nfts s' = po_nfts s"
proof -
  from assms obtain sc where "rayDiv n index = Inr sc" "sc \<noteq> 0" "set_debt asset (l_burn L user sc) s = Inr (u, s')"
    unfolding DebtToken_burn_def by (auto elim!: tx_elims)
  with that show ?thesis by (elim set_debtE) auto
qed

text \<open>More and less of a loan, and of its borrower's debt tokens.\<close>

lemma debt_minted:
  assumes "erc20_laws L" "l_mint L (ln_borrower l) v t = Inr t'" "living l" "ln_reserveAsset l = a"
    and "living old \<Longrightarrow> ln_borrower old = ln_borrower l \<and> ln_reserveAsset old = a"
    and "unat (ln_scaledAmount l) = (if living old then unat (ln_scaledAmount old) else 0) + unat v"
  shows "unat (l_total L t') + debt_of a old = unat (l_total L t) + debt_of a l"
    "unat (l_balance L t' u) + debt_by a u old = unat (l_balance L t u) + debt_by a u l"
proof -
  have m: "unat (l_total L t') = unat (l_total L t) + unat v"
    "unat (l_balance L t' (ln_borrower l)) = unat (l_balance L t (ln_borrower l)) + unat v"
    "\<And>b. b \<noteq> ln_borrower l \<Longrightarrow> l_balance L t' b = l_balance L t b"
    using assms(1,2) unfolding erc20_laws_def by blast+
  show "unat (l_total L t') + debt_of a old = unat (l_total L t) + debt_of a l"
    using m(1) assms(3-6) by (auto simp: debt_of_def)
  show "unat (l_balance L t' u) + debt_by a u old = unat (l_balance L t u) + debt_by a u l"
    using m(2,3) assms(3-6) by (cases "u = ln_borrower l") (auto simp: debt_by_def debt_of_def)
qed

lemma debt_burned:
  assumes "erc20_laws L" "l_burn L (ln_borrower old) v t = Inr t'" "living old" "ln_reserveAsset old = a"
    and "living l \<Longrightarrow> ln_borrower l = ln_borrower old \<and> ln_reserveAsset l = a"
    and "unat (ln_scaledAmount old) = (if living l then unat (ln_scaledAmount l) else 0) + unat v"
  shows "unat (l_total L t') + debt_of a old = unat (l_total L t) + debt_of a l"
    "unat (l_balance L t' u) + debt_by a u old = unat (l_balance L t u) + debt_by a u l"
proof -
  have m: "unat (l_total L t) = unat (l_total L t') + unat v"
    "unat (l_balance L t (ln_borrower old)) = unat (l_balance L t' (ln_borrower old)) + unat v"
    "\<And>b. b \<noteq> ln_borrower old \<Longrightarrow> l_balance L t' b = l_balance L t b"
    using assms(1,2) unfolding erc20_laws_def by blast+
  show "unat (l_total L t') + debt_of a old = unat (l_total L t) + debt_of a l"
    using m(1) assms(3-6) by (auto simp: debt_of_def)
  show "unat (l_balance L t' u) + debt_by a u old = unat (l_balance L t u) + debt_by a u l"
    using m(2,3) assms(3-6) by (cases "u = ln_borrower old") (auto simp: debt_by_def debt_of_def)
qed

text \<open>The counter of loans: room for \<open>n\<close> more.\<close>

definition room :: "nat \<Rightarrow> 'l pool \<Rightarrow> bool" where
  "room n s \<longleftrightarrow> unat (lb_loanIdTracker (po_book s)) + n < 2 ^ 256"

lemma room_free: "room (Suc n) s \<Longrightarrow> lb_loanIdTracker (po_book s) \<noteq> UINT256_MAX"
  by (auto simp: room_def unat_UINT256_MAX)

lemma room_next: "room (Suc n) s \<Longrightarrow> unat (lb_loanIdTracker (po_book s) + 1) + n < 2 ^ 256"
  by (simp add: room_def unat_word_ariths)

lemma settles_room: "settles a cs s s' \<Longrightarrow> room n s' = room n s"
  by (simp add: room_def settles_def)

lemma not_in_auction: "ln_state l \<noteq> LS_Auction \<Longrightarrow> bid_of a l = 0"
  by (simp add: bid_of_def)

lemma open_or_extend_effect:
  assumes run: "open_or_extend E sender asset n nft token user i s = Inr (j, s')"
    and ok: "book_ok (po_book s)" "room (Suc m) s" "0 < n"
    and valid: "i \<noteq> 0 \<Longrightarrow> ln_state (pool_loans s i) = LS_Active \<and> ln_reserveAsset (pool_loans s i) = asset
      \<and> ln_borrower (pool_loans s i) = user"
    and i: "i = lb_nftToLoanIds (po_book s) nft token"
  obtains l sc where "pool_loans s' = (pool_loans s)(j := l)" "po_debt s' = po_debt s" "po_reserves s' = po_reserves s"
    "money s' = money s" "book_ok (po_book s')" "room m s'" "rayDiv n (borrow_index asset s) = Inr sc"
    "ln_state l = LS_Active" "ln_borrower l = user" "ln_reserveAsset l = asset"
    "ln_nftAsset l = nft" "ln_nftTokenId l = token" "po_nfts s' = po_nfts s"
    "if i = 0 then pool_loans s j = no_loan else j = i"
    "living (pool_loans s j) \<Longrightarrow> ln_state (pool_loans s j) = LS_Active \<and> ln_borrower (pool_loans s j) = user
      \<and> ln_reserveAsset (pool_loans s j) = asset"
    "unat (ln_scaledAmount l) = (if living (pool_loans s j) then unat (ln_scaledAmount (pool_loans s j)) else 0) + unat sc"
proof (cases "i = 0")
  case True
  from run True obtain s1 bNft where s1: "pool_ext E (NftSafeTransferFrom nft sender (e_pool E) token) s = Inr ((), s1)"
    "on_book (createLoan E (e_pool E) user nft token bNft asset n (borrow_index asset s1)) s1 = Inr (j, s')"
    unfolding open_or_extend_def by (auto elim!: tx_elims)
  note st = money_settles(3) [OF s1(1), of asset]
  have r1: "po_reserves s1 = po_reserves s" by (rule pool_ext_settles(2) [OF s1(1)])
  have same: "pool_loans s1 = pool_loans s" "money s1 = money s" "po_debt s1 = po_debt s" "book_ok (po_book s1)"
    "room (Suc m) s1" "po_nfts s1 = po_nfts s"
    using st ok settles_room [OF st] by (simp_all add: settles_def)
  from s1(2) obtain b where b: "createLoan E (e_pool E) user nft token bNft asset n (borrow_index asset s1) (po_book s1) = Inr (j, b)"
    "s' = s1\<lparr>po_book := b\<rparr>" by (elim on_bookE)
  have "book_ok b" by (rule createLoan_ok [OF b(1) room_free [OF same(5)] same(4)])
  from b(1) show ?thesis
  proof (cases rule: createLoan_effect)
    case (1 sc u t)
    have old: "pool_loans s j = no_loan" using same(1,4) 1(1) by (simp add: pool_loans_def book_ok_def)
    let ?l = "no_loan\<lparr>ln_loanId := j, ln_state := LS_Active, ln_borrower := user, ln_nftAsset := nft,
      ln_nftTokenId := token, ln_reserveAsset := asset, ln_scaledAmount := sc\<rparr>"
    show ?thesis
      by (rule that [of ?l sc])
        (use 1 b(2) \<open>book_ok b\<close> same r1 old True room_next [OF same(5)] in
          \<open>simp_all add: book_is_def pool_loans_def money_def borrow_index_def room_def\<close>)
  qed
next
  case False
  from run False have j: "j = i" and upd: "on_book (updateLoan E (e_pool E) i n 0 (borrow_index asset s)) s = Inr ((), s')"
    unfolding open_or_extend_def by (auto elim!: tx_elims)
  from upd obtain b where b: "updateLoan E (e_pool E) i n 0 (borrow_index asset s) (po_book s) = Inr ((), b)"
    "s' = s\<lparr>po_book := b\<rparr>" by (elim on_bookE)
  have "book_ok b" by (rule updateLoan_ok [OF b(1) ok(1)]) (use ok(3) in simp)
  have nft: "ln_nftAsset (pool_loans s i) = nft" "ln_nftTokenId (pool_loans s i) = token"
    using ok(1) False i unfolding book_ok_def pool_loans_def by metis+
  from b(1) ok(3) show ?thesis
  proof (cases rule: updateLoan_adds)
    case (1 a sc)
    show ?thesis
      by (rule that [of "(pool_loans s j)\<lparr>ln_scaledAmount := a\<rparr>" sc])
        (use 1 b(2) \<open>book_ok b\<close> valid [OF False] j ok(2) nft False in
          \<open>simp_all add: book_is_def pool_loans_def money_def borrow_index_def room_def\<close>)
  qed
qed
lemma validateBorrow_checks:
  assumes "validateBorrow E L s user asset n nft i = Inr u"
  shows "0 < n" "rd_bTokenAddress (po_reserves s asset) \<noteq> ADDRESS_0"
    "i \<noteq> 0 \<Longrightarrow> ln_state (pool_loans s i) = LS_Active \<and> ln_reserveAsset (pool_loans s i) = asset
      \<and> ln_borrower (pool_loans s i) = user"
  using assms unfolding validateBorrow_def validate_loan_def Let_def pool_loans_def
  by (auto elim!: bind_requireE bind_revertE simp: require_Inr split: if_splits)

lemma borrow_run:
  assumes "borrow_logic E L sender asset n nft token user s = Inr (u, s')"
  obtains s1 s2 s3 s4 i j where "updateState E L asset s = Inr ((), s1)"
    "validateBorrow E L s1 user asset n nft i = Inr ()"
    "open_or_extend E sender asset n nft token user i s1 = Inr (j, s2)"
    "DebtToken_mint L asset sender user n (borrow_index asset s2) s2 = Inr ((), s3)"
    "updateInterestRates E L asset 0 n s3 = Inr ((), s4)"
    "pool_ext E (Erc20SafeTransfer asset (rd_bTokenAddress (po_reserves s4 asset)) sender n) s4 = Inr (u, s')"
    "i = lb_nftToLoanIds (po_book s1) nft token"
  using assms unfolding borrow_logic_def transferUnderlyingTo_def by (auto elim!: tx_elims)

lemma borrow_inv:
  assumes run: "borrow_logic E L sender asset n nft token user s = Inr (u, s')" and inv: "pool_inv P L s"
    and "erc20_laws L" "room (Suc m) s"
  shows "pool_inv P L s' \<and> room m s'"
  using run
proof (rule borrow_run)
  fix s1 s2 s3 s4 i j
  assume 1: "updateState E L asset s = Inr ((), s1)" and valid: "validateBorrow E L s1 user asset n nft i = Inr ()"
    and 2: "open_or_extend E sender asset n nft token user i s1 = Inr (j, s2)"
    and 3: "DebtToken_mint L asset sender user n (borrow_index asset s2) s2 = Inr ((), s3)"
    and 4: "updateInterestRates E L asset 0 n s3 = Inr ((), s4)"
    and 5: "pool_ext E (Erc20SafeTransfer asset (rd_bTokenAddress (po_reserves s4 asset)) sender n) s4 = Inr (u, s')"
    and i: "i = lb_nftToLoanIds (po_book s1) nft token"
  let ?c = "Erc20SafeTransfer asset (rd_bTokenAddress (po_reserves s4 asset)) sender n"
  have inv1: "pool_inv P L s1" by (rule pool_inv_settles [OF inv state_settles [OF 1]]) simp
  have room1: "room (Suc m) s1" using settles_room [OF state_settles [OF 1]] assms(4) by simp
  have ok1: "book_ok (po_book s1)" using inv1 by (simp add: pool_inv_def)
  note checks = validateBorrow_checks [OF valid]
  from 2 ok1 room1 checks(1,3) i show ?thesis
  proof (rule open_or_extend_effect)
    fix l sc
    assume e: "pool_loans s2 = (pool_loans s1)(j := l)" "po_debt s2 = po_debt s1" "po_reserves s2 = po_reserves s1"
      "money s2 = money s1" "book_ok (po_book s2)" "room m s2" "rayDiv n (borrow_index asset s1) = Inr sc"
      "ln_state l = LS_Active" "ln_borrower l = user" "ln_reserveAsset l = asset" "ln_nftAsset l = nft"
      "ln_nftTokenId l = token" "po_nfts s2 = po_nfts s1" "if i = 0 then pool_loans s1 j = no_loan else j = i"
      and old: "living (pool_loans s1 j) \<Longrightarrow> ln_state (pool_loans s1 j) = LS_Active \<and>
        ln_borrower (pool_loans s1 j) = user \<and> ln_reserveAsset (pool_loans s1 j) = asset"
      and more: "unat (ln_scaledAmount l) =
        (if living (pool_loans s1 j) then unat (ln_scaledAmount (pool_loans s1 j)) else 0) + unat sc"
    from 3 obtain t where t: "l_mint L user sc (po_debt s1 asset) = Inr t" "po_debt s3 = (po_debt s1)(asset := t)"
      "po_reserves s3 = po_reserves s1" "po_book s3 = po_book s2" "po_nfts s3 = po_nfts s1"
      by (rule DebtToken_mint_effect) (use e in \<open>simp add: borrow_index_def\<close>)
    have ch: "changes asset t j l s1 s3"
      using e t by (simp add: changes_def pool_loans_def money_def)
    have post: "settles asset [?c] s3 s'"
      using settles_trans [OF rates_settle [OF 4] money_settles(2) [OF 5]] by simp
    have "res_ok P s3" using res_ok_same [OF t(3)] inv1 by (simp add: pool_inv_def)
    note b = res_ok_bToken [OF settles_res_ok [OF rates_settle [OF 4] this], of asset]
    have "l_mint L (ln_borrower l) sc (po_debt s1 asset) = Inr t" using t(1) e(9) by simp
    have was: "living (pool_loans s1 j) \<Longrightarrow> ln_borrower (pool_loans s1 j) = ln_borrower l
        \<and> ln_reserveAsset (pool_loans s1 j) = asset" using old unfolding e(9) by blast
    note d = debt_minted [OF assms(3) \<open>l_mint L (ln_borrower l) sc (po_debt s1 asset) = Inr t\<close>
      living_simps(1) [OF e(8)] e(10) was more]
    have "pool_inv P L s'"
    proof (rule pool_inv_changes [OF inv1 ch post d])
      fix c :: string
      show "bid_of c l + spent P c [?c] \<le> bid_of c (pool_loans s1 j) + received P c [?c]"
        using e(8) b by (simp add: bid_of_def)
      show "c \<noteq> asset \<Longrightarrow> debt_of c l = 0" using e(10) by (simp add: debt_of_def)
      show "c \<noteq> asset \<Longrightarrow> debt_of c (pool_loans s1 j) = 0" using was by (auto simp: debt_of_def)
    qed
    moreover have "room m s'" using settles_room [OF post] e(6) t(4) by (simp add: room_def)
    ultimately show ?thesis ..
  qed
qed
section \<open>Repayments\<close>

text \<open>In the block of the update a debt divided by the index is the scaled amount of the loan.\<close>

lemma debt_is_scaled:
  assumes "getLoanReserveBorrowAmount E s i = Inr d" "l = pool_loans s i" "asset = ln_reserveAsset l"
    and "rd_lastUpdateTimestamp (po_reserves s asset) = ucast (e_now E)"
    and "rayDiv d (borrow_index asset s) = Inr sc" "sc \<noteq> 0" "idx_ok (po_reserves s asset)"
  shows "sc = ln_scaledAmount l"
proof (cases "ln_scaledAmount l = 0")
  case True
  then have "d = 0" using assms(1,2) by (simp add: getLoanReserveBorrowAmount_def pool_loans_def)
  then have "borrow_index asset s \<noteq> 0" "unat sc = unat (borrow_index asset s) div 2 div unat (borrow_index asset s)"
    using assms(5) by (simp_all add: ray.div_Inr div_round_def)
  then have "unat sc = 0" by (simp add: uint256_eq_0)
  then show ?thesis using assms(6) by (simp add: uint256_eq_0)
next
  case False
  then have "rayMul (ln_scaledAmount l) (borrow_index asset s) = Inr d"
    using assms(1-4) by (simp add: getLoanReserveBorrowAmount_def pool_loans_def getNormalizedDebt_def
        borrow_index_def Let_def)
  then show ?thesis
    by (rule rayDiv_rayMul [OF _ assms(5)]) (use assms(7) in \<open>simp add: idx_ok_def borrow_index_def\<close>)
qed

lemma validate_active_token: "validate_active r n = Inr u \<Longrightarrow> rd_bTokenAddress r \<noteq> ADDRESS_0"
  unfolding validate_active_def by (auto elim!: bind_requireE)

lemma validateRepay_checks:
  assumes "validateRepay r n l sent d = Inr u"
  shows "rd_bTokenAddress r \<noteq> ADDRESS_0" "0 < sent" "ln_state l = LS_Active"
  using assms unfolding validateRepay_def by (auto elim!: bind_requireE bind_revertE simp: require_Inr validate_active_token)

lemma repay_run:
  assumes "repay_logic E L sender nft token n s = Inr (x, s')" and "i = lb_nftToLoanIds (po_book s) nft token"
    and "l = pool_loans s i" and "a = ln_reserveAsset l"
  obtains s1 s2 s3 s4 s5 d bNft m where "updateState E L a s = Inr ((), s1)" "getLoanReserveBorrowAmount E s1 i = Inr d"
    "validateRepay (po_reserves s1 a) (po_nfts s1 (ln_nftAsset l)) l n d = Inr ()"
    "n < d \<and> m = n \<and> on_book (updateLoan E (e_pool E) i 0 n (borrow_index a s1)) s1 = Inr ((), s2) \<or>
     \<not> n < d \<and> m = d \<and> on_book (LendPoolLoan_repayLoan E (e_pool E) i bNft) s1 = Inr ((), s2)"
    "DebtToken_burn L a (ln_borrower l) m (borrow_index a s1) s2 = Inr ((), s3)"
    "updateInterestRates E L a m 0 s3 = Inr ((), s4)"
    "pool_ext E (Erc20SafeTransferFrom a sender (rd_bTokenAddress (po_reserves s1 a)) m) s4 = Inr ((), s5)"
    "(if n < d then tx_return () else pool_ext E (NftSafeTransferFrom (ln_nftAsset l) (e_pool E) (ln_borrower l) token)) s5
     = Inr ((), s')" "x = (m, \<not> n < d)"
  using assms(1) unfolding repay_logic_def Let_def assms(2-4) borrow_index_def pool_loans_def
  by (auto elim!: tx_elims split: if_splits)

lemma on_book_rest:
  assumes "on_book m s = Inr (x, s')"
  shows "po_debt s' = po_debt s" "po_reserves s' = po_reserves s" "po_nfts s' = po_nfts s"
  using assms by (auto elim!: on_bookE)

text \<open>A loan on the book changes, then its debt tokens are burned.\<close>

lemma burn_changes:
  assumes "DebtToken_burn L a u n index s2 = Inr (x, s3)" and "on_book m s1 = Inr (y, s2)"
    and "pool_loans s2 = (pool_loans s1)(i := l)" "money s2 = money s1" "book_ok (po_book s2)"
  obtains sc t where "changes a t i l s1 s3" "rayDiv n index = Inr sc" "sc \<noteq> 0" "l_burn L u sc (po_debt s1 a) = Inr t"
  using assms(1)
  by (rule DebtToken_burn_effect)
    (use assms(3-5) on_book_rest [OF assms(2)] that in \<open>simp add: changes_def pool_loans_def money_def\<close>)
text \<open>What is left when a loan and its tokens have changed: the settlement.\<close>

lemma pool_inv_burn:
  assumes inv: "pool_inv P L s1" and laws: "erc20_laws L" and old: "pool_loans s1 i = l" "living l" "ln_reserveAsset l = a"
    and burn: "DebtToken_burn L a (ln_borrower l) n index s2 = Inr (x, s3)" "on_book m s1 = Inr (y, s2)"
    and s2: "pool_loans s2 = (pool_loans s1)(i := l')" "money s2 = money s1" "book_ok (po_book s2)"
    and post: "settles a cs s3 s'"
    and new: "ln_borrower l' = ln_borrower l" "ln_reserveAsset l' = a"
    and less: "\<And>sc. rayDiv n index = Inr sc \<Longrightarrow> sc \<noteq> 0 \<Longrightarrow>
      unat (ln_scaledAmount l) = (if living l' then unat (ln_scaledAmount l') else 0) + unat sc"
    and bids: "\<And>b. bid_of b l' + spent P b cs \<le> bid_of b l + received P b cs"
  shows "pool_inv P L s'"
  using burn s2
proof (rule burn_changes)
  fix sc t
  assume ch: "changes a t i l' s1 s3" and sc: "rayDiv n index = Inr sc" "sc \<noteq> 0"
    and t: "l_burn L (ln_borrower l) sc (po_debt s1 a) = Inr t"
  have same: "living l' \<Longrightarrow> ln_borrower l' = ln_borrower l \<and> ln_reserveAsset l' = a" using new by blast
  note d = debt_burned [OF laws t old(2,3) same less [OF sc]]
  show ?thesis
  proof (rule pool_inv_changes [OF inv ch post])
    fix b :: string
    show "bid_of b l' + spent P b cs \<le> bid_of b (pool_loans s1 i) + received P b cs" using bids old(1) by simp
    show "b \<noteq> a \<Longrightarrow> debt_of b l' = 0" "b \<noteq> a \<Longrightarrow> debt_of b (pool_loans s1 i) = 0"
      using new old by (simp_all add: debt_of_def)
  qed (use d old(1) in simp_all)
qed

lemma repay_inv:
  assumes run: "repay_logic E L sender nft token n s = Inr (x, s')"
      "i = lb_nftToLoanIds (po_book s) nft token" "l = pool_loans s i" "a = ln_reserveAsset l"
    and inv: "pool_inv P L s" and laws: "erc20_laws L" and sender: "sender \<noteq> P"
  shows "pool_inv P L s'"
  using run
proof (cases rule: repay_run)
  case (1 s1 s2 s3 s4 s5 d bNft m)
  note st = state_settles [OF 1(1)]
  have inv1: "pool_inv P L s1" by (rule pool_inv_settles [OF inv st]) simp
  then have ok1: "book_ok (po_book s1)" "res_ok P s1" by (simp_all add: pool_inv_def)
  note checks = validateRepay_checks [OF 1(3)]
  have l: "pool_loans s1 i = l" "living l" "ln_reserveAsset l = a" "lb_loans (po_book s1) i = l"
    using st run(3,4) checks(3) by (simp_all add: settles_def pool_loans_def)
  have post: "settles a [Erc20SafeTransferFrom a sender (rd_bTokenAddress (po_reserves s1 a)) m] s3 s'"
    using settles_trans [OF settles_trans [OF rates_settle [OF 1(6)] money_settles(1) [OF 1(7)]], of "[]" s']
      1(8) money_settles(3) [of E _ _ _ _ s5 "()" s' a] settles_refl [of a s5]
    by (auto split: if_splits)
  have flow: "ln_state l' \<noteq> LS_Auction \<Longrightarrow>
      bid_of b l' + spent P b [Erc20SafeTransferFrom a sender (rd_bTokenAddress (po_reserves s1 a)) m]
      \<le> bid_of b l + received P b [Erc20SafeTransferFrom a sender (rd_bTokenAddress (po_reserves s1 a)) m]" for l' b
    using sender by (simp add: bid_of_def)
  from 1(4) show ?thesis
  proof (elim disjE conjE)
    assume m: "m = n" and upd: "on_book (updateLoan E (e_pool E) i 0 n (borrow_index a s1)) s1 = Inr ((), s2)"
    then obtain b where b: "updateLoan E (e_pool E) i 0 n (borrow_index a s1) (po_book s1) = Inr ((), b)"
      "s2 = s1\<lparr>po_book := b\<rparr>" by (elim on_bookE)
    have "book_ok b" by (rule updateLoan_ok [OF b(1) ok1(1)]) (use checks(2) in simp)
    from b(1) checks(2) show ?thesis
    proof (cases rule: updateLoan_takes)
      case u: (1 c sc)
      show ?thesis
        by (rule pool_inv_burn [OF inv1 laws l(1-3) 1(5) upd _ _ _ post, of "l\<lparr>ln_scaledAmount := c\<rparr>"])
          (use u l checks(3) b(2) \<open>book_ok b\<close> m flow in
            \<open>simp_all add: book_is_def pool_loans_def money_def living_def\<close>)
    qed
  next
    assume m: "m = d" and upd: "on_book (LendPoolLoan_repayLoan E (e_pool E) i bNft) s1 = Inr ((), s2)"
    then obtain b where b: "LendPoolLoan_repayLoan E (e_pool E) i bNft (po_book s1) = Inr ((), b)"
      "s2 = s1\<lparr>po_book := b\<rparr>" by (elim on_bookE)
    have "book_ok b" by (rule LendPoolLoan_repayLoan_ok [OF b(1) ok1(1)])
    have exact: "sc = ln_scaledAmount l" if "rayDiv d (borrow_index a s1) = Inr sc" "sc \<noteq> 0" for sc
      by (rule debt_is_scaled [OF 1(2) l(1) [symmetric] run(4) updateState_effect(2) [OF 1(1)] that
          res_ok_idx [OF ok1(2) checks(1)]])
    from b(1) show ?thesis
    proof (cases rule: LendPoolLoan_repayLoan_effect)
      case u: (1 c t)
      show ?thesis
        by (rule pool_inv_burn [OF inv1 laws l(1-3) 1(5) upd _ _ _ post, of "l\<lparr>ln_state := LS_Repaid\<rparr>"])
          (use u l b(2) \<open>book_ok b\<close> m exact flow in
            \<open>simp_all add: book_is_def pool_loans_def money_def living_def\<close>)
    qed
  qed
qed
section \<open>Auctions\<close>

lemma validateAuction_checks:
  assumes "validateAuction r n l price = Inr u"
  shows "rd_bTokenAddress r \<noteq> ADDRESS_0" "living l"
  using assms unfolding validateAuction_def living_def
  by (auto elim!: bind_requireE bind_revertE simp: require_Inr validate_active_token)

lemma validateRedeem_checks:
  assumes "validateRedeem r n l amount = Inr u"
  shows "rd_bTokenAddress r \<noteq> ADDRESS_0" "ln_state l = LS_Auction"
  using assms unfolding validateRedeem_def by (auto elim!: bind_requireE bind_revertE simp: require_Inr validate_active_token)

lemma validateLiquidate_checks:
  assumes "validateLiquidate r n l = Inr u"
  shows "rd_bTokenAddress r \<noteq> ADDRESS_0" "ln_state l = LS_Auction"
  using assms unfolding validateLiquidate_def by (auto elim!: bind_requireE bind_revertE simp: require_Inr validate_active_token)

lemma auction_run:
  assumes "auction_logic E L sender nft token price user s = Inr (x, s')"
    and "i = lb_nftToLoanIds (po_book s) nft token" "l = pool_loans s i" "a = ln_reserveAsset l"
  obtains s1 s2 s3 s4 d where "validateAuction (po_reserves s a) (po_nfts s (ln_nftAsset l)) l price = Inr ()"
    "updateState E L a s = Inr ((), s1)"
    "on_book (auctionLoan E (e_pool E) i user price d) s1 = Inr ((), s2)"
    "pool_ext E (Erc20SafeTransferFrom a sender (e_pool E) price) s2 = Inr ((), s3)"
    "(if ln_bidderAddress l \<noteq> ADDRESS_0
      then pool_ext E (Erc20SafeTransfer a (e_pool E) (ln_bidderAddress l) (ln_bidPrice l)) else tx_return ()) s3 = Inr ((), s4)"
    "updateInterestRates E L a 0 0 s4 = Inr (x, s')"
  using assms(1) unfolding auction_logic_def Let_def assms(2-4) pool_loans_def
  by (auto elim!: tx_elims split: if_splits)

lemma optional_settles:
  assumes "(if b then pool_ext E (Erc20SafeTransfer t x y n) else tx_return ()) s = Inr ((), s')"
  shows "settles a (if b then [Erc20SafeTransfer t x y n] else []) s s'"
  using assms money_settles(2) [of E t x y n s "()" s' a] settles_refl [of a s] by (auto split: if_splits)

lemma auction_inv:
  assumes run: "auction_logic E L sender nft token price user s = Inr (x, s')"
      "i = lb_nftToLoanIds (po_book s) nft token" "l = pool_loans s i" "a = ln_reserveAsset l"
    and inv: "pool_inv P L s" and E: "e_pool E = P" "e_now E \<noteq> 0" and sender: "sender \<noteq> P"
  shows "pool_inv P L s'"
  using run
proof (cases rule: auction_run)
  case (1 s1 s2 s3 s4 d)
  let ?cs = "Erc20SafeTransferFrom a sender P price #
    (if ln_bidderAddress l \<noteq> ADDRESS_0 then [Erc20SafeTransfer a P (ln_bidderAddress l) (ln_bidPrice l)] else [])"
  note st = state_settles [OF 1(2)]
  have inv1: "pool_inv P L s1" by (rule pool_inv_settles [OF inv st]) simp
  then have ok1: "book_ok (po_book s1)" by (simp add: pool_inv_def)
  have l: "lb_loans (po_book s1) i = l" "pool_loans s1 i = l" "ln_reserveAsset l = a"
    using st run(3,4) by (simp_all add: settles_def pool_loans_def)
  have post: "settles a ?cs s2 s'"
    using settles_trans [OF settles_trans [OF money_settles(1) [OF 1(4)] optional_settles [OF 1(5)]] rates_settle [OF 1(6)]]
    unfolding E(1) append_Nil2 append_Cons append_Nil .
  from 1(3) obtain b where b: "auctionLoan E (e_pool E) i user price d (po_book s1) = Inr ((), b)" "s2 = s1\<lparr>po_book := b\<rparr>"
    by (elim on_bookE)
  have ok2: "book_ok (po_book s2)" using auctionLoan_ok [OF b(1) ok1 E(2)] b(2) by simp
  have kept: "pool_inv P L s'" if l': "pool_loans s2 = (pool_loans s1)(i := l')" "money s2 = money s1"
      and new: "ln_state l' = LS_Auction" "living l" "ln_bidPrice l' = price" "ln_reserveAsset l' = a"
        "ln_borrower l' = ln_borrower l" "ln_scaledAmount l' = ln_scaledAmount l"
      and bid: "ln_state l \<noteq> LS_Auction \<Longrightarrow> ln_bidPrice l = 0" for l'
  proof -
    have debts: "debt_of c l' = debt_of c l" for c using new l(3) by (simp add: debt_of_def)
    then have users: "debt_by c u l' = debt_by c u l" for c u using new(5) by (simp add: debt_by_def)
    have other: "c \<noteq> a \<Longrightarrow> debt_of c l = 0" for c using l(3) by (simp add: debt_of_def)
    have ch: "changes a (po_debt s1 a) i l' s1 s2" using b(2) l' ok2 by (simp add: changes_def)
    show ?thesis
      by (rule pool_inv_changes [OF inv1 ch post])
        (use new l(2,3) sender bid in \<open>auto simp: debts users other bid_of_def\<close>)
  qed
  from b(1) show ?thesis
  proof (cases rule: auctionLoan_effect)
    case first
    have "bid_fields l" using ok1 l(1) by (auto simp: book_ok_def)
    then show ?thesis
      by (intro kept [of "l\<lparr>ln_state := LS_Auction, ln_bidStartTimestamp := e_now E, ln_firstBidderAddress := user,
          ln_bidBorrowAmount := d, ln_bidderAddress := user, ln_bidPrice := price\<rparr>"])
        (use first l b(2) in \<open>simp_all add: book_is_def pool_loans_def money_def bid_fields_def\<close>)
  next
    case higher
    show ?thesis
      by (intro kept [of "l\<lparr>ln_bidBorrowAmount := d, ln_bidderAddress := user, ln_bidPrice := price\<rparr>"])
        (use higher l b(2) in \<open>simp_all add: book_is_def pool_loans_def money_def\<close>)
  qed
qed
lemma redeem_run:
  assumes "redeem_logic E L sender nft token n maxFine s = Inr (x, s')"
    and "i = lb_nftToLoanIds (po_book s) nft token" "l = pool_loans s i" "a = ln_reserveAsset l"
  obtains s1 s2 s3 s4 s5 fine where "validateRedeem (po_reserves s a) (po_nfts s (ln_nftAsset l)) l n = Inr ()"
    "updateState E L a s = Inr ((), s1)"
    "on_book (redeemLoan E (e_pool E) i n (borrow_index a s1)) s1 = Inr ((), s2)"
    "DebtToken_burn L a (ln_borrower l) n (borrow_index a s1) s2 = Inr ((), s3)"
    "updateInterestRates E L a n 0 s3 = Inr ((), s4)"
    "pool_ext E (Erc20SafeTransferFrom a sender (rd_bTokenAddress (po_reserves s1 a)) n) s4 = Inr ((), s5)"
    "(if ln_bidderAddress l \<noteq> ADDRESS_0 then
        tx_bind (pool_ext E (Erc20SafeTransfer a (e_pool E) (ln_bidderAddress l) (ln_bidPrice l))) (\<lambda>_.
        pool_ext E (Erc20SafeTransferFrom a sender (ln_firstBidderAddress l) fine))
      else tx_return ()) s5 = Inr ((), s')"
  using assms(1) unfolding redeem_logic_def Let_def assms(2-4) pool_loans_def borrow_index_def
  by (auto elim!: tx_elims split: if_split_asm)

lemma redeem_inv:
  assumes run: "redeem_logic E L sender nft token n maxFine s = Inr (x, s')"
      "i = lb_nftToLoanIds (po_book s) nft token" "l = pool_loans s i" "a = ln_reserveAsset l"
    and inv: "pool_inv P L s" and laws: "erc20_laws L" and E: "e_pool E = P" and sender: "sender \<noteq> P"
  shows "pool_inv P L s'"
  using run
proof (cases rule: redeem_run)
  case (1 s1 s2 s3 s4 s5 fine)
  let ?c = "Erc20SafeTransferFrom a sender (rd_bTokenAddress (po_reserves s1 a)) n"
  let ?ds = "if ln_bidderAddress l \<noteq> ADDRESS_0 then [Erc20SafeTransfer a (e_pool E) (ln_bidderAddress l) (ln_bidPrice l),
    Erc20SafeTransferFrom a sender (ln_firstBidderAddress l) fine] else []"
  note st = state_settles [OF 1(2)]
  have inv1: "pool_inv P L s1" by (rule pool_inv_settles [OF inv st]) simp
  then have ok1: "book_ok (po_book s1)" by (simp add: pool_inv_def)
  note checks = validateRedeem_checks [OF 1(1)]
  have l: "pool_loans s1 i = l" "living l" "ln_reserveAsset l = a" "lb_loans (po_book s1) i = l"
    using st run(3,4) checks(2) by (simp_all add: settles_def pool_loans_def)
  have "settles a ?ds s5 s'"
  proof (cases "ln_bidderAddress l = ADDRESS_0")
    case False
    with 1(7) obtain s6 where
      6: "pool_ext E (Erc20SafeTransfer a (e_pool E) (ln_bidderAddress l) (ln_bidPrice l)) s5 = Inr ((), s6)"
      "pool_ext E (Erc20SafeTransferFrom a sender (ln_firstBidderAddress l) fine) s6 = Inr ((), s')"
      by (auto elim: tx_bindE)
    show ?thesis using settles_trans [OF money_settles(2) [OF 6(1)] money_settles(1) [OF 6(2)]] False by simp
  qed (use 1(7) settles_refl in simp)
  note post = settles_trans [OF settles_trans [OF rates_settle [OF 1(5)] money_settles(1) [OF 1(6)]] this]
  from 1(3) obtain b where b: "redeemLoan E (e_pool E) i n (borrow_index a s1) (po_book s1) = Inr ((), b)"
    "s2 = s1\<lparr>po_book := b\<rparr>" by (elim on_bookE)
  have "book_ok b" by (rule redeemLoan_ok [OF b(1) ok1])
  from b(1) show ?thesis
  proof (cases rule: redeemLoan_effect)
    case u: (1 c sc)
    let ?l = "l\<lparr>ln_scaledAmount := c, ln_state := LS_Active, ln_bidStartTimestamp := 0, ln_bidBorrowAmount := 0,
      ln_bidderAddress := ADDRESS_0, ln_bidPrice := 0, ln_firstBidderAddress := ADDRESS_0\<rparr>"
    show ?thesis
    proof (rule pool_inv_burn [OF inv1 laws l(1-3) 1(4) 1(3) _ _ _ post, of ?l])
      fix k
      show "bid_of k ?l + spent P k (([] @ [?c]) @ ?ds) \<le> bid_of k l + received P k (([] @ [?c]) @ ?ds)"
        using checks(2) l(3) sender E by (simp add: bid_of_def)
    qed (use u l b(2) \<open>book_ok b\<close> in \<open>simp_all add: book_is_def pool_loans_def money_def\<close>)
  qed
qed

lemma liquidate_run:
  assumes "liquidate_logic E L sender nft token n s = Inr (x, s')"
    and "i = lb_nftToLoanIds (po_book s) nft token" "l = pool_loans s i" "a = ln_reserveAsset l"
  obtains s1 s2 s3 s4 s5 s6 s7 d th lp bNft extra remain t where
    "validateLiquidate (po_reserves s a) (po_nfts s (ln_nftAsset l)) l = Inr ()"
    "updateState E L a s = Inr ((), s1)" "calculateLoanLiquidatePrice E s1 i a (ln_nftAsset l) = Inr (d, th, lp)"
    "extra = (if ln_bidPrice l < d then d - ln_bidPrice l else 0)"
    "remain = (if d < ln_bidPrice l then ln_bidPrice l - d else 0)"
    "on_book (liquidateLoan E (e_pool E) i bNft d) s1 = Inr ((), s2)"
    "DebtToken_burn L a (ln_borrower l) d (borrow_index a s1) s2 = Inr ((), s3)"
    "updateInterestRates E L a d 0 s3 = Inr ((), s4)"
    "(if 0 < extra then pool_ext E (Erc20SafeTransferFrom a sender (e_pool E) extra) else tx_return ()) s4 = Inr ((), s5)"
    "pool_ext E (Erc20SafeTransfer a (e_pool E) (rd_bTokenAddress (po_reserves s1 a)) d) s5 = Inr ((), s6)"
    "(if 0 < remain then pool_ext E (Erc20SafeTransfer a (e_pool E) (ln_borrower l) remain) else tx_return ()) s6 = Inr ((), s7)"
    "pool_ext E (NftSafeTransferFrom (ln_nftAsset l) (e_pool E) (ln_bidderAddress l) token) s7 = Inr ((), s')"
    "end_after s l (getAuctionDuration (configuration (po_nfts s (ln_nftAsset l)))) = Inr t" "t < e_now E"
proof -
  from assms(1) obtain s1 s2 s3 s4 s5 s6 s7 d th lp t where r:
    "Inr () = validateLiquidate (po_reserves s a) (po_nfts s (ln_nftAsset l)) l"
    "updateState E L a s = Inr ((), s1)" "calculateLoanLiquidatePrice E s1 i a (ln_nftAsset l) = Inr (d, th, lp)"
    "on_book (liquidateLoan E (e_pool E) i (pn_bNftAddress (po_nfts s1 (ln_nftAsset l))) d) s1 = Inr ((), s2)"
    "DebtToken_burn L a (ln_borrower l) d (borrow_index a s1) s2 = Inr ((), s3)"
    "updateInterestRates E L a d 0 s3 = Inr ((), s4)"
    "(if 0 < (if ln_bidPrice l < d then d - ln_bidPrice l else 0) then pool_ext E (Erc20SafeTransferFrom a sender (e_pool E)
      (if ln_bidPrice l < d then d - ln_bidPrice l else 0)) else tx_return ()) s4 = Inr ((), s5)"
    "pool_ext E (Erc20SafeTransfer a (e_pool E) (rd_bTokenAddress (po_reserves s1 a)) d) s5 = Inr ((), s6)"
    "(if 0 < (if d < ln_bidPrice l then ln_bidPrice l - d else 0) then pool_ext E (Erc20SafeTransfer a (e_pool E) (ln_borrower l)
      (if d < ln_bidPrice l then ln_bidPrice l - d else 0)) else tx_return ()) s6 = Inr ((), s7)"
    "pool_ext E (NftSafeTransferFrom (ln_nftAsset l) (e_pool E) (ln_bidderAddress l) token) s7 = Inr ((), s')"
    "Inr t = end_after s l (getAuctionDuration (configuration (po_nfts s (ln_nftAsset l))))" "t < e_now E"
    unfolding liquidate_logic_def Let_def assms(2-4) pool_loans_def borrow_index_def
    by (auto elim!: tx_elims simp del: zero_less_iff_neq_zero split del: if_split)
  show ?thesis by (rule that [OF r(1) [symmetric] r(2,3) refl refl r(4-10) r(11) [symmetric] r(12)])
qed
lemma bid_splits:
  "unat d + unat (if d < p then p - d else 0 :: uint256) = unat p + unat (if p < d then d - p else 0 :: uint256)"
proof -
  have "unat (p - d) = unat p - unat d" if "d < p" using that by (simp add: unat_sub word_le_nat_alt word_less_nat_alt)
  moreover have "unat (d - p) = unat d - unat p" if "p < d" using that by (simp add: unat_sub word_le_nat_alt word_less_nat_alt)
  ultimately show ?thesis by (auto simp: word_less_nat_alt)
qed

lemma liquidate_price_debt:
  "calculateLoanLiquidatePrice E s i a nft = Inr (d, th, lp) \<Longrightarrow> getLoanReserveBorrowAmount E s i = Inr d"
  unfolding calculateLoanLiquidatePrice_def Let_def by (auto elim!: bind_revertE)

lemma when_settles:
  assumes "(if b then pool_ext E c else tx_return ()) s = Inr ((), s')" and "is_money c"
  shows "settles a (if b then [c] else []) s s'"
  using assms pool_ext_settles(1) [of E c s "()" s' a] settles_refl [of a s] by (auto split: if_splits)

lemma liquidate_inv:
  assumes run: "liquidate_logic E L sender nft token n s = Inr (x, s')"
      "i = lb_nftToLoanIds (po_book s) nft token" "l = pool_loans s i" "a = ln_reserveAsset l"
    and inv: "pool_inv P L s" and laws: "erc20_laws L" and E: "e_pool E = P" and sender: "sender \<noteq> P"
  shows "pool_inv P L s'"
  using run
proof (cases rule: liquidate_run)
  case (1 s1 s2 s3 s4 s5 s6 s7 d th lp bNft extra remain t)
  let ?bToken = "rd_bTokenAddress (po_reserves s1 a)"
  let ?cs = "(if 0 < extra then [Erc20SafeTransferFrom a sender (e_pool E) extra] else []) @
    [Erc20SafeTransfer a (e_pool E) ?bToken d] @
    (if 0 < remain then [Erc20SafeTransfer a (e_pool E) (ln_borrower l) remain] else [])"
  note st = state_settles [OF 1(2)]
  have inv1: "pool_inv P L s1" by (rule pool_inv_settles [OF inv st]) simp
  then have ok1: "book_ok (po_book s1)" "res_ok P s1" by (simp_all add: pool_inv_def)
  note checks = validateLiquidate_checks [OF 1(1)]
  have l: "pool_loans s1 i = l" "living l" "ln_reserveAsset l = a" "lb_loans (po_book s1) i = l"
    using st run(3,4) checks(2) by (simp_all add: settles_def pool_loans_def)
  have token: "rd_bTokenAddress (po_reserves s1 a) \<noteq> ADDRESS_0" "rd_bTokenAddress (po_reserves s1 a) \<noteq> P"
    using st checks(1) res_ok_bToken [OF ok1(2)] by (auto simp: settles_def same_setup_def)
  have post: "settles a ?cs s3 s'"
    using settles_trans [OF rates_settle [OF 1(8)] settles_trans [OF when_settles [OF 1(9)] settles_trans
      [OF money_settles(2) [OF 1(10)] settles_trans [OF when_settles [OF 1(11)] money_settles(3) [OF 1(12)]]]]]
    unfolding append_Nil append_Nil2 by simp
  from 1(6) obtain b where b: "liquidateLoan E (e_pool E) i bNft d (po_book s1) = Inr ((), b)" "s2 = s1\<lparr>po_book := b\<rparr>"
    by (elim on_bookE)
  have "book_ok b" by (rule liquidateLoan_ok [OF b(1) ok1(1)])
  have exact: "sc = ln_scaledAmount l" if "rayDiv d (borrow_index a s1) = Inr sc" "sc \<noteq> 0" for sc
    by (rule debt_is_scaled [OF liquidate_price_debt [OF 1(3)] l(1) [symmetric] run(4) updateState_effect(2) [OF 1(2)] that
        res_ok_idx [OF ok1(2) token(1)]])
  have split1: "unat d + unat remain = unat (ln_bidPrice l) + unat extra" unfolding 1(4,5) by (rule bid_splits)
  from b(1) show ?thesis
  proof (cases rule: liquidateLoan_effect)
    case u: (1 c t')
    let ?l = "l\<lparr>ln_state := LS_Defaulted, ln_bidBorrowAmount := d\<rparr>"
    show ?thesis
    proof (rule pool_inv_burn [OF inv1 laws l(1-3) 1(7) 1(6) _ _ _ post, of ?l])
      fix k
      have "bid_of k ?l = 0" "k = a \<Longrightarrow> bid_of k l = unat (ln_bidPrice l)" using checks(2) l(3) by (simp_all add: bid_of_def)
      then show "bid_of k ?l + spent P k ?cs \<le> bid_of k l + received P k ?cs"
        using split1 sender E token(2) by (auto simp: word_less_nat_alt)
    qed (use u l b(2) \<open>book_ok b\<close> exact in \<open>simp_all add: book_is_def pool_loans_def money_def living_def\<close>)
  qed
qed
section \<open>Every history of the pool\<close>

text \<open>
  A step is a transaction that did not revert, in a world \<open>E\<close> of its own: the pool has the address
  \<open>P\<close> and calls nobody's pool, the clock is not zero.  Interceptors, locks, delegations, transfers of
  bTokens and new rate contracts are steps too.
\<close>

definition world :: "string \<Rightarrow> env \<Rightarrow> string \<Rightarrow> bool" where
  "world P E sender \<longleftrightarrow> e_pool E = P \<and> e_now E \<noteq> 0 \<and> sender \<noteq> P"

inductive pool_step :: "string \<Rightarrow> 'l erc20 \<Rightarrow> 'l pool \<Rightarrow> 'l pool \<Rightarrow> bool" for P L where
  deposit: "world P E sender \<Longrightarrow> pool_deposit E L sender asset n user s = Inr (u, s') \<Longrightarrow> pool_step P L s s'"
| withdraw: "world P E sender \<Longrightarrow> pool_withdraw E L sender asset n user s = Inr (x, s') \<Longrightarrow> pool_step P L s s'"
| borrow: "world P E sender \<Longrightarrow> room 1 s \<Longrightarrow>
    pool_borrow E L sender asset n nft token user s = Inr (u, s') \<Longrightarrow> pool_step P L s s'"
| batch_borrow: "world P E sender \<Longrightarrow> room (length nfts) s \<Longrightarrow>
    pool_batchBorrow E L sender assets ns nfts tokens user s = Inr (u, s') \<Longrightarrow> pool_step P L s s'"
| repay: "world P E sender \<Longrightarrow> pool_repay E L sender nft token n s = Inr (y, s') \<Longrightarrow> pool_step P L s s'"
| batch_repay: "world P E sender \<Longrightarrow> pool_batchRepay E L sender nfts tokens ns s = Inr (ys, s') \<Longrightarrow> pool_step P L s s'"
| auction: "world P E sender \<Longrightarrow> pool_auction E L sender nft token n user s = Inr (u, s') \<Longrightarrow> pool_step P L s s'"
| redeem: "world P E sender \<Longrightarrow> pool_redeem E L sender nft token n fine s = Inr (x, s') \<Longrightarrow> pool_step P L s s'"
| liquidate: "world P E sender \<Longrightarrow> pool_liquidate E L sender nft token n s = Inr (x, s') \<Longrightarrow> pool_step P L s s'"
| transfer: "BToken_transfer E L self asset from1 to1 n s = Inr (u, s') \<Longrightarrow> pool_step P L s s'"
| delegate: "approveDelegation asset sender delegatee n s = Inr (u, s') \<Longrightarrow> pool_step P L s s'"
| register: "register_step (po_book s) b \<Longrightarrow> pool_step P L s (s\<lparr>po_book := b\<rparr>)"
| new_rates: "pool_step P L s (s\<lparr>po_rates := rates\<rparr>)"
| pause: "setPause E sender val s = Inr (u, s') \<Longrightarrow> pool_step P L s s'"
| paused_time: "setPausedTime E sender start d s = Inr (u, s') \<Longrightarrow> pool_step P L s s'"
| add_reserve: "bToken \<noteq> P \<Longrightarrow> pool_initReserve E sender asset bToken debtToken rate s = Inr (u, s') \<Longrightarrow> pool_step P L s s'"
| add_nft: "pool_initNft E sender asset bNft s = Inr (u, s') \<Longrightarrow> pool_step P L s s'"
| set_rate: "setReserveInterestRateAddress E sender asset rate s = Inr (u, s') \<Longrightarrow> pool_step P L s s'"
| set_limit: "setReserveMaxUtilizationRate E sender asset max1 s = Inr (u, s') \<Longrightarrow> pool_step P L s s'"
| set_reserve_config: "setReserveConfiguration E sender asset data s = Inr (u, s') \<Longrightarrow> pool_step P L s s'"
| set_nft_config: "setNftConfiguration E sender asset data s = Inr (u, s') \<Longrightarrow> pool_step P L s s'"
| set_supply: "setNftMaxSupplyAndTokenId E sender asset supply token s = Inr (u, s') \<Longrightarrow> pool_step P L s s'"
| set_cap: "setNftMaxCollateralCap E sender asset cap s = Inr (u, s') \<Longrightarrow> pool_step P L s s'"
| max_reserves: "setMaxNumberOfReserves E sender val s = Inr (u, s') \<Longrightarrow> pool_step P L s s'"
| max_nfts: "setMaxNumberOfNfts E sender val s = Inr (u, s') \<Longrightarrow> pool_step P L s s'"

inductive pool_reach :: "string \<Rightarrow> 'l erc20 \<Rightarrow> 'l pool \<Rightarrow> bool" for P L where
  start: "l_total L ledger = 0 \<Longrightarrow> (\<forall>u. l_balance L ledger u = 0) \<Longrightarrow> P \<noteq> ADDRESS_0 \<Longrightarrow>
    pool_reach P L (initial_pool ledger treasuries rates)"
| step: "pool_reach P L s \<Longrightarrow> pool_step P L s s' \<Longrightarrow> pool_reach P L s'"

lemma pool_inv_same:
  assumes "pool_inv P L s" "po_debt s' = po_debt s" "pool_loans s' = pool_loans s" "money s' = money s"
    "book_ok (po_book s')" "res_ok P s'"
  shows "pool_inv P L s'"
  using assms by (simp add: pool_inv_def debts_match_def bids_held_def)

lemma start_inv:
  assumes "l_total L ledger = 0" "\<forall>u. l_balance L ledger u = 0" "P \<noteq> ADDRESS_0"
  shows "pool_inv P L (initial_pool ledger treasuries rates)"
  using assms initial_book_ok
  by (auto simp: pool_inv_def initial_pool_def res_ok_def no_reserve_def debts_match_def bids_held_def
      pool_loans_def money_def loan_sum_def initial_book_def debt_of_def debt_by_def bid_of_def no_loan_def living_def)

lemma unpaused: "whenNotPaused m s = Inr r \<Longrightarrow> m s = Inr r"
  unfolding whenNotPaused_def by (cases r) (auto elim!: tx_elims)

lemma borrow_each_inv:
  "borrow_each E L sender assets ns nfts tokens user s = Inr (u, s') \<Longrightarrow> pool_inv P L s \<Longrightarrow> erc20_laws L \<Longrightarrow>
   room (length nfts) s \<Longrightarrow> pool_inv P L s'"
proof (induction E L sender assets ns nfts tokens user arbitrary: s rule: borrow_each.induct)
  case (1 E L sender a as m ms n ns t ts user)
  from 1(2) obtain s1 where s1: "borrow_logic E L sender a m n t user s = Inr ((), s1)"
    "borrow_each E L sender as ms ns ts user s1 = Inr (u, s')" by (auto elim!: tx_bindE)
  have "pool_inv P L s1 \<and> room (length ns) s1" by (rule borrow_inv [OF s1(1) 1(3,4)]) (use 1(5) in simp)
  then show ?case using 1(1) [OF s1(2) _ 1(4)] by blast
qed simp_all

lemma repay_each_inv:
  "repay_each E L sender nfts tokens ns s = Inr (rs, s') \<Longrightarrow> pool_inv P L s \<Longrightarrow> erc20_laws L \<Longrightarrow> sender \<noteq> P \<Longrightarrow>
   pool_inv P L s'"
proof (induction E L sender nfts tokens ns arbitrary: s rs rule: repay_each.induct)
  case (1 E L sender n ns t ts m ms)
  from 1(2) obtain r rs1 s1 where s1: "repay_logic E L sender n t m s = Inr (r, s1)"
    "repay_each E L sender ns ts ms s1 = Inr (rs1, s')" by (auto elim!: tx_elims)
  show ?case by (rule 1(1) [OF s1(2) repay_inv [OF s1(1) refl refl refl 1(3-5)] 1(4,5)])
qed simp_all
text \<open>The configurator changes no loan, no debt and no index.\<close>

definition administers :: "'l pool \<Rightarrow> 'l pool \<Rightarrow> bool" where
  "administers s s' \<longleftrightarrow> po_debt s' = po_debt s \<and> pool_loans s' = pool_loans s \<and> money s' = money s \<and>
     (book_ok (po_book s) \<longrightarrow> book_ok (po_book s')) \<and>
     (\<forall>a. rd_bTokenAddress (po_reserves s' a) = rd_bTokenAddress (po_reserves s a) \<and>
       rd_liquidityIndex (po_reserves s' a) = rd_liquidityIndex (po_reserves s a) \<and>
       rd_variableBorrowIndex (po_reserves s' a) = rd_variableBorrowIndex (po_reserves s a))"

lemma administers_inv: "administers s s' \<Longrightarrow> pool_inv P L s \<Longrightarrow> pool_inv P L s'"
  by (rule pool_inv_same) (auto simp: administers_def pool_inv_def res_ok_def idx_ok_def)

lemma settles_inv: "settles a [] s s' \<Longrightarrow> pool_inv P L s \<Longrightarrow> pool_inv P L s'"
  by (rule pool_inv_settles) auto

lemma administers_refl: "administers s s"
  by (simp add: administers_def)

lemma setters_administer:
  "setPause E sender val1 s = Inr (u, s') \<Longrightarrow> administers s s'"
  "setPausedTime E sender start d s = Inr (u, s') \<Longrightarrow> administers s s'"
  "setReserveInterestRateAddress E sender asset rateAddress s = Inr (u, s') \<Longrightarrow> administers s s'"
  "setReserveMaxUtilizationRate E sender asset max1 s = Inr (u, s') \<Longrightarrow> administers s s'"
  "setReserveConfiguration E sender asset data s = Inr (u, s') \<Longrightarrow> administers s s'"
  "setNftConfiguration E sender asset data s = Inr (u, s') \<Longrightarrow> administers s s'"
  "setNftMaxSupplyAndTokenId E sender asset supply token s = Inr (u, s') \<Longrightarrow> administers s s'"
  "setNftMaxCollateralCap E sender asset cap s = Inr (u, s') \<Longrightarrow> administers s s'"
  "setMaxNumberOfReserves E sender val s = Inr (u, s') \<Longrightarrow> administers s s'"
  "setMaxNumberOfNfts E sender val s = Inr (u, s') \<Longrightarrow> administers s s'"
  "approveDelegation asset sender delegatee n s = Inr (u, s') \<Longrightarrow> administers s s'"
  "addReserveToList asset s = Inr (u, s') \<Longrightarrow> administers s s'"
  "addNftToList asset s = Inr (u, s') \<Longrightarrow> administers s s'"
  unfolding setPause_def setPausedTime_def setReserveInterestRateAddress_def setReserveMaxUtilizationRate_def
    setReserveConfiguration_def setNftConfiguration_def setNftMaxSupplyAndTokenId_def setNftMaxCollateralCap_def
    setMaxNumberOfReserves_def setMaxNumberOfNfts_def configure_reserve_def configure_nft_def approveDelegation_def
    addReserveToList_def addNftToList_def Let_def
  by (auto elim!: tx_elims simp: administers_def pool_loans_def money_def split: if_split_asm)

lemma BToken_transfer_settles:
  "BToken_transfer E L self asset x y n s = Inr (u, s') \<Longrightarrow> settles a [] s s'"
  unfolding BToken_transfer_def finalizeTransfer_def whenNotPaused_def
  by (auto elim!: tx_elims dest!: set_btoken_quiet intro: quiet_settles)

lemma add_reserve_inv:
  assumes "pool_initReserve E sender asset bToken debtToken rate s = Inr (u, s')" "pool_inv P L s" "bToken \<noteq> P"
  shows "pool_inv P L s'"
proof -
  from assms(1) obtain r' s1 where r': "init_reserve bToken debtToken rate (po_reserves s asset) = Inr r'"
    and s1: "s1 = s\<lparr>po_reserves := (po_reserves s)(asset := r')\<rparr>" "addReserveToList asset s1 = Inr (u, s')"
    unfolding pool_initReserve_def set_reserve_def by (auto elim!: tx_elims)
  have "rd_bTokenAddress r' = bToken" "idx_ok r'"
    using r' narrow_index(2) [of RAY256] unit_numbers
    unfolding init_reserve_def idx_ok_def
    by (auto elim!: bind_requireE simp: unat_units word_le_nat_alt unat_UINT128_MAX)
  then have "res_ok P s1" using assms(2,3) s1(1) by (simp add: pool_inv_def res_ok_def)
  then have "pool_inv P L s1"
    by (intro pool_inv_same [OF assms(2)]) (use s1(1) assms(2) in \<open>simp_all add: pool_loans_def money_def pool_inv_def\<close>)
  then show ?thesis by (rule administers_inv [OF setters_administer(12) [OF s1(2)]])
qed

lemma register_inv:
  assumes "register_step (po_book s) b" "pool_inv P L s"
  shows "pool_inv P L (s\<lparr>po_book := b\<rparr>)"
proof (rule pool_inv_same [OF assms(2)])
  have a: "aside (po_book s) b" by (rule register_step_aside [OF assms(1)])
  show "pool_loans (s\<lparr>po_book := b\<rparr>) = pool_loans s" "money (s\<lparr>po_book := b\<rparr>) = money s"
    using a by (simp_all add: pool_loans_def money_def aside_def)
  show "book_ok (po_book (s\<lparr>po_book := b\<rparr>))" using aside_ok [OF a] assms(2) by (simp add: pool_inv_def)
qed (use assms(2) in \<open>simp_all add: pool_inv_def res_ok_def\<close>)

lemma add_nft_inv:
  assumes "pool_initNft E sender asset bNft s = Inr (u, s')" "pool_inv P L s"
  shows "pool_inv P L s'"
proof -
  from assms(1) obtain n' s1 s2 where n: "addNftToList asset (s\<lparr>po_nfts := (po_nfts s)(asset := n')\<rparr>) = Inr ((), s1)"
    "pool_ext E (SetApprovalForAll asset (e_loan E)) s1 = Inr ((), s2)"
    "on_book (initNft E (e_pool E) asset bNft) s2 = Inr (u, s')"
    unfolding pool_initNft_def by (auto elim!: tx_elims)
  have "administers s (s\<lparr>po_nfts := (po_nfts s)(asset := n')\<rparr>)"
    by (simp add: administers_def pool_loans_def money_def)
  from administers_inv [OF this assms(2)] have "pool_inv P L s1"
    by (rule administers_inv [OF setters_administer(13) [OF n(1)]])
  then have inv2: "pool_inv P L s2" by (rule settles_inv [OF money_settles(4) [OF n(2)]])
  from n(3) obtain b where b: "initNft E (e_pool E) asset bNft (po_book s2) = Inr (u, b)" "s' = s2\<lparr>po_book := b\<rparr>"
    by (elim on_bookE)
  show ?thesis unfolding b(2) by (rule register_inv [OF register_step.init_nft [OF b(1)] inv2])
qed

lemma pool_step_inv:
  assumes "pool_step P L s s'" "pool_inv P L s" "erc20_laws L"
  shows "pool_inv P L s'"
  using assms
proof (induction rule: pool_step.induct)
  case (deposit E sender asset n user s u s')
  then show ?case unfolding pool_deposit_def world_def by (blast intro: deposit_inv dest: unpaused)
next
  case (withdraw E sender asset n user s x s')
  then show ?case unfolding pool_withdraw_def by (blast intro: withdraw_inv dest: unpaused)
next
  case (borrow E sender s asset n nft token user u s')
  then have r: "borrow_logic E L sender asset n nft token user s = Inr (u, s')"
    unfolding pool_borrow_def by (blast dest: unpaused)
  show ?case using borrow_inv [OF r borrow(4,5), of 0] borrow(2) by simp
next
  case (batch_borrow E sender nfts s assets ns tokens user u s')
  then have "borrow_each E L sender assets ns nfts tokens user s = Inr (u, s')"
    unfolding pool_batchBorrow_def by (auto dest!: unpaused elim!: tx_elims)
  then show ?case using borrow_each_inv batch_borrow by blast
next
  case (repay E sender nft token n s y s')
  then have "repay_logic E L sender nft token n s = Inr (y, s')"
    unfolding pool_repay_def by (blast dest: unpaused)
  then show ?case using repay_inv [OF _ refl refl refl] repay(1,3,4) unfolding world_def by blast
next
  case (batch_repay E sender nfts tokens ns s ys s')
  then have "repay_each E L sender nfts tokens ns s = Inr (ys, s')"
    unfolding pool_batchRepay_def by (auto dest!: unpaused elim!: tx_elims)
  then show ?case using repay_each_inv batch_repay(1,3,4) unfolding world_def by blast
next
  case (auction E sender nft token n user s u s')
  then have "auction_logic E L sender nft token n user s = Inr (u, s')"
    unfolding pool_auction_def by (blast dest: unpaused)
  then show ?case using auction_inv [OF _ refl refl refl] auction(1,3) unfolding world_def by blast
next
  case (redeem E sender nft token n fine s x s')
  then have "redeem_logic E L sender nft token n fine s = Inr (x, s')"
    unfolding pool_redeem_def by (blast dest: unpaused)
  then show ?case using redeem_inv [OF _ refl refl refl] redeem(1,3,4) unfolding world_def by blast
next
  case (liquidate E sender nft token n s x s')
  then have "liquidate_logic E L sender nft token n s = Inr (x, s')"
    unfolding pool_liquidate_def by (blast dest: unpaused)
  then show ?case using liquidate_inv [OF _ refl refl refl] liquidate(1,3,4) unfolding world_def by blast
next
  case (transfer E self asset from1 to1 n s u s')
  then show ?case by (blast intro: settles_inv BToken_transfer_settles)
next
  case (new_rates s rates)
  have "administers s (s\<lparr>po_rates := rates\<rparr>)" by (simp add: administers_def pool_loans_def money_def)
  then show ?case using new_rates by (rule_tac administers_inv)
qed (blast intro: administers_inv setters_administer register_inv add_reserve_inv add_nft_inv)+

lemma pool_reach_inv: "pool_reach P L s \<Longrightarrow> erc20_laws L \<Longrightarrow> pool_inv P L s"
  by (induction rule: pool_reach.induct) (auto intro: start_inv pool_step_inv)
end
