(* ===== verification/SamplePool.thy ===== *)
theory SamplePool
  imports PoolInvariant
begin

text \<open>
  A ledger that does what the package documents, and a market on it with one reserve and one
  collection, set up by the transactions of the configurator: the witnesses run there.
\<close>

section \<open>A ledger\<close>

type_synonym ledger = "(string \<Rightarrow> uint256) \<times> uint256"

definition plain_mint :: "string \<Rightarrow> uint256 \<Rightarrow> ledger \<Rightarrow> string + ledger" where
  "plain_mint a v t = bind_revert (checked_add (snd t) v) (\<lambda>total.
     bind_revert (checked_add (fst t a) v) (\<lambda>b. Inr ((fst t)(a := b), total)))"

definition plain_burn :: "string \<Rightarrow> uint256 \<Rightarrow> ledger \<Rightarrow> string + ledger" where
  "plain_burn a v t = bind_revert (checked_sub (fst t a) v) (\<lambda>b.
     bind_revert (checked_sub (snd t) v) (\<lambda>total. Inr ((fst t)(a := b), total)))"

definition plain_transfer :: "string \<Rightarrow> string \<Rightarrow> uint256 \<Rightarrow> ledger \<Rightarrow> string + ledger" where
  "plain_transfer x y v t = bind_revert (plain_burn x v t) (plain_mint y v)"

definition plain_ledger :: "ledger erc20" where
  "plain_ledger = \<lparr>l_mint = plain_mint, l_burn = plain_burn, l_transfer = plain_transfer,
     l_balance = fst, l_total = snd\<rparr>"

lemma plain_ledger_laws: "erc20_laws plain_ledger"
  unfolding erc20_laws_def plain_ledger_def plain_mint_def plain_burn_def
  by (auto simp: bind_revert_Inr checked_iff)

section \<open>A market\<close>

definition weth_config :: uint256 where
  "weth_config = put_field 48 8 (put_field 56 1 (put_field 58 1 0 1) 1) 18"

definition ape_config :: uint256 where
  "ape_config = put_field 0 16 (put_field 16 16 (put_field 32 16 (put_field 56 1 (put_field 64 8
     (put_field 72 8 (put_field 80 16 0 500) 24) 24) 1) 10000) 9000) 4000"

definition sample_rates :: interest_rate where
  "sample_rates = \<lparr>rate_owner = ''0xa'', rate_provider = ''0xb'',
     OPTIMAL_UTILIZATION_RATE = 650000000000000000000000000, EXCESS_UTILIZATION_RATE = 350000000000000000000000000,
     rate_base = 30000000000000000000000000, rate_slope1 = 80000000000000000000000000,
     rate_slope2 = 1000000000000000000000000000\<rparr>"

definition sample_start :: "ledger pool" where
  "sample_start = initial_pool (\<lambda>_. 0, 0) (\<lambda>_. ''treasury'') (\<lambda>_. sample_rates)"

definition sample_setup :: "(ledger pool, unit) tx" where
  "sample_setup =
     tx_bind (pool_initReserve sample_env ''configurator'' ''weth'' ''bWETH'' ''debtWETH'' ''rate'') (\<lambda>_.
     tx_bind (setReserveConfiguration sample_env ''configurator'' ''weth'' weth_config) (\<lambda>_.
     tx_bind (setReserveMaxUtilizationRate sample_env ''configurator'' ''weth'' 900000000000000000000000000) (\<lambda>_.
     tx_bind (pool_initNft sample_env ''configurator'' ''ape'' ''bAPE'') (\<lambda>_.
     tx_bind (setNftConfiguration sample_env ''configurator'' ''ape'' ape_config) (\<lambda>_.
     tx_bind (setNftMaxSupplyAndTokenId sample_env ''configurator'' ''ape'' 10000 9999) (\<lambda>_.
     setNftMaxCollateralCap sample_env ''configurator'' ''ape'' 100))))))"

definition sample_reserve :: reserve_data where
  "sample_reserve = \<lparr>rd_configuration = weth_config, rd_liquidityIndex = 1000000000000000000000000000,
     rd_variableBorrowIndex = 1000000000000000000000000000, rd_currentLiquidityRate = 0,
     rd_currentVariableBorrowRate = 0, rd_lastUpdateTimestamp = 0, rd_bTokenAddress = ''bWETH'',
     rd_debtTokenAddress = ''debtWETH'', rd_interestRateAddress = ''rate'', rd_id = 0,
     rd_maxUtilizationRate = 900000000000000000000000000\<rparr>"

definition sample_nft :: pool_nft where
  "sample_nft = \<lparr>configuration = ape_config, nft_maxSupply = 10000, nft_maxTokenId = 9999,
     maxCollateralCap = 100, pn_bNftAddress = ''bAPE'', pn_id = 0\<rparr>"

definition sample_market :: "ledger pool" where
  "sample_market = sample_start\<lparr>po_reserves := (\<lambda>_. no_reserve)(''weth'' := sample_reserve),
     po_nfts := (\<lambda>_. no_nft)(''ape'' := sample_nft), po_reservesList := (\<lambda>_. ADDRESS_0)(0 := ''weth''),
     po_reservesCount := 1, po_nftsList := (\<lambda>_. ADDRESS_0)(0 := ''ape''), po_nftsCount := 1,
     po_book := initial_book\<lparr>lb_calls := [SetApprovalForAll ''ape'' ''loan'', SetApprovalForAll ''ape'' ''bAPE'']\<rparr>\<rparr>"

lemma sample_reserve_set_up:
  "pool_initReserve sample_env ''configurator'' ''weth'' ''bWETH'' ''debtWETH'' ''rate'' sample_start =
   Inr ((), sample_start\<lparr>po_reserves := (\<lambda>_. no_reserve)(''weth'' := sample_reserve\<lparr>rd_configuration := 0,
     rd_maxUtilizationRate := 0\<rparr>), po_reservesList := (\<lambda>_. ADDRESS_0)(0 := ''weth''), po_reservesCount := 1\<rparr>)"
  unfolding pool_initReserve_def set_reserve_def init_reserve_def addReserveToList_def Let_def
  by (simp add: sample_start_def initial_pool_def sample_env_def no_reserve_def
      sample_reserve_def ADDRESS_0_def RAY256_def unit_numbers)

definition sample_reserves_only :: "ledger pool" where
  "sample_reserves_only = sample_start\<lparr>po_reserves := (\<lambda>_. no_reserve)(''weth'' := sample_reserve),
     po_reservesList := (\<lambda>_. ADDRESS_0)(0 := ''weth''), po_reservesCount := 1\<rparr>"

lemma sample_reserve_configured:
  assumes "s = sample_start\<lparr>po_reserves := (\<lambda>_. no_reserve)(''weth'' := sample_reserve\<lparr>rd_configuration := 0,
     rd_maxUtilizationRate := 0\<rparr>), po_reservesList := (\<lambda>_. ADDRESS_0)(0 := ''weth''), po_reservesCount := 1\<rparr>"
  shows "tx_bind (setReserveConfiguration sample_env ''configurator'' ''weth'' weth_config) (\<lambda>_.
     setReserveMaxUtilizationRate sample_env ''configurator'' ''weth'' 900000000000000000000000000) s =
     Inr ((), sample_reserves_only)"
  unfolding setReserveConfiguration_def setReserveMaxUtilizationRate_def configure_reserve_def assms
  by (simp add: sample_env_def sample_reserves_only_def sample_reserve_def)

lemma sample_nft_set_up:
  "pool_initNft sample_env ''configurator'' ''ape'' ''bAPE'' sample_reserves_only =
   Inr ((), sample_market\<lparr>po_nfts := (\<lambda>_. no_nft)(''ape'' := no_nft\<lparr>pn_bNftAddress := ''bAPE''\<rparr>)\<rparr>)"
  unfolding pool_initNft_def init_nft_data_def addNftToList_def Let_def pool_ext_def on_book_def tx_zoom_def ext_def
    initNft_def onlyLendPool_def sample_reserves_only_def
  by (simp add: sample_start_def initial_pool_def sample_env_def no_nft_def sample_market_def
      initial_book_def ADDRESS_0_def)
lemma sample_nft_configured:
  assumes "s = sample_market\<lparr>po_nfts := (\<lambda>_. no_nft)(''ape'' := no_nft\<lparr>pn_bNftAddress := ''bAPE''\<rparr>)\<rparr>"
  shows "tx_bind (setNftConfiguration sample_env ''configurator'' ''ape'' ape_config) (\<lambda>_.
     tx_bind (setNftMaxSupplyAndTokenId sample_env ''configurator'' ''ape'' 10000 9999) (\<lambda>_.
     setNftMaxCollateralCap sample_env ''configurator'' ''ape'' 100)) s = Inr ((), sample_market)"
  unfolding setNftConfiguration_def setNftMaxSupplyAndTokenId_def setNftMaxCollateralCap_def configure_nft_def assms
  by (simp add: sample_env_def sample_market_def sample_nft_def no_nft_def)

lemma sample_market_reached: "pool_reach ''pool'' plain_ledger sample_market"
proof -
  have start: "pool_reach ''pool'' plain_ledger sample_start"
    unfolding sample_start_def by (rule pool_reach.start) (simp_all add: plain_ledger_def ADDRESS_0_def)
  have "pool_reach ''pool'' plain_ledger sample_reserves_only"
    using pool_reach.step [OF start pool_step.add_reserve [OF _ sample_reserve_set_up]] sample_reserve_configured [OF refl]
    by (auto elim!: tx_bindE intro: pool_reach.step pool_step.set_reserve_config pool_step.set_limit)
  from pool_reach.step [OF this pool_step.add_nft [OF sample_nft_set_up]] sample_nft_configured [OF refl]
  show ?thesis
    by (elim tx_bindE) (rule pool_reach.step [OF pool_reach.step [OF pool_reach.step
      [OF _ pool_step.set_nft_config] pool_step.set_supply] pool_step.set_cap])
qed

section \<open>A loan on it\<close>

lemma weth_config_reads: "getDecimals weth_config = 18" "getReserveFlags weth_config = (True, False, True, False)"
  "getReserveFactor weth_config = 0" "getReserveActive weth_config"
  by (simp_all add: weth_config_def reserve_getter_fields field_put_same field_put_other field_def [of _ _ 0] mask_eq_exp_minus_1)

lemma ape_config_reads: "getLtv ape_config = 4000" "getLiquidationThreshold ape_config = 9000"
  "getLiquidationBonus ape_config = 10000" "getActive ape_config" "\<not> getFrozen ape_config"
  "getRedeemDuration ape_config = 24" "getAuctionDuration ape_config = 24"
  by (simp_all add: ape_config_def getter_fields field_put_same field_put_other field_def [of _ _ 0] mask_eq_exp_minus_1)

lemma sample_borrow_valid:
  "validateBorrow sample_env plain_ledger (sample_market\<lparr>po_reserves := (\<lambda>_. no_reserve)(''weth'' := sample_reserve
     \<lparr>rd_lastUpdateTimestamp := 1700000000\<rparr>)\<rparr>) ''alice'' ''weth'' 100 ''ape'' 0 = Inr ()"
  by (simp add: validateBorrow_def validate_loan_def validate_utilization_def calculateLoanData_def Let_def
      calculateNftCollateralData_def calculateHealthFactorFromBalances_def sample_market_def sample_reserve_def
      sample_nft_def weth_config_reads ape_config_reads sample_env_def ADDRESS_0_def plain_ledger_def
      sample_start_def initial_pool_def ray.mul_spec ray.div_spec percent.div_spec unit_numbers mul_round_def div_round_def
      checked_add_def checked_mul_def checked_div_def checked_pow10_def fits_def WAD256_def UINT256_MAX_def)
definition borrowed_reserve :: reserve_data where
  "borrowed_reserve = sample_reserve\<lparr>rd_lastUpdateTimestamp := 1700000000,
     rd_currentLiquidityRate := 4230769231000000000000000, rd_currentVariableBorrowRate := 42307692307692307692307692\<rparr>"

definition ape_loan :: loan_data where
  "ape_loan = no_loan\<lparr>ln_loanId := 1, ln_state := LS_Active, ln_borrower := ''alice'', ln_nftAsset := ''ape'',
     ln_nftTokenId := 7, ln_reserveAsset := ''weth'', ln_scaledAmount := 100\<rparr>"

definition borrowed_book :: loan_book where
  "borrowed_book = initial_book\<lparr>lb_loanIdTracker := 2, lb_loans := (\<lambda>_. no_loan)(1 := ape_loan),
     lb_nftToLoanIds := set2 (\<lambda>_ _. 0) ''ape'' 7 1, lb_nftTotalCollateral := (\<lambda>_. 0)(''ape'' := 1),
     lb_userNftCollateral := set2 (\<lambda>_ _. 0) ''alice'' ''ape'' 1,
     lb_calls := [SetApprovalForAll ''ape'' ''loan'', SetApprovalForAll ''ape'' ''bAPE'',
       NftSafeTransferFrom ''ape'' ''alice'' ''pool'' 7, NftSafeTransferFrom ''ape'' ''pool'' ''loan'' 7,
       BnftMint ''bAPE'' ''alice'' 7, Erc20SafeTransfer ''weth'' ''bWETH'' ''alice'' 100]\<rparr>"

definition sample_borrowed :: "ledger pool" where
  "sample_borrowed = sample_market\<lparr>po_reserves := (\<lambda>_. no_reserve)(''weth'' := borrowed_reserve),
     po_debt := (\<lambda>_. (\<lambda>_. 0, 0))(''weth'' := ((\<lambda>_. 0)(''alice'' := 100), 100)), po_book := borrowed_book\<rparr>"

definition sample_updated :: "ledger pool" where
  "sample_updated = sample_market\<lparr>po_reserves := (\<lambda>_. no_reserve)(''weth'' := sample_reserve
     \<lparr>rd_lastUpdateTimestamp := 1700000000\<rparr>)\<rparr>"

lemma sample_update: "updateState sample_env plain_ledger ''weth'' sample_market = Inr ((), sample_updated)"
  unfolding updateState_def updateIndexes_def mintToTreasury_def set_reserve_def
  by (simp add: sample_market_def sample_reserve_def sample_env_def sample_updated_def weth_config_reads)

definition sample_opened :: "ledger pool" where
  "sample_opened = sample_updated\<lparr>po_book := borrowed_book\<lparr>lb_calls := butlast (lb_calls borrowed_book)\<rparr>\<rparr>"

lemma sample_open:
  "open_or_extend sample_env ''alice'' ''weth'' 100 ''ape'' 7 ''alice'' 0 sample_updated = Inr (1, sample_opened)"
  unfolding open_or_extend_def pool_ext_def on_book_def tx_zoom_def
  by (simp add: createLoan_def onlyLendPool_def set_loan_def count_nft_def ext_def sample_env_def sample_updated_def
      sample_market_def sample_nft_def sample_opened_def borrowed_book_def initial_book_def ape_loan_def borrow_index_def
      sample_reserve_def sample_rate checked_add_def sample_start_def initial_pool_def)

lemma sample_rates_after:
  "calculateInterestRates_of_pool sample_rates 1000 0 100 100 0 = Inr (4230769231000000000000000, 42307692307692307692307692)"
  by (simp add: calculateInterestRates_of_pool_def calculateInterestRates_def utilizationRate_def variableBorrowRate_def
      getOverallBorrowRate_def wadToRay_def sample_rates_def checked_add_def checked_sub_def checked_mul_def checked_div_def
      ray.mul_spec ray.div_spec percent.mul_spec unit_numbers mul_round_def div_round_def PERCENT_def WAD_RAY_RATIO256_def
      unat_units)
definition sample_minted :: "ledger pool" where
  "sample_minted = sample_opened\<lparr>po_debt := (\<lambda>_. (\<lambda>_. 0, 0))(''weth'' := ((\<lambda>_. 0)(''alice'' := 100), 100))\<rparr>"

lemma sample_mint:
  "DebtToken_mint plain_ledger ''weth'' ''alice'' ''alice'' 100 1000000000000000000000000000 sample_opened = Inr ((), sample_minted)"
  unfolding DebtToken_mint_def set_debt_def
  by (simp add: sample_rate sample_minted_def plain_ledger_def plain_mint_def checked_add_def sample_opened_def
      sample_updated_def sample_market_def sample_start_def initial_pool_def)

lemma sample_scaled: "rayMul 100 1000000000000000000000000000 = Inr 100"
  by (simp add: ray.mul_spec unit_numbers mul_round_def)

lemma sample_new_rates:
  "updateInterestRates sample_env plain_ledger ''weth'' 0 100 sample_minted =
   Inr ((), sample_borrowed\<lparr>po_book := po_book sample_opened\<rparr>)"
  unfolding updateInterestRates_def set_reserve_def
  by (simp add: sample_minted_def sample_opened_def sample_updated_def sample_market_def sample_reserve_def
      sample_scaled plain_ledger_def weth_config_reads sample_env_def sample_rates_after sample_start_def
      initial_pool_def UINT128_MAX_def sample_borrowed_def borrowed_reserve_def)

lemma running: "\<not> po_paused s \<Longrightarrow> whenNotPaused m s = m s"
  by (simp add: whenNotPaused_def tx_bind_def)

lemma sample_borrow:
  "pool_borrow sample_env plain_ledger ''alice'' ''weth'' 100 ''ape'' 7 ''alice'' sample_market = Inr ((), sample_borrowed)"
proof -
  have 1: "sample_updated = sample_market\<lparr>po_reserves := (\<lambda>_. no_reserve)(''weth'' := sample_reserve
     \<lparr>rd_lastUpdateTimestamp := 1700000000\<rparr>)\<rparr>" by (simp add: sample_updated_def)
  have i: "borrow_index ''weth'' sample_opened = 1000000000000000000000000000"
    by (simp add: borrow_index_def sample_opened_def sample_updated_def sample_reserve_def)
  have reads: "lb_nftToLoanIds (po_book sample_updated) ''ape'' 7 = 0" "po_nfts sample_updated ''ape'' = sample_nft"
    "e_nft_supply sample_env = (\<lambda>_ _. 1)" "\<not> po_paused sample_market" "''alice'' \<noteq> ADDRESS_0"
    by (simp_all add: sample_updated_def sample_market_def initial_book_def sample_env_def ADDRESS_0_def
        sample_start_def initial_pool_def)
  have transfer: "transferUnderlyingTo sample_env ''weth'' ''bWETH'' ''alice'' 100
      (sample_borrowed\<lparr>po_book := po_book sample_opened\<rparr>) = Inr ((), sample_borrowed)"
    by (simp add: transferUnderlyingTo_def pool_ext_def on_book_def tx_zoom_def ext_def sample_env_def
        sample_opened_def sample_borrowed_def borrowed_book_def)
  have token: "rd_bTokenAddress (po_reserves sample_borrowed ''weth'') = ''bWETH''"
    by (simp add: sample_borrowed_def borrowed_reserve_def sample_reserve_def)
  show ?thesis
    unfolding pool_borrow_def running [OF reads(4)] borrow_logic_def
    by (simp add: reads(1-3,5) sample_update sample_nft_def sample_borrow_valid [folded 1] sample_open i sample_mint
        sample_new_rates token transfer)
qed

lemma sample_world: "world ''pool'' sample_env ''alice''"
  by (simp add: world_def sample_env_def)

lemma sample_borrowed_reached: "pool_reach ''pool'' plain_ledger sample_borrowed"
  by (rule pool_reach.step [OF sample_market_reached pool_step.borrow [OF sample_world _ sample_borrow]])
    (simp add: room_def sample_market_def initial_book_def)
section \<open>An auction of it\<close>

text \<open>The price of the collection has fallen, and bob bids.\<close>

definition crash_env :: env where
  "crash_env = sample_env\<lparr>e_nft_price := (\<lambda>_. Inr 100)\<rparr>"

definition bid_loan :: loan_data where
  "bid_loan = ape_loan\<lparr>ln_state := LS_Auction, ln_bidStartTimestamp := 1700000000, ln_firstBidderAddress := ''bob'',
     ln_bidBorrowAmount := 100, ln_bidderAddress := ''bob'', ln_bidPrice := 150\<rparr>"

definition sample_bid :: "ledger pool" where
  "sample_bid = sample_borrowed\<lparr>po_reserves := (\<lambda>_. no_reserve)(''weth'' := borrowed_reserve
     \<lparr>rd_currentLiquidityRate := 3744437380909090909090909, rd_currentVariableBorrowRate := 41188811188811188811188811\<rparr>),
     po_book := borrowed_book\<lparr>lb_loans := (\<lambda>_. no_loan)(1 := bid_loan), lb_calls := lb_calls borrowed_book @
       [SetFlashLoanLocking ''bnft'' 7 ''loan'' True, Erc20SafeTransferFrom ''weth'' ''bob'' ''pool'' 150]\<rparr>\<rparr>"

lemma borrowed_update: "updateState crash_env plain_ledger ''weth'' sample_borrowed = Inr ((), sample_borrowed)"
proof -
  have "updateIndexes 1700000000 100 1000000000000000000000000000 1000000000000000000000000000 1700000000 borrowed_reserve
      = Inr (1000000000000000000000000000, 1000000000000000000000000000, borrowed_reserve)"
    using updateIndexes_same_block [of 1700000000 borrowed_reserve 100]
    by (simp add: borrowed_reserve_def sample_reserve_def)
  then show ?thesis unfolding updateState_def mintToTreasury_def set_reserve_def
    by (simp add: sample_borrowed_def sample_market_def crash_env_def sample_env_def weth_config_reads plain_ledger_def
        borrowed_reserve_def sample_reserve_def)
qed

lemma borrowed_prices:
  "calculateLoanLiquidatePrice crash_env sample_borrowed 1 ''weth'' ''ape'' = Inr (100, 90, 100)"
proof -
  have "getLoanReserveBorrowAmount crash_env sample_borrowed 1 = Inr 100"
    by (simp add: getLoanReserveBorrowAmount_def getNormalizedDebt_def Let_def sample_borrowed_def borrowed_book_def
        ape_loan_def borrowed_reserve_def sample_reserve_def crash_env_def sample_env_def sample_scaled)
  then show ?thesis
    by (simp add: calculateLoanLiquidatePrice_def Let_def sample_borrowed_def sample_market_def sample_nft_def
        crash_env_def sample_env_def borrowed_reserve_def sample_reserve_def weth_config_reads ape_config_reads
        checked_pow10_def fits_def checked_mul_def checked_div_def percent.mul_spec unit_numbers mul_round_def PERCENT_def)
qed

lemma bid_rates:
  "calculateInterestRates_of_pool sample_rates 1000 0 0 100 0 = Inr (3744437380909090909090909, 41188811188811188811188811)"
  by (simp add: calculateInterestRates_of_pool_def calculateInterestRates_def utilizationRate_def variableBorrowRate_def
      getOverallBorrowRate_def wadToRay_def sample_rates_def checked_add_def checked_sub_def checked_mul_def checked_div_def
      ray.mul_spec ray.div_spec percent.mul_spec unit_numbers mul_round_def div_round_def PERCENT_def WAD_RAY_RATIO256_def
      unat_units)

lemma sample_auction:
  "pool_auction crash_env plain_ledger ''bob'' ''ape'' 7 150 ''bob'' sample_borrowed = Inr ((), sample_bid)"
proof -
  let ?book = "borrowed_book\<lparr>lb_loans := (\<lambda>_. no_loan)(1 := bid_loan),
    lb_calls := lb_calls borrowed_book @ [SetFlashLoanLocking ''bnft'' 7 ''loan'' True]\<rparr>"
  have reads: "lb_nftToLoanIds borrowed_book ''ape'' 7 = 1" "lb_loans borrowed_book 1 = ape_loan"
    "\<not> po_paused sample_borrowed" "''bob'' \<noteq> ADDRESS_0" "po_reserves sample_borrowed ''weth'' = borrowed_reserve"
    "po_nfts sample_borrowed ''ape'' = sample_nft" "e_pool crash_env = ''pool''" "po_book sample_borrowed = borrowed_book"
    by (simp_all add: sample_borrowed_def borrowed_book_def sample_market_def sample_start_def initial_pool_def
        ADDRESS_0_def crash_env_def sample_env_def)
  have valid: "validateAuction borrowed_reserve sample_nft ape_loan 150 = Inr ()"
    by (simp add: validateAuction_def validate_active_def borrowed_reserve_def sample_reserve_def sample_nft_def
        ape_loan_def weth_config_reads ape_config_reads ADDRESS_0_def)
  have bid: "auctionLoan crash_env ''pool'' 1 ''bob'' 150 100 borrowed_book = Inr ((), ?book)"
    by (simp add: auctionLoan_def onlyLendPool_def set_loan_def lock_flash_loan_def ext_def borrowed_book_def ape_loan_def
        bid_loan_def no_loan_def crash_env_def sample_env_def)
  have pay: "pool_ext crash_env (Erc20SafeTransferFrom ''weth'' ''bob'' ''pool'' 150) (sample_borrowed\<lparr>po_book := ?book\<rparr>)
      = Inr ((), sample_bid\<lparr>po_reserves := po_reserves sample_borrowed\<rparr>)"
    by (simp add: pool_ext_def on_book_def tx_zoom_def ext_def crash_env_def sample_env_def sample_bid_def sample_borrowed_def)
  have rates: "updateInterestRates crash_env plain_ledger ''weth'' 0 0 (sample_bid\<lparr>po_reserves := po_reserves sample_borrowed\<rparr>)
      = Inr ((), sample_bid)"
    unfolding updateInterestRates_def set_reserve_def
    by (simp add: sample_bid_def sample_borrowed_def sample_market_def sample_start_def initial_pool_def borrowed_reserve_def
        sample_reserve_def sample_scaled plain_ledger_def weth_config_reads crash_env_def sample_env_def bid_rates UINT128_MAX_def)
  have loan: "ln_reserveAsset ape_loan = ''weth''" "ln_nftAsset ape_loan = ''ape''" "ln_state ape_loan = LS_Active"
    "ln_bidderAddress ape_loan = ADDRESS_0"
    by (simp_all add: ape_loan_def no_loan_def)
  show ?thesis
    unfolding pool_auction_def running [OF reads(3)] auction_logic_def on_book_def tx_zoom_def
    by (simp add: reads Let_def loan valid borrowed_update borrowed_prices first_bid_checks_def bid pay rates)
qed

lemma sample_bid_reached: "pool_reach ''pool'' plain_ledger sample_bid"
proof (rule pool_reach.step [OF sample_borrowed_reached pool_step.auction [OF _ sample_auction]])
  show "world ''pool'' crash_env ''bob''" by (simp add: world_def crash_env_def sample_env_def)
qed
section \<open>The end of the auction\<close>

text \<open>The same market, when the first bid was made long ago.\<close>

definition old_bid :: loan_data where
  "old_bid = bid_loan\<lparr>ln_bidStartTimestamp := 1600000000\<rparr>"

definition sample_over :: "ledger pool" where
  "sample_over = sample_bid\<lparr>po_book := (po_book sample_bid)\<lparr>lb_loans := (\<lambda>_. no_loan)(1 := old_bid)\<rparr>\<rparr>"

definition over_reserve :: reserve_data where
  "over_reserve = borrowed_reserve\<lparr>rd_currentLiquidityRate := 3744437380909090909090909,
     rd_currentVariableBorrowRate := 41188811188811188811188811\<rparr>"

lemma over_reads: "lb_nftToLoanIds (po_book sample_over) ''ape'' 7 = 1" "lb_loans (po_book sample_over) 1 = old_bid"
  "\<not> po_paused sample_over" "po_reserves sample_over ''weth'' = over_reserve" "po_nfts sample_over ''ape'' = sample_nft"
  "e_pool crash_env = ''pool''" "e_now crash_env = 1700000000"
  "ln_reserveAsset old_bid = ''weth''" "ln_nftAsset old_bid = ''ape''" "ln_state old_bid = LS_Auction"
  "ln_bidderAddress old_bid = ''bob''" "ln_bidPrice old_bid = 150" "ln_borrower old_bid = ''alice''"
  "ln_scaledAmount old_bid = 100" "po_debt sample_over ''weth'' = ((\<lambda>_. 0)(''alice'' := 100), 100)"
  "po_pauseDurationTime sample_over = 0" "ln_bidStartTimestamp old_bid = 1600000000"
  by (simp_all add: sample_over_def sample_bid_def sample_borrowed_def borrowed_book_def sample_market_def sample_start_def
      initial_pool_def crash_env_def sample_env_def old_bid_def bid_loan_def ape_loan_def over_reserve_def initial_book_def)

lemma over_update: "updateState crash_env plain_ledger ''weth'' sample_over = Inr ((), sample_over)"
proof -
  have "updateIndexes 1700000000 100 1000000000000000000000000000 1000000000000000000000000000 1700000000 over_reserve
      = Inr (1000000000000000000000000000, 1000000000000000000000000000, over_reserve)"
    using updateIndexes_same_block [of 1700000000 over_reserve 100]
    by (simp add: over_reserve_def borrowed_reserve_def sample_reserve_def)
  moreover have "rd_liquidityIndex over_reserve = 1000000000000000000000000000"
    "rd_variableBorrowIndex over_reserve = 1000000000000000000000000000" "rd_lastUpdateTimestamp over_reserve = 1700000000"
    "getReserveFactor (rd_configuration over_reserve) = 0"
    by (simp_all add: over_reserve_def borrowed_reserve_def sample_reserve_def weth_config_reads)
  moreover have "sample_over\<lparr>po_reserves := (po_reserves sample_over)(''weth'' := over_reserve)\<rparr> = sample_over"
    using over_reads(4) by (simp add: fun_upd_idem)
  ultimately show ?thesis unfolding updateState_def mintToTreasury_def set_reserve_def
    by (simp add: over_reads plain_ledger_def)
qed

lemma over_prices: "calculateLoanLiquidatePrice crash_env sample_over 1 ''weth'' ''ape'' = Inr (100, 90, 100)"
proof -
  have "getLoanReserveBorrowAmount crash_env sample_over 1 = Inr 100"
    by (simp add: getLoanReserveBorrowAmount_def getNormalizedDebt_def Let_def over_reads over_reserve_def
        borrowed_reserve_def sample_reserve_def sample_scaled)
  then show ?thesis
    by (simp add: calculateLoanLiquidatePrice_def Let_def over_reads sample_nft_def crash_env_def sample_env_def over_reserve_def
        borrowed_reserve_def sample_reserve_def weth_config_reads ape_config_reads
        checked_pow10_def fits_def checked_mul_def checked_div_def percent.mul_spec unit_numbers mul_round_def PERCENT_def)
qed
definition over_book :: loan_book where
  "over_book = (po_book sample_over)\<lparr>lb_loans := (\<lambda>_. no_loan)(1 := old_bid\<lparr>ln_state := LS_Defaulted\<rparr>),
     lb_nftToLoanIds := \<lambda>_ _. 0, lb_nftTotalCollateral := \<lambda>_. 0, lb_userNftCollateral := \<lambda>_ _. 0,
     lb_calls := lb_calls (po_book sample_over) @ [SetFlashLoanLocking ''bnft'' 7 ''loan'' False, BnftBurn ''bAPE'' 7,
       NftSafeTransferFrom ''ape'' ''loan'' ''pool'' 7]\<rparr>"

lemma set_back: "set2 (set2 (\<lambda>_ _. x) a b y) a b x = (\<lambda>_ _. x)" "(\<lambda>_. x)(c := x) = (\<lambda>_. x)"
  by (auto simp: set2_def fun_eq_iff)

lemma over_liquidate: "liquidateLoan crash_env ''pool'' 1 ''bAPE'' 100 (po_book sample_over) = Inr ((), over_book)"
  by (simp add: liquidateLoan_def onlyLendPool_def set_loan_def uncount_nft_def lock_flash_loan_def release_nft_def
      handleBeforeLoanRepaid_def handleAfterLoanRepaid_def ext_def over_book_def sample_over_def sample_bid_def
      borrowed_book_def old_bid_def bid_loan_def ape_loan_def no_loan_def crash_env_def sample_env_def initial_book_def
      set_back)

lemma over_rates: "calculateInterestRates_of_pool sample_rates 1000 100 0 0 0 = Inr (0, 30000000000000000000000000)"
  by (simp add: calculateInterestRates_of_pool_def calculateInterestRates_def utilizationRate_def variableBorrowRate_def
      getOverallBorrowRate_def sample_rates_def checked_add_def checked_sub_def ray.mul_spec ray.div_spec percent.mul_spec
      unit_numbers mul_round_def div_round_def PERCENT_def unat_units)

lemma sample_liquidation:
  "\<exists>s'. pool_liquidate crash_env plain_ledger ''carol'' ''ape'' 7 0 sample_over = Inr (0, s')"
proof -
  let ?s1 = "sample_over\<lparr>po_book := over_book\<rparr>"
  let ?s2 = "?s1\<lparr>po_debt := (po_debt sample_over)(''weth'' := (\<lambda>_. 0, 0))\<rparr>"
  let ?s3 = "?s2\<lparr>po_reserves := (po_reserves sample_over)(''weth'' := over_reserve
    \<lparr>rd_currentLiquidityRate := 0, rd_currentVariableBorrowRate := 30000000000000000000000000\<rparr>)\<rparr>"
  have index: "rd_variableBorrowIndex over_reserve = 1000000000000000000000000000"
    by (simp add: over_reserve_def borrowed_reserve_def sample_reserve_def)
  have valid: "validateLiquidate over_reserve sample_nft old_bid = Inr ()"
    by (simp add: validateLiquidate_def validate_active_def over_reserve_def borrowed_reserve_def sample_reserve_def
        sample_nft_def over_reads weth_config_reads ape_config_reads ADDRESS_0_def)
  have late: "end_after sample_over old_bid (getAuctionDuration (configuration sample_nft)) = Inr 1600086400"
    by (simp add: end_after_def extra_duration_def over_reads sample_nft_def ape_config_reads checked_add_def checked_mul_def)
  have burn: "DebtToken_burn plain_ledger ''weth'' ''alice'' 100 1000000000000000000000000000 ?s1 = Inr ((), ?s2)"
    by (simp add: DebtToken_burn_def set_debt_def sample_rate over_reads plain_ledger_def plain_burn_def checked_sub_def set_back)
  have rates: "updateInterestRates crash_env plain_ledger ''weth'' 100 0 ?s2 = Inr ((), ?s3)"
  proof -
    have "rayMul 0 1000000000000000000000000000 = Inr 0" by (simp add: ray.mul_spec unit_numbers mul_round_def)
    moreover have "po_rates sample_over = (\<lambda>_. sample_rates)"
      by (simp add: sample_over_def sample_bid_def sample_borrowed_def sample_market_def sample_start_def initial_pool_def)
    moreover have "getReserveFactor (rd_configuration over_reserve) = 0"
      by (simp add: over_reserve_def borrowed_reserve_def sample_reserve_def weth_config_reads)
    ultimately show ?thesis unfolding updateInterestRates_def set_reserve_def
      by (simp add: over_reads index plain_ledger_def crash_env_def sample_env_def over_rates UINT128_MAX_def)
  qed
  have calls: "\<exists>s'. pool_ext crash_env c s = Inr ((), s')" for c and s :: "ledger pool"
    by (simp add: pool_ext_def on_book_def tx_zoom_def ext_def crash_env_def sample_env_def)
  obtain s4 where s4: "pool_ext crash_env (Erc20SafeTransfer ''weth'' ''pool'' ''bWETH'' 100) ?s3 = Inr ((), s4)"
    using calls by blast
  obtain s5 where s5: "pool_ext crash_env (Erc20SafeTransfer ''weth'' ''pool'' ''alice'' 50) s4 = Inr ((), s5)"
    using calls by blast
  obtain s6 where s6: "pool_ext crash_env (NftSafeTransferFrom ''ape'' ''pool'' ''bob'' 7) s5 = Inr ((), s6)"
    using calls by blast
  have token: "rd_bTokenAddress over_reserve = ''bWETH''" "pn_bNftAddress sample_nft = ''bAPE''"
    by (simp_all add: over_reserve_def borrowed_reserve_def sample_reserve_def sample_nft_def)
  have "pool_liquidate crash_env plain_ledger ''carol'' ''ape'' 7 0 sample_over = Inr (0, s6)"
    unfolding pool_liquidate_def running [OF over_reads(3)] liquidate_logic_def on_book_def tx_zoom_def Let_def
    by (simp add: over_reads valid late over_update over_prices over_liquidate index burn rates token s4 s5 s6)
  then show ?thesis by blast
qed
end
