(* ===== verification/PoolProperties.thy ===== *)
theory PoolProperties
  imports SamplePool
begin

text \<open>
  What the pool promises: its debt tokens are the living loans, its own tokens cover the bids, and an
  auction is either open or over.
\<close>

section \<open>Debt and bids\<close>

lemma loan_sum_filter:
  "loan_sum (\<lambda>l. if P l then f l else 0) ls = (\<Sum>i | P (ls i). f (ls i))"
  unfolding loan_sum_def by (subst sum.inter_filter [symmetric]) simp_all

lemma flows_money: "received P a (filter is_money cs) = received P a cs" "spent P a (filter is_money cs) = spent P a cs"
proof -
  have "inflow P a c = 0" "outflow P a c = 0" if "\<not> is_money c" for c using that by (cases c; simp)+
  then show "received P a (filter is_money cs) = received P a cs" "spent P a (filter is_money cs) = spent P a cs"
    by (induction cs) simp_all
qed

text \<open>C4: In every history of the pool, whatever tokens, oracles and interceptors answer: the debt tokens
  of a reserve are together exactly the scaled amounts of its living loans, and the debt tokens of a
  user exactly those of the living loans of that user.\<close>

theorem pool_debt_matches_loans:
  assumes "pool_reach P L s" and "erc20_laws L"
  shows "unat (l_total L (po_debt s a)) = (\<Sum>i | living (pool_loans s i) \<and> ln_reserveAsset (pool_loans s i) = a.
      unat (ln_scaledAmount (pool_loans s i))) \<and>
    unat (l_balance L (po_debt s a) u) = (\<Sum>i | living (pool_loans s i) \<and> ln_reserveAsset (pool_loans s i) = a \<and>
      ln_borrower (pool_loans s i) = u. unat (ln_scaledAmount (pool_loans s i)))"
proof -
  have m: "debts_match L s" using pool_reach_inv [OF assms] by (simp add: pool_inv_def)
  have "debt_of a = (\<lambda>l. if living l \<and> ln_reserveAsset l = a then unat (ln_scaledAmount l) else 0)"
    "debt_by a u = (\<lambda>l. if living l \<and> ln_reserveAsset l = a \<and> ln_borrower l = u then unat (ln_scaledAmount l) else 0)"
    by (auto simp: debt_of_def debt_by_def)
  then show ?thesis using m by (simp add: debts_match_def loan_sum_filter)
qed

lemma pool_debt_matches_loans_witness:
  "(\<Sum>i | living (pool_loans sample_borrowed i) \<and> ln_reserveAsset (pool_loans sample_borrowed i) = ''weth''.
     unat (ln_scaledAmount (pool_loans sample_borrowed i))) = 100"
  using conjunct1 [OF pool_debt_matches_loans [OF sample_borrowed_reached plain_ledger_laws, of "''weth''"]]
  by (simp add: plain_ledger_def sample_borrowed_def)

text \<open>C5: The tokens that came to the address of the pool, less those that left it, cover the highest bids
  of all running auctions, in every history of the pool: each can be paid back or settled.\<close>

theorem bids_covered:
  assumes "pool_reach P L s" and "erc20_laws L"
  shows "(\<Sum>i | ln_state (pool_loans s i) = LS_Auction \<and> ln_reserveAsset (pool_loans s i) = a.
      unat (ln_bidPrice (pool_loans s i))) + spent P a (lb_calls (po_book s)) \<le> received P a (lb_calls (po_book s))"
proof -
  have m: "bids_held P s" using pool_reach_inv [OF assms] by (simp add: pool_inv_def)
  have "bid_of a = (\<lambda>l. if ln_state l = LS_Auction \<and> ln_reserveAsset l = a then unat (ln_bidPrice l) else 0)"
    by (auto simp: bid_of_def)
  then have "loan_sum (bid_of a) (pool_loans s) = (\<Sum>i | ln_state (pool_loans s i) = LS_Auction \<and>
      ln_reserveAsset (pool_loans s i) = a. unat (ln_bidPrice (pool_loans s i)))"
    by (simp only: loan_sum_filter)
  then show ?thesis using spec [OF m [unfolded bids_held_def], of a] by (simp add: money_def flows_money)
qed

lemma bids_covered_witness:
  "(\<Sum>i | ln_state (pool_loans sample_bid i) = LS_Auction \<and> ln_reserveAsset (pool_loans sample_bid i) = ''weth''.
     unat (ln_bidPrice (pool_loans sample_bid i))) \<le> 150"
proof -
  have "received ''pool'' ''weth'' (lb_calls (po_book sample_bid)) = 150"
    by (simp add: sample_bid_def borrowed_book_def initial_book_def)
  then show ?thesis using bids_covered [OF sample_bid_reached plain_ledger_laws, of "''weth''"] by simp
qed

section \<open>Open or over\<close>

text \<open>After the first bid a loan can be bid for until the auction ends and liquidated from then on.\<close>

lemma liquidate_window:
  assumes "liquidate_logic E L sender nft token n s = Inr (x, s')"
    and "l = pool_loans s (lb_nftToLoanIds (po_book s) nft token)"
  obtains t where "end_after s l (getAuctionDuration (configuration (po_nfts s (ln_nftAsset l)))) = Inr t"
    "t < e_now E" "ln_state l = LS_Auction"
  using assms(1) refl assms(2) refl
  by (rule liquidate_run) (use that validateLiquidate_checks(2) in blast)

lemma redeem_window:
  assumes "redeem_logic E L sender nft token n fine s = Inr (x, s')"
    and "l = pool_loans s (lb_nftToLoanIds (po_book s) nft token)"
  obtains t where "Inr t = end_after s l (getRedeemDuration (configuration (po_nfts s (ln_nftAsset l))))" "e_now E \<le> t"
  using assms(1) unfolding redeem_logic_def Let_def assms(2) pool_loans_def
  by (auto elim!: tx_elims split del: if_split)

lemma end_after_same:
  assumes "quiet a s s'"
  shows "end_after s' l h = end_after s l h"
  using assms by (simp add: end_after_def extra_duration_def quiet_def)

lemma auction_window:
  assumes "auction_logic E L sender nft token price user s = Inr (x, s')"
    and "l = pool_loans s (lb_nftToLoanIds (po_book s) nft token)" and "ln_state l = LS_Auction"
  obtains t where "end_after s l (getAuctionDuration (configuration (po_nfts s (ln_nftAsset l)))) = Inr t" "e_now E \<le> t"
proof -
  from assms(1) obtain s1 d where s1: "updateState E L (ln_reserveAsset l) s = Inr ((), s1)"
    and checks: "next_bid_checks E s1 l price d = Inr ()"
    unfolding auction_logic_def Let_def assms(2) pool_loans_def
    using assms(3) by (auto elim!: tx_elims simp: assms(2) pool_loans_def split del: if_split)
  note q = updateState_effect(1) [OF s1]
  from checks obtain t where "end_after s1 l (getAuctionDuration (configuration (po_nfts s1 (ln_nftAsset l)))) = Inr t"
    "e_now E \<le> t" unfolding next_bid_checks_def by (auto elim!: bind_requireE bind_revertE simp: require_Inr)
  then show ?thesis using that q by (simp add: end_after_same [OF q] quiet_def)
qed

lemma end_after_mono:
  assumes "end_after s l h = Inr t" "end_after s l h' = Inr t'" "h' \<le> h"
  shows "t' \<le> t"
  using assms unfolding end_after_def
  by (auto simp: bind_revert_Inr checked_iff word_le_nat_alt)

text \<open>C7: While an auction can be settled it is over, for the same clock whoever asks: when a loan can be
  liquidated no further bid for it is accepted, and it cannot be redeemed either as long as the collection's
  redemption period is not longer than its auction.\<close>

theorem liquidation_is_final:
  assumes "pool_liquidate E L sender nft token n s = Inr (x, s')" and "e_now E2 = e_now E"
  shows "pool_auction E2 L sender2 nft token price user s \<noteq> Inr y \<and>
    (getRedeemDuration (configuration (po_nfts s (ln_nftAsset (pool_loans s (lb_nftToLoanIds (po_book s) nft token)))))
      \<le> getAuctionDuration (configuration (po_nfts s (ln_nftAsset (pool_loans s (lb_nftToLoanIds (po_book s) nft token)))))
     \<longrightarrow> pool_redeem E2 L sender2 nft token amount fine s \<noteq> Inr z)"
proof -
  define l where "l = pool_loans s (lb_nftToLoanIds (po_book s) nft token)"
  have "liquidate_logic E L sender nft token n s = Inr (x, s')"
    using assms(1) unfolding pool_liquidate_def by (rule unpaused)
  then obtain t where t: "end_after s l (getAuctionDuration (configuration (po_nfts s (ln_nftAsset l)))) = Inr t"
    "t < e_now E" "ln_state l = LS_Auction" using l_def by (rule liquidate_window)
  have "pool_auction E2 L sender2 nft token price user s \<noteq> Inr y"
  proof
    assume "pool_auction E2 L sender2 nft token price user s = Inr y"
    then have "auction_logic E2 L sender2 nft token price user s = Inr (fst y, snd y)"
      unfolding pool_auction_def prod.collapse by (rule unpaused)
    then show False using l_def t(3) by (rule auction_window) (use t assms(2) in auto)
  qed
  moreover have "pool_redeem E2 L sender2 nft token amount fine s \<noteq> Inr z"
    if le: "getRedeemDuration (configuration (po_nfts s (ln_nftAsset l))) \<le> getAuctionDuration (configuration (po_nfts s (ln_nftAsset l)))"
  proof
    assume "pool_redeem E2 L sender2 nft token amount fine s = Inr z"
    then have "redeem_logic E2 L sender2 nft token amount fine s = Inr (fst z, snd z)"
      unfolding pool_redeem_def prod.collapse by (rule unpaused)
    then obtain r where r: "Inr r = end_after s l (getRedeemDuration (configuration (po_nfts s (ln_nftAsset l))))" "e_now E2 \<le> r"
      using l_def by (rule redeem_window)
    show False using end_after_mono [OF t(1) r(1) [symmetric] le] t(2) r(2) assms(2) by simp
  qed
  ultimately show ?thesis unfolding l_def by blast
qed

lemma liquidation_is_final_witness:
  "\<not> (\<exists>y. pool_auction crash_env plain_ledger ''bob'' ''ape'' 7 500 ''bob'' sample_over = Inr y) \<and>
   \<not> (\<exists>z. pool_redeem crash_env plain_ledger ''alice'' ''ape'' 7 50 10 sample_over = Inr z)"
proof -
  obtain s' where s': "pool_liquidate crash_env plain_ledger ''carol'' ''ape'' 7 0 sample_over = Inr (0, s')"
    using sample_liquidation by blast
  have "getRedeemDuration (configuration (po_nfts sample_over (ln_nftAsset (pool_loans sample_over
      (lb_nftToLoanIds (po_book sample_over) ''ape'' 7)))))
    \<le> getAuctionDuration (configuration (po_nfts sample_over (ln_nftAsset (pool_loans sample_over
      (lb_nftToLoanIds (po_book sample_over) ''ape'' 7)))))"
    by (simp add: over_reads pool_loans_def sample_nft_def ape_config_reads)
  with liquidation_is_final [OF s' refl] show ?thesis by blast
qed
end
