(* ===== verification/LoanSafety.thy ===== *)
theory LoanSafety
  imports SamplePool
begin

text \<open>
  A loan at its two ends: right after a borrow, when nobody may put it up for auction, and after a
  repayment that rounds its debt to nothing, when no operation gives its NFT back.
\<close>

section \<open>A loan that was just taken\<close>

text \<open>What the debt can be after a borrow, in exact numbers: the rounding of the three operations is less
  than one unit and half an index.\<close>

lemma debt_after_borrow:
  assumes "unat sc = div_round RAY n idx" "d = mul_round RAY sc0 idx" "0 < idx"
  shows "2 * RAY * mul_round RAY (sc0 + unat sc) idx < 2 * RAY * (d + n + 1) + idx"
proof -
  note a = ray.div_bounds(1) [OF assms(3), of n] and b = ray.mul_bounds(1) [of "sc0 + unat sc" idx]
    and c = ray.mul_bounds(2) [of sc0 idx]
  have "idx * unat sc \<le> n * RAY + idx div 2" using a assms(1) by simp
  moreover have "RAY * mul_round RAY (sc0 + unat sc) idx \<le> sc0 * idx + idx * unat sc + RAY div 2"
    using b by (simp add: algebra_simps)
  moreover have "sc0 * idx + RAY div 2 < RAY * d + RAY" using c assms(2) by simp
  ultimately have "RAY * mul_round RAY (sc0 + unat sc) idx < RAY * d + RAY + n * RAY + idx div 2" by linarith
  moreover have "2 * x < 2 * y + idx" if "x < y + idx div 2" for x y :: nat using that by linarith
  ultimately have "2 * (RAY * mul_round RAY (sc0 + unat sc) idx) < 2 * (RAY * d + RAY + n * RAY) + idx" by blast
  then show ?thesis by (simp add: algebra_simps)
qed

lemma threshold_covers:
  assumes total: "div_round 10000 t ltv \<le> C" and ltv: "0 < ltv" "ltv \<le> 10000" "ltv \<le> thr"
    and debt: "2 * RAY * b < 2 * RAY * (t + 1) + idx" and idx: "RAY \<le> idx"
    and room: "20000 * idx \<le> (thr - ltv) * C * RAY"
  shows "b \<le> mul_round 10000 C thr"
proof -
  define q where "q = (thr - ltv) * C * RAY"
  have "t * 10000 + ltv div 2 < ltv * (C + 1)"
    using percent.div_bounds(2) [OF ltv(1), of t, unfolded unit_numbers] mult_le_mono2 [OF total, of ltv]
    unfolding distrib_left mult_1_right by linarith
  then have "t * 10000 \<le> ltv * C + 5000" using ltv(2) by (simp add: algebra_simps)
  then have t: "2 * RAY * (t * 10000) \<le> 2 * RAY * (ltv * C + 5000)" by (rule mult_le_mono2)
  have "20000 * RAY * b < 2 * RAY * (t * 10000) + 20000 * RAY + 10000 * idx"
    using debt by (simp add: algebra_simps)
  also have "\<dots> \<le> 2 * RAY * (ltv * C) + 30000 * RAY + 10000 * idx" using t by (simp add: algebra_simps)
  also have "\<dots> \<le> 2 * RAY * (ltv * C) + 40000 * idx" using idx by simp
  also have "\<dots> \<le> 2 * RAY * (ltv * C) + 2 * q" using room unfolding q_def [symmetric] by linarith
  also have "\<dots> = 2 * RAY * (C * thr)" unfolding q_def using ltv(3) by (simp add: algebra_simps flip: add_mult_distrib)
  finally have "(2 * RAY) * (10000 * b) < (2 * RAY) * (C * thr)" by (simp add: algebra_simps)
  then have "10000 * b < C * thr" by simp
  then show ?thesis unfolding mul_round_def by simp
qed
text \<open>What was checked before the loan was given: with the new amount the debt stays below the
  collateral, divided by the loan to value ratio.\<close>

lemma validateBorrow_covers:
  assumes "validateBorrow E L s user asset n nft i = Inr u"
    and "calculateNftCollateralData E s asset nft = Inr (v, C)"
  obtains d t needed where "if i = 0 then d = 0 else getLoanReserveBorrowAmount E s i = Inr d"
    "unat t = unat d + unat n" "percentDiv t (getLtv (configuration (po_nfts s nft))) = Inr needed" "needed \<le> C"
proof -
  from assms obtain d h t needed where "calculateLoanData E s asset nft i = Inr (C, d, h)" "checked_add d n = Inr t"
    "percentDiv t (getLtv (configuration (po_nfts s nft))) = Inr needed" "needed \<le> C"
    unfolding validateBorrow_def Let_def calculateLoanData_def
    by (auto elim!: bind_requireE bind_revertE simp: require_Inr split: prod.splits)
  moreover from this(1) have "if i = 0 then d = 0 else getLoanReserveBorrowAmount E s i = Inr d"
    unfolding calculateLoanData_def calculateNftDebtData_def by (auto elim!: bind_revertE split: if_splits)
  ultimately show ?thesis by (intro that) (auto simp: checked_iff)
qed

text \<open>In the block of an update a debt is the scaled amount times the index, zero or not.\<close>

lemma debt_in_block:
  assumes "getLoanReserveBorrowAmount E s i = Inr d" "ln_reserveAsset (pool_loans s i) = asset"
    and "rd_lastUpdateTimestamp (po_reserves s asset) = ucast (e_now E)"
  shows "unat d = mul_round RAY (unat (ln_scaledAmount (pool_loans s i))) (unat (borrow_index asset s))"
  using assms unfolding getLoanReserveBorrowAmount_def getNormalizedDebt_def borrow_index_def pool_loans_def Let_def
  by (auto simp: ray.mul_Inr split: if_splits)

text \<open>The threshold of a loan: the collateral, valued as when it was borrowed for.\<close>

lemma threshold_price:
  assumes "calculateLoanLiquidatePrice E s i asset nft = Inr (d, th, p)"
    and "calculateNftCollateralData E s asset nft = Inr (v, C)" "asset \<noteq> ADDRESS_0"
  shows "getLoanReserveBorrowAmount E s i = Inr d"
    "unat th = mul_round 10000 (unat C) (unat (getLiquidationThreshold (configuration (po_nfts s nft))))"
  using assms unfolding calculateLoanLiquidatePrice_def calculateNftCollateralData_def Let_def
  by (auto elim!: bind_revertE simp: checked_iff percent.mul_Inr unit_numbers mult.commute)
text \<open>Borrowing as a whole: the loan of the NFT, the index and the clock of its reserve.\<close>

lemma borrow_result:
  assumes run: "borrow_logic E L sender asset n nft token user s = Inr (u, s')" and inv: "pool_inv P L s"
    and laws: "erc20_laws L" and "room 1 s" and C: "calculateNftCollateralData E s asset nft = Inr (v, C)"
  obtains j l and d t needed sc :: uint256 and sc0 where "lb_nftToLoanIds (po_book s') nft token = j" "j \<noteq> 0" "pool_loans s' j = l"
    "ln_state l = LS_Active" "ln_reserveAsset l = asset" "ln_nftAsset l = nft" "po_nfts s' = po_nfts s"
    "rd_lastUpdateTimestamp (po_reserves s' asset) = ucast (e_now E)" "RAY \<le> unat (borrow_index asset s')"
    "rd_configuration (po_reserves s' asset) = rd_configuration (po_reserves s asset)"
    "unat d = mul_round RAY sc0 (unat (borrow_index asset s'))" "unat (ln_scaledAmount l) = sc0 + unat sc"
    "unat sc = div_round RAY (unat n) (unat (borrow_index asset s'))" "unat t = unat d + unat n"
    "percentDiv t (getLtv (configuration (po_nfts s nft))) = Inr needed" "needed \<le> C"
  using run
proof (rule borrow_run)
  fix s1 s2 s3 s4 i j
  assume 1: "updateState E L asset s = Inr ((), s1)" and valid: "validateBorrow E L s1 user asset n nft i = Inr ()"
    and 2: "open_or_extend E sender asset n nft token user i s1 = Inr (j, s2)"
    and 3: "DebtToken_mint L asset sender user n (borrow_index asset s2) s2 = Inr ((), s3)"
    and 4: "updateInterestRates E L asset 0 n s3 = Inr ((), s4)"
    and 5: "pool_ext E (Erc20SafeTransfer asset (rd_bTokenAddress (po_reserves s4 asset)) sender n) s4 = Inr (u, s')"
    and i: "i = lb_nftToLoanIds (po_book s1) nft token"
  have inv1: "pool_inv P L s1" by (rule settles_inv [OF state_settles [OF 1] inv])
  then have ok1: "book_ok (po_book s1)" by (simp add: pool_inv_def)
  have room1: "room (Suc 0) s1" using settles_room [OF state_settles [OF 1]] assms(4) by simp
  note q1 = updateState_effect [OF 1]
  have same1: "po_nfts s1 = po_nfts s" "rd_configuration (po_reserves s1 asset) = rd_configuration (po_reserves s asset)"
    using q1(1) by (auto simp: quiet_def same_setup_def)
  have C1: "calculateNftCollateralData E s1 asset nft = Inr (v, C)"
    using C unfolding calculateNftCollateralData_def same1(2) .
  note checks = validateBorrow_checks [OF valid]
  from valid C1 obtain d t needed where cover: "if i = 0 then d = 0 else getLoanReserveBorrowAmount E s1 i = Inr d"
    "unat t = unat d + unat n" "percentDiv t (getLtv (configuration (po_nfts s1 nft))) = Inr needed" "needed \<le> C"
    by (rule validateBorrow_covers)
  note rest = settles_trans [OF rates_settle [OF 4] money_settles(2) [OF 5]]
  from 2 ok1 room1 checks(1,3) i show ?thesis
  proof (rule open_or_extend_effect)
    fix l sc
    assume e: "pool_loans s2 = (pool_loans s1)(j := l)" "po_reserves s2 = po_reserves s1" "book_ok (po_book s2)"
      "rayDiv n (borrow_index asset s1) = Inr sc" "ln_state l = LS_Active" "ln_reserveAsset l = asset"
      "ln_nftAsset l = nft" "ln_nftTokenId l = token" "po_nfts s2 = po_nfts s1"
      "if i = 0 then pool_loans s1 j = no_loan else j = i"
      and more: "unat (ln_scaledAmount l) =
        (if living (pool_loans s1 j) then unat (ln_scaledAmount (pool_loans s1 j)) else 0) + unat sc"
    from 3 obtain t' where mint: "po_reserves s3 = po_reserves s2" "po_book s3 = po_book s2" "po_nfts s3 = po_nfts s2"
      by (rule DebtToken_mint_effect)
    note r4 = updateInterestRates_effect [OF 4] and r5 = pool_ext_settles(2) [OF 5]
    have index: "borrow_index asset s' = borrow_index asset s1"
      using r4(2) by (simp add: borrow_index_def r5 mint e(2))
    have "idx_ok (po_reserves s1 asset)" using inv1 checks(2) by (auto simp: pool_inv_def intro: res_ok_idx)
    then have ray: "RAY \<le> unat (borrow_index asset s')" unfolding index by (simp add: idx_ok_def borrow_index_def)
    have clock: "rd_lastUpdateTimestamp (po_reserves s' asset) = ucast (e_now E)"
      using r4(4) q1(2) by (simp add: r5 mint e(2))
    have conf: "rd_configuration (po_reserves s' asset) = rd_configuration (po_reserves s asset)"
      using r4(1) same1(2) by (auto simp: r5 mint e(2) quiet_def same_setup_def)
    have book: "book_ok (po_book s')" "pool_loans s' = (pool_loans s1)(j := l)" "po_nfts s' = po_nfts s"
      using rest e(1,3,9) mint same1(1) by (simp_all add: settles_def pool_loans_def)
    then have loan: "pool_loans s' j = l" by simp
    have "living l" using e(5) by (rule living_simps(1))
    then have reg: "lb_nftToLoanIds (po_book s') nft token = j" "j \<noteq> 0"
      using book(1) loan e(7,8) unfolding book_ok_def pool_loans_def by (metis, metis no_loan_simps(1))
    have old: "unat (ln_scaledAmount l) = (if i = 0 then 0 else unat (ln_scaledAmount (pool_loans s1 i))) + unat sc"
      using more e(10) checks(3) by (auto simp: living_simps split: if_splits)
    have d: "unat d = mul_round RAY (if i = 0 then 0 else unat (ln_scaledAmount (pool_loans s1 i))) (unat (borrow_index asset s'))"
      using cover(1) debt_in_block [of E s1 i d asset] checks(3) q1(2) index by (auto split: if_splits)
    have more': "unat sc = div_round RAY (unat n) (unat (borrow_index asset s'))" using e(4) index by (simp add: ray.div_Inr)
    show ?thesis
      by (rule that [OF reg loan e(5-7) book(3) clock ray conf d old more' cover(2) cover(3) [unfolded same1(1)] cover(4)])
  qed
qed
lemma first_bid_run:
  assumes "auction_logic E L sender nft token price user s = Inr (x, s')"
    and "i = lb_nftToLoanIds (po_book s) nft token" "l = pool_loans s i" "ln_state l = LS_Active"
  obtains s1 d th p where "updateState E L (ln_reserveAsset l) s = Inr ((), s1)"
    "calculateLoanLiquidatePrice E s1 i (ln_reserveAsset l) (ln_nftAsset l) = Inr (d, th, p)" "th < d"
proof -
  have "\<exists>s1 d th p. updateState E L (ln_reserveAsset l) s = Inr ((), s1) \<and>
      calculateLoanLiquidatePrice E s1 i (ln_reserveAsset l) (ln_nftAsset l) = Inr (d, th, p) \<and>
      first_bid_checks price d th p = Inr ()"
    using assms(1) unfolding auction_logic_def Let_def assms(2,3) pool_loans_def
    using assms(4) by (auto elim!: tx_elims simp: assms(2,3) pool_loans_def split del: if_split)
  then show ?thesis using that unfolding first_bid_checks_def by (auto elim!: bind_requireE)
qed

text \<open>C6: A borrow leaves a loan that nobody can put up for auction at the same time and prices: the debt is
  not above the liquidation threshold, as long as the threshold exceeds the loan to value ratio by what
  the roundings need, twice the borrow index in the smallest units.\<close>

theorem borrow_is_healthy:
  assumes "pool_reach P L s" and "erc20_laws L" and "room 1 s" and "unat (e_now E) < 2 ^ 40"
    and "pool_borrow E L sender asset n nft token user s = Inr (u, s')"
    and "e_now E2 = e_now E" and "e_nft_price E2 = e_nft_price E" and "e_reserve_price E2 = e_reserve_price E"
    and "calculateNftCollateralData E s asset nft = Inr (v, C)"
    and "getLtv (configuration (po_nfts s nft)) \<le> 10000"
    and "getLtv (configuration (po_nfts s nft)) \<le> getLiquidationThreshold (configuration (po_nfts s nft))"
    and "20000 * unat (borrow_index asset s') \<le> (unat (getLiquidationThreshold (configuration (po_nfts s nft)))
      - unat (getLtv (configuration (po_nfts s nft)))) * unat C * RAY"
  shows "pool_auction E2 L bidder nft token price winner s' \<noteq> Inr y"
proof
  let ?ltv = "getLtv (configuration (po_nfts s nft))" and ?idx = "unat (borrow_index asset s')"
  assume "pool_auction E2 L bidder nft token price winner s' = Inr y"
  then have bid: "auction_logic E2 L bidder nft token price winner s' = Inr (fst y, snd y)"
    unfolding pool_auction_def prod.collapse by (rule unpaused)
  have "borrow_logic E L sender asset n nft token user s = Inr (u, s')"
    using assms(5) unfolding pool_borrow_def by (rule unpaused)
  then show False using pool_reach_inv [OF assms(1,2)] assms(2,3,9)
  proof (rule borrow_result)
    fix j l d t needed sc sc0
    assume loan: "lb_nftToLoanIds (po_book s') nft token = j" "pool_loans s' j = l" "ln_state l = LS_Active"
        "ln_reserveAsset l = asset" "ln_nftAsset l = nft"
      and kept: "po_nfts s' = po_nfts s" "rd_lastUpdateTimestamp (po_reserves s' asset) = ucast (e_now E)" "RAY \<le> ?idx"
        "rd_configuration (po_reserves s' asset) = rd_configuration (po_reserves s asset)"
      and amounts: "unat d = mul_round RAY sc0 ?idx" "unat (ln_scaledAmount l) = sc0 + unat sc"
        "unat sc = div_round RAY (unat n) ?idx" "unat t = unat d + unat n" "percentDiv t ?ltv = Inr needed" "needed \<le> C"
    from bid loan(1)[symmetric] loan(2)[symmetric] loan(3) obtain s1 b th p where 1: "updateState E2 L asset s' = Inr ((), s1)"
      "calculateLoanLiquidatePrice E2 s1 j asset nft = Inr (b, th, p)" "th < b"
      unfolding loan(4,5) [symmetric] by (rule first_bid_run)
    note q = updateState_effect [OF 1(1)]
    have r: "po_reserves s1 = po_reserves s'" by (rule updateState_same_block [OF 1(1)]) (use assms(4,6) kept(2) in simp_all)
    have same: "pool_loans s1 = pool_loans s'" "po_nfts s1 = po_nfts s" "borrow_index asset s1 = borrow_index asset s'"
      using q(1) kept(1) r by (simp_all add: quiet_def pool_loans_def borrow_index_def)
    have C: "calculateNftCollateralData E2 s1 asset nft = Inr (v, C)"
      using assms(9) unfolding calculateNftCollateralData_def r kept(4) assms(7,8) .
    have ray: "0 < RAY" by (simp add: unit_numbers)
    have "asset \<noteq> ADDRESS_0"
    proof
      assume "asset = ADDRESS_0"
      then have "unat C = 0" using assms(9) by (auto simp: calculateNftCollateralData_def elim!: bind_revertE)
      then show False using assms(12) kept(3) ray by simp
    qed
    note th = threshold_price [OF 1(2) C this]
    have b: "unat b = mul_round RAY (sc0 + unat sc) ?idx"
      using debt_in_block [OF th(1)] q(2) same loan(2,4) amounts(2) by simp
    have "0 < unat ?ltv" "div_round 10000 (unat t) (unat ?ltv) \<le> unat C"
      using amounts(5,6) by (auto simp: percent.div_Inr uint256_eq_0 word_le_nat_alt unit_numbers)
    moreover have "2 * RAY * unat b < 2 * RAY * (unat t + 1) + ?idx"
      using debt_after_borrow [OF amounts(3,1)] kept(3) ray b amounts(4) by simp
    ultimately have "unat b \<le> unat th"
      unfolding th(2) same(2) using assms(10-12) kept(3) by (intro threshold_covers) (simp_all add: word_le_nat_alt)
    then show False using 1(3) by (simp add: word_less_nat_alt)
  qed
qed

lemma borrow_is_healthy_witness:
  "\<not> (\<exists>y. pool_auction sample_env plain_ledger ''bob'' ''ape'' 7 500 ''bob'' sample_borrowed = Inr y)"
proof -
  have C: "calculateNftCollateralData sample_env sample_market ''weth'' ''ape'' = Inr (1000000000000000000, 1000000000000000000)"
    by (simp add: calculateNftCollateralData_def sample_market_def sample_reserve_def weth_config_reads sample_env_def
        ADDRESS_0_def checked_mul_def checked_div_def checked_pow10_def fits_def)
  have nft: "configuration (po_nfts sample_market ''ape'') = ape_config"
    by (simp add: sample_market_def sample_nft_def)
  have index: "unat (borrow_index ''weth'' sample_borrowed) = RAY"
    by (simp add: borrow_index_def sample_borrowed_def borrowed_reserve_def sample_reserve_def unit_numbers)
  have "room 1 sample_market" by (simp add: room_def sample_market_def initial_book_def)
  then have "pool_auction sample_env plain_ledger ''bob'' ''ape'' 7 500 ''bob'' sample_borrowed \<noteq> Inr y" for y
    by (rule borrow_is_healthy [OF sample_market_reached plain_ledger_laws _ _ sample_borrow refl refl refl C])
      (simp_all add: nft index ape_config_reads unit_numbers, simp add: sample_env_def)
  then show ?thesis by blast
qed

section \<open>A loan whose debt was rounded away\<close>

lemma no_debt: "ln_scaledAmount (pool_loans s i) = 0 \<Longrightarrow> getLoanReserveBorrowAmount E s i = Inr d \<Longrightarrow> d = 0"
  by (simp add: getLoanReserveBorrowAmount_def pool_loans_def)

lemma quiet_loans: "quiet a s s' \<Longrightarrow> pool_loans s' = pool_loans s"
  by (simp add: quiet_def pool_loans_def)

lemma repay_needs_debt:
  assumes "repay_logic E L sender nft token n s = Inr (x, s')" "i = lb_nftToLoanIds (po_book s) nft token"
  shows "ln_scaledAmount (pool_loans s i) \<noteq> 0"
proof
  assume zero: "ln_scaledAmount (pool_loans s i) = 0"
  from assms(1) assms(2) refl refl show False
  proof (rule repay_run)
    fix s1 d m
    assume "updateState E L (ln_reserveAsset (pool_loans s i)) s = Inr ((), s1)" "getLoanReserveBorrowAmount E s1 i = Inr d"
      and v: "validateRepay (po_reserves s1 (ln_reserveAsset (pool_loans s i)))
        (po_nfts s1 (ln_nftAsset (pool_loans s i))) (pool_loans s i) n d = Inr ()"
    then have "d = 0" using zero quiet_loans [OF updateState_effect(1)] no_debt by metis
    then show False using v unfolding validateRepay_def by (auto elim!: bind_revertE simp: require_Inr)
  qed
qed

lemma first_bid_needs_debt:
  assumes "auction_logic E L sender nft token price user s = Inr (x, s')" "i = lb_nftToLoanIds (po_book s) nft token"
    and "ln_state (pool_loans s i) = LS_Active"
  shows "ln_scaledAmount (pool_loans s i) \<noteq> 0"
proof
  assume zero: "ln_scaledAmount (pool_loans s i) = 0"
  from assms(1,2) refl assms(3) show False
  proof (rule first_bid_run)
    fix s1 d th p
    assume "updateState E L (ln_reserveAsset (pool_loans s i)) s = Inr ((), s1)" and less: "th < d"
      and "calculateLoanLiquidatePrice E s1 i (ln_reserveAsset (pool_loans s i)) (ln_nftAsset (pool_loans s i)) = Inr (d, th, p)"
    then have "getLoanReserveBorrowAmount E s1 i = Inr d" "pool_loans s1 = pool_loans s"
      unfolding calculateLoanLiquidatePrice_def Let_def using quiet_loans [OF updateState_effect(1)]
      by (auto elim!: bind_revertE)
    then have "d = 0" using zero no_debt by metis
    then show False using less by simp
  qed
qed

lemma frozen_not_borrowed:
  assumes "borrow_logic E L sender asset n nft token user s = Inr (u, s')" "i = lb_nftToLoanIds (po_book s) nft token"
    and "i \<noteq> 0" "fst (snd (getReserveFlags (rd_configuration (po_reserves s (ln_reserveAsset (pool_loans s i))))))"
  shows False
  using assms(1)
proof (rule borrow_run)
  fix s1 j
  assume up: "updateState E L asset s = Inr ((), s1)" and valid: "validateBorrow E L s1 user asset n nft j = Inr ()"
    and j: "j = lb_nftToLoanIds (po_book s1) nft token"
  note q = updateState_effect(1) [OF up]
  have "j = i" using j assms(2) q by (simp add: quiet_def)
  then have asset: "ln_reserveAsset (pool_loans s i) = asset"
    using validateBorrow_checks(3) [OF valid] assms(3) quiet_loans [OF q] by simp
  have "rd_configuration (po_reserves s1 asset) = rd_configuration (po_reserves s asset)"
    using q by (auto simp: quiet_def same_setup_def)
  then have "fst (snd (getReserveFlags (rd_configuration (po_reserves s1 asset))))" using assms(4) asset by simp
  then show False using valid unfolding validateBorrow_def Let_def
    by (auto elim!: bind_revertE simp: require_Inr split: prod.splits)
qed

lemma only_in_auction:
  assumes "i = lb_nftToLoanIds (po_book s) nft token" "ln_state (pool_loans s i) = LS_Active"
  shows "redeem_logic E L sender nft token n fine s \<noteq> Inr r" "liquidate_logic E L sender nft token n s \<noteq> Inr r"
proof (safe)
  assume "redeem_logic E L sender nft token n fine s = Inr r"
  then have "redeem_logic E L sender nft token n fine s = Inr (fst r, snd r)" by simp
  then show False using assms(1) refl refl
    by (rule redeem_run) (use assms(2) in \<open>auto dest: validateRedeem_checks(2)\<close>)
next
  assume "liquidate_logic E L sender nft token n s = Inr r"
  then have "liquidate_logic E L sender nft token n s = Inr (fst r, snd r)" by simp
  then show False using assms(1) refl refl
    by (rule liquidate_run) (use assms(2) in \<open>auto dest: validateLiquidate_checks(2)\<close>)
qed

text \<open>C33: An active loan whose scaled amount was rounded to nothing keeps its NFT: whoever asks, with
  whatever amounts, it can be neither repaid nor bid for, redeemed or liquidated, and while its
  reserve is frozen it cannot be borrowed on either, the only way to give it a debt to repay.\<close>

theorem debtless_loan_stuck:
  assumes "i = lb_nftToLoanIds (po_book s) nft token" and "i \<noteq> 0"
    and "ln_state (pool_loans s i) = LS_Active" and "ln_scaledAmount (pool_loans s i) = 0"
  shows "pool_repay E L payer nft token n s \<noteq> Inr v \<and> pool_auction E L bidder nft token price winner s \<noteq> Inr w \<and>
    pool_redeem E L payer nft token n fine s \<noteq> Inr x \<and> pool_liquidate E L payer nft token n s \<noteq> Inr y \<and>
    (fst (snd (getReserveFlags (rd_configuration (po_reserves s (ln_reserveAsset (pool_loans s i)))))) \<longrightarrow>
     pool_borrow E L payer asset n nft token user s \<noteq> Inr z)"
proof (intro conjI impI notI)
  assume "pool_repay E L payer nft token n s = Inr v"
  then have "repay_logic E L payer nft token n s = Inr (fst v, snd v)"
    unfolding pool_repay_def prod.collapse by (rule unpaused)
  then show False using repay_needs_debt assms(1,4) by blast
next
  assume "pool_auction E L bidder nft token price winner s = Inr w"
  then have "auction_logic E L bidder nft token price winner s = Inr (fst w, snd w)"
    unfolding pool_auction_def prod.collapse by (rule unpaused)
  then show False using first_bid_needs_debt assms(1,3,4) by blast
next
  assume "pool_redeem E L payer nft token n fine s = Inr x"
  then show False unfolding pool_redeem_def using only_in_auction(1) [OF assms(1,3)] unpaused by blast
next
  assume "pool_liquidate E L payer nft token n s = Inr y"
  then show False unfolding pool_liquidate_def using only_in_auction(2) [OF assms(1,3)] unpaused by blast
next
  assume frozen: "fst (snd (getReserveFlags (rd_configuration (po_reserves s (ln_reserveAsset (pool_loans s i))))))"
  assume "pool_borrow E L payer asset n nft token user s = Inr z"
  then have "borrow_logic E L payer asset n nft token user s = Inr (fst z, snd z)"
    unfolding pool_borrow_def prod.collapse by (rule unpaused)
  then show False using frozen_not_borrowed assms(1,2) frozen by blast
qed

text \<open>How such a loan comes to be: of a debt of 100, which grew to 101 with the index at 1.005, all but
  one is repaid.  That part, divided by the index, is rounded up to the whole scaled amount.\<close>

definition dust_env :: env where
  "dust_env = sample_env\<lparr>e_now := 1703725000\<rparr>"

definition dust_reserve :: reserve_data where
  "dust_reserve = borrowed_reserve\<lparr>rd_liquidityIndex := 1000499734125617548198883815,
     rd_variableBorrowIndex := 1005009845191251812356412500, rd_lastUpdateTimestamp := 1703725000\<rparr>"

lemma dust_interest:
  "calculateLinearInterest 1703725000 4230769231000000000000000 1700000000 = Inr 1000499734125617548198883815"
  "calculateCompoundedInterest 1703725000 42307692307692307692307692 1700000000 = Inr 1005009845191251812356412500"
  by (simp_all add: calculateLinearInterest_def calculateCompoundedInterest_def checked_sub_def checked_mul_def checked_div_def
      checked_add_def SECONDS_PER_YEAR_def RAY256_def ray.mul_spec unit_numbers mul_round_def)

definition dust_loan :: loan_data where
  "dust_loan = ape_loan\<lparr>ln_scaledAmount := 0\<rparr>"

definition dust_book :: loan_book where
  "dust_book = borrowed_book\<lparr>lb_loans := (\<lambda>_. no_loan)(1 := dust_loan)\<rparr>"

definition idle_reserve :: reserve_data where
  "idle_reserve = dust_reserve\<lparr>rd_currentLiquidityRate := 0, rd_currentVariableBorrowRate := 30000000000000000000000000\<rparr>"

definition sample_dust :: "ledger pool" where
  "sample_dust = sample_borrowed\<lparr>po_reserves := (\<lambda>_. no_reserve)(''weth'' := idle_reserve),
     po_debt := (\<lambda>_. (\<lambda>_. 0, 0)), po_book := dust_book\<lparr>lb_calls := lb_calls borrowed_book @
       [Erc20SafeTransferFrom ''weth'' ''alice'' ''bWETH'' 100]\<rparr>\<rparr>"

definition dust_updated :: "ledger pool" where
  "dust_updated = sample_borrowed\<lparr>po_reserves := (\<lambda>_. no_reserve)(''weth'' := dust_reserve)\<rparr>"

lemma dust_update: "updateState dust_env plain_ledger ''weth'' sample_borrowed = Inr ((), dust_updated)"
proof -
  have one: "rayMul x 1000000000000000000000000000 = Inr x" if "unat x < 2 ^ 128" for x
    using that ray.mul_round_one [of "unat x"] by (simp add: ray.mul_Inr unit_numbers)
  have "updateIndexes 1703725000 100 1000000000000000000000000000 1000000000000000000000000000 1700000000 borrowed_reserve
      = Inr (1000499734125617548198883815, 1005009845191251812356412500, dust_reserve)"
    by (simp add: updateIndexes_def dust_reserve_def borrowed_reserve_def sample_reserve_def dust_interest one UINT128_MAX_def)
  then show ?thesis unfolding updateState_def mintToTreasury_def set_reserve_def
    by (simp add: sample_borrowed_def sample_market_def dust_env_def sample_env_def weth_config_reads plain_ledger_def
        borrowed_reserve_def sample_reserve_def dust_updated_def dust_reserve_def)
qed

lemma dust_amounts: "rayMul 100 1005009845191251812356412500 = Inr 101" "rayDiv 100 1005009845191251812356412500 = Inr 100"
  by (simp_all add: ray.mul_spec ray.div_spec unit_numbers mul_round_def div_round_def)

lemma dust_repayment:
  "pool_repay dust_env plain_ledger ''alice'' ''ape'' 7 100 sample_borrowed = Inr ((100, False), sample_dust)"
proof -
  let ?s1 = "dust_updated\<lparr>po_book := dust_book\<rparr>" and ?s2 = "dust_updated\<lparr>po_book := dust_book, po_debt := (\<lambda>_. (\<lambda>_. 0, 0))\<rparr>"
  let ?s3 = "sample_dust\<lparr>po_book := dust_book\<rparr>"
  have reads: "lb_nftToLoanIds borrowed_book ''ape'' 7 = 1" "lb_loans borrowed_book 1 = ape_loan"
    "po_book sample_borrowed = borrowed_book" "\<not> po_paused sample_borrowed" "po_reserves dust_updated ''weth'' = dust_reserve"
    "po_nfts dust_updated ''ape'' = sample_nft" "po_book dust_updated = borrowed_book"
    "po_debt dust_updated = (\<lambda>_. (\<lambda>_. 0, 0))(''weth'' := ((\<lambda>_. 0)(''alice'' := 100), 100))"
    by (simp_all add: dust_updated_def sample_borrowed_def borrowed_book_def sample_market_def sample_start_def initial_pool_def)
  have loan: "ln_reserveAsset ape_loan = ''weth''" "ln_nftAsset ape_loan = ''ape''" "ln_state ape_loan = LS_Active"
    "ln_borrower ape_loan = ''alice''" "ln_scaledAmount ape_loan = 100" by (simp_all add: ape_loan_def)
  have reserve: "rd_variableBorrowIndex dust_reserve = 1005009845191251812356412500" "rd_bTokenAddress dust_reserve = ''bWETH''"
    "rd_lastUpdateTimestamp dust_reserve = 1703725000" "rd_configuration dust_reserve = weth_config"
    "rd_interestRateAddress dust_reserve = ''rate''"
    by (simp_all add: dust_reserve_def borrowed_reserve_def sample_reserve_def)
  have env: "e_now dust_env = 1703725000" "e_pool dust_env = ''pool''" "e_ok dust_env = (\<lambda>_ _. True)"
    "e_reenter dust_env = (\<lambda>_ _ t. t)" "e_erc20_balance dust_env = (\<lambda>_ _ _. 1000)"
    by (simp_all add: dust_env_def sample_env_def)
  have debt: "getLoanReserveBorrowAmount dust_env dust_updated 1 = Inr 101"
    by (simp add: getLoanReserveBorrowAmount_def getNormalizedDebt_def Let_def reads loan reserve env dust_amounts)
  have valid: "validateRepay dust_reserve sample_nft ape_loan 100 101 = Inr ()"
    by (simp add: validateRepay_def validate_active_def reserve loan sample_nft_def weth_config_reads ape_config_reads ADDRESS_0_def)
  have upd: "updateLoan dust_env ''pool'' 1 0 100 1005009845191251812356412500 borrowed_book = Inr ((), dust_book)"
    by (simp add: updateLoan_def onlyLendPool_def set_loan_def env dust_amounts borrowed_book_def dust_book_def dust_loan_def loan)
  have burn: "DebtToken_burn plain_ledger ''weth'' ''alice'' 100 1005009845191251812356412500 ?s1 = Inr ((), ?s2)"
    by (simp add: DebtToken_burn_def set_debt_def dust_amounts reads plain_ledger_def plain_burn_def checked_sub_def set_back)
  have rates: "updateInterestRates dust_env plain_ledger ''weth'' 100 0 ?s2 = Inr ((), ?s3)"
  proof -
    have "rayMul 0 1005009845191251812356412500 = Inr 0" by (simp add: ray.mul_spec unit_numbers mul_round_def)
    moreover have "po_rates dust_updated = (\<lambda>_. sample_rates)"
      by (simp add: dust_updated_def sample_borrowed_def sample_market_def sample_start_def initial_pool_def)
    ultimately show ?thesis unfolding updateInterestRates_def set_reserve_def
      by (simp add: reads reserve env plain_ledger_def weth_config_reads over_rates UINT128_MAX_def sample_dust_def
          dust_updated_def idle_reserve_def)
  qed
  have pay: "pool_ext dust_env (Erc20SafeTransferFrom ''weth'' ''alice'' ''bWETH'' 100) ?s3 = Inr ((), sample_dust)"
    by (simp add: pool_ext_def on_book_def tx_zoom_def ext_def env sample_dust_def dust_book_def)
  show ?thesis
    unfolding pool_repay_def running [OF reads(4)] repay_logic_def on_book_def tx_zoom_def Let_def
    by (simp add: reads loan dust_update debt reserve valid env upd burn rates pay)
qed

text \<open>Then the reserve is frozen.\<close>

definition frozen_config :: uint256 where
  "frozen_config = put_field 57 1 weth_config 1"

definition sample_stuck :: "ledger pool" where
  "sample_stuck = sample_dust\<lparr>po_reserves := (po_reserves sample_dust)
     (''weth'' := (po_reserves sample_dust ''weth'')\<lparr>rd_configuration := frozen_config\<rparr>)\<rparr>"

lemma sample_stuck_reached: "pool_reach ''pool'' plain_ledger sample_stuck"
proof -
  have w: "world ''pool'' dust_env ''alice''" by (simp add: world_def dust_env_def sample_env_def)
  have "setReserveConfiguration dust_env ''configurator'' ''weth'' frozen_config sample_dust = Inr ((), sample_stuck)"
    by (simp add: setReserveConfiguration_def configure_reserve_def dust_env_def sample_env_def sample_stuck_def)
  then show ?thesis
    by (intro pool_reach.step [OF pool_reach.step [OF sample_borrowed_reached pool_step.repay [OF w dust_repayment]]
      pool_step.set_reserve_config])
qed

lemma debtless_loan_stuck_witness:
  "pool_reach ''pool'' plain_ledger sample_stuck \<and>
   \<not> (\<exists>E u n v. pool_repay E plain_ledger u ''ape'' 7 n sample_stuck = Inr v) \<and>
   \<not> (\<exists>E u a n w. pool_borrow E plain_ledger u a n ''ape'' 7 u sample_stuck = Inr w)"
proof -
  have l: "pool_loans sample_stuck 1 = dust_loan" "lb_nftToLoanIds (po_book sample_stuck) ''ape'' 7 = 1"
    "po_reserves sample_stuck ''weth'' = idle_reserve\<lparr>rd_configuration := frozen_config\<rparr>"
    by (simp_all add: pool_loans_def sample_stuck_def sample_dust_def dust_book_def borrowed_book_def)
  have d: "ln_state dust_loan = LS_Active" "ln_scaledAmount dust_loan = 0" "ln_reserveAsset dust_loan = ''weth''"
    by (simp_all add: dust_loan_def ape_loan_def)
  have f: "fst (snd (getReserveFlags frozen_config))"
    by (simp add: frozen_config_def reserve_getter_fields field_put_same)
  have "pool_repay E plain_ledger u ''ape'' 7 n sample_stuck \<noteq> Inr v \<and>
      pool_borrow E plain_ledger u a n ''ape'' 7 u sample_stuck \<noteq> Inr w" for E u n v a w
    using debtless_loan_stuck [of 1 sample_stuck "''ape''" 7 E plain_ledger u n v _ _ _ _ _ _ _ a u w] l d f by simp
  then show ?thesis using sample_stuck_reached by blast
qed
end
