(* ===== verification/Spec2Isabelle.thy ===== *)
theory Spec2Isabelle
  imports HelperProperties TaskProperties SafetyProperties MockProperties OperatorProperties
    NftConfiguration ClientProperties ClientWallet PageViews BorrowMachine ConnectDialog Listeners
    NavMenu ThemeJs TestNode BuildScripts PoolProperties LoanSafety
begin

text \<open>
  Lender: an NFT-backed lending protocol (the BendDAO contracts), its TypeScript deployment and
  operation tools, and its browser client.  This development models the TypeScript tools and the
  client, which decide what is deployed, with which configuration, in which order, and what a
  user's wallet is asked to sign; and the core of the contracts
  at the receiving end: the pool with its loan book, its reserves and its arithmetic.

  \<^bold>\<open>How the program is put together.\<close>  A Hardhat task (\<^verbatim>\<open>tasks/\<close>) first runs \<^verbatim>\<open>set-DRE\<close>,
  which makes the runtime available to the helpers (\<^verbatim>\<open>helpers/\<close>).  It loads the market
  configuration (\<^verbatim>\<open>markets/bend/\<close>), reads addresses from the JSON file of the network
  (\<^verbatim>\<open>deployments/deployed-contracts-<network>.json\<close>), deploys contracts with the generated
  factories, saves them in that file, verifies them at Etherscan if asked to, and sends
  transactions.  The migrations run the tasks in order.  The client (\<^verbatim>\<open>frontend/js/\<close>, published
  a second time, byte for byte, as \<^verbatim>\<open>docs/js/\<close>) encodes calls of the pool by hand and asks the
  user's wallet to send them.

  \<^bold>\<open>The model of the tools.\<close>  A script is a function from a \<open>world\<close> to an outcome and a world
  (theory \<open>Effects\<close>).  The world holds the JSON database, as a map, the chain, of any type, the
  trace of deployments, transactions and verification requests, and whether the runtime is set.
  The outcome is a value, a throw or a process exit; what was done before a throw stays.  What is
  not in the repository is a field of \<open>net\<close>, the record that every script takes: the node, the
  generated contract classes, the functions of \<^verbatim>\<open>ethers\<close> and \<^verbatim>\<open>bignumber.js\<close>, the Etherscan plugin,
  the process environment.  \<open>Calculus\<close> holds the two ways of reasoning: \<open>keeps R m\<close>, every run
  of \<open>m\<close>, however it ends, relates the world before to the world after by \<open>R\<close>; \<open>runs m w Q\<close>,
  \<open>m\<close> returns from \<open>w\<close> with \<open>Q\<close>.  The locales \<open>seq_rel\<close>, \<open>run_rel\<close> and \<open>effect_rel\<close> are the
  interface between the effects and the scripts: they ask \<open>R\<close> to be reflexive and transitive and to
  hold over the primitive effects, and every component proves inside them that its scripts keep
  \<open>R\<close>.  They are interpreted on \<open>history_grows\<close>, \<open>key_kept k\<close>, \<open>untouched\<close> and \<open>trace_adds P\<close>.

  \<^bold>\<open>The theories, in the order of the code.\<close>
  \<^item> \<open>Prelude\<close>: what the scripts use of JavaScript (truth of strings, objects as association lists
    in insertion order, decimal printing, case, searching).
  \<^item> \<open>Types\<close> (\<^verbatim>\<open>helpers/types.ts\<close>, \<^verbatim>\<open>helpers/constants.ts\<close>), \<open>MarketConfig\<close>
    (\<^verbatim>\<open>markets/bend/*.ts\<close>): the data, entry by entry.
  \<^item> \<open>MiscUtils\<close> (\<^verbatim>\<open>helpers/misc-utils.ts\<close>), \<open>Etherscan\<close>
    (\<^verbatim>\<open>helpers/etherscan-verification.ts\<close>), \<open>ContractsHelpers\<close>
    (\<^verbatim>\<open>helpers/contracts-helpers.ts\<close>), \<open>Getters\<close> (\<^verbatim>\<open>helpers/contracts-getters.ts\<close>),
    \<open>Configuration\<close> (\<^verbatim>\<open>helpers/configuration.ts\<close>), \<open>Deployments\<close>
    (\<^verbatim>\<open>helpers/contracts-deployments.ts\<close>), \<open>OraclesHelpers\<close>
    (\<^verbatim>\<open>helpers/oracles-helpers.ts\<close>), \<open>InitHelpers\<close> (\<^verbatim>\<open>helpers/init-helpers.ts\<close>): one definition
    per function.  \<open>ContractsHelpers\<close> has the locale \<open>keyed_store\<close>, the contract of a store with
    keys, interpreted on the JSON database and on JavaScript objects.
  \<^item> \<open>FullTasks\<close> (\<^verbatim>\<open>tasks/full\<close>, \<^verbatim>\<open>tasks/deployments\<close>), \<open>DevTasks\<close> (\<^verbatim>\<open>tasks/dev\<close>),
    \<open>VerifyTasks\<close> (\<^verbatim>\<open>tasks/verifications\<close>), \<open>AdminTasks\<close> (\<^verbatim>\<open>tasks/misc\<close>,
    \<^verbatim>\<open>tasks/helpers\<close>), \<open>OperatorTasks\<close> (\<^verbatim>\<open>tasks/misc/{custom,liquidate,recycle,print-*}\<close>),
    \<open>Migrations\<close> (\<^verbatim>\<open>tasks/migrations\<close>): one definition per task.
  \<^item> \<open>NetworkSettings\<close> (\<^verbatim>\<open>hardhat.config.ts\<close>, \<^verbatim>\<open>helper-hardhat-config.ts\<close>,
    \<^verbatim>\<open>test-wallets.js\<close>): the networks, their accounts and the fork, as functions of the
    environment.  \<open>TestNode\<close>: the helpers that drive a test node (snapshots, time travel,
    impersonation), over their own state, which keeps what was asked of the node.
    \<open>BuildScripts\<close> (\<^verbatim>\<open>scripts/*.js\<close>): the copying of interfaces, over a file system.
  \<^item> \<open>NftConfiguration\<close> (\<^verbatim>\<open>contracts/libraries/configuration/NftConfiguration.sol\<close> and
    \<^verbatim>\<open>executeBatchConfigNft\<close> of \<^verbatim>\<open>ConfiguratorLogic.sol\<close>), \<open>ReserveConfiguration\<close> (the same for
    reserves): 256-bit words with the masks of the contract.
  \<^item> \<open>JsNumber\<close>: the numbers of JavaScript the client computes with, as rationals rounded to the
    nearest double, reading and printing them, and words of hexadecimal digits; the error of rounding
    is bounded, so amounts with six decimals below a billion are exact.
  \<^item> \<open>Browser\<close>: the state of a page (the module variables of \<^verbatim>\<open>wallet.js\<close>, the storages, the
    requests made) and what it is given (a wallet, the node, a clock).  Every answer comes with the
    events of the wallet that arrived before the page went on, and the handlers run on them, so what
    is proved of a page holds under every interleaving with them.  The locales \<open>page_rel\<close> and
    \<open>client_rel\<close> extend \<open>seq_rel\<close> by the requests; they are interpreted on \<open>sends_only P\<close>,
    \<open>quiet\<close>, \<open>lawful\<close>, \<open>requests_only P\<close> and \<open>stays_linked\<close>.
  \<^item> \<open>ClientConfig\<close> (\<^verbatim>\<open>config.js\<close>), \<open>WalletJs\<close> and \<open>WalletConnect\<close> (\<^verbatim>\<open>wallet.js\<close>), \<open>PoolJs\<close>
    (\<^verbatim>\<open>pool.js\<close>), \<open>VaultJs\<close> (\<^verbatim>\<open>vault.js\<close>), \<open>VedustJs\<close> (\<^verbatim>\<open>vedust.js\<close>), \<open>AppJs\<close>
    (\<^verbatim>\<open>app.js\<close>), all of \<^verbatim>\<open>frontend/js\<close>: one definition per function or handler.
    \<open>WalletConnect\<close> is a step relation over the attempts to connect, one rule per await.
  \<^item> \<open>ClientLemmas\<close>: what the pages do to the requests.  Its locale \<open>sender_rel\<close> is the interface
    between \<open>sendTx\<close> and the pages that send with it.  \<open>ClientExamples\<close>: a concrete browser, on
    which the witnesses run.  \<open>ClientProperties\<close>: transactions, calldata, waiting.
    \<open>ClientStorage\<close>: the vault, the tracked positions, the wheel.  \<open>ClientWallet\<close>: the connection.
  \<^item> \<open>Listeners\<close>: on which provider the handlers of the wallet's events are registered
    (\<^verbatim>\<open>bindProviderListeners\<close>), which justifies how \<open>Browser\<close> delivers events.
  \<^item> \<open>BorrowPage\<close>: the page of \<^verbatim>\<open>app.js\<close> as a machine, whose events are what the user does and
    the answers to the handlers that wait, in any order; \<open>BorrowMachine\<close>: its invariant, and the
    races it has.  \<open>ConnectDialog\<close>: the connect dialog over the attempts of \<open>WalletConnect\<close>, a step
    relation on both.  \<open>PageViews\<close>: the list of loans, the statistics, the buttons.
  \<^item> \<open>NavMenu\<close> (\<^verbatim>\<open>nav-dropdown.js\<close>) and \<open>ThemeJs\<close> (\<^verbatim>\<open>theme.js\<close>): the menu, whose document is
    shown to be a function of its open key, and the colour theme.

  \<^bold>\<open>The pool contracts\<close> (\<^verbatim>\<open>contracts/\<close>, which the tools deploy and the client calls).  A function that
  changes the storage is a transaction (theory \<open>Solidity\<close>): it returns a value and the new state, or
  reverts with the reason of the code and then there is no new state.  Arithmetic on \<^verbatim>\<open>uint256\<close> is
  checked, as Solidity 0.8 does; the lemmas read it as arithmetic on natural numbers.
  \<^item> \<open>PoolMath\<close> (\<^verbatim>\<open>libraries/math\<close>): ray, wad and percentage arithmetic, interest.  The locale
    \<open>rounding\<close> states once what rounding half up by a unit does; it is interpreted for the three units.
  \<^item> \<open>InterestRates\<close> (\<^verbatim>\<open>protocol/InterestRate.sol\<close>): the curve of rates, and the strategies of the
    market file on it.
  \<^item> \<open>LoanBook\<close>, \<open>LoanBookInvariant\<close> (\<^verbatim>\<open>protocol/LendPoolLoan.sol\<close>): the loans and their registers as a
    state machine.
  \<^item> \<open>Reserves\<close>, \<open>ReserveIndexes\<close> (\<^verbatim>\<open>libraries/logic/ReserveLogic.sol\<close>, \<^verbatim>\<open>protocol/BToken.sol\<close>,
    \<^verbatim>\<open>protocol/DebtToken.sol\<close>): indexes, rates and the tokens that keep amounts divided by an index.
  \<^item> \<open>LoanMath\<close> (\<^verbatim>\<open>GenericLogic.sol\<close>, \<^verbatim>\<open>ValidationLogic.sol\<close>), \<open>Pool\<close> (\<^verbatim>\<open>LendPool.sol\<close>,
    \<^verbatim>\<open>SupplyLogic.sol\<close>, \<^verbatim>\<open>BorrowLogic.sol\<close>, \<^verbatim>\<open>LiquidateLogic.sol\<close>): what a loan is worth, the checks,
    and each operation of the pool as one transaction.
  \<^item> \<open>PoolInvariant\<close>: every transaction as a step of \<open>pool_step\<close>, and the invariant \<open>pool_inv\<close> over all
    histories (\<open>pool_reach\<close>): consistent registers, sound indexes, debt tokens equal to the living
    loans, bids covered.  Each operation is cut by its \<open>_run\<close> lemma into the update of the reserve, the
    change of one loan with its debt tokens (\<open>changes\<close>) and the settlement (\<open>settles\<close>).
  \<^item> \<open>SamplePool\<close>: a ledger that keeps \<open>erc20_laws\<close> and a market on it, with a loan, a bid and a
    liquidation, evaluated; \<open>PoolProperties\<close>: the properties of the pool, with their witnesses there.
    \<open>LoanSafety\<close>: a loan right after a borrow, with the rounding of every operation accounted for, and
    a loan whose debt a repayment rounds away.
  What the contracts call outside the repository is a parameter: \<open>env\<close> has the clock, the addresses,
  the answers of tokens and oracles, and whether a call succeeds, given the calls made before;
  \<open>erc20\<close> is OpenZeppelin's ledger, with its documented effect of minting and burning as the hypothesis
  \<open>erc20_laws\<close>.  Every call to another contract is kept in \<open>lb_calls\<close>, in order.  The guard
  against reentrance of the pool, and the restriction of the loan book to the pool and the
  configurator, leave a called contract one register of the model to change, the interceptors
  (\<open>e_reenter\<close>), and the delegated allowances, whose change during a call is not modelled.

  \<^bold>\<open>What is proved.\<close>  \<open>Liveness\<close> shows that the migration gets through on every node that cooperates
  (\<open>cooperative\<close>: deployments and transactions are accepted, the classes have the methods called,
  addresses read are usable) and every network with a complete configuration; \<open>SampleNode\<close> has such
  nodes, on which the witnesses run.  \<open>HelperProperties\<close>: the utilities against their
  specifications, the database as a map, linking, configuration values per network, verification
  with its retries.  \<open>TaskProperties\<close>: what filling a pool sends, exactly.  \<open>SafetyProperties\<close>: what a
  task may not do, on any node.  \<open>MockProperties\<close>: the development market.  \<open>OperatorProperties\<close>: the
  operator's tasks.  \<open>NftConfiguration\<close>: the batch of the market file is accepted and read back.
  This theory: the migrations.  A property whose conclusion is a run that cannot succeed records a
  defect of the code.

  \<^bold>\<open>Decisions.\<close>  A deployment or transaction that is accepted is mined: \<^verbatim>\<open>waitForTx\<close> is part of it.
  A JavaScript number is \<open>Num\<close>, a \<^verbatim>\<open>BigNumber\<close> is \<open>Big\<close>; a numeric parameter of a task is a natural
  number.  The paths of \<^verbatim>\<open>lodash\<close> are keys, which no contract name breaks (none has a dot or a
  bracket).  Linked bytecode is deployed under the key \<^verbatim>\<open>bytecode\<close>.  \<^verbatim>\<open>provider.getSigner()\<close>
  without an address is the first account.  Hardhat refuses a task whose declared parameter is
  missing.  Reads made only to print their answer are in the model, printing is not.  Retries are
  bounded by the code (four attempts), loops run over lists, so every script is total and no fuel
  is needed for the tools.

  \<^bold>\<open>Not modelled.\<close>  Of the contracts: oracles, gateways, the address provider, the
  configurator beyond its batches, upgrades, incentives, views that only combine modelled
  functions, events.  The scripts and the client meet the contracts through the node, so the
  two halves of the development meet in the configuration only: the strategies and reserve factors
  of the market file.  \<^verbatim>\<open>convertToCurrencyUnits\<close> and signing of typed data, which are single calls of a
  library and used by tests only.  Writing the temporary file for Etherscan is not an event, its
  removal is.  Generating accounts.  The options of the compiler, the linter and the
  plugins.  Of the client: the
  creation of elements and texts that do not depend on the state, the QR code, the animation
  (\<^verbatim>\<open>grove.js\<close>); numbers printed in messages; other tabs that write the same storage.  An answer
  and the rest of its handler are one step of \<open>BorrowPage\<close>, since only microtasks lie between.  \<^verbatim>\<open>-0\<close> is \<^verbatim>\<open>0\<close>, numbers in stored JSON are whole.  The attempts of \<open>WalletConnect\<close>
  are modelled apart from the other pages, without injected wallets.  The one loop of the client that
  only the clock bounds, \<^verbatim>\<open>waitUntilVaultOwns\<close>, has fuel; 46 rounds are enough for its limit of 90
  seconds.
\<close>

section \<open>The full migration\<close>





section \<open>The history\<close>


end
